(* ===== verification/Prelude.thy ===== *)
theory Prelude
  imports Main "HOL-Library.List_Lexorder" "HOL-Library.Char_ord" "HOL-Library.Multiset"
    "HOL-Library.Product_Lexorder" "HOL-Library.Option_ord"
begin

text \<open>
  Shared vocabulary of the development.

  \<^item> Time: a \<open>time.Time\<close> is an instant in nanoseconds and a \<open>time.Duration\<close> a
    signed number of nanoseconds, both as \<open>int\<close>. Every duration the modelled code
    builds is far below \<open>2 ^ 63\<close> (the component theories prove the bounds), so the
    64-bit wrap-around is not reached.
  \<^item> SQL: a table is the list of its rows. \<open>update_where\<close> is
    \<open>UPDATE ... SET ... WHERE ...\<close>, \<open>rows_affected\<close> is the driver's
    \<open>RowsAffected\<close>, \<open>exec_update\<close> adds the two ways in which the statement can
    fail: it never ran, or it ran and the reply was lost. NULL is \<open>None\<close>.
  \<^item> Ordering: \<open>first_by\<close> is \<open>ORDER BY key LIMIT 1\<close> and \<open>top_by\<close> is
    \<open>ORDER BY key LIMIT n\<close>.
\<close>

named_theorems table_simps
named_theorems graph_simps

type_synonym time = int
type_synonym duration = int

abbreviation (input) second :: duration where "second \<equiv> 1000000000"
abbreviation (input) minute :: duration where "minute \<equiv> 60000000000"
abbreviation (input) hour :: duration where "hour \<equiv> 3600000000000"


section \<open>NULL-aware helpers\<close>

text \<open>\<open>COALESCE(a, b)\<close>, \<open>NULLIF(s, '')\<close> and \<open>x IS NULL OR p x\<close>.\<close>

definition coalesce :: "'a option \<Rightarrow> 'a option \<Rightarrow> 'a option" where
  "coalesce a b = (case a of None \<Rightarrow> b | Some x \<Rightarrow> Some x)"

definition nullif_empty :: "string \<Rightarrow> string option" where
  "nullif_empty s = (if s = '''' then None else Some s)"

definition null_or :: "('a \<Rightarrow> bool) \<Rightarrow> 'a option \<Rightarrow> bool" where
  "null_or p x = (case x of None \<Rightarrow> True | Some v \<Rightarrow> p v)"

definition some_and :: "('a \<Rightarrow> bool) \<Rightarrow> 'a option \<Rightarrow> bool" where
  "some_and p x = (case x of None \<Rightarrow> False | Some v \<Rightarrow> p v)"

lemma coalesce_simps [simp]:
  "coalesce None b = b" "coalesce (Some x) b = Some x"
  by (simp_all add: coalesce_def)

lemma null_or_simps [simp]:
  "null_or p None" "null_or p (Some v) = p v"
  by (simp_all add: null_or_def)

lemma some_and_simps [simp]:
  "\<not> some_and p None" "some_and p (Some v) = p v"
  by (simp_all add: some_and_def)

lemma nullif_empty_simps [simp]:
  "nullif_empty '''' = None" "s \<noteq> '''' \<Longrightarrow> nullif_empty s = Some s"
  by (simp_all add: nullif_empty_def)


section \<open>Tables\<close>

definition update_where :: "('r \<Rightarrow> bool) \<Rightarrow> ('r \<Rightarrow> 'r) \<Rightarrow> 'r list \<Rightarrow> 'r list" where
  "update_where p f t = map (\<lambda>r. if p r then f r else r) t"

definition rows_affected :: "('r \<Rightarrow> bool) \<Rightarrow> 'r list \<Rightarrow> nat" where
  "rows_affected p t = length (filter p t)"

text \<open>
  What the database driver can answer to a statement: it ran, it failed and nothing was
  written, or it was committed and the answer was lost.
\<close>

datatype db_fault = DbOk | DbFailed | DbLost

definition exec_update ::
  "db_fault \<Rightarrow> ('r \<Rightarrow> bool) \<Rightarrow> ('r \<Rightarrow> 'r) \<Rightarrow> 'r list \<Rightarrow> nat option \<times> 'r list" where
  "exec_update flt p f t =
     (case flt of
        DbOk \<Rightarrow> (Some (rows_affected p t), update_where p f t)
      | DbFailed \<Rightarrow> (None, t)
      | DbLost \<Rightarrow> (None, update_where p f t))"

lemma update_where_Nil [simp]: "update_where p f [] = []"
  by (simp add: update_where_def)

lemma update_where_Cons [simp]:
  "update_where p f (r # t) = (if p r then f r else r) # update_where p f t"
  by (simp add: update_where_def)

lemma length_update_where [simp]: "length (update_where p f t) = length t"
  by (simp add: update_where_def)

lemma set_update_where:
  "set (update_where p f t) = (\<lambda>r. if p r then f r else r) ` set t"
  by (simp add: update_where_def)

lemma rows_affected_simps [simp]:
  "rows_affected p [] = 0"
  "rows_affected p (r # t) = (if p r then Suc (rows_affected p t) else rows_affected p t)"
  by (simp_all add: rows_affected_def)

lemma rows_affected_0_iff: "rows_affected p t = 0 \<longleftrightarrow> (\<forall>r \<in> set t. \<not> p r)"
  by (induction t) auto

lemma update_where_none: "\<forall>r \<in> set t. \<not> p r \<Longrightarrow> update_where p f t = t"
  by (induction t) auto

lemma rows_affected_0_unchanged: "rows_affected p t = 0 \<Longrightarrow> update_where p f t = t"
  by (simp add: rows_affected_0_iff update_where_none)

lemma map_update_where:
  assumes "\<And>r. r \<in> set t \<Longrightarrow> p r \<Longrightarrow> g (f r) = g r"
  shows "map g (update_where p f t) = map g t"
  using assms by (induction t) auto

lemma update_where_cong:
  "(\<And>r. r \<in> set t \<Longrightarrow> p r \<longleftrightarrow> q r) \<Longrightarrow> update_where p f t = update_where q f t"
  by (simp add: update_where_def)

lemma exec_update_simps [simp]:
  "exec_update DbOk p f t = (Some (rows_affected p t), update_where p f t)"
  "exec_update DbFailed p f t = (None, t)"
  "exec_update DbLost p f t = (None, update_where p f t)"
  by (simp_all add: exec_update_def)

lemma exec_update_table:
  "snd (exec_update flt p f t) = (if flt = DbFailed then t else update_where p f t)"
  by (cases flt) auto

text \<open>Look-up by a key column; tables with a primary key have distinct keys.\<close>

definition find_row :: "('r \<Rightarrow> 'k) \<Rightarrow> 'k \<Rightarrow> 'r list \<Rightarrow> 'r option" where
  "find_row key k t = List.find (\<lambda>r. key r = k) t"

lemma find_row_simps [simp]:
  "find_row key k [] = None"
  "find_row key k (r # t) = (if key r = k then Some r else find_row key k t)"
  by (simp_all add: find_row_def)

lemma find_row_SomeD: "find_row key k t = Some r \<Longrightarrow> r \<in> set t \<and> key r = k"
  by (induction t) (auto split: if_splits)

lemma find_row_None_iff: "find_row key k t = None \<longleftrightarrow> k \<notin> key ` set t"
  by (induction t) auto

lemma find_row_unique:
  "distinct (map key t) \<Longrightarrow> r \<in> set t \<Longrightarrow> find_row key (key r) t = Some r"
  by (induction t) auto

lemma find_row_update_where:
  assumes "\<And>r. p r \<Longrightarrow> key (f r) = key r"
  shows "find_row key k (update_where p f t) =
    map_option (\<lambda>r. if p r then f r else r) (find_row key k t)"
  using assms by (induction t) auto

lemma find_row_update_other:
  assumes "\<And>r. p r \<Longrightarrow> key (f r) = key r" and "\<And>r. key r = k \<Longrightarrow> \<not> p r"
  shows "find_row key k (update_where p f t) = find_row key k t"
  using assms by (induction t) auto

lemma find_row_append: "find_row key k t = Some r \<Longrightarrow> find_row key k (t @ xs) = Some r"
  by (induction t) (auto split: if_splits)

text \<open>An update of one row by its key.\<close>

lemma find_row_key_update:
  assumes "distinct (map key t)" and "c \<in> set t" and "\<And>r. key (f r) = key r"
  shows "find_row key i (update_where (\<lambda>r. key r = key c) f t) =
    (if i = key c then Some (f c) else find_row key i t)"
proof (cases "i = key c")
  case True
  then show ?thesis
    using find_row_unique [OF assms(1,2)] by (simp add: find_row_update_where assms(3))
next
  case False
  have "find_row key i (update_where (\<lambda>r. key r = key c) f t) = find_row key i t"
    by (rule find_row_update_other) (use False assms(3) in auto)
  with False show ?thesis by simp
qed


section \<open>ORDER BY and LIMIT\<close>

definition top_by :: "('r \<Rightarrow> 'k::linorder) \<Rightarrow> nat \<Rightarrow> 'r list \<Rightarrow> 'r list" where
  "top_by key n t = take n (sort_key key t)"

definition first_by :: "('r \<Rightarrow> 'k::linorder) \<Rightarrow> 'r list \<Rightarrow> 'r option" where
  "first_by key t = (case sort_key key t of [] \<Rightarrow> None | r # _ \<Rightarrow> Some r)"

lemma first_by_None_iff [simp]: "first_by key t = None \<longleftrightarrow> t = []"
proof -
  have "sort_key key t = [] \<longleftrightarrow> t = []"
    by (metis length_0_conv length_sort)
  then show ?thesis by (auto simp: first_by_def split: list.splits)
qed

lemma first_by_Nil [simp]: "first_by key [] = None"
  by simp

lemma first_by_SomeD:
  assumes "first_by key t = Some r"
  shows "r \<in> set t" and "\<forall>s \<in> set t. key r \<le> key s"
proof -
  from assms obtain rs where rs: "sort_key key t = r # rs"
    by (auto simp: first_by_def split: list.splits)
  then have "set t = insert r (set rs)"
    by (metis list.simps(15) set_sort)
  moreover have "sorted (map key (r # rs))"
    using sorted_sort_key[of key t] rs by simp
  ultimately show "r \<in> set t" and "\<forall>s \<in> set t. key r \<le> key s" by auto
qed

lemma first_by_filterD:
  assumes "first_by key (filter p t) = Some c"
  shows "c \<in> set t" and "p c" and "\<And>q. q \<in> set t \<Longrightarrow> p q \<Longrightarrow> key c \<le> key q"
  using first_by_SomeD [OF assms] by auto

lemma set_top_by_subset: "set (top_by key n t) \<subseteq> set t"
  by (metis set_sort set_take_subset top_by_def)

lemma length_top_by: "length (top_by key n t) = min n (length t)"
  by (simp add: top_by_def min.commute)

lemma distinct_map_top_by:
  assumes "distinct (map g t)"
  shows "distinct (map g (top_by key n t))"
proof -
  have "mset (map g (sort_key key t)) = mset (map g t)" by simp
  then have "distinct (map g (sort_key key t))"
    using assms by (metis mset_eq_imp_distinct_iff)
  then show ?thesis by (simp add: top_by_def take_map [symmetric])
qed

text \<open>The ids of a batch are the ids of rows that pass its filter.\<close>

lemma top_by_id_filter:
  assumes "distinct (map idf t)" and "r \<in> set t"
    and "idf r \<in> set (map idf (top_by key n (filter p t)))"
  shows "p r"
proof -
  obtain c where "c \<in> set (top_by key n (filter p t))" and same: "idf c = idf r"
    using assms(3) by auto
  then have "c \<in> set t" and "p c" using set_top_by_subset by fastforce+
  moreover from this have "c = r" using assms(1,2) same by (auto simp: distinct_map inj_on_def)
  ultimately show ?thesis by simp
qed

text \<open>The table of a statement whose answer is computed from the number of rows.\<close>

lemma snd_case_exec: "snd (case x of (n, t') \<Rightarrow> (g n t', t')) = snd x"
  by (simp add: case_prod_beta)

text \<open>A row before a listed one in the order is listed too.\<close>

lemma top_by_downward:
  assumes r: "r \<in> set (top_by key n t)" and r': "r' \<in> set t" and less: "key r' < key r"
  shows "r' \<in> set (top_by key n t)"
proof (rule ccontr)
  let ?s = "sort_key key t"
  assume "r' \<notin> set (top_by key n t)"
  moreover have "set ?s = set (take n ?s) \<union> set (drop n ?s)" by (metis append_take_drop_id set_append)
  ultimately have "r' \<in> set (drop n ?s)" using r' by (auto simp: top_by_def)
  moreover have "sorted (map key (take n ?s @ drop n ?s))" by simp
  ultimately have "key r \<le> key r'"
    using r by (simp only: map_append sorted_append top_by_def) auto
  with less show False by simp
qed

text \<open>
  Sorting a list with distinct keys does not depend on the order in which its elements
  were produced. Go iterates over a map in random order and then sorts; this is why the
  result is deterministic.
\<close>

lemma map_sort_key: "map key (sort_key key xs) = sort (map key xs)"
  by (rule properties_for_sort [symmetric]) simp_all

lemma sort_key_order_independent:
  fixes key :: "'a \<Rightarrow> 'b::linorder"
  assumes same: "mset xs = mset ys" and inj: "inj_on key (set xs)"
  shows "sort_key key xs = sort_key key ys"
proof -
  from same have "mset (map key xs) = mset (map key ys)" by simp
  then have "map key (sort_key key xs) = map key (sort_key key ys)"
    by (metis map_sort_key mset_sort properties_for_sort sorted_sort)
  moreover have "set xs = set ys" using same by (rule mset_eq_setD)
  ultimately show ?thesis using inj
    by (metis Un_absorb inj_on_map_eq_map set_sort)
qed


section \<open>Results\<close>

text \<open>
  A Go \<open>(value, error)\<close> result is a sum with the error on the left, and \<open>rbind\<close> is
  the \<open>if err != nil { return err }\<close> that follows a call.
\<close>

fun rbind :: "'e + 'a \<Rightarrow> ('a \<Rightarrow> 'e + 'b) \<Rightarrow> 'e + 'b" where
  "rbind (Inl e) k = Inl e"
| "rbind (Inr v) k = k v"

lemma rbind_Inr_iff: "rbind m k = Inr w \<longleftrightarrow> (\<exists>v. m = Inr v \<and> k v = Inr w)"
  by (cases m) auto

lemma rbind_Inl_iff: "rbind m k = Inl e \<longleftrightarrow> m = Inl e \<or> (\<exists>v. m = Inr v \<and> k v = Inl e)"
  by (cases m) auto

fun is_ok :: "'e + 'a \<Rightarrow> bool" where
  "is_ok (Inl _) = False"
| "is_ok (Inr _) = True"

lemma is_ok_iff: "is_ok x \<longleftrightarrow> (\<exists>v. x = Inr v)"
  by (cases x) auto

end
