(* ===== verification/StateGraph.thy ===== *)
theory StateGraph
  imports Prelude
begin

text \<open>
  The interface the four delivery and livestream state machines share. The Go code writes
  each machine as a table (state to legal successors), a terminal predicate and a
  happy-path successor. A machine is here the function \<open>succs\<close> that lists the legal
  successors of a state. \<open>legal_run\<close> is a sequence of guarded transitions and
  \<open>follow\<close> iterates the happy-path successor.

  The locale \<open>state_graph\<close> is what a machine promises: absorbing states have no exit and
  the happy path only takes legal edges, each one step closer to the goal. The locale
  \<open>forward_graph\<close> adds a phase that every edge increases, which bounds the length of
  every run. The machines' own theories interpret the locales.
\<close>

fun legal_run :: "('s \<Rightarrow> 's list) \<Rightarrow> 's \<Rightarrow> 's list \<Rightarrow> bool" where
  "legal_run succs s [] = True"
| "legal_run succs s (t # ts) = (t \<in> set (succs s) \<and> legal_run succs t ts)"

definition run_end :: "'s \<Rightarrow> 's list \<Rightarrow> 's" where
  "run_end s ts = last (s # ts)"

fun follow :: "('s \<Rightarrow> 's option) \<Rightarrow> nat \<Rightarrow> 's \<Rightarrow> 's option" where
  "follow nxt 0 s = Some s"
| "follow nxt (Suc n) s = (case nxt s of None \<Rightarrow> None | Some t \<Rightarrow> follow nxt n t)"

lemma run_end_simps [simp]:
  "run_end s [] = s" "run_end s (t # ts) = run_end t ts"
  by (simp_all add: run_end_def)

lemma run_end_append: "run_end s (ts @ us) = run_end (run_end s ts) us"
  by (induction ts arbitrary: s) auto

lemma legal_run_append:
  "legal_run succs s (ts @ us) \<longleftrightarrow> legal_run succs s ts \<and> legal_run succs (run_end s ts) us"
  by (induction ts arbitrary: s) auto

text \<open>An edge invariant holds at the end of every run that starts inside it.\<close>

lemma legal_run_invariant:
  assumes step: "\<And>s t. I s \<Longrightarrow> t \<in> set (succs s) \<Longrightarrow> I t"
  shows "I s \<Longrightarrow> legal_run succs s ts \<Longrightarrow> I (run_end s ts)"
  using step by (induction ts arbitrary: s) auto

locale state_graph =
  fixes succs :: "'s \<Rightarrow> 's list"
    and absorbing :: "'s \<Rightarrow> bool"
    and happy :: "'s \<Rightarrow> 's option"
    and goal :: 's
    and dist :: "'s \<Rightarrow> nat"
  assumes absorbing_no_exit: "absorbing s \<Longrightarrow> succs s = []"
    and happy_legal: "happy s = Some t \<Longrightarrow> t \<in> set (succs s)"
    and happy_closer: "happy s = Some t \<Longrightarrow> dist s = Suc (dist t)"
    and happy_chain: "happy s = Some t \<Longrightarrow> happy t = None \<Longrightarrow> t = goal"
    and dist_goal: "dist goal = 0"
begin

lemma absorbing_run: "absorbing s \<Longrightarrow> legal_run succs s ts \<Longrightarrow> ts = []"
  by (cases ts) (auto simp: absorbing_no_exit)

text \<open>An absorbing state can only be the last one of a run.\<close>

lemma absorbing_only_last:
  assumes "legal_run succs s (ts @ us)" and "absorbing (run_end s ts)"
  shows "us = []"
  using assms absorbing_run by (auto simp: legal_run_append)

text \<open>From every state of the happy path, its iteration ends in the goal.\<close>

lemma happy_reaches_goal: "happy s \<noteq> None \<Longrightarrow> follow happy (dist s) s = Some goal"
proof (induction "dist s" arbitrary: s)
  case 0
  then show ?case using happy_closer by fastforce
next
  case (Suc n)
  from Suc.prems obtain t where t: "happy s = Some t" by blast
  with Suc.hyps(2) have n: "n = dist t" using happy_closer by simp
  have "follow happy n t = Some goal"
  proof (cases "happy t")
    case None
    with t have "t = goal" by (rule happy_chain)
    with n show ?thesis by (simp add: dist_goal)
  next
    case Some
    with n show ?thesis using Suc.hyps(1) by simp
  qed
  with t Suc.hyps(2) [symmetric] show ?case by simp
qed

text \<open>The iteration is a legal run, so the goal is reachable by guarded transitions.\<close>

lemma follow_is_run:
  "follow happy n s = Some t \<Longrightarrow> \<exists>ts. length ts = n \<and> legal_run succs s ts \<and> run_end s ts = t"
proof (induction n arbitrary: s)
  case 0
  then show ?case by simp
next
  case (Suc n)
  then obtain u where u: "happy s = Some u" and "follow happy n u = Some t"
    by (auto split: option.splits)
  with Suc.IH obtain ts where "length ts = n" "legal_run succs u ts" "run_end u ts = t"
    by blast
  then show ?case using happy_legal [OF u] by (intro exI [of _ "u # ts"]) simp
qed

lemma goal_reachable:
  assumes "happy s \<noteq> None"
  shows "\<exists>ts. length ts = dist s \<and> legal_run succs s ts \<and> run_end s ts = goal"
  using assms happy_reaches_goal follow_is_run by blast

end

locale forward_graph = state_graph +
  fixes phase :: "'a \<Rightarrow> nat" and top :: nat
  assumes phase_up: "t \<in> set (succs s) \<Longrightarrow> phase s < phase t"
    and phase_top: "phase s \<le> top"
begin

lemma run_phase: "legal_run succs s ts \<Longrightarrow> phase s + length ts \<le> phase (run_end s ts)"
proof (induction ts arbitrary: s)
  case Nil
  then show ?case by simp
next
  case (Cons t ts)
  then have "phase s < phase t" and "phase t + length ts \<le> phase (run_end t ts)"
    using phase_up by auto
  then show ?case by simp
qed

lemma run_bounded: "legal_run succs s ts \<Longrightarrow> length ts \<le> top - phase s"
  using run_phase [of s ts] phase_top [of "run_end s ts"] by simp

lemma run_no_return: "legal_run succs s ts \<Longrightarrow> ts \<noteq> [] \<Longrightarrow> run_end s ts \<noteq> s"
  using run_phase [of s ts] by (cases ts) auto

end

end
