(* ===== verification/PostStatus.thy ===== *)
theory PostStatus
  imports Prelude
begin

text \<open>
  Posts and their fan-out targets: the status enum and the struct fields of
  \<open>internal/models/post.go\<close>, and the aggregate resolver of
  \<open>internal/models/post_aggregate_status.go\<close>, which derives the status of a parent post
  from the statuses of its targets.

  A Go \<open>PostStatus\<close> is any string: the eleven declared values, the legacy alias
  \<open>"dead_letter"\<close> and every other string have a constructor each. The row type of
  \<open>post_targets\<close> extends the Go struct with the lease columns that only the SQL
  statements see. A nullable text column that every statement reads through
  \<open>COALESCE(c, '')\<close> is a string.
\<close>

section \<open>The status enum\<close>

datatype PostStatus =
    PSDraft | PSQueued | PSPublishing | PSPublished | PSPartiallyPublished | PSFailed
  | PSWaitingProvider | PSRetrying | PSDLQ | PSBlockedAuth | PSDriveRequiredFailed
  | PSDeadLetterAlias | PSOther string

fun ps_IsValid :: "PostStatus \<Rightarrow> bool" where
  "ps_IsValid PSDeadLetterAlias = False"
| "ps_IsValid (PSOther _) = False"
| "ps_IsValid _ = True"

definition ps_IsTerminal :: "PostStatus \<Rightarrow> bool" where
  "ps_IsTerminal s \<longleftrightarrow>
     s = PSPublished \<or> s = PSPartiallyPublished \<or> s = PSFailed \<or> s = PSDLQ \<or>
     s = PSDeadLetterAlias \<or> s = PSBlockedAuth \<or> s = PSDriveRequiredFailed"

fun ps_String :: "PostStatus \<Rightarrow> string" where
  "ps_String PSDraft = ''draft''"
| "ps_String PSQueued = ''queued''"
| "ps_String PSPublishing = ''publishing''"
| "ps_String PSPublished = ''published''"
| "ps_String PSPartiallyPublished = ''partially_published''"
| "ps_String PSFailed = ''failed''"
| "ps_String PSWaitingProvider = ''waiting_provider''"
| "ps_String PSRetrying = ''retrying''"
| "ps_String PSDLQ = ''dlq''"
| "ps_String PSBlockedAuth = ''blocked_auth''"
| "ps_String PSDriveRequiredFailed = ''drive_required_failed''"
| "ps_String PSDeadLetterAlias = ''dead_letter''"
| "ps_String (PSOther s) = s"

definition named_statuses :: "PostStatus list" where
  "named_statuses =
     [PSDraft, PSQueued, PSPublishing, PSPublished, PSPartiallyPublished, PSFailed,
      PSWaitingProvider, PSRetrying, PSDLQ, PSBlockedAuth, PSDriveRequiredFailed,
      PSDeadLetterAlias]"

text \<open>\<open>Scan\<close> of a string column; SQL NULL becomes the empty string.\<close>

definition ps_Scan :: "string option \<Rightarrow> PostStatus" where
  "ps_Scan src =
     (case src of
        None \<Rightarrow> PSOther ''''
      | Some v \<Rightarrow> (case List.find (\<lambda>s. ps_String s = v) named_statuses of
                    Some s \<Rightarrow> s
                  | None \<Rightarrow> PSOther v))"

text \<open>A value is canonical when \<open>PSOther\<close> does not repeat a named string.\<close>

fun ps_canonical :: "PostStatus \<Rightarrow> bool" where
  "ps_canonical (PSOther v) = (\<forall>s \<in> set named_statuses. ps_String s \<noteq> v)"
| "ps_canonical _ = True"


section \<open>Posts and targets\<close>

text \<open>\<open>p_ingest_after\<close> is \<open>None\<close> for the zero time, which no stored row has.\<close>

record Post =
  p_id :: int
  p_workspace_id :: int
  p_title :: string
  p_caption :: string
  p_media_url :: string
  p_media_asset_id :: "string option"
  p_storage_object_key :: "string option"
  p_bucket :: "string option"
  p_privacy_level :: string
  p_default_privacy_level :: string
  p_upload_job_id :: "int option"
  p_ingest_after :: "time option"
  p_publish_at :: "time option"
  p_status :: PostStatus
  p_metadata :: string
  p_created_at :: time

definition blank_post :: Post where
  "blank_post =
     \<lparr>p_id = 0, p_workspace_id = 0, p_title = '''', p_caption = '''', p_media_url = '''',
      p_media_asset_id = None, p_storage_object_key = None, p_bucket = None,
      p_privacy_level = '''', p_default_privacy_level = '''', p_upload_job_id = None,
      p_ingest_after = None, p_publish_at = None, p_status = PSDraft, p_metadata = '''',
      p_created_at = 0\<rparr>"

lemma blank_post_simps [simp]:
  "p_id blank_post = 0" "p_status blank_post = PSDraft" "p_upload_job_id blank_post = None"
  "p_publish_at blank_post = None" "p_metadata blank_post = ''''"
  "p_privacy_level blank_post = ''''" "p_default_privacy_level blank_post = ''''"
  by (simp_all add: blank_post_def)

record PostTarget =
  pt_id :: int
  pt_post_id :: int
  pt_account :: int
  pt_status :: PostStatus
  pt_attempt_count :: nat
  pt_next_attempt_at :: "time option"
  pt_reconcile_attempt :: nat
  pt_next_reconcile_at :: "time option"
  pt_reconcile_owner :: "string option"
  pt_reconcile_until :: "time option"
  pt_reconcile_heartbeat :: "time option"
  pt_platform_post_id :: string
  pt_error_message :: string
  pt_published_at :: "time option"
  pt_completed_at :: "time option"
  pt_provider_state :: string
  pt_container_id :: string
  pt_last_error_code :: string
  pt_provider_idempotency_key :: "string option"
  pt_version :: nat

record target_row = PostTarget +
  lease_owner_id :: "string option"
  leased_until :: "time option"
  heartbeat_at :: "time option"
  next_retry_at :: "time option"
  rate_limit_reset_at :: "time option"
  upload_offset :: int


section \<open>The aggregate resolver\<close>

record agg_flags =
  allPublished :: bool
  anyPublished :: bool
  anyPartial :: bool
  anyPublishing :: bool
  anyRetrying :: bool
  anyWaitingProvider :: bool
  anyQueued :: bool
  allDraft :: bool
  allFailed :: bool

definition agg_init :: agg_flags where
  "agg_init =
     \<lparr>allPublished = True, anyPublished = False, anyPartial = False, anyPublishing = False,
      anyRetrying = False, anyWaitingProvider = False, anyQueued = False,
      allDraft = True, allFailed = True\<rparr>"

text \<open>One iteration of the \<open>switch target.Status\<close>; \<open>None\<close> is its default branch.\<close>

fun agg_step :: "PostStatus \<Rightarrow> agg_flags \<Rightarrow> agg_flags option" where
  "agg_step PSPublished f =
     Some (f\<lparr>anyPublished := True, allDraft := False, allFailed := False\<rparr>)"
| "agg_step PSPartiallyPublished f =
     Some (f\<lparr>anyPartial := True, allPublished := False, allDraft := False, allFailed := False\<rparr>)"
| "agg_step PSPublishing f =
     Some (f\<lparr>anyPublishing := True, allPublished := False, allDraft := False, allFailed := False\<rparr>)"
| "agg_step PSRetrying f =
     Some (f\<lparr>anyRetrying := True, allPublished := False, allDraft := False, allFailed := False\<rparr>)"
| "agg_step PSWaitingProvider f =
     Some (f\<lparr>anyWaitingProvider := True, allPublished := False, allDraft := False,
            allFailed := False\<rparr>)"
| "agg_step PSQueued f =
     Some (f\<lparr>anyQueued := True, allPublished := False, allDraft := False, allFailed := False\<rparr>)"
| "agg_step PSDraft f = Some (f\<lparr>allPublished := False, allFailed := False\<rparr>)"
| "agg_step PSFailed f = Some (f\<lparr>allPublished := False, allDraft := False\<rparr>)"
| "agg_step PSDLQ f = Some (f\<lparr>allPublished := False, allDraft := False\<rparr>)"
| "agg_step PSDeadLetterAlias f = Some (f\<lparr>allPublished := False, allDraft := False\<rparr>)"
| "agg_step PSBlockedAuth f = Some (f\<lparr>allPublished := False, allDraft := False\<rparr>)"
| "agg_step PSDriveRequiredFailed f = Some (f\<lparr>allPublished := False, allDraft := False\<rparr>)"
| "agg_step (PSOther _) f = None"

fun agg_loop :: "'x PostTarget_scheme list \<Rightarrow> agg_flags \<Rightarrow> PostStatus + agg_flags" where
  "agg_loop [] f = Inr f"
| "agg_loop (t # ts) f =
     (case agg_step (pt_status t) f of
        None \<Rightarrow> Inl (pt_status t)
      | Some f' \<Rightarrow> agg_loop ts f')"

definition agg_decide :: "agg_flags \<Rightarrow> PostStatus" where
  "agg_decide f =
     (if allPublished f then PSPublished
      else if anyPublishing f then PSPublishing
      else if anyRetrying f then PSRetrying
      else if anyWaitingProvider f then PSWaitingProvider
      else if anyQueued f then PSQueued
      else if anyPublished f \<or> anyPartial f then PSPartiallyPublished
      else if allFailed f then PSFailed
      else if allDraft f then PSDraft
      else PSFailed)"

text \<open>\<open>Inl s\<close> is the error "unknown target status s".\<close>

definition Resolve :: "'x PostTarget_scheme list \<Rightarrow> PostStatus + PostStatus" where
  "Resolve targets =
     (if targets = [] then Inr PSDraft
      else case agg_loop targets agg_init of
             Inl s \<Rightarrow> Inl s
           | Inr f \<Rightarrow> Inr (agg_decide f))"

text \<open>
  The contract of the resolver: a function of the set of the target statuses only.
\<close>

definition failure_statuses :: "PostStatus set" where
  "failure_statuses = {PSFailed, PSDLQ, PSDeadLetterAlias, PSBlockedAuth, PSDriveRequiredFailed}"

definition aggregate_of :: "PostStatus set \<Rightarrow> PostStatus" where
  "aggregate_of S =
     (if S \<subseteq> {PSDraft} then PSDraft
      else if S = {PSPublished} then PSPublished
      else if PSPublishing \<in> S then PSPublishing
      else if PSRetrying \<in> S then PSRetrying
      else if PSWaitingProvider \<in> S then PSWaitingProvider
      else if PSQueued \<in> S then PSQueued
      else if PSPublished \<in> S \<or> PSPartiallyPublished \<in> S then PSPartiallyPublished
      else PSFailed)"

fun ps_known :: "PostStatus \<Rightarrow> bool" where
  "ps_known (PSOther _) = False"
| "ps_known _ = True"


section \<open>Lemmas\<close>

lemma ps_IsTerminal_simps [simp]:
  "\<not> ps_IsTerminal PSDraft" "\<not> ps_IsTerminal PSQueued" "\<not> ps_IsTerminal PSPublishing"
  "ps_IsTerminal PSPublished" "ps_IsTerminal PSPartiallyPublished" "ps_IsTerminal PSFailed"
  "\<not> ps_IsTerminal PSWaitingProvider" "\<not> ps_IsTerminal PSRetrying" "ps_IsTerminal PSDLQ"
  "ps_IsTerminal PSBlockedAuth" "ps_IsTerminal PSDriveRequiredFailed"
  "ps_IsTerminal PSDeadLetterAlias" "\<not> ps_IsTerminal (PSOther v)"
  by (simp_all add: ps_IsTerminal_def)

lemma agg_step_None_iff: "agg_step s f = None \<longleftrightarrow> \<not> ps_known s"
  by (cases s) auto

text \<open>The flags after the loop, as statements about the set of statuses seen.\<close>

definition agg_flags_of :: "agg_flags \<Rightarrow> PostStatus set \<Rightarrow> agg_flags" where
  "agg_flags_of f S =
     \<lparr>allPublished = (allPublished f \<and> S \<subseteq> {PSPublished}),
      anyPublished = (anyPublished f \<or> PSPublished \<in> S),
      anyPartial = (anyPartial f \<or> PSPartiallyPublished \<in> S),
      anyPublishing = (anyPublishing f \<or> PSPublishing \<in> S),
      anyRetrying = (anyRetrying f \<or> PSRetrying \<in> S),
      anyWaitingProvider = (anyWaitingProvider f \<or> PSWaitingProvider \<in> S),
      anyQueued = (anyQueued f \<or> PSQueued \<in> S),
      allDraft = (allDraft f \<and> S \<subseteq> {PSDraft}),
      allFailed = (allFailed f \<and> S \<subseteq> failure_statuses)\<rparr>"

lemma agg_step_flags:
  assumes "agg_step s f = Some g"
  shows "agg_flags_of g S = agg_flags_of f (insert s S)"
  using assms by (cases s) (auto simp: agg_flags_of_def failure_statuses_def)

lemma agg_loop_flags:
  assumes "\<forall>t \<in> set ts. ps_known (pt_status t)"
  shows "agg_loop ts f = Inr (agg_flags_of f (pt_status ` set ts))"
  using assms
proof (induction ts arbitrary: f)
  case Nil
  then show ?case by (simp add: agg_flags_of_def)
next
  case (Cons t ts)
  then obtain g where g: "agg_step (pt_status t) f = Some g"
    using agg_step_None_iff by fastforce
  with Cons show ?case by (simp add: agg_step_flags [OF g])
qed

lemma agg_loop_unknown:
  assumes "List.find (\<lambda>t. \<not> ps_known (pt_status t)) ts = Some t"
  shows "agg_loop ts f = Inl (pt_status t)"
  using assms
proof (induction ts arbitrary: f)
  case (Cons u us)
  then show ?case using agg_step_None_iff [of "pt_status u" f]
    by (cases "agg_step (pt_status u) f") (auto split: if_splits)
qed simp

lemma aggregate_of_flags:
  assumes "S \<noteq> {}" and "\<forall>s \<in> S. ps_known s"
  shows "agg_decide (agg_flags_of agg_init S) = aggregate_of S"
proof -
  have pub: "S \<subseteq> {PSPublished} \<longleftrightarrow> S = {PSPublished}" using assms(1) by auto
  have draft: "S \<subseteq> {PSDraft} \<Longrightarrow> S = {PSDraft}" using assms(1) by auto
  show ?thesis
    by (auto simp: agg_decide_def agg_flags_of_def agg_init_def aggregate_of_def pub
        failure_statuses_def dest: draft)
qed

lemma ps_known_set:
  "ps_known s \<Longrightarrow> s \<in> {PSDraft, PSQueued, PSPublishing, PSPublished, PSPartiallyPublished,
     PSWaitingProvider, PSRetrying} \<union> failure_statuses"
  by (cases s) (auto simp: failure_statuses_def)


lemma Resolve_known:
  assumes "\<forall>t \<in> set ts. ps_known (pt_status t)"
  shows "Resolve ts = Inr (aggregate_of (pt_status ` set ts))"
  using assms
  by (cases "ts = []")
    (simp_all add: Resolve_def agg_loop_flags aggregate_of_flags aggregate_of_def [of "{}"])

lemma Resolve_InrD:
  assumes "Resolve ts = Inr s"
  shows "\<forall>t \<in> set ts. ps_known (pt_status t)" and "s = aggregate_of (pt_status ` set ts)"
proof -
  have "List.find (\<lambda>t. \<not> ps_known (pt_status t)) ts = None"
  proof (rule ccontr)
    assume "List.find (\<lambda>t. \<not> ps_known (pt_status t)) ts \<noteq> None"
    then obtain t where "List.find (\<lambda>t. \<not> ps_known (pt_status t)) ts = Some t" by blast
    moreover from this have "ts \<noteq> []" by auto
    ultimately show False using assms by (simp add: Resolve_def agg_loop_unknown)
  qed
  then show "\<forall>t \<in> set ts. ps_known (pt_status t)" by (auto simp: find_None_iff)
  with assms Resolve_known [of ts] show "s = aggregate_of (pt_status ` set ts)" by simp
qed

lemma Resolve_statuses:
  "map pt_status ts = map pt_status us \<Longrightarrow> Resolve ts = Resolve us"
proof -
  assume eq: "map pt_status ts = map pt_status us"
  have "agg_loop ts f = agg_loop us f" for f
    using eq by (induction ts us arbitrary: f rule: list_induct2') (auto split: option.splits)
  moreover have "ts = [] \<longleftrightarrow> us = []" using eq by auto
  ultimately show ?thesis by (simp add: Resolve_def)
qed

lemma aggregate_of_terminal:
  assumes "\<forall>s \<in> S. ps_known s"
  shows "ps_IsTerminal (aggregate_of S) \<longleftrightarrow>
    (\<exists>s \<in> S. ps_IsTerminal s) \<and> (\<forall>s \<in> S. ps_IsTerminal s \<or> s = PSDraft)"
proof -
  have active: "ps_known s \<Longrightarrow> \<not> ps_IsTerminal s \<Longrightarrow> s \<noteq> PSDraft \<Longrightarrow>
      s \<in> {PSPublishing, PSRetrying, PSWaitingProvider, PSQueued}" for s
    by (cases s) auto
  show ?thesis
  proof (cases "S \<inter> {PSPublishing, PSRetrying, PSWaitingProvider, PSQueued} = {}")
    case True
    then have all: "\<forall>s \<in> S. ps_IsTerminal s \<or> s = PSDraft" using active assms by blast
    moreover have "S \<subseteq> {PSDraft} \<longleftrightarrow> \<not> (\<exists>s \<in> S. ps_IsTerminal s)" using all by auto
    ultimately show ?thesis using True by (auto simp: aggregate_of_def)
  next
    case False
    then obtain a where a: "a \<in> S" "a \<in> {PSPublishing, PSRetrying, PSWaitingProvider, PSQueued}"
      by blast
    then have "\<not> S \<subseteq> {PSDraft}" "S \<noteq> {PSPublished}" by auto
    then have "\<not> ps_IsTerminal (aggregate_of S)" using False by (auto simp: aggregate_of_def)
    moreover from a have "\<not> (ps_IsTerminal a \<or> a = PSDraft)" by auto
    ultimately show ?thesis using a(1) by blast
  qed
qed

text \<open>
  A resolved parent status is terminal exactly when some target is terminal and no
  target is still active: every other target is terminal or a draft.
\<close>

theorem Resolve_terminal_iff:
  assumes "Resolve ts = Inr s"
  shows "ps_IsTerminal s \<longleftrightarrow>
    (\<exists>t \<in> set ts. ps_IsTerminal (pt_status t)) \<and>
    (\<forall>t \<in> set ts. ps_IsTerminal (pt_status t) \<or> pt_status t = PSDraft)"
  using Resolve_InrD [OF assms] aggregate_of_terminal [of "pt_status ` set ts"] by simp

text \<open>The column survives the trip through the database driver.\<close>

lemma ps_Scan_Value: "ps_canonical s \<Longrightarrow> ps_Scan (Some (ps_String s)) = s"
  by (cases s) (auto simp: ps_Scan_def named_statuses_def find_None_iff split: option.splits)

theorem Resolve_terminal_iff_witness:
  "ps_IsTerminal PSPartiallyPublished \<longleftrightarrow>
    (\<exists>s \<in> {PSPublished, PSFailed}. ps_IsTerminal s) \<and>
    (\<forall>s \<in> {PSPublished, PSFailed}. ps_IsTerminal s \<or> s = PSDraft)"
proof -
  let ?t = "\<lambda>s. \<lparr>pt_id = 1, pt_post_id = 1, pt_account = 7, pt_status = s, pt_attempt_count = 0,
      pt_next_attempt_at = None, pt_reconcile_attempt = 0, pt_next_reconcile_at = None,
      pt_reconcile_owner = None, pt_reconcile_until = None, pt_reconcile_heartbeat = None,
      pt_platform_post_id = [], pt_error_message = [], pt_published_at = None,
      pt_completed_at = None, pt_provider_state = [], pt_container_id = [],
      pt_last_error_code = [], pt_provider_idempotency_key = None, pt_version = 0\<rparr> :: PostTarget"
  have "Resolve [?t PSPublished, ?t PSFailed] = Inr PSPartiallyPublished"
    by (simp add: Resolve_def agg_init_def agg_decide_def)
  from Resolve_terminal_iff [OF this] show ?thesis by simp
qed

end
