(* ===== verification/PostRepo.thy ===== *)
theory PostRepo
  imports PostStatus
begin

text \<open>
  The post repository: \<open>internal/repository/post_repo_aggregate.go\<close>,
  \<open>post_repo_retry.go\<close>, \<open>post_repo_reconcile_lease.go\<close>, the target half of
  \<open>post_repo_target.go\<close>, \<open>PublishPost\<close> and \<open>CancelPost\<close> of \<open>post_repo_post.go\<close> and
  the SQL of \<open>queries.go\<close> they run.

  A statement on \<open>post_targets\<close> is its WHERE predicate and its SET function.
  \<open>exec_targets\<close> runs it together with the triggers of the table: that of migration 105 queues the
  parent of every row whose status changed, that of migrations 107 and 108 resets the schedule of
  the reconciler. A transaction body is a function from the
  database to an error or a new database; \<open>run_tx\<close> is \<open>Begin\<close>, the deferred
  \<open>Rollback\<close> and \<open>Commit\<close>, with a fault parameter for a failing statement or commit
  and for a commit whose answer is lost. The row locks serialise the transactions of one
  post, so a concurrent execution is a sequence of the operations below. The parameter
  \<open>locked\<close> of the claims says whether another transaction holds the row
  (\<open>SKIP LOCKED\<close>).
\<close>

datatype post_err =
    ErrPostTargetNotFound | ErrPostNotFound | ErrPostTargetTransitionStale
  | ErrReconcileLeaseLost | ErrScheduleLostCAS | ErrUnknownTargetStatus PostStatus
  | ErrInvalidEnumLabel | ErrInvalidArgument | ErrDatabase

record post_db =
  posts :: "Post list"
  targets :: "target_row list"
  repair_queue :: "(int \<times> time) list"

type_synonym target_stmt = "(target_row \<Rightarrow> bool) \<times> (target_row \<Rightarrow> target_row)"


section \<open>Statements, trigger and transactions\<close>

text \<open>The labels of the Postgres type \<open>post_status\<close> (migrations 003, 012, 018, 035, 130, 132).\<close>

definition post_status_labels :: "string list" where
  "post_status_labels =
     [''draft'', ''scheduled'', ''publishing'', ''published'', ''failed'', ''waiting_provider'',
      ''queued'', ''partially_published'', ''retrying'', ''dlq'', ''drive_required_failed'',
      ''blocked_auth'']"

definition enum_label_ok :: "PostStatus \<Rightarrow> bool" where
  "enum_label_ok s \<longleftrightarrow> ps_String s \<in> set post_status_labels"

text \<open>Migration 105: a changed status queues the parent once (\<open>ON CONFLICT DO NOTHING\<close>).\<close>

definition enqueue_post_aggregate_repair ::
  "time \<Rightarrow> (int \<times> time) list \<Rightarrow> int \<Rightarrow> (int \<times> time) list" where
  "enqueue_post_aggregate_repair now q pid =
     (if pid \<in> fst ` set q then q else q @ [(pid, now)])"

definition changed_parents :: "target_stmt \<Rightarrow> target_row list \<Rightarrow> int list" where
  "changed_parents st t =
     map pt_post_id (filter (\<lambda>r. fst st r \<and> pt_status (snd st r) \<noteq> pt_status r) t)"

text \<open>
  Migrations 107 and 108: a row that enters 'publishing' starts a new life for the reconciler, due
  at once, with no attempt counted and no lease on it.
\<close>

definition reset_reconcile_schedule_on_publish_start ::
  "time \<Rightarrow> target_row \<Rightarrow> target_row \<Rightarrow> target_row" where
  "reset_reconcile_schedule_on_publish_start now old new =
     (if pt_status new = PSPublishing \<and> pt_status old \<noteq> PSPublishing
      then new\<lparr>pt_reconcile_attempt := 0, pt_next_reconcile_at := Some now, pt_reconcile_owner := None,
                pt_reconcile_until := None, pt_reconcile_heartbeat := None\<rparr>
      else new)"

definition exec_targets :: "time \<Rightarrow> target_stmt \<Rightarrow> post_db \<Rightarrow> nat \<times> post_db" where
  "exec_targets now st db =
     (rows_affected (fst st) (targets db),
      db\<lparr>targets := update_where (fst st)
           (\<lambda>r. reset_reconcile_schedule_on_publish_start now r (snd st r)) (targets db),
         repair_queue := foldl (enqueue_post_aggregate_repair now) (repair_queue db)
           (changed_parents st (targets db))\<rparr>)"

datatype tx_fault = TxOk | TxFails | TxCommitLost

definition run_tx ::
  "tx_fault \<Rightarrow> (post_db \<Rightarrow> post_err + ('a \<times> post_db)) \<Rightarrow> post_db \<Rightarrow> (post_err + 'a) \<times> post_db" where
  "run_tx flt body db =
     (case flt of
        TxFails \<Rightarrow> (Inl ErrDatabase, db)
      | TxOk \<Rightarrow> (case body db of Inl e \<Rightarrow> (Inl e, db) | Inr (a, db') \<Rightarrow> (Inr a, db'))
      | TxCommitLost \<Rightarrow>
          (case body db of Inl e \<Rightarrow> (Inl e, db) | Inr (a, db') \<Rightarrow> (Inl ErrDatabase, db')))"

text \<open>A single statement outside a transaction (\<open>r.db.Exec\<close>).\<close>

definition run_exec :: "tx_fault \<Rightarrow> time \<Rightarrow> target_stmt \<Rightarrow> post_db \<Rightarrow> (post_err + nat) \<times> post_db" where
  "run_exec flt now st db = run_tx flt (\<lambda>d. Inr (exec_targets now st d)) db"


section \<open>Reading and locking\<close>

definition children :: "int \<Rightarrow> post_db \<Rightarrow> target_row list" where
  "children pid db = sort_key pt_id (filter (\<lambda>t. pt_post_id t = pid) (targets db))"

definition postIDForTargetTx :: "int \<Rightarrow> post_db \<Rightarrow> post_err + int" where
  "postIDForTargetTx tid db =
     (case find_row pt_id tid (targets db) of
        None \<Rightarrow> Inl ErrPostTargetNotFound
      | Some t \<Rightarrow> Inr (pt_post_id t))"

definition lockTargetsForPostTx :: "int \<Rightarrow> post_db \<Rightarrow> int list" where
  "lockTargetsForPostTx pid db = map pt_id (children pid db)"

definition lockTargetTx :: "int \<Rightarrow> post_db \<Rightarrow> post_err + unit" where
  "lockTargetTx tid db =
     (if find_row pt_id tid (targets db) = None then Inl ErrPostTargetNotFound else Inr ())"

definition lockPostTx :: "int \<Rightarrow> post_db \<Rightarrow> post_err + unit" where
  "lockPostTx pid db =
     (if find_row p_id pid (posts db) = None then Inl ErrPostNotFound else Inr ())"

definition resolvePostStatusLockedTx :: "int \<Rightarrow> post_db \<Rightarrow> post_err + PostStatus" where
  "resolvePostStatusLockedTx pid db =
     (case Resolve (children pid db) of
        Inl s \<Rightarrow> Inl (ErrUnknownTargetStatus s)
      | Inr s \<Rightarrow> Inr s)"

definition qUpdatePostAggregateStatus :: "PostStatus \<Rightarrow> int \<Rightarrow> post_db \<Rightarrow> post_db" where
  "qUpdatePostAggregateStatus s pid db =
     db\<lparr>posts := update_where (\<lambda>p. p_id p = pid) (\<lambda>p. p\<lparr>p_status := s\<rparr>) (posts db)\<rparr>"

definition persistAggregatePostStatusLockedTx :: "int \<Rightarrow> post_db \<Rightarrow> post_err + (unit \<times> post_db)" where
  "persistAggregatePostStatusLockedTx pid db =
     rbind (resolvePostStatusLockedTx pid db)
       (\<lambda>s. Inr ((), qUpdatePostAggregateStatus s pid db))"


section \<open>SQL statements of the target transitions\<close>

definition qUpdateTargetStatus ::
  "PostStatus \<Rightarrow> string \<Rightarrow> string \<Rightarrow> time option \<Rightarrow> int \<Rightarrow> string \<Rightarrow> string \<Rightarrow> target_stmt" where
  "qUpdateTargetStatus s ppid msg pub tid pstate cid =
     ((\<lambda>r. pt_id r = tid \<and>
           (pt_status r = s \<or>
            pt_status r \<notin> {PSPublished, PSPartiallyPublished, PSFailed, PSDLQ})),
      (\<lambda>r. r\<lparr>pt_status := s, pt_platform_post_id := ppid, pt_error_message := msg,
             pt_published_at := pub, pt_provider_state := pstate, pt_container_id := cid\<rparr>))"

definition qUpdateTargetStatusWithLease ::
  "PostStatus \<Rightarrow> string \<Rightarrow> string \<Rightarrow> time option \<Rightarrow> int \<Rightarrow> string \<Rightarrow> string \<Rightarrow> string \<Rightarrow>
   target_stmt" where
  "qUpdateTargetStatusWithLease s ppid msg pub tid pstate cid owner =
     ((\<lambda>r. pt_id r = tid \<and> lease_owner_id r = Some owner \<and> pt_status r = PSPublishing),
      (\<lambda>r. r\<lparr>pt_status := s, pt_platform_post_id := ppid, pt_error_message := msg,
             pt_published_at := pub, pt_provider_state := pstate, pt_container_id := cid,
             lease_owner_id := (if s = PSPublishing then lease_owner_id r else None),
             leased_until := (if s = PSPublishing then leased_until r else None),
             heartbeat_at := (if s = PSPublishing then heartbeat_at r else None)\<rparr>))"

definition qUpdateTargetStatusWithReconcileLease ::
  "time \<Rightarrow> PostStatus \<Rightarrow> string \<Rightarrow> string \<Rightarrow> time option \<Rightarrow> int \<Rightarrow> string \<Rightarrow> string \<Rightarrow> string \<Rightarrow>
   string \<Rightarrow> target_stmt" where
  "qUpdateTargetStatusWithReconcileLease now s ppid msg pub tid pstate cid code owner =
     ((\<lambda>r. pt_id r = tid \<and> pt_status r = PSPublishing \<and>
           pt_reconcile_owner r = Some owner \<and> some_and (\<lambda>u. u > now) (pt_reconcile_until r)),
      (\<lambda>r. r\<lparr>pt_status := s, pt_platform_post_id := ppid, pt_error_message := msg,
             pt_published_at := pub, pt_provider_state := pstate, pt_container_id := cid,
             pt_last_error_code := code,
             pt_completed_at := (if s \<in> {PSFailed, PSDLQ, PSBlockedAuth}
                                 then coalesce (pt_completed_at r) (Some now)
                                 else pt_completed_at r),
             pt_reconcile_owner := None, pt_reconcile_until := None,
             pt_reconcile_heartbeat := None\<rparr>))"

definition qPublishPostTargetsReset :: "int \<Rightarrow> target_stmt" where
  "qPublishPostTargetsReset pid =
     ((\<lambda>r. pt_post_id r = pid), (\<lambda>r. r\<lparr>pt_status := PSQueued, pt_error_message := ''''\<rparr>))"

definition qCancelPostTargetsReset :: "int \<Rightarrow> target_stmt" where
  "qCancelPostTargetsReset pid =
     ((\<lambda>r. pt_post_id r = pid \<and>
           pt_status r \<notin> {PSPublished, PSPartiallyPublished, PSFailed, PSDLQ}),
      (\<lambda>r. r\<lparr>pt_status := PSDraft, pt_error_message := ''''\<rparr>))"

definition qCancelFutureJobsForAccount :: "int \<Rightarrow> target_stmt" where
  "qCancelFutureJobsForAccount acc =
     ((\<lambda>r. pt_account r = acc \<and>
           pt_status r \<notin> {PSPublished, PSPartiallyPublished, PSFailed, PSDLQ}),
      (\<lambda>r. r\<lparr>pt_status := PSDraft, pt_error_message := ''''\<rparr>))"

definition qRetryPostResetFailedTargets :: "int \<Rightarrow> target_stmt" where
  "qRetryPostResetFailedTargets pid =
     ((\<lambda>r. pt_post_id r = pid \<and> pt_status r = PSFailed),
      (\<lambda>r. r\<lparr>pt_status := PSQueued, pt_error_message := ''''\<rparr>))"

definition qRetryTargetResetTarget :: "int \<Rightarrow> target_stmt" where
  "qRetryTargetResetTarget tid =
     ((\<lambda>r. pt_id r = tid \<and> pt_status r = PSFailed),
      (\<lambda>r. r\<lparr>pt_status := PSQueued, pt_error_message := ''''\<rparr>))"

definition qClaimQueuedTargetUpdate :: "int \<Rightarrow> target_stmt" where
  "qClaimQueuedTargetUpdate tid = ((\<lambda>r. pt_id r = tid), (\<lambda>r. r\<lparr>pt_status := PSPublishing\<rparr>))"

definition claimable_with_lease :: "time \<Rightarrow> target_row \<Rightarrow> bool" where
  "claimable_with_lease now r \<longleftrightarrow>
     pt_status r \<in> {PSQueued, PSWaitingProvider, PSRetrying} \<and>
     null_or (\<lambda>t. t \<le> now) (pt_next_attempt_at r) \<and> null_or (\<lambda>t. t \<le> now) (next_retry_at r)"

definition qClaimQueuedTargetWithLeaseUpdate :: "time \<Rightarrow> int \<Rightarrow> string \<Rightarrow> int \<Rightarrow> target_stmt" where
  "qClaimQueuedTargetWithLeaseUpdate now tid owner secs =
     ((\<lambda>r. pt_id r = tid \<and> pt_status r \<in> {PSQueued, PSWaitingProvider, PSRetrying}),
      (\<lambda>r. r\<lparr>pt_status := PSPublishing, lease_owner_id := Some owner,
             leased_until := Some (now + secs * second), heartbeat_at := Some now\<rparr>))"

definition qUpdatePublishProgress ::
  "time \<Rightarrow> int \<Rightarrow> string \<Rightarrow> int \<Rightarrow> string \<Rightarrow> int \<Rightarrow> target_stmt" where
  "qUpdatePublishProgress now tid owner off pstate secs =
     ((\<lambda>r. pt_id r = tid \<and> lease_owner_id r = Some owner),
      (\<lambda>r. r\<lparr>upload_offset := off, pt_provider_state := pstate, heartbeat_at := Some now,
             leased_until := Some (now + secs * second)\<rparr>))"

definition qReleaseLease :: "int \<Rightarrow> string \<Rightarrow> target_stmt" where
  "qReleaseLease tid owner =
     ((\<lambda>r. pt_id r = tid \<and> lease_owner_id r = Some owner),
      (\<lambda>r. r\<lparr>lease_owner_id := None, leased_until := None, heartbeat_at := None\<rparr>))"

definition qMarkDeadLetter :: "time \<Rightarrow> string \<Rightarrow> int \<Rightarrow> string \<Rightarrow> target_stmt" where
  "qMarkDeadLetter now msg tid owner =
     ((\<lambda>r. pt_id r = tid \<and> lease_owner_id r = Some owner),
      (\<lambda>r. r\<lparr>pt_status := PSDLQ, lease_owner_id := None, leased_until := None,
             heartbeat_at := None, pt_error_message := msg, pt_last_error_code := ''DLQ'',
             pt_completed_at := Some now\<rparr>))"

definition qMarkRateLimitedRetryWithLease ::
  "time \<Rightarrow> string \<Rightarrow> int \<Rightarrow> string \<Rightarrow> target_stmt" where
  "qMarkRateLimitedRetryWithLease nxt msg tid owner =
     ((\<lambda>r. pt_id r = tid \<and> lease_owner_id r = Some owner \<and> pt_status r = PSPublishing),
      (\<lambda>r. r\<lparr>pt_status := PSQueued, pt_attempt_count := pt_attempt_count r + 1,
             pt_next_attempt_at := Some nxt, rate_limit_reset_at := Some nxt,
             pt_error_message := msg, pt_last_error_code := ''RATE_LIMITED'',
             lease_owner_id := None, leased_until := None, heartbeat_at := None\<rparr>))"

definition qMarkRetrying :: "time \<Rightarrow> string \<Rightarrow> int \<Rightarrow> string \<Rightarrow> target_stmt" where
  "qMarkRetrying nxt msg tid owner =
     ((\<lambda>r. pt_id r = tid \<and> lease_owner_id r = Some owner),
      (\<lambda>r. r\<lparr>pt_status := PSRetrying, pt_attempt_count := pt_attempt_count r + 1,
             next_retry_at := Some nxt, pt_next_attempt_at := Some nxt,
             lease_owner_id := None, leased_until := None, heartbeat_at := None,
             pt_error_message := msg\<rparr>))"

definition qMarkRateLimited :: "time \<Rightarrow> int \<Rightarrow> string \<Rightarrow> target_stmt" where
  "qMarkRateLimited nxt tid owner =
     ((\<lambda>r. pt_id r = tid \<and> lease_owner_id r = Some owner),
      (\<lambda>r. r\<lparr>pt_status := PSQueued, next_retry_at := Some nxt, pt_next_attempt_at := Some nxt,
             rate_limit_reset_at := Some nxt, lease_owner_id := None, leased_until := None,
             heartbeat_at := None, pt_last_error_code := ''RATE_LIMITED''\<rparr>))"

definition qMarkDriveRequiredFailed :: "time \<Rightarrow> string \<Rightarrow> int \<Rightarrow> target_stmt" where
  "qMarkDriveRequiredFailed now msg tid =
     ((\<lambda>r. pt_id r = tid \<and> pt_status r = PSPublished),
      (\<lambda>r. r\<lparr>pt_status := PSDriveRequiredFailed, pt_error_message := msg,
             pt_last_error_code := ''DRIVE_REQUIRED'', pt_completed_at := Some now\<rparr>))"

definition qMarkDeliveryDispatchFailed :: "int \<Rightarrow> string \<Rightarrow> target_stmt" where
  "qMarkDeliveryDispatchFailed tid code =
     ((\<lambda>r. pt_id r = tid), (\<lambda>r. r\<lparr>pt_last_error_code := code\<rparr>))"

definition lease_expired_for :: "time \<Rightarrow> string \<Rightarrow> target_row \<Rightarrow> bool" where
  "lease_expired_for now me r \<longleftrightarrow>
     some_and (\<lambda>u. u \<le> now) (leased_until r) \<and> some_and (\<lambda>o'. o' \<noteq> me) (lease_owner_id r) \<and>
     pt_status r \<in> {PSPublishing, PSQueued}"

definition qReclaimExpiredLeaseByID :: "time \<Rightarrow> int \<Rightarrow> string \<Rightarrow> target_stmt" where
  "qReclaimExpiredLeaseByID now tid me =
     ((\<lambda>r. pt_id r = tid \<and> some_and (\<lambda>o'. o' \<noteq> me) (lease_owner_id r) \<and>
           pt_status r \<in> {PSPublishing, PSQueued}),
      (\<lambda>r. r\<lparr>pt_status := PSQueued, lease_owner_id := None, leased_until := None,
             heartbeat_at := None, next_retry_at := Some now\<rparr>))"

definition qSetTargetStatus :: "PostStatus \<Rightarrow> string \<Rightarrow> int \<Rightarrow> target_stmt" where
  "qSetTargetStatus s msg tid =
     ((\<lambda>r. pt_id r = tid \<and>
           (pt_status r = s \<or>
            pt_status r \<notin> {PSPublished, PSPartiallyPublished, PSFailed, PSDLQ,
                             PSDeadLetterAlias, PSBlockedAuth})),
      (\<lambda>r. r\<lparr>pt_status := s,
             pt_error_message := (if msg = '''' then pt_error_message r else msg),
             pt_version := pt_version r + 1\<rparr>))"

section \<open>Transaction bodies\<close>

text \<open>
  The zero-rows branch that \<open>updateTargetStatusTx\<close>, \<open>resetTargetAndAggregateTx\<close> and
  \<open>setTargetStatusWithAggregate\<close> share: a terminal row means a stale transition.
\<close>

definition stale_or_missing :: "int \<Rightarrow> post_db \<Rightarrow> post_err" where
  "stale_or_missing tid db =
     (case find_row pt_id tid (targets db) of
        None \<Rightarrow> ErrPostTargetNotFound
      | Some t \<Rightarrow> (if ps_IsTerminal (pt_status t) then ErrPostTargetTransitionStale
                    else ErrPostTargetNotFound))"

definition updateTargetStatusTx ::
  "time \<Rightarrow> 'x PostTarget_scheme \<Rightarrow> post_db \<Rightarrow> post_err + (unit \<times> post_db)" where
  "updateTargetStatusTx now t db =
     rbind (postIDForTargetTx (pt_id t) db) (\<lambda>pid.
     rbind (lockTargetTx (pt_id t) db) (\<lambda>_.
     rbind (lockPostTx pid db) (\<lambda>_.
       if \<not> enum_label_ok (pt_status t) then Inl ErrInvalidEnumLabel
       else
         let (n, db') = exec_targets now
               (qUpdateTargetStatus (pt_status t) (pt_platform_post_id t) (pt_error_message t)
                  (pt_published_at t) (pt_id t) (pt_provider_state t) (pt_container_id t)) db
         in if n = 0 then Inl (stale_or_missing (pt_id t) db')
            else persistAggregatePostStatusLockedTx pid db')))"

definition claimTargetTx :: "time \<Rightarrow> int \<Rightarrow> target_stmt \<Rightarrow> post_db \<Rightarrow> post_err + (unit \<times> post_db)" where
  "claimTargetTx now tid st db =
     rbind (postIDForTargetTx tid db) (\<lambda>pid.
     rbind (lockPostTx pid db) (\<lambda>_.
       let (n, db') = exec_targets now st db
       in if n = 0 then Inl ErrPostTargetNotFound
          else persistAggregatePostStatusLockedTx pid db'))"

definition resetPostTargetsAndAggregateTx ::
  "time \<Rightarrow> int \<Rightarrow> target_stmt \<Rightarrow> post_db \<Rightarrow> post_err + (unit \<times> post_db)" where
  "resetPostTargetsAndAggregateTx now pid st db =
     (let _ = lockTargetsForPostTx pid db in
      rbind (lockPostTx pid db) (\<lambda>_.
        persistAggregatePostStatusLockedTx pid (snd (exec_targets now st db))))"

definition resetTargetAndAggregateTx ::
  "time \<Rightarrow> int \<Rightarrow> post_db \<Rightarrow> post_err + (unit \<times> post_db)" where
  "resetTargetAndAggregateTx now tid db =
     rbind (postIDForTargetTx tid db) (\<lambda>pid.
     rbind (lockTargetTx tid db) (\<lambda>_.
     rbind (lockPostTx pid db) (\<lambda>_.
       let (n, db') = exec_targets now (qRetryTargetResetTarget tid) db
       in if n = 0 then Inl (stale_or_missing tid db')
          else persistAggregatePostStatusLockedTx pid db')))"

definition mutateLeasedTargetTx ::
  "time \<Rightarrow> int \<Rightarrow> string \<Rightarrow> (int \<Rightarrow> string \<Rightarrow> target_stmt) \<Rightarrow> post_db \<Rightarrow> post_err + (unit \<times> post_db)" where
  "mutateLeasedTargetTx now tid owner query db =
     rbind (postIDForTargetTx tid db) (\<lambda>pid.
     rbind (lockTargetTx tid db) (\<lambda>_.
     rbind (lockPostTx pid db) (\<lambda>_.
       let (n, db') = exec_targets now (query tid owner) db
       in if n = 0 then Inr ((), db')
          else persistAggregatePostStatusLockedTx pid db')))"

definition markDriveRequiredFailedTx ::
  "time \<Rightarrow> int \<Rightarrow> string \<Rightarrow> post_db \<Rightarrow> post_err + (unit \<times> post_db)" where
  "markDriveRequiredFailedTx now tid msg db =
     rbind (postIDForTargetTx tid db) (\<lambda>pid.
     rbind (lockTargetTx tid db) (\<lambda>_.
     rbind (lockPostTx pid db) (\<lambda>_.
       let (n, db') = exec_targets now (qMarkDriveRequiredFailed now msg tid) db
       in if n = 0
          then Inl (if find_row pt_id tid (targets db') = None then ErrPostTargetNotFound
                    else ErrPostTargetTransitionStale)
          else persistAggregatePostStatusLockedTx pid db')))"

text \<open>
  \<open>cancelFutureJobsTx\<close> of \<open>platform_account_disconnect.go\<close>: the distinct parents of the
  rows it reset, in the order RETURNING produced them, are locked and recomputed.
\<close>

fun recompute_parents :: "int list \<Rightarrow> post_db \<Rightarrow> post_err + (unit \<times> post_db)" where
  "recompute_parents [] db = Inr ((), db)"
| "recompute_parents (pid # pids) db =
     rbind (lockPostTx pid db) (\<lambda>_.
     rbind (persistAggregatePostStatusLockedTx pid db) (\<lambda>(_, db'). recompute_parents pids db'))"

definition cancelFutureJobsTx :: "time \<Rightarrow> int \<Rightarrow> post_db \<Rightarrow> post_err + (unit \<times> post_db)" where
  "cancelFutureJobsTx now acc db =
     (let st = qCancelFutureJobsForAccount acc;
          returned = map pt_post_id (filter (fst st) (targets db))
      in recompute_parents (rev (remdups (rev returned))) (snd (exec_targets now st db)))"


section \<open>Repository operations\<close>

definition lease_seconds :: "duration \<Rightarrow> int" where
  "lease_seconds ttl = max 1 (ttl div second)"

definition RetryPost :: "tx_fault \<Rightarrow> time \<Rightarrow> int \<Rightarrow> post_db \<Rightarrow> (post_err + unit) \<times> post_db" where
  "RetryPost flt now pid db =
     run_tx flt (resetPostTargetsAndAggregateTx now pid (qRetryPostResetFailedTargets pid)) db"

definition RetryTarget :: "tx_fault \<Rightarrow> time \<Rightarrow> int \<Rightarrow> post_db \<Rightarrow> (post_err + unit) \<times> post_db" where
  "RetryTarget flt now tid db = run_tx flt (resetTargetAndAggregateTx now tid) db"

definition PublishPost :: "tx_fault \<Rightarrow> time \<Rightarrow> int \<Rightarrow> post_db \<Rightarrow> (post_err + unit) \<times> post_db" where
  "PublishPost flt now pid db =
     run_tx flt (resetPostTargetsAndAggregateTx now pid (qPublishPostTargetsReset pid)) db"

definition CancelPost :: "tx_fault \<Rightarrow> time \<Rightarrow> int \<Rightarrow> post_db \<Rightarrow> (post_err + unit) \<times> post_db" where
  "CancelPost flt now pid db =
     run_tx flt (resetPostTargetsAndAggregateTx now pid (qCancelPostTargetsReset pid)) db"

definition CancelFutureJobs :: "tx_fault \<Rightarrow> time \<Rightarrow> int \<Rightarrow> post_db \<Rightarrow> (post_err + unit) \<times> post_db" where
  "CancelFutureJobs flt now acc db = run_tx flt (cancelFutureJobsTx now acc) db"

definition ClaimQueuedTargetWithLease ::
  "tx_fault \<Rightarrow> time \<Rightarrow> (int \<Rightarrow> bool) \<Rightarrow> int \<Rightarrow> string \<Rightarrow> duration \<Rightarrow> post_db \<Rightarrow>
   (post_err + bool) \<times> post_db" where
  "ClaimQueuedTargetWithLease flt now locked tid owner ttl db =
     (if owner = '''' \<or> ttl \<le> 0 then (Inl ErrInvalidArgument, db)
      else run_tx flt (\<lambda>d.
        case List.find (\<lambda>r. pt_id r = tid \<and> claimable_with_lease now r \<and> \<not> locked tid) (targets d) of
          None \<Rightarrow> Inr (False, d)
        | Some _ \<Rightarrow>
            rbind (claimTargetTx now tid
                     (qClaimQueuedTargetWithLeaseUpdate now tid owner (lease_seconds ttl)) d)
              (\<lambda>(_, d'). Inr (True, d'))) db)"

definition ClaimWaitingProviderTarget ::
  "tx_fault \<Rightarrow> time \<Rightarrow> (int \<Rightarrow> bool) \<Rightarrow> int \<Rightarrow> post_db \<Rightarrow> (post_err + bool) \<times> post_db" where
  "ClaimWaitingProviderTarget flt now locked tid db =
     run_tx flt (\<lambda>d.
        case List.find (\<lambda>r. pt_id r = tid \<and> pt_status r = PSWaitingProvider \<and> \<not> locked tid)
               (targets d) of
          None \<Rightarrow> Inr (False, d)
        | Some _ \<Rightarrow>
            rbind (claimTargetTx now tid (qClaimQueuedTargetUpdate tid) d)
              (\<lambda>(_, d'). Inr (True, d'))) db"

definition UpdatePublishProgress ::
  "tx_fault \<Rightarrow> time \<Rightarrow> int \<Rightarrow> string \<Rightarrow> int \<Rightarrow> string \<Rightarrow> duration \<Rightarrow> post_db \<Rightarrow>
   (post_err + unit) \<times> post_db" where
  "UpdatePublishProgress flt now tid owner off pstate ttl db =
     (if owner = '''' \<or> ttl \<le> 0 then (Inl ErrInvalidArgument, db)
      else let (r, db') = run_exec flt now
             (qUpdatePublishProgress now tid owner off pstate (lease_seconds ttl)) db
           in (rbind r (\<lambda>_. Inr ()), db'))"

definition pt_ReleaseLease ::
  "tx_fault \<Rightarrow> time \<Rightarrow> int \<Rightarrow> string \<Rightarrow> post_db \<Rightarrow> (post_err + unit) \<times> post_db" where
  "pt_ReleaseLease flt now tid owner db =
     (if owner = '''' then (Inl ErrInvalidArgument, db)
      else let (r, db') = run_exec flt now (qReleaseLease tid owner) db
           in (rbind r (\<lambda>_. Inr ()), db'))"

definition mutateLeasedTarget ::
  "tx_fault \<Rightarrow> time \<Rightarrow> int \<Rightarrow> string \<Rightarrow> (int \<Rightarrow> string \<Rightarrow> target_stmt) \<Rightarrow> post_db \<Rightarrow>
   (post_err + unit) \<times> post_db" where
  "mutateLeasedTarget flt now tid owner query db =
     run_tx flt (mutateLeasedTargetTx now tid owner query) db"

definition pt_MarkDeadLetter ::
  "tx_fault \<Rightarrow> time \<Rightarrow> int \<Rightarrow> string \<Rightarrow> string \<Rightarrow> post_db \<Rightarrow> (post_err + unit) \<times> post_db" where
  "pt_MarkDeadLetter flt now tid owner lastError db =
     (if owner = '''' then (Inl ErrInvalidArgument, db)
      else mutateLeasedTarget flt now tid owner (qMarkDeadLetter now lastError) db)"

definition pt_MarkRetrying ::
  "tx_fault \<Rightarrow> time \<Rightarrow> int \<Rightarrow> string \<Rightarrow> string \<Rightarrow> time \<Rightarrow> post_db \<Rightarrow> (post_err + unit) \<times> post_db" where
  "pt_MarkRetrying flt now tid owner lastError nxt db =
     (if owner = '''' then (Inl ErrInvalidArgument, db)
      else mutateLeasedTarget flt now tid owner (qMarkRetrying nxt lastError) db)"

definition MarkRateLimitedRetryWithLease ::
  "tx_fault \<Rightarrow> time \<Rightarrow> int \<Rightarrow> string \<Rightarrow> time \<Rightarrow> string \<Rightarrow> post_db \<Rightarrow> (post_err + unit) \<times> post_db" where
  "MarkRateLimitedRetryWithLease flt now tid owner nxt lastError db =
     (if owner = '''' then (Inl ErrInvalidArgument, db)
      else mutateLeasedTarget flt now tid owner (qMarkRateLimitedRetryWithLease nxt lastError) db)"

definition pt_MarkRateLimited ::
  "tx_fault \<Rightarrow> time \<Rightarrow> int \<Rightarrow> string \<Rightarrow> time \<Rightarrow> post_db \<Rightarrow> (post_err + unit) \<times> post_db" where
  "pt_MarkRateLimited flt now tid owner nxt db =
     (if owner = '''' then (Inl ErrInvalidArgument, db)
      else mutateLeasedTarget flt now tid owner (qMarkRateLimited nxt) db)"

definition MarkDeliveryDispatchFailed ::
  "tx_fault \<Rightarrow> time \<Rightarrow> int \<Rightarrow> string \<Rightarrow> post_db \<Rightarrow> (post_err + unit) \<times> post_db" where
  "MarkDeliveryDispatchFailed flt now tid code db =
     (if tid \<le> 0 \<or> code = '''' then (Inl ErrInvalidArgument, db)
      else let (r, db') = run_exec flt now (qMarkDeliveryDispatchFailed tid code) db
           in (rbind r (\<lambda>n. if n = 0 then Inl ErrPostTargetNotFound else Inr ()), db'))"

definition MarkDriveRequiredFailed ::
  "tx_fault \<Rightarrow> time \<Rightarrow> int \<Rightarrow> string \<Rightarrow> post_db \<Rightarrow> (post_err + unit) \<times> post_db" where
  "MarkDriveRequiredFailed flt now tid lastError db =
     run_tx flt (markDriveRequiredFailedTx now tid lastError) db"

text \<open>\<open>UpdateStatus\<close>, through \<open>updateStatusWithAggregate\<close>; a nil target is \<open>None\<close>.\<close>

definition updateStatusWithAggregate ::
  "tx_fault \<Rightarrow> time \<Rightarrow> 'x PostTarget_scheme option \<Rightarrow> post_db \<Rightarrow> (post_err + unit) \<times> post_db" where
  "updateStatusWithAggregate flt now t db =
     (case t of None \<Rightarrow> (Inl ErrInvalidArgument, db)
      | Some t \<Rightarrow> run_tx flt (updateTargetStatusTx now t) db)"

text \<open>
  \<open>UpdateStatusWithLease\<close> returns, beside its result, whether its transaction is left open:
  the deferred rollback tests the local variable \<open>err\<close>, and the zero-rows branch returns a
  fresh error while \<open>err\<close> is nil.
\<close>

definition UpdateStatusWithLease ::
  "tx_fault \<Rightarrow> time \<Rightarrow> 'x PostTarget_scheme option \<Rightarrow> string \<Rightarrow> post_db \<Rightarrow>
   ((post_err + unit) \<times> bool) \<times> post_db" where
  "UpdateStatusWithLease flt now t owner db =
     (case t of None \<Rightarrow> ((Inl ErrInvalidArgument, False), db)
      | Some t \<Rightarrow>
        if owner = '''' then ((Inl ErrInvalidArgument, False), db)
        else if flt = TxFails then ((Inl ErrDatabase, False), db)
        else
          case rbind (postIDForTargetTx (pt_id t) db)
                 (\<lambda>pid. rbind (lockPostTx pid db) (\<lambda>_. Inr pid)) of
            Inl e \<Rightarrow> ((Inl e, False), db)
          | Inr pid \<Rightarrow>
              if \<not> enum_label_ok (pt_status t) then ((Inl ErrInvalidEnumLabel, False), db)
              else
                let (n, db') = exec_targets now
                      (qUpdateTargetStatusWithLease (pt_status t) (pt_platform_post_id t)
                         (pt_error_message t) (pt_published_at t) (pt_id t)
                         (pt_provider_state t) (pt_container_id t) owner) db
                in if n = 0 then ((Inl ErrPostTargetTransitionStale, True), db)
                   else case persistAggregatePostStatusLockedTx pid db' of
                          Inl e \<Rightarrow> ((Inl e, False), db)
                        | Inr (_, db'') \<Rightarrow>
                            ((if flt = TxOk then Inr () else Inl ErrDatabase, False), db''))"

text \<open>
  \<open>SetTargetStatus\<close>. Its WHERE clause compares the enum column with a list of literals;
  Postgres coerces each literal to the type \<open>post_status\<close> and refuses the statement when
  one is not a label of it.
\<close>

definition setTargetStatus_literals :: "PostStatus list" where
  "setTargetStatus_literals =
     [PSPublished, PSPartiallyPublished, PSFailed, PSDLQ, PSDeadLetterAlias, PSBlockedAuth]"

definition setTargetStatusWithAggregate ::
  "tx_fault \<Rightarrow> time \<Rightarrow> int \<Rightarrow> PostStatus \<Rightarrow> string \<Rightarrow> post_db \<Rightarrow> (post_err + unit) \<times> post_db" where
  "setTargetStatusWithAggregate flt now tid s msg db =
     run_tx flt (\<lambda>d.
       rbind (postIDForTargetTx tid d) (\<lambda>pid.
       rbind (lockTargetTx tid d) (\<lambda>_.
       rbind (lockPostTx pid d) (\<lambda>_.
         if \<not> list_all enum_label_ok (s # setTargetStatus_literals) then Inl ErrInvalidEnumLabel
         else
           let (n, d') = exec_targets now (qSetTargetStatus s msg tid) d
           in if n = 0 then Inl (stale_or_missing tid d')
              else persistAggregatePostStatusLockedTx pid d')))) db"

definition SetTargetStatus ::
  "tx_fault \<Rightarrow> time \<Rightarrow> int \<Rightarrow> PostStatus \<Rightarrow> string \<Rightarrow> post_db \<Rightarrow> (post_err + unit) \<times> post_db" where
  "SetTargetStatus flt now tid s msg db =
     (if tid \<le> 0 \<or> \<not> ps_IsValid s then (Inl ErrInvalidArgument, db)
      else setTargetStatusWithAggregate flt now tid s msg db)"

text \<open>
  \<open>ReclaimExpiredLeases\<close>: the expired rows of other owners are selected in id order, then
  reset and aggregated one by one inside one transaction; the count is returned.
\<close>

fun reclaim_loop ::
  "time \<Rightarrow> string \<Rightarrow> target_row list \<Rightarrow> nat \<Rightarrow> post_db \<Rightarrow> post_err + (nat \<times> post_db)" where
  "reclaim_loop now me [] n db = Inr (n, db)"
| "reclaim_loop now me (t # ts) n db =
     rbind (lockPostTx (pt_post_id t) db) (\<lambda>_.
       let (affected, db') = exec_targets now (qReclaimExpiredLeaseByID now (pt_id t) me) db
       in if affected = 0 then reclaim_loop now me ts n db'
          else rbind (persistAggregatePostStatusLockedTx (pt_post_id t) db')
                 (\<lambda>(_, db''). reclaim_loop now me ts (n + affected) db''))"

definition pt_ReclaimExpiredLeases ::
  "tx_fault \<Rightarrow> time \<Rightarrow> (int \<Rightarrow> bool) \<Rightarrow> string \<Rightarrow> post_db \<Rightarrow> (post_err + nat) \<times> post_db" where
  "pt_ReclaimExpiredLeases flt now locked me db =
     run_tx flt (\<lambda>d. reclaim_loop now me
       (sort_key pt_id (filter (\<lambda>r. lease_expired_for now me r \<and> \<not> locked (pt_id r)) (targets d)))
       0 d) db"


section \<open>The reconciler's lease\<close>

definition validateReconcileLease :: "string \<Rightarrow> duration \<Rightarrow> post_err + int" where
  "validateReconcileLease owner ttl =
     (if owner = '''' \<or> ttl \<le> 0 then Inl ErrInvalidArgument else Inr (lease_seconds ttl))"

definition reconcile_due :: "time \<Rightarrow> target_row \<Rightarrow> bool" where
  "reconcile_due now r \<longleftrightarrow>
     pt_status r = PSPublishing \<and> pt_platform_post_id r \<noteq> '''' \<and>
     some_and (\<lambda>t. t \<le> now) (pt_next_reconcile_at r) \<and>
     (pt_reconcile_owner r = None \<or> null_or (\<lambda>t. t \<le> now) (pt_reconcile_until r))"

definition qClaimPublishingTargetSelect ::
  "time \<Rightarrow> (int \<Rightarrow> bool) \<Rightarrow> int \<Rightarrow> string \<Rightarrow> int \<Rightarrow> target_stmt" where
  "qClaimPublishingTargetSelect now locked tid owner secs =
     ((\<lambda>r. pt_id r = tid \<and> reconcile_due now r \<and> \<not> locked tid),
      (\<lambda>r. r\<lparr>pt_reconcile_owner := Some owner,
             pt_reconcile_until := Some (now + secs * second),
             pt_reconcile_heartbeat := Some now\<rparr>))"

definition holds_reconcile_lease :: "time \<Rightarrow> int \<Rightarrow> string \<Rightarrow> target_row \<Rightarrow> bool" where
  "holds_reconcile_lease now tid owner r \<longleftrightarrow>
     pt_id r = tid \<and> pt_reconcile_owner r = Some owner \<and>
     some_and (\<lambda>u. u > now) (pt_reconcile_until r) \<and> pt_status r = PSPublishing"

definition qHeartbeatReconcileTarget :: "time \<Rightarrow> int \<Rightarrow> string \<Rightarrow> int \<Rightarrow> target_stmt" where
  "qHeartbeatReconcileTarget now tid owner secs =
     (holds_reconcile_lease now tid owner,
      (\<lambda>r. r\<lparr>pt_reconcile_until := Some (now + secs * second),
             pt_reconcile_heartbeat := Some now\<rparr>))"

definition qReleaseReconcileTarget :: "time \<Rightarrow> int \<Rightarrow> string \<Rightarrow> target_stmt" where
  "qReleaseReconcileTarget now tid owner =
     (holds_reconcile_lease now tid owner,
      (\<lambda>r. r\<lparr>pt_reconcile_owner := None, pt_reconcile_until := None,
             pt_reconcile_heartbeat := None\<rparr>))"

definition qScheduleNextReconcile ::
  "time \<Rightarrow> int \<Rightarrow> time \<Rightarrow> nat \<Rightarrow> string \<Rightarrow> bool \<Rightarrow> string \<Rightarrow> string \<Rightarrow> target_stmt" where
  "qScheduleNextReconcile now tid nxt attempt owner inc code msg =
     ((\<lambda>r. pt_reconcile_attempt r = attempt \<and> pt_platform_post_id r \<noteq> '''' \<and>
           holds_reconcile_lease now tid owner r),
      (\<lambda>r. r\<lparr>pt_reconcile_attempt := pt_reconcile_attempt r + (if inc then 1 else 0),
             pt_next_reconcile_at := Some nxt,
             pt_error_message := (if msg \<noteq> '''' then msg else pt_error_message r),
             pt_last_error_code := (if code \<noteq> '''' then code else pt_last_error_code r),
             rate_limit_reset_at := (if code = ''RATE_LIMITED'' then Some nxt
                                     else rate_limit_reset_at r),
             pt_reconcile_owner := None, pt_reconcile_until := None,
             pt_reconcile_heartbeat := None\<rparr>))"

definition ClaimPublishingTarget ::
  "tx_fault \<Rightarrow> time \<Rightarrow> (int \<Rightarrow> bool) \<Rightarrow> int \<Rightarrow> string \<Rightarrow> duration \<Rightarrow> post_db \<Rightarrow>
   (post_err + bool) \<times> post_db" where
  "ClaimPublishingTarget flt now locked tid owner ttl db =
     (case validateReconcileLease owner ttl of
        Inl e \<Rightarrow> (Inl e, db)
      | Inr secs \<Rightarrow>
          let (r, db') = run_exec flt now (qClaimPublishingTargetSelect now locked tid owner secs) db
          in (rbind r (\<lambda>n. Inr (n \<noteq> 0)), db'))"

definition HeartbeatReconcileTarget ::
  "tx_fault \<Rightarrow> time \<Rightarrow> int \<Rightarrow> string \<Rightarrow> duration \<Rightarrow> post_db \<Rightarrow> (post_err + unit) \<times> post_db" where
  "HeartbeatReconcileTarget flt now tid owner ttl db =
     (case validateReconcileLease owner ttl of
        Inl e \<Rightarrow> (Inl e, db)
      | Inr secs \<Rightarrow>
          let (r, db') = run_exec flt now (qHeartbeatReconcileTarget now tid owner secs) db
          in (rbind r (\<lambda>n. if n = 0 then Inl ErrReconcileLeaseLost else Inr ()), db'))"

definition ReleaseReconcileTarget ::
  "tx_fault \<Rightarrow> time \<Rightarrow> int \<Rightarrow> string \<Rightarrow> post_db \<Rightarrow> (post_err + unit) \<times> post_db" where
  "ReleaseReconcileTarget flt now tid owner db =
     (if owner = '''' then (Inl ErrInvalidArgument, db)
      else let (r, db') = run_exec flt now (qReleaseReconcileTarget now tid owner) db
           in (rbind r (\<lambda>n. if n = 0 then Inl ErrReconcileLeaseLost else Inr ()), db'))"

text \<open>The zero \<open>time.Time\<close> is \<open>None\<close>.\<close>

definition ScheduleNextReconcileWithLease ::
  "tx_fault \<Rightarrow> time \<Rightarrow> int \<Rightarrow> string \<Rightarrow> int \<Rightarrow> time option \<Rightarrow> bool \<Rightarrow> string \<Rightarrow> string \<Rightarrow> post_db \<Rightarrow>
   (post_err + unit) \<times> post_db" where
  "ScheduleNextReconcileWithLease flt now tid owner attempt nxt inc code msg db =
     (case nxt of None \<Rightarrow> (Inl ErrInvalidArgument, db)
      | Some nx \<Rightarrow>
        if owner = '''' \<or> attempt < 0 then (Inl ErrInvalidArgument, db)
        else let (r, db') = run_exec flt now
               (qScheduleNextReconcile now tid nx (nat attempt) owner inc code msg) db
             in (rbind r (\<lambda>n. if n = 0 then Inl ErrReconcileLeaseLost else Inr ()), db'))"

definition ScheduleNextReconcile ::
  "tx_fault \<Rightarrow> time \<Rightarrow> int \<Rightarrow> string \<Rightarrow> int \<Rightarrow> time option \<Rightarrow> post_db \<Rightarrow>
   (post_err + unit) \<times> post_db" where
  "ScheduleNextReconcile flt now tid owner attempt nxt db =
     (case nxt of None \<Rightarrow> (Inl ErrInvalidArgument, db)
      | Some nx \<Rightarrow>
        if tid \<le> 0 \<or> owner = '''' \<or> attempt < 0 then (Inl ErrInvalidArgument, db)
        else let (r, db') = run_exec flt now
               (qScheduleNextReconcile now tid nx (nat attempt) owner True '''' '''') db
             in (rbind r (\<lambda>n. if n = 0 then Inl ErrScheduleLostCAS else Inr ()), db'))"

definition UpdateReconcileStatusWithLease ::
  "tx_fault \<Rightarrow> time \<Rightarrow> 'x PostTarget_scheme option \<Rightarrow> string \<Rightarrow> post_db \<Rightarrow>
   (post_err + unit) \<times> post_db" where
  "UpdateReconcileStatusWithLease flt now t owner db =
     (case t of None \<Rightarrow> (Inl ErrInvalidArgument, db)
      | Some t \<Rightarrow>
        if owner = '''' then (Inl ErrInvalidArgument, db)
        else run_tx flt (\<lambda>d.
          rbind (postIDForTargetTx (pt_id t) d) (\<lambda>pid.
          rbind (lockTargetTx (pt_id t) d) (\<lambda>_.
          rbind (lockPostTx pid d) (\<lambda>_.
            if \<not> enum_label_ok (pt_status t) then Inl ErrInvalidEnumLabel
            else
              let (n, d') = exec_targets now
                    (qUpdateTargetStatusWithReconcileLease now (pt_status t)
                       (pt_platform_post_id t) (pt_error_message t) (pt_published_at t) (pt_id t)
                       (pt_provider_state t) (pt_container_id t) (pt_last_error_code t) owner) d
              in if n = 0 then Inl ErrReconcileLeaseLost
                 else persistAggregatePostStatusLockedTx pid d')))) db)"


section \<open>Queries and repair\<close>

text \<open>
  The columns a query projects; the fields it does not read keep the Go zero value.
\<close>

definition project_target :: "target_row \<Rightarrow> PostTarget" where
  "project_target r =
     \<lparr>pt_id = pt_id r, pt_post_id = pt_post_id r, pt_account = pt_account r,
      pt_status = pt_status r, pt_attempt_count = 0, pt_next_attempt_at = None,
      pt_reconcile_attempt = 0, pt_next_reconcile_at = None, pt_reconcile_owner = None,
      pt_reconcile_until = None, pt_reconcile_heartbeat = None,
      pt_platform_post_id = pt_platform_post_id r, pt_error_message = pt_error_message r,
      pt_published_at = pt_published_at r, pt_completed_at = pt_completed_at r,
      pt_provider_state = pt_provider_state r, pt_container_id = pt_container_id r,
      pt_last_error_code = '''',
      pt_provider_idempotency_key = pt_provider_idempotency_key r, pt_version = 0\<rparr>"

definition ListByPost :: "int \<Rightarrow> post_db \<Rightarrow> PostTarget list" where
  "ListByPost pid db = map project_target (children pid db)"

definition FindTargetByID :: "int \<Rightarrow> post_db \<Rightarrow> PostTarget option" where
  "FindTargetByID tid db =
     map_option (\<lambda>r. (project_target r)\<lparr>pt_attempt_count := pt_attempt_count r,
                       pt_next_attempt_at := pt_next_attempt_at r\<rparr>)
       (find_row pt_id tid (targets db))"

definition ListPublishing :: "time \<Rightarrow> int \<Rightarrow> post_db \<Rightarrow> post_err + PostTarget list" where
  "ListPublishing now limit db =
     (if limit \<le> 0 then Inl ErrInvalidArgument
      else Inr (map (\<lambda>r. (project_target r)\<lparr>pt_reconcile_attempt := pt_reconcile_attempt r,
                           pt_next_reconcile_at := pt_next_reconcile_at r\<rparr>)
             (top_by (\<lambda>r. (pt_next_reconcile_at r, pt_id r)) (nat limit)
                (filter (reconcile_due now) (targets db)))))"

text \<open>\<open>qSelectPendingTargetsFair\<close>: the pending rows, their position among the pending rows of
  the same post, and the round-robin order.\<close>

definition pending_target :: "time \<Rightarrow> time \<Rightarrow> post_db \<Rightarrow> target_row \<Rightarrow> bool" where
  "pending_target now before db r \<longleftrightarrow>
     pt_status r \<in> {PSQueued, PSWaitingProvider, PSRetrying} \<and>
     (case find_row p_id (pt_post_id r) (posts db) of
        None \<Rightarrow> False
      | Some p \<Rightarrow> null_or (\<lambda>t. t \<le> before) (p_publish_at p)) \<and>
     null_or (\<lambda>t. t \<le> now) (pt_next_attempt_at r)"

definition publish_at_of :: "post_db \<Rightarrow> target_row \<Rightarrow> time option" where
  "publish_at_of db r =
     (case find_row p_id (pt_post_id r) (posts db) of None \<Rightarrow> None | Some p \<Rightarrow> p_publish_at p)"

definition child_position :: "target_row list \<Rightarrow> target_row \<Rightarrow> nat" where
  "child_position pending r =
     length (filter (\<lambda>r'. pt_post_id r' = pt_post_id r \<and> pt_id r' \<le> pt_id r) pending)"

definition fair_key ::
  "post_db \<Rightarrow> target_row list \<Rightarrow> target_row \<Rightarrow> nat \<times> time option \<times> int \<times> int" where
  "fair_key db pending r =
     (child_position pending r, publish_at_of db r, pt_post_id r, pt_id r)"

definition ListPending :: "time \<Rightarrow> time \<Rightarrow> post_db \<Rightarrow> PostTarget list" where
  "ListPending now before db =
     (let pending = filter (pending_target now before db) (targets db)
      in map project_target (top_by (fair_key db pending) 100 pending))"

definition ListDirtyAggregatePostIDs :: "int \<Rightarrow> post_db \<Rightarrow> post_err + int list" where
  "ListDirtyAggregatePostIDs limit db =
     (if limit \<le> 0 then Inl ErrInvalidArgument
      else Inr (map fst (top_by (\<lambda>(pid, at). (at, pid)) (nat limit) (repair_queue db))))"

definition RepairDirtyAggregatePost ::
  "tx_fault \<Rightarrow> int \<Rightarrow> post_db \<Rightarrow> (post_err + unit) \<times> post_db" where
  "RepairDirtyAggregatePost flt pid db =
     (if pid \<le> 0 then (Inl ErrInvalidArgument, db)
      else run_tx flt (\<lambda>d.
        rbind (lockPostTx pid d) (\<lambda>_.
          if pid \<notin> fst ` set (repair_queue d) then Inr ((), d)
          else rbind (persistAggregatePostStatusLockedTx pid d)
                 (\<lambda>(_, d'). Inr ((), d'\<lparr>repair_queue :=
                    filter (\<lambda>q. fst q \<noteq> pid) (repair_queue d')\<rparr>)))) db)"

definition repair_one :: "int \<Rightarrow> post_db \<Rightarrow> post_err + ((PostStatus \<times> PostStatus \<times> bool) \<times> post_db)" where
  "repair_one pid db =
     (case find_row p_id pid (posts db) of
        None \<Rightarrow> Inl ErrPostNotFound
      | Some p \<Rightarrow>
          rbind (resolvePostStatusLockedTx pid db) (\<lambda>s.
            if p_status p \<noteq> s
            then Inr ((p_status p, s, True), qUpdatePostAggregateStatus s pid db)
            else Inr ((p_status p, s, False), db)))"

definition RepairAggregateStatusForPost ::
  "tx_fault \<Rightarrow> int \<Rightarrow> post_db \<Rightarrow> (post_err + PostStatus \<times> PostStatus \<times> bool) \<times> post_db" where
  "RepairAggregateStatusForPost flt pid db =
     (if pid \<le> 0 then (Inl ErrInvalidArgument, db) else run_tx flt (repair_one pid) db)"

text \<open>
  The sweep over all posts, one transaction each; \<open>flt\<close> gives the fault of each of them. A
  post that disappeared is skipped, any other error stops the sweep with the count so far.
\<close>

fun repair_sweep ::
  "(int \<Rightarrow> tx_fault) \<Rightarrow> int list \<Rightarrow> nat \<Rightarrow> post_db \<Rightarrow> (nat \<times> post_err option) \<times> post_db" where
  "repair_sweep flt [] n db = ((n, None), db)"
| "repair_sweep flt (pid # pids) n db =
     (if flt pid = TxFails then ((n, Some ErrDatabase), db)
      else case repair_one pid db of
          Inl ErrPostNotFound \<Rightarrow> repair_sweep flt pids n db
        | Inl e \<Rightarrow> ((n, Some e), db)
        | Inr ((_, _, changed), db') \<Rightarrow>
            let n' = (if changed then n + 1 else n)
            in if flt pid = TxCommitLost then ((n', Some ErrDatabase), db')
               else repair_sweep flt pids n' db')"

definition RepairAggregateStatuses ::
  "(int \<Rightarrow> tx_fault) \<Rightarrow> post_db \<Rightarrow> (nat \<times> post_err option) \<times> post_db" where
  "RepairAggregateStatuses flt db =
     repair_sweep flt (map p_id (sort_key p_id (posts db))) 0 db"

end
