(* ===== verification/Leases.thy ===== *)
theory Leases
  imports Prelude
begin

text \<open>
  The lease interface the durable queues share. Each of the tables \<open>outbox_events\<close>,
  \<open>upload_jobs\<close> and \<open>post_targets\<close> gives a row to one worker at a time by writing the
  worker's id into an owner column, and every later write of a worker compares that column
  with its own id (compare and swap). The locale \<open>lease_cas\<close> is the contract of such a
  table: \<open>guard now w a\<close> is the WHERE clause of write \<open>a\<close> of worker \<open>w\<close> at time
  \<open>now\<close>, \<open>change now w a\<close> its SET clause. What follows is that the writes of the other
  workers, in any number and order, leave a held row exactly as it is, and that a worker
  that holds nothing affects no row.
\<close>

locale lease_cas =
  fixes key :: "'r \<Rightarrow> 'k"
    and holder :: "'r \<Rightarrow> string option"
    and guard :: "time \<Rightarrow> string \<Rightarrow> 'a \<Rightarrow> 'r \<Rightarrow> bool"
    and change :: "time \<Rightarrow> string \<Rightarrow> 'a \<Rightarrow> 'r \<Rightarrow> 'r"
  assumes cas: "guard now w a r \<Longrightarrow> holder r = Some w"
    and key_kept: "guard now w a r \<Longrightarrow> key (change now w a r) = key r"
begin

lemma peer_write_keeps:
  assumes "find_row key k t = Some r" and "holder r = Some w" and "w' \<noteq> w"
  shows "find_row key k (update_where (guard now w' a) (change now w' a) t) = Some r"
proof -
  have "\<not> guard now w' a r" using cas assms(2,3) by fastforce
  then show ?thesis using assms(1) key_kept by (simp add: find_row_update_where)
qed

lemma peer_writes_keep:
  assumes "find_row key k t = Some r" and "holder r = Some w"
    and "\<forall>(now, w', a) \<in> set ws. w' \<noteq> w"
  shows "find_row key k
    (foldl (\<lambda>t (now, w', a). update_where (guard now w' a) (change now w' a) t) t ws) = Some r"
  using assms
proof (induction ws arbitrary: t)
  case (Cons x ws)
  obtain now w' a where x: "x = (now, w', a)" by (cases x)
  with Cons.prems have "w' \<noteq> w" by simp
  then show ?case using Cons peer_write_keeps [of k t r w w' now a] by (simp add: x)
qed simp

lemma no_lease_no_rows:
  assumes "\<forall>r \<in> set t. holder r \<noteq> Some w"
  shows "rows_affected (guard now w a) t = 0"
  using assms cas by (fastforce simp: rows_affected_0_iff)

lemma no_lease_no_change:
  assumes "\<forall>r \<in> set t. holder r \<noteq> Some w"
  shows "update_where (guard now w a) (change now w a) t = t"
  using no_lease_no_rows [OF assms] by (rule rows_affected_0_unchanged)

end

end
