(* ===== verification/PostRepoProofs.thy ===== *)
theory PostRepoProofs
  imports PostRepo Leases
begin

text \<open>
  Correctness of the post repository. The operations are put in one datatype, so that an
  execution of several workers is a list of operations with the time and the fault of
  each. The first part proves that every operation, on every branch and under every
  fault, keeps the parent status equal to the aggregate of its targets. The second part
  proves what the publish lease and the reconcile lease guarantee.
\<close>

section \<open>Executions\<close>

datatype post_op =
    PoRetryPost int | PoRetryTarget int | PoPublishPost int | PoCancelPost int
  | PoCancelFutureJobs int
  | PoClaim int string duration | PoClaimWaiting int
  | PoProgress int string int string duration | PoReleaseLease int string
  | PoDeadLetter int string string | PoRetrying int string string time
  | PoRateLimitedRetry int string time string | PoRateLimited int string time
  | PoDispatchFailed int string | PoDriveRequiredFailed int string
  | PoUpdateStatus "PostTarget option" | PoUpdateStatusWithLease "PostTarget option" string
  | PoSetTargetStatus int PostStatus string | PoReclaim string
  | PoReconcileClaim int string duration | PoReconcileHeartbeat int string duration
  | PoReconcileRelease int string
  | PoReconcileSchedule int string int "time option" bool string string
  | PoReconcileScheduleNext int string int "time option"
  | PoReconcileUpdate "PostTarget option" string
  | PoRepairDirty int | PoRepairPost int | PoRepairAll

fun post_step ::
  "tx_fault \<Rightarrow> time \<Rightarrow> (int \<Rightarrow> bool) \<Rightarrow> post_op \<Rightarrow> post_db \<Rightarrow> post_db" where
  "post_step f now lk (PoRetryPost p) db = snd (RetryPost f now p db)"
| "post_step f now lk (PoRetryTarget t) db = snd (RetryTarget f now t db)"
| "post_step f now lk (PoPublishPost p) db = snd (PublishPost f now p db)"
| "post_step f now lk (PoCancelPost p) db = snd (CancelPost f now p db)"
| "post_step f now lk (PoCancelFutureJobs a) db = snd (CancelFutureJobs f now a db)"
| "post_step f now lk (PoClaim t w ttl) db = snd (ClaimQueuedTargetWithLease f now lk t w ttl db)"
| "post_step f now lk (PoClaimWaiting t) db = snd (ClaimWaitingProviderTarget f now lk t db)"
| "post_step f now lk (PoProgress t w off ps ttl) db =
     snd (UpdatePublishProgress f now t w off ps ttl db)"
| "post_step f now lk (PoReleaseLease t w) db = snd (pt_ReleaseLease f now t w db)"
| "post_step f now lk (PoDeadLetter t w m) db = snd (pt_MarkDeadLetter f now t w m db)"
| "post_step f now lk (PoRetrying t w m nx) db = snd (pt_MarkRetrying f now t w m nx db)"
| "post_step f now lk (PoRateLimitedRetry t w nx m) db =
     snd (MarkRateLimitedRetryWithLease f now t w nx m db)"
| "post_step f now lk (PoRateLimited t w nx) db = snd (pt_MarkRateLimited f now t w nx db)"
| "post_step f now lk (PoDispatchFailed t c) db = snd (MarkDeliveryDispatchFailed f now t c db)"
| "post_step f now lk (PoDriveRequiredFailed t m) db = snd (MarkDriveRequiredFailed f now t m db)"
| "post_step f now lk (PoUpdateStatus t) db = snd (updateStatusWithAggregate f now t db)"
| "post_step f now lk (PoUpdateStatusWithLease t w) db = snd (UpdateStatusWithLease f now t w db)"
| "post_step f now lk (PoSetTargetStatus t s m) db = snd (SetTargetStatus f now t s m db)"
| "post_step f now lk (PoReclaim w) db = snd (pt_ReclaimExpiredLeases f now lk w db)"
| "post_step f now lk (PoReconcileClaim t w ttl) db =
     snd (ClaimPublishingTarget f now lk t w ttl db)"
| "post_step f now lk (PoReconcileHeartbeat t w ttl) db =
     snd (HeartbeatReconcileTarget f now t w ttl db)"
| "post_step f now lk (PoReconcileRelease t w) db = snd (ReleaseReconcileTarget f now t w db)"
| "post_step f now lk (PoReconcileSchedule t w a nx inc c m) db =
     snd (ScheduleNextReconcileWithLease f now t w a nx inc c m db)"
| "post_step f now lk (PoReconcileScheduleNext t w a nx) db =
     snd (ScheduleNextReconcile f now t w a nx db)"
| "post_step f now lk (PoReconcileUpdate t w) db =
     snd (UpdateReconcileStatusWithLease f now t w db)"
| "post_step f now lk (PoRepairDirty p) db = snd (RepairDirtyAggregatePost f p db)"
| "post_step f now lk (PoRepairPost p) db = snd (RepairAggregateStatusForPost f p db)"
| "post_step f now lk PoRepairAll db = snd (RepairAggregateStatuses (\<lambda>_. f) db)"

type_synonym post_event = "tx_fault \<times> time \<times> (int \<Rightarrow> bool) \<times> post_op"

definition post_exec :: "post_event list \<Rightarrow> post_db \<Rightarrow> post_db" where
  "post_exec es db = foldl (\<lambda>d (f, now, lk, op). post_step f now lk op d) db es"

text \<open>The invariant: keys, foreign key and the aggregate equation.\<close>

definition post_db_wf :: "post_db \<Rightarrow> bool" where
  "post_db_wf db \<longleftrightarrow>
     distinct (map p_id (posts db)) \<and> distinct (map pt_id (targets db)) \<and>
     (\<forall>t \<in> set (targets db). pt_post_id t \<in> p_id ` set (posts db))"

definition aggregated :: "int \<Rightarrow> post_db \<Rightarrow> bool" where
  "aggregated pid db \<longleftrightarrow>
     (\<forall>p \<in> set (posts db). p_id p = pid \<longrightarrow> Resolve (children pid db) = Inr (p_status p))"

definition post_inv :: "post_db \<Rightarrow> bool" where
  "post_inv db \<longleftrightarrow> post_db_wf db \<and> (\<forall>pid. aggregated pid db)"


section \<open>Statements\<close>

text \<open>What a statement must respect, and what it may leave alone.\<close>

definition stmt_ok :: "target_stmt \<Rightarrow> bool" where
  "stmt_ok st \<longleftrightarrow>
     (\<forall>r. fst st r \<longrightarrow> pt_id (snd st r) = pt_id r \<and> pt_post_id (snd st r) = pt_post_id r)"

definition status_neutral :: "target_stmt \<Rightarrow> bool" where
  "status_neutral st \<longleftrightarrow> (\<forall>r. fst st r \<longrightarrow> pt_status (snd st r) = pt_status r)"

lemmas stmt_defs =
  qUpdateTargetStatus_def qUpdateTargetStatusWithLease_def
  qUpdateTargetStatusWithReconcileLease_def qPublishPostTargetsReset_def
  qCancelPostTargetsReset_def qCancelFutureJobsForAccount_def qRetryPostResetFailedTargets_def
  qRetryTargetResetTarget_def qClaimQueuedTargetUpdate_def qClaimQueuedTargetWithLeaseUpdate_def
  qUpdatePublishProgress_def qReleaseLease_def qMarkDeadLetter_def
  qMarkRateLimitedRetryWithLease_def qMarkRetrying_def qMarkRateLimited_def
  qMarkDriveRequiredFailed_def qMarkDeliveryDispatchFailed_def qReclaimExpiredLeaseByID_def
  qSetTargetStatus_def qClaimPublishingTargetSelect_def qHeartbeatReconcileTarget_def
  qReleaseReconcileTarget_def qScheduleNextReconcile_def

lemma stmt_ok_simps [simp]:
  "stmt_ok (qPublishPostTargetsReset p)" "stmt_ok (qCancelPostTargetsReset p)"
  "stmt_ok (qCancelFutureJobsForAccount acc)" "stmt_ok (qRetryPostResetFailedTargets p)"
  "stmt_ok (qRetryTargetResetTarget t)" "stmt_ok (qClaimQueuedTargetUpdate t)"
  "stmt_ok (qClaimQueuedTargetWithLeaseUpdate now t w secs)"
  "stmt_ok (qUpdatePublishProgress now t w off ps secs)" "stmt_ok (qReleaseLease t w)"
  "stmt_ok (qMarkDeadLetter now m t w)" "stmt_ok (qMarkRateLimitedRetryWithLease nx m t w)"
  "stmt_ok (qMarkRetrying nx m t w)" "stmt_ok (qMarkRateLimited nx t w)"
  "stmt_ok (qMarkDriveRequiredFailed now m t)" "stmt_ok (qMarkDeliveryDispatchFailed t c)"
  "stmt_ok (qReclaimExpiredLeaseByID now t w)"
  "stmt_ok (qClaimPublishingTargetSelect now lk t w secs)"
  "stmt_ok (qHeartbeatReconcileTarget now t w secs)" "stmt_ok (qReleaseReconcileTarget now t w)"
  "stmt_ok (qScheduleNextReconcile now t nx k w inc c m)"
  "stmt_ok (qUpdateTargetStatus s a b d t e g)"
  "stmt_ok (qUpdateTargetStatusWithLease s a b d t e g w)"
  "stmt_ok (qUpdateTargetStatusWithReconcileLease now s a b d t e g h w)"
  "stmt_ok (qSetTargetStatus s m t)"
  by (simp_all add: stmt_ok_def stmt_defs)

lemma status_neutral_simps [simp]:
  "status_neutral (qUpdatePublishProgress now t w off ps secs)" "status_neutral (qReleaseLease t w)"
  "status_neutral (qMarkDeliveryDispatchFailed t c)"
  "status_neutral (qClaimPublishingTargetSelect now lk t w secs)"
  "status_neutral (qHeartbeatReconcileTarget now t w secs)"
  "status_neutral (qReleaseReconcileTarget now t w)"
  "status_neutral (qScheduleNextReconcile now t nx k w inc c m)"
  by (simp_all add: status_neutral_def stmt_defs)

section \<open>The aggregate equation is kept\<close>

abbreviation triggered :: "time \<Rightarrow> target_stmt \<Rightarrow> target_row \<Rightarrow> target_row" where
  "triggered now st \<equiv> \<lambda>r. reset_reconcile_schedule_on_publish_start now r (snd st r)"

lemma reset_reconcile_simps [simp]:
  "pt_id (reset_reconcile_schedule_on_publish_start now r x) = pt_id x"
  "pt_post_id (reset_reconcile_schedule_on_publish_start now r x) = pt_post_id x"
  "pt_account (reset_reconcile_schedule_on_publish_start now r x) = pt_account x"
  "pt_status (reset_reconcile_schedule_on_publish_start now r x) = pt_status x"
  "pt_error_message (reset_reconcile_schedule_on_publish_start now r x) = pt_error_message x"
  "pt_provider_idempotency_key (reset_reconcile_schedule_on_publish_start now r x) = pt_provider_idempotency_key x"
  "lease_owner_id (reset_reconcile_schedule_on_publish_start now r x) = lease_owner_id x"
  "leased_until (reset_reconcile_schedule_on_publish_start now r x) = leased_until x"
  by (simp_all add: reset_reconcile_schedule_on_publish_start_def)

lemma reset_reconcile_same [simp]:
  "pt_status x \<noteq> PSPublishing \<or> pt_status r = PSPublishing \<Longrightarrow>
    reset_reconcile_schedule_on_publish_start now r x = x"
  by (auto simp: reset_reconcile_schedule_on_publish_start_def)

lemma update_where_eqI:
  "(\<And>r. r \<in> set t \<Longrightarrow> p r \<Longrightarrow> f r = g r) \<Longrightarrow> update_where p f t = update_where p g t"
  by (simp add: update_where_def)

lemma exec_targets_simps [simp]:
  "fst (exec_targets now st db) = rows_affected (fst st) (targets db)"
  "posts (snd (exec_targets now st db)) = posts db"
  "targets (snd (exec_targets now st db)) = update_where (fst st) (triggered now st) (targets db)"
  by (simp_all add: exec_targets_def)

lemma qUpdatePostAggregateStatus_simps [simp]:
  "targets (qUpdatePostAggregateStatus s pid db) = targets db"
  "repair_queue (qUpdatePostAggregateStatus s pid db) = repair_queue db"
  "children pid' (qUpdatePostAggregateStatus s pid db) = children pid' db"
  by (simp_all add: qUpdatePostAggregateStatus_def children_def)

lemma exec_targets_wf:
  assumes "post_db_wf db" and "stmt_ok st"
  shows "post_db_wf (snd (exec_targets now st db))"
proof -
  let ?t' = "update_where (fst st) (triggered now st) (targets db)"
  have "map pt_id ?t' = map pt_id (targets db)"
    using assms(2) by (intro map_update_where) (simp add: stmt_ok_def)
  moreover have "map pt_post_id ?t' = map pt_post_id (targets db)"
    using assms(2) by (intro map_update_where) (simp add: stmt_ok_def)
  then have "pt_post_id ` set ?t' = pt_post_id ` set (targets db)" by (metis set_map)
  moreover have "(\<forall>t \<in> set ts. pt_post_id t \<in> S) \<longleftrightarrow> pt_post_id ` set ts \<subseteq> S"
    for ts :: "target_row list" and S by auto
  ultimately show ?thesis using assms(1) by (simp add: post_db_wf_def)
qed

lemma qUpdatePostAggregateStatus_wf:
  "post_db_wf db \<Longrightarrow> post_db_wf (qUpdatePostAggregateStatus s pid db)"
proof -
  have "map p_id (posts (qUpdatePostAggregateStatus s pid db)) = map p_id (posts db)"
    by (simp add: qUpdatePostAggregateStatus_def map_update_where)
  then have "p_id ` set (posts (qUpdatePostAggregateStatus s pid db)) = p_id ` set (posts db)"
    by (metis set_map)
  then show "post_db_wf db \<Longrightarrow> post_db_wf (qUpdatePostAggregateStatus s pid db)"
    using \<open>map p_id _ = _\<close> by (simp add: post_db_wf_def)
qed

lemma qUpdatePostAggregateStatus_aggregated:
  assumes "Resolve (children pid db) = Inr s"
  shows "aggregated pid' (qUpdatePostAggregateStatus s pid db) \<longleftrightarrow> pid' = pid \<or> aggregated pid' db"
  using assms
  by (auto simp: aggregated_def qUpdatePostAggregateStatus_def set_update_where children_def)

lemma persist_Inr:
  assumes "persistAggregatePostStatusLockedTx pid db = Inr (u, db')"
  obtains s where "Resolve (children pid db) = Inr s"
    and "db' = qUpdatePostAggregateStatus s pid db"
  using assms
  by (auto simp: persistAggregatePostStatusLockedTx_def resolvePostStatusLockedTx_def
      rbind_Inr_iff split: sum.splits)

text \<open>A statement that touches only the rows of one parent leaves the other children alone.\<close>

lemma children_exec_other:
  assumes "stmt_ok st" and "\<forall>r \<in> set (targets db). fst st r \<longrightarrow> pt_post_id r \<noteq> pid"
  shows "children pid (snd (exec_targets now st db)) = children pid db"
proof -
  have "filter (\<lambda>t. pt_post_id t = pid) (update_where (fst st) (triggered now st) ts) =
      filter (\<lambda>t. pt_post_id t = pid) ts"
    if "\<forall>r \<in> set ts. fst st r \<longrightarrow> pt_post_id r \<noteq> pid" for ts
    using that assms(1) by (induction ts) (auto simp: stmt_ok_def)
  then show ?thesis using assms(2) by (simp add: children_def)
qed

lemma exec_aggregated_other:
  assumes "stmt_ok st" and "\<forall>r \<in> set (targets db). fst st r \<longrightarrow> pt_post_id r \<noteq> pid"
    and "aggregated pid db"
  shows "aggregated pid (snd (exec_targets now st db))"
  using assms by (simp add: aggregated_def children_exec_other)

lemma exec_persist_inv:
  assumes inv: "post_inv db" and st: "stmt_ok st"
    and local: "\<forall>r \<in> set (targets db). fst st r \<longrightarrow> pt_post_id r = pid"
    and ok: "persistAggregatePostStatusLockedTx pid (snd (exec_targets now st db)) = Inr (u, db')"
  shows "post_inv db'"
proof -
  from ok obtain s where s: "Resolve (children pid (snd (exec_targets now st db))) = Inr s"
    and db': "db' = qUpdatePostAggregateStatus s pid (snd (exec_targets now st db))"
    by (rule persist_Inr)
  have "aggregated pid' (snd (exec_targets now st db))" if "pid' \<noteq> pid" for pid'
    using that inv local by (intro exec_aggregated_other [OF st]) (auto simp: post_inv_def)
  then show ?thesis
    using inv st exec_targets_wf qUpdatePostAggregateStatus_wf s
    by (auto simp: post_inv_def db' qUpdatePostAggregateStatus_aggregated)
qed

lemma changed_parents_none:
  "\<forall>r \<in> set t. \<not> fst st r \<Longrightarrow> changed_parents st t = []"
  by (simp add: changed_parents_def filter_empty_conv)

lemma exec_none:
  assumes "rows_affected (fst st) (targets db) = 0"
  shows "snd (exec_targets now st db) = db"
  using assms
  by (simp add: exec_targets_def rows_affected_0_iff update_where_none changed_parents_none)

lemma exec_neutral_inv:
  assumes inv: "post_inv db" and st: "stmt_ok st" and neutral: "status_neutral st"
  shows "post_inv (snd (exec_targets now st db))"
proof -
  have step: "map pt_status (sort_key pt_id (filter (\<lambda>t. pt_post_id t = pid)
          (update_where (fst st) (triggered now st) ts))) =
      map pt_status (sort_key pt_id (filter (\<lambda>t. pt_post_id t = pid) ts))" for pid ts
  proof -
    let ?g = "\<lambda>r. if fst st r then triggered now st r else r"
    have id: "pt_id (?g r) = pt_id r" and post: "pt_post_id (?g r) = pt_post_id r"
      and status: "pt_status (?g r) = pt_status r" for r
      using st neutral by (auto simp: stmt_ok_def status_neutral_def)
    have ins: "insort_key pt_id (?g r) (map ?g xs) = map ?g (insort_key pt_id r xs)" for r xs
      by (induction xs) (auto simp: id)
    have "sort_key pt_id (map ?g xs) = map ?g (sort_key pt_id xs)" for xs
      by (induction xs) (auto simp: ins)
    moreover have "filter (\<lambda>t. pt_post_id t = pid) (map ?g ts) =
        map ?g (filter (\<lambda>t. pt_post_id t = pid) ts)"
      by (simp add: filter_map comp_def post)
    ultimately show ?thesis by (simp add: update_where_def status comp_def)
  qed
  have "Resolve (children pid (snd (exec_targets now st db))) = Resolve (children pid db)" for pid
    by (rule Resolve_statuses) (simp add: children_def step)
  then show ?thesis using inv st exec_targets_wf by (simp add: post_inv_def aggregated_def)
qed

text \<open>Transactions: a body that keeps the invariant keeps it under every fault.\<close>

lemma run_tx_inv:
  assumes "post_inv db" and "\<And>a d. body db = Inr (a, d) \<Longrightarrow> post_inv d"
  shows "post_inv (snd (run_tx flt body db))"
  using assms by (auto simp: run_tx_def split: tx_fault.splits sum.splits)

lemma run_exec_inv:
  assumes "post_inv db" and "stmt_ok st" and "status_neutral st"
  shows "post_inv (snd (run_exec flt now st db))"
  unfolding run_exec_def using assms exec_neutral_inv [OF assms, of now]
  by (intro run_tx_inv) auto

lemma parent_unique:
  assumes "post_db_wf db" and "postIDForTargetTx tid db = Inr pid"
    and "r \<in> set (targets db)" and "pt_id r = tid"
  shows "pt_post_id r = pid"
proof -
  have "find_row pt_id tid (targets db) = Some r"
    using assms(1,3,4) find_row_unique [of pt_id "targets db" r] by (simp add: post_db_wf_def)
  then show ?thesis using assms(2) by (simp add: postIDForTargetTx_def)
qed

definition only_target :: "int \<Rightarrow> target_stmt \<Rightarrow> bool" where
  "only_target tid st \<longleftrightarrow> (\<forall>r. fst st r \<longrightarrow> pt_id r = tid)"

lemma only_target_simps [simp]:
  "only_target t (qUpdateTargetStatus s a b c t d e)"
  "only_target t (qUpdateTargetStatusWithLease s a b c t d e w)"
  "only_target t (qUpdateTargetStatusWithReconcileLease now s a b c t d e f w)"
  "only_target t (qRetryTargetResetTarget t)"
  "only_target t (qClaimQueuedTargetUpdate t)"
  "only_target t (qClaimQueuedTargetWithLeaseUpdate now t w secs)"
  "only_target t (qMarkDeadLetter now m t w)"
  "only_target t (qMarkRateLimitedRetryWithLease nx m t w)"
  "only_target t (qMarkRetrying nx m t w)"
  "only_target t (qMarkRateLimited nx t w)"
  "only_target t (qMarkDriveRequiredFailed now m t)"
  "only_target t (qReclaimExpiredLeaseByID now t w)"
  "only_target t (qSetTargetStatus s m t)"
  by (simp_all add: only_target_def stmt_defs)

text \<open>The shape all single-target transactions share.\<close>

lemma single_target_inv:
  assumes inv: "post_inv db" and pid: "postIDForTargetTx tid db = Inr pid"
    and ok: "persistAggregatePostStatusLockedTx pid (snd (exec_targets now st db)) = Inr (u, db')"
    and st: "stmt_ok st" and one: "only_target tid st"
  shows "post_inv db'"
proof (rule exec_persist_inv [OF inv st _ ok])
  show "\<forall>r \<in> set (targets db). fst st r \<longrightarrow> pt_post_id r = pid"
    using inv pid one parent_unique by (auto simp: post_inv_def only_target_def)
qed

lemma stmt_targets_post:
  "fst (qPublishPostTargetsReset p) r \<Longrightarrow> pt_post_id r = p"
  "fst (qCancelPostTargetsReset p) r \<Longrightarrow> pt_post_id r = p"
  "fst (qRetryPostResetFailedTargets p) r \<Longrightarrow> pt_post_id r = p"
  by (simp_all add: stmt_defs)

lemma claimTargetTx_inv:
  assumes "post_inv db" and "stmt_ok st" and "only_target tid st"
    and "claimTargetTx now tid st db = Inr (u, db')"
  shows "post_inv db'"
  using assms
  by (auto simp: claimTargetTx_def rbind_Inr_iff split_def Let_def split: if_splits
      intro: single_target_inv)

lemma mutateLeasedTargetTx_inv:
  assumes "post_inv db" and "stmt_ok (q tid w)" and "only_target tid (q tid w)"
    and "mutateLeasedTargetTx now tid w q db = Inr (u, db')"
  shows "post_inv db'"
  using assms
  by (auto simp: mutateLeasedTargetTx_def rbind_Inr_iff split_def Let_def exec_none
      split: if_splits intro: single_target_inv)

lemma resetPostTargets_inv:
  assumes "post_inv db" and "stmt_ok st" and "\<And>r. fst st r \<Longrightarrow> pt_post_id r = pid"
    and "resetPostTargetsAndAggregateTx now pid st db = Inr (u, db')"
  shows "post_inv db'"
  using assms
  by (auto simp: resetPostTargetsAndAggregateTx_def rbind_Inr_iff intro: exec_persist_inv)

lemma resetTarget_inv:
  assumes "post_inv db" and "resetTargetAndAggregateTx now tid db = Inr (u, db')"
  shows "post_inv db'"
  using assms
  by (auto simp: resetTargetAndAggregateTx_def rbind_Inr_iff split_def Let_def
      split: if_splits intro: single_target_inv)

lemma updateTargetStatusTx_inv:
  assumes "post_inv db" and "updateTargetStatusTx now t db = Inr (u, db')"
  shows "post_inv db'"
  using assms
  by (auto simp: updateTargetStatusTx_def rbind_Inr_iff split_def Let_def
      split: if_splits intro: single_target_inv)

lemma markDriveRequiredFailedTx_inv:
  assumes "post_inv db" and "markDriveRequiredFailedTx now tid m db = Inr (u, db')"
  shows "post_inv db'"
  using assms
  by (auto simp: markDriveRequiredFailedTx_def rbind_Inr_iff split_def Let_def
      split: if_splits intro: single_target_inv)

text \<open>Several parents: every parent whose children changed is recomputed.\<close>

lemma persist_aggregated:
  assumes "persistAggregatePostStatusLockedTx pid db = Inr (u, db')"
  shows "aggregated pid' db' \<longleftrightarrow> pid' = pid \<or> aggregated pid' db"
    and "post_db_wf db \<Longrightarrow> post_db_wf db'" and "targets db' = targets db"
  using assms
  by (auto elim!: persist_Inr simp: qUpdatePostAggregateStatus_aggregated
      qUpdatePostAggregateStatus_wf)

lemma recompute_parents_aggregated:
  assumes "recompute_parents pids db = Inr (u, db')" and "post_db_wf db"
  shows "post_db_wf db' \<and> (\<forall>pid. pid \<in> set pids \<or> aggregated pid db \<longrightarrow> aggregated pid db')"
  using assms
proof (induction pids arbitrary: db)
  case (Cons pid pids)
  then obtain d where d: "persistAggregatePostStatusLockedTx pid db = Inr ((), d)"
    and rest: "recompute_parents pids d = Inr (u, db')"
    by (auto simp: rbind_Inr_iff)
  from Cons.IH [OF rest] Cons.prems(2) show ?case
    by (auto simp: persist_aggregated [OF d])
qed simp

lemma cancelFutureJobsTx_inv:
  assumes inv: "post_inv db" and ok: "cancelFutureJobsTx now acc db = Inr (u, db')"
  shows "post_inv db'"
proof -
  let ?st = "qCancelFutureJobsForAccount acc"
  let ?pids = "map pt_post_id (filter (fst ?st) (targets db))"
  have "aggregated pid (snd (exec_targets now ?st db))" if "pid \<notin> set ?pids" for pid
    using that inv by (intro exec_aggregated_other) (auto simp: post_inv_def)
  moreover have "post_db_wf (snd (exec_targets now ?st db))"
    using inv by (simp add: exec_targets_wf post_inv_def)
  moreover have "recompute_parents (rev (remdups (rev ?pids))) (snd (exec_targets now ?st db)) =
      Inr (u, db')"
    using ok by (simp add: cancelFutureJobsTx_def Let_def)
  ultimately have "post_db_wf db' \<and> (\<forall>pid. pid \<in> set ?pids \<or> pid \<notin> set ?pids \<longrightarrow> aggregated pid db')"
    using recompute_parents_aggregated [of "rev (remdups (rev ?pids))"] by (metis set_remdups set_rev)
  then show ?thesis by (simp add: post_inv_def)
qed

lemma exec_row_origin:
  assumes "stmt_ok st" and "r \<in> set (targets (snd (exec_targets now st db)))"
  obtains r0 where "r0 \<in> set (targets db)" and "pt_id r = pt_id r0"
    and "pt_post_id r = pt_post_id r0"
proof -
  from assms(2) obtain r0 where "r0 \<in> set (targets db)" "r = (if fst st r0 then triggered now st r0 else r0)"
    by (auto simp: set_update_where)
  then show thesis using assms(1) that by (cases "fst st r0") (simp_all add: stmt_ok_def)
qed

definition parents_agree :: "target_row list \<Rightarrow> post_db \<Rightarrow> bool" where
  "parents_agree ts db \<longleftrightarrow>
     (\<forall>t \<in> set ts. \<forall>r \<in> set (targets db). pt_id r = pt_id t \<longrightarrow> pt_post_id r = pt_post_id t)"

lemma parents_agree_exec:
  assumes st: "stmt_ok st" and agree: "parents_agree (t # ts) db"
  shows "parents_agree ts (snd (exec_targets now st db))"
  unfolding parents_agree_def
proof (intro ballI impI)
  fix t' r assume t': "t' \<in> set ts" and r: "r \<in> set (targets (snd (exec_targets now st db)))"
    and eq: "pt_id r = pt_id t'"
  from st r obtain r0 where "r0 \<in> set (targets db)" "pt_id r = pt_id r0"
      "pt_post_id r = pt_post_id r0"
    by (rule exec_row_origin)
  with agree t' eq show "pt_post_id r = pt_post_id t'"
    unfolding parents_agree_def by (metis list.set_intros(2))
qed

lemma reclaim_loop_inv:
  assumes "reclaim_loop now me ts n db = Inr (m, db')" and "post_inv db" and "parents_agree ts db"
  shows "post_inv db'"
  using assms
proof (induction ts arbitrary: n db)
  case (Cons t ts)
  let ?st = "qReclaimExpiredLeaseByID now (pt_id t) me"
  let ?d = "snd (exec_targets now ?st db)"
  let ?n = "rows_affected (fst ?st) (targets db)"
  have agree: "parents_agree ts ?d" using parents_agree_exec Cons.prems(3) by simp
  show ?case
  proof (cases "?n = 0")
    case True
    then have "reclaim_loop now me ts n ?d = Inr (m, db')"
      using Cons.prems(1) by (auto simp: rbind_Inr_iff split_def Let_def)
    then show ?thesis using Cons.IH agree Cons.prems(2) exec_none [OF True] by simp
  next
    case False
    with Cons.prems(1) obtain d where
      d: "persistAggregatePostStatusLockedTx (pt_post_id t) ?d = Inr ((), d)"
      and rest: "reclaim_loop now me ts (n + ?n) d = Inr (m, db')"
      by (auto simp: rbind_Inr_iff split_def Let_def)
    have local: "\<forall>r \<in> set (targets db). fst ?st r \<longrightarrow> pt_post_id r = pt_post_id t"
      using Cons.prems(3) unfolding parents_agree_def qReclaimExpiredLeaseByID_def by simp
    have "post_inv d" by (rule exec_persist_inv [OF Cons.prems(2) _ local d]) simp
    moreover have "parents_agree ts d"
      using agree persist_aggregated(3) [OF d] by (simp add: parents_agree_def)
    ultimately show ?thesis using Cons.IH [OF rest] by simp
  qed
qed simp

lemma repair_one_inv:
  assumes "post_inv db" and "repair_one pid db = Inr (a, db')"
  shows "post_inv db'"
proof -
  from assms(2) obtain s where s: "Resolve (children pid db) = Inr s"
    and "db' = db \<or> db' = qUpdatePostAggregateStatus s pid db"
    by (auto simp: repair_one_def resolvePostStatusLockedTx_def rbind_Inr_iff
        split: option.splits sum.splits if_splits)
  then show ?thesis
    using assms(1) qUpdatePostAggregateStatus_wf
    by (auto simp: post_inv_def qUpdatePostAggregateStatus_aggregated [OF s])
qed

lemma repair_sweep_inv: "post_inv db \<Longrightarrow> post_inv (snd (repair_sweep flt pids n db))"
proof (induction pids arbitrary: n db)
  case (Cons pid pids)
  then show ?case
    using repair_one_inv [OF Cons.prems, of pid]
    by (auto simp: Let_def split: sum.splits post_err.splits prod.splits)
qed simp

lemma RepairDirty_inv:
  assumes "post_inv db"
  shows "post_inv (snd (RepairDirtyAggregatePost flt pid db))"
proof -
  have "post_inv d'" if "persistAggregatePostStatusLockedTx pid db = Inr (u, d')" for u d'
    using that assms persist_aggregated [OF that] by (simp add: post_inv_def)
  moreover have "post_inv (d\<lparr>repair_queue := q\<rparr>) = post_inv d" for d q
    by (simp add: post_inv_def post_db_wf_def aggregated_def children_def)
  ultimately show ?thesis using assms
    by (auto simp: RepairDirtyAggregatePost_def rbind_Inr_iff split: if_splits intro!: run_tx_inv)
qed

lemma UpdateStatusWithLease_inv:
  assumes "post_inv db"
  shows "post_inv (snd (UpdateStatusWithLease flt now t w db))"
proof -
  have *: "post_inv d" if "postIDForTargetTx (pt_id t') db = Inr pid"
    "persistAggregatePostStatusLockedTx pid (snd (exec_targets now
      (qUpdateTargetStatusWithLease (pt_status t') a b c (pt_id t') e f w) db)) = Inr (u, d)"
    for t' :: "'a PostTarget_scheme" and pid a b c e f u d
    by (rule single_target_inv [OF assms that]) simp_all
  show ?thesis using assms
    by (auto simp: UpdateStatusWithLease_def split_def Let_def rbind_Inr_iff
        split: option.splits sum.splits dest!: *)
qed

lemma UpdateReconcileStatusWithLease_inv:
  assumes "post_inv db"
  shows "post_inv (snd (UpdateReconcileStatusWithLease flt now t w db))"
  using assms
  by (auto simp: UpdateReconcileStatusWithLease_def rbind_Inr_iff split_def Let_def
      split: option.splits if_splits intro!: run_tx_inv) (erule (2) single_target_inv; simp)

lemma setTargetStatus_inv:
  assumes "post_inv db"
  shows "post_inv (snd (SetTargetStatus flt now tid s m db))"
  using assms
  by (auto simp: SetTargetStatus_def setTargetStatusWithAggregate_def rbind_Inr_iff split_def Let_def
      split: if_splits intro!: run_tx_inv) (erule (2) single_target_inv; simp)

lemma leased_ops_inv:
  assumes "post_inv db"
  shows "post_inv (snd (pt_MarkDeadLetter flt now tid w m db))"
    "post_inv (snd (pt_MarkRetrying flt now tid w m nx db))"
    "post_inv (snd (MarkRateLimitedRetryWithLease flt now tid w nx m db))"
    "post_inv (snd (pt_MarkRateLimited flt now tid w nx db))"
  using assms
  by (auto simp: pt_MarkDeadLetter_def pt_MarkRetrying_def MarkRateLimitedRetryWithLease_def
      pt_MarkRateLimited_def mutateLeasedTarget_def intro!: run_tx_inv
      elim!: mutateLeasedTargetTx_inv [rotated 3])

lemma neutral_ops_inv:
  assumes "post_inv db"
  shows "post_inv (snd (UpdatePublishProgress flt now tid w off ps ttl db))"
    "post_inv (snd (pt_ReleaseLease flt now tid w db))"
    "post_inv (snd (MarkDeliveryDispatchFailed flt now tid c db))"
    "post_inv (snd (ClaimPublishingTarget flt now lk tid w ttl db))"
    "post_inv (snd (HeartbeatReconcileTarget flt now tid w ttl db))"
    "post_inv (snd (ReleaseReconcileTarget flt now tid w db))"
    "post_inv (snd (ScheduleNextReconcileWithLease flt now tid w a nxt inc c m db))"
    "post_inv (snd (ScheduleNextReconcile flt now tid w a nxt db))"
  using assms
  by (simp_all add: UpdatePublishProgress_def pt_ReleaseLease_def MarkDeliveryDispatchFailed_def
      ClaimPublishingTarget_def HeartbeatReconcileTarget_def ReleaseReconcileTarget_def
      ScheduleNextReconcileWithLease_def ScheduleNextReconcile_def split_def Let_def run_exec_inv
      split: sum.splits option.splits)

lemma reset_ops_inv:
  assumes "post_inv db"
  shows "post_inv (snd (RetryPost flt now pid db))" "post_inv (snd (PublishPost flt now pid db))"
    "post_inv (snd (CancelPost flt now pid db))" "post_inv (snd (RetryTarget flt now tid db))"
    "post_inv (snd (CancelFutureJobs flt now acc db))"
    "post_inv (snd (MarkDriveRequiredFailed flt now tid m db))"
    "post_inv (snd (updateStatusWithAggregate flt now t db))"
  using assms
  by (auto simp: RetryPost_def PublishPost_def CancelPost_def RetryTarget_def CancelFutureJobs_def
      MarkDriveRequiredFailed_def updateStatusWithAggregate_def split: option.splits
      intro!: run_tx_inv dest: resetTarget_inv cancelFutureJobsTx_inv markDriveRequiredFailedTx_inv
      updateTargetStatusTx_inv elim!: resetPostTargets_inv [rotated 3] stmt_targets_post)

lemma claim_ops_inv:
  assumes "post_inv db"
  shows "post_inv (snd (ClaimQueuedTargetWithLease flt now lk tid w ttl db))"
    "post_inv (snd (ClaimWaitingProviderTarget flt now lk tid db))"
  using assms
  by (auto simp: ClaimQueuedTargetWithLease_def ClaimWaitingProviderTarget_def rbind_Inr_iff
      split: option.splits intro!: run_tx_inv elim!: claimTargetTx_inv [rotated 3])

lemma reclaim_op_inv:
  assumes "post_inv db"
  shows "post_inv (snd (pt_ReclaimExpiredLeases flt now lk w db))"
proof -
  have "parents_agree ts db" if "set ts \<subseteq> set (targets db)" for ts
    using assms that unfolding parents_agree_def post_inv_def post_db_wf_def
    by (metis eq_key_imp_eq_value map_of_eq_Some_iff subsetD distinct_map inj_onD)
  then show ?thesis using assms
    by (auto simp: pt_ReclaimExpiredLeases_def intro!: run_tx_inv elim!: reclaim_loop_inv)
qed

lemma post_step_inv: "post_inv db \<Longrightarrow> post_inv (post_step f now lk op db)"
  by (cases op)
    (simp_all add: reset_ops_inv claim_ops_inv neutral_ops_inv leased_ops_inv setTargetStatus_inv
      UpdateStatusWithLease_inv UpdateReconcileStatusWithLease_inv reclaim_op_inv RepairDirty_inv
      RepairAggregateStatusForPost_def RepairAggregateStatuses_def repair_sweep_inv run_tx_inv
      repair_one_inv)


definition sample_target :: "int \<Rightarrow> int \<Rightarrow> PostStatus \<Rightarrow> target_row" where
  "sample_target tid pid s =
     \<lparr>pt_id = tid, pt_post_id = pid, pt_account = 7, pt_status = s, pt_attempt_count = 0,
      pt_next_attempt_at = None, pt_reconcile_attempt = 0, pt_next_reconcile_at = None,
      pt_reconcile_owner = None, pt_reconcile_until = None, pt_reconcile_heartbeat = None,
      pt_platform_post_id = '''', pt_error_message = '''', pt_published_at = None,
      pt_completed_at = None, pt_provider_state = '''', pt_container_id = '''',
      pt_last_error_code = '''', pt_provider_idempotency_key = None, pt_version = 0,
      lease_owner_id = None, leased_until = None, heartbeat_at = None, next_retry_at = None,
      rate_limit_reset_at = None, upload_offset = 0\<rparr>"

definition sample_db :: post_db where
  "sample_db =
     \<lparr>posts = [blank_post\<lparr>p_id := 1, p_workspace_id := 1, p_status := PSQueued\<rparr>],
      targets = [sample_target 10 1 PSQueued, sample_target 11 1 PSPublished],
      repair_queue = []\<rparr>"

lemma sample_db_inv: "post_inv sample_db"
proof -
  have "children 1 sample_db = [sample_target 10 1 PSQueued, sample_target 11 1 PSPublished]"
    by (simp add: children_def sample_db_def sample_target_def)
  then have "aggregated 1 sample_db"
    by (simp add: aggregated_def sample_db_def sample_target_def Resolve_def agg_init_def
        agg_decide_def)
  moreover have "aggregated pid sample_db" if "pid \<noteq> 1" for pid
    using that by (simp add: aggregated_def sample_db_def)
  ultimately have "aggregated pid sample_db" for pid by (cases "pid = 1") auto
  moreover have "post_db_wf sample_db"
    by (simp add: post_db_wf_def sample_db_def sample_target_def)
  ultimately show ?thesis by (simp add: post_inv_def)
qed



section \<open>The repair sweep heals any drift\<close>

lemma repair_one_ok:
  assumes wf: "post_db_wf db" and p: "p \<in> set (posts db)" "p_id p = pid"
    and known: "\<forall>t \<in> set (targets db). ps_known (pt_status t)"
  shows "\<exists>o' s c db'. repair_one pid db = Inr ((o', s, c), db') \<and> aggregated pid db' \<and>
    post_db_wf db' \<and> targets db' = targets db \<and> map p_id (posts db') = map p_id (posts db) \<and>
    (\<forall>pid'. aggregated pid' db \<longrightarrow> aggregated pid' db')"
proof -
  have row: "find_row p_id pid (posts db) = Some p"
    using wf p find_row_unique [of p_id "posts db" p] by (simp add: post_db_wf_def)
  have "\<forall>t \<in> set (children pid db). ps_known (pt_status t)"
    using known by (simp add: children_def)
  then obtain s where s: "Resolve (children pid db) = Inr s" using Resolve_known by blast
  show ?thesis
  proof (cases "p_status p = s")
    case True
    have "r = p" if "r \<in> set (posts db)" "p_id r = pid" for r
      using wf p that row find_row_unique [of p_id "posts db" r] by (simp add: post_db_wf_def)
    then have "aggregated pid db" using s True by (auto simp: aggregated_def)
    then show ?thesis using row s True wf
      by (auto simp: repair_one_def resolvePostStatusLockedTx_def)
  next
    case False
    then show ?thesis
      using row s qUpdatePostAggregateStatus_aggregated [OF s] qUpdatePostAggregateStatus_wf [OF wf]
      by (auto simp: repair_one_def resolvePostStatusLockedTx_def)
        (simp add: qUpdatePostAggregateStatus_def map_update_where)
  qed
qed

lemma repair_sweep_heals:
  assumes "post_db_wf db" and "\<forall>t \<in> set (targets db). ps_known (pt_status t)"
    and "set pids \<subseteq> p_id ` set (posts db)"
  shows "\<exists>m db'. repair_sweep (\<lambda>_. TxOk) pids n db = ((m, None), db') \<and> post_db_wf db' \<and>
    targets db' = targets db \<and>
    (\<forall>pid. pid \<in> set pids \<or> aggregated pid db \<longrightarrow> aggregated pid db')"
  using assms
proof (induction pids arbitrary: n db)
  case (Cons pid pids)
  then obtain p where p: "p \<in> set (posts db)" "p_id p = pid" by auto
  obtain o' s c d where d: "repair_one pid db = Inr ((o', s, c), d)" "aggregated pid d" "post_db_wf d"
      "targets d = targets db" "map p_id (posts d) = map p_id (posts db)"
      "\<forall>pid'. aggregated pid' db \<longrightarrow> aggregated pid' d"
    using repair_one_ok [OF Cons.prems(1) p Cons.prems(2)] by blast
  have "p_id ` set (posts d) = p_id ` set (posts db)" using d(5) by (metis set_map)
  then have "set pids \<subseteq> p_id ` set (posts d)" using Cons.prems(3) by simp
  then obtain m db' where
      rest: "repair_sweep (\<lambda>_. TxOk) pids (if c then n + 1 else n) d = ((m, None), db')"
    and "post_db_wf db'" "targets db' = targets d"
      "\<forall>pid. pid \<in> set pids \<or> aggregated pid d \<longrightarrow> aggregated pid db'"
    using Cons.IH [of d "if c then n + 1 else n"] Cons.prems(2) d(3,4) by auto
  moreover have "repair_sweep (\<lambda>_. TxOk) (pid # pids) n db = ((m, None), db')"
    using d(1) rest by simp
  ultimately show ?case using d(2,4,6) by auto
qed simp

lemma repair_sweep_fixpoint:
  assumes "post_inv db"
  shows "repair_sweep (\<lambda>_. TxOk) pids n db = ((n, None), db)"
proof (induction pids)
  case (Cons pid pids)
  have "repair_one pid db = Inl ErrPostNotFound \<or>
      (\<exists>o' s. repair_one pid db = Inr ((o', s, False), db))"
    using assms find_row_SomeD [of p_id pid "posts db"]
    by (auto simp: repair_one_def post_inv_def aggregated_def resolvePostStatusLockedTx_def
        split: option.splits)
  then show ?case using Cons by auto
qed simp

text \<open>
  C31: from any drift of the parent statuses (keys intact, target statuses known) one full
  run of the repair sweep succeeds, restores the aggregate of every post without touching a
  target, and a second run finds nothing to repair.
\<close>

theorem RepairAggregateStatuses_heals:
  assumes "post_db_wf db" and "\<forall>t \<in> set (targets db). ps_known (pt_status t)"
  shows "\<exists>n db'. RepairAggregateStatuses (\<lambda>_. TxOk) db = ((n, None), db') \<and> post_inv db' \<and>
    targets db' = targets db \<and> RepairAggregateStatuses (\<lambda>_. TxOk) db' = ((0, None), db')"
proof -
  let ?pids = "map p_id (sort_key p_id (posts db))"
  obtain n db' where run: "repair_sweep (\<lambda>_. TxOk) ?pids 0 db = ((n, None), db')"
    "post_db_wf db'" "targets db' = targets db"
    "\<forall>pid. pid \<in> set ?pids \<or> aggregated pid db \<longrightarrow> aggregated pid db'"
    using repair_sweep_heals [OF assms, of ?pids 0] by auto
  have "aggregated pid db" if "pid \<notin> set ?pids" for pid
    using that by (auto simp: aggregated_def)
  with run have "post_inv db'" unfolding post_inv_def by blast
  then show ?thesis using run repair_sweep_fixpoint
    by (auto simp: RepairAggregateStatuses_def)
qed

definition drifted_db :: post_db where
  "drifted_db = sample_db\<lparr>posts := [blank_post\<lparr>p_id := 1, p_workspace_id := 1, p_status := PSFailed\<rparr>]\<rparr>"

theorem RepairAggregateStatuses_heals_witness:
  "\<exists>n db'. RepairAggregateStatuses (\<lambda>_. TxOk) drifted_db = ((n, None), db') \<and> post_inv db' \<and>
    targets db' = targets drifted_db \<and> RepairAggregateStatuses (\<lambda>_. TxOk) db' = ((0, None), db')"
  by (rule RepairAggregateStatuses_heals)
    (simp_all add: drifted_db_def sample_db_def sample_target_def post_db_wf_def)

section \<open>The publish lease\<close>

text \<open>The writes that compare \<open>lease_owner_id\<close>, as one family.\<close>

datatype leased_write =
    LwProgress int int string int | LwRelease int | LwDeadLetter int string
  | LwRetrying int string time | LwRateLimitedRetry int time string | LwRateLimited int time
  | LwUpdateStatus PostStatus string string "time option" int string string

fun leased_stmt :: "time \<Rightarrow> string \<Rightarrow> leased_write \<Rightarrow> target_stmt" where
  "leased_stmt now w (LwProgress t off ps secs) = qUpdatePublishProgress now t w off ps secs"
| "leased_stmt now w (LwRelease t) = qReleaseLease t w"
| "leased_stmt now w (LwDeadLetter t m) = qMarkDeadLetter now m t w"
| "leased_stmt now w (LwRetrying t m nx) = qMarkRetrying nx m t w"
| "leased_stmt now w (LwRateLimitedRetry t nx m) = qMarkRateLimitedRetryWithLease nx m t w"
| "leased_stmt now w (LwRateLimited t nx) = qMarkRateLimited nx t w"
| "leased_stmt now w (LwUpdateStatus s a b c t d e) = qUpdateTargetStatusWithLease s a b c t d e w"

interpretation pt_lease: lease_cas pt_id lease_owner_id
  "\<lambda>now w a. fst (leased_stmt (fst a) w (snd a))" "\<lambda>now w a. triggered now (leased_stmt (fst a) w (snd a))"
proof
  have "fst (leased_stmt t w a) r \<Longrightarrow> lease_owner_id r = Some w \<and> pt_id (snd (leased_stmt t w a) r) = pt_id r" for t w a r
    by (cases a) (simp_all add: stmt_defs)
  then show "fst (leased_stmt (fst a) w (snd a)) r \<Longrightarrow> lease_owner_id r = Some w"
    "fst (leased_stmt (fst a) w (snd a)) r \<Longrightarrow> pt_id (triggered now (leased_stmt (fst a) w (snd a)) r) = pt_id r"
    for now w r and a :: "time \<times> leased_write"
    by auto
qed

text \<open>
  The events of the other workers while worker \<open>w\<close> holds target \<open>tid\<close> until time
  \<open>u\<close>: claims of anyone, lease-guarded writes of workers other than \<open>w\<close>, reclaims that
  run before the lease expires, and repairs of the aggregate.
\<close>

fun peer_event :: "string \<Rightarrow> time \<Rightarrow> post_event \<Rightarrow> bool" where
  "peer_event w u (f, now, lk, op) =
     (case op of
        PoClaim t w' ttl \<Rightarrow> True
      | PoProgress t w' off ps ttl \<Rightarrow> w' \<noteq> w
      | PoReleaseLease t w' \<Rightarrow> w' \<noteq> w
      | PoDeadLetter t w' m \<Rightarrow> w' \<noteq> w
      | PoRetrying t w' m nx \<Rightarrow> w' \<noteq> w
      | PoRateLimitedRetry t w' nx m \<Rightarrow> w' \<noteq> w
      | PoRateLimited t w' nx \<Rightarrow> w' \<noteq> w
      | PoUpdateStatusWithLease t w' \<Rightarrow> w' \<noteq> w
      | PoReclaim w' \<Rightarrow> now < u
      | PoRepairDirty p \<Rightarrow> True
      | PoRepairPost p \<Rightarrow> True
      | PoRepairAll \<Rightarrow> True
      | _ \<Rightarrow> False)"

definition held_row :: "int \<Rightarrow> string \<Rightarrow> time \<Rightarrow> target_row \<Rightarrow> post_db \<Rightarrow> bool" where
  "held_row tid w u r db \<longleftrightarrow>
     find_row pt_id tid (targets db) = Some r \<and> pt_status r = PSPublishing \<and>
     lease_owner_id r = Some w \<and> leased_until r = Some u"

lemma held_row_targets: "held_row tid w u r db \<Longrightarrow> targets db' = targets db \<Longrightarrow> held_row tid w u r db'"
  by (simp add: held_row_def)

lemma held_row_exec:
  assumes "held_row tid w u r db" and "\<not> fst st r" and "stmt_ok st"
  shows "held_row tid w u r (snd (exec_targets now st db))"
  using assms by (simp add: held_row_def find_row_update_where stmt_ok_def)

lemma held_row_leased:
  assumes "held_row tid w u r db" and "w' \<noteq> w"
  shows "held_row tid w u r (snd (exec_targets now (leased_stmt now' w' a) db))"
  using assms pt_lease.peer_write_keeps [where k = tid and t = "targets db" and a = "(now', a)" and now = now]
  by (simp add: held_row_def)

lemma held_row_persist:
  assumes "held_row tid w u r db" and "persistAggregatePostStatusLockedTx pid db = Inr (x, db')"
  shows "held_row tid w u r db'"
  using assms persist_aggregated(3) by (metis held_row_targets)

lemma run_tx_held:
  assumes "held_row tid w u r db" and "\<And>a d. body db = Inr (a, d) \<Longrightarrow> held_row tid w u r d"
  shows "held_row tid w u r (snd (run_tx flt body db))"
  using assms by (auto simp: run_tx_def split: tx_fault.splits sum.splits)

lemma mutateLeased_held:
  assumes "held_row tid w u r db" and "w' \<noteq> w" and "q tid' w' = leased_stmt now' w' a"
  shows "held_row tid w u r (snd (mutateLeasedTarget flt now tid' w' q db))"
  unfolding mutateLeasedTarget_def
proof (rule run_tx_held [OF assms(1)])
  fix x d assume "mutateLeasedTargetTx now tid' w' q db = Inr (x, d)"
  then show "held_row tid w u r d"
    using held_row_leased [OF assms(1,2), of now now' a]
    by (auto simp: mutateLeasedTargetTx_def rbind_Inr_iff split_def Let_def assms(3)
        split: if_splits intro: held_row_persist)
qed

lemma claim_held:
  assumes "held_row tid w u r db"
  shows "held_row tid w u r (snd (ClaimQueuedTargetWithLease flt now lk tid' w' ttl db))"
proof -
  have "\<not> fst (qClaimQueuedTargetWithLeaseUpdate now tid' w' secs) r" for secs
    using assms by (simp add: stmt_defs held_row_def)
  then have "held_row tid w u r
      (snd (exec_targets now (qClaimQueuedTargetWithLeaseUpdate now tid' w' secs) db))" for secs
    using held_row_exec [OF assms] by simp
  then show ?thesis using assms
    by (auto simp: ClaimQueuedTargetWithLease_def claimTargetTx_def rbind_Inr_iff split_def Let_def
        split: option.splits if_splits intro!: run_tx_held elim!: held_row_persist [rotated])
qed

lemma repair_targets:
  "targets (snd (RepairDirtyAggregatePost f p db)) = targets db"
  "targets (snd (RepairAggregateStatusForPost f p db)) = targets db"
  "targets (snd (repair_sweep flt pids n db)) = targets db"
proof -
  show "targets (snd (RepairDirtyAggregatePost f p db)) = targets db"
    by (auto simp: RepairDirtyAggregatePost_def run_tx_def rbind_Inr_iff persist_aggregated(3)
        split: tx_fault.splits sum.splits if_splits)
  have one: "repair_one p d = Inr (a, d') \<Longrightarrow> targets d' = targets d" for p a d d'
    by (auto simp: repair_one_def rbind_Inr_iff split: option.splits if_splits)
  then show "targets (snd (RepairAggregateStatusForPost f p db)) = targets db"
    by (auto simp: RepairAggregateStatusForPost_def run_tx_def split: tx_fault.splits sum.splits)
  show "targets (snd (repair_sweep flt pids n db)) = targets db"
    by (induction pids arbitrary: n db)
      (auto simp: Let_def one split: sum.splits post_err.splits prod.splits)
qed

lemma reclaim_loop_held:
  assumes "reclaim_loop now me ts n db = Inr (m, db')" and "held_row tid w u r db"
    and "\<forall>t \<in> set ts. pt_id t \<noteq> tid"
  shows "held_row tid w u r db'"
  using assms
proof (induction ts arbitrary: n db)
  case (Cons t ts)
  let ?st = "qReclaimExpiredLeaseByID now (pt_id t) me"
  let ?d = "snd (exec_targets now ?st db)"
  have "pt_id r = tid" using Cons.prems(2) find_row_SomeD by (fastforce simp: held_row_def)
  then have "\<not> fst ?st r" using Cons.prems(3) by (simp add: stmt_defs)
  then have d: "held_row tid w u r ?d" using held_row_exec [OF Cons.prems(2)] by simp
  have "\<exists>k d'. reclaim_loop now me ts k d' = Inr (m, db') \<and> held_row tid w u r d'"
    using Cons.prems(1) d held_row_persist [OF d]
    by (auto simp: rbind_Inr_iff split_def Let_def split: if_splits)
  then show ?case using Cons.IH Cons.prems(3) by auto
qed simp

lemma reclaim_held:
  assumes held: "held_row tid w u r db" and wf: "post_db_wf db" and early: "now < u"
  shows "held_row tid w u r (snd (pt_ReclaimExpiredLeases flt now lk w' db))"
proof -
  have "pt_id t \<noteq> tid" if "t \<in> set (targets db)" "lease_expired_for now w' t" for t
  proof
    assume "pt_id t = tid"
    then have "t = r"
      using held wf that(1) find_row_unique [of pt_id "targets db" t]
      by (simp add: held_row_def post_db_wf_def)
    then show False using that(2) held early by (simp add: lease_expired_for_def held_row_def)
  qed
  then show ?thesis using held
    by (auto simp: pt_ReclaimExpiredLeases_def intro!: run_tx_held elim!: reclaim_loop_held) blast
qed

lemma update_with_lease_held:
  assumes "held_row tid w u r db" and "w' \<noteq> w"
  shows "held_row tid w u r (snd (UpdateStatusWithLease flt now t w' db))"
proof (cases t)
  case None
  then show ?thesis using assms by (simp add: UpdateStatusWithLease_def)
next
  case (Some t')
  let ?a = "LwUpdateStatus (pt_status t') (pt_platform_post_id t') (pt_error_message t')
    (pt_published_at t') (pt_id t') (pt_provider_state t') (pt_container_id t')"
  show ?thesis using Some assms(1) held_row_leased [OF assms, of now now ?a]
    by (auto simp: UpdateStatusWithLease_def split_def Let_def
        split: sum.splits elim!: held_row_persist [rotated])
qed

lemma peer_step_held:
  assumes held: "held_row tid w u r db" and wf: "post_db_wf db"
    and peer: "peer_event w u (f, now, lk, op)"
  shows "held_row tid w u r (post_step f now lk op db)"
proof -
  have progress: "held_row tid w u r (snd (run_exec f now (leased_stmt now w' a) db))"
    if "w' \<noteq> w" for w' a
    unfolding run_exec_def using held_row_leased [OF held that, of now now a]
    by (intro run_tx_held [OF held]) auto
  show ?thesis using peer
  proof (cases op)
    case (PoProgress t w' off ps ttl)
    then show ?thesis
      using held peer progress [of w' "LwProgress t off ps (lease_seconds ttl)"]
      by (simp add: UpdatePublishProgress_def split_def Let_def)
  next
    case (PoReleaseLease t w')
    then show ?thesis using held peer progress [of w' "LwRelease t"]
      by (simp add: pt_ReleaseLease_def split_def Let_def)
  next
    case (PoDeadLetter t w' m)
    then show ?thesis
      using held peer mutateLeased_held [OF held, of w' _ t now "LwDeadLetter t m"]
      by (simp add: pt_MarkDeadLetter_def)
  next
    case (PoRetrying t w' m nx)
    then show ?thesis
      using held peer mutateLeased_held [OF held, of w' _ t now "LwRetrying t m nx"]
      by (simp add: pt_MarkRetrying_def)
  next
    case (PoRateLimitedRetry t w' nx m)
    then show ?thesis
      using held peer mutateLeased_held [OF held, of w' _ t now "LwRateLimitedRetry t nx m"]
      by (simp add: MarkRateLimitedRetryWithLease_def)
  next
    case (PoRateLimited t w' nx)
    then show ?thesis
      using held peer mutateLeased_held [OF held, of w' _ t now "LwRateLimited t nx"]
      by (simp add: pt_MarkRateLimited_def)
  qed (simp_all add: claim_held reclaim_held [OF held wf] update_with_lease_held [OF held]
      held_row_targets [OF held] repair_targets RepairAggregateStatuses_def)
qed

text \<open>
  C21: while worker w holds the publish lease of a target, nothing the other workers do to
  that target has an effect. Claims, lease-guarded writes of other workers, lease reclaims
  that run before the expiry and aggregate repairs, in any order and number and with any
  fault, leave its row exactly as it was.
\<close>

theorem publish_lease_exclusive:
  assumes "post_inv db" and "held_row tid w u r db" and "\<forall>e \<in> set es. peer_event w u e"
  shows "held_row tid w u r (post_exec es db)"
  using assms
proof (induction es arbitrary: db)
  case Nil
  then show ?case by (simp add: post_exec_def)
next
  case (Cons e es)
  obtain f now lk op where e: "e = (f, now, lk, op)" by (cases e) auto
  let ?db = "post_step f now lk op db"
  have "held_row tid w u r ?db"
    using peer_step_held [OF Cons.prems(2)] Cons.prems(1,3) by (simp add: e post_inv_def)
  then have "held_row tid w u r (post_exec es ?db)"
    using Cons.IH post_step_inv [OF Cons.prems(1)] Cons.prems(3) by simp
  then show ?case by (simp add: post_exec_def e)
qed

text \<open>What a successful claim gives the worker, and when it succeeds.\<close>

lemma lease_seconds_pos: "lease_seconds ttl \<ge> 1"
  by (simp add: lease_seconds_def)

lemma known_of_inv:
  assumes "post_inv db" and "t \<in> set (targets db)"
  shows "ps_known (pt_status t)"
proof -
  obtain p where p: "p \<in> set (posts db)" "p_id p = pt_post_id t"
    using assms by (fastforce simp: post_inv_def post_db_wf_def)
  then have "Resolve (children (pt_post_id t) db) = Inr (p_status p)"
    using assms(1) by (auto simp: post_inv_def aggregated_def)
  from Resolve_InrD(1) [OF this] show ?thesis using assms(2) by (auto simp: children_def)
qed

lemma persist_succeeds:
  assumes "\<forall>t \<in> set (targets db). ps_known (pt_status t)"
  shows "\<exists>db'. persistAggregatePostStatusLockedTx pid db = Inr ((), db') \<and> targets db' = targets db"
  using Resolve_known [of "children pid db"] assms
  by (simp add: persistAggregatePostStatusLockedTx_def resolvePostStatusLockedTx_def children_def)

lemma parent_lookup:
  assumes "post_inv db" and "find_row pt_id tid (targets db) = Some r"
  shows "postIDForTargetTx tid db = Inr (pt_post_id r)" and "lockPostTx (pt_post_id r) db = Inr ()"
proof -
  show "postIDForTargetTx tid db = Inr (pt_post_id r)" by (simp add: postIDForTargetTx_def assms)
  have "pt_post_id r \<in> p_id ` set (posts db)"
    using assms(1) find_row_SomeD [OF assms(2)] by (auto simp: post_inv_def post_db_wf_def)
  then show "lockPostTx (pt_post_id r) db = Inr ()"
    by (auto simp: lockPostTx_def find_row_None_iff)
qed

lemma claimTargetTx_succeeds:
  assumes inv: "post_inv db" and row: "find_row pt_id tid (targets db) = Some r"
    and hit: "fst st r" and known: "\<And>x. ps_known (pt_status (snd st x))"
  shows "\<exists>db'. claimTargetTx now tid st db = Inr ((), db') \<and>
    targets db' = update_where (fst st) (triggered now st) (targets db)"
proof -
  have "rows_affected (fst st) (targets db) \<noteq> 0"
    using hit find_row_SomeD [OF row] by (auto simp: rows_affected_0_iff)
  moreover have "\<forall>t \<in> set (targets (snd (exec_targets now st db))). ps_known (pt_status t)"
    using known known_of_inv [OF inv] by (auto simp: set_update_where)
  ultimately show ?thesis
    using parent_lookup [OF inv row] persist_succeeds [of "snd (exec_targets now st db)" "pt_post_id r"]
    by (simp add: claimTargetTx_def split_def Let_def)
qed

text \<open>
  The claim of a target with a lease succeeds exactly when the target is claimable and
  not locked by another transaction. The row then is 'publishing', due for the reconciler, owned by the caller and
  leased for the requested time, at least one second, and no other row changes; otherwise
  the table does not change.
\<close>

theorem ClaimQueuedTargetWithLease_correct:
  assumes inv: "post_inv db" and args: "w \<noteq> []" "0 < ttl"
    and row: "find_row pt_id tid (targets db) = Some r"
  shows "\<exists>db'. ClaimQueuedTargetWithLease TxOk now lk tid w ttl db =
      (Inr (claimable_with_lease now r \<and> \<not> lk tid), db') \<and>
    targets db' =
      (if claimable_with_lease now r \<and> \<not> lk tid
       then update_where (\<lambda>x. x = r)
         (\<lambda>x. x\<lparr>pt_status := PSPublishing, lease_owner_id := Some w,
            leased_until := Some (now + max 1 (ttl div second) * second),
            heartbeat_at := Some now, pt_reconcile_attempt := 0, pt_next_reconcile_at := Some now,
            pt_reconcile_owner := None, pt_reconcile_until := None, pt_reconcile_heartbeat := None\<rparr>)
         (targets db)
       else targets db)"
proof (cases "claimable_with_lease now r \<and> \<not> lk tid")
  case True
  let ?st = "qClaimQueuedTargetWithLeaseUpdate now tid w (lease_seconds ttl)"
  have r: "r \<in> set (targets db)" "pt_id r = tid" using find_row_SomeD [OF row] by auto
  have hit: "fst ?st r" using True r(2) by (simp add: stmt_defs claimable_with_lease_def)
  obtain db' where db': "claimTargetTx now tid ?st db = Inr ((), db')"
      "targets db' = update_where (fst ?st) (triggered now ?st) (targets db)"
    using claimTargetTx_succeeds [OF inv row hit, of now] by (auto simp: stmt_defs)
  have uniq: "x = r" if "x \<in> set (targets db)" "pt_id x = tid" for x
    using that inv row find_row_unique [of pt_id "targets db" x]
    by (simp add: post_inv_def post_db_wf_def)
  have "fst ?st x \<longleftrightarrow> x = r" if "x \<in> set (targets db)" for x
    using that hit uniq only_target_simps(6) [of tid now w "lease_seconds ttl"]
    unfolding only_target_def by metis
  then have "update_where (fst ?st) (triggered now ?st) (targets db) =
      update_where (\<lambda>x. x = r) (triggered now ?st) (targets db)"
    by (intro update_where_cong) blast
  also have "\<dots> = update_where (\<lambda>x. x = r) (\<lambda>x. (snd ?st x)\<lparr>pt_reconcile_attempt := 0, pt_next_reconcile_at := Some now,
      pt_reconcile_owner := None, pt_reconcile_until := None, pt_reconcile_heartbeat := None\<rparr>) (targets db)"
    using True by (intro update_where_eqI)
      (auto simp: reset_reconcile_schedule_on_publish_start_def stmt_defs claimable_with_lease_def)
  finally have only: "update_where (fst ?st) (triggered now ?st) (targets db) = \<dots>" .
  obtain x where "List.find (\<lambda>r. pt_id r = tid \<and> claimable_with_lease now r \<and> \<not> lk tid) (targets db) = Some x"
    using True r by (cases "List.find (\<lambda>r. pt_id r = tid \<and> claimable_with_lease now r \<and> \<not> lk tid) (targets db)")
      (auto simp: find_None_iff)
  then show ?thesis using args True db' only
    by (simp add: ClaimQueuedTargetWithLease_def run_tx_def)
      (simp add: stmt_defs lease_seconds_def)
next
  case False
  have "List.find (\<lambda>r. pt_id r = tid \<and> claimable_with_lease now r \<and> \<not> lk tid) (targets db) = None"
    using False inv row find_row_unique [of pt_id "targets db"]
    by (auto simp: find_None_iff post_inv_def post_db_wf_def)
  then show ?thesis using args False by (auto simp: ClaimQueuedTargetWithLease_def run_tx_def)
qed

definition leased_db :: post_db where
  "leased_db =
     \<lparr>posts = [blank_post\<lparr>p_id := 1, p_workspace_id := 1, p_status := PSPublishing\<rparr>],
      targets = [(sample_target 10 1 PSPublishing)\<lparr>lease_owner_id := Some ''w1'',
                   leased_until := Some (60 * second)\<rparr>],
      repair_queue = []\<rparr>"

lemma leased_db_inv: "post_inv leased_db"
proof -
  have "aggregated pid leased_db" for pid
    by (cases "pid = 1") (simp_all add: aggregated_def leased_db_def sample_target_def children_def
        Resolve_def agg_init_def agg_decide_def)
  moreover have "post_db_wf leased_db"
    by (simp add: post_db_wf_def leased_db_def sample_target_def)
  ultimately show ?thesis by (simp add: post_inv_def)
qed

theorem publish_lease_exclusive_witness:
  "\<exists>r. held_row 10 ''w1'' (60 * second) r
    (post_exec [(TxOk, 5, \<lambda>_. False, PoClaim 10 ''w2'' minute),
       (TxCommitLost, 9, \<lambda>_. False, PoRetrying 10 ''w2'' ''boom'' 14),
       (TxOk, 11, \<lambda>_. False, PoReclaim ''w2'')] leased_db)"
proof -
  have "held_row 10 ''w1'' (60 * second) (hd (targets leased_db)) leased_db"
    by (simp add: held_row_def leased_db_def sample_target_def)
  from publish_lease_exclusive [OF leased_db_inv this,
      of "[(TxOk, 5, \<lambda>_. False, PoClaim 10 ''w2'' minute),
        (TxCommitLost, 9, \<lambda>_. False, PoRetrying 10 ''w2'' ''boom'' 14),
        (TxOk, 11, \<lambda>_. False, PoReclaim ''w2'')]"]
  show ?thesis by auto
qed

theorem ClaimQueuedTargetWithLease_correct_witness:
  "\<exists>db'. ClaimQueuedTargetWithLease TxOk 5 (\<lambda>_. False) 10 ''w1'' minute sample_db = (Inr True, db')"
proof -
  have "find_row pt_id 10 (targets sample_db) = Some (sample_target 10 1 PSQueued)"
    by (simp add: sample_db_def sample_target_def)
  from ClaimQueuedTargetWithLease_correct [OF sample_db_inv _ _ this, of "''w1''" minute 5 "\<lambda>_. False"]
  show ?thesis by (auto simp: claimable_with_lease_def sample_target_def)
qed


section \<open>Two defects of the repository\<close>

text \<open>
  \<open>SetTargetStatus\<close> never succeeds and never changes the database. Its WHERE clause
  compares the enum column with the literal 'dead_letter', which is not a label of the
  database type \<open>post_status\<close>, so the statement is refused before any row is looked at.
\<close>

theorem SetTargetStatus_never_succeeds:
  "\<exists>e. SetTargetStatus flt now tid s msg db = (Inl e, db)"
proof -
  have bad: "list_all enum_label_ok setTargetStatus_literals = False"
    by (simp add: setTargetStatus_literals_def enum_label_ok_def post_status_labels_def)
  have "\<exists>e. setTargetStatusWithAggregate flt now tid s msg db = (Inl e, db)"
  proof (cases flt)
    case TxFails
    then show ?thesis by (simp add: setTargetStatusWithAggregate_def run_tx_def)
  qed (auto simp: setTargetStatusWithAggregate_def run_tx_def bad rbind_Inr_iff split: sum.splits)
  then show ?thesis by (simp add: SetTargetStatus_def)
qed

text \<open>
  A call of \<open>UpdateStatusWithLease\<close> whose statements all run leaves its transaction
  open, neither committed nor rolled back, exactly when the caller has lost the lease: the
  deferred rollback does not fire on the path that reports the stale transition.
\<close>

theorem UpdateStatusWithLease_leaks_iff_stale:
  assumes inv: "post_inv db" and args: "w \<noteq> []" "enum_label_ok (pt_status t)" "flt \<noteq> TxFails"
    and row: "find_row pt_id (pt_id t) (targets db) = Some r"
  shows "snd (fst (UpdateStatusWithLease flt now (Some t) w db)) \<longleftrightarrow>
    \<not> (lease_owner_id r = Some w \<and> pt_status r = PSPublishing)"
proof -
  let ?st = "qUpdateTargetStatusWithLease (pt_status t) (pt_platform_post_id t)
    (pt_error_message t) (pt_published_at t) (pt_id t) (pt_provider_state t) (pt_container_id t) w"
  have r: "r \<in> set (targets db)" "pt_id r = pt_id t" using find_row_SomeD [OF row] by auto
  have "x = r" if "x \<in> set (targets db)" "fst ?st x" for x
    using that inv row find_row_unique [of pt_id "targets db" x]
    by (simp add: post_inv_def post_db_wf_def qUpdateTargetStatusWithLease_def)
  then have "rows_affected (fst ?st) (targets db) = 0 \<longleftrightarrow> \<not> fst ?st r"
    using r(1) by (auto simp: rows_affected_0_iff)
  moreover have "fst ?st r \<longleftrightarrow> lease_owner_id r = Some w \<and> pt_status r = PSPublishing"
    using r(2) by (simp add: qUpdateTargetStatusWithLease_def)
  ultimately show ?thesis
    using args parent_lookup [OF inv row]
    by (auto simp: UpdateStatusWithLease_def split_def Let_def split: sum.splits)
qed

theorem UpdateStatusWithLease_leaks_iff_stale_witness:
  "snd (fst (UpdateStatusWithLease TxOk 70 (Some (sample_target 10 1 PSPublished)) ''w2'' leased_db))"
proof -
  have "find_row pt_id (pt_id (sample_target 10 1 PSPublished)) (targets leased_db) =
      Some (hd (targets leased_db))"
    by (simp add: leased_db_def sample_target_def)
  from UpdateStatusWithLease_leaks_iff_stale [OF leased_db_inv _ _ _ this, of "''w2''" TxOk 70]
  show ?thesis
    by (simp add: leased_db_def sample_target_def enum_label_ok_def post_status_labels_def)
qed


section \<open>Fair pick-up\<close>

text \<open>
  The pick-up query of the publish worker returns only due targets in a claimable
  state, at most 100, without duplicates, and it is fair across posts. When it lists the
  k-th pending child of some post, it lists every pending child of lower position of every
  other post as well, so a post with a large fan-out cannot crowd out the others.
\<close>

theorem ListPending_fair:
  fixes now before :: time and db :: post_db
  defines "pending \<equiv> filter (pending_target now before db) (targets db)"
  assumes inv: "post_inv db"
  shows "length (ListPending now before db) = min 100 (length pending) \<and>
    distinct (map pt_id (ListPending now before db)) \<and>
    pt_id ` set (ListPending now before db) \<subseteq> pt_id ` set pending \<and>
    (\<forall>r \<in> set pending. \<forall>r' \<in> set pending.
       pt_id r \<in> pt_id ` set (ListPending now before db) \<longrightarrow>
       child_position pending r' < child_position pending r \<longrightarrow>
       pt_id r' \<in> pt_id ` set (ListPending now before db))"
proof -
  let ?top = "top_by (fair_key db pending) 100 pending"
  have list: "ListPending now before db = map project_target ?top"
    by (simp add: ListPending_def pending_def Let_def)
  have ids: "map pt_id (ListPending now before db) = map pt_id ?top"
    by (simp add: list project_target_def)
  then have idset: "pt_id ` set (ListPending now before db) = pt_id ` set ?top" by (metis set_map)
  have dist: "distinct (map pt_id pending)"
    using inv by (simp add: pending_def post_inv_def post_db_wf_def distinct_map_filter)
  have same: "x = y" if "x \<in> set pending" "y \<in> set pending" "pt_id x = pt_id y" for x y
    using dist that by (metis distinct_map inj_onD)
  have down: "pt_id r' \<in> pt_id ` set ?top"
    if r: "r \<in> set pending" "pt_id r \<in> pt_id ` set ?top" and r': "r' \<in> set pending"
      and less: "child_position pending r' < child_position pending r" for r r'
  proof -
    from r(2) obtain y where y: "pt_id r = pt_id y" "y \<in> set ?top" by (rule imageE)
    have "y \<in> set pending" using set_top_by_subset y(2) by (rule subsetD)
    from same [OF r(1) this y(1)] y(2) have "r \<in> set ?top" by simp
    moreover have "fair_key db pending r' < fair_key db pending r"
      using less by (simp add: fair_key_def)
    ultimately have "r' \<in> set ?top" using r' by (rule_tac top_by_downward)
    then show ?thesis by simp
  qed
  show ?thesis
  proof (intro conjI ballI impI)
    show "length (ListPending now before db) = min 100 (length pending)"
      by (simp add: list length_top_by)
    show "distinct (map pt_id (ListPending now before db))"
      unfolding ids using dist by (rule distinct_map_top_by)
    show "pt_id ` set (ListPending now before db) \<subseteq> pt_id ` set pending"
      unfolding idset using set_top_by_subset by (rule image_mono)
  qed (unfold idset, rule down)
qed

theorem ListPending_fair_witness:
  "length (ListPending 5 5 sample_db) = min 100 (length (filter (pending_target 5 5 sample_db)
     (targets sample_db))) \<and> distinct (map pt_id (ListPending 5 5 sample_db))"
  using ListPending_fair [OF sample_db_inv, of 5 5] by blast

end
