(* ===== verification/GoStrings.thy ===== *)
theory GoStrings
  imports Prelude "HOL-Library.Sublist"
begin

text \<open>
  The string functions of Go's standard library that the modelled code calls. A Go string is
  a sequence of bytes and an Isabelle \<open>char\<close> is one byte, so a string is a \<open>char list\<close>.
  \<open>TrimSpace\<close> removes the white space of Unicode in its UTF-8 encoding; \<open>ToLower\<close> and
  \<open>ToUpper\<close> are exact on ASCII text, which is what the modelled code compares with.
\<close>

fun is_ascii_space :: "char \<Rightarrow> bool" where
  "is_ascii_space c = (c \<in> {CHR 0x09, CHR 0x0A, CHR 0x0B, CHR 0x0C, CHR 0x0D, CHR 0x20})"

text \<open>The length of the white-space rune a string starts with, 0 when there is none.\<close>

fun space_prefix :: "string \<Rightarrow> nat" where
  "space_prefix [] = 0"
| "space_prefix (a # rest) =
     (if is_ascii_space a then 1
      else case rest of
        [] \<Rightarrow> 0
      | b # rest' \<Rightarrow>
          if a = CHR 0xC2 \<and> b \<in> {CHR 0x85, CHR 0xA0} then 2
          else case rest' of
            [] \<Rightarrow> 0
          | c # _ \<Rightarrow>
              if (a = CHR 0xE1 \<and> b = CHR 0x9A \<and> c = CHR 0x80) \<or>
                 (a = CHR 0xE2 \<and> b = CHR 0x80 \<and>
                    (c \<in> {CHR 0xA8, CHR 0xA9, CHR 0xAF} \<or>
                     (128 \<le> (of_char c :: nat) \<and> (of_char c :: nat) \<le> 138))) \<or>
                 (a = CHR 0xE2 \<and> b = CHR 0x81 \<and> c = CHR 0x9F) \<or>
                 (a = CHR 0xE3 \<and> b = CHR 0x80 \<and> c = CHR 0x80)
              then 3 else 0)"

function TrimLeft :: "string \<Rightarrow> string" where
  "TrimLeft s = (if space_prefix s = 0 then s else TrimLeft (drop (space_prefix s) s))"
  by pat_completeness auto

lemma space_prefix_le: "space_prefix s \<le> length s"
  by (cases s) (auto split: list.splits)

termination TrimLeft
proof (relation "measure length")
  fix s assume "space_prefix s \<noteq> 0"
  moreover from this have "s \<noteq> []" by auto
  ultimately show "(drop (space_prefix s) s, s) \<in> measure length" by (cases s) auto
qed simp

text \<open>The length of the white-space rune a string ends with; UTF-8 is self-synchronising.\<close>

definition space_suffix :: "string \<Rightarrow> nat" where
  "space_suffix s =
     (let n = length s in
      if n \<ge> 1 \<and> is_ascii_space (last s) then 1
      else if n \<ge> 2 \<and> space_prefix (drop (n - 2) s) = 2 then 2
      else if n \<ge> 3 \<and> space_prefix (drop (n - 3) s) = 3 then 3
      else 0)"

function TrimRight :: "string \<Rightarrow> string" where
  "TrimRight s =
     (if space_suffix s = 0 then s else TrimRight (take (length s - space_suffix s) s))"
  by pat_completeness auto

termination TrimRight
proof (relation "measure length")
  fix s assume "space_suffix s \<noteq> 0"
  moreover from this have "s \<noteq> []" by (auto simp: space_suffix_def)
  ultimately show "(take (length s - space_suffix s) s, s) \<in> measure length" by (cases s) auto
qed simp

declare TrimLeft.simps [simp del] TrimRight.simps [simp del]

definition TrimSpace :: "string \<Rightarrow> string" where
  "TrimSpace s = TrimRight (TrimLeft s)"

definition lower_char :: "char \<Rightarrow> char" where
  "lower_char c = (let n = (of_char c :: nat) in if 65 \<le> n \<and> n \<le> 90 then char_of (n + 32) else c)"

definition upper_char :: "char \<Rightarrow> char" where
  "upper_char c = (let n = (of_char c :: nat) in if 97 \<le> n \<and> n \<le> 122 then char_of (n - 32) else c)"

definition ToLower :: "string \<Rightarrow> string" where "ToLower s = map lower_char s"

definition ToUpper :: "string \<Rightarrow> string" where "ToUpper s = map upper_char s"

definition EqualFold :: "string \<Rightarrow> string \<Rightarrow> bool" where
  "EqualFold a b \<longleftrightarrow> ToLower a = ToLower b"

fun HasPrefix :: "string \<Rightarrow> string \<Rightarrow> bool" where
  "HasPrefix s [] = True"
| "HasPrefix [] (c # cs) = False"
| "HasPrefix (d # ds) (c # cs) = (d = c \<and> HasPrefix ds cs)"

fun Contains :: "string \<Rightarrow> string \<Rightarrow> bool" where
  "Contains [] p = (p = [])"
| "Contains (c # cs) p = (HasPrefix (c # cs) p \<or> Contains cs p)"

definition ReplaceAllChar :: "char \<Rightarrow> char \<Rightarrow> string \<Rightarrow> string" where
  "ReplaceAllChar a b s = map (\<lambda>c. if c = a then b else c) s"

definition is_digit :: "char \<Rightarrow> bool" where
  "is_digit c \<longleftrightarrow> 48 \<le> (of_char c :: nat) \<and> (of_char c :: nat) \<le> 57"

definition is_lower :: "char \<Rightarrow> bool" where
  "is_lower c \<longleftrightarrow> 97 \<le> (of_char c :: nat) \<and> (of_char c :: nat) \<le> 122"

definition is_upper :: "char \<Rightarrow> bool" where
  "is_upper c \<longleftrightarrow> 65 \<le> (of_char c :: nat) \<and> (of_char c :: nat) \<le> 90"

definition digit_val :: "char \<Rightarrow> nat" where
  "digit_val c = (of_char c :: nat) - 48"


section \<open>Lemmas\<close>

lemma HasPrefix_iff: "HasPrefix s p \<longleftrightarrow> prefix p s"
  by (induction s p rule: HasPrefix.induct) auto

lemma Contains_iff: "Contains s p \<longleftrightarrow> sublist p s"
  by (induction s) (auto simp: HasPrefix_iff sublist_Cons_right)

lemma TrimLeft_fixed: "space_prefix (TrimLeft s) = 0"
  by (induction s rule: TrimLeft.induct) (subst TrimLeft.simps, simp)

lemma TrimRight_fixed: "space_suffix (TrimRight s) = 0"
  by (induction s rule: TrimRight.induct) (subst TrimRight.simps, simp)

lemma TrimLeft_suffix: "suffix (TrimLeft s) s"
proof (induction s rule: TrimLeft.induct)
  case (1 s)
  then show ?case
    by (subst TrimLeft.simps) (auto intro: suffix_order.trans suffix_drop)
qed

lemma TrimRight_prefix: "prefix (TrimRight s) s"
proof (induction s rule: TrimRight.induct)
  case (1 s)
  then show ?case
    by (subst TrimRight.simps) (auto intro: prefix_order.trans take_is_prefix)
qed

lemma TrimSpace_sublist: "sublist (TrimSpace s) s"
  unfolding TrimSpace_def
  by (meson TrimLeft_suffix TrimRight_prefix prefix_imp_sublist suffix_imp_sublist
      sublist_order.order_trans)

lemma TrimSpace_length: "length (TrimSpace s) \<le> length s"
  using TrimSpace_sublist sublist_length_le by blast

lemma lower_char_idem: "lower_char (lower_char c) = lower_char c"
  by (auto simp: lower_char_def Let_def)

lemma ToLower_idem: "ToLower (ToLower s) = ToLower s"
  by (simp add: ToLower_def lower_char_idem)

lemma EqualFold_refl [simp]: "EqualFold s s"
  by (simp add: EqualFold_def)

lemma EqualFold_sym: "EqualFold a b \<longleftrightarrow> EqualFold b a"
  by (auto simp: EqualFold_def)

text \<open>\<open>%d\<close> of a natural number.\<close>

fun Itoa :: "nat \<Rightarrow> string" where
  "Itoa n = (if n < 10 then [char_of (48 + n)] else Itoa (n div 10) @ [char_of (48 + n mod 10)])"

declare Itoa.simps [simp del]

definition FormatInt :: "int \<Rightarrow> string" where
  "FormatInt i = (if i < 0 then ''-'' @ Itoa (nat (- i)) else Itoa (nat i))"

section \<open>Paths, runes and separators\<close>

text \<open>\<open>range\<close> over a string: the width of the rune it starts with. An invalid byte is one rune.\<close>

definition is_cont :: "nat \<Rightarrow> bool" where
  "is_cont b \<longleftrightarrow> 128 \<le> b \<and> b \<le> 191"

fun utf8_valid_head :: "nat list \<Rightarrow> nat" where
  "utf8_valid_head (a # rest) =
     (if a < 128 then 1
      else case rest of
        [] \<Rightarrow> 0
      | b # rest' \<Rightarrow>
          if 194 \<le> a \<and> a \<le> 223 then (if is_cont b then 2 else 0)
          else case rest' of
            [] \<Rightarrow> 0
          | c # rest'' \<Rightarrow>
              if 224 \<le> a \<and> a \<le> 239 then
                (if is_cont b \<and> is_cont c \<and> (a = 224 \<longrightarrow> 160 \<le> b) \<and> (a = 237 \<longrightarrow> b \<le> 159)
                 then 3 else 0)
              else case rest'' of
                [] \<Rightarrow> 0
              | d # _ \<Rightarrow>
                  if 240 \<le> a \<and> a \<le> 244 \<and> is_cont b \<and> is_cont c \<and> is_cont d \<and>
                     (a = 240 \<longrightarrow> 144 \<le> b) \<and> (a = 244 \<longrightarrow> b \<le> 143)
                  then 4 else 0)"
| "utf8_valid_head [] = 0"

definition valid_width :: "string \<Rightarrow> nat" where
  "valid_width s = utf8_valid_head (map of_char (take 4 s))"

definition rune_width :: "string \<Rightarrow> nat" where
  "rune_width s = max 1 (valid_width s)"

lemma utf8_valid_head_le: "utf8_valid_head bs \<le> length bs"
  by (cases bs rule: utf8_valid_head.cases) (auto split: list.splits)

lemma valid_width_le: "valid_width s \<le> length s"
  using utf8_valid_head_le [of "map of_char (take 4 s)"] by (simp add: valid_width_def)

lemma rune_width_le: "s \<noteq> [] \<Longrightarrow> rune_width s \<le> length s"
  using valid_width_le [of s] by (cases s) (auto simp: rune_width_def)

lemma valid_width_ascii [simp]: "(of_char c :: nat) < 128 \<Longrightarrow> valid_width (c # cs) = 1"
  by (simp add: valid_width_def)

lemma rune_width_pos [simp]: "0 < rune_width s" "rune_width s \<noteq> 0"
  by (simp_all add: rune_width_def)

text \<open>\<open>strings.Split\<close> at one character, \<open>strings.Join\<close>, \<open>strings.Index\<close>.\<close>

fun SplitChar :: "char \<Rightarrow> string \<Rightarrow> string list" where
  "SplitChar c [] = [[]]"
| "SplitChar c (x # xs) =
     (if x = c then [] # SplitChar c xs
      else case SplitChar c xs of [] \<Rightarrow> [[x]] | w # ws \<Rightarrow> (x # w) # ws)"

fun Join :: "string list \<Rightarrow> string \<Rightarrow> string" where
  "Join [] sep = []"
| "Join [w] sep = w"
| "Join (w # ws) sep = w @ sep @ Join ws sep"

fun Index :: "string \<Rightarrow> string \<Rightarrow> nat option" where
  "Index [] p = (if p = [] then Some 0 else None)"
| "Index (c # cs) p = (if HasPrefix (c # cs) p then Some 0 else map_option Suc (Index cs p))"

lemma SplitChar_neq_Nil [simp]: "SplitChar c s \<noteq> []"
  by (induction s) (auto split: list.splits)

lemma Join_Cons: "ws \<noteq> [] \<Longrightarrow> Join (w # ws) sep = w @ sep @ Join ws sep"
  by (cases ws) simp_all

lemma Join_SplitChar: "Join (SplitChar c s) [c] = s"
proof (induction s)
  case (Cons x xs)
  obtain w ws where w: "SplitChar c xs = w # ws" by (cases "SplitChar c xs") auto
  show ?case
  proof (cases "x = c")
    case True
    then show ?thesis using Cons.IH by (simp add: Join_Cons)
  next
    case False
    then show ?thesis using Cons.IH w by (cases ws) auto
  qed
qed simp

lemma SplitChar_no_sep: "w \<in> set (SplitChar c s) \<Longrightarrow> c \<notin> set w"
  by (induction s arbitrary: w) (force split: list.splits if_splits)+

lemma SplitChar_parts: "w \<in> set (SplitChar c s) \<Longrightarrow> set w \<subseteq> set s"
  by (induction s arbitrary: w) (force split: list.splits if_splits)+

text \<open>\<open>path.Base\<close>.\<close>

definition path_Base :: "string \<Rightarrow> string" where
  "path_Base p =
     (if p = [] then ''.''
      else
        let q = rev (dropWhile (\<lambda>c. c = CHR ''/'') (rev p));
            b = rev (takeWhile (\<lambda>c. c \<noteq> CHR ''/'') (rev q))
        in if b = [] then ''/'' else b)"

end
