(* ===== verification/ProviderErrors.thy ===== *)
theory ProviderErrors
  imports GoStrings
begin

text \<open>
  The error taxonomy of \<open>internal/services/provider_error.go\<close> and the classifier of
  \<open>internal/services/error_classification.go\<close> that turns every failure into one of the
  four decisions a worker can take.

  A Go error value is its text and the layers that \<open>errors.Is\<close> and \<open>errors.As\<close> visit,
  outermost first (the tree of an \<open>errors.Join\<close> in its depth-first order). A layer is one
  of the concrete error types the classifier asks for, or an opaque one. JSON decoding of a
  provider's response body is a parameter of the constructor of a provider error.
\<close>

section \<open>Taxonomy\<close>

datatype ProviderErrorCode =
    PcValidationError | PcAuthenticationError | PcPermissionMissing
  | PcReauthenticationRequired | PcRateLimited | PcProviderUnavailable
  | PcMediaProcessingFailed | PcContentRejected | PcQuotaExceeded | PcInternalError
  | PcOther string

fun pc_string :: "ProviderErrorCode \<Rightarrow> string" where
  "pc_string PcValidationError = ''validation_error''"
| "pc_string PcAuthenticationError = ''authentication_error''"
| "pc_string PcPermissionMissing = ''permission_missing''"
| "pc_string PcReauthenticationRequired = ''reauthentication_required''"
| "pc_string PcRateLimited = ''rate_limited''"
| "pc_string PcProviderUnavailable = ''provider_unavailable''"
| "pc_string PcMediaProcessingFailed = ''media_processing_failed''"
| "pc_string PcContentRejected = ''content_rejected''"
| "pc_string PcQuotaExceeded = ''quota_exceeded''"
| "pc_string PcInternalError = ''internal_error''"
| "pc_string (PcOther s) = s"

definition AllProviderErrorCodes :: "ProviderErrorCode list" where
  "AllProviderErrorCodes =
     [PcValidationError, PcAuthenticationError, PcPermissionMissing, PcReauthenticationRequired,
      PcRateLimited, PcProviderUnavailable, PcMediaProcessingFailed, PcContentRejected,
      PcQuotaExceeded, PcInternalError]"

fun IsValidProviderErrorCode :: "ProviderErrorCode \<Rightarrow> bool" where
  "IsValidProviderErrorCode (PcOther _) = False"
| "IsValidProviderErrorCode _ = True"

record ProviderError =
  pe_code :: ProviderErrorCode
  pe_platform :: string
  pe_retryable :: bool
  pe_retry_after :: duration
  pe_provider_code :: string
  pe_safe_message :: string
  pe_request_id :: string
  pe_status :: int

definition MapHTTPStatus :: "int \<Rightarrow> ProviderErrorCode" where
  "MapHTTPStatus status =
     (if status = 400 then PcValidationError
      else if status = 401 then PcAuthenticationError
      else if status = 402 then PcQuotaExceeded
      else if status = 403 then PcPermissionMissing
      else if status = 404 \<or> status = 410 then PcContentRejected
      else if status = 429 then PcRateLimited
      else if status \<ge> 500 \<and> status < 600 then PcProviderUnavailable
      else if status \<ge> 400 \<and> status < 500 then PcValidationError
      else PcInternalError)"

fun isRetryable :: "ProviderErrorCode \<Rightarrow> bool" where
  "isRetryable PcRateLimited = True"
| "isRetryable PcProviderUnavailable = True"
| "isRetryable PcMediaProcessingFailed = True"
| "isRetryable PcInternalError = True"
| "isRetryable _ = False"

text \<open>\<open>%d\<close>\<close>

fun nat_digits :: "nat \<Rightarrow> string" where
  "nat_digits n = (if n < 10 then [char_of (48 + n)] else nat_digits (n div 10) @ [char_of (48 + n mod 10)])"

definition format_int :: "int \<Rightarrow> string" where
  "format_int i = (if i < 0 then ''-'' @ nat_digits (nat (- i)) else nat_digits (nat i))"

definition buildSafeMessage :: "string \<Rightarrow> ProviderErrorCode \<Rightarrow> int \<Rightarrow> string" where
  "buildSafeMessage platform code status =
     platform @ '' operation failed (status '' @ format_int status @ ''): '' @
     ReplaceAllChar (CHR ''_'') (CHR '' '') (pc_string code)"

definition NewRateLimitError :: "string \<Rightarrow> duration \<Rightarrow> ProviderError" where
  "NewRateLimitError platform retryAfter =
     \<lparr>pe_code = PcRateLimited, pe_platform = platform, pe_retryable = True,
      pe_retry_after = retryAfter, pe_provider_code = '''',
      pe_safe_message = buildSafeMessage platform PcRateLimited 429,
      pe_request_id = '''', pe_status = 429\<rparr>"

text \<open>
  \<open>http.Header.Get\<close> is a function from canonical names to values. \<open>parseRetryAfter\<close> is
  \<open>ParseRetryAfter\<close> at the current time (its date and duration grammars belong to the
  \<open>time\<close> package). The last two names differ from earlier ones only in their case, so the
  canonical look-up makes them the same header.
\<close>

definition throttle_headers :: "string list" where
  "throttle_headers =
     [''Retry-After'', ''X-Ratelimit-Reset'', ''X-Rate-Limit-Reset'',
      ''X-Rate-Limit-Reset-After'', ''X-Rate-Limit-Reset'']"

fun first_positive :: "(string \<Rightarrow> duration) \<Rightarrow> string list \<Rightarrow> duration" where
  "first_positive parse [] = 0"
| "first_positive parse (v # vs) =
     (if v \<noteq> '''' \<and> parse v > 0 then parse v else first_positive parse vs)"

definition ParseThrottleHeaders ::
  "(string \<Rightarrow> duration) \<Rightarrow> (string \<Rightarrow> string) option \<Rightarrow> duration" where
  "ParseThrottleHeaders parseRetryAfter h =
     (case h of None \<Rightarrow> 0
      | Some get \<Rightarrow> first_positive parseRetryAfter (map get throttle_headers))"

text \<open>
  \<open>NewProviderError\<close>. The parameter \<open>parsed\<close> is what the body parser of the platform
  returned: its code, the request id, an extra retry hint, and whether a Meta body carries
  error_subcode 4.
\<close>

definition NewProviderError ::
  "(string \<Rightarrow> duration) \<Rightarrow> string \<Rightarrow> int \<Rightarrow> string \<times> string \<times> duration \<times> bool \<Rightarrow>
   (string \<Rightarrow> string) option \<Rightarrow> ProviderError" where
  "NewProviderError parseRetryAfter platform status parsed headers =
     (let (providerCode, requestID, extra, metaIsRateLimit) = parsed;
          code = (if metaIsRateLimit then PcRateLimited else MapHTTPStatus status);
          ra = ParseThrottleHeaders parseRetryAfter headers
      in \<lparr>pe_code = code, pe_platform = platform, pe_retryable = isRetryable code,
          pe_retry_after = (if ra = 0 \<and> extra > 0 then extra else ra),
          pe_provider_code = providerCode,
          pe_safe_message = buildSafeMessage platform code status,
          pe_request_id = requestID, pe_status = status\<rparr>)"

definition RetryAfterDuration :: "ProviderError \<Rightarrow> duration" where
  "RetryAfterDuration e = (if pe_retry_after e \<le> 0 then 0 else pe_retry_after e)"

datatype PublishOutcome =
    OutcomeSuccess | OutcomeRateLimited | OutcomeAuthError | OutcomeProviderUnavail
  | OutcomeMediaFailed | OutcomeContentRejected | OutcomeValidation | OutcomeQuota
  | OutcomeInternal

fun PublishOutcomeFromCode :: "ProviderErrorCode \<Rightarrow> PublishOutcome" where
  "PublishOutcomeFromCode PcRateLimited = OutcomeRateLimited"
| "PublishOutcomeFromCode PcAuthenticationError = OutcomeAuthError"
| "PublishOutcomeFromCode PcPermissionMissing = OutcomeAuthError"
| "PublishOutcomeFromCode PcReauthenticationRequired = OutcomeAuthError"
| "PublishOutcomeFromCode PcProviderUnavailable = OutcomeProviderUnavail"
| "PublishOutcomeFromCode PcMediaProcessingFailed = OutcomeMediaFailed"
| "PublishOutcomeFromCode PcContentRejected = OutcomeContentRejected"
| "PublishOutcomeFromCode PcQuotaExceeded = OutcomeQuota"
| "PublishOutcomeFromCode PcValidationError = OutcomeValidation"
| "PublishOutcomeFromCode PcInternalError = OutcomeInternal"
| "PublishOutcomeFromCode (PcOther s) = (if s = '''' then OutcomeSuccess else OutcomeInternal)"


section \<open>Error values\<close>

datatype LiveErrorCode =
    LiveAuthRequired | LiveInsufficientScope | LiveNotEnabled | LivePermissionBlocked
  | LiveRateLimited | LiveQuotaExceeded | LiveInvalidConfiguration | LiveStateConflict
  | LiveNotFound | LiveTransientUpstream

fun live_string :: "LiveErrorCode \<Rightarrow> string" where
  "live_string LiveAuthRequired = ''AUTH_REQUIRED''"
| "live_string LiveInsufficientScope = ''INSUFFICIENT_SCOPE''"
| "live_string LiveNotEnabled = ''LIVE_NOT_ENABLED''"
| "live_string LivePermissionBlocked = ''LIVE_PERMISSION_BLOCKED''"
| "live_string LiveRateLimited = ''RATE_LIMITED''"
| "live_string LiveQuotaExceeded = ''QUOTA_EXCEEDED''"
| "live_string LiveInvalidConfiguration = ''INVALID_CONFIGURATION''"
| "live_string LiveStateConflict = ''STATE_CONFLICT''"
| "live_string LiveNotFound = ''NOT_FOUND''"
| "live_string LiveTransientUpstream = ''TRANSIENT_UPSTREAM''"

datatype err_layer =
    LCanceled | LDeadline | LAuthentication string | LProvider ProviderError
  | LRateLimit duration | LYouTubeAPI int string | LYouTubeLive LiveErrorCode int duration
  | LRevocation int bool duration | LRetryAfter duration
  | LTransient | LPermanent | LPermanentUpload | LPublishTerminal
  | LNet bool bool | LUploadLeaseLost | LOpaque

record go_error =
  err_chain :: "err_layer list"
  err_text :: string

datatype ErrorKind = KindTransient | KindRateLimited | KindAuth | KindPermanent

record NormalizedError =
  ne_provider :: string
  ne_operation :: string
  ne_kind :: ErrorKind
  ne_code :: string
  ne_status :: int
  ne_retryable :: bool
  ne_retry_after :: duration

definition normalizedFrom ::
  "string \<Rightarrow> string \<Rightarrow> int \<Rightarrow> ErrorKind \<Rightarrow> bool \<Rightarrow> duration \<Rightarrow> NormalizedError" where
  "normalizedFrom provider code status kind retryable retryAfter =
     \<lparr>ne_provider = provider, ne_operation = '''', ne_kind = kind, ne_code = code,
      ne_status = status, ne_retryable = retryable, ne_retry_after = retryAfter\<rparr>"

text \<open>\<open>errors.As\<close>: the first layer a partial view accepts.\<close>

fun errors_as :: "(err_layer \<Rightarrow> 'a option) \<Rightarrow> err_layer list \<Rightarrow> 'a option" where
  "errors_as view [] = None"
| "errors_as view (l # ls) = (case view l of None \<Rightarrow> errors_as view ls | Some x \<Rightarrow> Some x)"

fun as_authentication :: "err_layer \<Rightarrow> string option" where
  "as_authentication (LAuthentication c) = Some c" | "as_authentication _ = None"

fun as_provider :: "err_layer \<Rightarrow> ProviderError option" where
  "as_provider (LProvider p) = Some p" | "as_provider _ = None"

fun as_rate_limit :: "err_layer \<Rightarrow> duration option" where
  "as_rate_limit (LRateLimit d) = Some d" | "as_rate_limit _ = None"

fun as_youtube :: "err_layer \<Rightarrow> (int \<times> string) option" where
  "as_youtube (LYouTubeAPI s c) = Some (s, c)" | "as_youtube _ = None"

fun as_live :: "err_layer \<Rightarrow> (LiveErrorCode \<times> int \<times> duration) option" where
  "as_live (LYouTubeLive c s d) = Some (c, s, d)" | "as_live _ = None"

fun as_revocation :: "err_layer \<Rightarrow> (int \<times> bool \<times> duration) option" where
  "as_revocation (LRevocation s t d) = Some (s, t, d)" | "as_revocation _ = None"

fun as_retry_after :: "err_layer \<Rightarrow> duration option" where
  "as_retry_after (LRetryAfter d) = Some d" | "as_retry_after _ = None"

text \<open>The interfaces \<open>IsTransient\<close>, \<open>IsPermanent\<close> and \<open>net.Error\<close>.\<close>

fun as_transient :: "err_layer \<Rightarrow> bool option" where
  "as_transient LTransient = Some True"
| "as_transient (LRevocation s t d) = Some t"
| "as_transient _ = None"

fun as_permanent :: "err_layer \<Rightarrow> bool option" where
  "as_permanent LPermanent = Some True" | "as_permanent _ = None"

fun as_net :: "err_layer \<Rightarrow> (bool \<times> bool) option" where
  "as_net (LNet timeout temporary) = Some (timeout, temporary)"
| "as_net LDeadline = Some (True, True)"
| "as_net _ = None"

text \<open>The \<open>RetryAfterDuration\<close> carriers.\<close>

fun as_carrier :: "err_layer \<Rightarrow> duration option" where
  "as_carrier (LProvider p) = Some (RetryAfterDuration p)"
| "as_carrier (LRateLimit d) = Some d"
| "as_carrier (LRetryAfter d) = Some (if d \<le> 0 then 0 else d)"
| "as_carrier _ = None"

definition retryAfterFromCarrier :: "go_error \<Rightarrow> duration" where
  "retryAfterFromCarrier e = (case errors_as as_carrier (err_chain e) of None \<Rightarrow> 0 | Some d \<Rightarrow> d)"

text \<open>\<open>RetryAfterFromError\<close> of \<open>provider.go\<close>; the nil error is \<open>None\<close>.\<close>

definition RetryAfterFromError :: "go_error option \<Rightarrow> duration" where
  "RetryAfterFromError e = (case e of None \<Rightarrow> 0 | Some e \<Rightarrow> retryAfterFromCarrier e)"

section \<open>Statuses and providers read from message text\<close>

definition re_space :: "char \<Rightarrow> bool" where
  "re_space c \<longleftrightarrow> c \<in> {CHR 0x09, CHR 0x0A, CHR 0x0C, CHR 0x0D, CHR 0x20}"

definition word_char :: "char \<Rightarrow> bool" where
  "word_char c \<longleftrightarrow> is_digit c \<or> is_lower c \<or> is_upper c \<or> c = CHR ''_''"

fun three_digits :: "string \<Rightarrow> int option" where
  "three_digits (a # b # c # _) =
     (if is_digit a \<and> is_digit b \<and> is_digit c
      then Some (int (100 * digit_val a + 10 * digit_val b + digit_val c)) else None)"
| "three_digits _ = None"

definition strip_keyword :: "string \<Rightarrow> string option" where
  "strip_keyword s =
     (if HasPrefix (ToLower s) ''status'' then Some (drop 6 s)
      else if HasPrefix (ToLower s) ''http'' then Some (drop 4 s)
      else if HasPrefix (ToLower s) ''returned'' then Some (drop 8 s)
      else None)"

text \<open>\<open>(?i)(?:status|http|returned)\s*[:=]?\s*(\d{3})\<close>, matched at the head of the string.\<close>

definition legacy_at :: "string \<Rightarrow> int option" where
  "legacy_at s =
     (case strip_keyword s of
        None \<Rightarrow> None
      | Some r \<Rightarrow>
          let r1 = dropWhile re_space r;
              r2 = (case r1 of [] \<Rightarrow> [] | c # cs \<Rightarrow> if c \<in> {CHR '':'', CHR ''=''} then cs else r1)
          in three_digits (dropWhile re_space r2))"

fun legacyStatusPattern :: "string \<Rightarrow> int option" where
  "legacyStatusPattern [] = None"
| "legacyStatusPattern (c # cs) =
     (case legacy_at (c # cs) of None \<Rightarrow> legacyStatusPattern cs | Some n \<Rightarrow> Some n)"

text \<open>\<open>\b([45]\d{2})\b\<close>; the flag says whether the previous byte is a word character.\<close>

fun bareHTTPStatusPattern :: "bool \<Rightarrow> string \<Rightarrow> int option" where
  "bareHTTPStatusPattern prev [] = None"
| "bareHTTPStatusPattern prev (c # cs) =
     (case three_digits (c # cs) of
        Some n \<Rightarrow>
          if \<not> prev \<and> c \<in> {CHR ''4'', CHR ''5''} \<and>
             (case drop 2 cs of [] \<Rightarrow> True | d # _ \<Rightarrow> \<not> word_char d)
          then Some n else bareHTTPStatusPattern (word_char c) cs
      | None \<Rightarrow> bareHTTPStatusPattern (word_char c) cs)"

definition statusFromLegacyError :: "string \<Rightarrow> int" where
  "statusFromLegacyError message =
     (case (case legacyStatusPattern message of
              Some n \<Rightarrow> Some n | None \<Rightarrow> bareHTTPStatusPattern False message) of
        None \<Rightarrow> 0
      | Some n \<Rightarrow> if n < 100 \<or> n > 599 then 0 else n)"

definition providerFromMessage :: "string \<Rightarrow> string" where
  "providerFromMessage message =
     (let lower = ToLower message in
      if Contains lower ''youtube'' then ''youtube''
      else if Contains lower ''drive'' \<or> Contains lower ''googleapis'' then ''google_drive''
      else if Contains lower ''nvidia'' then ''nvidia''
      else if Contains lower ''s3'' \<or> Contains lower ''minio'' then ''storage''
      else '''')"

definition transient_markers :: "string list" where
  "transient_markers =
     [''timeout'', ''timed out'', ''temporary'', ''temporarily'', ''network'',
      ''connection reset'', ''connection refused'', ''broken pipe'', ''eof'',
      ''unavailable'', ''transport'', ''i/o timeout'']"

definition looksLikeTransientMessage :: "string \<Rightarrow> bool" where
  "looksLikeTransientMessage message \<longleftrightarrow>
     list_ex (Contains (ToLower message)) transient_markers"


section \<open>The classifier\<close>

fun isRetryableProviderCode :: "ProviderErrorCode \<Rightarrow> bool" where
  "isRetryableProviderCode PcRateLimited = True"
| "isRetryableProviderCode PcProviderUnavailable = True"
| "isRetryableProviderCode PcMediaProcessingFailed = True"
| "isRetryableProviderCode PcInternalError = True"
| "isRetryableProviderCode _ = False"

fun kindFromProviderCode :: "ProviderErrorCode \<Rightarrow> ErrorKind" where
  "kindFromProviderCode PcRateLimited = KindRateLimited"
| "kindFromProviderCode PcAuthenticationError = KindAuth"
| "kindFromProviderCode PcPermissionMissing = KindAuth"
| "kindFromProviderCode PcReauthenticationRequired = KindAuth"
| "kindFromProviderCode PcProviderUnavailable = KindTransient"
| "kindFromProviderCode PcMediaProcessingFailed = KindTransient"
| "kindFromProviderCode PcInternalError = KindTransient"
| "kindFromProviderCode _ = KindPermanent"

definition classifyProviderError :: "ProviderError \<Rightarrow> NormalizedError" where
  "classifyProviderError pe =
     (let (kind, retryable) =
        (case pe_code pe of
           PcRateLimited \<Rightarrow> (KindRateLimited, True)
         | PcAuthenticationError \<Rightarrow> (KindAuth, False)
         | PcPermissionMissing \<Rightarrow> (KindAuth, False)
         | PcReauthenticationRequired \<Rightarrow> (KindAuth, False)
         | PcProviderUnavailable \<Rightarrow> (KindTransient, True)
         | PcMediaProcessingFailed \<Rightarrow> (KindTransient, True)
         | PcInternalError \<Rightarrow> (KindTransient, True)
         | PcValidationError \<Rightarrow> (KindPermanent, False)
         | PcContentRejected \<Rightarrow> (KindPermanent, False)
         | PcQuotaExceeded \<Rightarrow> (KindPermanent, False)
         | PcOther _ \<Rightarrow> if pe_retryable pe then (KindTransient, True) else (KindPermanent, False))
      in normalizedFrom (pe_platform pe) (pc_string (pe_code pe)) (pe_status pe) kind retryable
           (pe_retry_after pe))"

definition classifyYouTubeLiveError :: "LiveErrorCode \<Rightarrow> int \<Rightarrow> duration \<Rightarrow> NormalizedError" where
  "classifyYouTubeLiveError code status retryAfter =
     (let (kind, retryable) =
        (if status \<ge> 500 then (KindTransient, True)
         else case code of
           LiveRateLimited \<Rightarrow> (KindRateLimited, True)
         | LiveTransientUpstream \<Rightarrow> (KindTransient, True)
         | LiveAuthRequired \<Rightarrow> (KindAuth, False)
         | LiveInsufficientScope \<Rightarrow> (KindAuth, False)
         | LivePermissionBlocked \<Rightarrow> (KindAuth, False)
         | _ \<Rightarrow> (KindPermanent, False))
      in normalizedFrom ''youtube'' (live_string code) status kind retryable retryAfter)"

definition youtube_Transient :: "int \<Rightarrow> string \<Rightarrow> bool" where
  "youtube_Transient status category \<longleftrightarrow> category = ''network'' \<or> status = 429 \<or> status \<ge> 500"

definition classifyHTTPShape ::
  "string \<Rightarrow> int \<Rightarrow> string \<Rightarrow> bool \<Rightarrow> duration \<Rightarrow> NormalizedError" where
  "classifyHTTPShape provider status category transient retryAfter =
     (if status = 429 \<or> category = ''rate_limit''
      then normalizedFrom provider ''rate_limited'' status KindRateLimited True retryAfter
      else if status = 401 \<or> status = 403 \<or> category = ''auth''
      then normalizedFrom provider ''authentication_error'' status KindAuth False retryAfter
      else if transient \<or> status \<ge> 500 \<or> category = ''network''
      then normalizedFrom provider ''provider_unavailable'' status KindTransient True retryAfter
      else normalizedFrom provider ''permanent'' status KindPermanent False retryAfter)"

definition classify_untyped :: "go_error \<Rightarrow> NormalizedError" where
  "classify_untyped e =
     (let ra = retryAfterFromCarrier e; status = statusFromLegacyError (err_text e) in
      if status \<noteq> 0
      then let code = MapHTTPStatus status
           in normalizedFrom (providerFromMessage (err_text e)) (pc_string code) status
                (kindFromProviderCode code) (isRetryableProviderCode code) ra
      else if (case errors_as as_net (err_chain e) of
                 Some (timeout, temporary) \<Rightarrow> timeout \<or> temporary | None \<Rightarrow> False)
      then normalizedFrom '''' ''network'' 0 KindTransient True ra
      else if looksLikeTransientMessage (err_text e)
      then normalizedFrom (providerFromMessage (err_text e)) ''transient'' 0 KindTransient True ra
      else normalizedFrom (providerFromMessage (err_text e)) ''unknown'' 0 KindPermanent False ra)"

definition classify_typed :: "go_error \<Rightarrow> NormalizedError" where
  "classify_typed e =
     (let ls = err_chain e in
      case errors_as as_authentication ls of
        Some code \<Rightarrow>
          normalizedFrom '''' (if code = '''' then ''authentication_error'' else code) 0
            KindAuth False 0
      | None \<Rightarrow>
      case errors_as as_provider ls of
        Some pe \<Rightarrow> classifyProviderError pe
      | None \<Rightarrow>
      case errors_as as_rate_limit ls of
        Some d \<Rightarrow> normalizedFrom '''' ''rate_limited'' 429 KindRateLimited True d
      | None \<Rightarrow>
      case errors_as as_youtube ls of
        Some (status, category) \<Rightarrow>
          classifyHTTPShape ''youtube'' status category (youtube_Transient status category)
            (retryAfterFromCarrier e)
      | None \<Rightarrow>
      case errors_as as_live ls of
        Some (code, status, d) \<Rightarrow> classifyYouTubeLiveError code status d
      | None \<Rightarrow>
      case errors_as as_revocation ls of
        Some (status, transient, d) \<Rightarrow>
          normalizedFrom ''oauth'' ''oauth_revocation'' status
            (if transient then KindTransient else KindPermanent) transient d
      | None \<Rightarrow>
      case errors_as as_retry_after ls of
        Some d \<Rightarrow> normalizedFrom '''' ''retry_after'' 0 KindTransient True d
      | None \<Rightarrow>
      if errors_as as_transient ls = Some True
      then normalizedFrom '''' ''transient'' 0 KindTransient True (retryAfterFromCarrier e)
      else if errors_as as_permanent ls = Some True \<or>
              LPermanentUpload \<in> set ls \<or> LPublishTerminal \<in> set ls
      then normalizedFrom '''' ''permanent'' 0 KindPermanent False 0
      else classify_untyped e)"

definition ClassifyError :: "go_error option \<Rightarrow> NormalizedError option" where
  "ClassifyError err =
     (case err of
        None \<Rightarrow> None
      | Some e \<Rightarrow> Some
          (if LCanceled \<in> set (err_chain e)
           then normalizedFrom '''' ''context_canceled'' 0 KindTransient False 0
           else if LDeadline \<in> set (err_chain e)
           then normalizedFrom '''' ''timeout'' 0 KindTransient True (retryAfterFromCarrier e)
           else classify_typed e))"

definition ClassifyErrorFor ::
  "string \<Rightarrow> string \<Rightarrow> go_error option \<Rightarrow> NormalizedError option" where
  "ClassifyErrorFor provider operation err =
     map_option (\<lambda>c. c\<lparr>ne_provider := (if ne_provider c = '''' then provider else ne_provider c),
                        ne_operation := operation\<rparr>) (ClassifyError err)"

definition IsErrorKind :: "go_error option \<Rightarrow> ErrorKind \<Rightarrow> bool" where
  "IsErrorKind err kind \<longleftrightarrow> (case ClassifyError err of None \<Rightarrow> False | Some c \<Rightarrow> ne_kind c = kind)"

definition ClassifyHTTPStatus ::
  "string \<Rightarrow> string \<Rightarrow> int \<Rightarrow> duration \<Rightarrow> NormalizedError option" where
  "ClassifyHTTPStatus provider operation status retryAfter =
     (if 200 \<le> status \<and> status < 300 then None
      else
        let (kind, code, retryable) =
          (if status = 408 \<or> status = 425 then (KindTransient, ''timeout'', True)
           else if status = 429 then (KindRateLimited, ''rate_limited'', True)
           else if status = 401 \<or> status = 403 then (KindAuth, ''authentication_error'', False)
           else if 500 \<le> status \<and> status < 600 then (KindTransient, ''provider_unavailable'', True)
           else if status < 100 then (KindPermanent, ''unknown'', False)
           else (KindPermanent, pc_string (MapHTTPStatus status), False))
        in Some \<lparr>ne_provider = provider, ne_operation = operation, ne_kind = kind, ne_code = code,
                 ne_status = status, ne_retryable = retryable, ne_retry_after = retryAfter\<rparr>)"


section \<open>Lemmas and properties\<close>

definition retry_kind :: "ErrorKind \<Rightarrow> bool" where
  "retry_kind k \<longleftrightarrow> k = KindTransient \<or> k = KindRateLimited"

lemma kind_retryable: "isRetryableProviderCode c \<longleftrightarrow> retry_kind (kindFromProviderCode c)"
  by (cases c) (auto simp: retry_kind_def)

lemma isRetryable_eq: "isRetryable c = isRetryableProviderCode c"
  by (cases c) auto

lemma normalizedFrom_simps [simp]:
  "ne_kind (normalizedFrom p c s k r d) = k" "ne_retryable (normalizedFrom p c s k r d) = r"
  "ne_code (normalizedFrom p c s k r d) = c" "ne_retry_after (normalizedFrom p c s k r d) = d"
  "ne_provider (normalizedFrom p c s k r d) = p" "ne_status (normalizedFrom p c s k r d) = s"
  by (simp_all add: normalizedFrom_def)

lemma classify_untyped_retryable:
  "ne_retryable (classify_untyped e) \<longleftrightarrow> retry_kind (ne_kind (classify_untyped e))"
  by (simp add: classify_untyped_def Let_def kind_retryable) (auto simp: retry_kind_def)

lemma classify_typed_retryable:
  "ne_retryable (classify_typed e) \<longleftrightarrow> retry_kind (ne_kind (classify_typed e))"
proof -
  have provider: "ne_retryable (classifyProviderError pe) \<longleftrightarrow>
      retry_kind (ne_kind (classifyProviderError pe))" for pe
    by (auto simp: classifyProviderError_def Let_def retry_kind_def split: ProviderErrorCode.splits)
  have live: "ne_retryable (classifyYouTubeLiveError c s d) \<longleftrightarrow>
      retry_kind (ne_kind (classifyYouTubeLiveError c s d))" for c s d
    by (auto simp: classifyYouTubeLiveError_def retry_kind_def split: LiveErrorCode.splits)
  have shape: "ne_retryable (classifyHTTPShape p s c t d) \<longleftrightarrow>
      retry_kind (ne_kind (classifyHTTPShape p s c t d))" for p s c t d
    by (auto simp: classifyHTTPShape_def retry_kind_def)
  show ?thesis
    by (simp add: classify_typed_def Let_def provider live shape classify_untyped_retryable
        split: option.splits prod.splits) (simp add: retry_kind_def)
qed

text \<open>
  C32: the classifier is total and its retry flag never contradicts its kind. Every non-nil
  error gets a decision, and it is retryable exactly when its kind is transient or rate
  limited, with the one exception of a cancelled context, which is transient but not
  retried; an authentication or permanent failure is never retried.
\<close>

theorem ClassifyError_total_consistent:
  "\<exists>c. ClassifyError (Some e) = Some c \<and>
     (ne_retryable c \<longleftrightarrow>
        (ne_kind c = KindTransient \<or> ne_kind c = KindRateLimited) \<and>
        LCanceled \<notin> set (err_chain e))"
  using classify_typed_retryable [of e] by (auto simp: ClassifyError_def retry_kind_def)

lemma provider_route_kind:
  "ne_kind (classifyProviderError
     (NewProviderError p pl s (pc, rid, ex, False) h)) = kindFromProviderCode (MapHTTPStatus s)"
  by (simp add: NewProviderError_def Let_def classifyProviderError_def MapHTTPStatus_def)

text \<open>
  An error response takes the same decision whether it is classified from its bare
  HTTP status or through the provider error a client builds from it, for every status from
  400 to 599 except 408 and 425: those are transient on the first route and permanent on
  the second.
\<close>

theorem http_routes_agree_iff:
  assumes "400 \<le> s" and "s < 600"
  shows "map_option ne_kind (ClassifyHTTPStatus pl op s d) =
      Some (ne_kind (classifyProviderError (NewProviderError parse pl s (pc, rid, ex, False) h))) \<longleftrightarrow>
    s \<noteq> 408 \<and> s \<noteq> 425"
  using assms unfolding provider_route_kind
  by (auto simp: ClassifyHTTPStatus_def MapHTTPStatus_def)

theorem http_routes_agree_iff_witness:
  "map_option ne_kind (ClassifyHTTPStatus ''x'' ''publish'' 503 0) =
     Some (ne_kind (classifyProviderError
       (NewProviderError (\<lambda>_. 0) ''x'' 503 ([], [], 0, False) None)))"
  using http_routes_agree_iff [of 503 "''x''" "''publish''" 0 "\<lambda>_. 0" "[]" "[]" 0 None] by simp

end
