(* ===== verification/PublishWorker.thy ===== *)
theory PublishWorker
  imports PostRepoProofs ProviderErrors
begin

text \<open>
  The failure handling of the publish worker: \<open>internal/worker/publish_worker_retry.go\<close>,
  \<open>publish_worker_lease.go\<close>, \<open>publish_worker_privacy.go\<close> and the claim of
  \<open>publish_worker_download.go\<close>, on top of the post repository. The worker keeps its own
  copy of the target, so every step returns the updated copy and the database. The type
  assertion \<open>w.postRepo.(LeaseAwarePublisherPostStore)\<close> succeeds for the SQL repository,
  which is the store modelled here.
\<close>

section \<open>Backoff\<close>

text \<open>The loop \<open>for i := 0; i < attempt && backoff < 5*time.Minute; i++ { backoff *= 2 }\<close>.\<close>

fun double_until :: "nat \<Rightarrow> duration \<Rightarrow> duration \<Rightarrow> duration" where
  "double_until 0 cap b = b"
| "double_until (Suc n) cap b = (if b < cap then double_until n cap (b * 2) else b)"

definition publishRetryBackoff :: "int \<Rightarrow> duration" where
  "publishRetryBackoff attempt =
     (let a = (if attempt < 0 then 0 else attempt);
          b = double_until (nat a) (5 * minute) (5 * second)
      in if b > 5 * minute then 5 * minute else b)"

definition defaultRateLimitBackoff :: duration where
  "defaultRateLimitBackoff = 60 * second"

definition publishLeaseTTL :: duration where
  "publishLeaseTTL = 2 * minute"


section \<open>Transitions of the worker\<close>

type_synonym worker_result = "post_err option \<times> PostTarget \<times> post_db"

definition claimTarget ::
  "tx_fault \<Rightarrow> time \<Rightarrow> (int \<Rightarrow> bool) \<Rightarrow> string \<Rightarrow> PostTarget \<Rightarrow> post_db \<Rightarrow> (post_err + bool) \<times> post_db" where
  "claimTarget flt now lk worker t db =
     ClaimQueuedTargetWithLease flt now lk (pt_id t) worker publishLeaseTTL db"

definition updateTargetStatus ::
  "tx_fault \<Rightarrow> time \<Rightarrow> string \<Rightarrow> PostTarget \<Rightarrow> post_db \<Rightarrow> post_err option \<times> post_db" where
  "updateTargetStatus flt now worker t db =
     (let ((r, leaked), db') = UpdateStatusWithLease flt now (Some t) worker db
      in (case r of Inl e \<Rightarrow> Some e | Inr _ \<Rightarrow> None, db'))"

definition retryTarget ::
  "tx_fault \<Rightarrow> time \<Rightarrow> string \<Rightarrow> PostTarget \<Rightarrow> string \<Rightarrow> post_db \<Rightarrow> worker_result" where
  "retryTarget flt now worker t reason db =
     (let nxt = now + publishRetryBackoff (int (pt_attempt_count t));
          (r, db') = pt_MarkRetrying flt now (pt_id t) worker reason nxt db
      in case r of
           Inl e \<Rightarrow> (Some e, t, db')
         | Inr _ \<Rightarrow> (None, t\<lparr>pt_status := PSRetrying, pt_next_attempt_at := Some nxt,
                             pt_attempt_count := pt_attempt_count t + 1,
                             pt_error_message := reason\<rparr>, db'))"

definition deadLetterTarget ::
  "tx_fault \<Rightarrow> time \<Rightarrow> string \<Rightarrow> PostTarget \<Rightarrow> string \<Rightarrow> post_db \<Rightarrow> worker_result" where
  "deadLetterTarget flt now worker t reason db =
     (let (r, db') = pt_MarkDeadLetter flt now (pt_id t) worker reason db
      in case r of
           Inl e \<Rightarrow> (Some e, t, db')
         | Inr _ \<Rightarrow> (None, t\<lparr>pt_status := PSDLQ, pt_error_message := reason\<rparr>, db'))"

text \<open>The returned error of \<open>markFailed\<close> is always the reason; it is left out.\<close>

definition markFailed ::
  "tx_fault \<Rightarrow> time \<Rightarrow> string \<Rightarrow> PostTarget \<Rightarrow> string \<Rightarrow> post_db \<Rightarrow> PostTarget \<times> post_db" where
  "markFailed flt now worker t reason db =
     snd (retryTarget flt now worker
            (t\<lparr>pt_status := PSFailed, pt_error_message := reason\<rparr>) reason db)"

definition markPublishBlockedAuth ::
  "tx_fault \<Rightarrow> time \<Rightarrow> string \<Rightarrow> PostTarget \<Rightarrow> string \<Rightarrow> post_db \<Rightarrow> PostTarget \<times> post_db" where
  "markPublishBlockedAuth flt now worker t reason db =
     (let t' = t\<lparr>pt_status := PSBlockedAuth, pt_error_message := reason,
                 pt_last_error_code := ''blocked_auth''\<rparr>
      in (t', snd (updateTargetStatus flt now worker t' db)))"

definition rateLimitDelay :: "go_error \<Rightarrow> duration" where
  "rateLimitDelay err =
     (let ra = (case ClassifyErrorFor '''' ''publish'' (Some err) of
                  Some c \<Rightarrow> if ne_retry_after c > 0 then ne_retry_after c
                             else RetryAfterFromError (Some err)
                | None \<Rightarrow> RetryAfterFromError (Some err))
      in if ra \<le> 0 then defaultRateLimitBackoff else ra)"

definition markRateLimited ::
  "tx_fault \<Rightarrow> time \<Rightarrow> string \<Rightarrow> PostTarget \<Rightarrow> go_error \<Rightarrow> post_db \<Rightarrow> worker_result" where
  "markRateLimited flt now worker t err db =
     (let nxt = now + rateLimitDelay err;
          (r, db') = MarkRateLimitedRetryWithLease flt now (pt_id t) worker nxt (err_text err) db
      in case r of
           Inl e \<Rightarrow> (Some e, t, db')
         | Inr _ \<Rightarrow> (None, t\<lparr>pt_status := PSQueued, pt_attempt_count := pt_attempt_count t + 1,
                             pt_next_attempt_at := Some nxt,
                             pt_last_error_code := ''RATE_LIMITED'',
                             pt_error_message := err_text err\<rparr>, db'))"


section \<open>The publish payload\<close>

record PlatformAccount =
  pa_id :: int
  pa_platform :: string
  pa_user_id :: string
  pa_status :: string
  pa_reauth_required_at :: "time option"

record PublishPayload =
  pp_text :: string
  pp_title :: string
  pp_publish_at :: "time option"
  pp_privacy :: string
  pp_video_url :: string
  pp_tags :: "string list"
  pp_source :: string
  pp_idempotency_key :: string

text \<open>\<open>tags\<close> decodes \<open>metadata.tags\<close>, \<open>None\<close> when the metadata is no object of that shape.\<close>

definition buildPayload ::
  "(string \<Rightarrow> string list option) \<Rightarrow> PlatformAccount \<Rightarrow> Post \<Rightarrow> string \<Rightarrow> PublishPayload" where
  "buildPayload tags acc p key =
     (let lvl0 = p_privacy_level p;
          lvl1 = (if lvl0 = '''' then p_default_privacy_level p else lvl0);
          lvl2 = (if pa_platform acc = ''youtube'' \<and> lvl1 = '''' then ''unlisted'' else lvl1);
          lvl3 = (if lvl2 = '''' then ''PUBLIC_TO_EVERYONE'' else lvl2)
      in \<lparr>pp_text = p_caption p, pp_title = p_title p, pp_publish_at = p_publish_at p,
          pp_privacy = lvl3, pp_video_url = p_media_url p,
          pp_tags = (if p_metadata p = '''' then [] else case tags (p_metadata p) of None \<Rightarrow> [] | Some ts \<Rightarrow> ts),
          pp_source = (if pa_platform acc = ''tiktok'' then ''PULL_FROM_FILE'' else ''''),
          pp_idempotency_key = key\<rparr>)"


section \<open>Backoff lemmas\<close>

lemma double_until_closed:
  assumes "0 < b"
  shows "min cap (double_until n cap b) = min cap (b * 2 ^ n)"
  using assms
proof (induction n arbitrary: b)
  case 0
  then show ?case by simp
next
  case (Suc n)
  show ?case
  proof (cases "b < cap")
    case True
    then show ?thesis using Suc.IH [of "b * 2"] Suc.prems by (simp add: mult.assoc)
  next
    case False
    have "(1 :: int) \<le> 2 ^ Suc n" by (rule one_le_power) simp
    then have "b \<le> b * 2 ^ Suc n" using Suc.prems mult_left_mono [of 1 "2 ^ Suc n" b] by linarith
    then show ?thesis using False by simp
  qed
qed

text \<open>
  The publish backoff is the exponential \<open>5s * 2^attempt\<close> capped at five minutes. It is
  never below five seconds, never above the cap, and never decreases with the attempt.
\<close>

theorem publishRetryBackoff_closed:
  "publishRetryBackoff (int n) = min (5 * minute) (5 * second * 2 ^ n) \<and>
   5 * second \<le> publishRetryBackoff (int n) \<and> publishRetryBackoff (int n) \<le> 5 * minute \<and>
   publishRetryBackoff (int n) \<le> publishRetryBackoff (int (n + k))"
proof -
  have closed: "publishRetryBackoff (int m) = min (5 * minute) (5 * second * 2 ^ m)" for m
    using double_until_closed [of "5 * second" "5 * minute" m]
    by (simp add: publishRetryBackoff_def Let_def min_def split: if_splits)
  have one: "(1 :: int) \<le> 2 ^ n" by simp
  have "(2 :: int) ^ n \<le> 2 ^ (n + k)" by (rule power_increasing) simp_all
  then have mono: "5 * second * 2 ^ n \<le> 5 * second * (2 :: int) ^ (n + k)" by linarith
  show ?thesis unfolding closed
  proof (intro conjI)
    show "min (5 * minute) (5 * second * 2 ^ n) \<le> min (5 * minute) (5 * second * (2 :: int) ^ (n + k))"
      using mono by (intro min.mono order_refl)
  qed (use one in auto)
qed

text \<open>What a failed publish does to the row the worker holds.\<close>

lemma mutateLeasedTarget_ok:
  assumes inv: "post_inv db" and row: "find_row pt_id tid (targets db) = Some r"
    and hit: "fst (q tid w) r" and known: "\<And>x. ps_known (pt_status (snd (q tid w) x))"
  shows "\<exists>db'. mutateLeasedTarget TxOk now tid w q db = (Inr (), db') \<and>
    targets db' = update_where (fst (q tid w)) (triggered now (q tid w)) (targets db)"
proof -
  let ?st = "q tid w"
  have "rows_affected (fst ?st) (targets db) \<noteq> 0"
    using hit find_row_SomeD [OF row] by (auto simp: rows_affected_0_iff)
  moreover have "\<forall>t \<in> set (targets (snd (exec_targets now ?st db))). ps_known (pt_status t)"
    using known known_of_inv [OF inv] by (auto simp: set_update_where)
  ultimately show ?thesis
    using parent_lookup [OF inv row] row
      persist_succeeds [of "snd (exec_targets now ?st db)" "pt_post_id r"]
    by (auto simp: mutateLeasedTarget_def mutateLeasedTargetTx_def run_tx_def split_def Let_def
        lockTargetTx_def)
qed

text \<open>
  A publish that fails on a target the worker picked up with \<open>ListPending\<close> always puts
  the row back into 'retrying', due five seconds later, whatever the attempt count of the
  row is: the pick-up query does not read \<open>attempt_count\<close>, so the backoff is computed from
  zero every time. The count in the row grows by one, and no attempt limit sends the row to
  a terminal state.
\<close>

theorem failed_publish_retries_forever:
  assumes inv: "post_inv db" and row: "find_row pt_id tid (targets db) = Some r"
    and lease: "lease_owner_id r = Some w" and w: "w \<noteq> []"
  shows "find_row pt_id tid (targets (snd (markFailed TxOk now w (project_target r) reason db))) =
    Some (r\<lparr>pt_status := PSRetrying, pt_attempt_count := pt_attempt_count r + 1,
      next_retry_at := Some (now + 5 * second), pt_next_attempt_at := Some (now + 5 * second),
      lease_owner_id := None, leased_until := None, heartbeat_at := None,
      pt_error_message := reason\<rparr>)"
proof -
  have id: "pt_id r = tid" using find_row_SomeD [OF row] by simp
  let ?q = "qMarkRetrying (now + 5 * second) reason"
  have "publishRetryBackoff 0 = 5 * second" by (simp add: publishRetryBackoff_def)
  moreover obtain db' where "mutateLeasedTarget TxOk now tid w ?q db = (Inr (), db')"
      "targets db' = update_where (fst (?q tid w)) (triggered now (?q tid w)) (targets db)"
    using mutateLeasedTarget_ok [OF inv row, of ?q w now] lease id by (auto simp: qMarkRetrying_def)
  ultimately show ?thesis using w id row lease
    by (simp add: markFailed_def retryTarget_def pt_MarkRetrying_def project_target_def Let_def
        find_row_update_where qMarkRetrying_def)
qed

theorem failed_publish_retries_forever_witness:
  "\<exists>r'. find_row pt_id 10 (targets (snd (markFailed TxOk 9 ''w1''
     (project_target (hd (targets leased_db))) ''boom'' leased_db))) = Some r' \<and>
     pt_status r' = PSRetrying \<and> pt_attempt_count r' = 1"
proof -
  have "find_row pt_id 10 (targets leased_db) = Some (hd (targets leased_db))"
    by (simp add: leased_db_def sample_target_def)
  from failed_publish_retries_forever [OF leased_db_inv this, of "''w1''" 9 "''boom''"]
  show ?thesis by (simp add: leased_db_def sample_target_def)
qed

text \<open>
  The payload never carries an empty privacy level, and the cascade is post override,
  then batch default, then 'unlisted' on YouTube and 'PUBLIC_TO_EVERYONE' elsewhere.
\<close>

theorem buildPayload_privacy:
  "pp_privacy (buildPayload tags acc p key) \<noteq> [] \<and>
   pp_privacy (buildPayload tags acc p key) =
     (if p_privacy_level p \<noteq> [] then p_privacy_level p
      else if p_default_privacy_level p \<noteq> [] then p_default_privacy_level p
      else if pa_platform acc = ''youtube'' then ''unlisted'' else ''PUBLIC_TO_EVERYONE'')"
  by (simp add: buildPayload_def Let_def)

end
