(* ===== verification/DeliveryStatus.thy ===== *)
theory DeliveryStatus
  imports StateGraph GoStrings
begin

text \<open>
  The lifecycle of a Velox delivery: the status enum of
  \<open>internal/models/external_delivery.go\<close> with its predicates, its transition table and
  the functions derived from it, and the validation of the delivery metadata. A Go status
  that is not one of the eleven values (the empty string included) is \<open>None\<close>.
\<close>

section \<open>The status enum and its transition table\<close>

datatype ExternalDeliveryStatus =
    Accepted | Downloading | ArtifactVerified | IngestCompleted | Queued | Publishing
  | Published | RetryWait | BlockedAuth | Failed | DeadLetter

fun ed_string :: "ExternalDeliveryStatus \<Rightarrow> string" where
  "ed_string Accepted = ''accepted''"
| "ed_string Downloading = ''downloading''"
| "ed_string ArtifactVerified = ''artifact_verified''"
| "ed_string IngestCompleted = ''ingest_completed''"
| "ed_string Queued = ''queued''"
| "ed_string Publishing = ''publishing''"
| "ed_string Published = ''published''"
| "ed_string RetryWait = ''retry_wait''"
| "ed_string BlockedAuth = ''blocked_auth''"
| "ed_string Failed = ''failed''"
| "ed_string DeadLetter = ''dead_letter''"

lemma ed_string_inject [simp]: "ed_string a = ed_string b \<longleftrightarrow> a = b"
  by (cases a; cases b) simp_all

text \<open>The statuses are ordered by their strings, as \<open>sort.Slice\<close> compares them.\<close>

instantiation ExternalDeliveryStatus :: linorder
begin

definition less_eq_ExternalDeliveryStatus ::
  "ExternalDeliveryStatus \<Rightarrow> ExternalDeliveryStatus \<Rightarrow> bool" where
  "less_eq_ExternalDeliveryStatus a b \<longleftrightarrow> ed_string a \<le> ed_string b"

definition less_ExternalDeliveryStatus ::
  "ExternalDeliveryStatus \<Rightarrow> ExternalDeliveryStatus \<Rightarrow> bool" where
  "less_ExternalDeliveryStatus a b \<longleftrightarrow> ed_string a < ed_string b"

instance
proof
  fix a b c :: ExternalDeliveryStatus
  show "a < b \<longleftrightarrow> a \<le> b \<and> \<not> b \<le> a"
    by (simp only: less_eq_ExternalDeliveryStatus_def less_ExternalDeliveryStatus_def less_le_not_le)
  show "a \<le> a" by (simp add: less_eq_ExternalDeliveryStatus_def)
  show "a \<le> b \<Longrightarrow> b \<le> c \<Longrightarrow> a \<le> c" by (simp add: less_eq_ExternalDeliveryStatus_def)
  show "a \<le> b \<Longrightarrow> b \<le> a \<Longrightarrow> a = b"
    using ed_string_inject by (auto simp: less_eq_ExternalDeliveryStatus_def)
  show "a \<le> b \<or> b \<le> a" by (simp add: less_eq_ExternalDeliveryStatus_def linear)
qed

end

fun ed_IsTerminal :: "ExternalDeliveryStatus \<Rightarrow> bool" where
  "ed_IsTerminal Published = True"
| "ed_IsTerminal Failed = True"
| "ed_IsTerminal DeadLetter = True"
| "ed_IsTerminal BlockedAuth = True"
| "ed_IsTerminal _ = False"

fun ed_IsRetryable :: "ExternalDeliveryStatus \<Rightarrow> bool" where
  "ed_IsRetryable Accepted = True"
| "ed_IsRetryable Downloading = True"
| "ed_IsRetryable ArtifactVerified = True"
| "ed_IsRetryable IngestCompleted = True"
| "ed_IsRetryable Queued = True"
| "ed_IsRetryable Publishing = True"
| "ed_IsRetryable RetryWait = True"
| "ed_IsRetryable _ = False"

fun ed_Next :: "ExternalDeliveryStatus \<Rightarrow> ExternalDeliveryStatus option" where
  "ed_Next Accepted = Some Downloading"
| "ed_Next Downloading = Some ArtifactVerified"
| "ed_Next ArtifactVerified = Some IngestCompleted"
| "ed_Next IngestCompleted = Some Queued"
| "ed_Next Queued = Some Publishing"
| "ed_Next Publishing = Some Published"
| "ed_Next _ = None"

text \<open>\<open>transitionMap\<close>, each inner map as the list of its keys in the order of the source.\<close>

fun ed_transitionMap :: "ExternalDeliveryStatus \<Rightarrow> ExternalDeliveryStatus list" where
  "ed_transitionMap Accepted = [Downloading, RetryWait, BlockedAuth, Failed]"
| "ed_transitionMap Downloading = [ArtifactVerified, RetryWait, BlockedAuth, Failed]"
| "ed_transitionMap ArtifactVerified = [IngestCompleted, RetryWait, BlockedAuth, Failed]"
| "ed_transitionMap IngestCompleted = [Queued, RetryWait, BlockedAuth, Failed]"
| "ed_transitionMap Queued = [Publishing, RetryWait, BlockedAuth, Failed]"
| "ed_transitionMap Publishing = [Published, RetryWait, BlockedAuth, Failed]"
| "ed_transitionMap Published = []"
| "ed_transitionMap RetryWait = [Downloading, Queued, BlockedAuth, Failed, DeadLetter]"
| "ed_transitionMap BlockedAuth = [Queued]"
| "ed_transitionMap Failed = []"
| "ed_transitionMap DeadLetter = []"

definition ed_CanTransitionTo ::
  "ExternalDeliveryStatus option \<Rightarrow> ExternalDeliveryStatus option \<Rightarrow> bool" where
  "ed_CanTransitionTo s t \<longleftrightarrow>
     (case (s, t) of (Some s, Some t) \<Rightarrow> t \<in> set (ed_transitionMap s) | _ \<Rightarrow> False)"

text \<open>
  \<open>LegalTransitions\<close> ranges over a Go map, whose order is arbitrary and may differ from one
  call to the next: \<open>shuffle\<close> is the order of this call.
\<close>

definition ed_LegalTransitions ::
  "(ExternalDeliveryStatus list \<Rightarrow> ExternalDeliveryStatus list) \<Rightarrow> ExternalDeliveryStatus \<Rightarrow>
   ExternalDeliveryStatus list" where
  "ed_LegalTransitions shuffle s = sort (shuffle (ed_transitionMap s))"

definition ed_CanonicalResume ::
  "ExternalDeliveryStatus \<Rightarrow> bool \<Rightarrow> ExternalDeliveryStatus option" where
  "ed_CanonicalResume s downloadURLValid =
     (if s \<noteq> RetryWait then None
      else if downloadURLValid then Some Queued else Some Downloading)"


section \<open>Delivery metadata\<close>

record VeloxDeliveryMetadata =
  vm_title :: string
  vm_description :: string
  vm_privacy_status :: string
  vm_language :: "string option"
  vm_timezone :: "string option"
  vm_tags :: "string list"
  vm_target_account_ids :: "int list"
  vm_drive_account_id :: "int option"
  vm_folder_id :: "string option"

datatype metadata_err =
    MdNil | MdNoTitle | MdPrivacy | MdAccountID int | MdDriveAccount | MdFolder
  | MdLanguageEmpty | MdLanguageInvalid | MdTimezoneEmpty | MdTimezoneInvalid
  | MdTooManyTags nat | MdTagEmpty | MdTagTooLong | MdTagDuplicate string

definition lang_char :: "char \<Rightarrow> bool" where
  "lang_char c \<longleftrightarrow> is_lower c \<or> is_upper c \<or> is_digit c \<or> c = CHR ''-''"

text \<open>
  \<open>^[a-z]{2,8}(-[a-zA-Z0-9-]+)*$\<close>: two to eight lower-case letters, then nothing or a hyphen
  followed by at least one character of the class (the group can be matched in one go, since
  the class contains the hyphen).
\<close>

definition veloxLanguageRegex :: "string \<Rightarrow> bool" where
  "veloxLanguageRegex s \<longleftrightarrow>
     (let p = takeWhile is_lower s; r = dropWhile is_lower s in
      2 \<le> length p \<and> length p \<le> 8 \<and>
      (r = [] \<or> (hd r = CHR ''-'' \<and> 2 \<le> length r \<and> list_all lang_char r)))"

definition validateVeloxLanguage :: "string \<Rightarrow> metadata_err option" where
  "validateVeloxLanguage lang =
     (if TrimSpace lang = '''' then Some MdLanguageEmpty
      else if \<not> veloxLanguageRegex lang then Some MdLanguageInvalid else None)"

text \<open>\<open>loadLocation\<close> is \<open>time.LoadLocation\<close>: whether the embedded IANA database has the name.\<close>

definition validateVeloxTimezone :: "(string \<Rightarrow> bool) \<Rightarrow> string \<Rightarrow> metadata_err option" where
  "validateVeloxTimezone loadLocation tz =
     (if TrimSpace tz = '''' then Some MdTimezoneEmpty
      else if \<not> loadLocation tz \<or> tz = ''Local'' then Some MdTimezoneInvalid else None)"

definition maxVeloxTags :: nat where "maxVeloxTags = 50"

definition maxVeloxTagLen :: nat where "maxVeloxTagLen = 100"

fun tags_loop :: "string list \<Rightarrow> string list \<Rightarrow> metadata_err option" where
  "tags_loop seen [] = None"
| "tags_loop seen (tag # tags) =
     (let trimmed = TrimSpace tag in
      if trimmed = '''' then Some MdTagEmpty
      else if length trimmed > maxVeloxTagLen then Some MdTagTooLong
      else if trimmed \<in> set seen then Some (MdTagDuplicate trimmed)
      else tags_loop (trimmed # seen) tags)"

definition validateVeloxTags :: "string list \<Rightarrow> metadata_err option" where
  "validateVeloxTags tags =
     (if tags = [] then None
      else if length tags > maxVeloxTags then Some (MdTooManyTags (length tags))
      else tags_loop [] tags)"

definition vm_Validate ::
  "(string \<Rightarrow> bool) \<Rightarrow> VeloxDeliveryMetadata option \<Rightarrow> metadata_err option" where
  "vm_Validate loadLocation md =
     (case md of
        None \<Rightarrow> Some MdNil
      | Some m \<Rightarrow>
          if TrimSpace (vm_title m) = '''' \<and> TrimSpace (vm_description m) = '''' then Some MdNoTitle
          else if vm_privacy_status m \<noteq> '''' \<and>
                  vm_privacy_status m \<notin> {''private'', ''public'', ''unlisted''} then Some MdPrivacy
          else case List.find (\<lambda>i. i \<le> 0) (vm_target_account_ids m) of
            Some i \<Rightarrow> Some (MdAccountID i)
          | None \<Rightarrow>
          if some_and (\<lambda>i. i \<le> 0) (vm_drive_account_id m) then Some MdDriveAccount
          else if some_and (\<lambda>f. TrimSpace f = '''') (vm_folder_id m) then Some MdFolder
          else case (case vm_language m of None \<Rightarrow> None | Some l \<Rightarrow> validateVeloxLanguage l) of
            Some e \<Rightarrow> Some e
          | None \<Rightarrow>
          case (case vm_timezone m of None \<Rightarrow> None | Some z \<Rightarrow> validateVeloxTimezone loadLocation z) of
            Some e \<Rightarrow> Some e
          | None \<Rightarrow> validateVeloxTags (vm_tags m))"


section \<open>The machine\<close>

text \<open>The number of happy-path steps from a status to \<open>published\<close>.\<close>

fun ed_distance :: "ExternalDeliveryStatus \<Rightarrow> nat" where
  "ed_distance Accepted = 6"
| "ed_distance Downloading = 5"
| "ed_distance ArtifactVerified = 4"
| "ed_distance IngestCompleted = 3"
| "ed_distance Queued = 2"
| "ed_distance Publishing = 1"
| "ed_distance _ = 0"

definition ed_absorbing :: "ExternalDeliveryStatus \<Rightarrow> bool" where
  "ed_absorbing s \<longleftrightarrow> s = Published \<or> s = Failed \<or> s = DeadLetter"

interpretation ed: state_graph ed_transitionMap ed_absorbing ed_Next Published ed_distance
proof
  show "ed_absorbing s \<Longrightarrow> ed_transitionMap s = []" for s by (auto simp: ed_absorbing_def)
  show "ed_Next s = Some t \<Longrightarrow> t \<in> set (ed_transitionMap s)" for s t by (cases s) auto
  show "ed_Next s = Some t \<Longrightarrow> ed_distance s = Suc (ed_distance t)" for s t by (cases s) auto
  show "ed_Next s = Some t \<Longrightarrow> ed_Next t = None \<Longrightarrow> t = Published" for s t by (cases s) auto
qed simp

lemma ed_distinct: "distinct (ed_transitionMap s)"
  by (cases s) auto

text \<open>
  The list of legal transitions is the same whatever order the runtime visits the Go map
  in, it is sorted and without duplicates, and it holds exactly the statuses that
  \<open>CanTransitionTo\<close> accepts.
\<close>

theorem ed_LegalTransitions_deterministic:
  assumes "\<And>xs. mset (shuffle xs) = mset xs"
  shows "ed_LegalTransitions shuffle s = sort (ed_transitionMap s) \<and>
    sorted (ed_LegalTransitions shuffle s) \<and> distinct (ed_LegalTransitions shuffle s) \<and>
    (\<forall>t. t \<in> set (ed_LegalTransitions shuffle s) \<longleftrightarrow> ed_CanTransitionTo (Some s) (Some t))"
proof -
  have "ed_LegalTransitions shuffle s = sort (ed_transitionMap s)"
    unfolding ed_LegalTransitions_def
    using sort_key_order_independent [of "shuffle (ed_transitionMap s)" "ed_transitionMap s" "\<lambda>x. x"]
      assms by simp
  then show ?thesis by (simp add: ed_distinct ed_CanTransitionTo_def)
qed

theorem ed_LegalTransitions_deterministic_witness:
  "ed_LegalTransitions rev Accepted = sort (ed_transitionMap Accepted) \<and>
   ed_CanTransitionTo (Some Accepted) (Some Failed)"
  using ed_LegalTransitions_deterministic [of rev Accepted] by (simp add: ed_CanTransitionTo_def)

lemma ed_edges:
  "ed_transitionMap s = [] \<longleftrightarrow> ed_absorbing s"
  "ed_CanTransitionTo (Some s) (Some DeadLetter) \<longleftrightarrow> s = RetryWait"
  "ed_CanonicalResume s v = Some t \<Longrightarrow> ed_CanTransitionTo (Some s) (Some t)"
proof -
  show "ed_transitionMap s = [] \<longleftrightarrow> ed_absorbing s"
    by (cases s) (auto simp: ed_absorbing_def)
  show "ed_CanTransitionTo (Some s) (Some DeadLetter) \<longleftrightarrow> s = RetryWait"
    by (cases s) (auto simp: ed_CanTransitionTo_def)
  show "ed_CanonicalResume s v = Some t \<Longrightarrow> ed_CanTransitionTo (Some s) (Some t)"
    by (auto simp: ed_CanonicalResume_def ed_CanTransitionTo_def split: if_splits)
qed

text \<open>
  Every guarded run of the delivery lifecycle stops for good in \<open>published\<close>,
  \<open>failed\<close> and \<open>dead_letter\<close>; those are the only statuses without an exit;
  \<open>dead_letter\<close> is entered from \<open>retry_wait\<close> only; and the canonical resume and the
  happy path only take legal edges, the happy path reaching \<open>published\<close> from every status
  that has a successor on it.
\<close>

theorem ed_lifecycle:
  "(legal_run ed_transitionMap s (ts @ us) \<and> ed_absorbing (run_end s ts) \<longrightarrow> us = []) \<and>
   (ed_transitionMap s = [] \<longleftrightarrow> s \<in> {Published, Failed, DeadLetter}) \<and>
   (ed_CanTransitionTo (Some s) (Some DeadLetter) \<longleftrightarrow> s = RetryWait) \<and>
   (ed_CanonicalResume s v = Some t \<longrightarrow> ed_CanTransitionTo (Some s) (Some t)) \<and>
   (ed_Next s \<noteq> None \<longrightarrow>
      (\<exists>rs. length rs = ed_distance s \<and> legal_run ed_transitionMap s rs \<and> run_end s rs = Published))"
  using ed.absorbing_only_last ed.goal_reachable ed_edges
  by (auto simp: ed_absorbing_def simp del: not_None_eq)

theorem ed_lifecycle_witness:
  "\<exists>rs. length rs = 6 \<and> legal_run ed_transitionMap Accepted rs \<and> run_end Accepted rs = Published"
  using ed_lifecycle [of Accepted "[]" "[]"] by simp


section \<open>What the metadata validation accepts\<close>

lemma tags_loop_None_iff:
  "tags_loop seen tags = None \<longleftrightarrow>
     (\<forall>tag \<in> set tags. TrimSpace tag \<noteq> [] \<and> length (TrimSpace tag) \<le> maxVeloxTagLen \<and>
        TrimSpace tag \<notin> set seen) \<and>
     distinct (map TrimSpace tags)"
  by (induction tags arbitrary: seen) (auto simp: Let_def, metis imageI)

text \<open>
  The metadata of a delivery is accepted exactly when it has a title or a description, a
  known privacy status or none, positive account ids, a non-blank folder when there is one,
  a language tag and a time zone that are well-formed when present, and at most 50 tags,
  non-blank, at most 100 bytes each and pairwise distinct once trimmed.
\<close>

theorem vm_Validate_accepts_iff:
  "vm_Validate loadLocation (Some m) = None \<longleftrightarrow>
     \<not> (TrimSpace (vm_title m) = [] \<and> TrimSpace (vm_description m) = []) \<and>
     vm_privacy_status m \<in> {[], ''private'', ''public'', ''unlisted''} \<and>
     list_all (\<lambda>i. 0 < i) (vm_target_account_ids m) \<and>
     null_or (\<lambda>i. 0 < i) (vm_drive_account_id m) \<and>
     null_or (\<lambda>f. TrimSpace f \<noteq> []) (vm_folder_id m) \<and>
     null_or (\<lambda>l. TrimSpace l \<noteq> [] \<and> veloxLanguageRegex l) (vm_language m) \<and>
     null_or (\<lambda>z. TrimSpace z \<noteq> [] \<and> loadLocation z \<and> z \<noteq> ''Local'') (vm_timezone m) \<and>
     length (vm_tags m) \<le> 50 \<and>
     list_all (\<lambda>tag. TrimSpace tag \<noteq> [] \<and> length (TrimSpace tag) \<le> 100) (vm_tags m) \<and>
     distinct (map TrimSpace (vm_tags m))"
proof -
  have ids: "List.find (\<lambda>i. i \<le> 0) is = None \<longleftrightarrow> list_all (\<lambda>i. 0 < i) is" for "is" :: "int list"
    by (auto simp: find_None_iff list_all_iff not_le)
  have tags: "validateVeloxTags ts = None \<longleftrightarrow> length ts \<le> 50 \<and>
      list_all (\<lambda>tag. TrimSpace tag \<noteq> [] \<and> length (TrimSpace tag) \<le> 100) ts \<and>
      distinct (map TrimSpace ts)" for ts
    by (auto simp: validateVeloxTags_def tags_loop_None_iff maxVeloxTags_def maxVeloxTagLen_def
        list_all_iff)
  have lang: "validateVeloxLanguage l = None \<longleftrightarrow> TrimSpace l \<noteq> [] \<and> veloxLanguageRegex l" for l
    by (simp add: validateVeloxLanguage_def)
  have zone: "validateVeloxTimezone loadLocation z = None \<longleftrightarrow>
      TrimSpace z \<noteq> [] \<and> loadLocation z \<and> z \<noteq> ''Local''" for z
    by (simp add: validateVeloxTimezone_def)
  have guard: "(if b then Some e else y) = None \<longleftrightarrow> \<not> b \<and> y = None"
    and chain: "(case x of None \<Rightarrow> y | Some i \<Rightarrow> Some (f i)) = None \<longleftrightarrow> x = None \<and> y = None"
    and within: "(case x of None \<Rightarrow> None | Some i \<Rightarrow> g i) = None \<longleftrightarrow> null_or (\<lambda>i. g i = None) x"
    and neg: "\<not> some_and q z \<longleftrightarrow> null_or (\<lambda>i. \<not> q i) z"
    for b e y x f g q and z :: "'z option"
    by (simp_all split: option.splits add: null_or_def some_and_def)
  show ?thesis
    unfolding vm_Validate_def option.case guard chain within neg lang zone tags ids
    by (simp add: not_le insert_iff conj_ac) blast
qed

end
