(* ===== verification/VeloxIngest.thy ===== *)
theory VeloxIngest
  imports DeliveryStatus ProviderErrors
begin

text \<open>
  The ingest side of the Velox hand-off: the \<open>external_deliveries\<close> table of
  \<open>internal/repository/external_delivery_status.go\<close> and
  \<open>external_delivery_claim.go\<close>, the guarded state machine of
  \<open>internal/worker/ingest_fsm.go\<close> and the downloader of
  \<open>internal/worker/velox_artifact_downloader.go\<close>. The look-ups of destinations,
  workspaces and channels and the JSON decoding of the metadata are parameters of the
  downloader; the insertion of the upload job is the id the database returns for it.
\<close>

section \<open>The table\<close>

record delivery =
  d_id :: string
  d_destination :: string
  d_download_url :: "string option"
  d_metadata :: string
  d_status :: ExternalDeliveryStatus
  d_upload_job_id :: "int option"
  d_platform_media_id :: "string option"
  d_platform_url :: "string option"
  d_last_error_code :: "string option"
  d_last_error_message :: "string option"
  d_created_at :: time
  d_completed_at :: "time option"
  d_lease_expires_at :: "time option"
  d_leased_by :: "string option"
  d_attempt_count :: nat
  d_next_attempt_at :: "time option"
  d_max_attempts :: nat
  d_expected_sha256 :: string
  d_expected_size_bytes :: int

datatype delivery_err =
    ErrExternalDeliveryNotFound | ErrExternalDeliveryNotLinked
  | ErrExternalDeliveryAlreadyClaimed | ErrExternalDeliveryNoExpectedTriple
  | EdInvalidArgument | EdDatabase

text \<open>The common tail of the writers: run the statement and test the affected rows.\<close>

definition exec_delivery ::
  "db_fault \<Rightarrow> string \<Rightarrow> (delivery \<Rightarrow> delivery) \<Rightarrow> delivery list \<Rightarrow>
   (delivery_err + unit) \<times> delivery list" where
  "exec_delivery flt i f t =
     (let (n, t') = exec_update flt (\<lambda>r. d_id r = i) f t
      in (case n of None \<Rightarrow> Inl EdDatabase
          | Some k \<Rightarrow> if k = 0 then Inl ErrExternalDeliveryNotFound else Inr (), t'))"

definition ed_UpdateStatus ::
  "db_fault \<Rightarrow> time \<Rightarrow> string \<Rightarrow> ExternalDeliveryStatus option \<Rightarrow> string option \<Rightarrow> string option \<Rightarrow>
   string option \<Rightarrow> string option \<Rightarrow> delivery list \<Rightarrow> (delivery_err + unit) \<times> delivery list" where
  "ed_UpdateStatus flt now i newStatus code msg mid purl t =
     (case newStatus of None \<Rightarrow> (Inl EdInvalidArgument, t)
      | Some s \<Rightarrow>
        if i = '''' then (Inl EdInvalidArgument, t)
        else exec_delivery flt i
          (\<lambda>r. r\<lparr>d_status := s,
                 d_last_error_code := coalesce code (d_last_error_code r),
                 d_last_error_message := coalesce msg (d_last_error_message r),
                 d_platform_media_id := coalesce mid (d_platform_media_id r),
                 d_platform_url := coalesce purl (d_platform_url r),
                 d_completed_at :=
                   (if s \<in> {Published, Failed, DeadLetter, BlockedAuth} \<and> d_completed_at r = None
                    then Some now else d_completed_at r)\<rparr>) t)"

definition ed_MarkRetry ::
  "db_fault \<Rightarrow> string \<Rightarrow> time \<Rightarrow> string \<Rightarrow> string \<Rightarrow> delivery list \<Rightarrow>
   (delivery_err + unit) \<times> delivery list" where
  "ed_MarkRetry flt i nxt code msg t =
     (if i = '''' then (Inl EdInvalidArgument, t)
      else exec_delivery flt i
        (\<lambda>r. r\<lparr>d_status := RetryWait, d_next_attempt_at := Some nxt, d_lease_expires_at := None,
               d_leased_by := None, d_last_error_code := Some code,
               d_last_error_message := Some msg\<rparr>) t)"

text \<open>\<open>MarkFailed\<close>, \<open>MarkBlockedAuth\<close> and \<open>MarkDeadLetter\<close> differ in the status only.\<close>

definition ed_mark_terminal ::
  "ExternalDeliveryStatus \<Rightarrow> db_fault \<Rightarrow> time \<Rightarrow> string \<Rightarrow> string \<Rightarrow> string \<Rightarrow> delivery list \<Rightarrow>
   (delivery_err + unit) \<times> delivery list" where
  "ed_mark_terminal s flt now i code msg t =
     (if i = '''' then (Inl EdInvalidArgument, t)
      else exec_delivery flt i
        (\<lambda>r. r\<lparr>d_status := s, d_lease_expires_at := None, d_leased_by := None,
               d_next_attempt_at := None, d_last_error_code := Some code,
               d_last_error_message := Some msg,
               d_completed_at := coalesce (d_completed_at r) (Some now)\<rparr>) t)"

definition ed_MarkFailed ::
  "db_fault \<Rightarrow> time \<Rightarrow> string \<Rightarrow> string \<Rightarrow> string \<Rightarrow> delivery list \<Rightarrow>
   (delivery_err + unit) \<times> delivery list" where
  "ed_MarkFailed = ed_mark_terminal Failed"

definition ed_MarkBlockedAuth ::
  "db_fault \<Rightarrow> time \<Rightarrow> string \<Rightarrow> string \<Rightarrow> string \<Rightarrow> delivery list \<Rightarrow>
   (delivery_err + unit) \<times> delivery list" where
  "ed_MarkBlockedAuth = ed_mark_terminal BlockedAuth"

definition ed_MarkDeadLetter ::
  "db_fault \<Rightarrow> time \<Rightarrow> string \<Rightarrow> string \<Rightarrow> string \<Rightarrow> delivery list \<Rightarrow>
   (delivery_err + unit) \<times> delivery list" where
  "ed_MarkDeadLetter = ed_mark_terminal DeadLetter"

definition ed_eligible :: "time \<Rightarrow> delivery \<Rightarrow> bool" where
  "ed_eligible now r \<longleftrightarrow>
     d_status r \<in> {Accepted, RetryWait} \<and> null_or (\<lambda>t. t < now) (d_lease_expires_at r) \<and>
     null_or (\<lambda>t. t \<le> now) (d_next_attempt_at r)"

text \<open>
  \<open>ClaimDelivery\<close>: the oldest eligible row that no other transaction has locked; the row it
  returns is the updated one. \<open>lease.Seconds()\<close> is passed with its fraction.
\<close>

definition ClaimDelivery ::
  "db_fault \<Rightarrow> time \<Rightarrow> (string \<Rightarrow> bool) \<Rightarrow> string \<Rightarrow> duration \<Rightarrow> int \<Rightarrow> delivery list \<Rightarrow>
   (delivery_err + delivery) \<times> delivery list" where
  "ClaimDelivery flt now locked worker lease maxAttempts t =
     (if worker = '''' \<or> lease \<le> 0 then (Inl EdInvalidArgument, t)
      else if flt = DbFailed then (Inl EdDatabase, t)
      else case first_by d_created_at (filter (\<lambda>r. ed_eligible now r \<and> \<not> locked (d_id r)) t) of
          None \<Rightarrow> (if flt = DbLost then Inl EdDatabase else Inl ErrExternalDeliveryNotFound, t)
        | Some c \<Rightarrow>
            let stamp = (\<lambda>r. r\<lparr>d_lease_expires_at := Some (now + lease),
                  d_leased_by := Some worker, d_attempt_count := d_attempt_count r + 1,
                  d_next_attempt_at := None,
                  d_max_attempts := max (d_max_attempts r)
                    (if maxAttempts \<le> 0 then 5 else nat maxAttempts)\<rparr>)
            in (if flt = DbLost then Inl EdDatabase else Inr (stamp c),
                update_where (\<lambda>r. d_id r = d_id c) stamp t))"

text \<open>
  \<open>CreateUploadJobAndLink\<close>: \<open>jobID\<close> is the id of the inserted job, \<open>None\<close> when the
  insertion fails. A lost commit answer is \<open>DbLost\<close>.
\<close>

definition link_claimable :: "string \<Rightarrow> string \<Rightarrow> delivery \<Rightarrow> bool" where
  "link_claimable i worker r \<longleftrightarrow>
     d_id r = i \<and> d_status r \<in> {Accepted, RetryWait} \<and> d_upload_job_id r = None \<and>
     (d_leased_by r = Some worker \<or> d_leased_by r = None)"

definition CreateUploadJobAndLink ::
  "db_fault \<Rightarrow> int option \<Rightarrow> string \<Rightarrow> string \<Rightarrow> delivery list \<Rightarrow>
   (delivery_err + int) \<times> delivery list" where
  "CreateUploadJobAndLink flt jobID i worker t =
     (if i = '''' then (Inl EdInvalidArgument, t)
      else if flt = DbFailed then (Inl EdDatabase, t)
      else case jobID of
          None \<Rightarrow> (Inl EdDatabase, t)
        | Some j \<Rightarrow>
            if rows_affected (link_claimable i worker) t = 0
            then (Inl ErrExternalDeliveryAlreadyClaimed, t)
            else (if flt = DbLost then Inl EdDatabase else Inr j,
                  update_where (link_claimable i worker)
                    (\<lambda>r. r\<lparr>d_status := Downloading, d_upload_job_id := Some j,
                           d_lease_expires_at := None, d_leased_by := None\<rparr>) t))"

definition LinkUploadJob ::
  "db_fault \<Rightarrow> string \<Rightarrow> int \<Rightarrow> delivery list \<Rightarrow> (delivery_err + unit) \<times> delivery list" where
  "LinkUploadJob flt i j t =
     (if i = '''' \<or> j \<le> 0 then (Inl EdInvalidArgument, t)
      else let (n, t') = exec_update flt (\<lambda>r. d_id r = i \<and> d_upload_job_id r = None)
                 (\<lambda>r. r\<lparr>d_upload_job_id := Some j\<rparr>) t
           in (case n of None \<Rightarrow> Inl EdDatabase
               | Some k \<Rightarrow> if k = 0 then Inl ErrExternalDeliveryNotFound else Inr (), t'))"


section \<open>The ingest state machine\<close>

datatype fsm_err =
    FsmEmptyID | FsmEmptyState | ErrTerminal | ErrIllegalTransition
  | FsmPersist delivery_err | FsmNotRetryWait

definition fsm_Transition ::
  "db_fault \<Rightarrow> time \<Rightarrow> string \<Rightarrow> ExternalDeliveryStatus option \<Rightarrow> ExternalDeliveryStatus option \<Rightarrow>
   string option \<Rightarrow> string option \<Rightarrow> string option \<Rightarrow> string option \<Rightarrow> delivery list \<Rightarrow>
   (fsm_err + unit) \<times> delivery list" where
  "fsm_Transition flt now i from to code msg mid purl t =
     (if i = '''' then (Inl FsmEmptyID, t)
      else case (from, to) of
        (Some s, Some s') \<Rightarrow>
          if ed_IsTerminal s \<and> s \<noteq> BlockedAuth then (Inl ErrTerminal, t)
          else if \<not> ed_CanTransitionTo (Some s) (Some s') then (Inl ErrIllegalTransition, t)
          else let (r, t') = ed_UpdateStatus flt now i (Some s') code msg mid purl t
               in (case r of Inl e \<Rightarrow> Inl (FsmPersist e) | Inr _ \<Rightarrow> Inr (), t')
      | _ \<Rightarrow> (Inl FsmEmptyState, t))"

definition fsm_advance ::
  "ExternalDeliveryStatus \<Rightarrow> db_fault \<Rightarrow> time \<Rightarrow> string \<Rightarrow> ExternalDeliveryStatus option \<Rightarrow>
   delivery list \<Rightarrow> (fsm_err + unit) \<times> delivery list" where
  "fsm_advance to flt now i from t = fsm_Transition flt now i from (Some to) None None None None t"

definition ToDownloading where "ToDownloading = fsm_advance Downloading"

definition ToArtifactVerified where "ToArtifactVerified = fsm_advance ArtifactVerified"

definition ToIngestCompleted where "ToIngestCompleted = fsm_advance IngestCompleted"

definition ToQueued where "ToQueued = fsm_advance Queued"

definition ToPublishing where "ToPublishing = fsm_advance Publishing"

definition ToPublished ::
  "db_fault \<Rightarrow> time \<Rightarrow> string \<Rightarrow> ExternalDeliveryStatus option \<Rightarrow> string option \<Rightarrow> string option \<Rightarrow>
   delivery list \<Rightarrow> (fsm_err + unit) \<times> delivery list" where
  "ToPublished flt now i from mid purl t =
     fsm_Transition flt now i from (Some Published) None None mid purl t"

definition fsm_error_exit ::
  "ExternalDeliveryStatus \<Rightarrow> db_fault \<Rightarrow> time \<Rightarrow> string \<Rightarrow> ExternalDeliveryStatus option \<Rightarrow> string \<Rightarrow>
   string \<Rightarrow> delivery list \<Rightarrow> (fsm_err + unit) \<times> delivery list" where
  "fsm_error_exit to flt now i from code msg t =
     fsm_Transition flt now i from (Some to) (Some code) (Some msg) None None t"

definition ToRetryWait where "ToRetryWait = fsm_error_exit RetryWait"

definition ToFailed where "ToFailed = fsm_error_exit Failed"

definition ToBlockedAuth where "ToBlockedAuth = fsm_error_exit BlockedAuth"

definition ToDeadLetter where "ToDeadLetter = fsm_error_exit DeadLetter"

definition fsm_Resume ::
  "db_fault \<Rightarrow> time \<Rightarrow> string \<Rightarrow> ExternalDeliveryStatus option \<Rightarrow> bool \<Rightarrow> delivery list \<Rightarrow>
   (fsm_err + unit) \<times> delivery list" where
  "fsm_Resume flt now i from valid t =
     (case from of None \<Rightarrow> (Inl FsmNotRetryWait, t)
      | Some s \<Rightarrow>
          (case ed_CanonicalResume s valid of
             None \<Rightarrow> (Inl FsmNotRetryWait, t)
           | Some target \<Rightarrow> fsm_advance target flt now i from t))"

definition ToQueuedFromBlockedAuth ::
  "db_fault \<Rightarrow> time \<Rightarrow> string \<Rightarrow> delivery list \<Rightarrow> (fsm_err + unit) \<times> delivery list" where
  "ToQueuedFromBlockedAuth flt now i t = fsm_advance Queued flt now i (Some BlockedAuth) t"


section \<open>The downloader\<close>

text \<open>
  What the collaborators of \<open>processOne\<close> answer: the destination (whether it is enabled, its
  workspace and account, its provider marker), the workspace, the channel binding and the
  decoded metadata. \<open>Inl\<close> is an error of the look-up, \<open>Inr None\<close> a missing row.
\<close>

record destination =
  dest_enabled :: bool
  dest_workspace :: int
  dest_account :: int
  dest_provider :: string

record velox_env =
  ve_destination :: "string \<Rightarrow> go_error + destination option"
  ve_workspace :: "int \<Rightarrow> go_error + bool"
  ve_channel :: "int \<Rightarrow> int \<Rightarrow> go_error + bool option"
  ve_parse :: "string \<Rightarrow> VeloxDeliveryMetadata option"
  ve_location :: "string \<Rightarrow> bool"

datatype process_err = MetadataOnly | TransientErr go_error | TerminalErr string

definition already_claimed_error :: go_error where
  "already_claimed_error =
     \<lparr>err_chain = [LOpaque], err_text = ''external delivery already claimed''\<rparr>"

definition store_error :: "delivery_err \<Rightarrow> go_error" where
  "store_error e =
     (if e = ErrExternalDeliveryAlreadyClaimed then already_claimed_error
      else \<lparr>err_chain = [LOpaque], err_text = ''external delivery CreateUploadJobAndLink''\<rparr>)"

definition processOne ::
  "velox_env \<Rightarrow> db_fault \<Rightarrow> int option \<Rightarrow> string \<Rightarrow> delivery \<Rightarrow> delivery list \<Rightarrow>
   process_err option \<times> delivery list" where
  "processOne env flt jobID worker d t =
     (if d_download_url d = None \<or> d_download_url d = Some '''' then (Some MetadataOnly, t)
      else case ve_destination env (d_destination d) of
        Inl e \<Rightarrow> (Some (TransientErr e), t)
      | Inr None \<Rightarrow> (Some (TerminalErr ''external destination not found''), t)
      | Inr (Some dest) \<Rightarrow>
        if \<not> dest_enabled dest then (Some (TerminalErr ''external destination is disabled''), t)
        else case ve_workspace env (dest_workspace dest) of
          Inl e \<Rightarrow> (Some (TransientErr e), t)
        | Inr False \<Rightarrow> (Some (TerminalErr ''workspace not found''), t)
        | Inr True \<Rightarrow>
          (case (if dest_provider dest = ''google_drive'' then Inr (Some True)
                 else ve_channel env (dest_workspace dest) (dest_account dest)) of
             Inl e \<Rightarrow> (Some (TransientErr e), t)
           | Inr binding \<Rightarrow>
             if binding \<noteq> Some True
             then (Some (TerminalErr ''platform account is not enabled in workspace''), t)
             else case ve_parse env (d_metadata d) of
               None \<Rightarrow> (Some (TerminalErr ''metadata is not valid JSON''), t)
             | Some md \<Rightarrow>
               if vm_Validate (ve_location env) (Some md) \<noteq> None
               then (Some (TerminalErr ''metadata''), t)
               else
                 (case CreateUploadJobAndLink flt jobID (d_id d) worker t of
                    (Inl e, t') \<Rightarrow> (Some (TransientErr (store_error e)), t')
                  | (Inr j, t') \<Rightarrow>
                      (if j \<le> 0
                       then Some (TerminalErr ''CreateUploadJobAndLink returned non-positive id'')
                       else None, t'))))"

text \<open>The error value the wrappers \<open>transientError\<close> and \<open>terminalError\<close> build.\<close>

fun process_go_error :: "process_err \<Rightarrow> go_error" where
  "process_go_error MetadataOnly = \<lparr>err_chain = [LOpaque], err_text = ''metadata-only delivery''\<rparr>"
| "process_go_error (TransientErr e) =
     \<lparr>err_chain = LTransient # err_chain e, err_text = err_text e\<rparr>"
| "process_go_error (TerminalErr msg) = \<lparr>err_chain = [LPermanent], err_text = msg\<rparr>"

text \<open>\<open>backoff *= 2\<close>, capped and left as soon as it reaches thirty minutes.\<close>

fun retry_loop :: "nat \<Rightarrow> duration \<Rightarrow> duration" where
  "retry_loop 0 b = b"
| "retry_loop (Suc n) b = (if b * 2 \<ge> 30 * minute then 30 * minute else retry_loop n (b * 2))"

definition velox_retryBackoff :: "nat \<Rightarrow> duration" where
  "velox_retryBackoff attemptCount = retry_loop (attemptCount - 1) (5 * second)"

definition handleFailure ::
  "db_fault \<Rightarrow> time \<Rightarrow> nat \<Rightarrow> delivery \<Rightarrow> process_err \<Rightarrow> delivery list \<Rightarrow> delivery list" where
  "handleFailure flt now maxAttempts d err t =
     (if err = MetadataOnly
      then snd (ed_MarkBlockedAuth flt now (d_id d) ''VELOX_METADATA_ONLY''
                  ''delivery has no download_url; metadata-only'' t)
      else
        case ClassifyErrorFor ''velox'' ''artifact_registration'' (Some (process_go_error err)) of
          None \<Rightarrow> snd (ed_MarkFailed flt now (d_id d) ''VELOX_PROCESSING_ERROR''
                        (err_text (process_go_error err)) t)
        | Some c \<Rightarrow>
          if ne_kind c \<noteq> KindTransient \<and> ne_kind c \<noteq> KindRateLimited
          then snd (ed_MarkFailed flt now (d_id d)
                 (if ne_kind c = KindAuth then ''VELOX_AUTH_ERROR'' else ''VELOX_PROCESSING_ERROR'')
                 (err_text (process_go_error err)) t)
          else if d_attempt_count d \<ge> maxAttempts
          then snd (ed_MarkDeadLetter flt now (d_id d) ''MAX_ATTEMPTS_EXCEEDED''
                 ''retry budget exhausted'' t)
          else
            let backoff = (if ne_retry_after c > 0 then ne_retry_after c
                           else velox_retryBackoff (d_attempt_count d))
            in snd (ed_MarkRetry flt (d_id d) (now + backoff)
                 (if ne_kind c = KindRateLimited then ''RATE_LIMITED'' else ''TRANSIENT_ERROR'')
                 (err_text (process_go_error err)) t))"

text \<open>One tick: claim, process, record the outcome; each statement has its own fault.\<close>

definition claimAndProcess ::
  "velox_env \<Rightarrow> db_fault \<Rightarrow> db_fault \<Rightarrow> db_fault \<Rightarrow> time \<Rightarrow> (string \<Rightarrow> bool) \<Rightarrow> int option \<Rightarrow> string \<Rightarrow>
   duration \<Rightarrow> nat \<Rightarrow> delivery list \<Rightarrow> delivery list" where
  "claimAndProcess env f1 f2 f3 now locked jobID worker lease maxAttempts t =
     (case ClaimDelivery f1 now locked worker lease (int maxAttempts) t of
        (Inl _, t1) \<Rightarrow> t1
      | (Inr d, t1) \<Rightarrow>
          (case processOne env f2 jobID worker d t1 of
             (None, t2) \<Rightarrow> t2
           | (Some err, t2) \<Rightarrow> handleFailure f3 now maxAttempts d err t2))"

section \<open>At most one upload job per delivery\<close>

text \<open>
  The writes of the ingest side, one database statement each, so that a list of them is an
  interleaving of any number of downloaders and state-machine callers. A failure is recorded
  with the copy of the row its worker claimed, which may be stale.
\<close>

datatype ingest_op =
    OpClaim db_fault time "string \<Rightarrow> bool" string duration int
  | OpProcess velox_env db_fault "int option" string delivery
  | OpFailure db_fault time nat delivery process_err
  | OpTransition db_fault time string "ExternalDeliveryStatus option"
      "ExternalDeliveryStatus option" "string option" "string option" "string option" "string option"
  | OpLinkJob db_fault string int

fun ingest_exec :: "delivery list \<Rightarrow> ingest_op \<Rightarrow> delivery list" where
  "ingest_exec t (OpClaim flt now lk w lease m) = snd (ClaimDelivery flt now lk w lease m t)"
| "ingest_exec t (OpProcess env flt j w d) = snd (processOne env flt j w d t)"
| "ingest_exec t (OpFailure flt now m d e) = handleFailure flt now m d e t"
| "ingest_exec t (OpTransition flt now i from to c msg mid url) =
     snd (fsm_Transition flt now i from to c msg mid url t)"
| "ingest_exec t (OpLinkJob flt i j) = snd (LinkUploadJob flt i j t)"

text \<open>Ids never change and a link, once made, stays.\<close>

definition link_kept :: "delivery \<Rightarrow> delivery \<Rightarrow> bool" where
  "link_kept r r' \<longleftrightarrow> d_id r' = d_id r \<and>
     (d_upload_job_id r = None \<or> d_upload_job_id r' = d_upload_job_id r)"

lemma link_kept_refl: "link_kept r r"
  by (simp add: link_kept_def)

lemma link_kept_trans: "link_kept a b \<Longrightarrow> link_kept b c \<Longrightarrow> link_kept a c"
  by (auto simp: link_kept_def)

abbreviation links_kept :: "delivery list \<Rightarrow> delivery list \<Rightarrow> bool" where
  "links_kept \<equiv> list_all2 link_kept"

lemma links_kept_refl [simp]: "links_kept t t"
  by (simp add: list_all2_refl link_kept_refl)

lemma links_kept_update:
  assumes "\<And>r. p r \<Longrightarrow> link_kept r (f r)"
  shows "links_kept t (update_where p f t)"
  using assms by (induction t) (auto simp: link_kept_refl)

lemma links_kept_exec_delivery:
  assumes "\<And>r. link_kept r (f r)"
  shows "links_kept t (snd (exec_delivery flt i f t))"
  using assms by (cases flt) (simp_all add: exec_delivery_def Let_def links_kept_update)

lemma links_kept_status_writes:
  "links_kept t (snd (ed_UpdateStatus flt now i s c m mid url t))"
  "links_kept t (snd (ed_MarkRetry flt i nxt code msg t))"
  "links_kept t (snd (ed_mark_terminal st flt now i code msg t))"
  by (auto simp: ed_UpdateStatus_def ed_MarkRetry_def ed_mark_terminal_def link_kept_def
      intro!: links_kept_exec_delivery split: option.splits)

lemma links_kept_claim: "links_kept t (snd (ClaimDelivery flt now lk w lease m t))"
  by (auto simp: ClaimDelivery_def Let_def link_kept_def intro!: links_kept_update
      split: option.splits)

lemma links_kept_link: "links_kept t (snd (CreateUploadJobAndLink flt j i w t))"
  by (auto simp: CreateUploadJobAndLink_def link_claimable_def link_kept_def
      intro!: links_kept_update split: option.splits)

lemma processOne_table:
  "snd (processOne env flt j w d t) = t \<or>
   snd (processOne env flt j w d t) = snd (CreateUploadJobAndLink flt j (d_id d) w t)"
  by (auto simp: processOne_def split: option.splits sum.splits bool.splits prod.splits)

lemma links_kept_process: "links_kept t (snd (processOne env flt j w d t))"
  using processOne_table [of env flt j w d t] links_kept_link by auto

lemma links_kept_failure: "links_kept t (handleFailure flt now m d e t)"
  by (simp add: handleFailure_def ed_MarkFailed_def ed_MarkBlockedAuth_def ed_MarkDeadLetter_def
      links_kept_status_writes Let_def split: option.split)

lemma links_kept_transition:
  "links_kept t (snd (fsm_Transition flt now i from to c m mid url t))"
  using links_kept_status_writes(1) [of t flt now i to c m mid url]
  by (auto simp: fsm_Transition_def Let_def split: option.splits prod.splits)

lemma links_kept_link_job: "links_kept t (snd (LinkUploadJob flt i j t))"
  by (cases flt) (auto simp: LinkUploadJob_def link_kept_def Let_def intro!: links_kept_update)

lemma links_kept_exec: "links_kept t (ingest_exec t op)"
  by (cases op) (simp_all add: links_kept_claim links_kept_process links_kept_failure
      links_kept_transition links_kept_link_job)

lemma links_kept_run: "links_kept t (foldl ingest_exec t ops)"
proof (induction ops rule: rev_induct)
  case (snoc op ops)
  show ?case
    using list_all2_trans [OF link_kept_trans snoc links_kept_exec [of _ op]] by simp
qed simp

lemma links_kept_find:
  assumes "links_kept t t'" and "find_row d_id i t = Some r"
  shows "\<exists>r'. find_row d_id i t' = Some r' \<and> link_kept r r'"
  using assms by (induction rule: list_all2_induct) (auto simp: link_kept_def split: if_splits)

lemma links_kept_ids: "links_kept t t' \<Longrightarrow> map d_id t' = map d_id t"
  by (induction rule: list_all2_induct) (auto simp: link_kept_def)

lemma linked_row_not_claimable:
  assumes "distinct (map d_id t)" and "find_row d_id i t = Some r"
    and "d_upload_job_id r = Some j"
  shows "rows_affected (link_claimable i w) t = 0"
proof -
  have "\<not> link_claimable i w r'" if "r' \<in> set t" for r'
  proof
    assume c: "link_claimable i w r'"
    then have "find_row d_id i t = Some r'"
      using find_row_unique [OF assms(1) that] by (auto simp: link_claimable_def)
    with assms(2,3) c show False by (simp add: link_claimable_def)
  qed
  then show ?thesis by (simp add: rows_affected_0_iff)
qed

lemma linked_row_refuses:
  assumes "distinct (map d_id t)" and "find_row d_id i t = Some r"
    and "d_upload_job_id r = Some j"
  shows "CreateUploadJobAndLink flt k i w t =
    (fst (CreateUploadJobAndLink flt k i w t), t) \<and>
    \<not> is_ok (fst (CreateUploadJobAndLink flt k i w t))"
  using linked_row_not_claimable [OF assms]
  by (auto simp: CreateUploadJobAndLink_def split: option.splits)

text \<open>
  C4: a delivery gets at most one upload job. Once a row is linked to a job, no interleaving
  of claims, link attempts, failure records, state-machine writes and manual links, by any
  workers, with stale copies of the row and under any database faults, changes or clears the
  link, and every later attempt to create and link a job is refused without a write.
\<close>

theorem delivery_linked_once:
  assumes "distinct (map d_id t)" and "find_row d_id i t = Some r"
    and "d_upload_job_id r = Some j"
  shows "\<exists>r'. find_row d_id i (foldl ingest_exec t ops) = Some r' \<and> d_upload_job_id r' = Some j \<and>
    \<not> is_ok (fst (CreateUploadJobAndLink flt k i w (foldl ingest_exec t ops))) \<and>
    snd (CreateUploadJobAndLink flt k i w (foldl ingest_exec t ops)) = foldl ingest_exec t ops"
proof -
  let ?t = "foldl ingest_exec t ops"
  obtain r' where r': "find_row d_id i ?t = Some r'" "d_upload_job_id r' = Some j"
    using links_kept_find [OF links_kept_run assms(2)] assms(3) by (auto simp: link_kept_def)
  have "distinct (map d_id ?t)" using links_kept_ids [OF links_kept_run] assms(1) by metis
  from linked_row_refuses [OF this r', of flt k w] r' show ?thesis
    by (metis snd_conv)
qed

definition sample_delivery :: delivery where
  "sample_delivery =
     \<lparr>d_id = ''d1'', d_destination = ''dst'', d_download_url = Some ''https://v/x'', d_metadata = ''{}'',
      d_status = Accepted, d_upload_job_id = None, d_platform_media_id = None, d_platform_url = None,
      d_last_error_code = None, d_last_error_message = None, d_created_at = 0, d_completed_at = None,
      d_lease_expires_at = None, d_leased_by = None, d_attempt_count = 0, d_next_attempt_at = None,
      d_max_attempts = 5, d_expected_sha256 = '''', d_expected_size_bytes = 0\<rparr>"

definition sample_metadata :: VeloxDeliveryMetadata where
  "sample_metadata =
     \<lparr>vm_title = ''clip'', vm_description = [], vm_privacy_status = ''private'', vm_language = None,
      vm_timezone = None, vm_tags = [], vm_target_account_ids = [], vm_drive_account_id = None,
      vm_folder_id = None\<rparr>"

definition sample_env :: velox_env where
  "sample_env =
     \<lparr>ve_destination = (\<lambda>_. Inr (Some \<lparr>dest_enabled = True, dest_workspace = 1, dest_account = 2,
                                        dest_provider = ''youtube''\<rparr>)),
      ve_workspace = (\<lambda>_. Inr True), ve_channel = (\<lambda>_ _. Inr (Some True)),
      ve_parse = (\<lambda>_. Some sample_metadata), ve_location = (\<lambda>_. False)\<rparr>"

text \<open>The row as one worker claims it and as the next one links it after the lease ran out.\<close>

definition stale_copy :: delivery where
  "stale_copy = sample_delivery\<lparr>d_lease_expires_at := Some (300 * second), d_leased_by := Some ''A'',
     d_attempt_count := 1\<rparr>"

definition linked_row :: delivery where
  "linked_row = sample_delivery\<lparr>d_status := Published, d_upload_job_id := Some 7,
     d_attempt_count := 2\<rparr>"

theorem delivery_linked_once_witness:
  "\<not> is_ok (fst (CreateUploadJobAndLink DbOk (Some 8) ''d1'' ''A''
     (foldl ingest_exec [linked_row] [OpFailure DbOk 0 5 stale_copy MetadataOnly])))"
proof -
  have "distinct (map d_id [linked_row])" and "find_row d_id ''d1'' [linked_row] = Some linked_row"
    and "d_upload_job_id linked_row = Some 7"
    by (simp_all add: linked_row_def sample_delivery_def)
  from delivery_linked_once [OF this, of "[OpFailure DbOk 0 5 stale_copy MetadataOnly]" DbOk "Some 8" "''A''"]
  show ?thesis by blast
qed


section \<open>Losing the race for a delivery\<close>

text \<open>The checks that stand before the link: what must hold for \<open>processOne\<close> to reach it.\<close>

definition admitted :: "velox_env \<Rightarrow> delivery \<Rightarrow> bool" where
  "admitted env d \<longleftrightarrow>
     (\<exists>u dest md. d_download_url d = Some u \<and> u \<noteq> [] \<and>
        ve_destination env (d_destination d) = Inr (Some dest) \<and> dest_enabled dest \<and>
        ve_workspace env (dest_workspace dest) = Inr True \<and>
        (dest_provider dest = ''google_drive'' \<or>
         ve_channel env (dest_workspace dest) (dest_account dest) = Inr (Some True)) \<and>
        ve_parse env (d_metadata d) = Some md \<and> vm_Validate (ve_location env) (Some md) = None)"

lemma processOne_admitted:
  assumes "admitted env d"
  shows "processOne env flt j w d t =
    (case CreateUploadJobAndLink flt j (d_id d) w t of
       (Inl e, t') \<Rightarrow> (Some (TransientErr (store_error e)), t')
     | (Inr j, t') \<Rightarrow>
         (if j \<le> 0 then Some (TerminalErr ''CreateUploadJobAndLink returned non-positive id'')
          else None, t'))"
  using assms unfolding admitted_def processOne_def by (elim exE) auto

lemma lost_claim_transient:
  "\<exists>c. ClassifyErrorFor ''velox'' ''artifact_registration''
     (Some (process_go_error (TransientErr already_claimed_error))) = Some c \<and>
     ne_kind c = KindTransient \<and> ne_retry_after c = 0"
  by (simp add: ClassifyErrorFor_def ClassifyError_def classify_typed_def already_claimed_error_def
      normalizedFrom_def retryAfterFromCarrier_def RetryAfterFromError_def)

text \<open>
  A worker that loses the race for a delivery undoes the winner's progress. When the row
  is already linked to an upload job, the late worker's link attempt is refused, the refusal
  is treated as transient, and the row, whatever its status by then (\<open>published\<close> included),
  is sent back to \<open>retry_wait\<close>, or to \<open>dead_letter\<close> when the late worker's copy has used up
  the attempts; the link itself stays.
\<close>

theorem lost_race_demotes_winner:
  assumes "distinct (map d_id t)" and "find_row d_id (d_id d) t = Some r"
    and "d_upload_job_id r = Some j" and "d_id d \<noteq> []" and "admitted env d"
  shows "processOne env DbOk (Some k) w d t = (Some (TransientErr already_claimed_error), t) \<and>
    map_option (\<lambda>r'. (d_status r', d_upload_job_id r'))
      (find_row d_id (d_id d)
        (handleFailure DbOk now m d (TransientErr already_claimed_error) t)) =
    Some (if m \<le> d_attempt_count d then DeadLetter else RetryWait, Some j)"
proof -
  obtain c where c: "ClassifyErrorFor ''velox'' ''artifact_registration''
      (Some (process_go_error (TransientErr already_claimed_error))) = Some c"
    "ne_kind c = KindTransient" "ne_retry_after c = 0"
    using lost_claim_transient by blast
  have "processOne env DbOk (Some k) w d t = (Some (TransientErr already_claimed_error), t)"
    using linked_row_not_claimable [OF assms(1-3)] assms(4)
    by (simp add: processOne_admitted [OF assms(5)] CreateUploadJobAndLink_def store_error_def)
  moreover have "find_row d_id (d_id d) (update_where (\<lambda>r. d_id r = d_id d) f t) = Some (f r)"
    if "\<And>r. d_id (f r) = d_id r" for f
    using find_row_SomeD [OF assms(2)] by (simp add: find_row_update_where that assms(2))
  ultimately show ?thesis
    using c assms(3,4)
    by (simp add: handleFailure_def ed_MarkDeadLetter_def ed_mark_terminal_def ed_MarkRetry_def
        exec_delivery_def Let_def)
qed

theorem lost_race_demotes_winner_witness:
  "map_option d_status (find_row d_id ''d1'' [linked_row]) = Some Published \<and>
   map_option (\<lambda>r'. (d_status r', d_upload_job_id r')) (find_row d_id ''d1''
     (handleFailure DbOk 0 5 stale_copy (TransientErr already_claimed_error) [linked_row])) =
   Some (RetryWait, Some 7)"
proof -
  have "admitted sample_env stale_copy"
    by (simp add: admitted_def sample_env_def stale_copy_def sample_delivery_def
        vm_Validate_accepts_iff sample_metadata_def list_all_iff) code_simp
  with lost_race_demotes_winner [of "[linked_row]" stale_copy linked_row 7 sample_env 8 "''A''" 0 5]
  show ?thesis by (simp add: linked_row_def stale_copy_def sample_delivery_def)
qed

section \<open>Claims\<close>

text \<open>
  \<open>ClaimDelivery\<close> answers "not found" exactly when every eligible row is locked by
  another transaction, and then writes nothing. Otherwise it returns the oldest eligible
  unlocked row, stamped with the worker, the lease and one more attempt; that row is what
  the table then holds, no other row changes, and no worker can claim it again until its lease
  has expired.
\<close>

theorem ClaimDelivery_correct:
  assumes "distinct (map d_id t)" and "w \<noteq> []" and "0 < lease"
  shows "case ClaimDelivery DbOk now locked w lease m t of
      (Inl e, t') \<Rightarrow> e = ErrExternalDeliveryNotFound \<and> t' = t \<and>
        (\<forall>r \<in> set t. ed_eligible now r \<longrightarrow> locked (d_id r))
    | (Inr d, t') \<Rightarrow> \<exists>r \<in> set t. ed_eligible now r \<and> \<not> locked (d_id r) \<and>
        (\<forall>q \<in> set t. ed_eligible now q \<and> \<not> locked (d_id q) \<longrightarrow> d_created_at r \<le> d_created_at q) \<and>
        d_id d = d_id r \<and> d_status d = d_status r \<and> d_leased_by d = Some w \<and>
        d_attempt_count d = Suc (d_attempt_count r) \<and>
        (\<forall>now' \<le> now + lease. \<not> ed_eligible now' d) \<and>
        (\<forall>i. find_row d_id i t' = (if i = d_id r then Some d else find_row d_id i t))"
proof (cases "first_by d_created_at (filter (\<lambda>r. ed_eligible now r \<and> \<not> locked (d_id r)) t)")
  case None
  then have "\<forall>r \<in> set t. ed_eligible now r \<longrightarrow> locked (d_id r)"
    by (simp add: filter_empty_conv)
  then show ?thesis using assms(2,3)
    by (simp add: ClaimDelivery_def None)
next
  case (Some c)
  note c = first_by_filterD [OF Some]
  define d where "d = c\<lparr>d_lease_expires_at := Some (now + lease), d_leased_by := Some w,
    d_attempt_count := d_attempt_count c + 1, d_next_attempt_at := None,
    d_max_attempts := max (d_max_attempts c) (if m \<le> 0 then 5 else nat m)\<rparr>"
  have "fst (ClaimDelivery DbOk now locked w lease m t) = Inr d"
    using assms(2,3) by (simp add: ClaimDelivery_def Some Let_def d_def)
  moreover have "find_row d_id i (snd (ClaimDelivery DbOk now locked w lease m t)) =
      (if i = d_id c then Some d else find_row d_id i t)" for i
    using assms(2,3)
    by (simp add: ClaimDelivery_def Some Let_def d_def find_row_key_update [OF assms(1) c(1)])
  moreover have "\<not> ed_eligible now' d" if "now' \<le> now + lease" for now'
    using that by (simp add: ed_eligible_def d_def)
  moreover have "d_id d = d_id c" "d_status d = d_status c" "d_leased_by d = Some w"
    "d_attempt_count d = Suc (d_attempt_count c)"
    by (simp_all add: d_def)
  ultimately show ?thesis using c
    by (cases "ClaimDelivery DbOk now locked w lease m t") (auto intro!: bexI [of _ c])
qed

theorem ClaimDelivery_correct_witness:
  "case ClaimDelivery DbOk 0 (\<lambda>_. False) ''A'' (300 * second) 5 [sample_delivery] of
      (Inl e, t') \<Rightarrow> False
    | (Inr d, t') \<Rightarrow> d_attempt_count d = 1 \<and> find_row d_id ''d1'' t' = Some d"
proof -
  have "distinct (map d_id [sample_delivery])" "''A'' \<noteq> []" "0 < 300 * second"
    by simp_all
  from ClaimDelivery_correct [OF this, of 0 "\<lambda>_. False" 5] show ?thesis
    by (auto simp: ed_eligible_def sample_delivery_def split: prod.splits sum.splits)
qed


section \<open>The guarded transition\<close>

text \<open>
  a transition of the ingest machine is accepted exactly when the pair of statuses the
  caller names is an edge of the lifecycle table, and a refused one writes nothing. An accepted
  one moves the row, and only that row, to the named successor. The status the row really has
  is not consulted: a caller whose \<open>from\<close> is out of date is not refused, so the row makes a
  legal step only if \<open>from\<close> is its current status.
\<close>

theorem fsm_Transition_exact:
  assumes "distinct (map d_id t)" and "find_row d_id i t = Some r" and "i \<noteq> []"
  shows "(is_ok (fst (fsm_Transition DbOk now i (Some s) (Some s') code msg mid url t)) \<longleftrightarrow>
      ed_CanTransitionTo (Some s) (Some s')) \<and>
    (\<forall>k. map_option d_status (find_row d_id k
        (snd (fsm_Transition DbOk now i (Some s) (Some s') code msg mid url t))) =
      (if k = i \<and> ed_CanTransitionTo (Some s) (Some s') then Some s'
       else map_option d_status (find_row d_id k t))) \<and>
    (\<not> ed_CanTransitionTo (Some s) (Some s') \<longrightarrow>
      snd (fsm_Transition DbOk now i (Some s) (Some s') code msg mid url t) = t)"
proof -
  have r: "r \<in> set t" "i = d_id r" using find_row_SomeD [OF assms(2)] by simp_all
  have some: "rows_affected (\<lambda>r'. d_id r' = i) t \<noteq> 0"
    using r by (auto simp: rows_affected_0_iff)
  have terminal: "\<not> ed_CanTransitionTo (Some s) (Some s')" if "ed_IsTerminal s" "s \<noteq> BlockedAuth"
    using that by (cases s) (simp_all add: ed_CanTransitionTo_def)
  show ?thesis
  proof (cases "ed_CanTransitionTo (Some s) (Some s')")
    case True
    with terminal have "\<not> (ed_IsTerminal s \<and> s \<noteq> BlockedAuth)" by blast
    with True show ?thesis using some assms(3) r(2)
      by (simp add: fsm_Transition_def ed_UpdateStatus_def exec_delivery_def Let_def
          find_row_key_update [OF assms(1) r(1)])
  qed (simp add: fsm_Transition_def assms(3))
qed

theorem fsm_Transition_exact_witness:
  "d_status linked_row = Published \<and>
   is_ok (fst (ToRetryWait DbOk 0 ''d1'' (Some Publishing) ''X'' ''late'' [linked_row])) \<and>
   map_option d_status (find_row d_id ''d1''
     (snd (ToRetryWait DbOk 0 ''d1'' (Some Publishing) ''X'' ''late'' [linked_row]))) = Some RetryWait"
proof -
  have p: "distinct (map d_id [linked_row])" "find_row d_id ''d1'' [linked_row] = Some linked_row"
    "''d1'' \<noteq> []"
    by (simp_all add: linked_row_def sample_delivery_def)
  have "ed_CanTransitionTo (Some Publishing) (Some RetryWait)"
    by (simp add: ed_CanTransitionTo_def)
  then show ?thesis
    by (simp add: ToRetryWait_def fsm_error_exit_def fsm_Transition_exact [OF p])
      (simp add: linked_row_def)
qed


section \<open>The retry delay\<close>

lemma retry_loop_closed:
  assumes "0 < b" and "b < 30 * minute"
  shows "retry_loop n b = min (30 * minute) (b * 2 ^ n)"
  using assms
proof (induction n arbitrary: b)
  case (Suc n)
  show ?case
  proof (cases "b * 2 \<ge> 30 * minute")
    case True
    have "b * 2 * 1 \<le> b * 2 * 2 ^ n" using Suc.prems by (intro mult_left_mono) auto
    with True have "30 * minute \<le> b * 2 * 2 ^ n" by linarith
    with True show ?thesis by (simp add: min_def mult.assoc)
  next
    case False
    with Suc.IH [of "b * 2"] Suc.prems show ?thesis by (simp add: mult.assoc)
  qed
qed simp

text \<open>
  The delay before the next attempt of a delivery is five seconds, doubled with each
  attempt after the first, and never more than thirty minutes.
\<close>

theorem velox_retryBackoff_closed:
  "velox_retryBackoff n = min (30 * minute) (5 * second * 2 ^ (n - 1))"
  unfolding velox_retryBackoff_def by (rule retry_loop_closed) simp_all

end
