(* ===== verification/Sampler.thy ===== *)
theory Sampler
  imports GoStrings
begin

text \<open>
  The two samplers of \<open>internal/sampler\<close>: \<open>UniformDuration\<close> for retry jitter and
  \<open>RandomDurationInRange\<close> for scheduling. The random source is a parameter:
  \<open>rnd n\<close> is what \<open>Int63n\<close> (or \<open>rand.Int\<close> of \<open>crypto/rand\<close>) returns for the bound
  \<open>n\<close>, documented to lie in \<open>[0, n)\<close>.
\<close>

definition int63_source :: "(int \<Rightarrow> int) \<Rightarrow> bool" where
  "int63_source rnd \<longleftrightarrow> (\<forall>n > 0. 0 \<le> rnd n \<and> rnd n < n)"

lemma int63_sourceD: "int63_source rnd \<Longrightarrow> 0 < n \<Longrightarrow> 0 \<le> rnd n \<and> rnd n < n"
  by (simp add: int63_source_def)

lemma int63_source_zero: "int63_source (\<lambda>_. 0)"
  by (simp add: int63_source_def)

definition UniformDuration :: "duration \<Rightarrow> duration \<Rightarrow> (int \<Rightarrow> int) \<Rightarrow> duration" where
  "UniformDuration lo hi int63n =
     (if lo < 0 \<or> hi < 0 \<or> hi \<le> lo then lo else lo + int63n (hi - lo))"

lemma UniformDuration_range:
  assumes "int63_source rnd" and "0 \<le> lo"
  shows "lo \<le> UniformDuration lo hi rnd" and "UniformDuration lo hi rnd \<le> max lo hi"
    and "lo < hi \<Longrightarrow> UniformDuration lo hi rnd < hi"
  using int63_sourceD [OF assms(1), of "hi - lo"] assms(2)
  by (auto simp: UniformDuration_def)

definition maxInt64 :: int where "maxInt64 = 2 ^ 63 - 1"

definition maxRandomDurationSeconds :: int where
  "maxRandomDurationSeconds = maxInt64 div second"

definition minRandomDurationSeconds :: int where
  "minRandomDurationSeconds = - (maxInt64 div second)"

datatype sampler_err = RangeReversed | RangeOverflow | RandomUnavailable

definition RandomDurationInRange ::
  "(int \<Rightarrow> int option) \<Rightarrow> int \<Rightarrow> int \<Rightarrow> sampler_err + duration" where
  "RandomDurationInRange rand minSeconds maxSeconds =
     (if minSeconds > maxSeconds then Inl RangeReversed
      else if minSeconds < minRandomDurationSeconds \<or> maxSeconds > maxRandomDurationSeconds
      then Inl RangeOverflow
      else case rand (maxSeconds - minSeconds + 1) of
          None \<Rightarrow> Inl RandomUnavailable
        | Some n \<Rightarrow> Inr ((minSeconds + n) * second))"

text \<open>
  A scheduling delay is accepted exactly when its bounds are ordered and representable
  and randomness is available; it is then a whole number of seconds within the bounds, and
  its nanoseconds fit a signed 64-bit integer.
\<close>

theorem RandomDurationInRange_bounds:
  assumes "\<And>n k. rand n = Some k \<Longrightarrow> 0 < n \<Longrightarrow> 0 \<le> k \<and> k < n"
  shows "(is_ok (RandomDurationInRange rand lo hi) \<longleftrightarrow>
      lo \<le> hi \<and> - 9223372036 \<le> lo \<and> hi \<le> 9223372036 \<and> rand (hi - lo + 1) \<noteq> None) \<and>
    (\<forall>d. RandomDurationInRange rand lo hi = Inr d \<longrightarrow>
      lo * second \<le> d \<and> d \<le> hi * second \<and> second dvd d \<and> \<bar>d\<bar> \<le> 2 ^ 63 - 1)"
proof -
  have max: "maxRandomDurationSeconds = 9223372036" and min: "minRandomDurationSeconds = - 9223372036"
    by (simp_all add: maxRandomDurationSeconds_def minRandomDurationSeconds_def maxInt64_def)
  have "lo * second \<le> d \<and> d \<le> hi * second \<and> second dvd d \<and> \<bar>d\<bar> \<le> 2 ^ 63 - 1"
    if "RandomDurationInRange rand lo hi = Inr d" for d
  proof -
    from that obtain k where k: "rand (hi - lo + 1) = Some k" "d = (lo + k) * second"
      and b: "lo \<le> hi" "- 9223372036 \<le> lo" "hi \<le> 9223372036"
      by (auto simp: RandomDurationInRange_def max min split: if_splits option.splits)
    from assms [OF k(1)] b have "0 \<le> k" "k \<le> hi - lo" by auto
    with b k(2) show ?thesis by (auto simp: abs_le_iff)
  qed
  then show ?thesis
    by (auto simp: RandomDurationInRange_def max min split: option.splits)
qed

theorem RandomDurationInRange_bounds_witness:
  "is_ok (RandomDurationInRange (\<lambda>_. Some 0) 30 90)"
  using RandomDurationInRange_bounds [of "\<lambda>_. Some 0" 30 90] by simp

end
