(* ===== verification/Outbox.thy ===== *)
theory Outbox
  imports Leases Sampler
begin

text \<open>
  The transactional outbox: the table \<open>outbox_events\<close> with the operations of
  \<open>internal/repository/outbox_repo.go\<close>. The lease id is the UUID the caller drew,
  \<open>dbnow\<close> is \<open>now()\<close> of the database and \<open>appnow\<close> the clock of the process, which
  computes lease ends and retry times. \<open>locked\<close> holds for the rows another transaction has
  locked (\<open>SKIP LOCKED\<close>).
\<close>

section \<open>The table\<close>

datatype OutboxStatus = ObPending | ObProcessed | ObDeadLetter

record OutboxEvent =
  ob_id :: int
  ob_aggregate_type :: string
  ob_aggregate_id :: int
  ob_event_type :: string
  ob_payload :: string
  ob_status :: OutboxStatus
  ob_lease_id :: "string option"
  ob_lease_until :: "time option"
  ob_attempt_count :: nat
  ob_next_attempt_at :: "time option"
  ob_last_error :: "string option"
  ob_created_at :: time
  ob_processed_at :: "time option"

datatype outbox_err =
    ErrOutboxAlreadyClaimed | ErrOutboxRace | ErrOutboxGone
  | ObMissingFields | ObBadAggregateID | ObEmptyLease | ObEmptyError | ObDatabase

text \<open>\<open>fresh\<close> is the id the sequence assigns.\<close>

definition ob_Insert ::
  "db_fault \<Rightarrow> time \<Rightarrow> int \<Rightarrow> string \<Rightarrow> int \<Rightarrow> string \<Rightarrow> string \<Rightarrow> OutboxEvent list \<Rightarrow>
   (outbox_err + int) \<times> OutboxEvent list" where
  "ob_Insert flt dbnow fresh atype aid etype payload t =
     (if atype = '''' \<or> etype = '''' \<or> length payload = 0 then (Inl ObMissingFields, t)
      else if aid \<le> 0 then (Inl ObBadAggregateID, t)
      else if flt = DbFailed then (Inl ObDatabase, t)
      else (if flt = DbLost then Inl ObDatabase else Inr fresh,
            t @ [\<lparr>ob_id = fresh, ob_aggregate_type = atype, ob_aggregate_id = aid,
                   ob_event_type = etype, ob_payload = payload, ob_status = ObPending,
                   ob_lease_id = None, ob_lease_until = None, ob_attempt_count = 0,
                   ob_next_attempt_at = None, ob_last_error = None, ob_created_at = dbnow,
                   ob_processed_at = None\<rparr>]))"

definition lease_free :: "time \<Rightarrow> OutboxEvent \<Rightarrow> bool" where
  "lease_free dbnow r \<longleftrightarrow> null_or (\<lambda>u. u < dbnow) (ob_lease_until r)"

definition ob_eligible :: "time \<Rightarrow> OutboxEvent \<Rightarrow> bool" where
  "ob_eligible dbnow r \<longleftrightarrow>
     ob_status r = ObPending \<and> lease_free dbnow r \<and>
     null_or (\<lambda>a. a \<le> dbnow) (ob_next_attempt_at r)"

text \<open>\<open>ORDER BY next_attempt_at NULLS FIRST, created_at ASC\<close>.\<close>

definition ob_order :: "OutboxEvent \<Rightarrow> time option \<times> time" where
  "ob_order r = (ob_next_attempt_at r, ob_created_at r)"

text \<open>
  The candidate row is selected and locked, then stamped under the repeated guard; \<open>None\<close>
  from the second statement is the race the code has a sentinel for.
\<close>

definition claim_guard :: "time \<Rightarrow> int \<Rightarrow> OutboxEvent \<Rightarrow> bool" where
  "claim_guard dbnow i r \<longleftrightarrow> ob_id r = i \<and> ob_status r = ObPending \<and> lease_free dbnow r"

definition claim_stamp :: "string \<Rightarrow> time \<Rightarrow> OutboxEvent \<Rightarrow> OutboxEvent" where
  "claim_stamp leaseID until r =
     r\<lparr>ob_lease_id := Some leaseID, ob_lease_until := Some until,
       ob_attempt_count := ob_attempt_count r + 1\<rparr>"

definition ClaimNext ::
  "db_fault \<Rightarrow> time \<Rightarrow> time \<Rightarrow> (int \<Rightarrow> bool) \<Rightarrow> string \<Rightarrow> duration \<Rightarrow> OutboxEvent list \<Rightarrow>
   (outbox_err + OutboxEvent) \<times> OutboxEvent list" where
  "ClaimNext flt dbnow appnow locked leaseID ttl t =
     (if flt = DbFailed then (Inl ObDatabase, t)
      else case first_by ob_order (filter (\<lambda>r. ob_eligible dbnow r \<and> \<not> locked (ob_id r)) t) of
          None \<Rightarrow> (Inl ErrOutboxAlreadyClaimed, t)
        | Some c \<Rightarrow>
            let t' = update_where (claim_guard dbnow (ob_id c)) (claim_stamp leaseID (appnow + ttl)) t
            in if rows_affected (claim_guard dbnow (ob_id c)) t = 0 then (Inl ErrOutboxRace, t)
               else if flt = DbLost then (Inl ObDatabase, t')
               else case find_row ob_id (ob_id c) t' of
                   None \<Rightarrow> (Inl ObDatabase, t')
                 | Some ev \<Rightarrow> (Inr ev, t'))"

text \<open>The writes that compare \<open>lease_id\<close>: their SET clauses, then the methods.\<close>

datatype lease_write =
    WRenew time | WProcessed | WFailed string "time option" | WDeadLetter string | WRelease

definition lease_guard :: "int \<Rightarrow> string \<Rightarrow> OutboxEvent \<Rightarrow> bool" where
  "lease_guard i leaseID r \<longleftrightarrow> ob_id r = i \<and> ob_lease_id r = Some leaseID"

fun lease_set :: "time \<Rightarrow> lease_write \<Rightarrow> OutboxEvent \<Rightarrow> OutboxEvent" where
  "lease_set dbnow (WRenew until) r = r\<lparr>ob_lease_until := Some until\<rparr>"
| "lease_set dbnow WProcessed r =
     r\<lparr>ob_status := ObProcessed, ob_processed_at := Some dbnow, ob_lease_id := None,
       ob_lease_until := None, ob_next_attempt_at := None, ob_last_error := None\<rparr>"
| "lease_set dbnow (WFailed msg nxt) r =
     r\<lparr>ob_lease_id := None, ob_lease_until := None, ob_last_error := Some msg,
       ob_next_attempt_at := nxt\<rparr>"
| "lease_set dbnow (WDeadLetter msg) r =
     r\<lparr>ob_status := ObDeadLetter, ob_processed_at := Some dbnow, ob_lease_id := None,
       ob_lease_until := None, ob_next_attempt_at := None\<rparr>"
| "lease_set dbnow WRelease r = r\<lparr>ob_lease_id := None, ob_lease_until := None\<rparr>"

definition exec_lease_write ::
  "db_fault \<Rightarrow> time \<Rightarrow> int \<Rightarrow> string \<Rightarrow> lease_write \<Rightarrow> OutboxEvent list \<Rightarrow>
   (outbox_err + unit) \<times> OutboxEvent list" where
  "exec_lease_write flt dbnow i leaseID w t =
     (let (n, t') = exec_update flt (lease_guard i leaseID) (lease_set dbnow w) t
      in (case n of None \<Rightarrow> Inl ObDatabase
          | Some k \<Rightarrow> if k = 0 then Inl ErrOutboxGone else Inr (), t'))"

definition RenewLease ::
  "db_fault \<Rightarrow> time \<Rightarrow> time \<Rightarrow> int \<Rightarrow> string \<Rightarrow> duration \<Rightarrow> OutboxEvent list \<Rightarrow>
   (outbox_err + unit) \<times> OutboxEvent list" where
  "RenewLease flt dbnow appnow i leaseID ttl t =
     (if leaseID = '''' then (Inl ObEmptyLease, t)
      else exec_lease_write flt dbnow i leaseID (WRenew (appnow + ttl)) t)"

definition MarkProcessed ::
  "db_fault \<Rightarrow> time \<Rightarrow> int \<Rightarrow> string \<Rightarrow> OutboxEvent list \<Rightarrow>
   (outbox_err + unit) \<times> OutboxEvent list" where
  "MarkProcessed flt dbnow i leaseID t = exec_lease_write flt dbnow i leaseID WProcessed t"

definition MarkFailed ::
  "db_fault \<Rightarrow> time \<Rightarrow> time \<Rightarrow> int \<Rightarrow> string \<Rightarrow> string \<Rightarrow> duration option \<Rightarrow> OutboxEvent list \<Rightarrow>
   (outbox_err + unit) \<times> OutboxEvent list" where
  "MarkFailed flt dbnow appnow i leaseID lastError backoff t =
     (if lastError = '''' then (Inl ObEmptyError, t)
      else exec_lease_write flt dbnow i leaseID
             (WFailed lastError (map_option (\<lambda>b. appnow + b) backoff)) t)"

definition MarkDeadLetter ::
  "db_fault \<Rightarrow> time \<Rightarrow> int \<Rightarrow> string \<Rightarrow> string \<Rightarrow> OutboxEvent list \<Rightarrow>
   (outbox_err + unit) \<times> OutboxEvent list" where
  "MarkDeadLetter flt dbnow i leaseID lastError t =
     (if lastError = '''' then (Inl ObEmptyError, t)
      else exec_lease_write flt dbnow i leaseID (WDeadLetter lastError) t)"

text \<open>Zero affected rows are not an error of \<open>ReleaseLease\<close>.\<close>

definition ob_ReleaseLease ::
  "db_fault \<Rightarrow> time \<Rightarrow> int \<Rightarrow> string \<Rightarrow> OutboxEvent list \<Rightarrow>
   (outbox_err + unit) \<times> OutboxEvent list" where
  "ob_ReleaseLease flt dbnow i leaseID t =
     (let (n, t') = exec_update flt (lease_guard i leaseID) (lease_set dbnow WRelease) t
      in (case n of None \<Rightarrow> Inl ObDatabase | Some _ \<Rightarrow> Inr (), t'))"

definition ob_ListPending :: "int \<Rightarrow> OutboxEvent list \<Rightarrow> OutboxEvent list" where
  "ob_ListPending limit t =
     top_by ob_order (if limit \<le> 0 then 100 else nat limit) (filter (\<lambda>r. ob_status r = ObPending) t)"

definition CountPending :: "OutboxEvent list \<Rightarrow> nat" where
  "CountPending t = length (filter (\<lambda>r. ob_status r = ObPending) t)"

definition CountDeadLetter :: "OutboxEvent list \<Rightarrow> nat" where
  "CountDeadLetter t = length (filter (\<lambda>r. ob_status r = ObDeadLetter) t)"


section \<open>The lease interface\<close>

interpretation ob_lease: lease_cas ob_id ob_lease_id
  "\<lambda>now w (i, a). lease_guard i w" "\<lambda>now w (i, a). lease_set now a"
proof
  show "(case a of (i, a) \<Rightarrow> lease_guard i w) r \<Longrightarrow> ob_lease_id r = Some w"
    for now :: time and w a r
    by (auto simp: lease_guard_def split: prod.splits)
  show "ob_id ((case a of (i, a) \<Rightarrow> lease_set now a) r) = ob_id r" for now a r
    by (cases a; cases "snd a") auto
qed

lemma lease_set_id [simp]: "ob_id (lease_set now w r) = ob_id r"
  by (cases w) auto

lemma claim_stamp_simps [simp]:
  "ob_id (claim_stamp w u r) = ob_id r" "ob_status (claim_stamp w u r) = ob_status r"
  "ob_lease_id (claim_stamp w u r) = Some w" "ob_lease_until (claim_stamp w u r) = Some u"
  "ob_attempt_count (claim_stamp w u r) = Suc (ob_attempt_count r)"
  "ob_next_attempt_at (claim_stamp w u r) = ob_next_attempt_at r"
  by (simp_all add: claim_stamp_def)

text \<open>The table after a lease-guarded write, whatever the fault.\<close>

lemma exec_lease_write_table:
  "snd (exec_lease_write flt now i w a t) =
     (if flt = DbFailed then t else update_where (lease_guard i w) (lease_set now a) t)"
  by (cases flt) (simp_all add: exec_lease_write_def Let_def)

lemma claim_guard_id:
  assumes "distinct (map ob_id t)" and "c \<in> set t" and "ob_eligible dbnow c" and "r \<in> set t"
  shows "claim_guard dbnow (ob_id c) r \<longleftrightarrow> ob_id r = ob_id c"
  using find_row_unique [OF assms(1,2)] find_row_unique [OF assms(1,4)] assms(3)
  by (auto simp: claim_guard_def ob_eligible_def)

text \<open>
  What a claim does: it fails and changes nothing, or it stamps the first eligible unlocked row
  in queue order and returns the stamped row (unless the answer of the commit is lost).
\<close>

lemma ClaimNext_cases:
  assumes "distinct (map ob_id t)"
  obtains (refused) e where "ClaimNext flt dbnow appnow locked w ttl t = (Inl e, t)"
      "e = ErrOutboxAlreadyClaimed \<and> flt \<noteq> DbFailed \<and> (\<forall>r \<in> set t. ob_eligible dbnow r \<longrightarrow> locked (ob_id r)) \<or>
       e = ObDatabase \<and> flt = DbFailed"
  | (claimed) c where "c \<in> set t" "ob_eligible dbnow c" "\<not> locked (ob_id c)" "flt \<noteq> DbFailed"
      "\<And>q. q \<in> set t \<Longrightarrow> ob_eligible dbnow q \<Longrightarrow> \<not> locked (ob_id q) \<Longrightarrow> ob_order c \<le> ob_order q"
      "ClaimNext flt dbnow appnow locked w ttl t =
        (if flt = DbLost then Inl ObDatabase else Inr (claim_stamp w (appnow + ttl) c),
         update_where (\<lambda>r. ob_id r = ob_id c) (claim_stamp w (appnow + ttl)) t)"
proof (cases "flt = DbFailed")
  case True
  then show ?thesis using refused by (simp add: ClaimNext_def)
next
  case ok: False
  show ?thesis
  proof (cases "first_by ob_order (filter (\<lambda>r. ob_eligible dbnow r \<and> \<not> locked (ob_id r)) t)")
    case None
    then have "\<forall>r \<in> set t. ob_eligible dbnow r \<longrightarrow> locked (ob_id r)"
      by (simp add: filter_empty_conv)
    then show ?thesis using refused ok by (simp add: ClaimNext_def None)
  next
    case (Some c)
    note c = first_by_filterD [OF Some]
    have el: "ob_eligible dbnow c" using c(2) by blast
    have g: "update_where (claim_guard dbnow (ob_id c)) f t = update_where (\<lambda>r. ob_id r = ob_id c) f t"
      for f
      using claim_guard_id [OF assms c(1) el] by (rule update_where_cong)
    have "rows_affected (claim_guard dbnow (ob_id c)) t \<noteq> 0"
      using claim_guard_id [OF assms c(1) el c(1)] c(1) by (auto simp: rows_affected_0_iff)
    then have "ClaimNext flt dbnow appnow locked w ttl t =
        (if flt = DbLost then Inl ObDatabase else Inr (claim_stamp w (appnow + ttl) c),
         update_where (\<lambda>r. ob_id r = ob_id c) (claim_stamp w (appnow + ttl)) t)"
      using ok by (simp add: ClaimNext_def Some Let_def g find_row_key_update [OF assms c(1)])
    with claimed c el ok show ?thesis by blast
  qed
qed

text \<open>The sentinel for the race between the two statements is never returned.\<close>

lemma ClaimNext_no_race:
  assumes "distinct (map ob_id t)"
  shows "fst (ClaimNext flt dbnow appnow locked w ttl t) \<noteq> Inl ErrOutboxRace"
  by (rule ClaimNext_cases [OF assms, of flt dbnow appnow locked w ttl]) auto

section \<open>Holding a lease\<close>

text \<open>
  The events of the other dispatchers up to time \<open>u\<close>: inserts, claims with other lease ids,
  and lease-guarded writes with other lease ids.
\<close>

datatype ob_op =
    ObInsert db_fault time int string int string string
  | ObClaim db_fault time time "int \<Rightarrow> bool" string duration
  | ObWrite db_fault time int string lease_write

fun ob_exec :: "OutboxEvent list \<Rightarrow> ob_op \<Rightarrow> OutboxEvent list" where
  "ob_exec t (ObInsert flt now k at ai et pl) = snd (ob_Insert flt now k at ai et pl t)"
| "ob_exec t (ObClaim flt dbn an lk w ttl) = snd (ClaimNext flt dbn an lk w ttl t)"
| "ob_exec t (ObWrite flt now i w a) = snd (exec_lease_write flt now i w a t)"

fun ob_peer :: "string \<Rightarrow> time \<Rightarrow> ob_op \<Rightarrow> bool" where
  "ob_peer w u (ObInsert flt now k at ai et pl) = True"
| "ob_peer w u (ObClaim flt dbn an lk w' ttl) = (dbn \<le> u)"
| "ob_peer w u (ObWrite flt now i w' a) = (w' \<noteq> w)"

lemma ob_exec_peer:
  assumes "find_row ob_id i t = Some r" and "ob_lease_id r = Some w"
    and "ob_lease_until r = Some u" and "ob_peer w u op"
  shows "find_row ob_id i (ob_exec t op) = Some r"
proof (cases op)
  case (ObInsert flt now k at ai et pl)
  show ?thesis using assms(1) by (auto simp: ObInsert ob_Insert_def find_row_append)
next
  case (ObClaim flt dbn an lk w' ttl)
  have "\<not> claim_guard dbn k r" for k
    using assms(3,4) by (simp add: ObClaim claim_guard_def lease_free_def)
  then have "find_row ob_id i (update_where (claim_guard dbn k) (claim_stamp v x) t) = Some r"
    for k v x
    using assms(1) by (simp add: find_row_update_where)
  then show ?thesis using assms(1)
    by (auto simp: ObClaim ClaimNext_def Let_def split: option.split)
next
  case (ObWrite flt now k w' a)
  with assms(4) have "w' \<noteq> w" by simp
  from ob_lease.peer_write_keeps [OF assms(1,2) this, where now = now and a = "(k, a)"] assms(1)
  show ?thesis by (simp add: ObWrite exec_lease_write_table)
qed

text \<open>
  C24: while a dispatcher's lease on an event has not expired, no interleaving of inserts,
  claims, renewals, marks and releases of the other dispatchers touches the row, whatever the
  database faults: the holder finds it exactly as it claimed it, and its own write then affects it.
\<close>

theorem outbox_lease_exclusive:
  assumes "find_row ob_id i t = Some r" and "ob_lease_id r = Some w"
    and "ob_lease_until r = Some u" and "\<forall>op \<in> set ops. ob_peer w u op"
  shows "find_row ob_id i (foldl ob_exec t ops) = Some r \<and>
    fst (MarkProcessed DbOk now i w (foldl ob_exec t ops)) = Inr ()"
proof -
  have row: "find_row ob_id i (foldl ob_exec t ops) = Some r"
    using assms
  proof (induction ops arbitrary: t)
    case (Cons op ops)
    then show ?case using ob_exec_peer [OF Cons.prems(1-3)] by simp
  qed simp
  have "lease_guard i w r" using find_row_SomeD [OF assms(1)] assms(2) by (simp add: lease_guard_def)
  then have "rows_affected (lease_guard i w) (foldl ob_exec t ops) \<noteq> 0"
    using find_row_SomeD [OF row] by (auto simp: rows_affected_0_iff)
  with row show ?thesis by (simp add: MarkProcessed_def exec_lease_write_def Let_def)
qed

definition sample_event :: OutboxEvent where
  "sample_event =
     \<lparr>ob_id = 1, ob_aggregate_type = ''post_target'', ob_aggregate_id = 9,
      ob_event_type = ''post_target.publish_requested'', ob_payload = ''{}'', ob_status = ObPending,
      ob_lease_id = None, ob_lease_until = None, ob_attempt_count = 0, ob_next_attempt_at = None,
      ob_last_error = None, ob_created_at = 0, ob_processed_at = None\<rparr>"

definition held_event :: OutboxEvent where
  "held_event = claim_stamp ''A'' (60 * second) sample_event"

theorem outbox_lease_exclusive_witness:
  "fst (MarkProcessed DbOk 5 1 ''A''
     (foldl ob_exec [held_event]
        [ObClaim DbOk (59 * second) 0 (\<lambda>_. False) ''B'' second, ObWrite DbOk 0 1 ''B'' WProcessed])) = Inr ()"
proof -
  have "find_row ob_id 1 [held_event] = Some held_event" "ob_lease_id held_event = Some ''A''"
    "ob_lease_until held_event = Some (60 * second)"
    by (simp_all add: held_event_def sample_event_def)
  from outbox_lease_exclusive [OF this,
      of "[ObClaim DbOk (59 * second) 0 (\<lambda>_. False) ''B'' second, ObWrite DbOk 0 1 ''B'' WProcessed]" 5]
  show ?thesis by simp
qed

text \<open>The message of a dead letter is required to be non-empty and then written nowhere.\<close>

lemma MarkDeadLetter_drops_message:
  assumes "m \<noteq> []" and "m' \<noteq> []"
  shows "MarkDeadLetter flt now i w m t = MarkDeadLetter flt now i w m' t"
proof -
  have "lease_set now (WDeadLetter m) = lease_set now (WDeadLetter m')" by (rule ext) simp
  with assms show ?thesis by (simp add: MarkDeadLetter_def exec_lease_write_def)
qed

end
