(* ===== verification/OutboxDispatcher.thy ===== *)
theory OutboxDispatcher
  imports Outbox
begin

text \<open>
  The outbox dispatcher: \<open>internal/outbox/dispatcher.go\<close>, \<open>dispatcher_mark.go\<close> and
  \<open>dispatcher_backoff.go\<close>, with the processor of
  \<open>internal/outbox/processors/publishjobs.go\<close> that turns an event into a row of
  \<open>publish_jobs\<close>. The backoff computes in \<open>float64\<close>: its values are products of the base
  by powers of two and one factor three below the cap, which are exact below \<open>2 ^ 53\<close>
  nanoseconds (104 days), and everything above the cap is replaced by it, so the model
  computes in \<open>int\<close>.
\<close>

section \<open>Configuration and backoff\<close>

record DispatcherConfig =
  dc_lease_ttl :: duration
  dc_heartbeat :: duration
  dc_max_attempts :: int
  dc_base_delay :: duration
  dc_cap_delay :: duration
  dc_tick :: duration

text \<open>The defaults \<open>NewDispatcher\<close> fills in; the integer division truncates.\<close>

definition NewDispatcher :: "DispatcherConfig \<Rightarrow> DispatcherConfig" where
  "NewDispatcher c =
     (let ttl = (if dc_lease_ttl c \<le> 0 then 60 * second else dc_lease_ttl c);
          hb = (if dc_heartbeat c \<le> 0
                then (if ttl div 3 \<le> 0 then 20 * second else ttl div 3)
                else dc_heartbeat c)
      in \<lparr>dc_lease_ttl = ttl, dc_heartbeat = hb,
          dc_max_attempts = (if dc_max_attempts c \<le> 0 then 5 else dc_max_attempts c),
          dc_base_delay = (if dc_base_delay c \<le> 0 then second else dc_base_delay c),
          dc_cap_delay = (if dc_cap_delay c \<le> 0 then hour else dc_cap_delay c),
          dc_tick = (if dc_tick c \<le> 0 then 5 * second else dc_tick c)\<rparr>)"

fun pow2 :: "nat \<Rightarrow> int" where
  "pow2 0 = 1"
| "pow2 (Suc n) = pow2 n * 2"

definition computeBackoff :: "DispatcherConfig \<Rightarrow> (int \<Rightarrow> int) \<Rightarrow> nat \<Rightarrow> duration" where
  "computeBackoff c rnd attempt =
     (let base = dc_base_delay c; cap = dc_cap_delay c;
          attempt = (if attempt < 1 then 1 else attempt);
          prev = base * pow2 (attempt - 1);
          prev = (if prev > cap then cap else prev);
          temp = prev * 3;
          temp = (if temp > cap then cap else temp)
      in UniformDuration base temp rnd)"

lemma pow2_power: "pow2 n = 2 ^ n"
  by (induction n) auto

lemma computeBackoff_bounds_aux:
  assumes "int63_source rnd" and "0 < dc_base_delay c"
  shows "dc_base_delay c \<le> computeBackoff c rnd n \<and>
    computeBackoff c rnd n \<le> max (dc_base_delay c) (dc_cap_delay c) \<and>
    (dc_base_delay c < dc_cap_delay c \<longrightarrow>
      computeBackoff c rnd n < 3 * dc_base_delay c * 2 ^ (n - 1))"
proof -
  let ?b = "dc_base_delay c" and ?cap = "dc_cap_delay c"
  let ?prev = "min ?cap (?b * 2 ^ ((if n < 1 then 1 else n) - 1))"
  let ?temp = "min ?cap (?prev * 3)"
  have eq: "computeBackoff c rnd n = UniformDuration ?b ?temp rnd"
    by (simp add: computeBackoff_def Let_def pow2_power min_def)
  note range = UniformDuration_range [OF assms(1), of ?b ?temp]
  have exp: "(if n < 1 then 1 else n) - 1 = n - 1" by simp
  have "(1::int) \<le> 2 ^ (n - 1)" by simp
  then have grow: "?b * 1 \<le> ?b * 2 ^ (n - 1)"
    using assms(2) by (intro mult_left_mono) auto
  then have "?b < ?b * 2 ^ (n - 1) * 3" using assms(2) by linarith
  then have strict: "?b < ?temp" if "?b < ?cap"
    using that assms(2) unfolding exp by (simp add: min_def)
  have "?temp \<le> ?prev * 3" and cap: "?temp \<le> ?cap" by simp_all
  then have above: "?temp \<le> 3 * ?b * 2 ^ (n - 1)" unfolding exp by simp
  have "UniformDuration ?b ?temp rnd < 3 * ?b * 2 ^ (n - 1)" if "?b < ?cap"
    using range(3) [OF _ strict [OF that]] assms(2) above by (meson less_le_trans less_imp_le)
  moreover have "UniformDuration ?b ?temp rnd \<le> max ?b ?cap"
    using range(2) assms(2) cap by (meson less_imp_le max.mono order.refl order.trans)
  ultimately show ?thesis unfolding eq using range(1) assms(2) by simp
qed

text \<open>
  The retry delay of attempt \<open>n\<close> is at least the base delay, never more than the larger
  of base and cap, and below three times the exponentially grown delay when that leaves room
  above the base; with the default settings it lies between one second and one hour.
\<close>

theorem computeBackoff_bounds:
  assumes "int63_source rnd" and "0 < dc_base_delay c"
  shows "dc_base_delay c \<le> computeBackoff c rnd n \<and>
    computeBackoff c rnd n \<le> max (dc_base_delay c) (dc_cap_delay c) \<and>
    (dc_base_delay c < dc_cap_delay c \<longrightarrow>
      computeBackoff c rnd n < 3 * dc_base_delay c * 2 ^ (n - 1))"
  by (rule computeBackoff_bounds_aux [OF assms])

theorem computeBackoff_bounds_witness:
  "let c = NewDispatcher \<lparr>dc_lease_ttl = 0, dc_heartbeat = 0, dc_max_attempts = 0, dc_base_delay = 0,
     dc_cap_delay = 0, dc_tick = 0\<rparr>
   in second \<le> computeBackoff c (\<lambda>n. n - 1) 4 \<and> computeBackoff c (\<lambda>n. n - 1) 4 < 24 * second"
  using computeBackoff_bounds [of "\<lambda>n. n - 1" "NewDispatcher \<lparr>dc_lease_ttl = 0, dc_heartbeat = 0,
      dc_max_attempts = 0, dc_base_delay = 0, dc_cap_delay = 0, dc_tick = 0\<rparr>" 4]
  by (simp add: int63_source_def NewDispatcher_def Let_def)


section \<open>The processor\<close>

text \<open>An error of a processor: whether it wraps \<open>ErrTerminal\<close>, and its text.\<close>

record proc_error =
  pr_terminal :: bool
  pr_text :: string

datatype proc_outcome = Returns "proc_error option" | Panics string

fun safeProcess :: "proc_outcome \<Rightarrow> proc_error option" where
  "safeProcess (Returns e) = e"
| "safeProcess (Panics v) = Some \<lparr>pr_terminal = False, pr_text = ''processFunc panic: '' @ v\<rparr>"

record publishPayload =
  pp_event_version :: string
  pp_post_id :: int
  pp_target_id :: int
  pp_workspace_id :: int

record publish_job =
  pj_post_target_id :: "int option"
  pj_outbox_event_id :: int

definition terminal_error :: "string \<Rightarrow> proc_error" where
  "terminal_error msg =
     \<lparr>pr_terminal = True,
      pr_text = ''outbox: terminal error (do not retry - go to DLQ): '' @ msg\<rparr>"

definition validateEventMetadata :: "OutboxEvent \<Rightarrow> proc_error option" where
  "validateEventMetadata ev =
     (if ob_aggregate_type ev \<noteq> ''post_target'' then Some (terminal_error ''aggregate_type'')
      else if ob_event_type ev \<noteq> ''post_target.publish_requested''
      then Some (terminal_error ''event_type'')
      else if ob_aggregate_id ev \<le> 0 then Some (terminal_error ''aggregate_id'')
      else None)"

definition validatePayload :: "publishPayload \<Rightarrow> proc_error option" where
  "validatePayload p =
     (if pp_event_version p = '''' then Some (terminal_error ''empty event_version'')
      else if pp_event_version p \<noteq> ''v1'' then Some (terminal_error ''event_version'')
      else if pp_post_id p \<le> 0 then Some (terminal_error ''post_id'')
      else if pp_workspace_id p \<le> 0 then Some (terminal_error ''workspace_id'')
      else None)"

text \<open>
  \<open>Process\<close>: the insertion under the unique index on \<open>outbox_event_id\<close> (violation 23505 is
  success) and the foreign key on \<open>post_target_id\<close> (violation 23503 is terminal).
  \<open>parse\<close> decodes the payload, \<open>exists\<close> says whether the target row is there.
\<close>

definition Process ::
  "(string \<Rightarrow> publishPayload option) \<Rightarrow> (int \<Rightarrow> bool) \<Rightarrow> db_fault \<Rightarrow> OutboxEvent \<Rightarrow>
   publish_job list \<Rightarrow> proc_error option \<times> publish_job list" where
  "Process parse exists flt ev jobs =
     (case validateEventMetadata ev of
        Some e \<Rightarrow> (Some e, jobs)
      | None \<Rightarrow>
          (case parse (ob_payload ev) of
             None \<Rightarrow> (Some (terminal_error ''malformed payload JSON''), jobs)
           | Some p \<Rightarrow>
               (case validatePayload p of
                  Some e \<Rightarrow> (Some e, jobs)
                | None \<Rightarrow>
                    let tid = (if pp_target_id p > 0 then Some (pp_target_id p) else None);
                        transient = \<lparr>pr_terminal = False, pr_text = ''publish_jobs materialise''\<rparr>
                    in if flt = DbFailed then (Some transient, jobs)
                       else if \<exists>j \<in> set jobs. pj_outbox_event_id j = ob_id ev
                       then (if flt = DbLost then Some transient else None, jobs)
                       else if some_and (\<lambda>i. \<not> exists i) tid
                       then (if flt = DbLost then Some transient
                             else Some (terminal_error ''post_target deleted before materialisation''),
                             jobs)
                       else (if flt = DbLost then Some transient else None,
                             jobs @ [\<lparr>pj_post_target_id = tid, pj_outbox_event_id = ob_id ev\<rparr>]))))"

section \<open>One event\<close>

text \<open>Renewals until the first failure; each tick has its fault and its clock readings.\<close>

fun heartbeatLoop ::
  "duration \<Rightarrow> int \<Rightarrow> string \<Rightarrow> (db_fault \<times> time \<times> time) list \<Rightarrow> OutboxEvent list \<Rightarrow>
   OutboxEvent list" where
  "heartbeatLoop ttl i leaseID [] t = t"
| "heartbeatLoop ttl i leaseID ((flt, dbnow, appnow) # ticks) t =
     (case RenewLease flt dbnow appnow i leaseID ttl t of
        (Inl _, t') \<Rightarrow> t'
      | (Inr _, t') \<Rightarrow> heartbeatLoop ttl i leaseID ticks t')"

datatype dispatch_err = NoLease | ErrPartialPersistence outbox_err

text \<open>The four arms of \<open>dispatcher_mark.go\<close>, with the wrap of a failed mark.\<close>

fun wrap_mark :: "(outbox_err + unit) \<times> 't \<Rightarrow> dispatch_err option \<times> 't" where
  "wrap_mark (Inl e, t) = (Some (ErrPartialPersistence e), t)"
| "wrap_mark (Inr _, t) = (None, t)"

definition markProcessed where
  "markProcessed flt dbnow ev leaseID t = wrap_mark (MarkProcessed flt dbnow (ob_id ev) leaseID t)"

definition markDeadLetterTerminal where
  "markDeadLetterTerminal flt dbnow ev leaseID perr t =
     wrap_mark (MarkDeadLetter flt dbnow (ob_id ev) leaseID (pr_text perr) t)"

definition markDeadLetterMaxAttempts where
  "markDeadLetterMaxAttempts c flt dbnow ev leaseID perr t =
     wrap_mark (MarkDeadLetter flt dbnow (ob_id ev) leaseID
       (''max attempts ('' @ Itoa (nat (dc_max_attempts c)) @ '') reached: '' @ pr_text perr) t)"

definition markFailedBackoff where
  "markFailedBackoff c rnd flt dbnow appnow ev leaseID perr t =
     wrap_mark (MarkFailed flt dbnow appnow (ob_id ev) leaseID (pr_text perr)
       (Some (computeBackoff c rnd (ob_attempt_count ev))) t)"

text \<open>The classification of the processor's result.\<close>

definition mark_result ::
  "DispatcherConfig \<Rightarrow> (int \<Rightarrow> int) \<Rightarrow> db_fault \<Rightarrow> time \<Rightarrow> time \<Rightarrow> OutboxEvent \<Rightarrow> string \<Rightarrow>
   proc_error option \<Rightarrow> OutboxEvent list \<Rightarrow> dispatch_err option \<times> OutboxEvent list" where
  "mark_result c rnd flt dbnow appnow ev leaseID perr t =
     (case perr of
        None \<Rightarrow> markProcessed flt dbnow ev leaseID t
      | Some e \<Rightarrow>
          if pr_terminal e then markDeadLetterTerminal flt dbnow ev leaseID e t
          else if int (ob_attempt_count ev) \<ge> dc_max_attempts c
          then markDeadLetterMaxAttempts c flt dbnow ev leaseID e t
          else markFailedBackoff c rnd flt dbnow appnow ev leaseID e t)"

text \<open>What one pass sees of the outside: clocks, faults, lock answers, lease id, randomness.\<close>

record pass =
  ps_claim_fault :: db_fault
  ps_claim_db :: time
  ps_claim_app :: time
  ps_locked :: "int \<Rightarrow> bool"
  ps_lease_id :: string
  ps_ticks :: "(db_fault \<times> time \<times> time) list"
  ps_mark_fault :: db_fault
  ps_mark_db :: time
  ps_mark_app :: time
  ps_random :: "int \<Rightarrow> int"

definition ob_processOne ::
  "DispatcherConfig \<Rightarrow> (OutboxEvent \<Rightarrow> 'w \<Rightarrow> proc_outcome \<times> 'w) \<Rightarrow> pass \<Rightarrow> OutboxEvent \<Rightarrow>
   OutboxEvent list \<times> 'w \<Rightarrow> dispatch_err option \<times> OutboxEvent list \<times> 'w" where
  "ob_processOne c process p ev = (\<lambda>(t, w).
     (case ob_lease_id ev of
        None \<Rightarrow> (Some NoLease, t, w)
      | Some leaseID \<Rightarrow>
          let t1 = heartbeatLoop (dc_lease_ttl c) (ob_id ev) leaseID (ps_ticks p) t;
              (out, w1) = process ev w;
              (err, t2) = mark_result c (ps_random p) (ps_mark_fault p) (ps_mark_db p)
                            (ps_mark_app p) ev leaseID (safeProcess out) t1
          in (err, t2, w1)))"

text \<open>
  One drain: passes until the queue is empty, a database error, or the cancellation of the
  context (\<open>live k\<close> is \<open>ctx.Err() == nil\<close> before pass \<open>k\<close>). A race is retried at once.
  The fuel bounds the number of passes; running out is \<open>None\<close>.
\<close>

fun drainOnce ::
  "DispatcherConfig \<Rightarrow> (OutboxEvent \<Rightarrow> 'w \<Rightarrow> proc_outcome \<times> 'w) \<Rightarrow> (nat \<Rightarrow> bool) \<Rightarrow> (nat \<Rightarrow> pass) \<Rightarrow>
   nat \<Rightarrow> nat \<Rightarrow> OutboxEvent list \<times> 'w \<Rightarrow> (OutboxEvent list \<times> 'w) option" where
  "drainOnce c process live passes k 0 s = None"
| "drainOnce c process live passes k (Suc fuel) s =
     (if \<not> live k then Some s
      else let p = passes k in
        case ClaimNext (ps_claim_fault p) (ps_claim_db p) (ps_claim_app p) (ps_locked p)
               (ps_lease_id p) (dc_lease_ttl c) (fst s) of
          (Inl ErrOutboxRace, t) \<Rightarrow> drainOnce c process live passes (Suc k) fuel (t, snd s)
        | (Inl _, t) \<Rightarrow> Some (t, snd s)
        | (Inr ev, t) \<Rightarrow>
            drainOnce c process live passes (Suc k) fuel
              (snd (ob_processOne c process p ev (t, snd s))))"


section \<open>A drain ends\<close>

text \<open>The rows a pass could claim at time \<open>hi\<close>; a pass makes one of them ineligible.\<close>

definition open_rows :: "time \<Rightarrow> OutboxEvent list \<Rightarrow> nat" where
  "open_rows hi t = rows_affected (ob_eligible hi) t"

lemma ob_eligible_mono: "ob_eligible a r \<Longrightarrow> a \<le> b \<Longrightarrow> ob_eligible b r"
  by (auto simp: ob_eligible_def lease_free_def null_or_def split: option.splits)

lemma open_rows_update_le:
  assumes "\<And>r. p r \<Longrightarrow> ob_eligible hi (f r) \<Longrightarrow> ob_eligible hi r"
  shows "open_rows hi (update_where p f t) \<le> open_rows hi t"
  using assms by (induction t) (auto simp: open_rows_def intro: le_SucI)

lemma open_rows_update_less:
  assumes "\<And>r. p r \<Longrightarrow> \<not> ob_eligible hi (f r)" and "c \<in> set t" "p c" "ob_eligible hi c"
  shows "open_rows hi (update_where p f t) < open_rows hi t"
  using assms(2)
proof (induction t)
  case (Cons r t)
  have "open_rows hi (update_where p f t) \<le> open_rows hi t"
    by (rule open_rows_update_le) (simp add: assms(1))
  with Cons assms show ?case by (auto simp: open_rows_def)
qed simp

text \<open>
  With a clock that has not yet reached the end of the leases and delays this drain writes,
  every write of the drain leaves its row ineligible.
\<close>

lemma lease_write_closed:
  assumes "case a of WRenew u \<Rightarrow> hi \<le> u | WFailed m n \<Rightarrow> (\<exists>x. n = Some x \<and> hi < x)
    | WRelease \<Rightarrow> False | _ \<Rightarrow> True"
  shows "\<not> ob_eligible hi (lease_set now a r)"
  using assms by (cases a) (auto simp: ob_eligible_def lease_free_def)

lemma exec_lease_write_open:
  assumes "case a of WRenew u \<Rightarrow> hi \<le> u | WFailed m n \<Rightarrow> (\<exists>x. n = Some x \<and> hi < x)
    | WRelease \<Rightarrow> False | _ \<Rightarrow> True"
  shows "open_rows hi (snd (exec_lease_write flt now i w a t)) \<le> open_rows hi t"
  using lease_write_closed [OF assms]
  by (auto simp: exec_lease_write_table intro: open_rows_update_le)

lemma heartbeatLoop_open:
  assumes "\<forall>(f, d, a) \<in> set ticks. hi \<le> a + ttl"
  shows "open_rows hi (heartbeatLoop ttl i w ticks t) \<le> open_rows hi t"
  using assms
proof (induction ttl i w ticks t rule: heartbeatLoop.induct)
  case (2 ttl i w flt dbn an ticks t)
  have le: "open_rows hi (snd (RenewLease flt dbn an i w ttl t)) \<le> open_rows hi t"
    using 2(2) by (auto simp: RenewLease_def intro!: exec_lease_write_open)
  show ?case
  proof (cases "RenewLease flt dbn an i w ttl t")
    case (Pair r t')
    then show ?thesis using le 2 by (cases r) (auto intro: order_trans)
  qed
qed simp

text \<open>
  A pass whose clocks fit the window: claims read the database clock at most at \<open>hi\<close>, leases
  and delays are computed from an application clock no earlier than \<open>lo\<close>.
\<close>

definition pass_in_window :: "time \<Rightarrow> time \<Rightarrow> pass \<Rightarrow> bool" where
  "pass_in_window lo hi p \<longleftrightarrow> ps_claim_db p \<le> hi \<and> lo \<le> ps_claim_app p \<and> lo \<le> ps_mark_app p \<and>
     (\<forall>(f, d, a) \<in> set (ps_ticks p). lo \<le> a) \<and> int63_source (ps_random p)"

lemma snd_wrap_mark [simp]: "snd (wrap_mark m) = snd m"
  by (cases m rule: wrap_mark.cases) auto

lemma mark_result_open:
  assumes "lo \<le> appnow" and "hi < lo + dc_base_delay c" and "int63_source rnd"
    and "0 < dc_base_delay c"
  shows "open_rows hi (snd (mark_result c rnd flt dbnow appnow ev w perr t)) \<le> open_rows hi t"
proof -
  have "hi < appnow + computeBackoff c rnd (ob_attempt_count ev)"
    using conjunct1 [OF computeBackoff_bounds_aux [OF assms(3,4), of "ob_attempt_count ev"]] assms(1,2)
    by linarith
  then show ?thesis
    by (auto simp: mark_result_def markProcessed_def markDeadLetterTerminal_def
        markDeadLetterMaxAttempts_def markFailedBackoff_def MarkProcessed_def MarkDeadLetter_def
        MarkFailed_def intro!: exec_lease_write_open split: option.split)
qed

lemma ClaimNext_open:
  assumes "distinct (map ob_id t)" and "ClaimNext flt dbn an lk w ttl t = (Inr ev, t')"
    and "dbn \<le> hi" and "hi \<le> an + ttl"
  shows "open_rows hi t' < open_rows hi t"
proof (rule ClaimNext_cases [OF assms(1), of flt dbn an lk w ttl])
  fix c
  assume c: "c \<in> set t" "ob_eligible dbn c"
    and eq: "ClaimNext flt dbn an lk w ttl t =
      (if flt = DbLost then Inl ObDatabase else Inr (claim_stamp w (an + ttl) c),
       update_where (\<lambda>r. ob_id r = ob_id c) (claim_stamp w (an + ttl)) t)"
  have "\<not> ob_eligible hi (claim_stamp w (an + ttl) r)" for r
    using assms(4) by (simp add: ob_eligible_def lease_free_def)
  then show ?thesis
    using open_rows_update_less [of "\<lambda>r. ob_id r = ob_id c" hi "claim_stamp w (an + ttl)" c t] c
      ob_eligible_mono [OF c(2) assms(3)] assms(2) eq by simp
qed (use assms(2) in simp)

lemma ids_lease_write: "map ob_id (snd (exec_lease_write flt now i w a t)) = map ob_id t"
  by (simp add: exec_lease_write_table map_update_where)

lemma ids_heartbeat: "map ob_id (heartbeatLoop ttl i w ticks t) = map ob_id t"
proof (induction ttl i w ticks t rule: heartbeatLoop.induct)
  case (2 ttl i w flt dbn an ticks t)
  have "map ob_id (snd (RenewLease flt dbn an i w ttl t)) = map ob_id t"
    by (simp add: RenewLease_def ids_lease_write)
  with 2 show ?case by (auto split: prod.split sum.split)
qed simp

lemma ids_mark: "map ob_id (snd (mark_result c rnd flt dbn an ev w perr t)) = map ob_id t"
  by (simp add: mark_result_def markProcessed_def markDeadLetterTerminal_def
      markDeadLetterMaxAttempts_def markFailedBackoff_def MarkProcessed_def MarkDeadLetter_def
      MarkFailed_def ids_lease_write split: option.split)

lemma ids_claim: "map ob_id (snd (ClaimNext flt dbn an lk w ttl t)) = map ob_id t"
  by (simp add: ClaimNext_def Let_def map_update_where split: option.split)

lemma ob_processOne_table:
  assumes "ob_lease_id ev = Some w"
  shows "fst (snd (ob_processOne c process p ev (t, x))) =
    snd (mark_result c (ps_random p) (ps_mark_fault p) (ps_mark_db p) (ps_mark_app p) ev w
      (safeProcess (fst (process ev x))) (heartbeatLoop (dc_lease_ttl c) (ob_id ev) w (ps_ticks p) t))"
  by (simp add: ob_processOne_def assms Let_def split: prod.split)

lemma drain_pass:
  assumes "distinct (map ob_id t)" and "pass_in_window lo hi p" and "hi \<le> lo + dc_lease_ttl c"
    and "hi < lo + dc_base_delay c" and "0 < dc_base_delay c"
    and "ClaimNext (ps_claim_fault p) (ps_claim_db p) (ps_claim_app p) (ps_locked p)
      (ps_lease_id p) (dc_lease_ttl c) t = (Inr ev, t1)"
  shows "open_rows hi (fst (snd (ob_processOne c process p ev (t1, x)))) < open_rows hi t"
    and "map ob_id (fst (snd (ob_processOne c process p ev (t1, x)))) = map ob_id t"
proof -
  note win = assms(2) [unfolded pass_in_window_def]
  have ev: "ob_lease_id ev = Some (ps_lease_id p)"
    by (rule ClaimNext_cases [OF assms(1), of "ps_claim_fault p" "ps_claim_db p" "ps_claim_app p"
          "ps_locked p" "ps_lease_id p" "dc_lease_ttl c"]) (use assms(6) in \<open>auto split: if_splits\<close>)
  have "open_rows hi t1 < open_rows hi t"
    using ClaimNext_open [OF assms(1,6)] win assms(3) by simp
  moreover have "open_rows hi (heartbeatLoop (dc_lease_ttl c) (ob_id ev) (ps_lease_id p) (ps_ticks p) t1)
      \<le> open_rows hi t1"
    by (rule heartbeatLoop_open) (use win assms(3) in fastforce)
  ultimately show "open_rows hi (fst (snd (ob_processOne c process p ev (t1, x)))) < open_rows hi t"
    unfolding ob_processOne_table [OF ev]
    using mark_result_open [OF _ assms(4) _ assms(5)] win by (meson le_less_trans)
  show "map ob_id (fst (snd (ob_processOne c process p ev (t1, x)))) = map ob_id t"
    unfolding ob_processOne_table [OF ev] ids_mark ids_heartbeat
    using ids_claim [of _ _ _ _ _ _ t] assms(6) by (metis snd_conv)
qed


definition sample_pass :: "nat \<Rightarrow> pass" where
  "sample_pass k =
     \<lparr>ps_claim_fault = DbOk, ps_claim_db = 0, ps_claim_app = 0, ps_locked = (\<lambda>_. False),
      ps_lease_id = ''A'', ps_ticks = [], ps_mark_fault = DbLost, ps_mark_db = 0, ps_mark_app = 0,
      ps_random = (\<lambda>_. 0)\<rparr>"

definition default_config :: DispatcherConfig where
  "default_config = NewDispatcher \<lparr>dc_lease_ttl = 0, dc_heartbeat = 0, dc_max_attempts = 0,
     dc_base_delay = 0, dc_cap_delay = 0, dc_tick = 0\<rparr>"


end
