(* ===== verification/OutboxSystem.thy ===== *)
theory OutboxSystem
  imports OutboxDispatcher
begin

text \<open>
  Any number of dispatchers on one outbox, as a step relation. A state holds the two tables,
  the events that dispatchers have claimed and are still processing (\<open>ow_running\<close>) and those
  whose processor has returned and whose mark is outstanding (\<open>ow_returned\<close>). Steps are
  single statements of the dispatchers in any interleaving, under any fault, including the
  crash of any of them at any point.
\<close>

record ob_world =
  ow_events :: "OutboxEvent list"
  ow_jobs :: "publish_job list"
  ow_running :: "OutboxEvent list"
  ow_returned :: "(OutboxEvent \<times> proc_error option) list"

definition ob_initial :: ob_world where
  "ob_initial = \<lparr>ow_events = [], ow_jobs = [], ow_running = [], ow_returned = []\<rparr>"

inductive ob_step ::
  "(string \<Rightarrow> publishPayload option) \<Rightarrow> DispatcherConfig \<Rightarrow> ob_world \<Rightarrow> ob_world \<Rightarrow> bool"
  for parse :: "string \<Rightarrow> publishPayload option" and c :: DispatcherConfig where
  st_insert:
    "ob_Insert flt now k atype aid etype payload (ow_events s) = (res, t) \<Longrightarrow>
     k \<notin> ob_id ` set (ow_events s) \<Longrightarrow> ob_step parse c s (s\<lparr>ow_events := t\<rparr>)"
| st_claim:
    "ClaimNext flt dbn an lk w ttl (ow_events s) = (Inr ev, t) \<Longrightarrow>
     ob_step parse c s (s\<lparr>ow_events := t, ow_running := ev # ow_running s\<rparr>)"
| st_claim_error:
    "ClaimNext flt dbn an lk w ttl (ow_events s) = (Inl e, t) \<Longrightarrow>
     ob_step parse c s (s\<lparr>ow_events := t\<rparr>)"
| st_renew:
    "ev \<in> set (ow_running s) \<Longrightarrow> ob_lease_id ev = Some w \<Longrightarrow>
     RenewLease flt dbn an (ob_id ev) w ttl (ow_events s) = (res, t) \<Longrightarrow>
     ob_step parse c s (s\<lparr>ow_events := t\<rparr>)"
| st_process:
    "ev \<in> set (ow_running s) \<Longrightarrow> Process parse exists flt ev (ow_jobs s) = (e, js) \<Longrightarrow>
     ob_step parse c s (s\<lparr>ow_jobs := js, ow_running := remove1 ev (ow_running s),
                         ow_returned := (ev, safeProcess (Returns e)) # ow_returned s\<rparr>)"
| st_panic:
    "ev \<in> set (ow_running s) \<Longrightarrow> Process parse exists flt ev (ow_jobs s) = (e, js) \<Longrightarrow>
     js' \<in> {ow_jobs s, js} \<Longrightarrow>
     ob_step parse c s (s\<lparr>ow_jobs := js', ow_running := remove1 ev (ow_running s),
                         ow_returned := (ev, safeProcess (Panics v)) # ow_returned s\<rparr>)"
| st_mark:
    "(ev, e) \<in> set (ow_returned s) \<Longrightarrow> ob_lease_id ev = Some w \<Longrightarrow>
     mark_result c rnd flt dbn an ev w e (ow_events s) = (res, t) \<Longrightarrow>
     ob_step parse c s (s\<lparr>ow_events := t, ow_returned := remove1 (ev, e) (ow_returned s)\<rparr>)"
| st_crash:
    "set running \<subseteq> set (ow_running s) \<Longrightarrow> set returned \<subseteq> set (ow_returned s) \<Longrightarrow>
     ob_step parse c s (s\<lparr>ow_running := running, ow_returned := returned\<rparr>)"
| st_release:
    "ob_ReleaseLease flt dbn i w (ow_events s) = (res, t) \<Longrightarrow>
     ob_step parse c s (s\<lparr>ow_events := t\<rparr>)"

inductive_cases ob_stepE: "ob_step parse c s s'"


section \<open>The invariant\<close>

definition materialised :: "publish_job list \<Rightarrow> int \<Rightarrow> bool" where
  "materialised jobs i \<longleftrightarrow> (\<exists>j \<in> set jobs. pj_outbox_event_id j = i)"

text \<open>A closed row holds no lease and, when it is \<open>processed\<close>, its job exists.\<close>

definition row_ok :: "publish_job list \<Rightarrow> OutboxEvent \<Rightarrow> bool" where
  "row_ok jobs r \<longleftrightarrow>
     (ob_status r \<noteq> ObPending \<longrightarrow> ob_lease_id r = None) \<and>
     (ob_status r = ObProcessed \<longrightarrow> materialised jobs (ob_id r))"

definition ob_inv :: "ob_world \<Rightarrow> bool" where
  "ob_inv s \<longleftrightarrow>
     distinct (map ob_id (ow_events s)) \<and>
     distinct (map pj_outbox_event_id (ow_jobs s)) \<and>
     (\<forall>r \<in> set (ow_events s). row_ok (ow_jobs s) r) \<and>
     (\<forall>(ev, e) \<in> set (ow_returned s). e = None \<longrightarrow> materialised (ow_jobs s) (ob_id ev))"

lemma Process_jobs:
  assumes "Process parse exists flt ev jobs = (e, js)"
  shows "js = jobs \<or> (\<not> materialised jobs (ob_id ev) \<and>
      (\<exists>tid. js = jobs @ [\<lparr>pj_post_target_id = tid, pj_outbox_event_id = ob_id ev\<rparr>]))"
    and "e = None \<Longrightarrow> materialised js (ob_id ev)"
  using assms
  by (auto simp: Process_def materialised_def Let_def split: option.splits if_splits)

lemma materialised_image: "materialised jobs i \<longleftrightarrow> i \<in> pj_outbox_event_id ` set jobs"
  by (auto simp: materialised_def)

lemma Process_keeps:
  assumes "Process parse exists flt ev jobs = (e, js)" and "distinct (map pj_outbox_event_id jobs)"
  shows "distinct (map pj_outbox_event_id js)" and "materialised jobs i \<Longrightarrow> materialised js i"
  using Process_jobs(1) [OF assms(1)] assms(2) by (auto simp: materialised_image)

text \<open>Which rows a lease-guarded write may produce.\<close>

lemma lease_set_row_ok:
  assumes "row_ok jobs r" and "lease_guard i w r"
    and "a = WProcessed \<Longrightarrow> materialised jobs i"
  shows "row_ok jobs (lease_set now a r)"
  using assms by (cases a) (auto simp: row_ok_def lease_guard_def)

lemma exec_lease_write_rows:
  assumes "\<forall>r \<in> set t. row_ok jobs r" and "a = WProcessed \<Longrightarrow> materialised jobs i"
  shows "\<forall>r \<in> set (snd (exec_lease_write flt now i w a t)). row_ok jobs r"
  using assms lease_set_row_ok by (auto simp: exec_lease_write_table set_update_where)

text \<open>A mark is at most one lease-guarded write; only a nil result marks \<open>processed\<close>.\<close>

lemma mark_result_write:
  obtains "snd (mark_result c rnd flt dbn an ev w e t) = t"
  | a where "snd (mark_result c rnd flt dbn an ev w e t) =
      snd (exec_lease_write flt dbn (ob_id ev) w a t)" "a = WProcessed \<Longrightarrow> e = None"
proof (cases e)
  case None
  then show ?thesis using that(2) [of WProcessed]
    by (simp add: mark_result_def markProcessed_def MarkProcessed_def)
next
  case (Some x)
  have dead: "snd (MarkDeadLetter flt dbn (ob_id ev) w m t) = t \<or>
      snd (MarkDeadLetter flt dbn (ob_id ev) w m t) =
        snd (exec_lease_write flt dbn (ob_id ev) w (WDeadLetter m) t)" for m
    by (simp add: MarkDeadLetter_def)
  have fail: "snd (MarkFailed flt dbn an (ob_id ev) w m b t) = t \<or>
      snd (MarkFailed flt dbn an (ob_id ev) w m b t) =
        snd (exec_lease_write flt dbn (ob_id ev) w (WFailed m (map_option (\<lambda>b. an + b) b)) t)" for m b
    by (simp add: MarkFailed_def)
  have "snd (mark_result c rnd flt dbn an ev w e t) = t \<or>
      (\<exists>a. a \<noteq> WProcessed \<and>
        snd (mark_result c rnd flt dbn an ev w e t) = snd (exec_lease_write flt dbn (ob_id ev) w a t))"
    unfolding mark_result_def Some option.case
      markDeadLetterTerminal_def markDeadLetterMaxAttempts_def markFailedBackoff_def
    by (simp only: if_split_eq1 snd_wrap_mark split: if_split) (meson dead fail lease_write.distinct)
  then show ?thesis using that by blast
qed

lemma mark_result_rows:
  assumes "\<forall>r \<in> set t. row_ok jobs r" and "e = None \<Longrightarrow> materialised jobs (ob_id ev)"
  shows "\<forall>r \<in> set (snd (mark_result c rnd flt dbn an ev w e t)). row_ok jobs r"
proof (rule mark_result_write [of c rnd flt dbn an ev w e t])
  fix a
  assume "snd (mark_result c rnd flt dbn an ev w e t) = snd (exec_lease_write flt dbn (ob_id ev) w a t)"
    and "a = WProcessed \<Longrightarrow> e = None"
  then show ?thesis using exec_lease_write_rows [OF assms(1), of a "ob_id ev"] assms(2) by simp
qed (simp add: assms(1))

lemma claim_rows:
  assumes "\<forall>r \<in> set t. row_ok jobs r"
  shows "\<forall>r \<in> set (snd (ClaimNext flt dbn an lk w ttl t)). row_ok jobs r"
proof -
  have "row_ok jobs (claim_stamp v u r)" if "claim_guard dbn i r" for i v u r
    using that by (simp add: row_ok_def claim_guard_def)
  then have "\<forall>r \<in> set (update_where (claim_guard dbn i) (claim_stamp v u) t). row_ok jobs r" for i v u
    using assms by (auto simp: set_update_where)
  with assms show ?thesis by (simp add: ClaimNext_def Let_def split: option.split)
qed

lemma insert_rows:
  assumes "\<forall>r \<in> set t. row_ok jobs r"
  shows "\<forall>r \<in> set (snd (ob_Insert flt now k at ai et pl t)). row_ok jobs r"
  using assms by (auto simp: ob_Insert_def row_ok_def)

lemma release_table:
  "snd (ob_ReleaseLease flt dbn i w t) =
     (if flt = DbFailed then t else update_where (lease_guard i w) (lease_set dbn WRelease) t)"
  by (cases flt) (simp_all add: ob_ReleaseLease_def Let_def)

lemma ob_inv_events:
  assumes "ob_inv s" and "distinct (map ob_id t)" and "\<forall>r \<in> set t. row_ok (ow_jobs s) r"
    and "set returned \<subseteq> set (ow_returned s)"
  shows "ob_inv (s\<lparr>ow_events := t, ow_running := running, ow_returned := returned\<rparr>)"
  using assms by (auto simp: ob_inv_def)

lemma ob_inv_step:
  assumes "ob_step parse c s s'" and "ob_inv s"
  shows "ob_inv s'"
  using assms
proof (cases rule: ob_step.cases)
  case (st_insert flt now k atype aid etype payload res t)
  have "distinct (map ob_id t)" "\<forall>r \<in> set t. row_ok (ow_jobs s) r"
    using st_insert(2,3) assms(2) insert_rows [of "ow_events s" "ow_jobs s"]
    by (auto simp: ob_inv_def ob_Insert_def row_ok_def split: if_splits)
  with st_insert(1) assms(2) show ?thesis by (simp add: ob_inv_def)
next
  case (st_claim flt dbn an lk w ttl ev t)
  then have t: "t = snd (ClaimNext flt dbn an lk w ttl (ow_events s))" by simp
  show ?thesis using assms(2) claim_rows [of "ow_events s" "ow_jobs s"] unfolding st_claim(1) t
    by (simp add: ob_inv_def ids_claim)
next
  case (st_claim_error flt dbn an lk w ttl e t)
  then have t: "t = snd (ClaimNext flt dbn an lk w ttl (ow_events s))" by simp
  show ?thesis using assms(2) claim_rows [of "ow_events s" "ow_jobs s"] unfolding st_claim_error(1) t
    by (simp add: ob_inv_def ids_claim)
next
  case (st_renew ev w flt dbn an ttl res t)
  then have t: "t = (if w = [] then ow_events s
      else snd (exec_lease_write flt dbn (ob_id ev) w (WRenew (an + ttl)) (ow_events s)))"
    by (simp add: RenewLease_def split: if_splits)
  show ?thesis using assms(2) exec_lease_write_rows [of "ow_events s" "ow_jobs s" "WRenew (an + ttl)"]
    unfolding st_renew(1) t by (simp add: ob_inv_def ids_lease_write)
next
  case (st_process ev exists flt e js)
  note keep = Process_keeps [OF st_process(3)] and new = Process_jobs(2) [OF st_process(3)]
  show ?thesis using assms(2) keep new unfolding st_process(1)
    by (auto simp: ob_inv_def row_ok_def)
next
  case (st_panic ev exists flt e js js' v)
  have "distinct (map pj_outbox_event_id js')" "\<And>i. materialised (ow_jobs s) i \<Longrightarrow> materialised js' i"
    using Process_keeps [OF st_panic(3)] st_panic(4) assms(2) by (auto simp: ob_inv_def)
  then show ?thesis using assms(2) unfolding st_panic(1)
    by (auto simp: ob_inv_def row_ok_def)
next
  case (st_mark ev e w rnd flt dbn an res t)
  then have t: "t = snd (mark_result c rnd flt dbn an ev w e (ow_events s))" by simp
  have "e = None \<Longrightarrow> materialised (ow_jobs s) (ob_id ev)"
    using st_mark(2) assms(2) by (auto simp: ob_inv_def)
  from mark_result_rows [OF _ this] show ?thesis using assms(2) unfolding st_mark(1) t
    by (auto simp: ob_inv_def ids_mark dest: set_remove1_subset [THEN subsetD])
next
  case (st_crash running returned)
  then show ?thesis using assms(2) by (auto simp: ob_inv_def)
next
  case (st_release flt dbn i w res t)
  then have t: "t = snd (ob_ReleaseLease flt dbn i w (ow_events s))" by simp
  have "\<forall>r \<in> set t. row_ok (ow_jobs s) r" and "map ob_id t = map ob_id (ow_events s)"
    using assms(2) lease_set_row_ok [of "ow_jobs s"]
    by (auto simp: t release_table ob_inv_def set_update_where map_update_where row_ok_def lease_guard_def)
  with st_release(1) assms(2) show ?thesis by (simp add: ob_inv_def)
qed

abbreviation ob_reachable ::
  "(string \<Rightarrow> publishPayload option) \<Rightarrow> DispatcherConfig \<Rightarrow> ob_world \<Rightarrow> bool" where
  "ob_reachable parse c s \<equiv> (ob_step parse c)\<^sup>*\<^sup>* ob_initial s"

lemma ob_inv_reachable: "ob_reachable parse c s \<Longrightarrow> ob_inv s"
proof (induction rule: rtranclp_induct)
  case base
  show ?case by (simp add: ob_inv_def ob_initial_def)
qed (rule ob_inv_step)

lemma distinct_filter_one:
  assumes "distinct (map f xs)"
  shows "length (filter (\<lambda>x. f x = k) xs) = (if k \<in> f ` set xs then 1 else 0)"
  using assms by (induction xs) auto

text \<open>
  C1: the outbox turns every event into exactly one publish job. In every state any number of
  dispatchers can reach, through any interleaving of inserts, claims, renewals, processing,
  panics, marks, releases and crashes and under any database faults, no event has two jobs and
  every event marked \<open>processed\<close> has one.
\<close>

theorem outbox_exactly_once:
  assumes "ob_reachable parse c s"
  shows "length (filter (\<lambda>j. pj_outbox_event_id j = i) (ow_jobs s)) \<le> 1 \<and>
    (\<forall>r \<in> set (ow_events s). ob_status r = ObProcessed \<longrightarrow>
       length (filter (\<lambda>j. pj_outbox_event_id j = ob_id r) (ow_jobs s)) = 1)"
proof -
  have inv: "ob_inv s" using assms by (rule ob_inv_reachable)
  then have "distinct (map pj_outbox_event_id (ow_jobs s))" by (simp add: ob_inv_def)
  note one = distinct_filter_one [OF this]
  have "ob_id r \<in> pj_outbox_event_id ` set (ow_jobs s)"
    if "r \<in> set (ow_events s)" "ob_status r = ObProcessed" for r
    using inv that by (simp add: ob_inv_def row_ok_def materialised_image)
  then show ?thesis by (simp add: one)
qed

definition sample_parse :: "string \<Rightarrow> publishPayload option" where
  "sample_parse = (\<lambda>_. Some \<lparr>pp_event_version = ''v1'', pp_post_id = 3, pp_target_id = 9,
     pp_workspace_id = 4\<rparr>)"

text \<open>
  A run with a lost acknowledgement: the event is inserted and claimed, the job is written but
  the answer of the insertion is lost, the dispatcher crashes, another one claims the event
  after the lease, finds the job there and marks the event.
\<close>

definition run_event :: OutboxEvent where
  "run_event = claim_stamp ''B'' (130 * second) (claim_stamp ''A'' (60 * second) sample_event)"

definition run_end_state :: ob_world where
  "run_end_state = \<lparr>ow_events = [lease_set (70 * second) WProcessed run_event],
     ow_jobs = [\<lparr>pj_post_target_id = Some 9, pj_outbox_event_id = 1\<rparr>],
     ow_running = [], ow_returned = []\<rparr>"

lemma sample_run: "ob_reachable sample_parse default_config run_end_state"
proof -
  let ?job = "\<lparr>pj_post_target_id = Some 9, pj_outbox_event_id = 1\<rparr>"
  let ?star = "(ob_step sample_parse default_config)\<^sup>*\<^sup>*"
  let ?e1 = "claim_stamp ''A'' (60 * second) sample_event"
  note defs = ob_initial_def sample_event_def claim_stamp_def
  have s1: "?star ob_initial (ob_initial\<lparr>ow_events := [sample_event]\<rparr>)"
    by (rule r_into_rtranclp, rule st_insert [of DbOk 0 1 "''post_target''" 9 "''post_target.publish_requested''" "''{}''" _ "Inr 1"])
      (simp_all add: ob_Insert_def defs)
  have s2: "?star (ob_initial\<lparr>ow_events := [sample_event]\<rparr>) \<lparr>ow_events = [?e1], ow_jobs = [], ow_running = [?e1], ow_returned = []\<rparr>"
    using st_claim [of DbOk 0 0 "\<lambda>_. False" "''A''" "60 * second" "ob_initial\<lparr>ow_events := [sample_event]\<rparr>"
        ?e1 "[?e1]" sample_parse default_config]
    by (intro r_into_rtranclp) (simp add: ClaimNext_def first_by_def ob_eligible_def lease_free_def claim_guard_def defs Let_def)
  have s3: "?star \<lparr>ow_events = [?e1], ow_jobs = [], ow_running = [?e1], ow_returned = []\<rparr> \<lparr>ow_events = [?e1], ow_jobs = [?job], ow_running = [],
      ow_returned = [(?e1, Some \<lparr>pr_terminal = False, pr_text = ''publish_jobs materialise''\<rparr>)]\<rparr>"
    using st_process [of ?e1 "\<lparr>ow_events = [?e1], ow_jobs = [], ow_running = [?e1], ow_returned = []\<rparr>"
        sample_parse "\<lambda>_. True" DbLost "Some \<lparr>pr_terminal = False, pr_text = ''publish_jobs materialise''\<rparr>"
        "[?job]" default_config]
    by (intro r_into_rtranclp) (simp add: Process_def validateEventMetadata_def validatePayload_def sample_parse_def defs Let_def)
  have s4: "?star \<lparr>ow_events = [?e1], ow_jobs = [?job], ow_running = [],
      ow_returned = [(?e1, Some \<lparr>pr_terminal = False, pr_text = ''publish_jobs materialise''\<rparr>)]\<rparr> \<lparr>ow_events = [?e1], ow_jobs = [?job], ow_running = [], ow_returned = []\<rparr>"
    using st_crash [of "[]" _ "[]" sample_parse default_config]
    by (intro r_into_rtranclp) (metis empty_subsetI list.set(1) ob_world.update_convs(3,4))
  have s5: "?star \<lparr>ow_events = [?e1], ow_jobs = [?job], ow_running = [], ow_returned = []\<rparr> \<lparr>ow_events = [run_event], ow_jobs = [?job], ow_running = [run_event], ow_returned = []\<rparr>"
    using st_claim [of DbOk "70 * second" "70 * second" "\<lambda>_. False" "''B''" "60 * second"
        "\<lparr>ow_events = [?e1], ow_jobs = [?job], ow_running = [], ow_returned = []\<rparr>"
        run_event "[run_event]" sample_parse default_config]
    by (intro r_into_rtranclp) (simp add: ClaimNext_def first_by_def ob_eligible_def lease_free_def claim_guard_def defs Let_def
        run_event_def)
  have s6: "?star \<lparr>ow_events = [run_event], ow_jobs = [?job], ow_running = [run_event], ow_returned = []\<rparr> \<lparr>ow_events = [run_event], ow_jobs = [?job], ow_running = [],
      ow_returned = [(run_event, None)]\<rparr>"
    using st_process [of run_event "\<lparr>ow_events = [run_event], ow_jobs = [?job], ow_running = [run_event],
        ow_returned = []\<rparr>" sample_parse "\<lambda>_. True" DbOk None "[?job]" default_config]
    by (intro r_into_rtranclp) (simp add: Process_def validateEventMetadata_def validatePayload_def sample_parse_def defs Let_def
        run_event_def)
  have s7: "?star \<lparr>ow_events = [run_event], ow_jobs = [?job], ow_running = [],
      ow_returned = [(run_event, None)]\<rparr> run_end_state"
    using st_mark [of run_event None "\<lparr>ow_events = [run_event], ow_jobs = [?job], ow_running = [],
        ow_returned = [(run_event, None)]\<rparr>" "''B''" default_config "\<lambda>_. 0" DbOk "70 * second" 0 None
        "[lease_set (70 * second) WProcessed run_event]" sample_parse]
    by (intro r_into_rtranclp) (simp add: mark_result_def markProcessed_def MarkProcessed_def exec_lease_write_def lease_guard_def
        run_end_state_def run_event_def sample_event_def Let_def)
  show ?thesis
    by (rule rtranclp_trans [OF s1 rtranclp_trans [OF s2 rtranclp_trans [OF s3 rtranclp_trans [OF s4
          rtranclp_trans [OF s5 rtranclp_trans [OF s6 s7]]]]]])
qed

theorem outbox_exactly_once_witness:
  "length (filter (\<lambda>j. pj_outbox_event_id j = 1) (ow_jobs run_end_state)) = 1"
  using outbox_exactly_once [OF sample_run]
  by (simp add: run_end_state_def run_event_def sample_event_def)


section \<open>Closed rows\<close>

lemma closed_row_step:
  assumes "ob_step parse c s s'" and "ob_inv s"
    and "find_row ob_id i (ow_events s) = Some r" and "ob_status r \<noteq> ObPending"
  shows "find_row ob_id i (ow_events s') = Some r"
proof -
  have free: "ob_lease_id r = None"
    using assms(2,3,4) by (auto simp: ob_inv_def row_ok_def dest: find_row_SomeD)
  then have guarded: "find_row ob_id i (update_where (lease_guard k w) (lease_set now a) (ow_events s)) = Some r"
    for k w now a
    using assms(3) by (simp add: find_row_update_where lease_guard_def)
  then have lease: "find_row ob_id i (snd (exec_lease_write flt now k w a (ow_events s))) = Some r"
    for flt now k w a
    using assms(3) by (simp add: exec_lease_write_table)
  have stamp: "find_row ob_id i (update_where (claim_guard now k) (claim_stamp w u) (ow_events s)) = Some r"
    for now k w u
    using assms(3,4) by (simp add: find_row_update_where claim_guard_def)
  then have claim: "find_row ob_id i (snd (ClaimNext flt dbn an lk w ttl (ow_events s))) = Some r"
    for flt dbn an lk w ttl
    using assms(3) by (simp add: ClaimNext_def Let_def split: option.split)
  have snoc: "find_row ob_id i (ow_events s @ xs) = Some r" for xs
    using assms(3) by (rule find_row_append)
  from assms(1) show ?thesis
  proof (cases rule: ob_step.cases)
    case (st_insert flt now k atype aid etype payload res t)
    then show ?thesis using snoc assms(3) by (auto simp: ob_Insert_def split: if_splits)
  next
    case (st_claim flt dbn an lk w ttl ev t)
    then show ?thesis using claim [of flt dbn an lk w ttl] by simp
  next
    case (st_claim_error flt dbn an lk w ttl e t)
    then show ?thesis using claim [of flt dbn an lk w ttl] by simp
  next
    case (st_renew ev w flt dbn an ttl res t)
    then show ?thesis using lease [of flt dbn "ob_id ev" w "WRenew (an + ttl)"] assms(3)
      by (auto simp: RenewLease_def split: if_splits)
  next
    case (st_mark ev e w rnd flt dbn an res t)
    from st_mark(4) have "t = snd (mark_result c rnd flt dbn an ev w e (ow_events s))" by simp
    with st_mark(1) lease assms(3) show ?thesis
      by (cases rule: mark_result_write [of c rnd flt dbn an ev w e "ow_events s"]) auto
  next
    case (st_release flt dbn k w res t)
    then have "t = snd (ob_ReleaseLease flt dbn k w (ow_events s))" by simp
    with st_release(1) guarded assms(3) show ?thesis by (simp add: release_table)
  qed (use assms(3) in simp_all)
qed

text \<open>
  C25: a closed event stays closed. Once an event of a reachable state is \<open>processed\<close> or
  dead-lettered, its row is never written again by any dispatcher, however late the marks and
  renewals of earlier lease holders arrive.
\<close>

theorem outbox_closed_rows_final:
  assumes "ob_reachable parse c s" and "(ob_step parse c)\<^sup>*\<^sup>* s s'"
    and "find_row ob_id i (ow_events s) = Some r" and "ob_status r \<noteq> ObPending"
  shows "find_row ob_id i (ow_events s') = Some r"
  using assms(2,3)
proof (induction rule: rtranclp_induct)
  case (step s1 s2)
  have "ob_inv s1" using rtranclp_trans [OF assms(1) step(1)] by (rule ob_inv_reachable)
  with step(2) step.IH [OF step.prems] assms(4) show ?case by (auto intro: closed_row_step)
qed

theorem outbox_closed_rows_final_witness:
  "find_row ob_id 1 (snd (RenewLease DbOk 0 0 1 ''B'' second (ow_events run_end_state))) =
     Some (lease_set (70 * second) WProcessed run_event)"
proof -
  let ?t = "snd (ob_ReleaseLease DbOk 0 1 ''B'' (ow_events run_end_state))"
  have row: "find_row ob_id 1 (ow_events run_end_state) = Some (lease_set (70 * second) WProcessed run_event)"
    "ob_status (lease_set (70 * second) WProcessed run_event) \<noteq> ObPending"
    by (simp_all add: run_end_state_def run_event_def sample_event_def)
  have "ob_step sample_parse default_config run_end_state (run_end_state\<lparr>ow_events := ?t\<rparr>)"
    by (rule st_release [OF surjective_pairing])
  then have "(ob_step sample_parse default_config)\<^sup>*\<^sup>* run_end_state (run_end_state\<lparr>ow_events := ?t\<rparr>)"
    by (rule r_into_rtranclp)
  from outbox_closed_rows_final [OF sample_run this row]
  show ?thesis
    by (simp add: release_table RenewLease_def exec_lease_write_table run_end_state_def run_event_def
        sample_event_def lease_guard_def)
qed

end
