(* ===== verification/OutboxSpec.thy ===== *)
theory OutboxSpec
  imports OutboxSystem
begin

text \<open>
  What the outbox promises, without leases, clocks, retries or dispatchers: every event is
  open, done or dead, a job is produced at most once per event, and only an event with a job is
  done. The step relation of \<open>OutboxSystem\<close> refines this specification.
\<close>

section \<open>The specification\<close>

datatype phase = Open | Done | Dead

type_synonym spec_state = "(int \<rightharpoonup> phase) \<times> int set"

inductive spec_step :: "spec_state \<Rightarrow> spec_state \<Rightarrow> bool" where
  create: "ph i = None \<Longrightarrow> spec_step (ph, made) (ph(i \<mapsto> Open), made)"
| produce: "ph i \<in> {Some Open, Some Dead} \<Longrightarrow> i \<notin> made \<Longrightarrow> spec_step (ph, made) (ph, insert i made)"
| finish: "ph i = Some Open \<Longrightarrow> i \<in> made \<Longrightarrow> spec_step (ph, made) (ph(i \<mapsto> Done), made)"
| bury: "ph i = Some Open \<Longrightarrow> spec_step (ph, made) (ph(i \<mapsto> Dead), made)"

definition spec_initial :: spec_state where
  "spec_initial = (Map.empty, {})"


section \<open>The abstraction\<close>

fun phase_of :: "OutboxStatus \<Rightarrow> phase" where
  "phase_of ObPending = Open"
| "phase_of ObProcessed = Done"
| "phase_of ObDeadLetter = Dead"

definition phases :: "OutboxEvent list \<Rightarrow> int \<rightharpoonup> phase" where
  "phases t i = map_option (\<lambda>r. phase_of (ob_status r)) (find_row ob_id i t)"

definition ob_abs :: "ob_world \<Rightarrow> spec_state" where
  "ob_abs s = (phases (ow_events s), pj_outbox_event_id ` set (ow_jobs s))"

text \<open>Claimed events stay in the table.\<close>

definition ob_known :: "ob_world \<Rightarrow> bool" where
  "ob_known s \<longleftrightarrow> (\<forall>ev \<in> set (ow_running s). ob_id ev \<in> ob_id ` set (ow_events s))"

lemma phases_None_iff: "phases t i = None \<longleftrightarrow> i \<notin> ob_id ` set t"
  by (simp add: phases_def find_row_None_iff)

lemma phases_append_new:
  assumes "ob_id row \<notin> ob_id ` set t"
  shows "phases (t @ [row]) = (phases t)(ob_id row \<mapsto> phase_of (ob_status row))"
proof
  fix i
  have "find_row ob_id i (t @ [row]) = (if i = ob_id row then Some row else find_row ob_id i t)"
    using assms by (induction t) auto
  then show "phases (t @ [row]) i = ((phases t)(ob_id row \<mapsto> phase_of (ob_status row))) i"
    by (simp add: phases_def)
qed

text \<open>An update that keeps ids and statuses is invisible.\<close>

lemma phases_update_same:
  assumes "\<And>r. p r \<Longrightarrow> ob_id (f r) = ob_id r" and "\<And>r. p r \<Longrightarrow> ob_status (f r) = ob_status r"
  shows "phases (update_where p f t) = phases t"
proof
  show "phases (update_where p f t) i = phases t i" for i
    using assms by (simp add: phases_def find_row_update_where option.map_comp comp_def)
      (metis (mono_tags, lifting) comp_apply map_option_cong)
qed

text \<open>A lease-guarded write changes the phase of one open event or nothing.\<close>

lemma phases_lease_write:
  assumes "\<forall>r \<in> set t. row_ok jobs r"
  shows "phases (snd (exec_lease_write flt now k w a t)) = phases t \<or>
     phases t k = Some Open \<and>
     (a = WProcessed \<and> phases (snd (exec_lease_write flt now k w a t)) = (phases t)(k \<mapsto> Done) \<or>
      (\<exists>m. a = WDeadLetter m) \<and>
        phases (snd (exec_lease_write flt now k w a t)) = (phases t)(k \<mapsto> Dead))"
proof (cases "flt = DbFailed \<or> \<not> some_and (lease_guard k w) (find_row ob_id k t)")
  case True
  have "phases (update_where (lease_guard k w) (lease_set now a) t) = phases t"
    if "\<not> some_and (lease_guard k w) (find_row ob_id k t)"
  proof
    fix i
    have "\<not> lease_guard k w r" if "find_row ob_id i t = Some r" for r
    proof (cases "i = k")
      case True
      with that \<open>\<not> some_and (lease_guard k w) (find_row ob_id k t)\<close> show ?thesis by simp
    next
      case False
      with find_row_SomeD [OF that] show ?thesis by (simp add: lease_guard_def)
    qed
    then show "phases (update_where (lease_guard k w) (lease_set now a) t) i = phases t i"
      by (cases "find_row ob_id i t") (simp_all add: phases_def find_row_update_where)
  qed
  with True show ?thesis by (auto simp: exec_lease_write_table)
next
  case False
  then obtain r where r: "find_row ob_id k t = Some r" and g: "lease_guard k w r"
    by (cases "find_row ob_id k t") auto
  have pending: "ob_status r = ObPending"
    using assms find_row_SomeD [OF r] g by (fastforce simp: row_ok_def lease_guard_def)
  have upd: "phases (update_where (lease_guard k w) (lease_set now a) t) =
      (phases t)(k \<mapsto> phase_of (ob_status (lease_set now a r)))"
  proof
    show "phases (update_where (lease_guard k w) (lease_set now a) t) i =
        ((phases t)(k \<mapsto> phase_of (ob_status (lease_set now a r)))) i" for i
      using r g by (cases "find_row ob_id i t")
        (auto simp: phases_def find_row_update_where lease_guard_def dest: find_row_SomeD)
  qed
  have "phases t k = Some Open" using r pending by (simp add: phases_def)
  then show ?thesis
    using False upd pending by (cases a) (auto simp: exec_lease_write_table fun_upd_idem)
qed

lemma phases_claim: "phases (snd (ClaimNext flt dbn an lk w ttl t)) = phases t"
proof -
  have "phases (update_where (claim_guard n i) (claim_stamp v u) t) = phases t" for n i v u
    by (rule phases_update_same) simp_all
  then show ?thesis by (simp add: ClaimNext_def Let_def split: option.split)
qed

lemma ids_step:
  assumes "ob_step parse c s s'"
  shows "ob_id ` set (ow_events s) \<subseteq> ob_id ` set (ow_events s')"
proof -
  have sub: "map ob_id t = map ob_id (ow_events s) \<Longrightarrow>
      ob_id ` set (ow_events s) \<subseteq> ob_id ` set t" for t
    by (metis list.set_map order_refl)
  from assms show ?thesis
  proof (cases rule: ob_step.cases)
    case (st_insert flt now k atype aid etype payload res t)
    then show ?thesis by (auto simp: ob_Insert_def split: if_splits)
  next
    case (st_claim flt dbn an lk w ttl ev t)
    then have "t = snd (ClaimNext flt dbn an lk w ttl (ow_events s))" by simp
    with st_claim(1) show ?thesis using sub [OF ids_claim] by simp
  next
    case (st_claim_error flt dbn an lk w ttl e t)
    then have "t = snd (ClaimNext flt dbn an lk w ttl (ow_events s))" by simp
    with st_claim_error(1) show ?thesis using sub [OF ids_claim] by simp
  next
    case (st_renew ev w flt dbn an ttl res t)
    then show ?thesis
      using sub [OF ids_lease_write, of flt dbn "ob_id ev" w "WRenew (an + ttl)"]
      by (auto simp: RenewLease_def split: if_splits)
  next
    case (st_mark ev e w rnd flt dbn an res t)
    then have "t = snd (mark_result c rnd flt dbn an ev w e (ow_events s))" by simp
    with st_mark(1) show ?thesis using sub [OF ids_mark] by simp
  next
    case (st_release flt dbn i w res t)
    then have "t = snd (ob_ReleaseLease flt dbn i w (ow_events s))" by simp
    then have "map ob_id t = map ob_id (ow_events s)" by (simp add: release_table map_update_where)
    with st_release(1) show ?thesis using sub by simp
  qed auto
qed

lemma ob_known_step:
  assumes "ob_step parse c s s'" and "ob_known s"
  shows "ob_known s'"
proof -
  note ids = ids_step [OF assms(1)]
  have "set (ow_running s') \<subseteq> set (ow_running s) \<or>
      (\<exists>ev. set (ow_running s') \<subseteq> insert ev (set (ow_running s)) \<and> ob_id ev \<in> ob_id ` set (ow_events s'))"
    using assms(1)
  proof (cases rule: ob_step.cases)
    case (st_claim flt dbn an lk w ttl ev t)
    then have "ev \<in> set t"
      by (auto simp: ClaimNext_def Let_def dest!: find_row_SomeD split: option.splits if_splits)
    then have "ob_id ev \<in> ob_id ` set t" by simp
    with st_claim(1) show ?thesis by auto
  qed (auto dest: set_remove1_subset [THEN subsetD])
  then show ?thesis using assms(2) ids unfolding ob_known_def by blast
qed

lemma ob_known_reachable: "ob_reachable parse c s \<Longrightarrow> ob_known s"
proof (induction rule: rtranclp_induct)
  case base
  show ?case by (simp add: ob_known_def ob_initial_def)
qed (rule ob_known_step)


section \<open>The simulation\<close>

lemma lease_write_simulates:
  assumes "\<forall>r \<in> set t. row_ok jobs r" and "a = WProcessed \<Longrightarrow> materialised jobs k"
  shows "spec_step\<^sup>=\<^sup>= (phases t, pj_outbox_event_id ` set jobs)
    (phases (snd (exec_lease_write flt now k w a t)), pj_outbox_event_id ` set jobs)"
proof -
  let ?made = "pj_outbox_event_id ` set jobs" and ?t' = "snd (exec_lease_write flt now k w a t)"
  from phases_lease_write [OF assms(1), of flt now k w a]
  consider "phases ?t' = phases t"
    | "phases t k = Some Open" "a = WProcessed" "phases ?t' = (phases t)(k \<mapsto> Done)"
    | "phases t k = Some Open" "phases ?t' = (phases t)(k \<mapsto> Dead)" by blast
  then show ?thesis
  proof cases
    case 2
    then have "k \<in> ?made" using assms(2) by (simp add: materialised_image)
    from spec_step.finish [of "phases t" k ?made, OF 2(1) this] show ?thesis by (simp add: 2(3))
  next
    case 3
    from spec_step.bury [of "phases t" k ?made, OF 3(1)] show ?thesis by (simp add: 3(2))
  qed simp
qed

lemma process_simulates:
  assumes "Process parse exists flt ev (ow_jobs s) = (e, js)" and "ev \<in> set (ow_running s)"
    and "ob_inv s" and "ob_known s" and "js' \<in> {ow_jobs s, js}"
  shows "spec_step\<^sup>=\<^sup>= (ob_abs s) (phases (ow_events s), pj_outbox_event_id ` set js')"
proof (cases "js' = ow_jobs s")
  case True
  then show ?thesis by (simp add: ob_abs_def)
next
  case False
  with assms(5) Process_jobs(1) [OF assms(1)] obtain tid where new: "\<not> materialised (ow_jobs s) (ob_id ev)"
    and js': "js' = ow_jobs s @ [\<lparr>pj_post_target_id = tid, pj_outbox_event_id = ob_id ev\<rparr>]" by auto
  from assms(2,4) obtain r where r: "find_row ob_id (ob_id ev) (ow_events s) = Some r"
    using find_row_None_iff [of ob_id "ob_id ev" "ow_events s"] by (auto simp: ob_known_def)
  have "ob_status r \<noteq> ObProcessed"
    using assms(3) find_row_SomeD [OF r] new by (auto simp: ob_inv_def row_ok_def)
  then have "phases (ow_events s) (ob_id ev) \<in> {Some Open, Some Dead}"
    using r by (cases "ob_status r") (simp_all add: phases_def)
  from spec_step.produce [of "phases (ow_events s)" "ob_id ev", OF this] new show ?thesis
    by (simp add: ob_abs_def js' materialised_image)
qed

text \<open>
  C3: the dispatchers refine the specification. Every step of any dispatcher from a reachable
  state (single statements in any interleaving, with faults, panics, lost answers, crashes and
  expired leases) is a step of the specification or leaves its state alone: an event is
  created open; a job is produced once, for an event that is not done; an event becomes done
  only when it is open and its job exists; an open event may be given up; nothing else changes.
\<close>

theorem outbox_refines_spec:
  assumes "ob_reachable parse c s" and "ob_step parse c s s'"
  shows "spec_step\<^sup>=\<^sup>= (ob_abs s) (ob_abs s') \<and> ob_abs ob_initial = spec_initial"
proof
  show "ob_abs ob_initial = spec_initial"
    by (auto simp: ob_abs_def ob_initial_def spec_initial_def phases_def)
next
  have inv: "ob_inv s" and known: "ob_known s"
    using assms(1) by (rule ob_inv_reachable, rule ob_known_reachable)
  then have rows: "\<forall>r \<in> set (ow_events s). row_ok (ow_jobs s) r" by (simp add: ob_inv_def)
  from assms(2) show "spec_step\<^sup>=\<^sup>= (ob_abs s) (ob_abs s')"
  proof (cases rule: ob_step.cases)
    case (st_insert flt now k atype aid etype payload res t)
    then consider "t = ow_events s" | row where "t = ow_events s @ [row]" "ob_id row = k" "ob_status row = ObPending"
      by (auto simp: ob_Insert_def split: if_splits)
    then show ?thesis
    proof cases
      case 2
      then show ?thesis
        using st_insert(1,3) phases_append_new [of row "ow_events s"] phases_None_iff [of "ow_events s" k]
        by (auto simp: ob_abs_def intro: spec_step.create)
    qed (simp add: st_insert(1) ob_abs_def)
  next
    case (st_claim flt dbn an lk w ttl ev t)
    then have "t = snd (ClaimNext flt dbn an lk w ttl (ow_events s))" by simp
    with st_claim(1) show ?thesis by (simp add: ob_abs_def phases_claim)
  next
    case (st_claim_error flt dbn an lk w ttl e t)
    then have "t = snd (ClaimNext flt dbn an lk w ttl (ow_events s))" by simp
    with st_claim_error(1) show ?thesis by (simp add: ob_abs_def phases_claim)
  next
    case (st_renew ev w flt dbn an ttl res t)
    then show ?thesis
      using lease_write_simulates [OF rows, of "WRenew (an + ttl)" "ob_id ev" flt dbn w]
      by (auto simp: ob_abs_def RenewLease_def split: if_splits)
  next
    case (st_process ev exists flt e js)
    then show ?thesis using process_simulates [OF st_process(3,2) inv known, of js]
      by (simp add: ob_abs_def)
  next
    case (st_panic ev exists flt e js js' v)
    then show ?thesis using process_simulates [OF st_panic(3,2) inv known, of js']
      by (simp add: ob_abs_def)
  next
    case (st_mark ev e w rnd flt dbn an res t)
    then have t: "t = snd (mark_result c rnd flt dbn an ev w e (ow_events s))" by simp
    have mat: "e = None \<Longrightarrow> materialised (ow_jobs s) (ob_id ev)"
      using st_mark(2) inv by (auto simp: ob_inv_def)
    show ?thesis
    proof (rule mark_result_write [of c rnd flt dbn an ev w e "ow_events s"])
      fix a
      assume "snd (mark_result c rnd flt dbn an ev w e (ow_events s)) =
          snd (exec_lease_write flt dbn (ob_id ev) w a (ow_events s))" and "a = WProcessed \<Longrightarrow> e = None"
      then show ?thesis
        using lease_write_simulates [OF rows, of a "ob_id ev" flt dbn w] mat st_mark(1) t
        by (simp add: ob_abs_def)
    qed (simp add: st_mark(1) t ob_abs_def)
  next
    case (st_crash running returned)
    then show ?thesis by (simp add: ob_abs_def)
  next
    case (st_release flt dbn i w res t)
    then have "t = snd (ob_ReleaseLease flt dbn i w (ow_events s))" by simp
    then have "phases t = phases (ow_events s)"
      by (simp add: release_table phases_update_same)
    with st_release(1) show ?thesis by (simp add: ob_abs_def)
  qed
qed

theorem outbox_refines_spec_witness:
  "spec_step\<^sup>=\<^sup>= (ob_abs run_end_state)
     (ob_abs (run_end_state\<lparr>ow_events :=
        snd (ob_ReleaseLease DbOk 0 1 ''B'' (ow_events run_end_state))\<rparr>))"
  using outbox_refines_spec [OF sample_run st_release [OF surjective_pairing]] by blast

end
