(* ===== verification/UploadJobs.thy ===== *)
theory UploadJobs
  imports Leases StateGraph GoStrings
begin

text \<open>
  The queue of upload jobs: the statuses of \<open>internal/models/upload_job.go\<close> and the table
  \<open>upload_jobs\<close> with the statements of \<open>internal/repository/upload_job_scan.go\<close>,
  \<open>upload_job_claim.go\<close>, \<open>upload_job_retry.go\<close>, \<open>upload_job_dead_letter.go\<close>,
  \<open>upload_job_youtube_session.go\<close> and \<open>upload_job_dedupe.go\<close>. \<open>now\<close> is the
  database clock, \<open>appnow\<close> the clock of the worker, \<open>locked\<close> the rows other
  transactions have locked.
\<close>

section \<open>Statuses\<close>

datatype UploadJobStatus =
    UjPending | UjProcessing | UjCompleted | UjFailed | UjLeased | UjRetryWait | UjDeadLetter
  | UjCancelled | UjIngestCompleted | UjPublishCompleted | UjPublishScheduled | UjReadyToPublish

definition IsIngestTerminal :: "UploadJobStatus \<Rightarrow> bool" where
  "IsIngestTerminal s \<longleftrightarrow>
     s = UjIngestCompleted \<or> s = UjPublishCompleted \<or> s = UjReadyToPublish \<or> s = UjCompleted"

definition IsPublishTerminal :: "UploadJobStatus \<Rightarrow> bool" where
  "IsPublishTerminal s \<longleftrightarrow> s = UjPublishCompleted \<or> s = UjCompleted"

definition IsPrepared :: "UploadJobStatus \<Rightarrow> bool" where
  "IsPrepared s \<longleftrightarrow>
     s = UjIngestCompleted \<or> s = UjPublishScheduled \<or> s = UjPublishCompleted \<or>
     s = UjReadyToPublish \<or> s = UjCompleted"

definition uj_IsTerminal :: "UploadJobStatus \<Rightarrow> bool" where
  "uj_IsTerminal s \<longleftrightarrow>
     s = UjPublishCompleted \<or> s = UjCompleted \<or> s = UjDeadLetter \<or> s = UjCancelled \<or> s = UjFailed"


section \<open>The table\<close>

record youtube_session =
  ys_uri :: string
  ys_offset :: int
  ys_expires_at :: time
  ys_chunk_size :: int
  ys_last_chunk_at :: time

record UploadJob =
  uj_id :: int
  uj_user_id :: int
  uj_workspace_id :: int
  uj_source_type :: string
  uj_source_id :: string
  uj_drive_account_id :: "int option"
  uj_targets :: "int list"
  uj_status :: UploadJobStatus
  uj_error_message :: "string option"
  uj_error_code :: "string option"
  uj_post_id :: "int option"
  uj_asset_id :: "string option"
  uj_ingest_after :: "time option"
  uj_publish_at :: "time option"
  uj_title :: string
  uj_caption :: string
  uj_metadata :: string
  uj_default_privacy_level :: string
  uj_created_at :: time
  uj_attempt_count :: nat
  uj_max_attempts :: nat
  uj_next_attempt_at :: "time option"
  uj_lease_owner :: "string option"
  uj_lease_expires_at :: "time option"
  uj_heartbeat_at :: "time option"
  uj_progress_bytes :: int
  uj_total_bytes :: "int option"
  uj_priority :: int
  uj_started_at :: "time option"
  uj_completed_at :: "time option"
  uj_session :: "youtube_session option"

datatype upload_err = ErrUploadJobLeaseLost | UjInvalidArgument | UjDatabase


section \<open>Claims\<close>

text \<open>The WHERE clauses the two pools have in common and the two that differ.\<close>

definition claim_due :: "time \<Rightarrow> UploadJob \<Rightarrow> bool" where
  "claim_due now r \<longleftrightarrow>
     (case uj_next_attempt_at r of None \<Rightarrow> now | Some t \<Rightarrow> t) \<le> now \<and>
     null_or (\<lambda>t. t \<le> now) (uj_ingest_after r) \<and>
     null_or (\<lambda>t. t < now) (uj_lease_expires_at r)"

definition ingest_candidate :: "time \<Rightarrow> UploadJob \<Rightarrow> bool" where
  "ingest_candidate now r \<longleftrightarrow>
     uj_status r \<in> {UjPending, UjRetryWait} \<and>
     (uj_status r = UjPending \<or> uj_asset_id r = None) \<and> claim_due now r"

definition publish_candidate :: "time \<Rightarrow> UploadJob \<Rightarrow> bool" where
  "publish_candidate now r \<longleftrightarrow>
     (uj_status r = UjIngestCompleted \<or> (uj_status r = UjRetryWait \<and> uj_asset_id r \<noteq> None)) \<and>
     claim_due now r"

definition queue_key :: "UploadJob \<Rightarrow> int \<times> time \<times> int" where
  "queue_key r = (uj_priority r, uj_created_at r, uj_id r)"

definition lease_stamp :: "time \<Rightarrow> string \<Rightarrow> time \<Rightarrow> UploadJob \<Rightarrow> UploadJob" where
  "lease_stamp now worker until r =
     r\<lparr>uj_status := UjLeased, uj_lease_owner := Some worker, uj_lease_expires_at := Some until,
       uj_heartbeat_at := Some now, uj_attempt_count := uj_attempt_count r + 1,
       uj_started_at := coalesce (uj_started_at r) (Some now)\<rparr>"

text \<open>
  \<open>WITH candidates ... UPDATE ... RETURNING\<close>: the ids of the first \<open>limit\<close> unlocked
  candidates, then the stamp on those rows, which the statement returns.
\<close>

definition candidate_ids ::
  "(UploadJob \<Rightarrow> bool) \<Rightarrow> (int \<Rightarrow> bool) \<Rightarrow> int \<Rightarrow> UploadJob list \<Rightarrow> int set" where
  "candidate_ids p locked limit t =
     set (map uj_id (top_by queue_key (nat limit) (filter (\<lambda>r. p r \<and> \<not> locked (uj_id r)) t)))"

definition claim_batch ::
  "(UploadJob \<Rightarrow> bool) \<Rightarrow> db_fault \<Rightarrow> time \<Rightarrow> time \<Rightarrow> (int \<Rightarrow> bool) \<Rightarrow> string \<Rightarrow> int \<Rightarrow> duration \<Rightarrow>
   UploadJob list \<Rightarrow> (upload_err + UploadJob list) \<times> UploadJob list" where
  "claim_batch p flt now appnow locked worker limit lease t =
     (if worker = '''' then (Inl UjInvalidArgument, t)
      else if limit \<le> 0 then (Inr [], t)
      else if lease \<le> 0 then (Inl UjInvalidArgument, t)
      else
        let ids = candidate_ids p locked limit t;
            (n, t') = exec_update flt (\<lambda>r. uj_id r \<in> ids) (lease_stamp now worker (appnow + lease)) t
        in (case n of None \<Rightarrow> Inl UjDatabase | Some _ \<Rightarrow> Inr (filter (\<lambda>r. uj_id r \<in> ids) t'), t'))"

definition ClaimBatch ::
  "db_fault \<Rightarrow> time \<Rightarrow> time \<Rightarrow> (int \<Rightarrow> bool) \<Rightarrow> string \<Rightarrow> int \<Rightarrow> duration \<Rightarrow> UploadJob list \<Rightarrow>
   (upload_err + UploadJob list) \<times> UploadJob list" where
  "ClaimBatch flt now = claim_batch (ingest_candidate now) flt now"

definition ClaimBatchForPublish ::
  "db_fault \<Rightarrow> time \<Rightarrow> time \<Rightarrow> (int \<Rightarrow> bool) \<Rightarrow> string \<Rightarrow> int \<Rightarrow> duration \<Rightarrow> UploadJob list \<Rightarrow>
   (upload_err + UploadJob list) \<times> UploadJob list" where
  "ClaimBatchForPublish flt now = claim_batch (publish_candidate now) flt now"


section \<open>The writes of a lease holder\<close>

datatype upload_write =
    UwHeartbeat time | UwCompleted int string | UwPrepared int string | UwFailed string string
  | UwRetry string string time | UwIngested string int | UwDeadLetter string string
  | UwSaveSession string int int time | UwClearSession

definition holds_lease :: "int \<Rightarrow> string \<Rightarrow> UploadJob \<Rightarrow> bool" where
  "holds_lease i worker r \<longleftrightarrow>
     uj_id r = i \<and> uj_lease_owner r = Some worker \<and> uj_status r = UjLeased"

fun upload_set :: "time \<Rightarrow> upload_write \<Rightarrow> UploadJob \<Rightarrow> UploadJob" where
  "upload_set now (UwHeartbeat until) r =
     r\<lparr>uj_lease_expires_at := Some until, uj_heartbeat_at := Some now\<rparr>"
| "upload_set now (UwCompleted post asset) r =
     r\<lparr>uj_status := UjPublishCompleted, uj_post_id := Some post, uj_asset_id := Some asset,
       uj_error_message := None, uj_error_code := None, uj_lease_owner := None,
       uj_lease_expires_at := None, uj_completed_at := Some now\<rparr>"
| "upload_set now (UwPrepared post asset) r =
     r\<lparr>uj_status := UjPublishScheduled, uj_post_id := Some post, uj_asset_id := Some asset,
       uj_error_message := None, uj_error_code := None, uj_lease_owner := None,
       uj_lease_expires_at := None, uj_heartbeat_at := None\<rparr>"
| "upload_set now (UwFailed code msg) r =
     r\<lparr>uj_status := UjFailed, uj_error_message := Some msg, uj_error_code := nullif_empty code,
       uj_lease_owner := None, uj_lease_expires_at := None, uj_completed_at := Some now\<rparr>"
| "upload_set now (UwRetry code msg nxt) r =
     r\<lparr>uj_status := UjRetryWait, uj_error_message := Some msg, uj_error_code := nullif_empty code,
       uj_lease_owner := None, uj_lease_expires_at := None, uj_next_attempt_at := Some nxt\<rparr>"
| "upload_set now (UwIngested asset bytes) r =
     r\<lparr>uj_status := UjIngestCompleted, uj_asset_id := Some asset, uj_total_bytes := Some bytes,
       uj_progress_bytes := bytes, uj_lease_owner := None, uj_lease_expires_at := None,
       uj_heartbeat_at := None\<rparr>"
| "upload_set now (UwDeadLetter code msg) r =
     r\<lparr>uj_status := UjDeadLetter, uj_error_message := Some msg, uj_error_code := Some code,
       uj_lease_owner := None, uj_lease_expires_at := None, uj_completed_at := Some now\<rparr>"
| "upload_set now (UwSaveSession uri offset chunk expires) r =
     r\<lparr>uj_session := Some \<lparr>ys_uri = uri, ys_offset = offset, ys_expires_at = expires,
                           ys_chunk_size = chunk, ys_last_chunk_at = now\<rparr>,
       uj_progress_bytes := offset\<rparr>"
| "upload_set now UwClearSession r = r\<lparr>uj_session := None\<rparr>"

definition exec_upload_write ::
  "db_fault \<Rightarrow> time \<Rightarrow> int \<Rightarrow> string \<Rightarrow> upload_write \<Rightarrow> UploadJob list \<Rightarrow>
   (upload_err + unit) \<times> UploadJob list" where
  "exec_upload_write flt now i worker w t =
     (let (n, t') = exec_update flt (holds_lease i worker) (upload_set now w) t
      in (case n of None \<Rightarrow> Inl UjDatabase
          | Some k \<Rightarrow> if k = 0 then Inl ErrUploadJobLeaseLost else Inr (), t'))"

definition uj_Heartbeat where
  "uj_Heartbeat flt now appnow i worker lease t =
     (if worker = '''' \<or> lease \<le> (0::duration) then (Inl UjInvalidArgument, t)
      else exec_upload_write flt now i worker (UwHeartbeat (appnow + lease)) t)"

definition MarkCompleted where
  "MarkCompleted flt now i worker post asset t =
     exec_upload_write flt now i worker (UwCompleted post asset) t"

definition MarkPrepared where
  "MarkPrepared flt now i worker post asset t =
     exec_upload_write flt now i worker (UwPrepared post asset) t"

definition uj_MarkFailed where
  "uj_MarkFailed flt now i worker code msg t =
     exec_upload_write flt now i worker (UwFailed code msg) t"

definition uj_MarkRetry where
  "uj_MarkRetry flt now i worker code msg nxt t =
     exec_upload_write flt now i worker (UwRetry code msg nxt) t"

definition MarkIngested where
  "MarkIngested flt now i worker asset bytes t =
     (if worker = '''' \<or> asset = '''' then (Inl UjInvalidArgument, t)
      else exec_upload_write flt now i worker (UwIngested asset bytes) t)"

definition uj_MarkDeadLetter where
  "uj_MarkDeadLetter flt now i worker code msg t =
     exec_upload_write flt now i worker (UwDeadLetter code msg) t"

text \<open>\<open>expiresAt\<close> is \<open>None\<close> for the zero time.\<close>

definition SaveYouTubeSession where
  "SaveYouTubeSession flt now i worker uri offset chunk expiresAt t =
     (case expiresAt of None \<Rightarrow> (Inl UjInvalidArgument, t)
      | Some e \<Rightarrow>
          if worker = '''' \<or> uri = '''' \<or> offset < 0 \<or> chunk \<le> 0 then (Inl UjInvalidArgument, t)
          else exec_upload_write flt now i worker (UwSaveSession uri offset chunk e) t)"

definition ClearYouTubeSession where
  "ClearYouTubeSession flt now i worker t =
     (if worker = '''' then (Inl UjInvalidArgument, t)
      else exec_upload_write flt now i worker UwClearSession t)"

interpretation uj_lease: lease_cas uj_id uj_lease_owner
  "\<lambda>now w (i, a). holds_lease i w" "\<lambda>now w (i, a). upload_set now a"
proof
  show "(case a of (i, a) \<Rightarrow> holds_lease i w) r \<Longrightarrow> uj_lease_owner r = Some w"
    for now :: time and w a r
    by (auto simp: holds_lease_def split: prod.splits)
  show "uj_id ((case a of (i, a) \<Rightarrow> upload_set now a) r) = uj_id r" for now a r
    by (cases a; cases "snd a") auto
qed


section \<open>The reaper\<close>

definition lease_dead :: "time \<Rightarrow> UploadJob \<Rightarrow> bool" where
  "lease_dead now r \<longleftrightarrow>
     uj_status r = UjLeased \<and> some_and (\<lambda>t. t < now) (uj_lease_expires_at r) \<and>
     some_and (\<lambda>t. t < now - 5 * minute) (uj_heartbeat_at r)"

definition reclaim_stamp :: "UploadJob \<Rightarrow> UploadJob" where
  "reclaim_stamp r =
     r\<lparr>uj_status := UjPending, uj_lease_owner := None, uj_lease_expires_at := None,
       uj_heartbeat_at := None, uj_error_code := coalesce (uj_error_code r) (Some ''lease_expired''),
       uj_session := None\<rparr>"

definition uj_ReclaimExpiredLeases ::
  "db_fault \<Rightarrow> time \<Rightarrow> (int \<Rightarrow> bool) \<Rightarrow> int \<Rightarrow> UploadJob list \<Rightarrow>
   (upload_err + nat) \<times> UploadJob list" where
  "uj_ReclaimExpiredLeases flt now locked maxRows t =
     (let limit = (if maxRows \<le> 0 then 100 else nat maxRows);
          ids = set (map uj_id (top_by uj_lease_expires_at limit
                       (filter (\<lambda>r. lease_dead now r \<and> \<not> locked (uj_id r)) t)));
          (n, t') = exec_update flt (\<lambda>r. uj_id r \<in> ids) reclaim_stamp t
      in (case n of None \<Rightarrow> Inl UjDatabase | Some k \<Rightarrow> Inr k, t'))"

section \<open>Creation, rescheduling and duplicates\<close>

text \<open>The in-place loop of \<open>canonicalUploadTargets\<close>: \<open>kept\<close> is the written prefix, reversed.\<close>

fun compact_loop :: "int list \<Rightarrow> int list \<Rightarrow> int list" where
  "compact_loop kept [] = rev kept"
| "compact_loop kept (x # xs) =
     (if kept \<noteq> [] \<and> x = hd kept then compact_loop kept xs else compact_loop (x # kept) xs)"

definition canonicalUploadTargets :: "int list \<Rightarrow> int list" where
  "canonicalUploadTargets targets =
     (if targets = [] then [] else compact_loop [hd (sort targets)] (tl (sort targets)))"

definition same_source :: "UploadJob \<Rightarrow> UploadJob \<Rightarrow> bool" where
  "same_source job r \<longleftrightarrow>
     uj_user_id r = uj_user_id job \<and> uj_source_type r = uj_source_type job \<and>
     uj_source_id r = uj_source_id job \<and> uj_drive_account_id r = uj_drive_account_id job \<and>
     uj_targets r = uj_targets job"

text \<open>
  \<open>CreateIfSourceAbsent\<close> in one transaction under the advisory lock of the source: the
  insertion writes the listed columns, the others take their defaults (\<open>max_attempts\<close> and
  \<open>priority\<close> are the defaults of the schema, passed in).
\<close>

definition new_upload_row :: "time \<Rightarrow> int \<Rightarrow> nat \<Rightarrow> int \<Rightarrow> UploadJob \<Rightarrow> UploadJob" where
  "new_upload_row now fresh maxAttempts priority job =
     \<lparr>uj_id = fresh, uj_user_id = uj_user_id job, uj_workspace_id = uj_workspace_id job,
      uj_source_type = uj_source_type job, uj_source_id = uj_source_id job,
      uj_drive_account_id = uj_drive_account_id job, uj_targets = uj_targets job,
      uj_status = uj_status job, uj_error_message = None, uj_error_code = None, uj_post_id = None,
      uj_asset_id = None, uj_ingest_after = uj_ingest_after job, uj_publish_at = uj_publish_at job,
      uj_title = uj_title job, uj_caption = uj_caption job, uj_metadata = ''{}'',
      uj_default_privacy_level = uj_default_privacy_level job,
      uj_created_at = now, uj_attempt_count = 0, uj_max_attempts = maxAttempts,
      uj_next_attempt_at = None, uj_lease_owner = None, uj_lease_expires_at = None,
      uj_heartbeat_at = None, uj_progress_bytes = 0, uj_total_bytes = None,
      uj_priority = priority, uj_started_at = None, uj_completed_at = None, uj_session = None\<rparr>"

definition CreateIfSourceAbsent ::
  "db_fault \<Rightarrow> time \<Rightarrow> int \<Rightarrow> nat \<Rightarrow> int \<Rightarrow> UploadJob \<Rightarrow> UploadJob list \<Rightarrow>
   (upload_err + bool) \<times> UploadJob list" where
  "CreateIfSourceAbsent flt now fresh maxAttempts priority job0 t =
     (let job = job0\<lparr>uj_targets := canonicalUploadTargets (uj_targets job0)\<rparr> in
      if flt = DbFailed then (Inl UjDatabase, t)
      else if \<exists>r \<in> set t. same_source job r \<and> uj_status r \<noteq> UjFailed
      then (if flt = DbLost then Inl UjDatabase else Inr False, t)
      else (if flt = DbLost then Inl UjDatabase else Inr True,
            t @ [new_upload_row now fresh maxAttempts priority job]))"

fun status_rank :: "UploadJobStatus \<Rightarrow> nat" where
  "status_rank UjCompleted = 0"
| "status_rank UjProcessing = 1"
| "status_rank UjLeased = 1"
| "status_rank UjPending = 2"
| "status_rank UjRetryWait = 2"
| "status_rank _ = 3"

definition same_partition :: "UploadJob \<Rightarrow> UploadJob \<Rightarrow> bool" where
  "same_partition a b \<longleftrightarrow>
     uj_user_id a = uj_user_id b \<and> uj_source_type a = uj_source_type b \<and>
     uj_source_id a = uj_source_id b \<and>
     (case uj_drive_account_id a of None \<Rightarrow> 0 | Some i \<Rightarrow> i) =
       (case uj_drive_account_id b of None \<Rightarrow> 0 | Some i \<Rightarrow> i) \<and>
     uj_targets a = uj_targets b"

text \<open>\<open>ROW_NUMBER() OVER (PARTITION BY ... ORDER BY rank, id)\<close> over the unfailed rows.\<close>

definition duplicate_rank :: "int \<Rightarrow> UploadJob list \<Rightarrow> UploadJob \<Rightarrow> nat" where
  "duplicate_rank user t r =
     length (filter (\<lambda>r'. uj_user_id r' = user \<and> uj_status r' \<noteq> UjFailed \<and> same_partition r' r \<and>
        (status_rank (uj_status r'), uj_id r') \<le> (status_rank (uj_status r), uj_id r)) t)"

definition SuppressPendingDuplicates ::
  "db_fault \<Rightarrow> int \<Rightarrow> UploadJob list \<Rightarrow> (upload_err + nat) \<times> UploadJob list" where
  "SuppressPendingDuplicates flt user t =
     (let (n, t') = exec_update flt
        (\<lambda>r. uj_user_id r = user \<and> uj_status r \<noteq> UjFailed \<and> duplicate_rank user t r > 1 \<and>
             uj_status r = UjPending)
        (\<lambda>r. r\<lparr>uj_status := UjFailed,
               uj_error_message := Some ''duplicate source suppressed before upload''\<rparr>) t
      in (case n of None \<Rightarrow> Inl UjDatabase | Some k \<Rightarrow> Inr k, t'))"

definition Reschedule ::
  "db_fault \<Rightarrow> int \<Rightarrow> int \<Rightarrow> time \<Rightarrow> UploadJob list \<Rightarrow> (upload_err + unit) \<times> UploadJob list" where
  "Reschedule flt i user at t =
     (let (n, t') = exec_update flt
        (\<lambda>r. uj_id r = i \<and> uj_user_id r = user \<and> uj_status r = UjPending)
        (\<lambda>r. r\<lparr>uj_publish_at := Some at\<rparr>) t
      in (case n of None \<Rightarrow> Inl UjDatabase
          | Some k \<Rightarrow> if k = 0 then Inl UjInvalidArgument else Inr (), t'))"


section \<open>The operations as one family\<close>

datatype upload_op =
    UoClaim db_fault time time "int \<Rightarrow> bool" string int duration
  | UoClaimPublish db_fault time time "int \<Rightarrow> bool" string int duration
  | UoWrite db_fault time int string upload_write
  | UoReclaim db_fault time "int \<Rightarrow> bool" int
  | UoCreate db_fault time int nat int UploadJob
  | UoSuppress db_fault int
  | UoReschedule db_fault int int time

fun upload_exec :: "UploadJob list \<Rightarrow> upload_op \<Rightarrow> UploadJob list" where
  "upload_exec t (UoClaim f n a lk w l d) = snd (ClaimBatch f n a lk w l d t)"
| "upload_exec t (UoClaimPublish f n a lk w l d) = snd (ClaimBatchForPublish f n a lk w l d t)"
| "upload_exec t (UoWrite f n i w u) = snd (exec_upload_write f n i w u t)"
| "upload_exec t (UoReclaim f n lk m) = snd (uj_ReclaimExpiredLeases f n lk m t)"
| "upload_exec t (UoCreate f n k ma p j) = snd (CreateIfSourceAbsent f n k ma p j t)"
| "upload_exec t (UoSuppress f u) = snd (SuppressPendingDuplicates f u t)"
| "upload_exec t (UoReschedule f i u at) = snd (Reschedule f i u at t)"

lemma upload_set_id [simp]: "uj_id (upload_set now w r) = uj_id r"
  by (cases w) auto

lemma stamp_simps [simp]:
  "uj_id (lease_stamp now w u r) = uj_id r" "uj_id (reclaim_stamp r) = uj_id r"
  "uj_status (lease_stamp now w u r) = UjLeased" "uj_status (reclaim_stamp r) = UjPending"
  "uj_lease_owner (lease_stamp now w u r) = Some w" "uj_lease_owner (reclaim_stamp r) = None"
  "uj_asset_id (lease_stamp now w u r) = uj_asset_id r" "uj_asset_id (reclaim_stamp r) = uj_asset_id r"
  by (simp_all add: lease_stamp_def reclaim_stamp_def)

lemma top_by_ids_sat:
  assumes "r \<in> set t" and "distinct (map uj_id t)"
    and "uj_id r \<in> set (map uj_id (top_by key n (filter p t)))"
  shows "p r"
proof -
  obtain q where q: "q \<in> set (filter p t)" "uj_id q = uj_id r"
    using assms(3) set_top_by_subset [of key n "filter p t"] by auto
  then have "q \<in> set t" "p q" by simp_all
  have "Some q = find_row uj_id (uj_id q) t"
    by (rule find_row_unique [OF assms(2) \<open>q \<in> set t\<close>, symmetric])
  also have "\<dots> = Some r" unfolding q(2) by (rule find_row_unique [OF assms(2,1)])
  finally show ?thesis using \<open>p q\<close> by simp
qed

text \<open>
  Every operation is an update of some rows, each under its own guard, or an insertion of a
  row with a fresh state. \<open>op_row\<close> relates a row before and after an operation.
\<close>

definition op_row :: "UploadJob \<Rightarrow> UploadJob \<Rightarrow> bool" where
  "op_row r r' \<longleftrightarrow> r' = r \<or>
     (\<exists>now w u. (ingest_candidate now r \<or> publish_candidate now r) \<and> r' = lease_stamp now w u r) \<or>
     (\<exists>i w now a. holds_lease i w r \<and> r' = upload_set now a r) \<or>
     (\<exists>now. lease_dead now r \<and> r' = reclaim_stamp r) \<or>
     (uj_status r = UjPending \<and> (\<exists>m. r' = r\<lparr>uj_status := UjFailed, uj_error_message := m\<rparr>)) \<or>
     (uj_status r = UjPending \<and> (\<exists>at. r' = r\<lparr>uj_publish_at := at\<rparr>))"


lemma update_rows:
  assumes "\<And>r. r \<in> set t \<Longrightarrow> p r \<Longrightarrow> op_row r (f r)"
  shows "list_all2 op_row t (update_where p f t)"
  using assms by (induction t) (auto simp: op_row_def)

lemma op_row_refl [simp]: "list_all2 op_row t t"
  by (simp add: list_all2_refl op_row_def)

definition inserted :: "upload_op \<Rightarrow> UploadJob list" where
  "inserted op = (case op of
     UoCreate f n k ma p j \<Rightarrow>
       [new_upload_row n k ma p (j\<lparr>uj_targets := canonicalUploadTargets (uj_targets j)\<rparr>)]
   | _ \<Rightarrow> [])"

lemma claim_batch_rows:
  assumes "distinct (map uj_id t)"
    and "\<And>r u. p r \<Longrightarrow> op_row r (lease_stamp now w u r)"
  shows "list_all2 op_row t (snd (claim_batch p flt now a lk w l d t))"
proof -
  have "op_row r (lease_stamp now w u r)"
    if "r \<in> set t" "uj_id r \<in> candidate_ids p lk l t" for r u
    using top_by_ids_sat [OF that(1) assms(1) that(2) [unfolded candidate_ids_def]] assms(2) by blast
  then show ?thesis
    by (cases flt) (simp_all add: claim_batch_def Let_def update_rows)
qed

lemma reclaim_rows:
  assumes "distinct (map uj_id t)"
  shows "list_all2 op_row t (snd (uj_ReclaimExpiredLeases flt now lk m t))"
proof -
  have "op_row r (reclaim_stamp r)"
    if "r \<in> set t" "uj_id r \<in> set (map uj_id (top_by uj_lease_expires_at n
      (filter (\<lambda>r. lease_dead now r \<and> \<not> lk (uj_id r)) t)))" for r n
    using top_by_ids_sat [OF that(1) assms that(2)] by (auto simp: op_row_def)
  then have "list_all2 op_row t (update_where (\<lambda>r. uj_id r \<in> set (map uj_id (top_by uj_lease_expires_at n
      (filter (\<lambda>r. lease_dead now r \<and> \<not> lk (uj_id r)) t)))) reclaim_stamp t)" for n
    by (rule update_rows)
  then show ?thesis
    by (cases flt) (simp_all add: uj_ReclaimExpiredLeases_def Let_def del: set_map)
qed

lemma upload_exec_rows:
  assumes "distinct (map uj_id t)"
  shows "\<exists>ys xs. list_all2 op_row t ys \<and> upload_exec t op = ys @ xs \<and> (xs = [] \<or> xs = inserted op)"
proof (cases op)
  case (UoClaim f n a lk w l d)
  have "list_all2 op_row t (upload_exec t op)"
    unfolding UoClaim upload_exec.simps ClaimBatch_def
    by (rule claim_batch_rows [OF assms]) (auto simp: op_row_def)
  then show ?thesis by auto
next
  case (UoClaimPublish f n a lk w l d)
  have "list_all2 op_row t (upload_exec t op)"
    unfolding UoClaimPublish upload_exec.simps ClaimBatchForPublish_def
    by (rule claim_batch_rows [OF assms]) (auto simp: op_row_def)
  then show ?thesis by auto
next
  case (UoWrite f n i w u)
  have "list_all2 op_row t (update_where (holds_lease i w) (upload_set n u) t)"
    by (rule update_rows) (auto simp: op_row_def)
  then have "list_all2 op_row t (upload_exec t op)"
    by (cases f) (simp_all add: UoWrite exec_upload_write_def Let_def)
  then show ?thesis by auto
next
  case (UoReclaim f n lk m)
  then have "list_all2 op_row t (upload_exec t op)" using reclaim_rows [OF assms] by simp
  then show ?thesis by auto
next
  case (UoCreate f n k ma p j)
  have "upload_exec t op = t \<or> upload_exec t op = t @ inserted op"
    by (simp add: UoCreate CreateIfSourceAbsent_def Let_def inserted_def)
  then show ?thesis using op_row_refl by (metis append_Nil2)
next
  case (UoSuppress f u)
  have "list_all2 op_row t (upload_exec t op)"
    by (cases f) (auto simp: UoSuppress SuppressPendingDuplicates_def Let_def op_row_def intro!: update_rows)
  then show ?thesis by auto
next
  case (UoReschedule f i u at)
  have "list_all2 op_row t (upload_exec t op)"
    by (cases f) (auto simp: UoReschedule Reschedule_def Let_def op_row_def intro!: update_rows)
  then show ?thesis by auto
qed

end
