(* ===== verification/UploadJobsProofs.thy ===== *)
theory UploadJobsProofs
  imports UploadJobs
begin

text \<open>
  What the upload queue guarantees: the life of a job under every operation, the exclusive
  lease, the two pools, and the two places where the code does not do what it says, the
  recovery of a crashed publisher and the suppression of duplicates.
\<close>

section \<open>The life of a job\<close>

text \<open>The moves the operations can make, and no others.\<close>

fun uj_moves :: "UploadJobStatus \<Rightarrow> UploadJobStatus list" where
  "uj_moves UjPending = [UjLeased, UjFailed]"
| "uj_moves UjRetryWait = [UjLeased]"
| "uj_moves UjIngestCompleted = [UjLeased]"
| "uj_moves UjLeased =
     [UjPending, UjRetryWait, UjIngestCompleted, UjPublishScheduled, UjPublishCompleted, UjFailed,
      UjDeadLetter]"
| "uj_moves _ = []"

text \<open>A job is leased exactly when it has an owner; a leased job has an end and a heartbeat.\<close>

definition lease_wf :: "UploadJob \<Rightarrow> bool" where
  "lease_wf r \<longleftrightarrow> (uj_status r = UjLeased \<longleftrightarrow> uj_lease_owner r \<noteq> None) \<and>
     (uj_status r = UjLeased \<longrightarrow> uj_lease_expires_at r \<noteq> None \<and> uj_heartbeat_at r \<noteq> None)"

lemma op_row_id: "op_row r r' \<Longrightarrow> uj_id r' = uj_id r"
  by (auto simp: op_row_def)

lemma op_row_lease_wf: "op_row r r' \<Longrightarrow> lease_wf r \<Longrightarrow> lease_wf r'"
  unfolding op_row_def
proof (elim disjE exE conjE)
  fix i w now a
  assume "lease_wf r" "holds_lease i w r" "r' = upload_set now a r"
  then show "lease_wf r'" by (cases a) (auto simp: lease_wf_def holds_lease_def)
qed (auto simp: lease_wf_def lease_stamp_def reclaim_stamp_def)

lemma op_row_move:
  assumes "op_row r r'"
  shows "uj_status r' = uj_status r \<or> uj_status r' \<in> set (uj_moves (uj_status r))"
  using assms unfolding op_row_def
proof (elim disjE exE conjE)
  fix i w now a
  assume "holds_lease i w r" "r' = upload_set now a r"
  then show ?thesis by (cases a) (auto simp: holds_lease_def)
qed (auto simp: ingest_candidate_def publish_candidate_def lease_dead_def)

lemma op_row_closed:
  assumes "op_row r r'" and "uj_moves (uj_status r) = []"
  shows "r' = r"
  using assms by (auto simp: op_row_def holds_lease_def ingest_candidate_def publish_candidate_def
      lease_dead_def)

lemma op_row_asset:
  assumes "op_row r r'" and "uj_asset_id r \<noteq> None"
  shows "uj_asset_id r' \<noteq> None"
  using assms(1) unfolding op_row_def
proof (elim disjE exE conjE)
  fix i w now a
  assume "r' = upload_set now a r"
  then show ?thesis using assms(2) by (cases a) auto
qed (use assms(2) in auto)

text \<open>Insertions carry a fresh id and do not start in \<open>leased\<close>.\<close>

definition op_fresh :: "UploadJob list \<Rightarrow> upload_op \<Rightarrow> bool" where
  "op_fresh t op \<longleftrightarrow> (case op of
     UoCreate f n k ma p j \<Rightarrow> k \<notin> uj_id ` set t \<and> uj_status j \<noteq> UjLeased | _ \<Rightarrow> True)"

fun ops_fresh :: "UploadJob list \<Rightarrow> upload_op list \<Rightarrow> bool" where
  "ops_fresh t [] = True"
| "ops_fresh t (op # ops) = (op_fresh t op \<and> ops_fresh (upload_exec t op) ops)"

lemma list_all2_find:
  assumes "list_all2 op_row t t'" and "find_row uj_id i t = Some r"
  shows "\<exists>r'. find_row uj_id i t' = Some r' \<and> op_row r r'"
  using assms by (induction rule: list_all2_induct) (auto dest: op_row_id split: if_splits)

lemma list_all2_ids: "list_all2 op_row t t' \<Longrightarrow> map uj_id t' = map uj_id t"
  by (induction rule: list_all2_induct) (auto dest: op_row_id)

lemma list_all2_wf: "list_all2 op_row t t' \<Longrightarrow> \<forall>r \<in> set t. lease_wf r \<Longrightarrow> \<forall>r \<in> set t'. lease_wf r"
  by (induction rule: list_all2_induct) (auto dest: op_row_lease_wf)

lemma upload_step:
  assumes "distinct (map uj_id t)" and "\<forall>r \<in> set t. lease_wf r" and "op_fresh t op"
  shows "distinct (map uj_id (upload_exec t op))" and "\<forall>r \<in> set (upload_exec t op). lease_wf r"
    and "find_row uj_id i t = Some r \<Longrightarrow>
      \<exists>r'. find_row uj_id i (upload_exec t op) = Some r' \<and> op_row r r'"
proof -
  obtain ys xs where rows: "list_all2 op_row t ys" "upload_exec t op = ys @ xs"
    and xs: "xs = [] \<or> xs = inserted op"
    using upload_exec_rows [OF assms(1)] by metis
  from xs assms(3) list_all2_ids [OF rows(1)]
  have new: "distinct (map uj_id xs)" "set (map uj_id ys) \<inter> set (map uj_id xs) = {}"
    "\<forall>r \<in> set xs. lease_wf r"
    by (auto simp: inserted_def op_fresh_def new_upload_row_def lease_wf_def
        simp flip: set_map split: upload_op.splits)
  with rows assms(1) list_all2_ids [OF rows(1)]
  show "distinct (map uj_id (upload_exec t op))" by simp
  show "\<forall>r \<in> set (upload_exec t op). lease_wf r"
    using rows(2) new(3) list_all2_wf [OF rows(1) assms(2)] by auto
  show "find_row uj_id i t = Some r \<Longrightarrow>
      \<exists>r'. find_row uj_id i (upload_exec t op) = Some r' \<and> op_row r r'"
    using list_all2_find [OF rows(1)] rows(2) find_row_append by metis
qed


definition sample_job :: UploadJob where
  "sample_job =
     \<lparr>uj_id = 1, uj_user_id = 1, uj_workspace_id = 1, uj_source_type = ''velox_artifact'',
      uj_source_id = ''src'', uj_drive_account_id = None, uj_targets = [4], uj_status = UjPending,
      uj_error_message = None, uj_error_code = None, uj_post_id = None, uj_asset_id = None,
      uj_ingest_after = None, uj_publish_at = None, uj_title = '''', uj_caption = '''',
      uj_metadata = '''', uj_default_privacy_level = '''', uj_created_at = 0, uj_attempt_count = 0,
      uj_max_attempts = 8, uj_next_attempt_at = None, uj_lease_owner = None,
      uj_lease_expires_at = None, uj_heartbeat_at = None, uj_progress_bytes = 0,
      uj_total_bytes = None, uj_priority = 100, uj_started_at = None, uj_completed_at = None,
      uj_session = None\<rparr>"



section \<open>The exclusive lease\<close>

text \<open>
  The operations of everyone else while worker \<open>w\<close> holds a lease until \<open>u\<close>: only the
  lease-guarded writes must come from other workers, and the reaper must look before \<open>u\<close>.
\<close>

fun upload_peer :: "string \<Rightarrow> time \<Rightarrow> upload_op \<Rightarrow> bool" where
  "upload_peer w u (UoWrite f n i w' a) = (w' \<noteq> w)"
| "upload_peer w u (UoReclaim f n lk m) = (n \<le> u)"
| "upload_peer w u _ = True"

lemma leased_not_candidate:
  assumes "distinct (map uj_id t)" and "r \<in> set t" and "\<And>s. p s \<Longrightarrow> uj_status s \<noteq> UjLeased"
    and "uj_status r = UjLeased"
  shows "uj_id r \<notin> candidate_ids p lk l t"
  using top_by_ids_sat [OF assms(2,1)] assms(3,4) unfolding candidate_ids_def by blast

lemma keep_unguarded:
  assumes "find_row uj_id i t = Some r" and "\<And>s. uj_id (f s) = uj_id s" and "\<not> p r"
  shows "find_row uj_id i (update_where p f t) = Some r"
  using assms by (simp add: find_row_update_where)

lemma claim_keeps_leased:
  assumes "distinct (map uj_id t)" and "find_row uj_id i t = Some r" and "uj_status r = UjLeased"
    and "\<And>s. p s \<Longrightarrow> uj_status s \<noteq> UjLeased"
  shows "find_row uj_id i (snd (claim_batch p flt now a lk w l d t)) = Some r"
proof -
  have "r \<in> set t" using find_row_SomeD [OF assms(2)] by simp
  then have "uj_id r \<notin> candidate_ids p lk l t"
    using leased_not_candidate assms by blast
  then have "find_row uj_id i (update_where (\<lambda>s. uj_id s \<in> candidate_ids p lk l t)
      (lease_stamp now w (a + d)) t) = Some r"
    by (intro keep_unguarded [OF assms(2)]) auto
  then show ?thesis using assms(2) by (cases flt) (simp_all add: claim_batch_def Let_def)
qed

lemma upload_exec_peer:
  assumes "distinct (map uj_id t)" and "find_row uj_id i t = Some r" and "uj_status r = UjLeased"
    and "uj_lease_owner r = Some w" and "uj_lease_expires_at r = Some u" and "upload_peer w u op"
  shows "find_row uj_id i (upload_exec t op) = Some r"
proof (cases op)
  case (UoClaim f n a lk w' l d)
  show ?thesis unfolding UoClaim upload_exec.simps ClaimBatch_def
    by (rule claim_keeps_leased [OF assms(1-3)]) (auto simp: ingest_candidate_def)
next
  case (UoClaimPublish f n a lk w' l d)
  show ?thesis unfolding UoClaimPublish upload_exec.simps ClaimBatchForPublish_def
    by (rule claim_keeps_leased [OF assms(1-3)]) (auto simp: publish_candidate_def)
next
  case (UoWrite f n k w' a)
  with assms(6) have "w' \<noteq> w" by simp
  from uj_lease.peer_write_keeps [OF assms(2,4) this, where now = n and a = "(k, a)"]
  show ?thesis using assms(2) by (cases f) (simp_all add: UoWrite exec_upload_write_def Let_def)
next
  case (UoReclaim f n lk m)
  have dead: "\<not> lease_dead n r" using assms(5,6) by (simp add: UoReclaim lease_dead_def)
  have rt: "r \<in> set t" using find_row_SomeD [OF assms(2)] by simp
  have "uj_id r \<notin> set (map uj_id (top_by uj_lease_expires_at k
      (filter (\<lambda>r. lease_dead n r \<and> \<not> lk (uj_id r)) t)))" for k
    using top_by_ids_sat [OF rt assms(1)] dead by blast
  then have "find_row uj_id i (update_where (\<lambda>s. uj_id s \<in> set (map uj_id (top_by uj_lease_expires_at k
      (filter (\<lambda>r. lease_dead n r \<and> \<not> lk (uj_id r)) t)))) reclaim_stamp t) = Some r" for k
    by (intro keep_unguarded [OF assms(2)]) auto
  then show ?thesis using assms(2)
    by (cases f) (simp_all add: UoReclaim uj_ReclaimExpiredLeases_def Let_def del: set_map)
next
  case (UoCreate f n k ma p j)
  then show ?thesis using assms(2)
    by (auto simp: CreateIfSourceAbsent_def Let_def find_row_append)
next
  case (UoSuppress f user)
  show ?thesis using assms(2,3)
    by (cases f) (simp_all add: UoSuppress SuppressPendingDuplicates_def Let_def keep_unguarded)
next
  case (UoReschedule f k user at)
  show ?thesis using assms(2,3)
    by (cases f) (simp_all add: UoReschedule Reschedule_def Let_def keep_unguarded)
qed

text \<open>
  C23: the lease on an upload job is exclusive. Until the end of the lease, claims of either
  pool, lease-guarded writes of other workers, reclaims, insertions, suppressions and
  reschedulings, in any number and under any faults, leave a leased row exactly as it is, and
  the holder's next heartbeat succeeds. A claim never takes over a leased row, even after the
  lease has ended: only the reaper frees it.
\<close>

theorem upload_lease_exclusive:
  assumes "distinct (map uj_id t)" and "\<forall>s \<in> set t. lease_wf s" and "ops_fresh t ops"
    and "find_row uj_id i t = Some r" and "uj_lease_owner r = Some w"
    and "uj_lease_expires_at r = Some u" and "\<forall>op \<in> set ops. upload_peer w u op"
    and "w \<noteq> []" and "0 < lease"
  shows "find_row uj_id i (foldl upload_exec t ops) = Some r \<and>
    fst (uj_Heartbeat DbOk now appnow i w lease (foldl upload_exec t ops)) = Inr ()"
proof -
  have leased: "uj_status r = UjLeased"
    using assms(2,5) find_row_SomeD [OF assms(4)] by (auto simp: lease_wf_def)
  have row: "find_row uj_id i (foldl upload_exec t ops) = Some r"
    using assms(1-4,7)
  proof (induction ops arbitrary: t)
    case (Cons op ops)
    then have fresh: "op_fresh t op" "ops_fresh (upload_exec t op) ops" and p: "upload_peer w u op"
      by simp_all
    note step = upload_step [OF Cons.prems(1,2) fresh(1)]
    have "find_row uj_id i (upload_exec t op) = Some r"
      by (rule upload_exec_peer [OF Cons.prems(1,4) leased assms(5,6) p])
    with Cons.IH [OF step(1,2) fresh(2)] Cons.prems(5) show ?case by simp
  qed simp
  then have "rows_affected (holds_lease i w) (foldl upload_exec t ops) \<noteq> 0"
    using find_row_SomeD [OF row] leased assms(5) by (auto simp: rows_affected_0_iff holds_lease_def)
  with row assms(8,9) show ?thesis
    by (simp add: uj_Heartbeat_def exec_upload_write_def Let_def)
qed

theorem upload_lease_exclusive_witness:
  "fst (uj_Heartbeat DbOk 9 9 1 ''A'' second (foldl upload_exec
      [lease_stamp 0 ''A'' second sample_job]
      [UoClaim DbOk (5 * second) 0 (\<lambda>_. False) ''B'' 1 second, UoReclaim DbOk second (\<lambda>_. False) 0])) = Inr ()"
proof -
  let ?t = "[lease_stamp 0 ''A'' second sample_job]"
  let ?ops = "[UoClaim DbOk (5 * second) 0 (\<lambda>_. False) ''B'' 1 second, UoReclaim DbOk second (\<lambda>_. False) 0]"
  have p: "distinct (map uj_id ?t)" "\<forall>s \<in> set ?t. lease_wf s" "ops_fresh ?t ?ops"
    "find_row uj_id 1 ?t = Some (lease_stamp 0 ''A'' second sample_job)"
    "uj_lease_owner (lease_stamp 0 ''A'' second sample_job) = Some ''A''"
    "uj_lease_expires_at (lease_stamp 0 ''A'' second sample_job) = Some second"
    "\<forall>op \<in> set ?ops. upload_peer ''A'' second op" "''A'' \<noteq> []" "0 < second"
    by (simp_all add: sample_job_def lease_stamp_def lease_wf_def op_fresh_def)
  from upload_lease_exclusive [OF p, of 9 9] show ?thesis by blast
qed

section \<open>The two pools\<close>

text \<open>
  What a batch claim promises: the claimed jobs are unlocked candidates, as many as there are
  up to the limit, stamped; a candidate left behind is not before a claimed one in the queue;
  every other row is unchanged.
\<close>

definition batch_ok ::
  "(UploadJob \<Rightarrow> bool) \<Rightarrow> (int \<Rightarrow> bool) \<Rightarrow> int \<Rightarrow> (UploadJob \<Rightarrow> UploadJob) \<Rightarrow> UploadJob list \<Rightarrow>
   UploadJob list \<Rightarrow> UploadJob list \<Rightarrow> bool" where
  "batch_ok p locked limit stamp t out t' \<longleftrightarrow>
     length out = min (nat limit) (length (filter (\<lambda>r. p r \<and> \<not> locked (uj_id r)) t)) \<and>
     (\<forall>j \<in> set out. \<exists>r \<in> set t. p r \<and> \<not> locked (uj_id r) \<and> j = stamp r \<and> uj_id j = uj_id r \<and>
        (\<forall>q \<in> set t. p q \<and> \<not> locked (uj_id q) \<and> uj_id q \<notin> uj_id ` set out \<longrightarrow>
           queue_key r \<le> queue_key q)) \<and>
     (\<forall>i. i \<notin> uj_id ` set out \<longrightarrow> find_row uj_id i t' = find_row uj_id i t) \<and>
     (\<forall>j \<in> set out. find_row uj_id (uj_id j) t' = Some j)"

lemma length_filter_keys:
  assumes "distinct (map key t)" and "A \<subseteq> key ` set t"
  shows "length (filter (\<lambda>r. key r \<in> A) t) = card A"
proof -
  have "distinct (map key (filter (\<lambda>r. key r \<in> A) t))"
    using assms(1) by (rule distinct_map_filter)
  moreover have "set (map key (filter (\<lambda>r. key r \<in> A) t)) = A" using assms(2) by auto
  ultimately show ?thesis using distinct_card by (metis length_map)
qed

lemma image_filter_keys: "key ` set (filter (\<lambda>r. key r \<in> A) t) = A \<inter> key ` set t"
  by auto

lemma claim_batch_ok:
  assumes "distinct (map uj_id t)" and "w \<noteq> []" and "0 < l" and "0 < d"
  shows "\<exists>out. fst (claim_batch p DbOk now a lk w l d t) = Inr out \<and>
    batch_ok p lk l (lease_stamp now w (a + d)) t out (snd (claim_batch p DbOk now a lk w l d t))"
proof -
  let ?c = "filter (\<lambda>r. p r \<and> \<not> lk (uj_id r)) t"
  let ?top = "top_by queue_key (nat l) ?c"
  let ?ids = "candidate_ids p lk l t"
  let ?stamp = "lease_stamp now w (a + d)"
  let ?t = "update_where (\<lambda>r. uj_id r \<in> ?ids) ?stamp t"
  let ?out = "filter (\<lambda>r. uj_id r \<in> ?ids) ?t"
  have eq: "claim_batch p DbOk now a lk w l d t = (Inr ?out, ?t)"
    using assms(2-4) by (simp add: claim_batch_def Let_def)
  have top: "set ?top \<subseteq> set ?c" by (rule set_top_by_subset)
  have ids: "map uj_id ?t = map uj_id t" by (rule map_update_where) simp
  have find: "find_row uj_id i ?t =
      map_option (\<lambda>r. if uj_id r \<in> ?ids then ?stamp r else r) (find_row uj_id i t)" for i
    by (rule find_row_update_where) simp
  have in_ids: "?ids \<subseteq> uj_id ` set t" using top by (auto simp: candidate_ids_def)
  have "distinct (map uj_id ?top)"
    using assms(1) by (intro distinct_map_top_by distinct_map_filter)
  then have card: "card ?ids = min (nat l) (length ?c)"
    unfolding candidate_ids_def by (simp only: distinct_card length_map length_top_by)
  have "length ?out = card ?ids"
    using length_filter_keys [of uj_id ?t ?ids] ids assms(1) in_ids by (metis list.set_map)
  note len = this [unfolded card]
  have out_ids: "uj_id ` set ?out = ?ids"
    unfolding image_filter_keys using in_ids ids by (metis inf.absorb1 list.set_map)
  have claimed: "\<exists>r \<in> set t. p r \<and> \<not> lk (uj_id r) \<and> j = ?stamp r \<and> uj_id j = uj_id r \<and>
      (\<forall>q \<in> set t. p q \<and> \<not> lk (uj_id q) \<and> uj_id q \<notin> ?ids \<longrightarrow> queue_key r \<le> queue_key q)"
    if j: "j \<in> set ?out" for j
  proof -
    from j obtain r where r: "r \<in> set t" "uj_id r \<in> ?ids" "j = ?stamp r"
      by (auto simp: set_update_where split: if_splits)
    then obtain s where s: "s \<in> set ?top" "uj_id s = uj_id r" by (auto simp: candidate_ids_def)
    then have "s \<in> set t" using top by auto
    then have "s = r" using s(2) r(1) assms(1) by (metis find_row_unique option.inject)
    with s top have "r \<in> set ?top" "p r" "\<not> lk (uj_id r)" by auto
    moreover have "queue_key r \<le> queue_key q"
      if "q \<in> set t" "p q" "\<not> lk (uj_id q)" "uj_id q \<notin> ?ids" for q
    proof (rule ccontr)
      assume "\<not> queue_key r \<le> queue_key q"
      then have "q \<in> set ?top"
        using top_by_downward [OF \<open>r \<in> set ?top\<close>, of q] that(1-3) by (simp add: not_le)
      with that(4) show False by (auto simp: candidate_ids_def)
    qed
    ultimately show ?thesis using r by (intro bexI [of _ r]) auto
  qed
  have "find_row uj_id (uj_id j) ?t = Some j" if "j \<in> set ?out" for j
    using find_row_unique [of uj_id ?t j] ids assms(1) that by (metis filter_is_subset subsetD)
  moreover have "find_row uj_id i ?t = find_row uj_id i t" if "i \<notin> ?ids" for i
    using find [of i] that find_row_SomeD [of uj_id i t] by (cases "find_row uj_id i t") auto
  ultimately show ?thesis
    unfolding eq fst_conv snd_conv batch_ok_def using len claimed out_ids by (intro exI [of _ ?out]) simp
qed

text \<open>
  C28: the two worker pools. A batch claim of the ingest pool and one of the publish pool each
  take the first jobs of their queue, as many as are there up to the limit, in the order of
  priority, age and id, and touch nothing else; and no job is ever a candidate of both pools.
\<close>

theorem upload_pools_correct:
  assumes "distinct (map uj_id t)" and "w \<noteq> []" and "0 < l" and "0 < d"
  shows "(\<exists>out. fst (ClaimBatch DbOk now a lk w l d t) = Inr out \<and>
      batch_ok (ingest_candidate now) lk l (lease_stamp now w (a + d)) t out
        (snd (ClaimBatch DbOk now a lk w l d t))) \<and>
    (\<exists>out. fst (ClaimBatchForPublish DbOk now a lk w l d t) = Inr out \<and>
      batch_ok (publish_candidate now) lk l (lease_stamp now w (a + d)) t out
        (snd (ClaimBatchForPublish DbOk now a lk w l d t))) \<and>
    (\<forall>r now'. \<not> (ingest_candidate now r \<and> publish_candidate now' r))"
  unfolding ClaimBatch_def ClaimBatchForPublish_def
  using claim_batch_ok [OF assms]
  by (auto simp: ingest_candidate_def publish_candidate_def)

theorem upload_pools_correct_witness:
  "\<exists>out. fst (ClaimBatch DbOk 0 0 (\<lambda>_. False) ''A'' 5 second [sample_job]) = Inr out \<and> length out = 1"
proof -
  have "distinct (map uj_id [sample_job])" "''A'' \<noteq> []" "0 < (5::int)" "0 < second" by simp_all
  from upload_pools_correct [OF this, of 0 0 "\<lambda>_. False"]
  obtain out where "fst (ClaimBatch DbOk 0 0 (\<lambda>_. False) ''A'' 5 second [sample_job]) = Inr out"
    "batch_ok (ingest_candidate 0) (\<lambda>_. False) 5 (lease_stamp 0 ''A'' (0 + second)) [sample_job] out
       (snd (ClaimBatch DbOk 0 0 (\<lambda>_. False) ''A'' 5 second [sample_job]))"
    by blast
  then show ?thesis
    by (auto simp: batch_ok_def ingest_candidate_def claim_due_def sample_job_def)
qed

section \<open>Recovery of a crashed publisher\<close>

text \<open>
  The reaper returns every dead lease to \<open>pending\<close>, also that of a job whose artifact is
  already stored. Such a job is then a candidate of the ingest pool, which downloads the
  source again, and of no publish pool.
\<close>

lemma reclaimed_publish_job_is_ingested_again:
  assumes "distinct (map uj_id t)" and "find_row uj_id i t = Some r" and "lease_dead now r"
    and "uj_asset_id r = Some a" and "length t \<le> 100" and "now' \<ge> now"
    and "null_or (\<lambda>x. x \<le> now') (uj_ingest_after r)" and "null_or (\<lambda>x. x \<le> now') (uj_next_attempt_at r)"
  shows "\<exists>r'. find_row uj_id i (snd (uj_ReclaimExpiredLeases DbOk now (\<lambda>_. False) 0 t)) = Some r' \<and>
    uj_asset_id r' = Some a \<and> ingest_candidate now' r' \<and> \<not> publish_candidate now' r'"
proof -
  let ?d = "filter (lease_dead now) t"
  have r: "r \<in> set t" "uj_id r = i" using find_row_SomeD [OF assms(2)] by simp_all
  have "length ?d \<le> 100" using assms(5) length_filter_le [of "lease_dead now" t] by linarith
  then have "set (top_by uj_lease_expires_at 100 ?d) = set ?d" by (simp add: top_by_def)
  then have "uj_id r \<in> set (map uj_id (top_by uj_lease_expires_at 100 ?d))"
    using r(1) assms(3) by simp
  then have "find_row uj_id i (snd (uj_ReclaimExpiredLeases DbOk now (\<lambda>_. False) 0 t)) =
      Some (reclaim_stamp r)"
    using assms(2) by (simp add: uj_ReclaimExpiredLeases_def Let_def find_row_update_where del: set_map)
  moreover have "claim_due now' (reclaim_stamp r)"
    using assms(7,8) by (cases "uj_next_attempt_at r") (simp_all add: claim_due_def reclaim_stamp_def)
  ultimately show ?thesis using assms(4)
    by (simp add: ingest_candidate_def publish_candidate_def)
qed


section \<open>Duplicates\<close>

lemma compact_loop_eq: "compact_loop (k # ks) xs = rev ks @ remdups_adj (k # xs)"
  by (induction xs arbitrary: k ks) auto

lemma distinct_remdups_adj_sorted:
  fixes xs :: "'a::linorder list"
  shows "sorted xs \<Longrightarrow> distinct (remdups_adj xs)"
  by (induction xs rule: remdups_adj.induct) (auto simp: order.antisym)

lemma canonicalUploadTargets_eq: "canonicalUploadTargets xs = sorted_list_of_set (set xs)"
proof (cases "xs = []")
  case False
  then obtain y ys where s: "sort xs = y # ys" by (metis length_sort length_0_conv neq_Nil_conv)
  have "canonicalUploadTargets xs = remdups_adj (sort xs)"
    using False by (simp add: canonicalUploadTargets_def s compact_loop_eq)
  also have "\<dots> = sorted_list_of_set (set xs)"
  proof (rule sorted_distinct_set_unique)
    show "sorted (remdups_adj (sort xs))" "distinct (remdups_adj (sort xs))"
      by (simp_all add: sorted_remdups_adj distinct_remdups_adj_sorted)
  qed simp_all
  finally show ?thesis .
qed (simp add: canonicalUploadTargets_def)

definition one_live_job :: "UploadJob list \<Rightarrow> bool" where
  "one_live_job t \<longleftrightarrow>
     (\<forall>a \<in> set t. \<forall>b \<in> set t. same_source a b \<and> uj_status a \<noteq> UjFailed \<and> uj_status b \<noteq> UjFailed \<longrightarrow>
        uj_id a = uj_id b)"

lemma same_source_sym: "same_source a b \<Longrightarrow> same_source b a"
  by (simp add: same_source_def)

text \<open>
  A source is queued at most once. After \<open>CreateIfSourceAbsent\<close> has queued a job, any
  later call for the same user, source and Drive account and the same set of target accounts,
  in whatever order and with whatever repetitions they are listed, creates nothing, as long as
  the job has not failed; and while the live jobs of every source are unique, a call keeps them so.
\<close>

theorem CreateIfSourceAbsent_unique:
  assumes "one_live_job t" and "k \<notin> uj_id ` set t"
    and "CreateIfSourceAbsent flt now k ma p job t = (res, t')"
  shows "one_live_job t' \<and>
    (res = Inr True \<longrightarrow> uj_status job \<noteq> UjFailed \<longrightarrow>
      (\<forall>job' now' k' xs. same_source job' (job\<lparr>uj_targets := uj_targets job'\<rparr>) \<and>
         set (uj_targets job') = set (uj_targets job) \<longrightarrow>
         CreateIfSourceAbsent DbOk now' k' ma p job' (t' @ xs) = (Inr False, t' @ xs)))"
proof -
  let ?j = "job\<lparr>uj_targets := canonicalUploadTargets (uj_targets job)\<rparr>"
  let ?row = "new_upload_row now k ma p ?j"
  have src: "same_source a ?row \<longleftrightarrow> same_source a ?j" for a
    by (simp add: same_source_def new_upload_row_def)
  from assms(3) have cases: "t' = t \<and> res \<noteq> Inr True \<or>
      t' = t @ [?row] \<and> (\<forall>r \<in> set t. \<not> (same_source ?j r \<and> uj_status r \<noteq> UjFailed))"
    by (auto simp: CreateIfSourceAbsent_def Let_def split: if_splits)
  then have "one_live_job t'"
  proof (elim disjE conjE)
    assume t': "t' = t @ [?row]" and none: "\<forall>r \<in> set t. \<not> (same_source ?j r \<and> uj_status r \<noteq> UjFailed)"
    have "\<not> same_source ?row a" "\<not> same_source a ?row" if "a \<in> set t" "uj_status a \<noteq> UjFailed" for a
      using none that src same_source_sym by blast+
    with assms(1) show ?thesis unfolding t' one_live_job_def by auto
  qed (use assms(1) in simp)
  moreover have "CreateIfSourceAbsent DbOk now' k' ma p job' (t' @ xs) = (Inr False, t' @ xs)"
    if new: "res = Inr True" "uj_status job \<noteq> UjFailed"
      and same: "same_source job' (job\<lparr>uj_targets := uj_targets job'\<rparr>)"
        "set (uj_targets job') = set (uj_targets job)"
    for job' now' k' xs
  proof -
    have "?row \<in> set t'" using cases new(1) by auto
    moreover have "uj_status ?row = uj_status job" by (simp add: new_upload_row_def)
    moreover have "same_source (job'\<lparr>uj_targets := canonicalUploadTargets (uj_targets job')\<rparr>) ?row"
      using same by (simp add: same_source_def new_upload_row_def canonicalUploadTargets_eq)
    ultimately show ?thesis using new(2)
      by (auto simp: CreateIfSourceAbsent_def Let_def)
  qed
  ultimately show ?thesis by blast
qed

theorem CreateIfSourceAbsent_unique_witness:
  "CreateIfSourceAbsent DbOk 5 3 8 100 (sample_job\<lparr>uj_targets := [7, 4, 7]\<rparr>)
     (snd (CreateIfSourceAbsent DbOk 0 2 8 100 (sample_job\<lparr>uj_targets := [4, 7]\<rparr>) [])) =
   (Inr False, snd (CreateIfSourceAbsent DbOk 0 2 8 100 (sample_job\<lparr>uj_targets := [4, 7]\<rparr>) []))"
proof -
  let ?c = "CreateIfSourceAbsent DbOk 0 2 8 100 (sample_job\<lparr>uj_targets := [4, 7]\<rparr>) []"
  have ok: "fst ?c = Inr True" by (simp add: CreateIfSourceAbsent_def Let_def)
  have "one_live_job []" "2 \<notin> uj_id ` set []" "?c = (fst ?c, snd ?c)"
    by (simp_all add: one_live_job_def)
  from conjunct2 [OF CreateIfSourceAbsent_unique [OF this]] ok
  have all: "\<forall>job' now' k' xs. same_source job' (sample_job\<lparr>uj_targets := [4, 7], uj_targets := uj_targets job'\<rparr>) \<and>
      set (uj_targets job') = set (uj_targets (sample_job\<lparr>uj_targets := [4, 7]\<rparr>)) \<longrightarrow>
      CreateIfSourceAbsent DbOk now' k' 8 100 job' (snd ?c @ xs) = (Inr False, snd ?c @ xs)"
    by (simp add: sample_job_def)
  have "same_source (sample_job\<lparr>uj_targets := [7, 4, 7]\<rparr>)
      (sample_job\<lparr>uj_targets := [4, 7], uj_targets := uj_targets (sample_job\<lparr>uj_targets := [7, 4, 7]\<rparr>)\<rparr>)"
    "set (uj_targets (sample_job\<lparr>uj_targets := [7, 4, 7]\<rparr>)) = set (uj_targets (sample_job\<lparr>uj_targets := [4, 7]\<rparr>))"
    by (auto simp: same_source_def)
  with all [THEN spec, THEN spec, THEN spec, THEN spec, of "sample_job\<lparr>uj_targets := [7, 4, 7]\<rparr>" 5 3 "[]"]
  show ?thesis by simp
qed

lemma rank_above_one:
  assumes "r \<in> set t" and "distinct (map uj_id t)" and "P r"
  shows "1 < length (filter P t) \<longleftrightarrow> (\<exists>q \<in> set t. P q \<and> uj_id q \<noteq> uj_id r)"
proof -
  have d: "distinct (filter P t)" using assms(2) by (simp add: distinct_map distinct_filter)
  have inj: "inj_on uj_id (set t)" using assms(2) by (simp add: distinct_map)
  have r: "r \<in> set (filter P t)" using assms(1,3) by simp
  have "length (filter P t) = card (set (filter P t))" by (rule distinct_card [OF d, symmetric])
  also have "\<dots> = Suc (card (set (filter P t) - {r}))"
    using r card_Suc_Diff1 [OF finite_set r] by simp
  finally have "1 < length (filter P t) \<longleftrightarrow> set (filter P t) - {r} \<noteq> {}"
    by (auto simp: card_gt_0_iff)
  also have "\<dots> \<longleftrightarrow> (\<exists>q \<in> set t. P q \<and> q \<noteq> r)" by auto
  also have "\<dots> \<longleftrightarrow> (\<exists>q \<in> set t. P q \<and> uj_id q \<noteq> uj_id r)"
    using inj assms(1) by (auto dest: inj_onD)
  finally show ?thesis .
qed

text \<open>
  What the suppression of duplicates does. A pending job is failed exactly when the same
  user has another unfailed job of the same source, Drive account and targets that is
  \<open>completed\<close>, \<open>processing\<close> or leased, or that waits and has a smaller id. Jobs that are
  already ingested, scheduled or published under the split statuses do not count: their
  pending duplicate survives and is uploaded again.
\<close>

theorem SuppressPendingDuplicates_exact:
  assumes "distinct (map uj_id t)" and "find_row uj_id i t = Some r"
    and "uj_status r = UjPending" and "uj_user_id r = user"
  shows "map_option uj_status (find_row uj_id i (snd (SuppressPendingDuplicates DbOk user t))) =
      Some (if \<exists>q \<in> set t. uj_id q \<noteq> i \<and> same_partition q r \<and>
          (uj_status q \<in> {UjCompleted, UjProcessing, UjLeased} \<or>
           uj_status q \<in> {UjPending, UjRetryWait} \<and> uj_id q < i)
        then UjFailed else UjPending)"
proof -
  have r: "r \<in> set t" "uj_id r = i" using find_row_SomeD [OF assms(2)] by simp_all
  let ?P = "\<lambda>q. uj_user_id q = user \<and> uj_status q \<noteq> UjFailed \<and> same_partition q r \<and>
    (status_rank (uj_status q), uj_id q) \<le> (status_rank (uj_status r), uj_id r)"
  have Pr: "?P r" using assms(3,4) by (simp add: same_partition_def)
  have rank: "status_rank s < 2 \<longleftrightarrow> s \<in> {UjCompleted, UjProcessing, UjLeased}"
    "status_rank s = 2 \<longleftrightarrow> s \<in> {UjPending, UjRetryWait}" for s
    by (cases s; simp)+
  have before: "?P q \<and> uj_id q \<noteq> uj_id r \<longleftrightarrow>
      uj_id q \<noteq> i \<and> same_partition q r \<and>
      (uj_status q \<in> {UjCompleted, UjProcessing, UjLeased} \<or>
       uj_status q \<in> {UjPending, UjRetryWait} \<and> uj_id q < i)" for q
    using rank [of "uj_status q"] assms(3,4) r(2)
    by (cases "uj_status q") (auto simp: same_partition_def less_eq_prod_def)
  have "1 < duplicate_rank user t r \<longleftrightarrow> (\<exists>q \<in> set t. ?P q \<and> uj_id q \<noteq> uj_id r)"
    unfolding duplicate_rank_def by (rule rank_above_one [where P = ?P, OF r(1) assms(1) Pr])
  then have dup: "1 < duplicate_rank user t r \<longleftrightarrow>
      (\<exists>q \<in> set t. uj_id q \<noteq> i \<and> same_partition q r \<and>
        (uj_status q \<in> {UjCompleted, UjProcessing, UjLeased} \<or>
         uj_status q \<in> {UjPending, UjRetryWait} \<and> uj_id q < i))"
    unfolding before .
  have "snd (SuppressPendingDuplicates DbOk user t) = update_where
      (\<lambda>r. uj_user_id r = user \<and> uj_status r \<noteq> UjFailed \<and> duplicate_rank user t r > 1 \<and>
           uj_status r = UjPending)
      (\<lambda>r. r\<lparr>uj_status := UjFailed,
             uj_error_message := Some ''duplicate source suppressed before upload''\<rparr>) t"
    by (simp add: SuppressPendingDuplicates_def)
  then show ?thesis unfolding dup [symmetric]
    using assms(2-4) by (simp add: find_row_update_where)
qed

theorem SuppressPendingDuplicates_exact_witness:
  "map_option uj_status (find_row uj_id 1 (snd (SuppressPendingDuplicates DbOk 1
     [sample_job, sample_job\<lparr>uj_id := 2, uj_status := UjPublishCompleted\<rparr>]))) = Some UjPending"
proof -
  let ?t = "[sample_job, sample_job\<lparr>uj_id := 2, uj_status := UjPublishCompleted\<rparr>]"
  have "distinct (map uj_id ?t)" "find_row uj_id 1 ?t = Some sample_job"
    "uj_status sample_job = UjPending" "uj_user_id sample_job = 1"
    by (simp_all add: sample_job_def)
  from SuppressPendingDuplicates_exact [OF this] show ?thesis by (simp add: sample_job_def)
qed

end
