(* ===== verification/UploadWorker.thy ===== *)
theory UploadWorker
  imports UploadJobsProofs ProviderErrors Sampler
begin

text \<open>
  The failure routing of the upload worker, \<open>internal/worker/upload_worker_errors.go\<close>, over
  the queue of \<open>UploadJobs\<close> and the classifier of \<open>ProviderErrors\<close>. An error carries
  besides its chain whether it is the lease-lost sentinel and whether it matches
  \<open>ErrPermanent\<close> of \<open>permanent_error.go\<close>.
\<close>

record upload_failure =
  uf_error :: go_error
  uf_lease_lost :: bool
  uf_permanent :: bool

section \<open>Codes\<close>

text \<open>The scan of \<open>containsAny\<close>: at each position, the needle as a prefix.\<close>

fun contains_at :: "string \<Rightarrow> string \<Rightarrow> bool" where
  "contains_at [] n = (n = [])"
| "contains_at (c # cs) n = (take (length n) (c # cs) = n \<or> contains_at cs n)"

definition containsAny :: "string \<Rightarrow> string list \<Rightarrow> bool" where
  "containsAny s needles \<longleftrightarrow> list_ex (\<lambda>n. length n \<noteq> 0 \<and> contains_at s n) needles"

definition classifyUploadErrorLegacy :: "string \<Rightarrow> string" where
  "classifyUploadErrorLegacy s =
     (if containsAny s [''drive'', ''googleapis.com/upload/drive''] then ''drive_error''
      else if containsAny s [''s3'', ''minio'', ''presigned''] then ''s3_error''
      else if containsAny s [''youtube'', ''videos.insert''] then ''youtube_error''
      else if containsAny s [''oauth'', ''401'', ''403'', ''unauthorized''] then ''auth_error''
      else if containsAny s [''context deadline'', ''timeout''] then ''timeout''
      else '''')"

definition classifyUploadError :: "go_error option \<Rightarrow> string" where
  "classifyUploadError err =
     (case err of None \<Rightarrow> '''' | Some e \<Rightarrow>
        (case ClassifyError err of
           None \<Rightarrow> classifyUploadErrorLegacy (err_text e)
         | Some c \<Rightarrow>
             (case ne_kind c of
                KindRateLimited \<Rightarrow> ''rate_limited''
              | KindAuth \<Rightarrow> ''auth_error''
              | KindPermanent \<Rightarrow>
                  (let legacy = classifyUploadErrorLegacy (err_text e)
                   in if legacy \<noteq> '''' then legacy else ''permanent_error'')
              | KindTransient \<Rightarrow>
                  (if ne_code c = ''timeout'' then ''timeout''
                   else if ne_provider c = ''google_drive'' then ''drive_error''
                   else if ne_provider c = ''storage'' then ''s3_error''
                   else if ne_provider c = ''youtube'' then ''youtube_error''
                   else classifyUploadErrorLegacy (err_text e)))))"


section \<open>Backoff\<close>

text \<open>\<open>prev *= 3\<close>, left at the first value above the cap.\<close>

fun triple_until :: "nat \<Rightarrow> duration \<Rightarrow> duration" where
  "triple_until 0 prev = prev"
| "triple_until (Suc n) prev = (if prev * 3 > hour then hour else triple_until n (prev * 3))"

definition computeUploadBackoff :: "(int \<Rightarrow> int) \<Rightarrow> nat \<Rightarrow> duration" where
  "computeUploadBackoff rnd attempt =
     (let base = 5 * second;
          attempt = (if attempt < 1 then 1 else attempt);
          prev = triple_until (attempt - 1) base;
          temp = (if prev > hour then hour else prev);
          span = temp - base
      in if span \<le> 0 then base else base + rnd (span + 1))"

lemma triple_until_closed:
  assumes "0 < b" and "b \<le> hour"
  shows "triple_until n b = min hour (b * 3 ^ n)"
  using assms
proof (induction n arbitrary: b)
  case (Suc n)
  show ?case
  proof (cases "b * 3 > hour")
    case True
    have "b * 3 * 1 \<le> b * 3 * 3 ^ n" using Suc.prems by (intro mult_left_mono) auto
    with True have "hour \<le> b * 3 * 3 ^ n" by linarith
    with True show ?thesis by (simp add: min_def mult.assoc)
  next
    case False
    with Suc.IH [of "b * 3"] Suc.prems show ?thesis by (simp add: mult.assoc)
  qed
qed simp

lemma computeUploadBackoff_range:
  assumes "int63_source rnd"
  shows "5 * second \<le> computeUploadBackoff rnd n \<and>
    computeUploadBackoff rnd n \<le> min hour (5 * second * 3 ^ (n - 1))"
proof -
  define cap where "cap = min hour (5 * second * 3 ^ (n - 1))"
  have "(1::int) \<le> 3 ^ (n - 1)" by simp
  then have low: "5 * second \<le> cap" by (simp add: cap_def)
  have "triple_until (n - 1) (5 * second) = cap"
    by (simp add: triple_until_closed cap_def)
  moreover have "cap \<le> hour" by (simp add: cap_def)
  ultimately have eq: "computeUploadBackoff rnd n =
      (if cap - 5 * second \<le> 0 then 5 * second else 5 * second + rnd (cap - 5 * second + 1))"
    by (cases "n < 1") (simp_all add: computeUploadBackoff_def Let_def algebra_simps)
  have "0 \<le> rnd (cap - 5 * second + 1) \<and> rnd (cap - 5 * second + 1) < cap - 5 * second + 1"
    using low by (intro int63_sourceD [OF assms]) simp
  then show ?thesis unfolding eq cap_def [symmetric] using low by auto
qed


section \<open>Routing\<close>

definition handleProcessingError ::
  "db_fault \<Rightarrow> time \<Rightarrow> time \<Rightarrow> (int \<Rightarrow> int) \<Rightarrow> string \<Rightarrow> string \<Rightarrow> UploadJob \<Rightarrow> upload_failure \<Rightarrow>
   UploadJob list \<Rightarrow> UploadJob list" where
  "handleProcessingError flt now appnow rnd poolName worker job f t =
     (let e = uf_error f;
          classification = ClassifyErrorFor '''' poolName (Some e);
          errorCode = classifyUploadError (Some e)
      in if uf_lease_lost f then t
         else if LCanceled \<in> set (err_chain e) then t
         else if (case classification of
                    None \<Rightarrow> False
                  | Some c \<Rightarrow> ne_kind c = KindPermanent \<or> ne_kind c = KindAuth) \<or>
                 uf_permanent f \<or> LPermanentUpload \<in> set (err_chain e)
         then snd (uj_MarkDeadLetter flt now (uj_id job) worker errorCode (err_text e) t)
         else if uj_attempt_count job \<ge> uj_max_attempts job
         then snd (uj_MarkDeadLetter flt now (uj_id job) worker errorCode (err_text e) t)
         else
           let backoff = (if RetryAfterFromError (Some e) > 0 then RetryAfterFromError (Some e)
                          else computeUploadBackoff rnd (uj_attempt_count job))
           in snd (uj_MarkRetry flt now (uj_id job) worker errorCode (err_text e) (appnow + backoff) t))"

definition upload_permanent :: "upload_failure \<Rightarrow> bool" where
  "upload_permanent f \<longleftrightarrow> uf_permanent f \<or> LPermanentUpload \<in> set (err_chain (uf_error f)) \<or>
     (\<exists>c. ClassifyError (Some (uf_error f)) = Some c \<and> ne_kind c \<in> {KindPermanent, KindAuth})"

lemma upload_write_row:
  assumes "find_row uj_id i t = Some r" and "holds_lease i w r"
  shows "find_row uj_id k (snd (exec_upload_write DbOk now i w a t)) =
    (if k = i then Some (upload_set now a r) else find_row uj_id k t)"
proof (cases "k = i")
  case False
  have "find_row uj_id k (update_where (holds_lease i w) (upload_set now a) t) = find_row uj_id k t"
    by (rule find_row_update_other) (use False in \<open>auto simp: holds_lease_def\<close>)
  with False show ?thesis by (simp add: exec_upload_write_def Let_def)
next
  case True
  with assms show ?thesis
    by (simp add: exec_upload_write_def Let_def find_row_update_where)
qed

text \<open>
  The routing of a failed upload. For a job its worker still holds, a lost lease and a
  cancelled context write nothing; otherwise the job goes to \<open>dead_letter\<close> when its error is
  permanent or of authentication or its attempts are used up, and to \<open>retry_wait\<close> for
  everything else, not before five seconds from now unless the provider asked for another
  delay, and at most an hour later. No other row changes.
\<close>

theorem handleProcessingError_routes:
  assumes "find_row uj_id (uj_id job) t = Some r" and "holds_lease (uj_id job) w r"
    and "int63_source rnd"
  shows "let out = handleProcessingError DbOk now appnow rnd pool w job f t in
    (k \<noteq> uj_id job \<longrightarrow> find_row uj_id k out = find_row uj_id k t) \<and>
    (uf_lease_lost f \<or> LCanceled \<in> set (err_chain (uf_error f)) \<longrightarrow> out = t) \<and>
    (\<not> uf_lease_lost f \<and> LCanceled \<notin> set (err_chain (uf_error f)) \<longrightarrow>
      (\<exists>r'. find_row uj_id (uj_id job) out = Some r' \<and>
        (if upload_permanent f \<or> uj_max_attempts job \<le> uj_attempt_count job
         then uj_status r' = UjDeadLetter
         else uj_status r' = UjRetryWait \<and>
           (\<exists>d. uj_next_attempt_at r' = Some (appnow + d) \<and>
              (if RetryAfterFromError (Some (uf_error f)) > 0
               then d = RetryAfterFromError (Some (uf_error f))
               else 5 * second \<le> d \<and> d \<le> hour)))))"
proof -
  note row = upload_write_row [OF assms(1,2)]
  have routed: "(case ClassifyErrorFor [] pool (Some (uf_error f)) of
        None \<Rightarrow> False | Some c \<Rightarrow> ne_kind c = KindPermanent \<or> ne_kind c = KindAuth) \<or>
      uf_permanent f \<or> LPermanentUpload \<in> set (err_chain (uf_error f)) \<longleftrightarrow> upload_permanent f"
    by (auto simp: ClassifyErrorFor_def upload_permanent_def split: option.split)
  note range = computeUploadBackoff_range [OF assms(3), of "uj_attempt_count job"]
  show ?thesis
    unfolding handleProcessingError_def Let_def routed
    using range by (auto simp: row uj_MarkDeadLetter_def uj_MarkRetry_def)
qed

theorem handleProcessingError_routes_witness:
  "\<exists>r'. find_row uj_id 1 (handleProcessingError DbOk 0 0 (\<lambda>_. 0) ''ingest'' ''A''
      (lease_stamp 0 ''A'' second sample_job)
      \<lparr>uf_error = \<lparr>err_chain = [LTransient], err_text = ''x''\<rparr>, uf_lease_lost = False, uf_permanent = False\<rparr>
      [lease_stamp 0 ''A'' second sample_job]) = Some r' \<and> uj_status r' = UjRetryWait"
proof -
  let ?j = "lease_stamp 0 ''A'' second sample_job"
  let ?f = "\<lparr>uf_error = \<lparr>err_chain = [LTransient], err_text = ''x''\<rparr>, uf_lease_lost = False, uf_permanent = False\<rparr>"
  have h: "find_row uj_id (uj_id ?j) [?j] = Some ?j" "holds_lease (uj_id ?j) ''A'' ?j"
    "int63_source (\<lambda>_. 0)"
    by (simp_all add: holds_lease_def int63_source_def)
  have n: "\<not> upload_permanent ?f"
    by (simp add: upload_permanent_def ClassifyError_def classify_typed_def normalizedFrom_def)
  have a: "\<not> uj_max_attempts ?j \<le> uj_attempt_count ?j" by (simp add: lease_stamp_def sample_job_def)
  from handleProcessingError_routes [OF h, where f = ?f and now = 0 and appnow = 0 and pool = "''ingest''"] n a show ?thesis
    by (auto simp: sample_job_def Let_def)
qed

end
