(* ===== verification/CanonicalState.thy ===== *)
theory CanonicalState
  imports StateGraph GoStrings
begin

text \<open>
  The canonical state machine of a delivery, \<open>internal/deliveries/state.go\<close>: 21 states, the
  transition table with its happy path, the privacy floor and the JSON boundary. The empty
  string, the zero value of the Go type, is \<open>None\<close>.
\<close>

section \<open>States\<close>

datatype DeliveryState =
    CsDeliveryQueued | CsTargetValidating | CsTargetValidated | CsMediaDownloading
  | CsMediaVerified | CsPrivateUploadQueued | CsPrivateUploading | CsPrivateUploaded
  | CsThumbnailPending | CsThumbnailUploading | CsThumbnailApplied | CsReadyToPublish
  | CsPublishing | CsPublished
  | CsBlockedTarget | CsBlockedAuth | CsMediaInvalid | CsPrivateUploadFailed
  | CsThumbnailFailed | CsPublishFailed | CsCancelled

fun cs_string :: "DeliveryState \<Rightarrow> string" where
  "cs_string CsDeliveryQueued = ''delivery_queued''"
| "cs_string CsTargetValidating = ''target_validating''"
| "cs_string CsTargetValidated = ''target_validated''"
| "cs_string CsMediaDownloading = ''media_downloading''"
| "cs_string CsMediaVerified = ''media_verified''"
| "cs_string CsPrivateUploadQueued = ''private_upload_queued''"
| "cs_string CsPrivateUploading = ''private_uploading''"
| "cs_string CsPrivateUploaded = ''private_uploaded''"
| "cs_string CsThumbnailPending = ''thumbnail_pending''"
| "cs_string CsThumbnailUploading = ''thumbnail_uploading''"
| "cs_string CsThumbnailApplied = ''thumbnail_applied''"
| "cs_string CsReadyToPublish = ''ready_to_publish''"
| "cs_string CsPublishing = ''publishing''"
| "cs_string CsPublished = ''published''"
| "cs_string CsBlockedTarget = ''blocked_target''"
| "cs_string CsBlockedAuth = ''blocked_auth''"
| "cs_string CsMediaInvalid = ''media_invalid''"
| "cs_string CsPrivateUploadFailed = ''private_upload_failed''"
| "cs_string CsThumbnailFailed = ''thumbnail_failed''"
| "cs_string CsPublishFailed = ''publish_failed''"
| "cs_string CsCancelled = ''cancelled''"

definition AllDeliveryStates :: "DeliveryState list" where
  "AllDeliveryStates =
     [CsDeliveryQueued, CsTargetValidating, CsTargetValidated, CsMediaDownloading, CsMediaVerified,
      CsPrivateUploadQueued, CsPrivateUploading, CsPrivateUploaded, CsThumbnailPending,
      CsThumbnailUploading, CsThumbnailApplied, CsReadyToPublish, CsPublishing, CsPublished,
      CsBlockedTarget, CsBlockedAuth, CsMediaInvalid, CsPrivateUploadFailed, CsThumbnailFailed,
      CsPublishFailed, CsCancelled]"

text \<open>
  \<open>UnmarshalJSON\<close>: \<open>decode\<close> is \<open>json.Unmarshal\<close> into a Go string, \<open>None\<close> for every
  other JSON shape. The candidate is compared with the 21 states one by one.
\<close>

definition cs_UnmarshalJSON ::
  "(string \<Rightarrow> string option) \<Rightarrow> string \<Rightarrow> DeliveryState option" where
  "cs_UnmarshalJSON decode data =
     (case decode data of
        None \<Rightarrow> None
      | Some raw \<Rightarrow> List.find (\<lambda>s. cs_string s = raw) AllDeliveryStates)"

definition cs_IsPrivateFloorReached :: "DeliveryState \<Rightarrow> bool" where
  "cs_IsPrivateFloorReached s \<longleftrightarrow>
     s \<in> {CsPrivateUploaded, CsThumbnailPending, CsThumbnailUploading, CsThumbnailApplied,
          CsReadyToPublish, CsPublishing, CsPublished}"

definition cs_IsErrorExit :: "DeliveryState \<Rightarrow> bool" where
  "cs_IsErrorExit s \<longleftrightarrow>
     s \<in> {CsBlockedTarget, CsBlockedAuth, CsMediaInvalid, CsPrivateUploadFailed,
          CsThumbnailFailed, CsPublishFailed, CsCancelled}"

definition cs_IsTerminal :: "DeliveryState \<Rightarrow> bool" where
  "cs_IsTerminal s \<longleftrightarrow>
     s \<in> {CsPublished, CsBlockedTarget, CsBlockedAuth, CsMediaInvalid, CsPrivateUploadFailed,
          CsThumbnailFailed, CsPublishFailed, CsCancelled}"

definition cs_IsRetryable :: "DeliveryState \<Rightarrow> bool" where
  "cs_IsRetryable s \<longleftrightarrow>
     s \<in> {CsDeliveryQueued, CsTargetValidating, CsTargetValidated, CsMediaDownloading,
          CsMediaVerified, CsPrivateUploadQueued, CsPrivateUploading, CsThumbnailPending,
          CsThumbnailUploading, CsReadyToPublish, CsPublishing}"

text \<open>\<open>transitionMap\<close>, each inner map as the list of its keys in the order of the source.\<close>

fun cs_transitionMap :: "DeliveryState \<Rightarrow> DeliveryState list" where
  "cs_transitionMap CsDeliveryQueued = [CsTargetValidating, CsBlockedTarget, CsCancelled]"
| "cs_transitionMap CsTargetValidating = [CsTargetValidated, CsBlockedTarget, CsCancelled]"
| "cs_transitionMap CsTargetValidated =
     [CsMediaDownloading, CsBlockedTarget, CsBlockedAuth, CsCancelled]"
| "cs_transitionMap CsMediaDownloading =
     [CsMediaVerified, CsMediaInvalid, CsBlockedAuth, CsCancelled]"
| "cs_transitionMap CsMediaVerified =
     [CsPrivateUploadQueued, CsMediaInvalid, CsBlockedAuth, CsCancelled]"
| "cs_transitionMap CsPrivateUploadQueued =
     [CsPrivateUploading, CsPrivateUploadFailed, CsCancelled]"
| "cs_transitionMap CsPrivateUploading = [CsPrivateUploaded, CsPrivateUploadFailed, CsCancelled]"
| "cs_transitionMap CsPrivateUploaded = [CsThumbnailPending, CsThumbnailFailed]"
| "cs_transitionMap CsThumbnailPending = [CsThumbnailUploading, CsThumbnailFailed]"
| "cs_transitionMap CsThumbnailUploading = [CsThumbnailApplied, CsThumbnailFailed]"
| "cs_transitionMap CsThumbnailApplied = [CsReadyToPublish, CsPublishFailed]"
| "cs_transitionMap CsReadyToPublish = [CsPublishing, CsPublishFailed]"
| "cs_transitionMap CsPublishing = [CsPublished, CsPublishFailed]"
| "cs_transitionMap CsPublished = []"
| "cs_transitionMap CsBlockedTarget = []"
| "cs_transitionMap CsBlockedAuth = []"
| "cs_transitionMap CsMediaInvalid = []"
| "cs_transitionMap CsPrivateUploadFailed = []"
| "cs_transitionMap CsThumbnailFailed = []"
| "cs_transitionMap CsPublishFailed = []"
| "cs_transitionMap CsCancelled = []"

definition cs_CanTransitionTo :: "DeliveryState option \<Rightarrow> DeliveryState option \<Rightarrow> bool" where
  "cs_CanTransitionTo s t \<longleftrightarrow>
     (case t of None \<Rightarrow> False | Some t \<Rightarrow>
        (case s of None \<Rightarrow> False | Some s \<Rightarrow> t \<in> set (cs_transitionMap s)))"

definition cs_PrivacyFloor :: "DeliveryState \<Rightarrow> string" where
  "cs_PrivacyFloor s = (if cs_IsPrivateFloorReached s then ''private'' else '''')"

text \<open>\<open>EnforcePrivacyInvariant\<close>: whether the requested privacy is let through.\<close>

definition EnforcePrivacyInvariant :: "DeliveryState \<Rightarrow> string \<Rightarrow> bool" where
  "EnforcePrivacyInvariant s finalPrivacy \<longleftrightarrow>
     (if \<not> cs_IsPrivateFloorReached s then True else EqualFold finalPrivacy ''private'')"

text \<open>\<open>happyPathSuccessor\<close> and \<open>Next\<close>.\<close>

fun cs_Next :: "DeliveryState \<Rightarrow> DeliveryState option" where
  "cs_Next CsDeliveryQueued = Some CsTargetValidating"
| "cs_Next CsTargetValidating = Some CsTargetValidated"
| "cs_Next CsTargetValidated = Some CsMediaDownloading"
| "cs_Next CsMediaDownloading = Some CsMediaVerified"
| "cs_Next CsMediaVerified = Some CsPrivateUploadQueued"
| "cs_Next CsPrivateUploadQueued = Some CsPrivateUploading"
| "cs_Next CsPrivateUploading = Some CsPrivateUploaded"
| "cs_Next CsPrivateUploaded = Some CsThumbnailPending"
| "cs_Next CsThumbnailPending = Some CsThumbnailUploading"
| "cs_Next CsThumbnailUploading = Some CsThumbnailApplied"
| "cs_Next CsThumbnailApplied = Some CsReadyToPublish"
| "cs_Next CsReadyToPublish = Some CsPublishing"
| "cs_Next CsPublishing = Some CsPublished"
| "cs_Next _ = None"

definition cs_LegalTransitions ::
  "(DeliveryState list \<Rightarrow> DeliveryState list) \<Rightarrow> DeliveryState \<Rightarrow> DeliveryState list" where
  "cs_LegalTransitions shuffle s = sort_key cs_string (shuffle (cs_transitionMap s))"


section \<open>The machine\<close>

text \<open>The position on the happy path; the error exits come after it.\<close>

fun cs_phase :: "DeliveryState \<Rightarrow> nat" where
  "cs_phase CsDeliveryQueued = 0"
| "cs_phase CsTargetValidating = 1"
| "cs_phase CsTargetValidated = 2"
| "cs_phase CsMediaDownloading = 3"
| "cs_phase CsMediaVerified = 4"
| "cs_phase CsPrivateUploadQueued = 5"
| "cs_phase CsPrivateUploading = 6"
| "cs_phase CsPrivateUploaded = 7"
| "cs_phase CsThumbnailPending = 8"
| "cs_phase CsThumbnailUploading = 9"
| "cs_phase CsThumbnailApplied = 10"
| "cs_phase CsReadyToPublish = 11"
| "cs_phase CsPublishing = 12"
| "cs_phase _ = 13"

definition cs_distance :: "DeliveryState \<Rightarrow> nat" where
  "cs_distance s = 13 - cs_phase s"

interpretation cs: forward_graph cs_transitionMap cs_IsTerminal cs_Next CsPublished cs_distance
  cs_phase 13
proof
  show "cs_IsTerminal s \<Longrightarrow> cs_transitionMap s = []" for s by (auto simp: cs_IsTerminal_def)
  show "cs_Next s = Some t \<Longrightarrow> t \<in> set (cs_transitionMap s)" for s t by (cases s) auto
  show "cs_Next s = Some t \<Longrightarrow> cs_distance s = Suc (cs_distance t)" for s t
    by (cases s) (auto simp: cs_distance_def)
  show "cs_Next s = Some t \<Longrightarrow> cs_Next t = None \<Longrightarrow> t = CsPublished" for s t by (cases s) auto
  show "t \<in> set (cs_transitionMap s) \<Longrightarrow> cs_phase s < cs_phase t" for s t by (cases s) auto
  show "cs_phase s \<le> 13" for s by (cases s) auto
qed (simp add: cs_distance_def)

lemma cs_string_inject [simp]: "cs_string a = cs_string b \<longleftrightarrow> a = b"
  by (cases a; cases b) simp_all

lemma cs_all: "s \<in> set AllDeliveryStates"
  by (cases s) (simp_all add: AllDeliveryStates_def)

lemma cs_LegalTransitions_set:
  assumes "\<And>xs. mset (shuffle xs) = mset xs"
  shows "cs_LegalTransitions shuffle s = sort_key cs_string (cs_transitionMap s)"
  unfolding cs_LegalTransitions_def
  by (rule sort_key_order_independent) (simp_all add: assms inj_on_def)

text \<open>What the floor closes under: from the boundary on, only its states and two exits.\<close>

lemma cs_floor_step:
  "t \<in> set (cs_transitionMap s) \<Longrightarrow>
   cs_IsPrivateFloorReached s \<or> s \<in> {CsThumbnailFailed, CsPublishFailed} \<Longrightarrow>
   cs_IsPrivateFloorReached t \<or> t \<in> {CsThumbnailFailed, CsPublishFailed}"
  by (cases s) (auto simp: cs_IsPrivateFloorReached_def)

text \<open>
  The canonical delivery machine only moves forward. Every guarded run has at most
  thirteen steps and never returns to a state; a run ends for good in the terminal states,
  which are exactly those without a successor; from every happy-path state the happy path
  reaches \<open>published\<close>; and a run that has passed \<open>private_uploaded\<close> stays in states whose
  privacy floor is "private" or stops in \<open>thumbnail_failed\<close> or \<open>publish_failed\<close>, so it
  cannot be cancelled any more.
\<close>

theorem cs_machine_forward:
  "(legal_run cs_transitionMap s ts \<longrightarrow> length ts \<le> 13 \<and> (ts \<noteq> [] \<longrightarrow> run_end s ts \<noteq> s)) \<and>
   (cs_transitionMap s = [] \<longleftrightarrow> cs_IsTerminal s) \<and>
   (cs_Next s \<noteq> None \<longrightarrow> follow cs_Next (cs_distance s) s = Some CsPublished) \<and>
   (cs_IsPrivateFloorReached s \<and> legal_run cs_transitionMap s ts \<longrightarrow>
      cs_PrivacyFloor (run_end s ts) = ''private'' \<or>
      run_end s ts \<in> {CsThumbnailFailed, CsPublishFailed})"
proof (intro conjI impI)
  assume run: "legal_run cs_transitionMap s ts"
  then show "length ts \<le> 13" using cs.run_bounded by fastforce
  show "ts \<noteq> [] \<Longrightarrow> run_end s ts \<noteq> s" using cs.run_no_return [OF run] by simp
next
  show "cs_transitionMap s = [] \<longleftrightarrow> cs_IsTerminal s" by (cases s) (auto simp: cs_IsTerminal_def)
next
  show "cs_Next s \<noteq> None \<Longrightarrow> follow cs_Next (cs_distance s) s = Some CsPublished"
    by (rule cs.happy_reaches_goal)
next
  assume "cs_IsPrivateFloorReached s \<and> legal_run cs_transitionMap s ts"
  then have "cs_IsPrivateFloorReached (run_end s ts) \<or>
      run_end s ts \<in> {CsThumbnailFailed, CsPublishFailed}"
    using legal_run_invariant [of "\<lambda>s. cs_IsPrivateFloorReached s \<or> s \<in> {CsThumbnailFailed, CsPublishFailed}"
        cs_transitionMap s ts] cs_floor_step by blast
  then show "cs_PrivacyFloor (run_end s ts) = ''private'' \<or>
      run_end s ts \<in> {CsThumbnailFailed, CsPublishFailed}"
    by (auto simp: cs_PrivacyFloor_def)
qed

theorem cs_machine_forward_witness:
  "follow cs_Next 13 CsDeliveryQueued = Some CsPublished \<and>
   cs_PrivacyFloor (run_end CsPrivateUploaded [CsThumbnailPending]) = ''private''"
  using cs_machine_forward [of CsDeliveryQueued "[]"]
    cs_machine_forward [of CsPrivateUploaded "[CsThumbnailPending]"]
  by (simp add: cs_distance_def cs_PrivacyFloor_def cs_IsPrivateFloorReached_def)

text \<open>
  The floor is not kept by the two exits themselves: after a failed thumbnail or publish the
  guard lets every privacy through, although the video is on YouTube.
\<close>

lemma privacy_floor_gap:
  "cs_transitionMap CsPrivateUploaded = [CsThumbnailPending, CsThumbnailFailed] \<and>
   \<not> EnforcePrivacyInvariant CsPrivateUploaded ''public'' \<and>
   EnforcePrivacyInvariant CsThumbnailFailed ''public'' \<and>
   EnforcePrivacyInvariant CsPublishFailed ''public''"
  by (simp add: EnforcePrivacyInvariant_def cs_IsPrivateFloorReached_def) code_simp

text \<open>
  C33: the JSON boundary is a round trip. Decoding the string of a state gives that state
  back, whatever JSON text the string came from, and every text that decodes to a string
  which is no state, or to no string at all, is refused.
\<close>

theorem cs_json_roundtrip:
  "cs_UnmarshalJSON decode data = Some s \<longleftrightarrow> decode data = Some (cs_string s)"
proof -
  have "List.find (\<lambda>s. cs_string s = raw) AllDeliveryStates = Some s \<longleftrightarrow> raw = cs_string s" for raw
  proof
    assume "List.find (\<lambda>s. cs_string s = raw) AllDeliveryStates = Some s"
    then show "raw = cs_string s" by (auto simp: find_Some_iff)
  next
    assume raw: "raw = cs_string s"
    then have "List.find (\<lambda>s. cs_string s = raw) AllDeliveryStates \<noteq> None"
      using cs_all [of s] by (auto simp: find_None_iff)
    then obtain u where "List.find (\<lambda>s. cs_string s = raw) AllDeliveryStates = Some u" by blast
    moreover from this have "cs_string u = raw" by (auto simp: find_Some_iff)
    ultimately show "List.find (\<lambda>s. cs_string s = raw) AllDeliveryStates = Some s" using raw by simp
  qed
  then show ?thesis by (cases "decode data") (simp_all add: cs_UnmarshalJSON_def)
qed

end
