(* ===== verification/YouTubeStates.thy ===== *)
theory YouTubeStates
  imports StateGraph
begin

text \<open>
  The lifecycle of one video on one YouTube channel,
  \<open>internal/models/youtube_delivery_state.go\<close>: 17 states, the transition table of the worker
  and the separate table of the operator. The empty Go string is \<open>None\<close>.
\<close>

section \<open>States and tables\<close>

datatype YouTubeDeliveryState =
    YtPreflight | YtReadyToUpload | YtUploading | YtUploaded | YtProcessing
  | YtThumbnailPending | YtThumbnailReady | YtScheduled | YtPublished | YtVerified
  | YtRetryWait | YtQuotaWait | YtBlockedAuth | YtCopyrightReview | YtProcessingStuck
  | YtFailed | YtDeadLetter

fun yt_string :: "YouTubeDeliveryState \<Rightarrow> string" where
  "yt_string YtPreflight = ''preflight''"
| "yt_string YtReadyToUpload = ''ready_to_upload''"
| "yt_string YtUploading = ''uploading''"
| "yt_string YtUploaded = ''youtube_uploaded''"
| "yt_string YtProcessing = ''processing''"
| "yt_string YtThumbnailPending = ''thumbnail_pending''"
| "yt_string YtThumbnailReady = ''thumbnail_ready''"
| "yt_string YtScheduled = ''scheduled''"
| "yt_string YtPublished = ''published''"
| "yt_string YtVerified = ''verified''"
| "yt_string YtRetryWait = ''retry_wait''"
| "yt_string YtQuotaWait = ''quota_wait''"
| "yt_string YtBlockedAuth = ''blocked_auth''"
| "yt_string YtCopyrightReview = ''copyright_review''"
| "yt_string YtProcessingStuck = ''processing_stuck''"
| "yt_string YtFailed = ''failed''"
| "yt_string YtDeadLetter = ''dead_letter''"

definition yt_IsTerminal :: "YouTubeDeliveryState \<Rightarrow> bool" where
  "yt_IsTerminal s \<longleftrightarrow> s \<in> {YtVerified, YtFailed, YtDeadLetter}"

definition yt_IsSideState :: "YouTubeDeliveryState \<Rightarrow> bool" where
  "yt_IsSideState s \<longleftrightarrow>
     s \<in> {YtRetryWait, YtQuotaWait, YtBlockedAuth, YtCopyrightReview, YtProcessingStuck}"

fun youtubeDeliveryTransitionMap :: "YouTubeDeliveryState \<Rightarrow> YouTubeDeliveryState list" where
  "youtubeDeliveryTransitionMap YtPreflight =
     [YtReadyToUpload, YtQuotaWait, YtBlockedAuth, YtFailed]"
| "youtubeDeliveryTransitionMap YtReadyToUpload = [YtUploading, YtQuotaWait, YtBlockedAuth]"
| "youtubeDeliveryTransitionMap YtUploading =
     [YtUploaded, YtRetryWait, YtBlockedAuth, YtDeadLetter]"
| "youtubeDeliveryTransitionMap YtUploaded = [YtProcessing, YtCopyrightReview]"
| "youtubeDeliveryTransitionMap YtProcessing =
     [YtThumbnailPending, YtScheduled, YtProcessingStuck, YtCopyrightReview]"
| "youtubeDeliveryTransitionMap YtThumbnailPending = [YtThumbnailReady, YtRetryWait]"
| "youtubeDeliveryTransitionMap YtThumbnailReady = [YtScheduled]"
| "youtubeDeliveryTransitionMap YtScheduled = [YtPublished]"
| "youtubeDeliveryTransitionMap YtPublished = [YtVerified]"
| "youtubeDeliveryTransitionMap YtVerified = []"
| "youtubeDeliveryTransitionMap YtRetryWait =
     [YtReadyToUpload, YtUploading, YtThumbnailPending, YtDeadLetter]"
| "youtubeDeliveryTransitionMap YtQuotaWait = [YtReadyToUpload, YtThumbnailPending]"
| "youtubeDeliveryTransitionMap YtBlockedAuth = [YtPreflight, YtReadyToUpload, YtUploading]"
| "youtubeDeliveryTransitionMap YtCopyrightReview = [YtProcessing, YtScheduled]"
| "youtubeDeliveryTransitionMap YtProcessingStuck = [YtThumbnailPending, YtScheduled]"
| "youtubeDeliveryTransitionMap YtFailed = []"
| "youtubeDeliveryTransitionMap YtDeadLetter = []"

text \<open>A state without an entry in the operator's table has no operator transition.\<close>

definition youtubeDeliveryOperatorTransitionMap ::
  "YouTubeDeliveryState \<Rightarrow> YouTubeDeliveryState list option" where
  "youtubeDeliveryOperatorTransitionMap s = (if s = YtDeadLetter then Some [YtRetryWait] else None)"

definition yt_CanTransitionTo ::
  "YouTubeDeliveryState option \<Rightarrow> YouTubeDeliveryState option \<Rightarrow> bool" where
  "yt_CanTransitionTo s t \<longleftrightarrow>
     (case s of None \<Rightarrow> False | Some s \<Rightarrow>
        (case t of None \<Rightarrow> False | Some t \<Rightarrow> t \<in> set (youtubeDeliveryTransitionMap s)))"

definition CanOperatorTransitionTo ::
  "YouTubeDeliveryState option \<Rightarrow> YouTubeDeliveryState option \<Rightarrow> bool" where
  "CanOperatorTransitionTo s t \<longleftrightarrow>
     (case s of None \<Rightarrow> False | Some s \<Rightarrow>
        (case t of None \<Rightarrow> False | Some t \<Rightarrow>
           (case youtubeDeliveryOperatorTransitionMap s of
              None \<Rightarrow> False | Some ts \<Rightarrow> t \<in> set ts)))"

text \<open>\<open>shuffle\<close> is the iteration order of the Go map.\<close>

definition yt_LegalTransitions ::
  "(YouTubeDeliveryState list \<Rightarrow> YouTubeDeliveryState list) \<Rightarrow> YouTubeDeliveryState \<Rightarrow>
   YouTubeDeliveryState list" where
  "yt_LegalTransitions shuffle s = sort_key yt_string (shuffle (youtubeDeliveryTransitionMap s))"


section \<open>The graph\<close>

text \<open>The happy path of the source's comment, with the thumbnail branch.\<close>

fun yt_happy :: "YouTubeDeliveryState \<Rightarrow> YouTubeDeliveryState option" where
  "yt_happy YtPreflight = Some YtReadyToUpload"
| "yt_happy YtReadyToUpload = Some YtUploading"
| "yt_happy YtUploading = Some YtUploaded"
| "yt_happy YtUploaded = Some YtProcessing"
| "yt_happy YtProcessing = Some YtThumbnailPending"
| "yt_happy YtThumbnailPending = Some YtThumbnailReady"
| "yt_happy YtThumbnailReady = Some YtScheduled"
| "yt_happy YtScheduled = Some YtPublished"
| "yt_happy YtPublished = Some YtVerified"
| "yt_happy _ = None"

fun yt_distance :: "YouTubeDeliveryState \<Rightarrow> nat" where
  "yt_distance YtPreflight = 9"
| "yt_distance YtReadyToUpload = 8"
| "yt_distance YtUploading = 7"
| "yt_distance YtUploaded = 6"
| "yt_distance YtProcessing = 5"
| "yt_distance YtThumbnailPending = 4"
| "yt_distance YtThumbnailReady = 3"
| "yt_distance YtScheduled = 2"
| "yt_distance YtPublished = 1"
| "yt_distance _ = 0"

interpretation yt: state_graph youtubeDeliveryTransitionMap yt_IsTerminal yt_happy YtVerified
  yt_distance
proof
  show "yt_IsTerminal s \<Longrightarrow> youtubeDeliveryTransitionMap s = []" for s
    by (auto simp: yt_IsTerminal_def)
  show "yt_happy s = Some t \<Longrightarrow> t \<in> set (youtubeDeliveryTransitionMap s)" for s t
    by (cases s) auto
  show "yt_happy s = Some t \<Longrightarrow> yt_distance s = Suc (yt_distance t)" for s t by (cases s) auto
  show "yt_happy s = Some t \<Longrightarrow> yt_happy t = None \<Longrightarrow> t = YtVerified" for s t
    by (cases s) auto
qed simp

lemma yt_string_inject [simp]: "yt_string a = yt_string b \<longleftrightarrow> a = b"
  by (cases a; cases b) simp_all

lemma yt_LegalTransitions_set:
  assumes "\<And>xs. mset (shuffle xs) = mset xs"
  shows "yt_LegalTransitions shuffle s = sort_key yt_string (youtubeDeliveryTransitionMap s)"
  unfolding yt_LegalTransitions_def
  by (rule sort_key_order_independent) (simp_all add: assms inj_on_def)

text \<open>The two tables never allow the same move.\<close>

lemma operator_moves_disjoint: "\<not> (yt_CanTransitionTo s t \<and> CanOperatorTransitionTo s t)"
  by (auto simp: yt_CanTransitionTo_def CanOperatorTransitionTo_def
      youtubeDeliveryOperatorTransitionMap_def split: option.splits if_splits)

text \<open>The states in which nothing has been uploaded, and the two waiting states.\<close>

definition yt_before_upload :: "YouTubeDeliveryState set" where
  "yt_before_upload = {YtPreflight, YtReadyToUpload, YtUploading, YtBlockedAuth, YtFailed, YtDeadLetter}"

text \<open>A run that passes none of three states stays before the upload.\<close>

lemma no_upload_stays_before:
  "legal_run youtubeDeliveryTransitionMap s ts \<Longrightarrow> s \<in> yt_before_upload \<Longrightarrow>
   set ts \<inter> {YtUploaded, YtRetryWait, YtQuotaWait} = {} \<Longrightarrow> run_end s ts \<in> yt_before_upload"
proof (induction ts arbitrary: s)
  case (Cons t ts)
  then have "t \<in> set (youtubeDeliveryTransitionMap s)" and "t \<notin> {YtUploaded, YtRetryWait, YtQuotaWait}"
    by auto
  with Cons.prems(2) have "t \<in> yt_before_upload"
    by (cases s) (auto simp: yt_before_upload_def)
  then show ?case using Cons by simp
qed simp

text \<open>
  What the guard of the YouTube machine protects. From every state of the happy path the
  verified state is reachable in the listed number of guarded steps, and the three terminal
  states are exactly those the worker cannot leave. A delivery that reaches \<open>published\<close> from
  \<open>preflight\<close> has passed \<open>youtube_uploaded\<close> or one of the waiting states \<open>retry_wait\<close> and
  \<open>quota_wait\<close>; the exception is real, since both may resume in \<open>thumbnail_pending\<close>: the
  guard accepts a run to \<open>verified\<close> in which the video is never uploaded, and a run in which
  an uploaded video is uploaded again.
\<close>

theorem yt_guard_protects:
  "(yt_happy s \<noteq> None \<longrightarrow> follow yt_happy (yt_distance s) s = Some YtVerified) \<and>
   (youtubeDeliveryTransitionMap s = [] \<longleftrightarrow> yt_IsTerminal s) \<and>
   (legal_run youtubeDeliveryTransitionMap YtPreflight ts \<and>
    run_end YtPreflight ts \<in> {YtPublished, YtVerified} \<longrightarrow>
      set ts \<inter> {YtUploaded, YtRetryWait, YtQuotaWait} \<noteq> {}) \<and>
   (let skip = [YtQuotaWait, YtThumbnailPending, YtThumbnailReady, YtScheduled, YtPublished,
                YtVerified]
    in legal_run youtubeDeliveryTransitionMap YtPreflight skip \<and> YtUploaded \<notin> set skip) \<and>
   legal_run youtubeDeliveryTransitionMap YtUploaded
     [YtProcessing, YtThumbnailPending, YtRetryWait, YtUploading, YtUploaded]"
proof (intro conjI impI)
  show "yt_happy s \<noteq> None \<Longrightarrow> follow yt_happy (yt_distance s) s = Some YtVerified"
    by (rule yt.happy_reaches_goal)
  show "youtubeDeliveryTransitionMap s = [] \<longleftrightarrow> yt_IsTerminal s"
    by (cases s) (auto simp: yt_IsTerminal_def)
next
  assume run: "legal_run youtubeDeliveryTransitionMap YtPreflight ts \<and>
    run_end YtPreflight ts \<in> {YtPublished, YtVerified}"
  show "set ts \<inter> {YtUploaded, YtRetryWait, YtQuotaWait} \<noteq> {}"
  proof
    assume "set ts \<inter> {YtUploaded, YtRetryWait, YtQuotaWait} = {}"
    with run have "run_end YtPreflight ts \<in> yt_before_upload"
      by (intro no_upload_stays_before) (simp_all add: yt_before_upload_def)
    with run show False by (auto simp: yt_before_upload_def)
  qed
qed simp_all

theorem yt_guard_protects_witness:
  "follow yt_happy 9 YtPreflight = Some YtVerified \<and>
   set [YtReadyToUpload, YtUploading, YtUploaded, YtProcessing, YtScheduled, YtPublished] \<inter>
     {YtUploaded, YtRetryWait, YtQuotaWait} \<noteq> {}"
  using yt_guard_protects [of YtPreflight
      "[YtReadyToUpload, YtUploading, YtUploaded, YtProcessing, YtScheduled, YtPublished]"]
  by simp

end
