(* ===== verification/YouTubeQueue.thy ===== *)
theory YouTubeQueue
  imports YouTubeStates Leases
begin

text \<open>
  The table \<open>youtube_target_publications\<close>: one row per video and channel, the unit of work
  of the delivery pool. The operations of \<open>internal/repository/youtube_delivery_queue.go\<close>
  and of \<open>youtube_target_publication_repo.go\<close> and \<open>youtube_target_publication_state.go\<close>.
  All times of the queue come from the database clock \<open>now\<close>; \<open>next_attempt_at\<close> comes
  from the caller.
\<close>

section \<open>The table\<close>

record ytpub =
  yt_id :: int
  yt_upload_job_id :: int
  yt_post_target_id :: int
  yt_account_id :: int
  yt_video_id :: "string option"
  yt_upload_status :: string
  yt_processing_status :: "string option"
  yt_uploaded_at :: "time option"
  yt_processed_at :: "time option"
  yt_editor_session_id :: "string option"
  yt_velox_project_id :: "string option"
  yt_thumbnail_media_id :: "string option"
  yt_thumbnail_status :: "string option"
  yt_desired_privacy :: string
  yt_publish_at :: "time option"
  yt_native_publish_at :: "time option"
  yt_published_at :: "time option"
  yt_last_error :: string
  yt_attempt_count :: int
  yt_state :: YouTubeDeliveryState
  yt_priority :: int
  yt_prepare_at :: "time option"
  yt_next_attempt_at :: "time option"
  yt_max_attempts :: int
  yt_lease_owner :: "string option"
  yt_lease_expires_at :: "time option"
  yt_heartbeat_at :: "time option"
  yt_resume_state :: "YouTubeDeliveryState option"
  yt_last_error_code :: "string option"
  yt_last_transition_at :: time
  yt_verified_at :: "time option"
  yt_original_publish_at :: "time option"
  yt_spillover_count :: int
  yt_created_at :: time
  yt_updated_at :: time

datatype yt_err =
    YtNotFound | YtEmptyVideoID | YtInvalidArgument | YtDuplicate | YtDatabase

text \<open>\<open>int(lease.Seconds())\<close>, at least one second.\<close>

definition yt_lease_seconds :: "duration \<Rightarrow> int" where
  "yt_lease_seconds lease = max 1 (lease div second)"


section \<open>The queue\<close>

definition youtubeDeliveryClaimStates :: "YouTubeDeliveryState set" where
  "youtubeDeliveryClaimStates = {YtPreflight, YtReadyToUpload, YtRetryWait, YtQuotaWait}"

definition yt_claimable :: "time \<Rightarrow> ytpub \<Rightarrow> bool" where
  "yt_claimable now r \<longleftrightarrow>
     yt_state r \<in> youtubeDeliveryClaimStates \<and>
     null_or (\<lambda>t. t \<le> now) (yt_prepare_at r) \<and>
     null_or (\<lambda>t. t \<le> now) (yt_next_attempt_at r) \<and>
     null_or (\<lambda>t. t < now) (yt_lease_expires_at r)"

text \<open>\<open>ORDER BY priority ASC, publish_at ASC NULLS LAST, id ASC\<close>.\<close>

definition yt_order :: "ytpub \<Rightarrow> int \<times> bool \<times> time option \<times> int" where
  "yt_order r = (yt_priority r, yt_publish_at r = None, yt_publish_at r, yt_id r)"

definition yt_claim_stamp :: "time \<Rightarrow> string \<Rightarrow> int \<Rightarrow> ytpub \<Rightarrow> ytpub" where
  "yt_claim_stamp now worker secs r =
     r\<lparr>yt_state := YtUploading, yt_lease_owner := Some worker,
       yt_lease_expires_at := Some (now + secs * second), yt_heartbeat_at := Some now,
       yt_last_transition_at := now\<rparr>"

definition yt_batch :: "time \<Rightarrow> (int \<Rightarrow> bool) \<Rightarrow> int \<Rightarrow> ytpub list \<Rightarrow> int list" where
  "yt_batch now locked limit t =
     map yt_id (top_by yt_order (nat limit)
       (filter (\<lambda>r. yt_claimable now r \<and> \<not> locked (yt_id r)) t))"

definition ClaimReadyDeliveries ::
  "db_fault \<Rightarrow> time \<Rightarrow> (int \<Rightarrow> bool) \<Rightarrow> string \<Rightarrow> int \<Rightarrow> duration \<Rightarrow> ytpub list \<Rightarrow>
   (yt_err + ytpub list) \<times> ytpub list" where
  "ClaimReadyDeliveries flt now locked worker limit lease t =
     (if worker = '''' \<or> limit \<le> 0 \<or> lease \<le> 0 then (Inl YtInvalidArgument, t)
      else
        let ids = yt_batch now locked limit t;
            (n, t') = exec_update flt (\<lambda>r. yt_id r \<in> set ids)
                        (yt_claim_stamp now worker (yt_lease_seconds lease)) t
        in (case n of
              None \<Rightarrow> Inl YtDatabase
            | Some _ \<Rightarrow> Inr (filter (\<lambda>r. yt_id r \<in> set ids) t'), t'))"

text \<open>The writes of a lease holder: \<open>WHERE id = $1 AND lease_owner = $2\<close>.\<close>

datatype yt_write =
    YwHeartbeat int | YwRelease | YwUploaded string | YwFailed string string time
  | YwQuotaWait time | YwBlockedAuth string

definition yt_holds :: "int \<Rightarrow> string \<Rightarrow> ytpub \<Rightarrow> bool" where
  "yt_holds i worker r \<longleftrightarrow> yt_id r = i \<and> yt_lease_owner r = Some worker"

definition yt_unlease :: "time \<Rightarrow> ytpub \<Rightarrow> ytpub" where
  "yt_unlease now r =
     r\<lparr>yt_lease_owner := None, yt_lease_expires_at := None, yt_heartbeat_at := None,
       yt_last_transition_at := now\<rparr>"

fun yt_set :: "time \<Rightarrow> yt_write \<Rightarrow> ytpub \<Rightarrow> ytpub" where
  "yt_set now (YwHeartbeat secs) r =
     r\<lparr>yt_heartbeat_at := Some now, yt_lease_expires_at := Some (now + secs * second)\<rparr>"
| "yt_set now YwRelease r =
     r\<lparr>yt_lease_owner := None, yt_lease_expires_at := None, yt_heartbeat_at := None\<rparr>"
| "yt_set now (YwUploaded video) r =
     yt_unlease now (r\<lparr>yt_video_id := Some video, yt_upload_status := ''youtube_uploaded'',
       yt_uploaded_at := coalesce (yt_uploaded_at r) (Some now),
       yt_attempt_count := yt_attempt_count r + 1, yt_state := YtUploaded\<rparr>)"
| "yt_set now (YwFailed code msg nxt) r =
     yt_unlease now (r\<lparr>yt_attempt_count := yt_attempt_count r + 1, yt_last_error := msg,
       yt_last_error_code := Some code, yt_next_attempt_at := Some nxt,
       yt_state := (if yt_attempt_count r + 1 \<ge> yt_max_attempts r then YtDeadLetter
                    else YtRetryWait)\<rparr>)"
| "yt_set now (YwQuotaWait nxt) r =
     yt_unlease now (r\<lparr>yt_state := YtQuotaWait, yt_resume_state := Some YtReadyToUpload,
       yt_next_attempt_at := Some nxt, yt_last_error_code := Some ''quota_exceeded'',
       yt_last_error := ''youtube quota bucket video_uploads exhausted; delivery parked until daily reset''\<rparr>)"
| "yt_set now (YwBlockedAuth reason) r =
     yt_unlease now (r\<lparr>yt_attempt_count := yt_attempt_count r + 1, yt_last_error := reason,
       yt_last_error_code := Some ''blocked_auth'', yt_state := YtFailed\<rparr>)"

text \<open>\<open>checkRowsAffected\<close>: no row is the error "not found".\<close>

definition checkRowsAffected :: "nat option \<Rightarrow> yt_err + unit" where
  "checkRowsAffected n =
     (case n of None \<Rightarrow> Inl YtDatabase | Some k \<Rightarrow> if k = 0 then Inl YtNotFound else Inr ())"

definition exec_yt_write ::
  "db_fault \<Rightarrow> time \<Rightarrow> int \<Rightarrow> string \<Rightarrow> yt_write \<Rightarrow> ytpub list \<Rightarrow> (yt_err + unit) \<times> ytpub list" where
  "exec_yt_write flt now i worker w t =
     (let (n, t') = exec_update flt (yt_holds i worker) (yt_set now w) t
      in (checkRowsAffected n, t'))"

definition HeartbeatDelivery ::
  "db_fault \<Rightarrow> time \<Rightarrow> int \<Rightarrow> string \<Rightarrow> duration \<Rightarrow> ytpub list \<Rightarrow> (yt_err + bool) \<times> ytpub list" where
  "HeartbeatDelivery flt now i worker lease t =
     (if worker = '''' \<or> lease \<le> 0 then (Inl YtInvalidArgument, t)
      else
        let (n, t') = exec_update flt (yt_holds i worker)
                        (yt_set now (YwHeartbeat (yt_lease_seconds lease))) t
        in (case n of None \<Rightarrow> Inl YtDatabase | Some k \<Rightarrow> Inr (k > 0), t'))"

definition ReleaseDeliveryLease ::
  "db_fault \<Rightarrow> time \<Rightarrow> int \<Rightarrow> string \<Rightarrow> ytpub list \<Rightarrow> (yt_err + unit) \<times> ytpub list" where
  "ReleaseDeliveryLease flt now i worker = exec_yt_write flt now i worker YwRelease"

definition MarkDeliveryUploaded ::
  "db_fault \<Rightarrow> time \<Rightarrow> int \<Rightarrow> string \<Rightarrow> string \<Rightarrow> ytpub list \<Rightarrow> (yt_err + unit) \<times> ytpub list" where
  "MarkDeliveryUploaded flt now i worker video t =
     (if video = '''' then (Inl YtEmptyVideoID, t)
      else exec_yt_write flt now i worker (YwUploaded video) t)"

definition MarkDeliveryFailed ::
  "db_fault \<Rightarrow> time \<Rightarrow> int \<Rightarrow> string \<Rightarrow> string \<Rightarrow> string \<Rightarrow> time \<Rightarrow> ytpub list \<Rightarrow>
   (yt_err + unit) \<times> ytpub list" where
  "MarkDeliveryFailed flt now i worker code msg nxt =
     exec_yt_write flt now i worker (YwFailed code msg nxt)"

definition MarkDeliveryQuotaWait ::
  "db_fault \<Rightarrow> time \<Rightarrow> int \<Rightarrow> string \<Rightarrow> time \<Rightarrow> ytpub list \<Rightarrow> (yt_err + unit) \<times> ytpub list" where
  "MarkDeliveryQuotaWait flt now i worker nxt = exec_yt_write flt now i worker (YwQuotaWait nxt)"

definition MarkDeliveryBlockedAuth ::
  "db_fault \<Rightarrow> time \<Rightarrow> int \<Rightarrow> string \<Rightarrow> string \<Rightarrow> ytpub list \<Rightarrow> (yt_err + unit) \<times> ytpub list" where
  "MarkDeliveryBlockedAuth flt now i worker reason =
     exec_yt_write flt now i worker (YwBlockedAuth reason)"

text \<open>
  The reaper. Its selection has no \<open>ORDER BY\<close>: \<open>rank\<close> is the order in which the database
  happens to return the rows.
\<close>

definition yt_expired :: "time \<Rightarrow> ytpub \<Rightarrow> bool" where
  "yt_expired now r \<longleftrightarrow>
     yt_state r = YtUploading \<and> some_and (\<lambda>t. t < now) (yt_lease_expires_at r)"

definition yt_reclaim_batch ::
  "time \<Rightarrow> (int \<Rightarrow> int) \<Rightarrow> (int \<Rightarrow> bool) \<Rightarrow> int \<Rightarrow> ytpub list \<Rightarrow> int list" where
  "yt_reclaim_batch now rank locked maxRows t =
     map yt_id (top_by (\<lambda>r. rank (yt_id r)) (nat (if maxRows \<le> 0 then 1 else maxRows))
       (filter (\<lambda>r. yt_expired now r \<and> \<not> locked (yt_id r)) t))"

definition ReclaimExpiredDeliveryLeases ::
  "db_fault \<Rightarrow> time \<Rightarrow> (int \<Rightarrow> int) \<Rightarrow> (int \<Rightarrow> bool) \<Rightarrow> int \<Rightarrow> ytpub list \<Rightarrow>
   (yt_err + nat) \<times> ytpub list" where
  "ReclaimExpiredDeliveryLeases flt now rank locked maxRows t =
     (let ids = yt_reclaim_batch now rank locked maxRows t;
          (n, t') = exec_update flt (\<lambda>r. yt_id r \<in> set ids)
                      (\<lambda>r. yt_unlease now (r\<lparr>yt_state := YtReadyToUpload\<rparr>)) t
      in (case n of None \<Rightarrow> Inl YtDatabase | Some k \<Rightarrow> Inr k, t'))"

section \<open>Creation, look-ups and the per-phase observations\<close>

text \<open>
  The two UNIQUE constraints of the table, on \<open>post_target_id\<close> and on the editor session
  where it is set. \<open>Create\<close>: the caller supplies every column but the ids and the stamps.
\<close>

definition yt_unique :: "ytpub list \<Rightarrow> bool" where
  "yt_unique t \<longleftrightarrow>
     distinct (map yt_post_target_id t) \<and>
     distinct (filter (\<lambda>s. s \<noteq> None) (map yt_editor_session_id t))"

definition yt_Create ::
  "db_fault \<Rightarrow> time \<Rightarrow> int \<Rightarrow> ytpub \<Rightarrow> ytpub list \<Rightarrow> (yt_err + int) \<times> ytpub list" where
  "yt_Create flt now fresh pub t =
     (let row = pub\<lparr>yt_id := fresh, yt_uploaded_at := None, yt_processed_at := None,
                  yt_published_at := None, yt_next_attempt_at := None, yt_lease_owner := None,
                  yt_lease_expires_at := None, yt_heartbeat_at := None,
                  yt_resume_state := None, yt_last_error_code := None,
                  yt_last_transition_at := now, yt_verified_at := None,
                  yt_original_publish_at := None, yt_spillover_count := 0,
                  yt_created_at := now, yt_updated_at := now\<rparr>
      in if flt = DbFailed then (Inl YtDatabase, t)
         else if \<not> yt_unique (t @ [row]) then (Inl YtDuplicate, t)
         else (if flt = DbLost then Inl YtDatabase else Inr fresh, t @ [row]))"

definition yt_FindByID :: "int \<Rightarrow> ytpub list \<Rightarrow> ytpub option" where
  "yt_FindByID = find_row yt_id"

definition FindByPostTargetID :: "int \<Rightarrow> ytpub list \<Rightarrow> ytpub option" where
  "FindByPostTargetID = find_row yt_post_target_id"

definition FindByYouTubeVideoID :: "string \<Rightarrow> ytpub list \<Rightarrow> ytpub option" where
  "FindByYouTubeVideoID video = find_row yt_video_id (Some video)"

definition ListByPostTargetIDs :: "int list \<Rightarrow> ytpub list \<Rightarrow> ytpub list" where
  "ListByPostTargetIDs ids t =
     (if ids = [] then [] else sort_key yt_id (filter (\<lambda>r. yt_post_target_id r \<in> set ids) t))"

definition ListByUploadJobID :: "int \<Rightarrow> ytpub list \<Rightarrow> ytpub list" where
  "ListByUploadJobID job t = sort_key yt_id (filter (\<lambda>r. yt_upload_job_id r = job) t)"

definition ListPendingEditorSessionTargets :: "int \<Rightarrow> ytpub list \<Rightarrow> ytpub list" where
  "ListPendingEditorSessionTargets limit t =
     top_by yt_id (nat (if limit \<le> 0 then 100 else limit))
       (filter (\<lambda>r. yt_processing_status r = Some ''processed'' \<and> yt_editor_session_id r = None) t)"

text \<open>The remaining writes name the row by its id only.\<close>

datatype yt_mark =
    YmUpdate ytpub | YmUploaded string | YmThumbnailReady string | YmIncrementAttempt string
  | YmUploadedAtomic string | YmClearUpload | YmPublished | YmProcessed
  | YmEditorSession string string

fun yt_mark_guard :: "int \<Rightarrow> yt_mark \<Rightarrow> ytpub \<Rightarrow> bool" where
  "yt_mark_guard i (YmEditorSession _ _) r \<longleftrightarrow> yt_id r = i \<and> yt_editor_session_id r = None"
| "yt_mark_guard i _ r \<longleftrightarrow> yt_id r = i"

fun yt_mark_set :: "time \<Rightarrow> yt_mark \<Rightarrow> ytpub \<Rightarrow> ytpub" where
  "yt_mark_set now (YmUpdate pub) r =
     r\<lparr>yt_upload_job_id := yt_upload_job_id pub, yt_post_target_id := yt_post_target_id pub,
       yt_account_id := yt_account_id pub, yt_video_id := yt_video_id pub,
       yt_upload_status := yt_upload_status pub, yt_processing_status := yt_processing_status pub,
       yt_editor_session_id := yt_editor_session_id pub, yt_velox_project_id := yt_velox_project_id pub,
       yt_thumbnail_media_id := yt_thumbnail_media_id pub,
       yt_thumbnail_status := yt_thumbnail_status pub, yt_desired_privacy := yt_desired_privacy pub,
       yt_publish_at := yt_publish_at pub, yt_native_publish_at := yt_native_publish_at pub,
       yt_published_at := yt_published_at pub, yt_last_error := yt_last_error pub,
       yt_attempt_count := yt_attempt_count pub, yt_updated_at := now\<rparr>"
| "yt_mark_set now (YmUploaded video) r =
     r\<lparr>yt_video_id := Some video, yt_upload_status := ''youtube_uploaded'',
       yt_uploaded_at := coalesce (yt_uploaded_at r) (Some now), yt_updated_at := now\<rparr>"
| "yt_mark_set now (YmThumbnailReady media) r =
     r\<lparr>yt_thumbnail_media_id := Some media, yt_thumbnail_status := Some ''thumbnail_ready'',
       yt_updated_at := now\<rparr>"
| "yt_mark_set now (YmIncrementAttempt msg) r =
     r\<lparr>yt_attempt_count := yt_attempt_count r + 1, yt_last_error := msg, yt_updated_at := now\<rparr>"
| "yt_mark_set now (YmUploadedAtomic video) r =
     r\<lparr>yt_attempt_count := yt_attempt_count r + 1, yt_video_id := Some video,
       yt_upload_status := ''youtube_uploaded'',
       yt_uploaded_at := coalesce (yt_uploaded_at r) (Some now), yt_updated_at := now\<rparr>"
| "yt_mark_set now YmClearUpload r =
     r\<lparr>yt_video_id := None, yt_upload_status := ''upload_session_initiated'',
       yt_attempt_count := 0, yt_updated_at := now\<rparr>"
| "yt_mark_set now YmPublished r = r\<lparr>yt_published_at := Some now, yt_updated_at := now\<rparr>"
| "yt_mark_set now YmProcessed r =
     r\<lparr>yt_processing_status := Some ''processed'',
       yt_processed_at := coalesce (yt_processed_at r) (Some now), yt_updated_at := now\<rparr>"
| "yt_mark_set now (YmEditorSession session project) r =
     r\<lparr>yt_editor_session_id := Some session, yt_velox_project_id := Some project,
       yt_updated_at := now\<rparr>"

definition exec_yt_mark ::
  "db_fault \<Rightarrow> time \<Rightarrow> int \<Rightarrow> yt_mark \<Rightarrow> ytpub list \<Rightarrow> (yt_err + unit) \<times> ytpub list" where
  "exec_yt_mark flt now i m t =
     (let (n, t') = exec_update flt (yt_mark_guard i m) (yt_mark_set now m) t
      in if \<not> yt_unique t' then (Inl YtDuplicate, t) else (checkRowsAffected n, t'))"

definition yt_Update ::
  "db_fault \<Rightarrow> time \<Rightarrow> ytpub \<Rightarrow> ytpub list \<Rightarrow> (yt_err + unit) \<times> ytpub list" where
  "yt_Update flt now pub = exec_yt_mark flt now (yt_id pub) (YmUpdate pub)"

definition MarkYouTubeUploaded ::
  "db_fault \<Rightarrow> time \<Rightarrow> int \<Rightarrow> string \<Rightarrow> ytpub list \<Rightarrow> (yt_err + unit) \<times> ytpub list" where
  "MarkYouTubeUploaded flt now i video = exec_yt_mark flt now i (YmUploaded video)"

definition MarkThumbnailReady ::
  "db_fault \<Rightarrow> time \<Rightarrow> int \<Rightarrow> string \<Rightarrow> ytpub list \<Rightarrow> (yt_err + unit) \<times> ytpub list" where
  "MarkThumbnailReady flt now i media = exec_yt_mark flt now i (YmThumbnailReady media)"

definition IncrementAttempt ::
  "db_fault \<Rightarrow> time \<Rightarrow> int \<Rightarrow> string \<Rightarrow> ytpub list \<Rightarrow> (yt_err + unit) \<times> ytpub list" where
  "IncrementAttempt flt now i msg = exec_yt_mark flt now i (YmIncrementAttempt msg)"

definition MarkYouTubeUploadedAtomic ::
  "db_fault \<Rightarrow> time \<Rightarrow> int \<Rightarrow> string \<Rightarrow> ytpub list \<Rightarrow> (yt_err + unit) \<times> ytpub list" where
  "MarkYouTubeUploadedAtomic flt now i video t =
     (if video = '''' then (Inl YtEmptyVideoID, t)
      else exec_yt_mark flt now i (YmUploadedAtomic video) t)"

definition ClearYouTubeUpload ::
  "db_fault \<Rightarrow> time \<Rightarrow> int \<Rightarrow> ytpub list \<Rightarrow> (yt_err + unit) \<times> ytpub list" where
  "ClearYouTubeUpload flt now i = exec_yt_mark flt now i YmClearUpload"

definition yt_MarkPublished ::
  "db_fault \<Rightarrow> time \<Rightarrow> int \<Rightarrow> ytpub list \<Rightarrow> (yt_err + unit) \<times> ytpub list" where
  "yt_MarkPublished flt now i = exec_yt_mark flt now i YmPublished"

definition MarkYouTubeProcessed ::
  "db_fault \<Rightarrow> time \<Rightarrow> int \<Rightarrow> ytpub list \<Rightarrow> (yt_err + unit) \<times> ytpub list" where
  "MarkYouTubeProcessed flt now i = exec_yt_mark flt now i YmProcessed"

definition MarkEditorSessionCreated ::
  "db_fault \<Rightarrow> time \<Rightarrow> int \<Rightarrow> string \<Rightarrow> string \<Rightarrow> ytpub list \<Rightarrow> (yt_err + unit) \<times> ytpub list" where
  "MarkEditorSessionCreated flt now i session project =
     exec_yt_mark flt now i (YmEditorSession session project)"

section \<open>One operation, seen from a row\<close>

text \<open>The statements that reach the table. A sequence never returns a used id.\<close>

datatype yt_op =
    YoCreate int ytpub | YoClaim "int \<Rightarrow> bool" string int duration
  | YoHeartbeat int string duration | YoRelease int string | YoUploaded int string string
  | YoFailed int string string string time | YoQuotaWait int string time
  | YoBlockedAuth int string string | YoReclaim "int \<Rightarrow> int" "int \<Rightarrow> bool" int | YoMark int yt_mark

fun yt_exec :: "db_fault \<times> time \<times> yt_op \<Rightarrow> ytpub list \<Rightarrow> ytpub list" where
  "yt_exec (flt, now, YoCreate fresh pub) t =
     (if fresh \<in> set (map yt_id t) then t else snd (yt_Create flt now fresh pub t))"
| "yt_exec (flt, now, YoClaim locked w limit lease) t =
     snd (ClaimReadyDeliveries flt now locked w limit lease t)"
| "yt_exec (flt, now, YoHeartbeat i w lease) t = snd (HeartbeatDelivery flt now i w lease t)"
| "yt_exec (flt, now, YoRelease i w) t = snd (ReleaseDeliveryLease flt now i w t)"
| "yt_exec (flt, now, YoUploaded i w v) t = snd (MarkDeliveryUploaded flt now i w v t)"
| "yt_exec (flt, now, YoFailed i w c m nxt) t = snd (MarkDeliveryFailed flt now i w c m nxt t)"
| "yt_exec (flt, now, YoQuotaWait i w nxt) t = snd (MarkDeliveryQuotaWait flt now i w nxt t)"
| "yt_exec (flt, now, YoBlockedAuth i w m) t = snd (MarkDeliveryBlockedAuth flt now i w m t)"
| "yt_exec (flt, now, YoReclaim rank locked rows) t =
     snd (ReclaimExpiredDeliveryLeases flt now rank locked rows t)"
| "yt_exec (flt, now, YoMark i m) t = snd (exec_yt_mark flt now i m t)"

definition yt_run :: "(db_fault \<times> time \<times> yt_op) list \<Rightarrow> ytpub list \<Rightarrow> ytpub list" where
  "yt_run ops t = fold yt_exec ops t"

text \<open>What a row can become.\<close>

inductive yt_row_step :: "ytpub \<Rightarrow> ytpub \<Rightarrow> bool" where
  same: "yt_row_step r r"
| claim: "yt_claimable now r \<Longrightarrow> yt_row_step r (yt_claim_stamp now w secs r)"
| held: "yt_lease_owner r = Some w \<Longrightarrow> yt_row_step r (yt_set now wr r)"
| reclaim: "yt_expired now r \<Longrightarrow>
    yt_row_step r (yt_unlease now (r\<lparr>yt_state := YtReadyToUpload\<rparr>))"
| mark: "yt_row_step r (yt_mark_set now m r)"

lemma yt_set_id [simp]: "yt_id (yt_set now wr r) = yt_id r"
  by (cases wr) (simp_all add: yt_unlease_def)

lemma yt_mark_set_id [simp]: "yt_id (yt_mark_set now m r) = yt_id r"
  by (cases m) simp_all

lemma yt_unlease_simps [simp]:
  "yt_id (yt_unlease now r) = yt_id r" "yt_state (yt_unlease now r) = yt_state r"
  "yt_lease_owner (yt_unlease now r) = None" "yt_lease_expires_at (yt_unlease now r) = None"
  "yt_attempt_count (yt_unlease now r) = yt_attempt_count r"
  "yt_upload_status (yt_unlease now r) = yt_upload_status r"
  "yt_video_id (yt_unlease now r) = yt_video_id r"
  "yt_max_attempts (yt_unlease now r) = yt_max_attempts r"
  by (simp_all add: yt_unlease_def)

lemma yt_claim_stamp_simps [simp]:
  "yt_id (yt_claim_stamp now w secs r) = yt_id r"
  "yt_state (yt_claim_stamp now w secs r) = YtUploading"
  "yt_lease_owner (yt_claim_stamp now w secs r) = Some w"
  "yt_lease_expires_at (yt_claim_stamp now w secs r) = Some (now + secs * second)"
  "yt_attempt_count (yt_claim_stamp now w secs r) = yt_attempt_count r"
  "yt_upload_status (yt_claim_stamp now w secs r) = yt_upload_status r"
  "yt_video_id (yt_claim_stamp now w secs r) = yt_video_id r"
  by (simp_all add: yt_claim_stamp_def)

lemma yt_mark_set_keeps [simp]:
  "yt_state (yt_mark_set now m r) = yt_state r"
  "yt_lease_owner (yt_mark_set now m r) = yt_lease_owner r"
  "yt_lease_expires_at (yt_mark_set now m r) = yt_lease_expires_at r"
  by (cases m; simp)+

interpretation yt_lease: lease_cas yt_id yt_lease_owner
  "\<lambda>now w (i, wr). yt_holds i w" "\<lambda>now w (i, wr). yt_set now wr"
proof
  show "(case a of (i, wr) \<Rightarrow> yt_holds i w) r \<Longrightarrow> yt_lease_owner r = Some w"
    for now :: time and w a r
    by (auto simp: yt_holds_def split: prod.splits)
  show "yt_id ((case a of (i, wr) \<Rightarrow> yt_set now wr) r) = yt_id r" for now a r
    by (cases a) auto
qed

definition yt_update_shape :: "ytpub list \<Rightarrow> ytpub list \<Rightarrow> bool" where
  "yt_update_shape t t' \<longleftrightarrow>
     (\<exists>p f. t' = update_where p f t \<and> (\<forall>r. yt_id (f r) = yt_id r) \<and>
            (\<forall>r \<in> set t. p r \<longrightarrow> yt_row_step r (f r)))"

definition yt_insert_shape :: "ytpub list \<Rightarrow> ytpub list \<Rightarrow> bool" where
  "yt_insert_shape t t' \<longleftrightarrow>
     (\<exists>row. t' = t @ [row] \<and> yt_id row \<notin> set (map yt_id t) \<and> yt_lease_owner row = None \<and>
            yt_lease_expires_at row = None)"

lemma yt_update_shape_refl: "yt_update_shape t t"
  unfolding yt_update_shape_def
  by (rule exI [of _ "\<lambda>r. False"], rule exI [of _ id]) (simp add: update_where_none)

lemma yt_update_shapeI:
  assumes "\<And>r. yt_id (f r) = yt_id r" and "\<And>r. r \<in> set t \<Longrightarrow> p r \<Longrightarrow> yt_row_step r (f r)"
  shows "yt_update_shape t (update_where p f t)"
  using assms unfolding yt_update_shape_def by blast

lemma exec_yt_write_shape: "yt_update_shape t (snd (exec_yt_write flt now i w wr t))"
proof -
  have "yt_update_shape t (update_where (yt_holds i w) (yt_set now wr) t)"
    by (rule yt_update_shapeI) (auto simp: yt_holds_def intro: yt_row_step.held)
  then show ?thesis
    by (cases flt) (simp_all add: exec_yt_write_def yt_update_shape_refl)
qed

lemma ClaimReadyDeliveries_shape:
  assumes "distinct (map yt_id t)"
  shows "yt_update_shape t (snd (ClaimReadyDeliveries flt now locked w limit lease t))"
proof -
  let ?ids = "yt_batch now locked limit t"
  have "yt_claimable now r" if "r \<in> set t" "yt_id r \<in> set ?ids" for r
    using top_by_id_filter [OF assms that(1)] that(2) unfolding yt_batch_def by blast
  then have "yt_update_shape t (update_where (\<lambda>r. yt_id r \<in> set ?ids)
      (yt_claim_stamp now w (yt_lease_seconds lease)) t)"
    by (intro yt_update_shapeI yt_row_step.claim) simp_all
  then show ?thesis
    by (simp add: ClaimReadyDeliveries_def yt_update_shape_refl Let_def snd_case_exec
        exec_update_table)
qed

lemma Reclaim_shape:
  assumes "distinct (map yt_id t)"
  shows "yt_update_shape t (snd (ReclaimExpiredDeliveryLeases flt now rank locked rows t))"
proof -
  let ?ids = "yt_reclaim_batch now rank locked rows t"
  have "yt_expired now r" if "r \<in> set t" "yt_id r \<in> set ?ids" for r
    using top_by_id_filter [OF assms that(1)] that(2) unfolding yt_reclaim_batch_def by blast
  then have "yt_update_shape t (update_where (\<lambda>r. yt_id r \<in> set ?ids)
      (\<lambda>r. yt_unlease now (r\<lparr>yt_state := YtReadyToUpload\<rparr>)) t)"
    by (intro yt_update_shapeI yt_row_step.reclaim) simp_all
  then show ?thesis
    by (simp add: ReclaimExpiredDeliveryLeases_def Let_def snd_case_exec exec_update_table
        yt_update_shape_refl)
qed

lemma exec_yt_mark_shape: "yt_update_shape t (snd (exec_yt_mark flt now i m t))"
proof -
  have "yt_update_shape t (update_where (yt_mark_guard i m) (yt_mark_set now m) t)"
    by (rule yt_update_shapeI) (auto intro: yt_row_step.mark)
  then show ?thesis
    by (cases flt) (simp_all add: exec_yt_mark_def yt_update_shape_refl)
qed

text \<open>Every statement updates rows along \<open>yt_row_step\<close> or inserts one fresh unleased row.\<close>

lemma yt_exec_shape:
  assumes "distinct (map yt_id t)"
  shows "yt_update_shape t (yt_exec x t) \<or> yt_insert_shape t (yt_exec x t)"
proof (cases x)
  case (fields flt now op)
  show ?thesis
  proof (cases op)
    case (YoCreate fresh pub)
    then show ?thesis
      by (auto simp: fields yt_Create_def Let_def yt_update_shape_refl yt_insert_shape_def)
  next
    case (YoHeartbeat i w lease)
    have "yt_update_shape t (snd (exec_update flt (yt_holds i w)
        (yt_set now (YwHeartbeat (yt_lease_seconds lease))) t))"
      using exec_yt_write_shape [of t flt now i w "YwHeartbeat (yt_lease_seconds lease)"]
      by (simp add: exec_yt_write_def split: prod.splits)
    then show ?thesis
      by (simp add: fields YoHeartbeat HeartbeatDelivery_def yt_update_shape_refl snd_case_exec)
  qed (simp_all add: fields ClaimReadyDeliveries_shape [OF assms] Reclaim_shape [OF assms]
      exec_yt_mark_shape exec_yt_write_shape ReleaseDeliveryLease_def MarkDeliveryUploaded_def
      MarkDeliveryFailed_def MarkDeliveryQuotaWait_def MarkDeliveryBlockedAuth_def
      yt_update_shape_refl)
qed

section \<open>Invariants of the queue\<close>

text \<open>A row is leased exactly while it has a lease end, and only in \<open>uploading\<close>.\<close>

definition yt_row_ok :: "ytpub \<Rightarrow> bool" where
  "yt_row_ok r \<longleftrightarrow>
     (yt_lease_owner r = None \<longleftrightarrow> yt_lease_expires_at r = None) \<and>
     (yt_lease_owner r \<noteq> None \<longrightarrow> yt_state r = YtUploading)"

definition yt_table_ok :: "ytpub list \<Rightarrow> bool" where
  "yt_table_ok t \<longleftrightarrow> distinct (map yt_id t) \<and> (\<forall>r \<in> set t. yt_row_ok r)"

text \<open>The moves of the state column.\<close>

definition yt_queue_moves :: "(YouTubeDeliveryState \<times> YouTubeDeliveryState) set" where
  "yt_queue_moves =
     {YtPreflight, YtReadyToUpload, YtRetryWait, YtQuotaWait} \<times> {YtUploading} \<union>
     {YtUploading} \<times> {YtUploaded, YtRetryWait, YtDeadLetter, YtQuotaWait, YtFailed, YtReadyToUpload}"

lemma yt_row_step_ok: "yt_row_step r r' \<Longrightarrow> yt_row_ok r \<Longrightarrow> yt_row_ok r'"
proof (induction rule: yt_row_step.induct)
  case (held r w now wr)
  then show ?case by (cases wr) (auto simp: yt_row_ok_def)
qed (auto simp: yt_row_ok_def)

lemma yt_row_step_move:
  "yt_row_step r r' \<Longrightarrow> yt_row_ok r \<Longrightarrow>
   yt_state r' = yt_state r \<or> (yt_state r, yt_state r') \<in> yt_queue_moves"
proof (induction rule: yt_row_step.induct)
  case (held r w now wr)
  then have "yt_state r = YtUploading" by (simp add: yt_row_ok_def)
  then show ?case by (cases wr) (simp_all add: yt_queue_moves_def)
qed (auto simp: yt_queue_moves_def yt_claimable_def youtubeDeliveryClaimStates_def yt_expired_def)

text \<open>Without a lease the queue reaches a row through a claim only.\<close>

lemma yt_row_step_unleased:
  "yt_row_step r r' \<Longrightarrow> yt_lease_owner r = None \<Longrightarrow> yt_lease_expires_at r = None \<Longrightarrow>
   yt_state r \<notin> youtubeDeliveryClaimStates \<Longrightarrow>
   r' = r \<or> (\<exists>now m. r' = yt_mark_set now m r)"
  by (induction rule: yt_row_step.induct) (auto simp: yt_claimable_def yt_expired_def)

lemma yt_exec_row:
  assumes "distinct (map yt_id t)" and r: "find_row yt_id i t = Some r"
  obtains r' where "find_row yt_id i (yt_exec x t) = Some r'" and "yt_row_step r r'"
  using yt_exec_shape [OF assms(1), of x]
proof
  assume "yt_insert_shape t (yt_exec x t)"
  then show thesis
    using that [OF _ yt_row_step.same] r by (auto simp: yt_insert_shape_def find_row_append)
next
  assume "yt_update_shape t (yt_exec x t)"
  then obtain p f where eq: "yt_exec x t = update_where p f t" and id: "\<And>r. yt_id (f r) = yt_id r"
    and steps: "\<And>r. r \<in> set t \<Longrightarrow> p r \<Longrightarrow> yt_row_step r (f r)"
    unfolding yt_update_shape_def by blast
  have "find_row yt_id i (yt_exec x t) = Some (if p r then f r else r)"
    using r id by (simp add: eq find_row_update_where)
  moreover have "yt_row_step r (if p r then f r else r)"
    using steps [of r] find_row_SomeD [OF r] by (simp add: yt_row_step.same)
  ultimately show thesis by (rule that)
qed

lemma yt_exec_table_ok: "yt_table_ok t \<Longrightarrow> yt_table_ok (yt_exec x t)"
proof -
  assume ok: "yt_table_ok t"
  then have dist: "distinct (map yt_id t)" by (simp add: yt_table_ok_def)
  from yt_exec_shape [OF dist, of x] show ?thesis
  proof
    assume "yt_update_shape t (yt_exec x t)"
    then obtain p f where eq: "yt_exec x t = update_where p f t" and id: "\<And>r. yt_id (f r) = yt_id r"
      and steps: "\<And>r. r \<in> set t \<Longrightarrow> p r \<Longrightarrow> yt_row_step r (f r)"
      unfolding yt_update_shape_def by blast
    have "map yt_id (yt_exec x t) = map yt_id t" unfolding eq by (rule map_update_where) (rule id)
    then show ?thesis
      using ok steps yt_row_step_ok by (auto simp: yt_table_ok_def eq set_update_where)
  next
    assume "yt_insert_shape t (yt_exec x t)"
    then show ?thesis using ok by (auto simp: yt_table_ok_def yt_insert_shape_def yt_row_ok_def)
  qed
qed

lemma yt_run_simps [simp]:
  "yt_run [] t = t" "yt_run (x # ops) t = yt_run ops (yt_exec x t)"
  by (simp_all add: yt_run_def)

lemma yt_run_table_ok: "yt_table_ok t \<Longrightarrow> yt_table_ok (yt_run ops t)"
  by (induction ops arbitrary: t) (simp_all add: yt_exec_table_ok)

text \<open>A property of rows that every step keeps is kept by every sequence of statements.\<close>

lemma yt_run_row_induct:
  assumes "\<forall>r r'. yt_row_step r r' \<longrightarrow> yt_row_ok r \<longrightarrow> I r \<longrightarrow> I r'"
  shows "yt_table_ok t \<Longrightarrow> find_row yt_id i t = Some r \<Longrightarrow> I r \<Longrightarrow>
    \<exists>r'. find_row yt_id i (yt_run ops t) = Some r' \<and> I r'"
proof (induction ops arbitrary: t r)
  case (Cons x ops)
  from Cons.prems(1) have "distinct (map yt_id t)" by (simp add: yt_table_ok_def)
  then obtain r1 where r1: "find_row yt_id i (yt_exec x t) = Some r1" and "yt_row_step r r1"
    using Cons.prems(2) by (rule yt_exec_row)
  moreover have "yt_row_ok r"
    using Cons.prems(1) find_row_SomeD [OF Cons.prems(2)] by (simp add: yt_table_ok_def)
  ultimately have "I r1" using assms Cons.prems(3) by blast
  then show ?case
    using Cons.IH [OF yt_exec_table_ok [OF Cons.prems(1)] r1] by simp
qed simp

section \<open>Properties\<close>

definition sample_pub :: ytpub where
  "sample_pub =
     \<lparr>yt_id = 1, yt_upload_job_id = 7, yt_post_target_id = 11, yt_account_id = 3,
      yt_video_id = None, yt_upload_status = ''youtube_uploading'', yt_processing_status = None,
      yt_uploaded_at = None, yt_processed_at = None, yt_editor_session_id = None,
      yt_velox_project_id = None, yt_thumbnail_media_id = None, yt_thumbnail_status = None,
      yt_desired_privacy = ''public'', yt_publish_at = None, yt_native_publish_at = None,
      yt_published_at = None, yt_last_error = '''', yt_attempt_count = 0,
      yt_state = YtReadyToUpload, yt_priority = 100, yt_prepare_at = None,
      yt_next_attempt_at = None, yt_max_attempts = 8, yt_lease_owner = None,
      yt_lease_expires_at = None, yt_heartbeat_at = None, yt_resume_state = None,
      yt_last_error_code = None, yt_last_transition_at = 0, yt_verified_at = None,
      yt_original_publish_at = None, yt_spillover_count = 0, yt_created_at = 0,
      yt_updated_at = 0\<rparr>"

lemma yt_step_moves:
  assumes "yt_row_step r r'" and "yt_row_ok r" and "(s, yt_state r) \<in> yt_queue_moves\<^sup>*"
  shows "(s, yt_state r') \<in> yt_queue_moves\<^sup>*"
  using yt_row_step_move [OF assms(1,2)] assms(3) by (auto intro: rtrancl_into_rtrancl)

lemma yt_step_closed:
  assumes "yt_row_step r r'" and "yt_row_ok r"
    and "yt_state r \<notin> insert YtUploading youtubeDeliveryClaimStates"
  shows "yt_state r' = yt_state r"
  using yt_row_step_move [OF assms(1,2)] assms(3)
  by (auto simp: yt_queue_moves_def youtubeDeliveryClaimStates_def)



text \<open>
  A released delivery is stranded. \<open>ReleaseDeliveryLease\<close> clears the lease of a claimed
  row and leaves it in \<open>uploading\<close>; no claim takes that state, and the reaper only takes rows
  that still have a lease end. Whatever statements follow, at whatever times, the row stays
  in \<open>uploading\<close> without an owner and is never eligible for either again.
\<close>

theorem released_delivery_stranded:
  assumes "yt_table_ok t" and "find_row yt_id i t = Some r" and "yt_lease_owner r = Some w"
  shows "\<exists>r'. find_row yt_id i (yt_run ((DbOk, now, YoRelease i w) # ops) t) = Some r' \<and>
      yt_state r' = YtUploading \<and> yt_lease_owner r' = None \<and> yt_lease_expires_at r' = None \<and>
      (\<forall>later. \<not> yt_claimable later r' \<and> \<not> yt_expired later r')"
proof -
  let ?t = "yt_exec (DbOk, now, YoRelease i w) t"
  let ?I = "\<lambda>q. yt_state q = YtUploading \<and> yt_lease_owner q = None \<and> yt_lease_expires_at q = None"
  have "yt_state r = YtUploading"
    using assms find_row_SomeD [OF assms(2)] by (auto simp: yt_table_ok_def yt_row_ok_def)
  moreover have "find_row yt_id i ?t = Some (yt_set now YwRelease r)"
    using assms(2,3) find_row_SomeD [OF assms(2)]
    by (simp add: ReleaseDeliveryLease_def exec_yt_write_def find_row_update_where yt_holds_def)
  moreover have "\<forall>q q'. yt_row_step q q' \<longrightarrow> yt_row_ok q \<longrightarrow> ?I q \<longrightarrow> ?I q'"
    by (auto simp: youtubeDeliveryClaimStates_def dest!: yt_row_step_unleased)
  ultimately have "\<exists>r'. find_row yt_id i (yt_run ops ?t) = Some r' \<and> ?I r'"
    by (intro yt_run_row_induct [of ?I "?t" i "yt_set now YwRelease r"]
        yt_exec_table_ok [OF assms(1)]) simp_all
  then show ?thesis
    by (auto simp: yt_claimable_def youtubeDeliveryClaimStates_def yt_expired_def)
qed

theorem released_delivery_stranded_witness:
  "let t = yt_run [(DbOk, 5, YoClaim (\<lambda>i. False) ''w'' 4 minute)] [sample_pub]
   in \<exists>r'. find_row yt_id 1 (yt_run ((DbOk, 6, YoRelease 1 ''w'') #
             [(DbOk, 10 * hour, YoReclaim (\<lambda>i. i) (\<lambda>i. False) 100)]) t) = Some r' \<and>
           yt_state r' = YtUploading"
proof -
  let ?t = "[yt_claim_stamp 5 ''w'' 60 sample_pub]"
  have t: "yt_run [(DbOk, 5, YoClaim (\<lambda>i. False) ''w'' 4 minute)] [sample_pub] = ?t"
    by (simp add: ClaimReadyDeliveries_def yt_batch_def yt_claimable_def sample_pub_def
        youtubeDeliveryClaimStates_def top_by_def yt_lease_seconds_def)
  have "yt_table_ok ?t" and "find_row yt_id 1 ?t = Some (yt_claim_stamp 5 ''w'' 60 sample_pub)"
    by (simp_all add: yt_table_ok_def yt_row_ok_def sample_pub_def)
  moreover have "yt_lease_owner (yt_claim_stamp 5 ''w'' 60 sample_pub) = Some ''w''" by simp
  ultimately obtain r' where "find_row yt_id 1 (yt_run ((DbOk, 6, YoRelease 1 ''w'') #
      [(DbOk, 10 * hour, YoReclaim (\<lambda>i. i) (\<lambda>i. False) 100)]) ?t) = Some r'"
    and "yt_state r' = YtUploading"
    by (rule exE [OF released_delivery_stranded]) (elim conjE, rule that)
  then show ?thesis unfolding Let_def t by (intro exI [of _ r'] conjI)
qed

text \<open>
  A video that was taken down: \<open>ClearYouTubeUpload\<close> empties the video id for a new upload but
  keeps the state, so the pool never claims the row again.
\<close>

lemma cleared_upload_never_claimed:
  assumes "yt_table_ok t" and "find_row yt_id i t = Some r" and "yt_state r = YtUploaded"
  shows "\<exists>r'. find_row yt_id i (yt_run ((flt, now, YoMark i YmClearUpload) # ops) t) = Some r' \<and>
      (\<forall>later. \<not> yt_claimable later r')"
proof -
  let ?I = "\<lambda>q. yt_state q = YtUploaded"
  have "\<forall>q q'. yt_row_step q q' \<longrightarrow> yt_row_ok q \<longrightarrow> ?I q \<longrightarrow> ?I q'"
    using yt_step_closed by (simp add: youtubeDeliveryClaimStates_def)
  from yt_run_row_induct [of ?I, OF this assms, of "(flt, now, YoMark i YmClearUpload) # ops"]
  obtain r' where "find_row yt_id i (yt_run ((flt, now, YoMark i YmClearUpload) # ops) t) = Some r'"
    and "yt_state r' = YtUploaded"
    by (elim exE conjE)
  then show ?thesis
    by (intro exI [of _ r']) (simp add: yt_claimable_def youtubeDeliveryClaimStates_def)
qed

end
