(* ===== verification/YouTubePool.thy ===== *)
theory YouTubePool
  imports YouTubeQueue PublishWorker "HOL-Library.Word"
begin

text \<open>
  The delivery pool of the upload worker, \<open>internal/worker/upload_worker_publish.go\<close>: what a
  pool worker does with one claimed row of \<open>YouTubeQueue\<close>, and how the rows are created from
  an upload job. The platform, the token vault, the media resolver and the quota gate are
  the functions of \<open>delivery_env\<close>; the calls that reach the platform are recorded in the
  order in which they are made.
\<close>

section \<open>Backoff\<close>

text \<open>
  \<open>time.Duration\<close> is a signed 64-bit count of nanoseconds, and \<open>base * (1 << attempt)\<close> is
  computed at that width.
\<close>

definition deliveryRetryBackoff :: "int \<Rightarrow> duration" where
  "deliveryRetryBackoff attempt =
     (let a0 = (if attempt < 0 then 0 else attempt);
          a = (if a0 > 30 then 30 else a0);
          d = (word_of_int minute * word_of_int (2 ^ nat a) :: 64 word)
      in if sint d > 30 * minute then 30 * minute else sint d)"

definition backoff_closed :: "int \<Rightarrow> duration" where
  "backoff_closed a =
     (if a = 28 then - 2340616713709551616
      else if a = 29 then - 4681233427419103232
      else min (30 * minute) (minute * 2 ^ nat (min (max a 0) 30)))"

lemma backoff_table: "list_all (\<lambda>n. deliveryRetryBackoff n = backoff_closed n) (map int [0..<31])"
  by code_simp

text \<open>
  The delivery backoff is one minute times a power of two, capped at thirty minutes, for
  every attempt number except 28 and 29. There the product wraps around the 64-bit
  duration and the delay is negative, so the retry is due at once. The queue gives up after
  \<open>max_attempts\<close> failures (eight for the rows the pool creates), which keeps the attempt
  numbers it uses far below.
\<close>

theorem deliveryRetryBackoff_exact:
  "deliveryRetryBackoff a =
     (if a = 28 then - 2340616713709551616
      else if a = 29 then - 4681233427419103232
      else min (30 * minute) (minute * 2 ^ nat (min (max a 0) 30)))"
proof -
  let ?b = "min (max a 0) 30"
  have "deliveryRetryBackoff a = deliveryRetryBackoff ?b"
    by (simp add: deliveryRetryBackoff_def min_def max_def)
  also have "?b \<in> set (map int [0..<31])"
    by (auto simp: image_iff intro: bexI [of _ "nat ?b"])
  then have "deliveryRetryBackoff ?b = backoff_closed ?b"
    using backoff_table by (simp only: list_all_iff)
  also have "backoff_closed ?b = backoff_closed a"
    by (simp add: backoff_closed_def min_def max_def)
  finally show ?thesis by (simp add: backoff_closed_def)
qed

section \<open>What the worker is connected to\<close>

text \<open>
  An error: its text, whether it wraps a cancelled or expired context, and the sentinels the
  pool asks for (a lost grant, a channel mismatch, an expired asset).
\<close>

record derr =
  de_text :: string
  de_ctx :: bool
  de_grant :: bool
  de_mismatch :: bool
  de_expired :: bool

definition plain_error :: "string \<Rightarrow> derr" where
  "plain_error s =
     \<lparr>de_text = s, de_ctx = False, de_grant = False, de_mismatch = False, de_expired = False\<rparr>"

text \<open>\<open>fmt.Errorf("...: %w", err)\<close>.\<close>

definition wrap_error :: "string \<Rightarrow> derr \<Rightarrow> derr" where
  "wrap_error s e = e\<lparr>de_text := s @ '': '' @ de_text e\<rparr>"

text \<open>Which capabilities the provider of a platform implements.\<close>

record yt_provider =
  pv_oauth :: bool
  pv_binder :: bool
  pv_uploader :: bool

text \<open>
  \<open>env_fault\<close> is the answer of the database to the first and to the second write of the
  worker; \<open>env_cancelled\<close> is \<open>ctx.Err()\<close> after the upload function returned.
\<close>

record delivery_env =
  env_post_store :: bool
  env_target :: "int \<Rightarrow> derr + PostTarget option"
  env_post :: "int \<Rightarrow> derr + Post option"
  env_account :: "int \<Rightarrow> derr + PlatformAccount option"
  env_provider :: "string \<Rightarrow> yt_provider option"
  env_renew :: "int \<Rightarrow> derr + string"
  env_bind :: "string \<Rightarrow> string \<Rightarrow> derr option"
  env_resolve :: "(Post \<Rightarrow> derr + string) option"
  env_quota :: "(derr + bool \<times> int) option"
  env_upload :: "string \<Rightarrow> Post \<Rightarrow> string \<Rightarrow> time option \<Rightarrow> derr + string"
  env_cancelled :: bool
  env_appnow :: time
  env_dbnow :: time
  env_fault :: "nat \<Rightarrow> db_fault"
  env_db_error :: derr

text \<open>The calls that leave the process.\<close>

datatype delivery_effect =
    EffReserve | EffInsert int "string option" | EffRecordError
  | EffTargetBlocked int string | EffReauth int string

definition mark_error :: "delivery_env \<Rightarrow> int \<Rightarrow> yt_err \<Rightarrow> derr" where
  "mark_error env i e =
     (case e of
        YtNotFound \<Rightarrow> plain_error (''youtube target publication not found: id='' @ FormatInt i)
      | _ \<Rightarrow> wrap_error ''youtube target publication MarkDeliveryUploaded'' (env_db_error env))"

text \<open>The state of one execution: how many writes were made, the effects, the table.\<close>

record pool_state =
  po_writes :: nat
  po_effects :: "delivery_effect list"
  po_table :: "ytpub list"

definition po_write ::
  "delivery_env \<Rightarrow> (db_fault \<Rightarrow> ytpub list \<Rightarrow> (yt_err + unit) \<times> ytpub list) \<Rightarrow> pool_state \<Rightarrow>
   (yt_err + unit) \<times> pool_state" where
  "po_write env stmt s =
     (let (r, t') = stmt (env_fault env (po_writes s)) (po_table s)
      in (r, s\<lparr>po_writes := po_writes s + 1, po_table := t'\<rparr>))"

definition po_emit :: "delivery_effect \<Rightarrow> pool_state \<Rightarrow> pool_state" where
  "po_emit e s = s\<lparr>po_effects := po_effects s @ [e]\<rparr>"


section \<open>One claimed delivery\<close>

text \<open>\<open>failYouTubeDelivery\<close> always returns an error, which its callers pass on.\<close>

definition failYouTubeDelivery ::
  "delivery_env \<Rightarrow> ytpub \<Rightarrow> string \<Rightarrow> string \<Rightarrow> string \<Rightarrow> pool_state \<Rightarrow> derr option \<times> pool_state" where
  "failYouTubeDelivery env d worker code msg s =
     (let (_, s') = po_write env (\<lambda>flt. MarkDeliveryFailed flt (env_dbnow env) (yt_id d) worker code msg
                      (env_appnow env + deliveryRetryBackoff (yt_attempt_count d))) s
      in (Some (plain_error (code @ '': '' @ msg @ '' (delivery='' @ FormatInt (yt_id d) @ '')'')), s'))"

definition handleTargetBlockedAuth ::
  "delivery_env \<Rightarrow> ytpub \<Rightarrow> PlatformAccount \<Rightarrow> string \<Rightarrow> string \<Rightarrow> pool_state \<Rightarrow> derr option \<times> pool_state" where
  "handleTargetBlockedAuth env d account reason worker s =
     (let (_, s') = po_write env (\<lambda>flt. MarkDeliveryBlockedAuth flt (env_dbnow env) (yt_id d) worker
                      (''youtube_channel_mismatch: '' @ reason)) s
      in (None, po_emit (EffReauth (pa_id account) reason)
                  (po_emit (EffTargetBlocked (yt_post_target_id d)
                     (''youtube channel mismatch: '' @ reason)) s')))"

text \<open>The gate and the upload, the end of \<open>uploadVideoAsPrivateForDelivery\<close>.\<close>

definition insert_and_mark ::
  "delivery_env \<Rightarrow> ytpub \<Rightarrow> PostTarget \<Rightarrow> Post \<Rightarrow> string \<Rightarrow> string \<Rightarrow> string \<Rightarrow> pool_state \<Rightarrow>
   derr option \<times> pool_state" where
  "insert_and_mark env d target post token mediaURL worker s =
     (let name = ''UploadVideoAsPrivate delivery='' @ FormatInt (yt_id d) @ '' target='' @
                 FormatInt (pt_id target)
      in case env_upload env token post mediaURL (yt_native_publish_at d) of
           Inl e \<Rightarrow>
             (let s1 = po_emit (EffInsert (yt_id d) None) s;
                  s2 = (if env_quota env = None then s1 else po_emit EffRecordError s1)
              in (Some (wrap_error name e), s2))
         | Inr video \<Rightarrow>
             (let s1 = po_emit (EffInsert (yt_id d) (Some video)) s
              in if video = '''' then (Some (plain_error (name @ '' returned empty videoID'')), s1)
                 else
                   let (r, s2) = po_write env
                         (\<lambda>flt. MarkDeliveryUploaded flt (env_dbnow env) (yt_id d) worker video) s1
                   in (case r of
                         Inl e \<Rightarrow> (Some (wrap_error (''MarkDeliveryUploaded(delivery='' @
                              FormatInt (yt_id d) @ '', videoID='' @ video @ '')'')
                              (mark_error env (yt_id d) e)), s2)
                       | Inr _ \<Rightarrow> (None, s2))))"

definition gate_and_insert ::
  "delivery_env \<Rightarrow> ytpub \<Rightarrow> PostTarget \<Rightarrow> Post \<Rightarrow> string \<Rightarrow> string \<Rightarrow> string \<Rightarrow> pool_state \<Rightarrow>
   derr option \<times> pool_state" where
  "gate_and_insert env d target post token mediaURL worker s =
     (case env_quota env of
        None \<Rightarrow> insert_and_mark env d target post token mediaURL worker s
      | Some q \<Rightarrow>
          (let s1 = po_emit EffReserve s
           in case q of
                Inl e \<Rightarrow> (Some (wrap_error (''youtube quota reserve videos.insert delivery='' @
                                  FormatInt (yt_id d)) e), s1)
              | Inr (allowed, retryAfter) \<Rightarrow>
                  if allowed then insert_and_mark env d target post token mediaURL worker s1
                  else
                    let after = (if retryAfter \<le> 0 then 3600 else retryAfter);
                        (_, s2) = po_write env (\<lambda>flt. MarkDeliveryQuotaWait flt (env_dbnow env)
                                    (yt_id d) worker (env_appnow env + after * second)) s1
                    in (None, s2)))"

definition resolve_and_insert ::
  "delivery_env \<Rightarrow> ytpub \<Rightarrow> PostTarget \<Rightarrow> Post \<Rightarrow> bool \<Rightarrow> string \<Rightarrow> string \<Rightarrow> string \<Rightarrow>
   pool_state \<Rightarrow> derr option \<times> pool_state" where
  "resolve_and_insert env d target post uploader platform token worker s =
     (if \<not> uploader
      then (Some (plain_error (''provider for '' @ platform @
              '' does not implement UploadChannelUploader (YouTubeOAuthService implements it; bootstrap must register the capability)'')), s)
      else case env_resolve env of
          None \<Rightarrow> (Some (plain_error ''resolve media asset for private YouTube upload: media download resolver is not configured''), s)
        | Some resolve \<Rightarrow>
            (case resolve post of
               Inl e \<Rightarrow>
                 (Some (if de_expired e
                        then plain_error ''resolve media asset for private YouTube upload: media asset expired; re-upload required''
                        else wrap_error ''resolve media asset for private YouTube upload'' e), s)
             | Inr mediaURL \<Rightarrow> gate_and_insert env d target post token mediaURL worker s))"

definition uploadVideoAsPrivateForDelivery ::
  "delivery_env \<Rightarrow> ytpub \<Rightarrow> PostTarget \<Rightarrow> Post \<Rightarrow> string \<Rightarrow> pool_state \<Rightarrow>
   derr option \<times> pool_state" where
  "uploadVideoAsPrivateForDelivery env d target post worker s =
     (if pt_id target = 0
      then (Some (plain_error (''per-delivery private upload on nil/zero-id target (delivery_id='' @
              FormatInt (yt_id d) @ '')'')), s)
      else if yt_account_id d = 0
      then (Some (plain_error (''per-delivery private upload on delivery with platform_account_id=0 (delivery_id='' @
              FormatInt (yt_id d) @ '')'')), s)
      else if yt_upload_status d = ''youtube_uploaded'' then (None, s)
      else case env_account env (yt_account_id d) of
        Inl e \<Rightarrow> (Some (wrap_error (''FindPlatformAccountByID('' @ FormatInt (yt_account_id d) @ '')'') e), s)
      | Inr None \<Rightarrow>
          (Some (plain_error (''nil platform account for id='' @ FormatInt (yt_account_id d))), s)
      | Inr (Some account) \<Rightarrow>
          if pa_platform account \<noteq> ''youtube'' then (None, s)
          else case env_provider env (pa_platform account) of
            None \<Rightarrow> (Some (plain_error (''provider not found for platform='' @ pa_platform account)), s)
          | Some pv \<Rightarrow>
              if \<not> pv_oauth pv
              then (Some (plain_error (''provider for '' @ pa_platform account @
                      '' does not implement OAuthProvider'')), s)
              else case env_renew env (pa_id account) of
                Inl e \<Rightarrow>
                  if de_grant e
                  then failYouTubeDelivery env d worker ''blocked_auth''
                         (''token refresh requires reauthorization for platform_account='' @
                          FormatInt (pa_id account)) s
                  else (Some (wrap_error (''token refresh for platform_account='' @
                          FormatInt (pa_id account)) e), s)
              | Inr token \<Rightarrow>
                  (case (if pv_binder pv then env_bind env token (pa_user_id account) else None) of
                     Some e \<Rightarrow>
                       if de_mismatch e
                       then handleTargetBlockedAuth env d account (de_text e) worker s
                       else (Some (wrap_error (''channel binding check platform_account='' @
                               FormatInt (pa_id account) @ '' (transient)'') e), s)
                   | None \<Rightarrow>
                       resolve_and_insert env d target post (pv_uploader pv) (pa_platform account)
                         token worker s))"

definition processYouTubeDelivery ::
  "delivery_env \<Rightarrow> ytpub \<Rightarrow> string \<Rightarrow> pool_state \<Rightarrow> derr option \<times> pool_state" where
  "processYouTubeDelivery env d worker s =
     (if yt_upload_status d = ''youtube_uploaded''
      then let (r, s') = po_write env (\<lambda>flt. ReleaseDeliveryLease flt (env_dbnow env) (yt_id d) worker) s
           in (case r of
                 Inl e \<Rightarrow> (Some (wrap_error (''release lease on already-uploaded delivery '' @
                              FormatInt (yt_id d)) (mark_error env (yt_id d) e)), s')
               | Inr _ \<Rightarrow> (None, s'))
      else if \<not> env_post_store env
      then (Some (plain_error (''process youtube delivery '' @ FormatInt (yt_id d) @
              '': delivery post store not wired'')), s)
      else case env_target env (yt_post_target_id d) of
        Inl e \<Rightarrow> (Some (wrap_error (''find post target '' @ FormatInt (yt_post_target_id d) @
                    '' for delivery '' @ FormatInt (yt_id d)) e), s)
      | Inr None \<Rightarrow>
          failYouTubeDelivery env d worker ''target_missing''
            (''post_target '' @ FormatInt (yt_post_target_id d) @ '' not found'') s
      | Inr (Some target) \<Rightarrow>
          (case env_post env (pt_post_id target) of
             Inl e \<Rightarrow> (Some (wrap_error (''find post '' @ FormatInt (pt_post_id target) @
                         '' for delivery '' @ FormatInt (yt_id d)) e), s)
           | Inr None \<Rightarrow>
               failYouTubeDelivery env d worker ''post_missing''
                 (''post '' @ FormatInt (pt_post_id target) @ '' not found'') s
           | Inr (Some post) \<Rightarrow>
               (let (r, s1) = uploadVideoAsPrivateForDelivery env d target post worker s
                in case r of
                     None \<Rightarrow> (None, s1)
                   | Some e \<Rightarrow>
                       if de_ctx e \<or> env_cancelled env
                       then let (_, s2) = po_write env
                                  (\<lambda>flt. ReleaseDeliveryLease flt (env_dbnow env) (yt_id d) worker) s1
                            in (Some e, s2)
                       else
                         let (_, s2) = po_write env
                               (\<lambda>flt. MarkDeliveryFailed flt (env_dbnow env) (yt_id d) worker
                                  ''upload_failed'' (de_text e)
                                  (env_appnow env + deliveryRetryBackoff (yt_attempt_count d))) s1
                         in (Some e, s2))))"


section \<open>Creation of the rows\<close>

text \<open>
  \<open>snapshotForAccount\<close>: \<open>decode\<close> is the JSON decoder of the job metadata into the map of the
  per-account snapshots.
\<close>

record publish_snapshot =
  sn_title :: string
  sn_description :: string
  sn_thumbnail_media_id :: string
  sn_privacy_status :: string

definition snapshotForAccount ::
  "(string \<Rightarrow> (string \<Rightarrow> publish_snapshot option) option) \<Rightarrow> string \<Rightarrow> int \<Rightarrow>
   publish_snapshot option" where
  "snapshotForAccount decode metadata account =
     (if metadata = '''' \<or> account \<le> 0 then None
      else case decode metadata of None \<Rightarrow> None | Some m \<Rightarrow> m (FormatInt account))"

definition resolveDesiredPrivacy :: "Post \<Rightarrow> string" where
  "resolveDesiredPrivacy post =
     (if p_privacy_level post \<noteq> '''' then p_privacy_level post
      else if p_default_privacy_level post \<noteq> '''' then p_default_privacy_level post
      else ''unlisted'')"

definition resolveDesiredPrivacyForTarget ::
  "(string \<Rightarrow> (string \<Rightarrow> publish_snapshot option) option) \<Rightarrow> Post \<Rightarrow> PostTarget \<Rightarrow> string" where
  "resolveDesiredPrivacyForTarget decode post target =
     (case snapshotForAccount decode (p_metadata post) (pt_account target) of
        Some sn \<Rightarrow> if sn_privacy_status sn \<noteq> '''' then sn_privacy_status sn
                   else resolveDesiredPrivacy post
      | None \<Rightarrow> resolveDesiredPrivacy post)"

text \<open>The zero value of the Go struct.\<close>

definition zero_pub :: ytpub where
  "zero_pub =
     \<lparr>yt_id = 0, yt_upload_job_id = 0, yt_post_target_id = 0, yt_account_id = 0,
      yt_video_id = None, yt_upload_status = '''', yt_processing_status = None,
      yt_uploaded_at = None, yt_processed_at = None, yt_editor_session_id = None,
      yt_velox_project_id = None, yt_thumbnail_media_id = None, yt_thumbnail_status = None,
      yt_desired_privacy = '''', yt_publish_at = None, yt_native_publish_at = None,
      yt_published_at = None, yt_last_error = '''', yt_attempt_count = 0,
      yt_state = YtPreflight, yt_priority = 0, yt_prepare_at = None,
      yt_next_attempt_at = None, yt_max_attempts = 0, yt_lease_owner = None,
      yt_lease_expires_at = None, yt_heartbeat_at = None, yt_resume_state = None,
      yt_last_error_code = None, yt_last_transition_at = 0, yt_verified_at = None,
      yt_original_publish_at = None, yt_spillover_count = 0, yt_created_at = 0,
      yt_updated_at = 0\<rparr>"

definition new_delivery ::
  "(string \<Rightarrow> (string \<Rightarrow> publish_snapshot option) option) \<Rightarrow> time \<Rightarrow> int \<Rightarrow> int \<Rightarrow> PostTarget \<Rightarrow>
   Post \<Rightarrow> ytpub" where
  "new_delivery decode now job priority target post =
     (let privacy = resolveDesiredPrivacyForTarget decode post target;
          native = (if some_and (\<lambda>t. t > now) (p_publish_at post) \<and> privacy = ''public''
                    then p_publish_at post else None);
          pub = zero_pub\<lparr>yt_upload_job_id := job, yt_post_target_id := pt_id target,
                  yt_account_id := pt_account target, yt_upload_status := ''youtube_uploading'',
                  yt_desired_privacy := privacy, yt_publish_at := p_publish_at post,
                  yt_native_publish_at := native, yt_state := YtReadyToUpload,
                  yt_priority := sint (word_of_int priority :: 16 word), yt_max_attempts := 8\<rparr>
      in case snapshotForAccount decode (p_metadata post) (pt_account target) of
           Some sn \<Rightarrow> if sn_thumbnail_media_id sn \<noteq> ''''
                      then pub\<lparr>yt_thumbnail_media_id := Some (sn_thumbnail_media_id sn),
                               yt_thumbnail_status := Some ''pending''\<rparr>
                      else pub
         | None \<Rightarrow> pub)"

text \<open>
  \<open>found\<close> is the answer of the two look-ups (whether the statement ran); \<open>fresh\<close> the id of
  the sequence. The result is the error, if any.
\<close>

definition materializeYouTubeDelivery ::
  "(string \<Rightarrow> (string \<Rightarrow> publish_snapshot option) option) \<Rightarrow> (nat \<Rightarrow> bool) \<Rightarrow> db_fault \<Rightarrow> time \<Rightarrow> time \<Rightarrow>
   int \<Rightarrow> int \<Rightarrow> int \<Rightarrow> PostTarget \<Rightarrow> Post \<Rightarrow> ytpub list \<Rightarrow> yt_err option \<times> ytpub list" where
  "materializeYouTubeDelivery decode found flt dbnow now fresh job priority target post t =
     (if \<not> found 0 then (Some YtDatabase, t)
      else case FindByPostTargetID (pt_id target) t of
        Some _ \<Rightarrow> (None, t)
      | None \<Rightarrow>
          (case yt_Create flt dbnow fresh (new_delivery decode now job priority target post) t of
             (Inr _, t') \<Rightarrow> (None, t')
           | (Inl e, t') \<Rightarrow>
               (if found 1 \<and> FindByPostTargetID (pt_id target) t' \<noteq> None then (None, t')
                else (Some e, t'))))"

text \<open>
  The fan-out over the targets of a job: one answer of the database per target, accounts
  resolved beforehand, the first error stops the loop.
\<close>

datatype materialize_err = MeNilAccount int | MeStore yt_err

record store_answer =
  sa_found :: "nat \<Rightarrow> bool"
  sa_fault :: db_fault
  sa_fresh :: int

fun materializeYouTubeDeliveries ::
  "(string \<Rightarrow> (string \<Rightarrow> publish_snapshot option) option) \<Rightarrow> (int \<Rightarrow> PlatformAccount option) \<Rightarrow>
   (int \<Rightarrow> store_answer) \<Rightarrow> time \<Rightarrow> time \<Rightarrow> int \<Rightarrow> int \<Rightarrow> Post \<Rightarrow> PostTarget list \<Rightarrow> ytpub list \<Rightarrow>
   materialize_err option \<times> ytpub list" where
  "materializeYouTubeDeliveries decode accounts ans dbnow now job priority post [] t = (None, t)"
| "materializeYouTubeDeliveries decode accounts ans dbnow now job priority post (target # ts) t =
     (case accounts (pt_account target) of
        None \<Rightarrow> (Some (MeNilAccount (pt_account target)), t)
      | Some account \<Rightarrow>
          if pa_platform account \<noteq> ''youtube''
          then materializeYouTubeDeliveries decode accounts ans dbnow now job priority post ts t
          else
            let a = ans (pt_id target);
                (r, t') = materializeYouTubeDelivery decode (sa_found a) (sa_fault a) dbnow now
                            (sa_fresh a) job priority target post t
            in case r of
                 Some e \<Rightarrow> (Some (MeStore e), t')
               | None \<Rightarrow>
                   materializeYouTubeDeliveries decode accounts ans dbnow now job priority post ts t')"


section \<open>Uploads and records\<close>

fun is_insert :: "delivery_effect \<Rightarrow> bool" where
  "is_insert (EffInsert _ _) = True"
| "is_insert _ = False"

definition inserts :: "pool_state \<Rightarrow> delivery_effect list" where
  "inserts s = filter is_insert (po_effects s)"

lemma po_write_eq:
  "po_write env stmt s =
     (fst (stmt (env_fault env (po_writes s)) (po_table s)),
      s\<lparr>po_writes := po_writes s + 1,
        po_table := snd (stmt (env_fault env (po_writes s)) (po_table s))\<rparr>)"
  by (simp add: po_write_def case_prod_beta)

lemma inserts_simps [simp]:
  "inserts (s\<lparr>po_writes := n, po_table := t\<rparr>) = inserts s"
  "inserts (po_emit e s) = (if is_insert e then inserts s @ [e] else inserts s)"
  by (simp_all add: inserts_def po_emit_def)

lemma po_emit_simps [simp]:
  "po_table (po_emit e s) = po_table s" "po_writes (po_emit e s) = po_writes s"
  by (simp_all add: po_emit_def)

text \<open>The three outcomes of an execution up to the error handling of the pool.\<close>

definition no_insert :: "pool_state \<Rightarrow> derr option \<times> pool_state \<Rightarrow> bool" where
  "no_insert s res \<longleftrightarrow> inserts (snd res) = inserts s"

definition insert_failed :: "ytpub \<Rightarrow> pool_state \<Rightarrow> derr option \<times> pool_state \<Rightarrow> bool" where
  "insert_failed d s res \<longleftrightarrow>
     (\<exists>v. inserts (snd res) = inserts s @ [EffInsert (yt_id d) v] \<and> (v = None \<or> v = Some '''')) \<and>
     fst res \<noteq> None \<and> po_table (snd res) = po_table s \<and> po_writes (snd res) = po_writes s"

definition insert_done ::
  "delivery_env \<Rightarrow> ytpub \<Rightarrow> string \<Rightarrow> pool_state \<Rightarrow> derr option \<times> pool_state \<Rightarrow> bool" where
  "insert_done env d worker s res \<longleftrightarrow>
     (\<exists>v. v \<noteq> '''' \<and> inserts (snd res) = inserts s @ [EffInsert (yt_id d) (Some v)] \<and>
        po_writes (snd res) = po_writes s + 1 \<and>
        (let (r, t') = MarkDeliveryUploaded (env_fault env (po_writes s)) (env_dbnow env) (yt_id d)
                         worker v (po_table s)
         in po_table (snd res) = t' \<and> (fst res = None \<longleftrightarrow> is_ok r)))"

definition upload_outcome ::
  "delivery_env \<Rightarrow> ytpub \<Rightarrow> string \<Rightarrow> pool_state \<Rightarrow> derr option \<times> pool_state \<Rightarrow> bool" where
  "upload_outcome env d worker s res \<longleftrightarrow>
     no_insert s res \<or>
     yt_upload_status d \<noteq> ''youtube_uploaded'' \<and>
     (insert_failed d s res \<or> insert_done env d worker s res)"

lemma no_insert_id [simp]: "no_insert s (e, s)"
  by (simp add: no_insert_def)

lemma inserts_failYouTubeDelivery [simp]:
  "inserts (snd (failYouTubeDelivery env d worker c m s)) = inserts s"
  by (simp add: failYouTubeDelivery_def po_write_eq)

lemma failYouTubeDelivery_no_insert: "no_insert s (failYouTubeDelivery env d worker c m s)"
  by (simp add: no_insert_def)

lemma handleTargetBlockedAuth_no_insert:
  "no_insert s (handleTargetBlockedAuth env d account m worker s)"
  by (simp add: handleTargetBlockedAuth_def no_insert_def po_write_eq)

lemma insert_and_mark_outcome:
  "insert_failed d s (insert_and_mark env d target post token url worker s) \<or>
   insert_done env d worker s (insert_and_mark env d target post token url worker s)"
proof (cases "env_upload env token post url (yt_native_publish_at d)")
  case (Inl e)
  then show ?thesis by (simp add: insert_and_mark_def insert_failed_def Let_def)
next
  case (Inr v)
  show ?thesis
  proof (cases "v = ''''")
    case True
    then show ?thesis by (simp add: insert_and_mark_def insert_failed_def Inr Let_def)
  next
    case False
    let ?m = "MarkDeliveryUploaded (env_fault env (po_writes s)) (env_dbnow env) (yt_id d) worker v
                (po_table s)"
    have "insert_done env d worker s (insert_and_mark env d target post token url worker s)"
      using False by (cases "fst ?m") (auto simp: insert_and_mark_def insert_done_def Inr Let_def
          po_write_eq case_prod_beta)
    then show ?thesis ..
  qed
qed

lemma insert_failed_emit: "insert_failed d (po_emit e s) res \<Longrightarrow> \<not> is_insert e \<Longrightarrow> insert_failed d s res"
  by (simp add: insert_failed_def)

lemma insert_done_emit:
  "insert_done env d w (po_emit e s) res \<Longrightarrow> \<not> is_insert e \<Longrightarrow> insert_done env d w s res"
  by (simp add: insert_done_def)

lemma gate_and_insert_outcome:
  "no_insert s (gate_and_insert env d target post token url worker s) \<or>
   insert_failed d s (gate_and_insert env d target post token url worker s) \<or>
   insert_done env d worker s (gate_and_insert env d target post token url worker s)"
proof (cases "env_quota env")
  case None
  then show ?thesis using insert_and_mark_outcome by (simp add: gate_and_insert_def)
next
  case (Some q)
  show ?thesis
  proof (cases "\<exists>ra. q = Inr (True, ra)")
    case True
    let ?r = "insert_and_mark env d target post token url worker (po_emit EffReserve s)"
    from True have "gate_and_insert env d target post token url worker s = ?r"
      by (auto simp: gate_and_insert_def Some)
    moreover have "insert_failed d s ?r \<or> insert_done env d worker s ?r"
      using insert_and_mark_outcome [of d "po_emit EffReserve s" env target post token url worker]
        insert_failed_emit [of d EffReserve s ?r] insert_done_emit [of env d worker EffReserve s ?r]
        is_insert.simps(2) by blast
    ultimately show ?thesis by simp
  next
    case False
    then have "no_insert s (gate_and_insert env d target post token url worker s)"
      by (cases q) (auto simp: gate_and_insert_def Some no_insert_def Let_def po_write_eq)
    then show ?thesis ..
  qed
qed

lemma resolve_and_insert_outcome:
  "no_insert s (resolve_and_insert env d target post up pf token worker s) \<or>
   insert_failed d s (resolve_and_insert env d target post up pf token worker s) \<or>
   insert_done env d worker s (resolve_and_insert env d target post up pf token worker s)"
  by (cases "env_resolve env"; cases "the (env_resolve env) post")
    (use gate_and_insert_outcome in \<open>auto simp: resolve_and_insert_def\<close>)

lemma upload_private_outcome:
  "upload_outcome env d worker s (uploadVideoAsPrivateForDelivery env d target post worker s)"
  unfolding uploadVideoAsPrivateForDelivery_def upload_outcome_def
  using resolve_and_insert_outcome failYouTubeDelivery_no_insert handleTargetBlockedAuth_no_insert
  by (auto split: sum.split option.split)

text \<open>The whole execution: the error handling adds one write and no call.\<close>

definition settle ::
  "delivery_env \<Rightarrow> ytpub \<Rightarrow> string \<Rightarrow> derr option \<times> pool_state \<Rightarrow> derr option \<times> pool_state" where
  "settle env d worker res =
     (case fst res of
        None \<Rightarrow> res
      | Some e \<Rightarrow>
          (Some e, snd (po_write env (\<lambda>flt t.
             if de_ctx e \<or> env_cancelled env
             then ReleaseDeliveryLease flt (env_dbnow env) (yt_id d) worker t
             else MarkDeliveryFailed flt (env_dbnow env) (yt_id d) worker ''upload_failed'' (de_text e)
                    (env_appnow env + deliveryRetryBackoff (yt_attempt_count d)) t) (snd res))))"

lemma inserts_settle [simp]: "inserts (snd (settle env d worker res)) = inserts (snd res)"
  by (cases "fst res") (simp_all add: settle_def po_write_eq)

lemma process_cases:
  "(\<exists>target post. processYouTubeDelivery env d worker s =
      settle env d worker (uploadVideoAsPrivateForDelivery env d target post worker s)) \<or>
   no_insert s (processYouTubeDelivery env d worker s)"
proof -
  have upload: "(let (r, s1) = res
       in case r of None \<Rightarrow> (None, s1)
          | Some e \<Rightarrow>
              if de_ctx e \<or> env_cancelled env
              then let (_, s2) = po_write env
                         (\<lambda>flt. ReleaseDeliveryLease flt (env_dbnow env) (yt_id d) worker) s1
                   in (Some e, s2)
              else let (_, s2) = po_write env
                         (\<lambda>flt. MarkDeliveryFailed flt (env_dbnow env) (yt_id d) worker
                            ''upload_failed'' (de_text e)
                            (env_appnow env + deliveryRetryBackoff (yt_attempt_count d))) s1
                   in (Some e, s2)) = settle env d worker res" for res :: "derr option \<times> pool_state"
    by (cases res; cases "fst res") (simp_all add: settle_def po_write_eq)
  show ?thesis
    unfolding processYouTubeDelivery_def upload
    by (auto split: sum.split option.split simp: no_insert_def po_write_eq)
qed

text \<open>The other rows of the table.\<close>

lemma exec_yt_write_other:
  assumes "i \<noteq> j"
  shows "find_row yt_id i (snd (exec_yt_write flt now j w wr t)) = find_row yt_id i t"
proof -
  have "find_row yt_id i (update_where (yt_holds j w) (yt_set now wr) t) = find_row yt_id i t"
    by (rule find_row_update_other) (use assms in \<open>auto simp: yt_holds_def\<close>)
  then show ?thesis by (simp add: exec_yt_write_def snd_case_exec exec_update_table)
qed

lemma exec_yt_write_row:
  assumes "find_row yt_id i t = Some r" and "yt_lease_owner r = Some w"
  shows "find_row yt_id i (snd (exec_yt_write flt now i w wr t)) =
    Some (if flt = DbFailed then r else yt_set now wr r)"
  using assms find_row_SomeD [OF assms(1)]
  by (simp add: exec_yt_write_def snd_case_exec exec_update_table find_row_update_where yt_holds_def)

lemma exec_yt_write_lost:
  assumes "find_row yt_id i t = Some r" and "yt_lease_owner r \<noteq> Some w"
  shows "find_row yt_id i (snd (exec_yt_write flt now i w wr t)) = Some r"
  using assms find_row_SomeD [OF assms(1)]
  by (simp add: exec_yt_write_def snd_case_exec exec_update_table find_row_update_where yt_holds_def)

lemma exec_yt_write_ok:
  assumes "find_row yt_id i t = Some r" and "yt_lease_owner r = Some w"
  shows "is_ok (fst (exec_yt_write flt now i w wr t)) \<longleftrightarrow> flt = DbOk"
proof -
  have "rows_affected (yt_holds i w) t \<noteq> 0"
    using assms find_row_SomeD [OF assms(1)] by (auto simp: rows_affected_0_iff yt_holds_def)
  then show ?thesis by (cases flt) (simp_all add: exec_yt_write_def checkRowsAffected_def)
qed

lemma yt_set_YwUploaded [simp]:
  "yt_state (yt_set now (YwUploaded v) r) = YtUploaded"
  "yt_video_id (yt_set now (YwUploaded v) r) = Some v"
  "yt_upload_status (yt_set now (YwUploaded v) r) = ''youtube_uploaded''"
  "yt_lease_owner (yt_set now (YwUploaded v) r) = None"
  by simp_all

text \<open>The error handling after the mark of a held row.\<close>

lemma settle_row:
  assumes row: "find_row yt_id (yt_id d) t = Some r" and held: "yt_lease_owner r = Some w"
    and up: "yt_state r = YtUploading"
    and tab: "po_table (snd res) = snd (exec_yt_write (env_fault env 0) now (yt_id d) w (YwUploaded v) t)"
    and writes: "po_writes (snd res) = 1"
    and ret: "fst res = None \<longleftrightarrow>
      is_ok (fst (exec_yt_write (env_fault env 0) now (yt_id d) w (YwUploaded v) t))"
  shows "\<exists>r'. find_row yt_id (yt_id d) (po_table (snd (settle env d w res))) = Some r' \<and>
     (if env_fault env 0 \<noteq> DbFailed
      then yt_state r' = YtUploaded \<and> yt_video_id r' = Some v \<and>
           yt_upload_status r' = ''youtube_uploaded''
      else yt_state r' \<in> {YtRetryWait, YtDeadLetter, YtUploading} \<and> yt_video_id r' = yt_video_id r)"
proof (cases "fst res")
  case None
  then have "env_fault env 0 = DbOk" using ret exec_yt_write_ok [OF row held] by simp
  then show ?thesis
    using exec_yt_write_row [OF row held] tab None by (simp add: settle_def)
next
  case (Some e)
  let ?wr = "if de_ctx e \<or> env_cancelled env then YwRelease
    else YwFailed ''upload_failed'' (de_text e)
           (env_appnow env + deliveryRetryBackoff (yt_attempt_count d))"
  have s': "po_table (snd (settle env d w res)) =
      snd (exec_yt_write (env_fault env 1) (env_dbnow env) (yt_id d) w ?wr (po_table (snd res)))"
    by (simp add: settle_def Some po_write_eq writes ReleaseDeliveryLease_def MarkDeliveryFailed_def)
  show ?thesis
  proof (cases "env_fault env 0 = DbFailed")
    case True
    then have "find_row yt_id (yt_id d) (po_table (snd res)) = Some r"
      using exec_yt_write_row [OF row held] tab by simp
    from exec_yt_write_row [OF this held] show ?thesis
      using True up unfolding s' by (simp add: yt_unlease_def)
  next
    case False
    let ?r1 = "yt_set now (YwUploaded v) r"
    have "find_row yt_id (yt_id d) (po_table (snd res)) = Some ?r1"
      using exec_yt_write_row [OF row held] tab False by simp
    moreover have "yt_lease_owner ?r1 \<noteq> Some w" by simp
    ultimately have "find_row yt_id (yt_id d) (po_table (snd (settle env d w res))) = Some ?r1"
      unfolding s' by (rule exec_yt_write_lost)
    then show ?thesis using False by simp
  qed
qed

text \<open>
  C29: what one execution on a claimed row does to the platform and to its record. For a worker
  that holds the row, whatever its collaborators and the database answer: at most one
  \<open>videos.insert\<close> is made, none for a row whose snapshot says it is uploaded, and the other
  rows are untouched. When the platform returned a video, the row ends as \<open>youtube_uploaded\<close>
  with that video exactly unless the database refused the mark; then the row waits for a
  retry, is dead-lettered, is released or is left as it was, and the video is not recorded,
  so the next claim uploads it a second time.
\<close>

theorem processYouTubeDelivery_records:
  assumes "find_row yt_id (yt_id d) (po_table s) = Some r" and "yt_lease_owner r = Some worker"
    and "po_writes s = 0" and "po_effects s = []" and "yt_state r = YtUploading"
  shows "let s' = snd (processYouTubeDelivery env d worker s)
    in length (inserts s') \<le> 1 \<and>
       (yt_upload_status d = ''youtube_uploaded'' \<longrightarrow> inserts s' = []) \<and>
       (\<forall>v. inserts s' = [EffInsert (yt_id d) (Some v)] \<and> v \<noteq> '''' \<longrightarrow>
          (\<exists>r'. find_row yt_id (yt_id d) (po_table s') = Some r' \<and>
             (if env_fault env 0 \<noteq> DbFailed
              then yt_state r' = YtUploaded \<and> yt_video_id r' = Some v \<and>
                   yt_upload_status r' = ''youtube_uploaded''
              else yt_state r' \<in> {YtRetryWait, YtDeadLetter, YtUploading} \<and>
                   yt_video_id r' = yt_video_id r)))"
proof -
  let ?s' = "snd (processYouTubeDelivery env d worker s)"
  have empty: "inserts s = []" using assms(4) by (simp add: inserts_def)
  from process_cases [of env d worker s]
  consider (none) "inserts ?s' = []"
    | (up) res where "processYouTubeDelivery env d worker s = settle env d worker res"
        "upload_outcome env d worker s res"
    using upload_private_outcome empty unfolding no_insert_def by metis
  then show ?thesis
  proof cases
    case none
    then show ?thesis by simp
  next
    case up
    then have same: "inserts ?s' = inserts (snd res)" by simp
    from up(2) consider (no) "inserts (snd res) = []"
      | (failed) "yt_upload_status d \<noteq> ''youtube_uploaded''" "insert_failed d s res"
      | (ins) "yt_upload_status d \<noteq> ''youtube_uploaded''" "insert_done env d worker s res"
      unfolding upload_outcome_def no_insert_def empty by blast
    then show ?thesis
    proof cases
      case no
      with same show ?thesis by simp
    next
      case failed
      then show ?thesis using same empty by (auto simp: insert_failed_def)
    next
      case ins
      then obtain v where v: "v \<noteq> ''''" and eff: "inserts (snd res) = [EffInsert (yt_id d) (Some v)]"
        and writes: "po_writes (snd res) = 1"
        and tab: "po_table (snd res) = snd (exec_yt_write (env_fault env 0) (env_dbnow env) (yt_id d)
                    worker (YwUploaded v) (po_table s))"
        and ret: "fst res = None \<longleftrightarrow> is_ok (fst (exec_yt_write (env_fault env 0) (env_dbnow env)
                    (yt_id d) worker (YwUploaded v) (po_table s)))"
        using assms(3) empty
        by (auto simp: insert_done_def MarkDeliveryUploaded_def Let_def case_prod_beta)
      have "\<exists>r'. find_row yt_id (yt_id d) (po_table ?s') = Some r' \<and>
         (if env_fault env 0 \<noteq> DbFailed
          then yt_state r' = YtUploaded \<and> yt_video_id r' = Some v \<and>
               yt_upload_status r' = ''youtube_uploaded''
          else yt_state r' \<in> {YtRetryWait, YtDeadLetter, YtUploading} \<and>
               yt_video_id r' = yt_video_id r)"
        using settle_row [OF assms(1,2,5) tab writes ret] up(1) by simp
      then show ?thesis using same eff ins(1) by simp
    qed
  qed
qed

definition sample_delivery :: ytpub where
  "sample_delivery = yt_claim_stamp 5 ''w'' 60 sample_pub"

definition sample_yt_target :: PostTarget where
  "sample_yt_target =
     \<lparr>pt_id = 11, pt_post_id = 21, pt_account = 3, pt_status = PSQueued, pt_attempt_count = 0,
      pt_next_attempt_at = None, pt_reconcile_attempt = 0, pt_next_reconcile_at = None,
      pt_reconcile_owner = None, pt_reconcile_until = None, pt_reconcile_heartbeat = None,
      pt_platform_post_id = '''', pt_error_message = '''', pt_published_at = None,
      pt_completed_at = None, pt_provider_state = '''', pt_container_id = '''',
      pt_last_error_code = '''', pt_provider_idempotency_key = None, pt_version = 0\<rparr>"

definition sample_upload_post :: Post where
  "sample_upload_post =
     blank_post\<lparr>p_id := 21, p_workspace_id := 1, p_status := PSQueued,
       p_privacy_level := ''public''\<rparr>"

text \<open>A worker whose platform accepts the upload; \<open>flt\<close> is the answer to the mark.\<close>

definition sample_env :: "db_fault \<Rightarrow> delivery_env" where
  "sample_env flt =
     \<lparr>env_post_store = True, env_target = (\<lambda>_. Inr (Some sample_yt_target)),
      env_post = (\<lambda>_. Inr (Some sample_upload_post)),
      env_account = (\<lambda>i. Inr (Some \<lparr>pa_id = i, pa_platform = ''youtube'', pa_user_id = ''UC1'',
                                     pa_status = ''active'', pa_reauth_required_at = None\<rparr>)),
      env_provider = (\<lambda>_. Some \<lparr>pv_oauth = True, pv_binder = True, pv_uploader = True\<rparr>),
      env_renew = (\<lambda>_. Inr ''token''), env_bind = (\<lambda>_ _. None),
      env_resolve = Some (\<lambda>_. Inr ''https://media''), env_quota = Some (Inr (True, 0)),
      env_upload = (\<lambda>_ _ _ _. Inr ''vid''), env_cancelled = False, env_appnow = 10,
      env_dbnow = 10, env_fault = (\<lambda>n. if n = 0 then flt else DbOk),
      env_db_error = plain_error ''db''\<rparr>"

definition sample_state :: "ytpub list \<Rightarrow> pool_state" where
  "sample_state t = \<lparr>po_writes = 0, po_effects = [], po_table = t\<rparr>"

lemmas process_defs = processYouTubeDelivery_def uploadVideoAsPrivateForDelivery_def
  resolve_and_insert_def gate_and_insert_def insert_and_mark_def po_write_eq po_emit_def

lemma sample_run_inserts:
  "inserts (snd (processYouTubeDelivery (sample_env flt) sample_delivery ''w'' (sample_state t))) =
     [EffInsert 1 (Some ''vid'')]"
  by (simp add: process_defs sample_env_def sample_delivery_def sample_yt_target_def sample_state_def
      sample_pub_def yt_claim_stamp_def inserts_def Let_def split: sum.split)

theorem processYouTubeDelivery_records_witness:
  "let s' = snd (processYouTubeDelivery (sample_env DbOk) sample_delivery ''w''
                   (sample_state [sample_delivery]))
   in inserts s' = [EffInsert 1 (Some ''vid'')] \<and>
      (\<exists>r'. find_row yt_id 1 (po_table s') = Some r' \<and> yt_state r' = YtUploaded)"
proof -
  have "find_row yt_id (yt_id sample_delivery) (po_table (sample_state [sample_delivery])) =
      Some sample_delivery" and "yt_lease_owner sample_delivery = Some ''w''"
    and "po_writes (sample_state [sample_delivery]) = 0"
    and "po_effects (sample_state [sample_delivery]) = []"
    and "yt_state sample_delivery = YtUploading"
    by (simp_all add: sample_delivery_def sample_state_def)
  note fact = processYouTubeDelivery_records [OF this, of "sample_env DbOk"]
  have "yt_id sample_delivery = 1" by (simp add: sample_delivery_def sample_pub_def)
  moreover have "env_fault (sample_env DbOk) 0 = DbOk" by (simp add: sample_env_def)
  ultimately show ?thesis using fact by (auto simp: Let_def sample_run_inserts)
qed

text \<open>
  When the mark is refused, the row goes back to the queue without the video, and the next
  execution uploads the same media once more.
\<close>

lemma refused_mark_uploads_again:
  "let s1 = snd (processYouTubeDelivery (sample_env DbFailed) sample_delivery ''w''
                   (sample_state [sample_delivery]));
       claim = ClaimReadyDeliveries DbOk hour (\<lambda>_. False) ''w2'' 4 minute (po_table s1)
   in case fst claim of
        Inr [d] \<Rightarrow> inserts s1 = [EffInsert 1 (Some ''vid'')] \<and> yt_video_id d = None \<and>
           inserts (snd (processYouTubeDelivery (sample_env DbOk) d ''w2''
             (sample_state (snd claim)))) = [EffInsert 1 (Some ''vid'')]
      | _ \<Rightarrow> False"
  by code_simp

text \<open>
  The lease names the pool, not the claim. Once the reaper has taken a row from a slow execution
  and the same pool has claimed it again, the slow execution's heartbeat still succeeds, and
  its failure mark takes the row from the running one.
\<close>

lemma same_pool_shares_lease:
  "let t = yt_run [(DbOk, 5, YoClaim (\<lambda>_. False) ''pool'' 4 minute),
                   (DbOk, 2 * minute, YoReclaim (\<lambda>i. i) (\<lambda>_. False) 100),
                   (DbOk, 3 * minute, YoClaim (\<lambda>_. False) ''pool'' 4 minute)] [sample_pub];
       t' = snd (MarkDeliveryFailed DbOk (3 * minute + 1) 1 ''pool'' ''upload_failed'' ''late'' (4 * minute) t)
   in map yt_lease_owner t = [Some ''pool''] \<and>
      fst (HeartbeatDelivery DbOk (3 * minute + 1) 1 ''pool'' minute t) = Inr True \<and>
      map yt_state t' = [YtRetryWait] \<and> map yt_lease_owner t' = [None]"
  by code_simp

section \<open>One row per target\<close>

lemma FindByPostTargetID_append:
  "FindByPostTargetID i t = Some r \<Longrightarrow> FindByPostTargetID i (t @ xs) = Some r"
  by (simp add: FindByPostTargetID_def find_row_append)

lemma new_delivery_target [simp]:
  "yt_post_target_id (new_delivery decode now job priority target post) = pt_id target"
  by (simp add: new_delivery_def Let_def split: option.split)

text \<open>Whatever happens, rows are only appended, and only for a target that had none.\<close>

lemma materialize_one:
  assumes "materializeYouTubeDelivery decode found flt dbnow now fresh job priority target post t = (r, t')"
  shows "\<exists>xs. t' = t @ xs \<and> (\<forall>x \<in> set xs. FindByPostTargetID (yt_post_target_id x) t = None) \<and>
      (r = None \<longrightarrow> FindByPostTargetID (pt_id target) t' \<noteq> None)"
  using assms
  by (auto simp: materializeYouTubeDelivery_def yt_Create_def Let_def FindByPostTargetID_def
      find_row_None_iff dest!: find_row_SomeD
      split: if_splits option.splits sum.splits prod.splits) force

lemma materialize_all:
  "materializeYouTubeDeliveries decode accounts ans dbnow now job priority post ts t = (r, t') \<Longrightarrow>
   \<exists>xs. t' = t @ xs \<and>
     (r = None \<longrightarrow> (\<forall>target \<in> set ts. some_and (\<lambda>a. pa_platform a = ''youtube'')
        (accounts (pt_account target)) \<longrightarrow> FindByPostTargetID (pt_id target) t' \<noteq> None))"
proof (induction ts arbitrary: t)
  case (Cons target ts)
  show ?case
  proof (cases "accounts (pt_account target)")
    case None
    then show ?thesis using Cons.prems by auto
  next
    case (Some account)
    show ?thesis
    proof (cases "pa_platform account = ''youtube''")
      case False
      then show ?thesis using Cons.prems Cons.IH [of t] Some by auto
    next
      case True
      let ?a = "ans (pt_id target)"
      obtain r1 t1 where one: "materializeYouTubeDelivery decode (sa_found ?a) (sa_fault ?a) dbnow now
          (sa_fresh ?a) job priority target post t = (r1, t1)" by fastforce
      from materialize_one [OF one] obtain xs where t1: "t1 = t @ xs"
        and made: "r1 = None \<Longrightarrow> FindByPostTargetID (pt_id target) t1 \<noteq> None" by blast
      show ?thesis
      proof (cases r1)
        case None
        then have "materializeYouTubeDeliveries decode accounts ans dbnow now job priority post ts t1 = (r, t')"
          using Cons.prems Some True one by simp
        from Cons.IH [OF this] obtain ys where t': "t' = t1 @ ys" and rest: "r = None \<longrightarrow>
            (\<forall>target \<in> set ts. some_and (\<lambda>a. pa_platform a = ''youtube'') (accounts (pt_account target)) \<longrightarrow>
               FindByPostTargetID (pt_id target) t' \<noteq> None)" by blast
        have "FindByPostTargetID (pt_id target) t' \<noteq> None"
          using made [OF None] FindByPostTargetID_append t' by fastforce
        then show ?thesis using t' t1 rest by auto
      next
        case (Some e)
        then show ?thesis using Cons.prems \<open>accounts (pt_account target) = Some account\<close> True one t1
          by auto
      qed
    qed
  qed
qed simp

text \<open>A second run over the same targets finds every row and inserts nothing.\<close>

lemma materialize_again:
  assumes "\<forall>target \<in> set ts. accounts (pt_account target) \<noteq> None"
    and "\<forall>target \<in> set ts. some_and (\<lambda>a. pa_platform a = ''youtube'') (accounts (pt_account target)) \<longrightarrow>
           FindByPostTargetID (pt_id target) t \<noteq> None \<and> sa_found (ans (pt_id target)) 0"
  shows "materializeYouTubeDeliveries decode accounts ans dbnow now job priority post ts t = (None, t)"
  using assms
  by (induction ts) (auto simp: materializeYouTubeDelivery_def)

end
