(* ===== verification/Quota.thy ===== *)
theory Quota
  imports Prelude
begin

text \<open>
  The daily quota gate of the YouTube API (\<open>internal/services/youtube_quota_manager.go\<close> over
  \<open>internal/repository/youtube_quota_repo.go\<close>) and the request rate limiter
  (\<open>internal/services/ratelimit.go\<close>, \<open>memory_limiter.go\<close> over
  \<open>internal/repository/rate_limit_repo.go\<close>).

  The calendar of America/Los_Angeles is a parameter: \<open>day_of\<close> gives the local calendar day of
  an instant and \<open>midnight\<close> the instant at which a local day begins. The columns are small
  counters, so Go's 64-bit \<open>int\<close> is \<open>int\<close>.
\<close>

section \<open>The quota table\<close>

record pacific =
  day_of :: "time \<Rightarrow> int"
  midnight :: "int \<Rightarrow> time"

definition YouTubeQuotaDay :: "pacific \<Rightarrow> time \<Rightarrow> time" where
  "YouTubeQuotaDay tz now = midnight tz (day_of tz now)"

record quota_row =
  q_date :: int
  q_bucket :: string
  q_calls :: int
  q_errors :: int
  q_limit :: int
  q_last_reset_at :: time

definition q_key :: "quota_row \<Rightarrow> int \<times> string" where
  "q_key r = (q_date r, q_bucket r)"

datatype quota_err =
    QuotaEmptyBucket | QuotaBadCost | QuotaBadLimit | QuotaUnknownBucket | QuotaUnknownOperation
  | QuotaDatabase

text \<open>
  One transaction. A refusal returns without a commit, so the row and the raised limit are
  rolled back; \<open>DbLost\<close> is a commit whose answer was lost. \<open>int(gap.Seconds())\<close> truncates.
\<close>

definition ReserveQuota ::
  "pacific \<Rightarrow> db_fault \<Rightarrow> time \<Rightarrow> string \<Rightarrow> int \<Rightarrow> int \<Rightarrow> quota_row list \<Rightarrow>
   (quota_err + bool \<times> int) \<times> quota_row list" where
  "ReserveQuota tz flt now bucket cost defaultLimit t =
     (if bucket = '''' then (Inl QuotaEmptyBucket, t)
      else if cost < 1 then (Inl QuotaBadCost, t)
      else if defaultLimit < 1 then (Inl QuotaBadLimit, t)
      else if flt = DbFailed then (Inl QuotaDatabase, t)
      else
        let key = (day_of tz now, bucket);
            t1 = (if find_row q_key key t = None
                  then t @ [\<lparr>q_date = day_of tz now, q_bucket = bucket, q_calls = 0, q_errors = 0,
                             q_limit = defaultLimit, q_last_reset_at = now\<rparr>]
                  else t)
        in case find_row q_key key t1 of
             None \<Rightarrow> (Inl QuotaDatabase, t)
           | Some row \<Rightarrow>
               let raised = defaultLimit > q_limit row;
                   effectiveLimit = (if raised then defaultLimit else q_limit row);
                   t2 = (if raised
                         then update_where (\<lambda>r. q_key r = key) (\<lambda>r. r\<lparr>q_limit := defaultLimit\<rparr>) t1
                         else t1)
               in if q_calls row + cost > effectiveLimit
                  then let gap = midnight tz (day_of tz now + 1) - now
                       in (Inr (False, (if gap < 0 then 0 else gap) div second), t)
                  else (if flt = DbLost then Inl QuotaDatabase else Inr (True, 0),
                        update_where (\<lambda>r. q_key r = key) (\<lambda>r. r\<lparr>q_calls := q_calls r + cost\<rparr>) t2))"

definition q_RecordError ::
  "pacific \<Rightarrow> db_fault \<Rightarrow> time \<Rightarrow> string \<Rightarrow> int \<Rightarrow> quota_row list \<Rightarrow>
   (quota_err + unit) \<times> quota_row list" where
  "q_RecordError tz flt now bucket defaultLimit t =
     (if bucket = '''' then (Inl QuotaEmptyBucket, t)
      else if flt = DbFailed then (Inl QuotaDatabase, t)
      else
        let key = (day_of tz now, bucket)
        in (if flt = DbLost then Inl QuotaDatabase else Inr (),
            if find_row q_key key t = None
            then t @ [\<lparr>q_date = day_of tz now, q_bucket = bucket, q_calls = 0, q_errors = 1,
                       q_limit = defaultLimit, q_last_reset_at = now\<rparr>]
            else update_where (\<lambda>r. q_key r = key) (\<lambda>r. r\<lparr>q_errors := q_errors r + 1\<rparr>) t))"

text \<open>\<open>None\<close> is the zero \<open>time.Time\<close> of a day without a row.\<close>

definition GetSnapshot ::
  "pacific \<Rightarrow> time \<Rightarrow> string \<Rightarrow> quota_row list \<Rightarrow> quota_err + int \<times> int \<times> int \<times> time option" where
  "GetSnapshot tz now bucket t =
     (if bucket = '''' then Inl QuotaEmptyBucket
      else case find_row q_key (day_of tz now, bucket) t of
          None \<Rightarrow> Inr (0, 0, 0, None)
        | Some r \<Rightarrow> Inr (q_calls r, q_errors r, q_limit r, Some (q_last_reset_at r)))"


section \<open>The manager\<close>

record YouTubeQuotaLimits =
  lim_VideoUploads :: int
  lim_Searches :: int
  lim_General :: int

definition DefaultYouTubeQuotaLimits :: YouTubeQuotaLimits where
  "DefaultYouTubeQuotaLimits = \<lparr>lim_VideoUploads = 100, lim_Searches = 100, lim_General = 10000\<rparr>"

definition forBucket :: "YouTubeQuotaLimits \<Rightarrow> string \<Rightarrow> quota_err + int" where
  "forBucket l bucket =
     (if bucket = ''video_uploads'' then Inr (lim_VideoUploads l)
      else if bucket = ''searches'' then Inr (lim_Searches l)
      else if bucket = ''general'' then Inr (lim_General l)
      else Inl QuotaUnknownBucket)"

definition NewYouTubeQuotaManager :: "YouTubeQuotaLimits \<Rightarrow> YouTubeQuotaLimits" where
  "NewYouTubeQuotaManager l =
     (let l = (if lim_VideoUploads l = 0 then l\<lparr>lim_VideoUploads := 100\<rparr> else l);
          l = (if lim_Searches l = 0 then l\<lparr>lim_Searches := 100\<rparr> else l)
      in if lim_General l = 0 then l\<lparr>lim_General := 10000\<rparr> else l)"

definition youtubeOperationSpecs :: "string \<Rightarrow> (string \<times> int) option" where
  "youtubeOperationSpecs = map_of
     [(''videos.insert'', (''video_uploads'', 1)),
      (''search.list'', (''searches'', 1)),
      (''videos.update'', (''general'', 50)),
      (''videos.list'', (''general'', 1)),
      (''thumbnails.set'', (''general'', 50)),
      (''channels.list'', (''general'', 1))]"

definition OperationSpec :: "string \<Rightarrow> quota_err + string \<times> int" where
  "OperationSpec operation =
     (case youtubeOperationSpecs operation of
        None \<Rightarrow> Inl QuotaUnknownOperation | Some spec \<Rightarrow> Inr spec)"

definition qm_Reserve ::
  "YouTubeQuotaLimits \<Rightarrow> pacific \<Rightarrow> db_fault \<Rightarrow> time \<Rightarrow> string \<Rightarrow> int \<Rightarrow> quota_row list \<Rightarrow>
   (quota_err + bool \<times> int) \<times> quota_row list" where
  "qm_Reserve l tz flt now bucket cost t =
     (case forBucket l bucket of
        Inl e \<Rightarrow> (Inl e, t)
      | Inr limit \<Rightarrow> ReserveQuota tz flt now bucket cost limit t)"

definition ReserveOperation ::
  "YouTubeQuotaLimits \<Rightarrow> pacific \<Rightarrow> db_fault \<Rightarrow> time \<Rightarrow> string \<Rightarrow> quota_row list \<Rightarrow>
   (quota_err + bool \<times> int) \<times> quota_row list" where
  "ReserveOperation l tz flt now operation t =
     (case youtubeOperationSpecs operation of
        None \<Rightarrow> (Inl QuotaUnknownOperation, t)
      | Some (bucket, cost) \<Rightarrow> qm_Reserve l tz flt now bucket cost t)"

definition qm_RecordError ::
  "YouTubeQuotaLimits \<Rightarrow> pacific \<Rightarrow> db_fault \<Rightarrow> time \<Rightarrow> string \<Rightarrow> quota_row list \<Rightarrow>
   (quota_err + unit) \<times> quota_row list" where
  "qm_RecordError l tz flt now bucket t =
     (case forBucket l bucket of
        Inl e \<Rightarrow> (Inl e, t)
      | Inr limit \<Rightarrow> q_RecordError tz flt now bucket limit t)"

definition Snapshot ::
  "YouTubeQuotaLimits \<Rightarrow> pacific \<Rightarrow> time \<Rightarrow> string \<Rightarrow> quota_row list \<Rightarrow>
   quota_err + int \<times> int \<times> int \<times> time option" where
  "Snapshot l tz now bucket t =
     rbind (forBucket l bucket) (\<lambda>limit.
     rbind (GetSnapshot tz now bucket t) (\<lambda>(calls, errs, stored, reset).
       Inr (calls, errs, if stored = 0 then limit else stored, reset)))"


section \<open>The gate is strict\<close>

text \<open>
  Calls of the managers of any number of processes, one transaction after the other; every
  process has its own configured limits. A grant is the day, the bucket and the cost of an
  allowed call.
\<close>

datatype quota_op = QoReserve string | QoRecordError string

type_synonym quota_call = "YouTubeQuotaLimits \<times> db_fault \<times> time \<times> quota_op"
type_synonym grant = "int \<times> string \<times> int"

definition grant_of :: "pacific \<Rightarrow> time \<Rightarrow> string \<Rightarrow> quota_err + bool \<times> int \<Rightarrow> grant list" where
  "grant_of tz now operation r =
     (case r of
        Inr (True, _) \<Rightarrow>
          (case youtubeOperationSpecs operation of
             Some (bucket, cost) \<Rightarrow> [(day_of tz now, bucket, cost)] | None \<Rightarrow> [])
      | _ \<Rightarrow> [])"

fun quota_exec :: "pacific \<Rightarrow> quota_call \<Rightarrow> quota_row list \<Rightarrow> grant list \<times> quota_row list" where
  "quota_exec tz (l, flt, now, QoReserve operation) t =
     (let (r, t') = ReserveOperation l tz flt now operation t in (grant_of tz now operation r, t'))"
| "quota_exec tz (l, flt, now, QoRecordError bucket) t =
     ([], snd (qm_RecordError l tz flt now bucket t))"

fun quota_run :: "pacific \<Rightarrow> quota_call list \<Rightarrow> quota_row list \<Rightarrow> grant list \<times> quota_row list" where
  "quota_run tz [] t = ([], t)"
| "quota_run tz (x # xs) t =
     (let (g, t1) = quota_exec tz x t; (gs, t2) = quota_run tz xs t1 in (g @ gs, t2))"

definition granted :: "int \<Rightarrow> string \<Rightarrow> grant list \<Rightarrow> int" where
  "granted day bucket gs = sum_list (map (\<lambda>(d, b, c). if d = day \<and> b = bucket then c else 0) gs)"

definition spent :: "int \<Rightarrow> string \<Rightarrow> quota_row list \<Rightarrow> int" where
  "spent day bucket t =
     (case find_row q_key (day, bucket) t of None \<Rightarrow> 0 | Some r \<Rightarrow> q_calls r)"

text \<open>\<open>quota_ok cap t\<close>: no counter is above the ceiling \<open>cap\<close> of its bucket.\<close>

definition quota_ok :: "(string \<Rightarrow> int) \<Rightarrow> quota_row list \<Rightarrow> bool" where
  "quota_ok cap t \<longleftrightarrow> distinct (map q_key t) \<and>
     (\<forall>r \<in> set t. 0 \<le> q_calls r \<and> q_limit r \<le> cap (q_bucket r) \<and> q_calls r \<le> max 0 (cap (q_bucket r)))"

lemma granted_simps [simp]:
  "granted day bucket [] = 0"
  "granted day bucket (gs @ hs) = granted day bucket gs + granted day bucket hs"
  "granted day bucket [(d, b, c)] = (if d = day \<and> b = bucket then c else 0)"
  by (simp_all add: granted_def)

lemma q_key_update [simp]: "q_key (r\<lparr>q_limit := x\<rparr>) = q_key r" "q_key (r\<lparr>q_calls := x\<rparr>) = q_key r"
  "q_key (r\<lparr>q_errors := x\<rparr>) = q_key r"
  by (simp_all add: q_key_def)

lemma spent_update:
  assumes "\<And>r. q_key (f r) = q_key r" and "\<And>r. q_calls (f r) = q_calls r + c" and "find_row q_key k t \<noteq> None"
  shows "spent day bucket (update_where (\<lambda>r. q_key r = k) f t) =
    spent day bucket t + (if (day, bucket) = k then c else 0)"
  using assms by (auto simp: spent_def find_row_update_where dest: find_row_SomeD split: option.split)

lemma spent_update_same:
  assumes "\<And>r. q_key (f r) = q_key r" and "\<And>r. q_calls (f r) = q_calls r"
  shows "spent day bucket (update_where p f t) = spent day bucket t"
  using assms by (auto simp: spent_def find_row_update_where split: option.split)

lemma spent_new_row:
  assumes "find_row q_key (q_key row) t = None" and "q_calls row = 0"
  shows "spent day bucket (t @ [row]) = spent day bucket t"
proof -
  have "find_row q_key (day, bucket) (t @ [row]) =
      (case find_row q_key (day, bucket) t of
         None \<Rightarrow> if q_key row = (day, bucket) then Some row else None | Some r \<Rightarrow> Some r)"
    by (induction t) auto
  with assms show ?thesis by (auto simp: spent_def split: option.split)
qed

text \<open>What a reservation does to the counters.\<close>

lemma ReserveQuota_spent:
  assumes "ReserveQuota tz flt now bucket cost dl t = (r, t')" and "quota_ok cap t"
    and "dl \<le> cap bucket"
  shows "quota_ok cap t' \<and> spent d b t \<le> spent d b t' \<and>
    ((\<exists>x. r = Inr (True, x)) \<longrightarrow>
       spent d b t' = spent d b t + (if d = day_of tz now \<and> b = bucket then cost else 0))"
proof (cases "t' = t \<and> \<not> (\<exists>x. r = Inr (True, x))")
  case True
  with assms(2) show ?thesis by simp
next
  case False
  let ?key = "(day_of tz now, bucket)"
  let ?new = "\<lparr>q_date = day_of tz now, q_bucket = bucket, q_calls = 0, q_errors = 0,
                q_limit = dl, q_last_reset_at = now\<rparr>"
  let ?t1 = "if find_row q_key ?key t = None then t @ [?new] else t"
  have new: "q_key ?new = ?key" by (simp add: q_key_def)
  from False assms(1) have cost: "1 \<le> cost" and dl: "1 \<le> dl"
    by (auto simp: ReserveQuota_def split: if_splits)
  obtain row where row: "find_row q_key ?key ?t1 = Some row"
    using False assms(1) by (auto simp: ReserveQuota_def Let_def split: if_splits option.splits)
  let ?t2 = "if dl > q_limit row
    then update_where (\<lambda>r. q_key r = ?key) (\<lambda>r. r\<lparr>q_limit := dl\<rparr>) ?t1 else ?t1"
  have fits: "q_calls row + cost \<le> max dl (q_limit row)"
    and t': "t' = update_where (\<lambda>r. q_key r = ?key) (\<lambda>r. r\<lparr>q_calls := q_calls r + cost\<rparr>) ?t2"
    using False assms(1) row
    by (auto simp: ReserveQuota_def Let_def split: if_splits)
  have ok1: "quota_ok cap ?t1"
    using assms(2,3) by (auto simp: quota_ok_def find_row_None_iff new)
  have ids2: "map q_key ?t2 = map q_key ?t1" by (simp add: map_update_where)
  have ok2: "quota_ok cap ?t2"
    using ok1 assms(3) ids2 by (auto simp: quota_ok_def set_update_where q_key_def)
  have row_ok: "q_limit row \<le> cap bucket"
    using find_row_SomeD [OF row] ok1 by (auto simp: quota_ok_def q_key_def)
  have row2: "find_row q_key ?key ?t2 =
      Some (if dl > q_limit row then row\<lparr>q_limit := dl\<rparr> else row)"
    using row find_row_SomeD [OF row] by (simp add: find_row_update_where)
  have calls: "q_calls r + cost \<le> cap bucket" if "r \<in> set ?t2" "q_key r = ?key" for r
  proof -
    have "find_row q_key (q_key r) ?t2 = Some r"
      using ok2 that(1) by (intro find_row_unique) (simp_all add: quota_ok_def)
    then have "q_calls r = q_calls row" using row2 that(2) by (auto split: if_splits)
    then show ?thesis using fits row_ok assms(3) by linarith
  qed
  have "quota_ok cap t'"
    unfolding t' quota_ok_def
  proof
    show "distinct (map q_key (update_where (\<lambda>r. q_key r = ?key) (\<lambda>r. r\<lparr>q_calls := q_calls r + cost\<rparr>) ?t2))"
      using ok2 by (simp add: map_update_where quota_ok_def)
    show "\<forall>r \<in> set (update_where (\<lambda>r. q_key r = ?key) (\<lambda>r. r\<lparr>q_calls := q_calls r + cost\<rparr>) ?t2).
        0 \<le> q_calls r \<and> q_limit r \<le> cap (q_bucket r) \<and> q_calls r \<le> max 0 (cap (q_bucket r))"
      using ok2 calls cost unfolding quota_ok_def set_update_where
      by (fastforce simp: q_key_def)
  qed
  moreover have "spent d b ?t2 = spent d b t"
    using spent_new_row [of ?new t d b] new by (simp add: spent_update_same)
  then have "spent d b t' = spent d b t + (if (d, b) = ?key then cost else 0)"
    unfolding t' by (subst spent_update) (use row2 in simp_all)
  ultimately show ?thesis using cost by simp
qed

lemma RecordError_spent:
  assumes "q_RecordError tz flt now bucket dl t = (r, t')" and "quota_ok cap t" and "dl \<le> cap bucket"
  shows "quota_ok cap t' \<and> spent d b t' = spent d b t"
proof -
  let ?new = "\<lparr>q_date = day_of tz now, q_bucket = bucket, q_calls = 0, q_errors = 1,
                q_limit = dl, q_last_reset_at = now\<rparr>"
  let ?upd = "update_where (\<lambda>r. q_key r = (day_of tz now, bucket)) (\<lambda>r. r\<lparr>q_errors := q_errors r + 1\<rparr>) t"
  have new: "q_key ?new = (day_of tz now, bucket)" by (simp add: q_key_def)
  have t': "t' = snd (q_RecordError tz flt now bucket dl t)" by (simp add: assms(1))
  have "t' = t \<or> (find_row q_key (q_key ?new) t = None \<and> t' = t @ [?new]) \<or> t' = ?upd"
    unfolding t' new q_RecordError_def Let_def by simp
  then consider "t' = t" | "find_row q_key (q_key ?new) t = None" "t' = t @ [?new]" | "t' = ?upd"
    by (elim disjE conjE)
  then show ?thesis
  proof cases
    case 2
    then show ?thesis using assms(2,3) spent_new_row [of ?new t d b]
      by (auto simp: quota_ok_def find_row_None_iff)
  next
    case 3
    have "quota_ok cap ?upd"
      unfolding quota_ok_def
    proof
      show "distinct (map q_key ?upd)" using assms(2) by (simp add: map_update_where quota_ok_def)
      show "\<forall>r \<in> set ?upd. 0 \<le> q_calls r \<and> q_limit r \<le> cap (q_bucket r) \<and>
          q_calls r \<le> max 0 (cap (q_bucket r))"
        using assms(2) by (auto simp: set_update_where quota_ok_def)
    qed
    moreover have "spent d b ?upd = spent d b t" by (rule spent_update_same) simp_all
    ultimately show ?thesis unfolding 3 by blast
  qed (simp add: assms(2))
qed

definition within :: "(string \<Rightarrow> int) \<Rightarrow> YouTubeQuotaLimits \<Rightarrow> bool" where
  "within cap l \<longleftrightarrow>
     lim_VideoUploads l \<le> cap ''video_uploads'' \<and> lim_Searches l \<le> cap ''searches'' \<and>
     lim_General l \<le> cap ''general''"

lemma forBucket_within: "within cap l \<Longrightarrow> forBucket l bucket = Inr limit \<Longrightarrow> limit \<le> cap bucket"
  by (auto simp: within_def forBucket_def split: if_splits)

lemma quota_exec_spent:
  assumes "quota_exec tz (l, x) t = (g, t')" and "quota_ok cap t" and "within cap l"
  shows "quota_ok cap t' \<and> spent d b t + granted d b g \<le> spent d b t'"
proof -
  obtain flt now op where x: "x = (flt, now, op)" by (cases x)
  show ?thesis
  proof (cases op)
    case (QoReserve operation)
    let ?r = "ReserveOperation l tz flt now operation t"
    have g: "g = grant_of tz now operation (fst ?r)" and t': "t' = snd ?r"
      using assms(1) by (auto simp: x QoReserve case_prod_beta)
    show ?thesis
    proof (cases "\<exists>bucket cost limit. youtubeOperationSpecs operation = Some (bucket, cost) \<and>
        forBucket l bucket = Inr limit")
      case True
      then obtain bucket cost limit where spec: "youtubeOperationSpecs operation = Some (bucket, cost)"
        and limit: "forBucket l bucket = Inr limit" by blast
      have r: "?r = ReserveQuota tz flt now bucket cost limit t"
        by (simp add: ReserveOperation_def spec qm_Reserve_def limit)
      obtain q where q: "ReserveQuota tz flt now bucket cost limit t = (q, t')"
        using t' by (simp add: r) (metis surjective_pairing)
      have "granted d b g = (if (\<exists>x. q = Inr (True, x)) \<and> d = day_of tz now \<and> b = bucket
          then cost else 0)"
        unfolding g r q by (auto simp: grant_of_def spec split: sum.split bool.split prod.split)
      with ReserveQuota_spent [OF q assms(2) forBucket_within [OF assms(3) limit], of d b] show ?thesis
        by auto
    next
      case False
      then have "t' = t" and "\<And>v. fst ?r \<noteq> Inr v"
        unfolding t' by (auto simp: ReserveOperation_def qm_Reserve_def split: option.split sum.split)
      moreover from this(2) have "g = []"
        unfolding g by (simp add: grant_of_def split: sum.split)
      ultimately show ?thesis using assms(2) by simp
    qed
  next
    case (QoRecordError bucket)
    with assms(1) have g: "g = []" and t': "t' = snd (qm_RecordError l tz flt now bucket t)"
      by (auto simp: x)
    show ?thesis
    proof (cases "forBucket l bucket")
      case (Inl e)
      then show ?thesis using assms(2) by (simp add: g t' qm_RecordError_def)
    next
      case (Inr limit)
      then have "t' = snd (q_RecordError tz flt now bucket limit t)" by (simp add: t' qm_RecordError_def)
      with RecordError_spent [OF _ assms(2) forBucket_within [OF assms(3) Inr], of tz flt now _ t' d b]
      show ?thesis by (simp add: g prod_eq_iff)
    qed
  qed
qed

lemma quota_run_spent:
  assumes "\<forall>x \<in> set xs. within cap (fst x)" and "quota_ok cap t" and "quota_run tz xs t = (gs, t')"
  shows "quota_ok cap t' \<and> spent d b t + granted d b gs \<le> spent d b t'"
  using assms
proof (induction xs arbitrary: t gs)
  case (Cons x xs)
  obtain g t1 where one: "quota_exec tz x t = (g, t1)" by fastforce
  obtain hs where rest: "quota_run tz xs t1 = (hs, t')" and gs: "gs = g @ hs"
    using Cons.prems(3) one by (auto split: prod.splits)
  obtain l y where x: "x = (l, y)" by (cases x)
  have "within cap l" using Cons.prems(1) by (simp add: x)
  with one Cons.prems(2) have "quota_ok cap t1 \<and> spent d b t + granted d b g \<le> spent d b t1"
    unfolding x by (intro quota_exec_spent)
  with Cons.IH [OF _ _ rest] Cons.prems(1) show ?case by (auto simp: gs)
qed simp

text \<open>
  C34: the daily quota is never exceeded. Take any sequence of reservations and error records
  of any number of processes, at any times and with any database faults, whose configured
  ceilings are at most \<open>cap\<close>: the units granted on one Pacific day for one bucket add up to
  at most the ceiling of that bucket, and every grant is covered by the counter, also when
  the answer of a commit was lost.
\<close>

theorem quota_never_exceeded:
  assumes "\<forall>x \<in> set xs. within cap (fst x)" and "quota_run tz xs [] = (gs, t)"
  shows "granted day bucket gs \<le> spent day bucket t \<and>
    granted day bucket gs \<le> max 0 (cap bucket)"
proof -
  have run: "quota_ok cap t \<and> granted day bucket gs \<le> spent day bucket t"
    using quota_run_spent [OF assms(1) _ assms(2), of day bucket] by (simp add: quota_ok_def spent_def)
  have "spent day bucket t \<le> max 0 (cap bucket)"
  proof (cases "find_row q_key (day, bucket) t")
    case None
    then show ?thesis by (simp add: spent_def)
  next
    case (Some r)
    then show ?thesis using run find_row_SomeD [OF Some]
      by (auto simp: spent_def quota_ok_def q_key_def)
  qed
  with run show ?thesis by simp
qed

definition sample_pacific :: pacific where
  "sample_pacific = \<lparr>day_of = (\<lambda>t. t div (24 * hour)), midnight = (\<lambda>d. d * (24 * hour))\<rparr>"

definition sample_calls :: "quota_call list" where
  "sample_calls =
     (let l = NewYouTubeQuotaManager \<lparr>lim_VideoUploads = 2, lim_Searches = 0, lim_General = 0\<rparr>
      in [(l, DbOk, 5, QoReserve ''videos.insert''), (l, DbLost, 6, QoReserve ''videos.insert''),
          (l, DbOk, 7, QoReserve ''videos.insert''), (l, DbOk, 8, QoRecordError ''video_uploads''),
          (l, DbOk, 9, QoReserve ''videos.update'')])"

theorem quota_never_exceeded_witness:
  "let (gs, t) = quota_run sample_pacific sample_calls []
   in gs = [(0, ''video_uploads'', 1), (0, ''general'', 50)] \<and>
      granted 0 ''video_uploads'' gs \<le> spent 0 ''video_uploads'' t \<and> spent 0 ''video_uploads'' t = 2"
proof -
  let ?cap = "\<lambda>b. if b = ''video_uploads'' then 2 else 10000 :: int"
  obtain gs t where run: "quota_run sample_pacific sample_calls [] = (gs, t)" by fastforce
  have "\<forall>x \<in> set sample_calls. within ?cap (fst x)" by code_simp
  from quota_never_exceeded [OF this run, of 0 "''video_uploads''"]
  have "granted 0 ''video_uploads'' gs \<le> spent 0 ''video_uploads'' t" by simp
  moreover have "fst (quota_run sample_pacific sample_calls []) = [(0, ''video_uploads'', 1), (0, ''general'', 50)] \<and>
      spent 0 ''video_uploads'' (snd (quota_run sample_pacific sample_calls [])) = 2" by code_simp
  ultimately show ?thesis by (simp add: run)
qed

text \<open>
  A ceiling an operator lowered in the table holds only until the next reservation, which
  raises it to the configured one.
\<close>

lemma lowered_limit_is_raised:
  "let row = \<lparr>q_date = 0, q_bucket = ''general'', q_calls = 10, q_errors = 0, q_limit = 10,
              q_last_reset_at = 0\<rparr>
   in map q_limit (snd (ReserveQuota sample_pacific DbOk 5 ''general'' 1 10000 [row])) = [10000]"
  by code_simp

end
