(* ===== verification/RateLimit.thy ===== *)
theory RateLimit
  imports GoStrings "HOL-Library.AList"
begin

text \<open>
  The request rate limiter: the counters of \<open>internal/repository/rate_limit_repo.go\<close>, the
  in-process limiter of \<open>internal/services/memory_limiter.go\<close> and the service that chooses
  between them, \<open>internal/services/ratelimit.go\<close>. The token bucket of
  \<open>golang.org/x/time/rate\<close> is the parameter \<open>bucket_lib\<close>. Instants are not before 1970.
\<close>

section \<open>Fixed windows in the database\<close>

record rate_row =
  rl_scope :: string
  rl_window_start :: int
  rl_count :: int

definition rl_key :: "rate_row \<Rightarrow> string \<times> int" where
  "rl_key r = (rl_scope r, rl_window_start r)"

datatype rate_err = ErrRateLimitScopeEmpty | RlBadWindow | RlUnknownStorage | RlDatabase

definition window_seconds :: "duration \<Rightarrow> int" where
  "window_seconds window = (let s = window div second in if s = 0 then 1 else s)"

definition window_start :: "duration \<Rightarrow> time \<Rightarrow> int" where
  "window_start window now = ((now div second) div window_seconds window) * window_seconds window"

definition window_reset :: "duration \<Rightarrow> time \<Rightarrow> time" where
  "window_reset window now = (window_start window now + window_seconds window) * second"

definition Increment ::
  "db_fault \<Rightarrow> time \<Rightarrow> string \<Rightarrow> duration \<Rightarrow> rate_row list \<Rightarrow>
   (rate_err + int \<times> time) \<times> rate_row list" where
  "Increment flt now scope window t =
     (if scope = '''' then (Inl ErrRateLimitScopeEmpty, t)
      else if window \<le> 0 then (Inl RlBadWindow, t)
      else if flt = DbFailed then (Inl RlDatabase, t)
      else
        let key = (scope, window_start window now);
            t' = (if find_row rl_key key t = None
                  then t @ [\<lparr>rl_scope = scope, rl_window_start = window_start window now, rl_count = 1\<rparr>]
                  else update_where (\<lambda>r. rl_key r = key) (\<lambda>r. r\<lparr>rl_count := rl_count r + 1\<rparr>) t)
        in (if flt = DbLost then Inl RlDatabase
            else case find_row rl_key key t' of
                None \<Rightarrow> Inl RlDatabase
              | Some r \<Rightarrow> Inr (rl_count r, window_reset window now), t'))"

definition rl_Get :: "time \<Rightarrow> string \<Rightarrow> duration \<Rightarrow> rate_row list \<Rightarrow> int \<times> time" where
  "rl_Get now scope window t =
     (case find_row rl_key (scope, window_start window now) t of
        None \<Rightarrow> (0, window_reset window now)
      | Some r \<Rightarrow> (rl_count r, window_reset window now))"

definition DeleteOlderThan ::
  "db_fault \<Rightarrow> time \<Rightarrow> rate_row list \<Rightarrow> (rate_err + nat) \<times> rate_row list" where
  "DeleteOlderThan flt cutoff t =
     (let old = (\<lambda>r. rl_window_start r < cutoff div second)
      in if flt = DbFailed then (Inl RlDatabase, t)
         else (if flt = DbLost then Inl RlDatabase else Inr (length (filter old t)),
               filter (\<lambda>r. \<not> old r) t))"


section \<open>The limiter of one process\<close>

record 'l bucket_lib =
  bl_new :: "int \<Rightarrow> 'l"
  bl_allow :: "time \<Rightarrow> 'l \<Rightarrow> bool \<times> 'l"
  bl_delay :: "time \<Rightarrow> 'l \<Rightarrow> duration"
  bl_tokens :: "time \<Rightarrow> 'l \<Rightarrow> int"

record 'l memoryLimiterEntry =
  en_limiter :: 'l
  en_lastSeen :: time

type_synonym 'l memory_limiter = "(string \<times> 'l memoryLimiterEntry) list"

definition memoryLimiterEntryTTL :: duration where
  "memoryLimiterEntryTTL = 10 * minute"

text \<open>An existing entry keeps the limit it was created with.\<close>

definition getLimiter ::
  "'l bucket_lib \<Rightarrow> time \<Rightarrow> string \<Rightarrow> int \<Rightarrow> 'l memory_limiter \<Rightarrow> 'l \<times> 'l memory_limiter" where
  "getLimiter lib now scope rpm ml =
     (case map_of ml scope of
        Some e \<Rightarrow> (en_limiter e, AList.update scope (e\<lparr>en_lastSeen := now\<rparr>) ml)
      | None \<Rightarrow>
          (let l = bl_new lib rpm
           in (l, AList.update scope \<lparr>en_limiter = l, en_lastSeen = now\<rparr> ml)))"

text \<open>\<open>Reserve\<close> followed by \<open>Cancel\<close> reads the delay and leaves the bucket as it was.\<close>

definition ml_Allow ::
  "'l bucket_lib \<Rightarrow> time \<Rightarrow> string \<Rightarrow> int \<Rightarrow> duration \<Rightarrow> 'l memory_limiter \<Rightarrow>
   (bool \<times> int \<times> time) \<times> 'l memory_limiter" where
  "ml_Allow lib now scope rpm window ml =
     (if rpm \<le> 0 then ((True, 0, now + window), ml)
      else
        let (l, ml1) = getLimiter lib now scope rpm ml;
            (ok, l') = bl_allow lib now l;
            ml2 = AList.update scope \<lparr>en_limiter = l', en_lastSeen = now\<rparr> ml1
        in if \<not> ok then ((False, 0, now + bl_delay lib now l'), ml2)
           else ((True, max 0 (bl_tokens lib now l'), now + window), ml2))"

definition evictStale :: "time \<Rightarrow> 'l memory_limiter \<Rightarrow> 'l memory_limiter" where
  "evictStale now ml = filter (\<lambda>(_, e). \<not> now - en_lastSeen e > memoryLimiterEntryTTL) ml"


section \<open>The service\<close>

datatype Storage = StoragePostgres | StorageMemory | StorageOther

record Tier =
  ti_storage :: Storage
  ti_scope :: string
  ti_limit :: int

definition WorkspacePostLimit :: "nat \<Rightarrow> Tier" where
  "WorkspacePostLimit i =
     \<lparr>ti_storage = StoragePostgres, ti_scope = ''ws_post:'' @ Itoa i, ti_limit = 60\<rparr>"

definition APIKeyReadLimit :: "nat \<Rightarrow> Tier" where
  "APIKeyReadLimit i =
     \<lparr>ti_storage = StoragePostgres, ti_scope = ''apikey_read:'' @ Itoa i, ti_limit = 600\<rparr>"

definition MediaPresignLimit :: Tier where
  "MediaPresignLimit =
     \<lparr>ti_storage = StorageMemory, ti_scope = ''endpoint:media_presign'', ti_limit = 30\<rparr>"

definition OAuthStartLimit :: "string \<Rightarrow> Tier" where
  "OAuthStartLimit ip = \<lparr>ti_storage = StorageMemory, ti_scope = ''oauth_ip:'' @ ip, ti_limit = 20\<rparr>"

definition BookingEventLimit :: "string \<Rightarrow> Tier" where
  "BookingEventLimit ip =
     \<lparr>ti_storage = StorageMemory, ti_scope = ''booking_event_ip:'' @ ip, ti_limit = 5\<rparr>"

text \<open>The state of the service: the shared counters and the limiter of the process.\<close>

record 'l rate_state =
  rs_rows :: "rate_row list"
  rs_memory :: "'l memory_limiter"

text \<open>The result: allowed, remaining, reset, and the error the caller logs.\<close>

definition rl_Check ::
  "'l bucket_lib \<Rightarrow> db_fault \<Rightarrow> time \<Rightarrow> Tier \<Rightarrow> int \<Rightarrow> 'l rate_state \<Rightarrow>
   (bool \<times> int \<times> time \<times> rate_err option) \<times> 'l rate_state" where
  "rl_Check lib flt now tier limit s =
     (if limit \<le> 0 then ((True, 0, now + minute, None), s)
      else case ti_storage tier of
        StoragePostgres \<Rightarrow>
          (let (r, t') = Increment flt now (ti_scope tier) minute (rs_rows s); s' = s\<lparr>rs_rows := t'\<rparr>
           in case r of
                Inl e \<Rightarrow> ((True, limit, now + minute, Some e), s')
              | Inr (n, ra) \<Rightarrow> ((n \<le> limit, max 0 (limit - n), ra, None), s'))
      | StorageMemory \<Rightarrow>
          (let ((ok, rem, ra), ml) = ml_Allow lib now (ti_scope tier) limit minute (rs_memory s)
           in ((ok, rem, ra, None), s\<lparr>rs_memory := ml\<rparr>))
      | StorageOther \<Rightarrow> ((True, limit, now + minute, Some RlUnknownStorage), s))"


section \<open>The window\<close>

definition counted :: "string \<Rightarrow> int \<Rightarrow> rate_row list \<Rightarrow> int" where
  "counted scope w t = (case find_row rl_key (scope, w) t of None \<Rightarrow> 0 | Some r \<Rightarrow> rl_count r)"

lemma rl_key_update [simp]: "rl_key (r\<lparr>rl_count := n\<rparr>) = rl_key r"
  by (simp add: rl_key_def)

lemma window_start_le:
  assumes "0 < window"
  shows "window_start window now \<le> now div second"
    and "now div second < window_start window now + window_seconds window"
proof -
  have pos: "0 < window_seconds window"
    using assms by (auto simp: window_seconds_def Let_def pos_imp_zdiv_nonneg_iff order_less_le)
  show "window_start window now \<le> now div second"
    using pos pos_mod_sign [OF pos, of "now div second"] div_mult_mod_eq [of "now div second" "window_seconds window"]
    unfolding window_start_def by linarith
  have "now div second = (now div second div window_seconds window) * window_seconds window +
      now div second mod window_seconds window" by simp
  then show "now div second < window_start window now + window_seconds window"
    using pos pos_mod_bound [OF pos, of "now div second"] unfolding window_start_def by linarith
qed

lemma Increment_counted:
  assumes "scope \<noteq> ''''" and "0 < window" and "flt \<noteq> DbFailed"
  shows "counted scope (window_start window now) (snd (Increment flt now scope window t)) =
      counted scope (window_start window now) t + 1"
    and "flt = DbOk \<Longrightarrow> fst (Increment flt now scope window t) =
      Inr (counted scope (window_start window now) t + 1, window_reset window now)"
proof -
  let ?k = "(scope, window_start window now)"
  let ?new = "\<lparr>rl_scope = scope, rl_window_start = window_start window now, rl_count = 1\<rparr>"
  have snoc: "find_row rl_key ?k (t @ [?new]) = Some ?new" if "find_row rl_key ?k t = None"
    using that by (induction t) (auto simp: rl_key_def split: if_splits)
  have upd: "find_row rl_key ?k (update_where (\<lambda>r. rl_key r = ?k) (\<lambda>r. r\<lparr>rl_count := rl_count r + 1\<rparr>) t) =
      map_option (\<lambda>r. r\<lparr>rl_count := rl_count r + 1\<rparr>) (find_row rl_key ?k t)"
    by (cases "find_row rl_key ?k t") (auto simp: find_row_update_where dest: find_row_SomeD)
  show "counted scope (window_start window now) (snd (Increment flt now scope window t)) =
      counted scope (window_start window now) t + 1"
    using assms snoc upd
    by (cases "find_row rl_key ?k t") (simp_all add: Increment_def counted_def Let_def)
  show "flt = DbOk \<Longrightarrow> fst (Increment flt now scope window t) =
      Inr (counted scope (window_start window now) t + 1, window_reset window now)"
    using assms snoc upd
    by (cases "find_row rl_key ?k t") (simp_all add: Increment_def counted_def Let_def)
qed

text \<open>The verdicts of a sequence of checks of one tier by any number of processes.\<close>

fun rl_run ::
  "'l bucket_lib \<Rightarrow> Tier \<Rightarrow> int \<Rightarrow> (db_fault \<times> time) list \<Rightarrow> 'l rate_state \<Rightarrow> bool list" where
  "rl_run lib tier limit [] s = []"
| "rl_run lib tier limit ((flt, now) # xs) s =
     (let ((ok, _), s') = rl_Check lib flt now tier limit s in ok # rl_run lib tier limit xs s')"

lemma rl_Check_postgres:
  assumes "ti_storage tier = StoragePostgres" and "ti_scope tier \<noteq> ''''" and "0 < limit"
  shows "rs_rows (snd (rl_Check lib flt now tier limit s)) = snd (Increment flt now (ti_scope tier) minute (rs_rows s))"
    and "fst (fst (rl_Check lib flt now tier limit s)) \<longleftrightarrow>
      flt \<noteq> DbOk \<or> counted (ti_scope tier) (window_start minute now) (rs_rows s) + 1 \<le> limit"
proof -
  let ?r = "Increment flt now (ti_scope tier) minute (rs_rows s)"
  show "rs_rows (snd (rl_Check lib flt now tier limit s)) = snd ?r"
    using assms by (simp add: rl_Check_def case_prod_beta Let_def split: sum.split)
  show "fst (fst (rl_Check lib flt now tier limit s)) \<longleftrightarrow>
      flt \<noteq> DbOk \<or> counted (ti_scope tier) (window_start minute now) (rs_rows s) + 1 \<le> limit"
  proof (cases flt)
    case DbOk
    then show ?thesis
      using assms Increment_counted(2) [of "ti_scope tier" minute flt now "rs_rows s"]
      by (simp add: rl_Check_def case_prod_beta)
  qed (use assms in \<open>simp_all add: rl_Check_def Increment_def Let_def\<close>)
qed

lemma Increment_counted_mono:
  assumes "scope \<noteq> ''''"
  shows "counted scope (window_start minute now) t \<le>
    counted scope (window_start minute now) (snd (Increment flt now scope minute t))"
proof (cases "flt = DbFailed")
  case True
  then show ?thesis using assms by (simp add: Increment_def)
next
  case False
  then show ?thesis using Increment_counted(1) [OF assms, of minute flt now t] by simp
qed

lemma rl_run_step:
  fixes s :: "'l rate_state"
  assumes "ti_storage tier = StoragePostgres" and "ti_scope tier \<noteq> ''''" and "0 < limit"
    and "window_start minute now = w"
  obtains s' :: "'l rate_state" where "rl_run lib tier limit ((flt, now) # xs) s =
      (flt \<noteq> DbOk \<or> counted (ti_scope tier) w (rs_rows s) + 1 \<le> limit) # rl_run lib tier limit xs s'"
    and "counted (ti_scope tier) w (rs_rows s) \<le> counted (ti_scope tier) w (rs_rows s')"
    and "flt = DbOk \<longrightarrow> counted (ti_scope tier) w (rs_rows s') = counted (ti_scope tier) w (rs_rows s) + 1"
proof -
  let ?c = "rl_Check lib flt now tier limit s"
  note rows = rl_Check_postgres(1) [OF assms(1-3), of lib flt now s]
  show thesis
  proof (rule that [of "snd ?c"])
    show "rl_run lib tier limit ((flt, now) # xs) s =
        (flt \<noteq> DbOk \<or> counted (ti_scope tier) w (rs_rows s) + 1 \<le> limit) # rl_run lib tier limit xs (snd ?c)"
      using rl_Check_postgres(2) [OF assms(1-3), of lib flt now s] assms(4)
      by (simp add: case_prod_beta)
    show "counted (ti_scope tier) w (rs_rows s) \<le> counted (ti_scope tier) w (rs_rows (snd ?c))"
      using Increment_counted_mono [OF assms(2), of now "rs_rows s" flt]
      unfolding rows assms(4) [symmetric] .
    show "flt = DbOk \<longrightarrow>
        counted (ti_scope tier) w (rs_rows (snd ?c)) = counted (ti_scope tier) w (rs_rows s) + 1"
      using Increment_counted(1) [OF assms(2), of minute flt now "rs_rows s"]
      unfolding rows assms(4) [symmetric] by auto
  qed
qed

lemma rl_run_bound:
  assumes "ti_storage tier = StoragePostgres" and "ti_scope tier \<noteq> ''''" and "0 < limit"
  shows "\<forall>x \<in> set xs. window_start minute (snd x) = w \<Longrightarrow>
    int (length (filter (\<lambda>ok. ok) (rl_run lib tier limit xs s))) \<le>
      max 0 (limit - counted (ti_scope tier) w (rs_rows s)) + int (length (filter (\<lambda>x. fst x \<noteq> DbOk) xs))"
proof (induction xs arbitrary: s)
  case (Cons x xs)
  obtain flt now where x: "x = (flt, now)" by (cases x)
  have "window_start minute now = w" using Cons.prems by (simp add: x)
  from rl_run_step [OF assms this, of lib flt xs s] obtain s' where
    run: "rl_run lib tier limit (x # xs) s =
      (flt \<noteq> DbOk \<or> counted (ti_scope tier) w (rs_rows s) + 1 \<le> limit) # rl_run lib tier limit xs s'"
    and c: "counted (ti_scope tier) w (rs_rows s) \<le> counted (ti_scope tier) w (rs_rows s')"
      "flt = DbOk \<longrightarrow> counted (ti_scope tier) w (rs_rows s') = counted (ti_scope tier) w (rs_rows s) + 1"
    unfolding x .
  have "int (length (filter (\<lambda>ok. ok) (rl_run lib tier limit xs s'))) \<le>
      max 0 (limit - counted (ti_scope tier) w (rs_rows s')) + int (length (filter (\<lambda>x. fst x \<noteq> DbOk) xs))"
    using Cons.prems by (intro Cons.IH) simp
  then show ?case using c unfolding run by (cases "flt = DbOk") (auto simp: x)
qed simp

lemma rl_run_exact:
  assumes "ti_storage tier = StoragePostgres" and "ti_scope tier \<noteq> ''''" and "0 < limit"
  shows "\<forall>x \<in> set xs. window_start minute (snd x) = w \<Longrightarrow> \<forall>x \<in> set xs. fst x = DbOk \<Longrightarrow>
    rl_run lib tier limit xs s =
      map (\<lambda>i. counted (ti_scope tier) w (rs_rows s) + int i < limit) [0..<length xs]"
proof (induction xs arbitrary: s)
  case (Cons x xs)
  obtain flt now where x: "x = (flt, now)" by (cases x)
  have "window_start minute now = w" and ok: "flt = DbOk" using Cons.prems by (simp_all add: x)
  from rl_run_step [OF assms this(1), of lib flt xs s] obtain s' where
    run: "rl_run lib tier limit (x # xs) s =
      (flt \<noteq> DbOk \<or> counted (ti_scope tier) w (rs_rows s) + 1 \<le> limit) # rl_run lib tier limit xs s'"
    and c: "flt = DbOk \<longrightarrow> counted (ti_scope tier) w (rs_rows s') = counted (ti_scope tier) w (rs_rows s) + 1"
    unfolding x .
  have upt: "[0..<length (x # xs)] = 0 # map Suc [0..<length xs]"
    by (simp add: map_Suc_upt upt_conv_Cons del: upt_Suc)
  have "rl_run lib tier limit xs s' =
      map (\<lambda>i. counted (ti_scope tier) w (rs_rows s') + int i < limit) [0..<length xs]"
    using Cons by simp
  then show ?case using c ok unfolding run upt by (auto simp: algebra_simps)
qed simp

text \<open>
  C35: the limit of a window. For any sequence of checks of a database-backed tier that fall
  into one minute window, from any number of processes: without database faults exactly the
  first ones are allowed, until the counter of the window reaches the limit; with faults at
  most one more request passes per fault, because the service fails open.
\<close>

theorem rate_limit_window:
  assumes "ti_storage tier = StoragePostgres" and "ti_scope tier \<noteq> ''''" and "0 < limit"
    and "\<forall>x \<in> set xs. window_start minute (snd x) = w"
  shows "((\<forall>x \<in> set xs. fst x = DbOk) \<longrightarrow>
       rl_run lib tier limit xs s =
         map (\<lambda>i. counted (ti_scope tier) w (rs_rows s) + int i < limit) [0..<length xs]) \<and>
     int (length (filter (\<lambda>ok. ok) (rl_run lib tier limit xs s))) \<le>
       max 0 (limit - counted (ti_scope tier) w (rs_rows s)) +
       int (length (filter (\<lambda>x. fst x \<noteq> DbOk) xs))"
  using rl_run_exact [OF assms(1-4)] rl_run_bound [OF assms(1-4)] by blast

definition sample_lib :: "unit bucket_lib" where
  "sample_lib = \<lparr>bl_new = (\<lambda>_. ()), bl_allow = (\<lambda>_ l. (True, l)), bl_delay = (\<lambda>_ _. 0),
                bl_tokens = (\<lambda>_ _. 0)\<rparr>"

theorem rate_limit_window_witness:
  "rl_run sample_lib (WorkspacePostLimit 7) 2 [(DbOk, 1), (DbOk, 2), (DbOk, 3)]
     \<lparr>rs_rows = [], rs_memory = []\<rparr> = [True, True, False]"
proof -
  have "ti_storage (WorkspacePostLimit 7) = StoragePostgres" and "ti_scope (WorkspacePostLimit 7) \<noteq> ''''"
    by (simp_all add: WorkspacePostLimit_def)
  moreover have "(0::int) < 2" by simp
  moreover have "\<forall>x \<in> set [(DbOk, 1), (DbOk, 2), (DbOk, 3)]. window_start minute (snd x) = 0"
    by (simp add: window_start_def)
  ultimately show ?thesis
    using rate_limit_window [of "WorkspacePostLimit 7" 2 "[(DbOk, 1), (DbOk, 2), (DbOk, 3)]" 0 sample_lib
        "\<lparr>rs_rows = [], rs_memory = []\<rparr>"]
    by (simp add: counted_def upt_conv_Cons)
qed

text \<open>The windows are fixed, so twice the limit can pass within two seconds of a boundary.\<close>

lemma window_boundary_burst:
  "rl_run sample_lib (WorkspacePostLimit 7) 1 [(DbOk, 59 * second), (DbOk, 60 * second)]
     \<lparr>rs_rows = [], rs_memory = []\<rparr> = [True, True]"
  by code_simp

text \<open>Eviction keeps the entries that were used within the time to live.\<close>

lemma evictStale_keeps:
  "(scope, e) \<in> set (evictStale now ml) \<longleftrightarrow>
     (scope, e) \<in> set ml \<and> now \<le> en_lastSeen e + memoryLimiterEntryTTL"
  by (auto simp: evictStale_def)

end
