(* ===== verification/Livestream.thy ===== *)
theory Livestream
  imports StateGraph Leases GoStrings
begin

text \<open>
  Livestreams: the two state machines of \<open>internal/models/livestream_state_machine.go\<close>, the
  runs of \<open>internal/repository/livestream_run_repo.go\<close>, the configurations of
  \<open>livestream_repo.go\<close> and the audit events of \<open>livestream_event_repo.go\<close>. Every Go string
  that is no state is refused by \<open>Valid\<close>; a state column holds valid states only (a CHECK
  constraint of the table).
\<close>

section \<open>State machines\<close>

datatype LivestreamDesiredState = LdDraft | LdPrepared | LdRunning | LdStopped | LdCancelled

datatype LivestreamActualState =
    LaDraft | LaPreflighting | LaPreparing | LaReady | LaScheduled | LaStarting
  | LaWaitingForIngest | LaTesting | LaLive | LaDegraded | LaReconnecting | LaStopping
  | LaCompleted | LaFailed | LaCancelled

fun desiredTransitions :: "LivestreamDesiredState \<Rightarrow> LivestreamDesiredState list" where
  "desiredTransitions LdDraft = [LdPrepared, LdRunning, LdStopped, LdCancelled]"
| "desiredTransitions LdPrepared = [LdDraft, LdRunning, LdStopped, LdCancelled]"
| "desiredTransitions LdRunning = [LdStopped, LdCancelled]"
| "desiredTransitions LdStopped = [LdRunning, LdDraft, LdCancelled]"
| "desiredTransitions LdCancelled = []"

fun actualTransitions :: "LivestreamActualState \<Rightarrow> LivestreamActualState list" where
  "actualTransitions LaDraft = [LaPreflighting, LaPreparing, LaCancelled, LaFailed]"
| "actualTransitions LaPreflighting = [LaPreparing, LaFailed, LaCancelled]"
| "actualTransitions LaPreparing = [LaReady, LaFailed, LaCancelled]"
| "actualTransitions LaReady = [LaStarting, LaStopping, LaFailed, LaCancelled]"
| "actualTransitions LaScheduled = [LaStarting, LaStopping, LaCancelled]"
| "actualTransitions LaStarting = [LaWaitingForIngest, LaReconnecting, LaStopping, LaFailed]"
| "actualTransitions LaWaitingForIngest = [LaTesting, LaReconnecting, LaStopping, LaFailed]"
| "actualTransitions LaTesting = [LaLive, LaDegraded, LaReconnecting, LaStopping, LaFailed]"
| "actualTransitions LaLive = [LaDegraded, LaReconnecting, LaStopping, LaCompleted, LaFailed]"
| "actualTransitions LaDegraded = [LaLive, LaReconnecting, LaStopping, LaCompleted, LaFailed]"
| "actualTransitions LaReconnecting =
     [LaStarting, LaWaitingForIngest, LaTesting, LaLive, LaDegraded, LaStopping, LaFailed]"
| "actualTransitions LaStopping = [LaCompleted, LaFailed, LaCancelled]"
| "actualTransitions LaFailed = [LaPreflighting, LaPreparing, LaCancelled]"
| "actualTransitions LaCompleted = []"
| "actualTransitions LaCancelled = []"

definition CanTransitionDesiredState :: "LivestreamDesiredState \<Rightarrow> LivestreamDesiredState \<Rightarrow> bool" where
  "CanTransitionDesiredState s t \<longleftrightarrow> s \<noteq> t \<and> t \<in> set (desiredTransitions s)"

definition CanTransitionActualState :: "LivestreamActualState \<Rightarrow> LivestreamActualState \<Rightarrow> bool" where
  "CanTransitionActualState s t \<longleftrightarrow> s \<noteq> t \<and> t \<in> set (actualTransitions s)"


section \<open>Runs\<close>

record LivestreamRun =
  lr_id :: string
  lr_livestream_id :: string
  lr_account_id :: int
  lr_generation :: int
  lr_status :: LivestreamActualState
  lr_broadcast_id :: "string option"
  lr_stream_id :: "string option"
  lr_version :: int
  lr_worker_id :: "string option"
  lr_lease_expires_at :: "time option"
  lr_heartbeat_at :: "time option"
  lr_last_frame_at :: "time option"
  lr_encoder_pid :: string
  lr_reconnect_count :: int
  lr_attempt_count :: int
  lr_started_at :: "time option"
  lr_live_at :: "time option"
  lr_ended_at :: "time option"
  lr_error_code :: string
  lr_error_message :: string
  lr_last_error_code :: string
  lr_last_error_message :: string
  lr_created_at :: time
  lr_updated_at :: time

datatype livestream_err =
    LrInvalid | ErrLivestreamRunActiveConflict | ErrLivestreamRunGenerationConflict
  | ErrLivestreamRunLeaseLost | ErrLivestreamRunVersionConflict
  | ErrInvalidLivestreamActualTransition | ErrInvalidLivestreamDesiredTransition
  | ErrLivestreamConfigurationStale | ErrLivestreamNotFound | LrUnique | LrDatabase

text \<open>
  The unique constraints of the table: the primary key, one row per generation of a livestream,
  the platform's broadcast and stream ids, and one active run per channel.
\<close>

definition lr_active_states :: "LivestreamActualState set" where
  "lr_active_states =
     {LaPreparing, LaReady, LaStarting, LaWaitingForIngest, LaTesting, LaLive, LaDegraded,
      LaReconnecting, LaStopping}"

definition one_active_run_per_channel :: "LivestreamRun list \<Rightarrow> bool" where
  "one_active_run_per_channel t \<longleftrightarrow>
     distinct (map lr_account_id (filter (\<lambda>r. lr_status r \<in> lr_active_states) t))"

definition generation_uq :: "LivestreamRun list \<Rightarrow> bool" where
  "generation_uq t \<longleftrightarrow> distinct (map (\<lambda>r. (lr_livestream_id r, lr_generation r)) t)"

definition resources_uq :: "LivestreamRun list \<Rightarrow> bool" where
  "resources_uq t \<longleftrightarrow>
     distinct (filter (\<lambda>x. x \<noteq> None) (map lr_broadcast_id t)) \<and>
     distinct (filter (\<lambda>x. x \<noteq> None) (map lr_stream_id t))"

definition lr_constraints :: "LivestreamRun list \<Rightarrow> bool" where
  "lr_constraints t \<longleftrightarrow>
     distinct (map lr_id t) \<and> generation_uq t \<and> one_active_run_per_channel t \<and> resources_uq t"

text \<open>
  The error of an insertion, \<open>classifyLivestreamRunWriteError\<close>; PostgreSQL reports the first
  violated index, and the two named ones are looked at last.
\<close>

definition classifyLivestreamRunWriteError :: "LivestreamRun list \<Rightarrow> livestream_err" where
  "classifyLivestreamRunWriteError t =
     (if \<not> distinct (map lr_id t) then LrUnique
      else if \<not> generation_uq t then ErrLivestreamRunGenerationConflict
      else if \<not> resources_uq t then LrUnique
      else if \<not> one_active_run_per_channel t then ErrLivestreamRunActiveConflict
      else LrDatabase)"

definition lr_insert ::
  "db_fault \<Rightarrow> LivestreamRun \<Rightarrow> LivestreamRun list \<Rightarrow> (livestream_err + unit) \<times> LivestreamRun list" where
  "lr_insert flt run t =
     (if flt = DbFailed then (Inl LrDatabase, t)
      else if \<not> lr_constraints (t @ [run]) then (Inl (classifyLivestreamRunWriteError (t @ [run])), t)
      else (if flt = DbLost then Inl LrDatabase else Inr (), t @ [run]))"

definition validateLivestreamRun :: "LivestreamRun \<Rightarrow> bool" where
  "validateLivestreamRun run \<longleftrightarrow>
     lr_id run \<noteq> '''' \<and> lr_livestream_id run \<noteq> '''' \<and> lr_account_id run > 0 \<and>
     lr_generation run > 0 \<and> lr_version run > 0 \<and>
     lr_reconnect_count run \<ge> 0 \<and> lr_attempt_count run \<ge> 0"

text \<open>The stamps \<open>created_at\<close> and \<open>updated_at\<close> are column defaults.\<close>

definition lr_stamped :: "time \<Rightarrow> LivestreamRun \<Rightarrow> LivestreamRun" where
  "lr_stamped now run = run\<lparr>lr_created_at := now, lr_updated_at := now\<rparr>"

definition lr_Create ::
  "db_fault \<Rightarrow> time \<Rightarrow> LivestreamRun \<Rightarrow> LivestreamRun list \<Rightarrow>
   (livestream_err + unit) \<times> LivestreamRun list" where
  "lr_Create flt now run t =
     (if \<not> validateLivestreamRun run then (Inl LrInvalid, t)
      else lr_insert flt (lr_stamped now run) t)"

definition NextGeneration :: "string \<Rightarrow> LivestreamRun list \<Rightarrow> livestream_err + int" where
  "NextGeneration ls t =
     (if ls = '''' then Inl LrInvalid
      else Inr (fold max (map lr_generation (filter (\<lambda>r. lr_livestream_id r = ls) t)) 0 + 1))"

definition CreateNext ::
  "db_fault \<Rightarrow> time \<Rightarrow> LivestreamRun \<Rightarrow> LivestreamRun list \<Rightarrow>
   (livestream_err + LivestreamRun) \<times> LivestreamRun list" where
  "CreateNext flt now run0 t =
     (if lr_livestream_id run0 = '''' \<or> lr_account_id run0 \<le> 0 \<or> lr_id run0 = ''''
      then (Inl LrInvalid, t)
      else
        let run1 = (if lr_version run0 \<le> 0 then run0\<lparr>lr_version := 1\<rparr> else run0)
        in case NextGeneration (lr_livestream_id run0) t of
             Inl e \<Rightarrow> (Inl e, t)
           | Inr n \<Rightarrow>
               (let run = lr_stamped now (run1\<lparr>lr_generation := n\<rparr>);
                    (r, t') = lr_insert flt run t
                in (case r of Inl e \<Rightarrow> Inl e | Inr _ \<Rightarrow> Inr run, t')))"

definition lr_runnable :: "LivestreamActualState set" where
  "lr_runnable =
     {LaPreflighting, LaPreparing, LaReady, LaScheduled, LaStarting, LaWaitingForIngest,
      LaTesting, LaLive, LaDegraded, LaReconnecting, LaStopping}"

definition lr_claimable :: "time \<Rightarrow> LivestreamRun \<Rightarrow> bool" where
  "lr_claimable now r \<longleftrightarrow>
     lr_status r \<in> lr_runnable \<and> null_or (\<lambda>t. t < now) (lr_lease_expires_at r)"

definition lr_batch :: "time \<Rightarrow> (string \<Rightarrow> bool) \<Rightarrow> int \<Rightarrow> LivestreamRun list \<Rightarrow> string list" where
  "lr_batch now locked limit t =
     map lr_id (top_by (\<lambda>r. (lr_created_at r, lr_id r)) (nat limit)
       (filter (\<lambda>r. lr_claimable now r \<and> \<not> locked (lr_id r)) t))"

definition lr_claim_stamp :: "time \<Rightarrow> string \<Rightarrow> time \<Rightarrow> LivestreamRun \<Rightarrow> LivestreamRun" where
  "lr_claim_stamp now worker until r =
     r\<lparr>lr_worker_id := Some worker, lr_lease_expires_at := Some until, lr_heartbeat_at := Some now,
       lr_attempt_count := lr_attempt_count r + 1, lr_updated_at := now\<rparr>"

definition lr_ClaimBatch ::
  "db_fault \<Rightarrow> time \<Rightarrow> time \<Rightarrow> (string \<Rightarrow> bool) \<Rightarrow> string \<Rightarrow> int \<Rightarrow> duration \<Rightarrow> LivestreamRun list \<Rightarrow>
   (livestream_err + LivestreamRun list) \<times> LivestreamRun list" where
  "lr_ClaimBatch flt now appnow locked worker limit lease t =
     (if worker = '''' then (Inl LrInvalid, t)
      else if limit \<le> 0 then (Inr [], t)
      else if lease \<le> 0 then (Inl LrInvalid, t)
      else
        let ids = lr_batch now locked limit t;
            (n, t') = exec_update flt (\<lambda>r. lr_id r \<in> set ids)
                        (lr_claim_stamp now worker (appnow + lease)) t
        in (case n of None \<Rightarrow> Inl LrDatabase | Some _ \<Rightarrow> Inr (filter (\<lambda>r. lr_id r \<in> set ids) t'), t'))"

text \<open>The writes of a lease holder; each repeats owner and lease end in its WHERE clause.\<close>

datatype lr_write =
    LwHeartbeat time | LwTransition int LivestreamActualState LivestreamActualState
  | LwStatus int LivestreamActualState

definition lr_holds :: "time \<Rightarrow> string \<Rightarrow> string \<Rightarrow> LivestreamRun \<Rightarrow> bool" where
  "lr_holds now i worker r \<longleftrightarrow>
     lr_id r = i \<and> lr_worker_id r = Some worker \<and> some_and (\<lambda>t. t > now) (lr_lease_expires_at r)"

fun lr_guard :: "time \<Rightarrow> string \<Rightarrow> string \<Rightarrow> lr_write \<Rightarrow> LivestreamRun \<Rightarrow> bool" where
  "lr_guard now i worker (LwHeartbeat until) r \<longleftrightarrow> lr_holds now i worker r"
| "lr_guard now i worker (LwTransition version s to) r \<longleftrightarrow>
     lr_holds now i worker r \<and> lr_version r = version \<and> lr_status r = s"
| "lr_guard now i worker (LwStatus version to) r \<longleftrightarrow>
     lr_holds now i worker r \<and> lr_version r = version"

fun lr_set :: "time \<Rightarrow> lr_write \<Rightarrow> LivestreamRun \<Rightarrow> LivestreamRun" where
  "lr_set now (LwHeartbeat until) r =
     r\<lparr>lr_lease_expires_at := Some until, lr_heartbeat_at := Some now, lr_updated_at := now\<rparr>"
| "lr_set now (LwTransition version s to) r = r\<lparr>lr_status := to, lr_updated_at := now\<rparr>"
| "lr_set now (LwStatus version to) r = r\<lparr>lr_status := to, lr_updated_at := now\<rparr>"

text \<open>
  \<open>UPDATE ... RETURNING\<close>: no row is the lost lease; a status that would give the channel a
  second active run fails on the partial unique index.
\<close>

definition exec_lr_write ::
  "db_fault \<Rightarrow> time \<Rightarrow> string \<Rightarrow> string \<Rightarrow> lr_write \<Rightarrow> LivestreamRun list \<Rightarrow>
   (livestream_err + LivestreamRun) \<times> LivestreamRun list" where
  "exec_lr_write flt now i worker w t =
     (let t' = update_where (lr_guard now i worker w) (lr_set now w) t
      in if flt = DbFailed then (Inl LrDatabase, t)
         else if \<not> lr_constraints t' then (Inl LrDatabase, t)
         else if flt = DbLost then (Inl LrDatabase, t')
         else if rows_affected (lr_guard now i worker w) t = 0 then (Inl ErrLivestreamRunLeaseLost, t')
         else case find_row lr_id i t' of None \<Rightarrow> (Inl LrDatabase, t') | Some r \<Rightarrow> (Inr r, t'))"

definition lr_Heartbeat ::
  "db_fault \<Rightarrow> time \<Rightarrow> time \<Rightarrow> string \<Rightarrow> string \<Rightarrow> duration \<Rightarrow> LivestreamRun list \<Rightarrow>
   (livestream_err + LivestreamRun) \<times> LivestreamRun list" where
  "lr_Heartbeat flt now appnow i worker lease t =
     (if i = '''' \<or> worker = '''' \<or> lease \<le> 0 then (Inl LrInvalid, t)
      else exec_lr_write flt now i worker (LwHeartbeat (appnow + lease)) t)"

definition TransitionStatus ::
  "db_fault \<Rightarrow> time \<Rightarrow> string \<Rightarrow> string \<Rightarrow> int \<Rightarrow> LivestreamActualState \<Rightarrow> LivestreamActualState \<Rightarrow>
   LivestreamRun list \<Rightarrow> (livestream_err + LivestreamRun) \<times> LivestreamRun list" where
  "TransitionStatus flt now i worker version s to t =
     (if i = '''' \<or> worker = '''' \<or> version \<le> 0 then (Inl LrInvalid, t)
      else if \<not> CanTransitionActualState s to then (Inl ErrInvalidLivestreamActualTransition, t)
      else exec_lr_write flt now i worker (LwTransition version s to) t)"

definition lr_UpdateStatus ::
  "db_fault \<Rightarrow> time \<Rightarrow> string \<Rightarrow> string \<Rightarrow> int \<Rightarrow> LivestreamActualState \<Rightarrow> LivestreamRun list \<Rightarrow>
   (livestream_err + LivestreamRun) \<times> LivestreamRun list" where
  "lr_UpdateStatus flt now i worker version to t =
     (if i = '''' \<or> worker = '''' \<or> version \<le> 0 then (Inl LrInvalid, t)
      else exec_lr_write flt now i worker (LwStatus version to) t)"

definition AdvanceConfigurationVersion ::
  "db_fault \<Rightarrow> time \<Rightarrow> string \<Rightarrow> int \<Rightarrow> LivestreamRun list \<Rightarrow>
   (livestream_err + int) \<times> LivestreamRun list" where
  "AdvanceConfigurationVersion flt now i expected t =
     (if i = '''' \<or> expected \<le> 0 then (Inl LrInvalid, t)
      else
        let p = (\<lambda>r. lr_id r = i \<and> lr_version r = expected);
            (n, t') = exec_update flt p (\<lambda>r. r\<lparr>lr_version := lr_version r + 1, lr_updated_at := now\<rparr>) t
        in (case n of
              None \<Rightarrow> Inl LrDatabase
            | Some k \<Rightarrow> if k = 0 then Inl ErrLivestreamRunVersionConflict else Inr (expected + 1), t'))"

definition lr_FindByID :: "string \<Rightarrow> LivestreamRun list \<Rightarrow> livestream_err + LivestreamRun option" where
  "lr_FindByID i t = (if i = '''' then Inl LrInvalid else Inr (find_row lr_id i t))"

definition ListByLivestream :: "string \<Rightarrow> int \<Rightarrow> LivestreamRun list \<Rightarrow> livestream_err + LivestreamRun list" where
  "ListByLivestream ls limit t =
     (if ls = '''' then Inl LrInvalid
      else Inr (take (nat (if limit \<le> 0 \<or> limit > 500 then 100 else limit))
             (rev (sort_key (\<lambda>r. (lr_generation r, lr_id r))
                (filter (\<lambda>r. lr_livestream_id r = ls) t)))))"

section \<open>Configurations\<close>

text \<open>The columns the operator owns, written as a unit by \<open>UpdateWithVersion\<close>.\<close>

record livestream_config =
  lc_title :: string
  lc_description :: string
  lc_privacy_status :: string
  lc_playback_mode :: string
  lc_schedule_type :: string
  lc_scheduled_start_at :: "time option"
  lc_resolution :: string
  lc_frame_rate :: int
  lc_auto_restart :: bool
  lc_category :: string
  lc_made_for_kids :: bool
  lc_language :: string
  lc_thumbnail_media_id :: "string option"
  lc_dvr_enabled :: bool
  lc_auto_start :: bool
  lc_auto_stop :: bool
  lc_latency_preference :: string

record Livestream =
  ls_id :: string
  ls_workspace_id :: int
  ls_account_id :: int
  ls_created_by :: int
  ls_config :: livestream_config
  ls_desired :: LivestreamDesiredState
  ls_actual :: LivestreamActualState
  ls_generation :: int
  ls_version :: int
  ls_broadcast_id :: string
  ls_stream_id :: string
  ls_created_at :: time
  ls_updated_at :: time

definition ls_Create ::
  "db_fault \<Rightarrow> time \<Rightarrow> Livestream \<Rightarrow> Livestream list \<Rightarrow> (livestream_err + unit) \<times> Livestream list" where
  "ls_Create flt now ls t =
     (if ls_id ls = '''' \<or> ls_workspace_id ls \<le> 0 \<or> ls_account_id ls \<le> 0 then (Inl LrInvalid, t)
      else if flt = DbFailed then (Inl LrDatabase, t)
      else if ls_id ls \<in> set (map ls_id t) then (Inl LrDatabase, t)
      else (if flt = DbLost then Inl LrDatabase else Inr (),
            t @ [ls\<lparr>ls_generation := (if ls_generation ls \<le> 0 then 1 else ls_generation ls),
                    ls_version := (if ls_version ls \<le> 0 then 1 else ls_version ls),
                    ls_created_at := now, ls_updated_at := now\<rparr>]))"

definition UpdateWithVersion ::
  "db_fault \<Rightarrow> time \<Rightarrow> string \<Rightarrow> livestream_config \<Rightarrow> int \<Rightarrow> Livestream list \<Rightarrow>
   (livestream_err + int) \<times> Livestream list" where
  "UpdateWithVersion flt now i config expected t =
     (if i = '''' \<or> expected \<le> 0 then (Inl LrInvalid, t)
      else
        let (n, t') = exec_update flt (\<lambda>r. ls_id r = i \<and> ls_version r = expected)
              (\<lambda>r. r\<lparr>ls_config := config, ls_version := ls_version r + 1, ls_updated_at := now\<rparr>) t
        in (case n of
              None \<Rightarrow> Inl LrDatabase
            | Some k \<Rightarrow> if k = 0 then Inl ErrLivestreamConfigurationStale else Inr (expected + 1), t'))"

text \<open>\<open>Update\<close> takes the expected version from the snapshot it is given.\<close>

definition ls_Update ::
  "db_fault \<Rightarrow> time \<Rightarrow> Livestream \<Rightarrow> Livestream list \<Rightarrow> (livestream_err + int) \<times> Livestream list" where
  "ls_Update flt now ls = UpdateWithVersion flt now (ls_id ls) (ls_config ls) (ls_version ls)"

definition SetDesiredState ::
  "db_fault \<Rightarrow> time \<Rightarrow> string \<Rightarrow> int \<Rightarrow> LivestreamDesiredState \<Rightarrow> LivestreamDesiredState \<Rightarrow>
   Livestream list \<Rightarrow> (livestream_err + int) \<times> Livestream list" where
  "SetDesiredState flt now i expected s to t =
     (if i = '''' \<or> expected \<le> 0 \<or> \<not> CanTransitionDesiredState s to
      then (Inl ErrInvalidLivestreamDesiredTransition, t)
      else
        let (n, t') = exec_update flt
              (\<lambda>r. ls_id r = i \<and> ls_version r = expected \<and> ls_desired r = s)
              (\<lambda>r. r\<lparr>ls_desired := to, ls_generation := ls_generation r + 1,
                     ls_version := ls_version r + 1, ls_updated_at := now\<rparr>) t
        in (case n of
              None \<Rightarrow> Inl LrDatabase
            | Some k \<Rightarrow>
                if k = 0 then Inl ErrLivestreamConfigurationStale
                else (case find_row ls_id i t' of None \<Rightarrow> Inl LrDatabase | Some r \<Rightarrow> Inr (ls_generation r)),
            t'))"

definition ls_Delete ::
  "db_fault \<Rightarrow> string \<Rightarrow> Livestream list \<Rightarrow> (livestream_err + unit) \<times> Livestream list" where
  "ls_Delete flt i t =
     (if flt = DbFailed then (Inl LrDatabase, t)
      else (if flt = DbLost then Inl LrDatabase
            else if rows_affected (\<lambda>r. ls_id r = i) t = 0 then Inl ErrLivestreamNotFound else Inr (),
            filter (\<lambda>r. ls_id r \<noteq> i) t))"

text \<open>
  Keyset pagination: \<open>(updated_at, id)\<close> descending, one row more than the page to see whether
  there is a next one.
\<close>

definition ListByWorkspacePage ::
  "int \<Rightarrow> (time \<times> string) option \<Rightarrow> int \<Rightarrow> Livestream list \<Rightarrow> Livestream list \<times> bool" where
  "ListByWorkspacePage ws after limit t =
     (let n = nat (if limit \<le> 0 then 50 else if limit > 100 then 100 else limit);
          rows = take (n + 1) (rev (sort_key (\<lambda>r. (ls_updated_at r, ls_id r))
            (filter (\<lambda>r. ls_workspace_id r = ws \<and>
                         null_or (\<lambda>a. (ls_updated_at r, ls_id r) < a) after) t)))
      in (take n rows, length rows > n))"


section \<open>Events\<close>

text \<open>
  \<open>is_object\<close> is the JSON decoder into a map, true for a non-null object. An empty payload is
  replaced by the empty object before it is decoded.
\<close>

record LivestreamEvent =
  le_livestream_id :: string
  le_run_id :: "string option"
  le_event_type :: string
  le_severity :: string
  le_payload :: string

definition ValidateLivestreamEvent ::
  "(string \<Rightarrow> bool) \<Rightarrow> LivestreamEvent \<Rightarrow> LivestreamEvent option" where
  "ValidateLivestreamEvent is_object ev =
     (if le_livestream_id ev = '''' \<or> le_event_type ev = '''' then None
      else if le_severity ev \<notin> {''info'', ''warning'', ''error'', ''critical''} then None
      else
        let ev' = (if length (le_payload ev) = 0 then ev\<lparr>le_payload := ''{}''\<rparr> else ev)
        in if is_object (le_payload ev') then Some ev' else None)"

definition isKnownLivestreamEventType :: "string \<Rightarrow> bool" where
  "isKnownLivestreamEventType s \<longleftrightarrow>
     s \<in> {''run_created'', ''run_leased'', ''oauth_refreshed'', ''stream_created'',
          ''youtube_stream_created'', ''broadcast_created'', ''youtube_broadcast_created'',
          ''broadcast_bound'', ''encoder_started'', ''ingest_active'', ''broadcast_live'',
          ''health_warning'', ''health_degraded'', ''encoder_restarted'',
          ''broadcast_completed'', ''run_failed'', ''heartbeat_lost''}"

definition le_Record ::
  "(string \<Rightarrow> bool) \<Rightarrow> db_fault \<Rightarrow> LivestreamEvent \<Rightarrow> LivestreamEvent list \<Rightarrow>
   (livestream_err + unit) \<times> LivestreamEvent list" where
  "le_Record is_object flt ev t =
     (case ValidateLivestreamEvent is_object ev of
        None \<Rightarrow> (Inl LrInvalid, t)
      | Some ev' \<Rightarrow>
          if \<not> isKnownLivestreamEventType (le_event_type ev') then (Inl LrInvalid, t)
          else if flt = DbFailed then (Inl LrDatabase, t)
          else (if flt = DbLost then Inl LrDatabase else Inr (), t @ [ev']))"

end
