(* ===== verification/LivestreamProofs.thy ===== *)
theory LivestreamProofs
  imports Livestream
begin

text \<open>
  What the livestream tables promise. The statements on the run table are seen from one row
  (\<open>lr_row_step\<close>) and from the unique constraints; the commands on a configuration are seen
  as one compare-and-swap register per livestream.
\<close>

section \<open>The run table\<close>

datatype lr_op =
    RoCreate LivestreamRun | RoCreateNext LivestreamRun
  | RoClaim time "string \<Rightarrow> bool" string int duration
  | RoHeartbeat time string string duration
  | RoTransition string string int LivestreamActualState LivestreamActualState
  | RoUpdateStatus string string int LivestreamActualState
  | RoAdvance string int

fun lr_exec :: "db_fault \<times> time \<times> lr_op \<Rightarrow> LivestreamRun list \<Rightarrow> LivestreamRun list" where
  "lr_exec (flt, now, RoCreate run) t = snd (lr_Create flt now run t)"
| "lr_exec (flt, now, RoCreateNext run) t = snd (CreateNext flt now run t)"
| "lr_exec (flt, now, RoClaim appnow locked w limit lease) t =
     snd (lr_ClaimBatch flt now appnow locked w limit lease t)"
| "lr_exec (flt, now, RoHeartbeat appnow i w lease) t =
     snd (lr_Heartbeat flt now appnow i w lease t)"
| "lr_exec (flt, now, RoTransition i w v s to) t = snd (TransitionStatus flt now i w v s to t)"
| "lr_exec (flt, now, RoUpdateStatus i w v to) t = snd (lr_UpdateStatus flt now i w v to t)"
| "lr_exec (flt, now, RoAdvance i v) t = snd (AdvanceConfigurationVersion flt now i v t)"

definition lr_run :: "(db_fault \<times> time \<times> lr_op) list \<Rightarrow> LivestreamRun list \<Rightarrow> LivestreamRun list" where
  "lr_run ops t = fold lr_exec ops t"

lemma lr_run_simps [simp]:
  "lr_run [] t = t" "lr_run (x # ops) t = lr_run ops (lr_exec x t)"
  by (simp_all add: lr_run_def)

text \<open>The compatibility write checks no edge of the transition map.\<close>

fun lr_legacy :: "db_fault \<times> time \<times> lr_op \<Rightarrow> bool" where
  "lr_legacy (_, _, RoUpdateStatus _ _ _ _) \<longleftrightarrow> True"
| "lr_legacy _ \<longleftrightarrow> False"

definition lr_held :: "time \<Rightarrow> LivestreamRun \<Rightarrow> bool" where
  "lr_held now r \<longleftrightarrow> lr_worker_id r \<noteq> None \<and> some_and (\<lambda>t. t > now) (lr_lease_expires_at r)"

inductive lr_row_step :: "bool \<Rightarrow> time \<Rightarrow> LivestreamRun \<Rightarrow> LivestreamRun \<Rightarrow> bool" where
  same: "lr_row_step legacy now r r"
| claim: "lr_claimable now r \<Longrightarrow> lr_row_step legacy now r (lr_claim_stamp now w until r)"
| beat: "lr_held now r \<Longrightarrow> lr_row_step legacy now r (lr_set now (LwHeartbeat until) r)"
| edge: "lr_held now r \<Longrightarrow> to \<in> set (actualTransitions (lr_status r)) \<Longrightarrow>
    lr_row_step legacy now r (lr_set now (LwTransition v (lr_status r) to) r)"
| jump: "lr_held now r \<Longrightarrow> legacy \<Longrightarrow> lr_row_step legacy now r (lr_set now (LwStatus v to) r)"
| version: "lr_row_step legacy now r (r\<lparr>lr_version := lr_version r + 1, lr_updated_at := now\<rparr>)"

text \<open>The columns a step never touches; \<open>lr_frame\<close> is what the unique indexes read.\<close>

definition lr_identity :: "LivestreamRun \<Rightarrow> string \<times> string \<times> int \<times> int" where
  "lr_identity r = (lr_id r, lr_livestream_id r, lr_account_id r, lr_generation r)"

definition lr_frame where
  "lr_frame r = (lr_identity r, lr_status r, lr_broadcast_id r, lr_stream_id r)"

lemma lr_set_simps [simp]:
  "lr_id (lr_set now w r) = lr_id r" "lr_livestream_id (lr_set now w r) = lr_livestream_id r"
  "lr_account_id (lr_set now w r) = lr_account_id r"
  "lr_generation (lr_set now w r) = lr_generation r" "lr_version (lr_set now w r) = lr_version r"
  "lr_worker_id (lr_set now w r) = lr_worker_id r"
  by (cases w; simp)+

lemma lr_row_step_keeps:
  "lr_row_step legacy now r r' \<Longrightarrow> lr_identity r' = lr_identity r \<and> lr_version r \<le> lr_version r'"
  by (induction rule: lr_row_step.induct) (simp_all add: lr_identity_def lr_claim_stamp_def)

text \<open>Without the compatibility write the status follows an edge or stays.\<close>

lemma lr_row_step_edge:
  "lr_row_step False now r r' \<Longrightarrow>
   lr_status r' = lr_status r \<or> lr_status r' \<in> set (actualTransitions (lr_status r))"
  by (induction False now r r' rule: lr_row_step.induct) (simp_all add: lr_claim_stamp_def)

lemma lr_row_step_parked:
  "lr_row_step legacy now r r' \<Longrightarrow> \<not> lr_held now r \<Longrightarrow> lr_status r \<notin> lr_runnable \<Longrightarrow>
   lr_status r' = lr_status r \<and> lr_worker_id r' = lr_worker_id r \<and>
   lr_lease_expires_at r' = lr_lease_expires_at r"
  by (induction rule: lr_row_step.induct) (simp_all add: lr_claimable_def)

definition lr_update_shape ::
  "bool \<Rightarrow> time \<Rightarrow> LivestreamRun list \<Rightarrow> LivestreamRun list \<Rightarrow> bool" where
  "lr_update_shape legacy now t t' \<longleftrightarrow>
     (\<exists>p f. t' = update_where p f t \<and> (\<forall>r. lr_id (f r) = lr_id r) \<and>
            (\<forall>r \<in> set t. p r \<longrightarrow> lr_row_step legacy now r (f r)))"

lemma lr_update_shapeI:
  assumes "\<And>r. lr_id (f r) = lr_id r"
    and "\<And>r. r \<in> set t \<Longrightarrow> p r \<Longrightarrow> lr_row_step legacy now r (f r)"
  shows "lr_update_shape legacy now t (update_where p f t)"
  using assms unfolding lr_update_shape_def by blast

lemma lr_update_shape_refl [simp]: "lr_update_shape legacy now t t"
  using lr_update_shapeI [of id t "\<lambda>r. False" legacy now] by (simp add: update_where_none)

lemma constraints_frame:
  assumes "\<And>r. lr_frame (f r) = lr_frame r"
  shows "lr_constraints (update_where p f t) \<longleftrightarrow> lr_constraints t"
proof -
  from assms have *: "lr_id (f r) = lr_id r" "lr_livestream_id (f r) = lr_livestream_id r"
    "lr_account_id (f r) = lr_account_id r" "lr_generation (f r) = lr_generation r"
    "lr_status (f r) = lr_status r" "lr_broadcast_id (f r) = lr_broadcast_id r"
    "lr_stream_id (f r) = lr_stream_id r" for r
    by (simp_all add: lr_frame_def lr_identity_def)
  have "map lr_account_id (filter (\<lambda>r. lr_status r \<in> lr_active_states) (update_where p f t)) =
      map lr_account_id (filter (\<lambda>r. lr_status r \<in> lr_active_states) t)"
    by (induction t) (auto simp: *)
  moreover have "map g (update_where p f t) = map g t" if "\<And>r. g (f r) = g r" for g :: "LivestreamRun \<Rightarrow> 'x"
    by (rule map_update_where) (rule that)
  ultimately show ?thesis
    by (simp add: lr_constraints_def generation_uq_def one_active_run_per_channel_def
        resources_uq_def map_update_where *)
qed

lemma exec_lr_write_table:
  "snd (exec_lr_write flt now i w wr t) = t \<or>
   snd (exec_lr_write flt now i w wr t) = update_where (lr_guard now i w wr) (lr_set now wr) t \<and>
   lr_constraints (snd (exec_lr_write flt now i w wr t))"
  by (simp add: exec_lr_write_def Let_def split: option.splits)

interpretation lr_lease: lease_cas lr_id lr_worker_id
  "\<lambda>now w (i, wr). lr_guard now i w wr" "\<lambda>now w (i, wr). lr_set now wr"
proof
  have guard: "lr_guard now i w wr r \<Longrightarrow> lr_worker_id r = Some w" for now i w wr r
    by (cases wr) (simp_all add: lr_holds_def)
  show "(case a of (i, wr) \<Rightarrow> lr_guard now i w wr) r \<Longrightarrow> lr_worker_id r = Some w"
    for now :: time and w a r
    by (cases a) (simp add: guard)
  show "lr_id ((case a of (i, wr) \<Rightarrow> lr_set now wr) r) = lr_id r" for now a r
    by (cases a) simp
qed

lemma lr_guard_held: "lr_guard now i w wr r \<Longrightarrow> lr_held now r"
  by (cases wr) (auto simp: lr_holds_def lr_held_def)

text \<open>The statements that update rows.\<close>

lemma exec_lr_write_shape:
  assumes "\<And>r. lr_guard now i w wr r \<Longrightarrow> lr_row_step legacy now r (lr_set now wr r)"
  shows "lr_update_shape legacy now t (snd (exec_lr_write flt now i w wr t))"
proof -
  have "lr_update_shape legacy now t (update_where (lr_guard now i w wr) (lr_set now wr) t)"
    by (rule lr_update_shapeI) (simp_all add: assms)
  then show ?thesis using exec_lr_write_table [of flt now i w wr t] by auto
qed

lemma ClaimBatch_table:
  assumes "distinct (map lr_id t)"
  shows "lr_update_shape legacy now t (snd (lr_ClaimBatch flt now appnow locked w limit lease t))"
proof -
  have "lr_claimable now r" if "r \<in> set t" "lr_id r \<in> set (lr_batch now locked limit t)" for r
    using top_by_id_filter [OF assms that(1)] that(2) unfolding lr_batch_def by blast
  then have "lr_update_shape legacy now t
      (update_where (\<lambda>r. lr_id r \<in> set (lr_batch now locked limit t))
         (lr_claim_stamp now w (appnow + lease)) t)"
    by (intro lr_update_shapeI lr_row_step.claim) (simp_all add: lr_claim_stamp_def)
  then show ?thesis
    by (simp add: lr_ClaimBatch_def Let_def snd_case_exec exec_update_table)
qed

lemma Advance_table:
  "lr_update_shape legacy now t (snd (AdvanceConfigurationVersion flt now i v t))"
proof -
  have "lr_update_shape legacy now t (update_where (\<lambda>r. lr_id r = i \<and> lr_version r = v)
      (\<lambda>r. r\<lparr>lr_version := lr_version r + 1, lr_updated_at := now\<rparr>) t)"
    by (rule lr_update_shapeI, simp) (rule lr_row_step.version)
  then show ?thesis
    by (simp add: AdvanceConfigurationVersion_def Let_def snd_case_exec exec_update_table)
qed

lemma lr_insert_table:
  "snd (lr_insert flt run t) = t \<or>
   snd (lr_insert flt run t) = t @ [run] \<and> lr_constraints (t @ [run])"
  by (simp add: lr_insert_def)

lemma lr_create_table:
  "snd (lr_Create flt now run t) = t \<or>
   (\<exists>run'. snd (lr_Create flt now run t) = t @ [run'] \<and> lr_constraints (t @ [run']))"
  using lr_insert_table [of flt "lr_stamped now run" t] by (auto simp: lr_Create_def)

lemma lr_create_next_table:
  "snd (CreateNext flt now run t) = t \<or>
   (\<exists>run'. snd (CreateNext flt now run t) = t @ [run'] \<and> lr_constraints (t @ [run']))"
  using lr_insert_table by (auto simp: CreateNext_def Let_def split: sum.splits prod.splits) (metis snd_conv)+

text \<open>Every statement appends one row that violates no index, or updates rows along \<open>lr_row_step\<close>.\<close>

lemma lr_exec_shape:
  assumes "distinct (map lr_id t)"
  shows "(\<exists>run. lr_exec (flt, now, op) t = t @ [run] \<and> lr_constraints (t @ [run])) \<or>
    lr_update_shape (lr_legacy (flt, now, op)) now t (lr_exec (flt, now, op) t)"
proof (cases op)
  case (RoCreate run)
  then show ?thesis using lr_create_table [of flt now run t] by auto
next
  case (RoCreateNext run)
  then show ?thesis using lr_create_next_table [of flt now run t] by auto
next
  case (RoHeartbeat appnow i w lease)
  have "lr_update_shape False now t (snd (exec_lr_write flt now i w (LwHeartbeat (appnow + lease)) t))"
    by (rule exec_lr_write_shape) (rule lr_row_step.beat, rule lr_guard_held)
  then show ?thesis by (simp add: RoHeartbeat lr_Heartbeat_def)
next
  case (RoTransition i w v s to)
  have "lr_update_shape False now t (snd (exec_lr_write flt now i w (LwTransition v s to) t))"
    if "CanTransitionActualState s to"
    using that lr_guard_held [of now i w "LwTransition v s to"] lr_row_step.edge
    by (intro exec_lr_write_shape) (auto simp: CanTransitionActualState_def)
  then show ?thesis by (simp add: RoTransition TransitionStatus_def)
next
  case (RoUpdateStatus i w v to)
  have "lr_update_shape True now t (snd (exec_lr_write flt now i w (LwStatus v to) t))"
    by (rule exec_lr_write_shape) (rule lr_row_step.jump, erule lr_guard_held, simp)
  then show ?thesis by (simp add: RoUpdateStatus lr_UpdateStatus_def)
qed (simp_all add: ClaimBatch_table [OF assms] Advance_table)

lemma lr_update_shape_frame:
  assumes "lr_update_shape legacy now t t'"
  obtains p f where "t' = update_where p f t" and "\<And>r. lr_id (f r) = lr_id r"
    and "\<And>r. r \<in> set t \<Longrightarrow> p r \<Longrightarrow> lr_row_step legacy now r (f r)"
  using assms unfolding lr_update_shape_def by blast

text \<open>
  The indexes hold after every statement: an insertion or a status write that would violate one
  fails, and the other updates leave the indexed columns alone.
\<close>

lemma constraints_update:
  assumes "lr_constraints t" and "\<And>r. lr_frame (f r) = lr_frame r"
  shows "lr_constraints (snd (exec_update flt p f t))"
  using assms constraints_frame [of f p t] by (simp add: exec_update_table)

lemma lr_exec_constraints:
  assumes "lr_constraints t"
  shows "lr_constraints (lr_exec (flt, now, op) t)"
proof (cases op)
  case (RoCreate run)
  then show ?thesis using assms lr_create_table [of flt now run t] by auto
next
  case (RoCreateNext run)
  then show ?thesis using assms lr_create_next_table [of flt now run t] by auto
next
  case (RoClaim appnow locked w limit lease)
  show ?thesis
    by (simp add: RoClaim lr_ClaimBatch_def Let_def snd_case_exec assms constraints_update
        lr_frame_def lr_identity_def lr_claim_stamp_def)
next
  case (RoAdvance i v)
  show ?thesis
    by (simp add: RoAdvance AdvanceConfigurationVersion_def Let_def snd_case_exec assms
        constraints_update lr_frame_def lr_identity_def)
next
  case (RoHeartbeat appnow i w lease)
  then show ?thesis
    using assms exec_lr_write_table [of flt now i w "LwHeartbeat (appnow + lease)" t]
    by (auto simp: lr_Heartbeat_def)
next
  case (RoTransition i w v s to)
  then show ?thesis
    using assms exec_lr_write_table [of flt now i w "LwTransition v s to" t]
    by (auto simp: TransitionStatus_def)
next
  case (RoUpdateStatus i w v to)
  then show ?thesis
    using assms exec_lr_write_table [of flt now i w "LwStatus v to" t]
    by (auto simp: lr_UpdateStatus_def)
qed

lemma lr_exec_row:
  assumes "lr_constraints t" and r: "find_row lr_id i t = Some r"
  obtains r' where "find_row lr_id i (lr_exec (flt, now, op) t) = Some r'"
    and "lr_row_step (lr_legacy (flt, now, op)) now r r'"
proof -
  have "distinct (map lr_id t)" using assms(1) by (simp add: lr_constraints_def)
  from lr_exec_shape [OF this, of flt now op] show thesis
  proof
    assume "\<exists>run. lr_exec (flt, now, op) t = t @ [run] \<and> lr_constraints (t @ [run])"
    then show thesis using that [OF _ lr_row_step.same] r by (auto simp: find_row_append)
  next
    assume "lr_update_shape (lr_legacy (flt, now, op)) now t (lr_exec (flt, now, op) t)"
    then obtain p f where eq: "lr_exec (flt, now, op) t = update_where p f t"
      and ids: "\<And>r. lr_id (f r) = lr_id r"
      and steps: "\<And>r. r \<in> set t \<Longrightarrow> p r \<Longrightarrow> lr_row_step (lr_legacy (flt, now, op)) now r (f r)"
      by (rule lr_update_shape_frame) (rule that)
    have "find_row lr_id i (lr_exec (flt, now, op) t) = Some (if p r then f r else r)"
      using r ids by (simp add: eq find_row_update_where)
    moreover have "lr_row_step (lr_legacy (flt, now, op)) now r (if p r then f r else r)"
      using steps [of r] find_row_SomeD [OF r] by (simp add: lr_row_step.same)
    ultimately show thesis by (rule that)
  qed
qed

text \<open>A property of rows that every step of the sequence keeps.\<close>

lemma lr_run_row_induct:
  assumes "\<forall>x \<in> set ops. \<forall>r r'. lr_row_step (lr_legacy x) (fst (snd x)) r r' \<longrightarrow> I r \<longrightarrow> I r'"
  shows "lr_constraints t \<Longrightarrow> find_row lr_id i t = Some r \<Longrightarrow> I r \<Longrightarrow>
    lr_constraints (lr_run ops t) \<and> (\<exists>r'. find_row lr_id i (lr_run ops t) = Some r' \<and> I r')"
  using assms
proof (induction ops arbitrary: t r)
  case (Cons x ops)
  obtain flt now op where x: "x = (flt, now, op)" by (cases x)
  from Cons.prems(1,2) obtain r1 where r1: "find_row lr_id i (lr_exec x t) = Some r1"
    and step: "lr_row_step (lr_legacy x) now r r1"
    unfolding x by (rule lr_exec_row)
  from step Cons.prems(3,4) have "I r1" by (auto simp: x)
  moreover have "lr_constraints (lr_exec x t)"
    unfolding x using Cons.prems(1) by (rule lr_exec_constraints)
  ultimately show ?case using Cons.IH [OF _ r1] Cons.prems(4) by simp
qed simp

lemma actual_run_snoc:
  assumes "legal_run actualTransitions s ss" and "run_end s ss = u"
    and "v = u \<or> v \<in> set (actualTransitions u)"
  shows "\<exists>ss'. legal_run actualTransitions s ss' \<and> run_end s ss' = v"
  using assms(3)
proof
  assume "v = u"
  then show ?thesis using assms by blast
next
  assume "v \<in> set (actualTransitions u)"
  then show ?thesis
    using assms(1,2) by (intro exI [of _ "ss @ [v]"]) (simp add: legal_run_append run_end_append)
qed

definition lr_parked :: "(db_fault \<times> time \<times> lr_op) list \<Rightarrow> LivestreamRun \<Rightarrow> bool" where
  "lr_parked ops r \<longleftrightarrow> lr_status r \<notin> lr_runnable \<and> (\<forall>x \<in> set ops. \<not> lr_held (fst (snd x)) r)"

definition lr_follows :: "(db_fault \<times> time \<times> lr_op) list \<Rightarrow> LivestreamRun \<Rightarrow> LivestreamRun \<Rightarrow> bool" where
  "lr_follows ops r r' \<longleftrightarrow>
     lr_identity r' = lr_identity r \<and> lr_version r \<le> lr_version r' \<and>
     ((\<forall>x \<in> set ops. \<not> lr_legacy x) \<longrightarrow>
        (\<exists>ss. legal_run actualTransitions (lr_status r) ss \<and> run_end (lr_status r) ss = lr_status r')) \<and>
     (lr_parked ops r \<longrightarrow> lr_status r' = lr_status r \<and> lr_worker_id r' = lr_worker_id r \<and>
        lr_lease_expires_at r' = lr_lease_expires_at r)"

lemma lr_follows_refl: "lr_follows ops r r"
  unfolding lr_follows_def by (auto intro: exI [of _ "[]"])

lemma lr_follows_step:
  assumes x: "x \<in> set ops" and step: "lr_row_step (lr_legacy x) (fst (snd x)) q q'"
    and q: "lr_follows ops r q"
  shows "lr_follows ops r q'"
proof -
  have keeps: "lr_identity q' = lr_identity r" "lr_version r \<le> lr_version q'"
    using lr_row_step_keeps [OF step] q by (auto simp: lr_follows_def)
  have run: "\<exists>ss. legal_run actualTransitions (lr_status r) ss \<and> run_end (lr_status r) ss = lr_status q'"
    if all: "\<forall>x \<in> set ops. \<not> lr_legacy x"
  proof -
    from q all obtain ss where "legal_run actualTransitions (lr_status r) ss"
      and "run_end (lr_status r) ss = lr_status q"
      unfolding lr_follows_def by blast
    moreover have "lr_row_step False (fst (snd x)) q q'" using step all x by auto
    ultimately show ?thesis using lr_row_step_edge actual_run_snoc by blast
  qed
  have "lr_status q' = lr_status r \<and> lr_worker_id q' = lr_worker_id r \<and>
      lr_lease_expires_at q' = lr_lease_expires_at r" if parked: "lr_parked ops r"
  proof -
    from q parked have same: "lr_status q = lr_status r" "lr_worker_id q = lr_worker_id r"
      "lr_lease_expires_at q = lr_lease_expires_at r"
      by (auto simp: lr_follows_def)
    then have "\<not> lr_held (fst (snd x)) q" "lr_status q \<notin> lr_runnable"
      using parked x by (auto simp: lr_parked_def lr_held_def)
    from lr_row_step_parked [OF step this] same show ?thesis by simp
  qed
  with keeps run show ?thesis by (simp add: lr_follows_def)
qed

section \<open>Properties of the runs\<close>

definition sample_run :: LivestreamRun where
  "sample_run =
     \<lparr>lr_id = ''r1'', lr_livestream_id = ''ls'', lr_account_id = 7, lr_generation = 1,
      lr_status = LaStarting, lr_broadcast_id = None, lr_stream_id = None, lr_version = 1,
      lr_worker_id = Some ''w'', lr_lease_expires_at = Some 100, lr_heartbeat_at = None,
      lr_last_frame_at = None, lr_encoder_pid = '''', lr_reconnect_count = 0,
      lr_attempt_count = 1, lr_started_at = None, lr_live_at = None, lr_ended_at = None,
      lr_error_code = '''', lr_error_message = '''', lr_last_error_code = '''',
      lr_last_error_message = '''', lr_created_at = 0, lr_updated_at = 0\<rparr>"

text \<open>
  C36: the life of a livestream run under every sequence of statements (insertions, claims,
  heartbeats, status writes, version bumps) of every worker at every time and with every
  database fault. The unique indexes hold throughout, so a channel never has two active runs and
  a generation of a livestream never two rows. No run is lost or moved to another livestream,
  channel or generation, and its configuration version never goes back. Unless the compatibility
  write \<open>UpdateStatus\<close> is used, its status follows the documented transition map. And a run in
  a status the claim does not list (draft, failed, completed, cancelled) whose lease has ended
  stays in it for ever: the edges the map has out of draft and failed cannot be taken.
\<close>

theorem livestream_runs_safe:
  assumes "lr_constraints t" and "find_row lr_id i t = Some r"
  shows "lr_constraints (lr_run ops t) \<and>
    (\<exists>r'. find_row lr_id i (lr_run ops t) = Some r' \<and>
      lr_identity r' = lr_identity r \<and> lr_version r \<le> lr_version r' \<and>
      ((\<forall>x \<in> set ops. \<not> lr_legacy x) \<longrightarrow>
         (\<exists>ss. legal_run actualTransitions (lr_status r) ss \<and>
               run_end (lr_status r) ss = lr_status r')) \<and>
      (lr_status r \<notin> lr_runnable \<longrightarrow> (\<forall>x \<in> set ops. \<not> lr_held (fst (snd x)) r) \<longrightarrow>
         lr_status r' = lr_status r \<and> lr_worker_id r' = lr_worker_id r))"
proof -
  have "\<forall>x \<in> set ops. \<forall>q q'. lr_row_step (lr_legacy x) (fst (snd x)) q q' \<longrightarrow>
      lr_follows ops r q \<longrightarrow> lr_follows ops r q'"
    using lr_follows_step by blast
  from lr_run_row_induct [OF this assms lr_follows_refl] obtain r' where
    "lr_constraints (lr_run ops t)" and "find_row lr_id i (lr_run ops t) = Some r'"
    and "lr_follows ops r r'"
    by (elim exE conjE)
  then show ?thesis by (simp add: lr_follows_def lr_parked_def)
qed

theorem livestream_runs_safe_witness:
  "\<exists>r'. find_row lr_id ''r1''
      (lr_run [(DbOk, 5, RoTransition ''r1'' ''w'' 1 LaStarting LaWaitingForIngest)] [sample_run]) = Some r' \<and>
    (\<exists>ss. legal_run actualTransitions LaStarting ss \<and> run_end LaStarting ss = lr_status r')"
proof -
  have "lr_constraints [sample_run]" and "find_row lr_id ''r1'' [sample_run] = Some sample_run"
    by (simp_all add: lr_constraints_def generation_uq_def one_active_run_per_channel_def
        resources_uq_def sample_run_def)
  from livestream_runs_safe [OF this,
      of "[(DbOk, 5, RoTransition ''r1'' ''w'' 1 LaStarting LaWaitingForIngest)]"]
  show ?thesis by (auto simp: sample_run_def)
qed

text \<open>A finished run is final in the map, but not for the compatibility write.\<close>

lemma finished_final:
  assumes "s \<in> {LaCompleted, LaCancelled}" and "legal_run actualTransitions s ss"
  shows "ss = []"
  using assms by (cases ss) auto

lemma UpdateStatus_revives:
  "exec_lr_write DbOk 5 ''r1'' ''w'' (LwStatus 1 LaLive) [sample_run\<lparr>lr_status := LaCompleted\<rparr>] =
     (Inr (sample_run\<lparr>lr_status := LaLive, lr_updated_at := 5\<rparr>),
      [sample_run\<lparr>lr_status := LaLive, lr_updated_at := 5\<rparr>])"
  by (simp add: exec_lr_write_def Let_def sample_run_def lr_holds_def lr_constraints_def
      generation_uq_def one_active_run_per_channel_def resources_uq_def)

text \<open>No edge of the map leads to \<open>scheduled\<close>.\<close>

lemma scheduled_unreachable:
  "LaScheduled \<notin> set (actualTransitions s)"
  by (cases s) simp_all

text \<open>
  A worker whose snapshot of the configuration is stale is told that it lost the lease, which it
  still holds.
\<close>

lemma stale_version_reported_as_lease_lost:
  assumes "find_row lr_id i t = Some r" and "distinct (map lr_id t)" and "lr_version r \<noteq> v"
    and "lr_constraints t"
  shows "exec_lr_write DbOk now i w (LwTransition v s to) t = (Inl ErrLivestreamRunLeaseLost, t)"
proof -
  have "\<not> lr_guard now i w (LwTransition v s to) q" if "q \<in> set t" for q
    using find_row_unique [OF assms(2) that] assms(1,3) by (auto simp: lr_holds_def)
  then have no: "rows_affected (lr_guard now i w (LwTransition v s to)) t = 0"
    by (simp add: rows_affected_0_iff)
  from rows_affected_0_unchanged [OF no] no assms(4) show ?thesis
    by (simp add: exec_lr_write_def)
qed

section \<open>The configurations\<close>

datatype ls_op =
    LoCreate Livestream | LoUpdate string livestream_config int
  | LoDesired string int LivestreamDesiredState LivestreamDesiredState | LoDelete string

fun ls_exec :: "db_fault \<times> time \<times> ls_op \<Rightarrow> Livestream list \<Rightarrow>
    (livestream_err + int) \<times> Livestream list" where
  "ls_exec (flt, now, LoCreate ls) t =
     (case ls_Create flt now ls t of (r, t') \<Rightarrow> (case r of Inl e \<Rightarrow> Inl e | Inr _ \<Rightarrow> Inr 0, t'))"
| "ls_exec (flt, now, LoUpdate i c e) t = UpdateWithVersion flt now i c e t"
| "ls_exec (flt, now, LoDesired i e s to) t = SetDesiredState flt now i e s to t"
| "ls_exec (flt, now, LoDelete i) t =
     (case ls_Delete flt i t of (r, t') \<Rightarrow> (case r of Inl e \<Rightarrow> Inl e | Inr _ \<Rightarrow> Inr 0, t'))"

fun ls_run :: "(db_fault \<times> time \<times> ls_op) list \<Rightarrow> Livestream list \<Rightarrow>
    (livestream_err + int) list \<times> Livestream list" where
  "ls_run [] t = ([], t)"
| "ls_run (x # ops) t =
     (case ls_exec x t of (r, t1) \<Rightarrow> (case ls_run ops t1 of (rs, t2) \<Rightarrow> (r # rs, t2)))"

text \<open>
  The commands on livestream \<open>i\<close> that were answered with success: the version each expected and
  the configuration an update carried.
\<close>

fun ls_confirmed :: "string \<Rightarrow> db_fault \<times> time \<times> ls_op \<Rightarrow> livestream_err + int \<Rightarrow>
    (int \<times> livestream_config option) list" where
  "ls_confirmed i (_, _, LoUpdate j c e) (Inr _) = (if j = i then [(e, Some c)] else [])"
| "ls_confirmed i (_, _, LoDesired j e s to) (Inr _) = (if j = i then [(e, None)] else [])"
| "ls_confirmed i _ _ = []"

definition ls_confirmations where
  "ls_confirmations i ops rs = concat (map (\<lambda>(x, r). ls_confirmed i x r) (zip ops rs))"

fun ls_latest :: "livestream_config \<Rightarrow> (int \<times> livestream_config option) list \<Rightarrow> livestream_config" where
  "ls_latest c [] = c"
| "ls_latest c ((_, None) # cs) = ls_latest c cs"
| "ls_latest c ((_, Some d) # cs) = ls_latest d cs"

fun ls_deletes :: "string \<Rightarrow> db_fault \<times> time \<times> ls_op \<Rightarrow> bool" where
  "ls_deletes i (_, _, LoDelete j) \<longleftrightarrow> j = i"
| "ls_deletes i _ \<longleftrightarrow> False"

text \<open>What one command does to one livestream, and what its answer claims.\<close>

inductive ls_step :: "string \<Rightarrow> db_fault \<Rightarrow> (int \<times> livestream_config option) list \<Rightarrow>
    Livestream \<Rightarrow> Livestream \<Rightarrow> bool" for i where
  idle: "ls_step i flt [] r r"
| update: "cs = (if flt = DbOk then [(ls_version r, Some c)] else []) \<Longrightarrow> flt \<noteq> DbFailed \<Longrightarrow>
    ls_step i flt cs r (r\<lparr>ls_config := c, ls_version := ls_version r + 1, ls_updated_at := now\<rparr>)"
| desire: "cs = (if flt = DbOk then [(ls_version r, None)] else []) \<Longrightarrow> flt \<noteq> DbFailed \<Longrightarrow>
    to \<in> set (desiredTransitions (ls_desired r)) \<Longrightarrow>
    ls_step i flt cs r (r\<lparr>ls_desired := to, ls_generation := ls_generation r + 1,
      ls_version := ls_version r + 1, ls_updated_at := now\<rparr>)"

lemma rows_affected_key:
  assumes "distinct (map key t)" and "find_row key k t = Some r" and "\<And>q. p q \<Longrightarrow> key q = k"
  shows "rows_affected p t = (if p r then 1 else 0)"
proof -
  have eq: "q = r" if "q \<in> set t" "p q" for q
    using find_row_unique [OF assms(1) that(1)] assms(2,3) that(2) by simp
  show ?thesis
  proof (cases "p r")
    case True
    then have "set (filter p t) = {r}" using eq find_row_SomeD [OF assms(2)] by auto
    moreover have "distinct (filter p t)" using assms(1) by (simp add: distinct_map)
    ultimately show ?thesis using True distinct_card [of "filter p t"] by (simp add: rows_affected_def)
  next
    case False
    then show ?thesis using eq by (auto simp: rows_affected_0_iff)
  qed
qed

lemma ls_exec_ids:
  assumes "distinct (map ls_id t)"
  shows "distinct (map ls_id (snd (ls_exec (flt, now, op) t)))"
proof -
  have upd: "distinct (map ls_id (snd (exec_update flt p f t)))" if "\<And>r. ls_id (f r) = ls_id r"
    for p f using assms by (simp add: exec_update_table map_update_where that)
  have "distinct (map ls_id (snd (UpdateWithVersion flt now i c e t)))" for i c e
    using assms by (simp add: UpdateWithVersion_def snd_case_exec upd)
  moreover have "distinct (map ls_id (snd (SetDesiredState flt now i e s to t)))" for i e s to
    using assms by (simp add: SetDesiredState_def snd_case_exec upd)
  moreover have "distinct (map ls_id (snd (ls_Delete flt i t)))" for i
    using assms by (simp add: ls_Delete_def distinct_map_filter)
  moreover have "distinct (map ls_id (snd (ls_Create flt now ls t)))" for ls
    using assms by (simp add: ls_Create_def)
  ultimately show ?thesis by (cases op) (simp_all add: case_prod_beta)
qed

text \<open>An update by id, version and more, seen from one row.\<close>

lemma cas_step:
  assumes "distinct (map ls_id t)" and r: "find_row ls_id i t = Some r"
    and keep: "\<And>q. ls_id (f q) = ls_id q" and key: "\<And>q. p q \<Longrightarrow> ls_id q = j"
    and step: "flt \<noteq> DbFailed \<Longrightarrow> p r \<Longrightarrow> ls_step i flt (if flt = DbOk then [k] else []) r (f r)"
    and conf: "conf = (case fst (exec_update flt p f t) of
                 None \<Rightarrow> [] | Some n \<Rightarrow> if n = 0 \<or> j \<noteq> i then [] else [k])"
  shows "\<exists>r'. find_row ls_id i (snd (exec_update flt p f t)) = Some r' \<and> ls_step i flt conf r r'"
proof -
  have id: "ls_id r = i" using find_row_SomeD [OF r] by simp
  have row: "find_row ls_id i (snd (exec_update flt p f t)) =
      Some (if flt \<noteq> DbFailed \<and> p r then f r else r)"
    using r keep by (cases flt) (simp_all add: exec_update_table find_row_update_where)
  have n: "j = i \<Longrightarrow> rows_affected p t = (if p r then 1 else 0)"
    using rows_affected_key [OF assms(1) r] key by auto
  have "conf = (if flt = DbOk \<and> p r then [k] else [])"
    using n key [of r] id by (cases flt) (auto simp: conf split: if_splits)
  then show ?thesis using row step ls_step.idle by auto
qed

lemma ls_confirmed_other [simp]:
  "j \<noteq> i \<Longrightarrow> ls_confirmed i (flt, now, LoUpdate j c e) x = []"
  "j \<noteq> i \<Longrightarrow> ls_confirmed i (flt, now, LoDesired j e s to) x = []"
  "ls_confirmed i (flt, now, LoCreate ls) x = []" "ls_confirmed i (flt, now, LoDelete j) x = []"
  by (cases x; simp)+

lemma UpdateWithVersion_row:
  assumes "distinct (map ls_id t)" and "find_row ls_id i t = Some r"
  shows "\<exists>r'. find_row ls_id i (snd (UpdateWithVersion flt now j c e t)) = Some r' \<and>
    ls_step i flt (ls_confirmed i (flt, now, LoUpdate j c e) (fst (UpdateWithVersion flt now j c e t))) r r'"
proof -
  let ?p = "\<lambda>r. ls_id r = j \<and> ls_version r = e"
  let ?f = "\<lambda>r. r\<lparr>ls_config := c, ls_version := ls_version r + 1, ls_updated_at := now\<rparr>"
  let ?conf = "case fst (exec_update flt ?p ?f t) of
      None \<Rightarrow> [] | Some n \<Rightarrow> if n = 0 \<or> j \<noteq> i then [] else [(e, Some c)]"
  have "\<exists>r'. find_row ls_id i (snd (exec_update flt ?p ?f t)) = Some r' \<and> ls_step i flt ?conf r r'"
    by (rule cas_step [OF assms, where j = j and k = "(e, Some c)"]) (auto intro: ls_step.update)
  then show ?thesis
    using assms(2) ls_step.idle
    by (cases "j = i") (auto simp: UpdateWithVersion_def case_prod_beta split: option.splits)
qed

lemma SetDesiredState_row:
  assumes "distinct (map ls_id t)" and "find_row ls_id i t = Some r"
  shows "\<exists>r'. find_row ls_id i (snd (SetDesiredState flt now j e s to t)) = Some r' \<and>
    ls_step i flt (ls_confirmed i (flt, now, LoDesired j e s to) (fst (SetDesiredState flt now j e s to t))) r r'"
proof (cases "j = '''' \<or> e \<le> 0 \<or> \<not> CanTransitionDesiredState s to")
  case True
  then show ?thesis using assms(2) ls_step.idle by (auto simp: SetDesiredState_def)
next
  case False
  then have edge: "to \<in> set (desiredTransitions s)" by (simp add: CanTransitionDesiredState_def)
  let ?p = "\<lambda>r. ls_id r = j \<and> ls_version r = e \<and> ls_desired r = s"
  let ?f = "\<lambda>r. r\<lparr>ls_desired := to, ls_generation := ls_generation r + 1,
      ls_version := ls_version r + 1, ls_updated_at := now\<rparr>"
  let ?conf = "case fst (exec_update flt ?p ?f t) of
      None \<Rightarrow> [] | Some n \<Rightarrow> if n = 0 \<or> j \<noteq> i then [] else [(e, None)]"
  have "\<exists>r'. find_row ls_id i (snd (exec_update flt ?p ?f t)) = Some r' \<and> ls_step i flt ?conf r r'"
    by (rule cas_step [OF assms, where j = j and k = "(e, None)"]) (use edge in \<open>auto intro: ls_step.desire\<close>)
  then show ?thesis
    using False by (cases "j = i") (auto simp: SetDesiredState_def case_prod_beta split: option.splits)
qed

lemma ls_exec_row:
  assumes "distinct (map ls_id t)" and r: "find_row ls_id i t = Some r"
    and "\<not> ls_deletes i (flt, now, op)"
  shows "\<exists>r'. find_row ls_id i (snd (ls_exec (flt, now, op) t)) = Some r' \<and>
    ls_step i flt (ls_confirmed i (flt, now, op) (fst (ls_exec (flt, now, op) t))) r r'"
proof (cases op)
  case (LoCreate ls)
  have "find_row ls_id i (snd (ls_Create flt now ls t)) = Some r"
    using r find_row_append [OF r] by (auto simp: ls_Create_def)
  then show ?thesis using ls_step.idle by (auto simp: LoCreate case_prod_beta)
next
  case (LoDelete j)
  have "find_row ls_id i (filter (\<lambda>r. ls_id r \<noteq> j) t) = Some r"
    using r assms(3) LoDelete by (induction t) (auto split: if_splits)
  then have "find_row ls_id i (snd (ls_Delete flt j t)) = Some r" using r by (simp add: ls_Delete_def)
  then show ?thesis using ls_step.idle by (auto simp: LoDelete case_prod_beta)
next
  case (LoUpdate j c e)
  then show ?thesis using UpdateWithVersion_row [OF assms(1,2)] by simp
next
  case (LoDesired j e s to)
  then show ?thesis using SetDesiredState_row [OF assms(1,2)] by simp
qed

lemma ls_step_effect:
  assumes "ls_step i flt cs r r'"
  shows "\<forall>c \<in> set cs. fst c = ls_version r \<and> ls_version r' = ls_version r + 1"
    and "length cs \<le> 1" and "ls_version r \<le> ls_version r'"
    and "flt \<noteq> DbLost \<Longrightarrow> map fst cs = [ls_version r..ls_version r' - 1] \<and>
           ls_config r' = ls_latest (ls_config r) cs"
    and "ls_desired r' = ls_desired r \<or> ls_desired r' \<in> set (desiredTransitions (ls_desired r))"
  using assms by (cases; cases flt; simp)+

lemma ls_confirmations_simps [simp]:
  "ls_confirmations i [] rs = []"
  "ls_confirmations i (x # ops) (r # rs) = ls_confirmed i x r @ ls_confirmations i ops rs"
  by (simp_all add: ls_confirmations_def)

lemma ls_latest_append: "ls_latest c (cs @ ds) = ls_latest (ls_latest c cs) ds"
  by (induction c cs rule: ls_latest.induct) simp_all

lemma sorted_confirmations:
  assumes "\<forall>c \<in> set cs. fst c = v \<and> v + 1 = w" and "length cs \<le> (1::nat)" and "v \<le> w"
    and "sorted_wrt (<) (map fst ds)" and "fst ` set ds \<subseteq> {w..<u}" and "w \<le> (u::int)"
  shows "sorted_wrt (<) (map fst (cs @ ds)) \<and> fst ` set (cs @ ds) \<subseteq> {v..<u}"
  using assms by (cases cs) auto

text \<open>What a sequence of commands leaves of one livestream, and what its answers claim.\<close>

definition ls_outcome where
  "ls_outcome lost cs r r' \<longleftrightarrow>
     sorted_wrt (<) (map fst cs) \<and> fst ` set cs \<subseteq> {ls_version r..<ls_version r'} \<and>
     ls_version r \<le> ls_version r' \<and>
     (\<not> lost \<longrightarrow> map fst cs = [ls_version r..ls_version r' - 1] \<and>
        ls_config r' = ls_latest (ls_config r) cs) \<and>
     (\<exists>ss. legal_run desiredTransitions (ls_desired r) ss \<and>
           run_end (ls_desired r) ss = ls_desired r')"

lemma ls_outcome_Nil: "ls_outcome lost [] r r"
  unfolding ls_outcome_def by (auto intro: exI [of _ "[]"])

lemma ls_outcome_step:
  assumes step: "ls_step i flt cs r r1" and rest: "ls_outcome lost ds r1 r'"
    and lost: "flt = DbLost \<Longrightarrow> lost"
  shows "ls_outcome lost (cs @ ds) r r'"
proof -
  note eff = ls_step_effect [OF step]
  note out = rest [unfolded ls_outcome_def]
  have "sorted_wrt (<) (map fst (cs @ ds)) \<and> fst ` set (cs @ ds) \<subseteq> {ls_version r..<ls_version r'}"
    by (rule sorted_confirmations [where w = "ls_version r1"]) (use eff(1-3) out in auto)
  moreover have "map fst (cs @ ds) = [ls_version r..ls_version r' - 1] \<and>
      ls_config r' = ls_latest (ls_config r) (cs @ ds)" if "\<not> lost"
  proof -
    have "map fst cs = [ls_version r..ls_version r1 - 1]" "ls_config r1 = ls_latest (ls_config r) cs"
      using eff(4) lost that by auto
    moreover have "map fst ds = [ls_version r1..ls_version r' - 1]"
      "ls_config r' = ls_latest (ls_config r1) ds" using out that by auto
    moreover have "[ls_version r..ls_version r1 - 1] @ [ls_version r1..ls_version r' - 1] =
        [ls_version r..ls_version r' - 1]"
      using eff(3) out upto_split1 [of "ls_version r" "ls_version r1" "ls_version r' - 1"]
      by (cases "ls_version r1 = ls_version r'") auto
    ultimately show ?thesis by (simp add: ls_latest_append)
  qed
  moreover have "\<exists>ss. legal_run desiredTransitions (ls_desired r) ss \<and>
      run_end (ls_desired r) ss = ls_desired r'"
  proof -
    obtain ss where ss: "legal_run desiredTransitions (ls_desired r1) ss"
      "run_end (ls_desired r1) ss = ls_desired r'" using out by blast
    from eff(5) show ?thesis
    proof
      assume "ls_desired r1 = ls_desired r"
      then show ?thesis using ss by auto
    next
      assume "ls_desired r1 \<in> set (desiredTransitions (ls_desired r))"
      then show ?thesis using ss by (intro exI [of _ "ls_desired r1 # ss"]) simp
    qed
  qed
  ultimately show ?thesis using eff(3) out by (simp add: ls_outcome_def)
qed

lemma ls_run_outcome:
  assumes "distinct (map ls_id t)" and "find_row ls_id i t = Some r"
    and "\<forall>x \<in> set ops. \<not> ls_deletes i x" and "\<forall>x \<in> set ops. fst x = DbLost \<longrightarrow> lost"
    and "ls_run ops t = (rs, t')"
  shows "\<exists>r'. find_row ls_id i t' = Some r' \<and> ls_outcome lost (ls_confirmations i ops rs) r r'"
  using assms
proof (induction ops arbitrary: t r rs)
  case Nil
  then show ?case by (auto simp: ls_outcome_Nil)
next
  case (Cons x ops)
  obtain flt now op where x: "x = (flt, now, op)" by (cases x)
  obtain a t1 where a: "ls_exec x t = (a, t1)" by fastforce
  obtain rs' where rest: "ls_run ops t1 = (rs', t')" and rs: "rs = a # rs'"
    using Cons.prems(5) a by (auto split: prod.splits)
  from ls_exec_row [OF Cons.prems(1,2), of flt now op] Cons.prems(3) a x
  obtain r1 where r1: "find_row ls_id i t1 = Some r1" and step: "ls_step i flt (ls_confirmed i x a) r r1"
    by auto
  have "distinct (map ls_id t1)" using ls_exec_ids [OF Cons.prems(1), of flt now op] a x by simp
  from Cons.IH [OF this r1 _ _ rest] Cons.prems(3,4)
  obtain r' where "find_row ls_id i t' = Some r'" and "ls_outcome lost (ls_confirmations i ops rs') r1 r'"
    by auto
  then show ?case
    using ls_outcome_step [OF step] Cons.prems(4) by (auto simp: rs x)
qed

text \<open>
  C37: no update of a livestream configuration is lost. Any number of editors and of changes of the
  desired state may race, on this and on other livestreams, with every database fault; the versions
  that the successful answers expected are strictly increasing and each was the stored version when
  it was used, so two editors who read the same version never both succeed. When no answer is
  lost, the confirmed versions are exactly all versions between the first and the last, and the
  stored configuration is the last confirmed one. The desired state follows the transition map.
\<close>

theorem livestream_no_lost_update:
  assumes "distinct (map ls_id t)" and "find_row ls_id i t = Some r"
    and "\<forall>x \<in> set ops. \<not> ls_deletes i x" and "ls_run ops t = (rs, t')"
  shows "\<exists>r'. find_row ls_id i t' = Some r' \<and>
    sorted_wrt (<) (map fst (ls_confirmations i ops rs)) \<and>
    fst ` set (ls_confirmations i ops rs) \<subseteq> {ls_version r..<ls_version r'} \<and>
    ((\<forall>x \<in> set ops. fst x \<noteq> DbLost) \<longrightarrow>
       map fst (ls_confirmations i ops rs) = [ls_version r..ls_version r' - 1] \<and>
       ls_config r' = ls_latest (ls_config r) (ls_confirmations i ops rs)) \<and>
    (\<exists>ss. legal_run desiredTransitions (ls_desired r) ss \<and>
          run_end (ls_desired r) ss = ls_desired r')"
proof -
  let ?lost = "\<exists>x \<in> set ops. fst x = DbLost"
  have "\<forall>x \<in> set ops. fst x = DbLost \<longrightarrow> ?lost" by blast
  from ls_run_outcome [OF assms(1-3) this assms(4)] obtain r' where
    "find_row ls_id i t' = Some r'" and "ls_outcome ?lost (ls_confirmations i ops rs) r r'"
    by (elim exE conjE)
  then show ?thesis by (simp add: ls_outcome_def)
qed

definition sample_config :: livestream_config where
  "sample_config =
     \<lparr>lc_title = ''a'', lc_description = '''', lc_privacy_status = ''private'',
      lc_playback_mode = ''once'', lc_schedule_type = ''now'', lc_scheduled_start_at = None,
      lc_resolution = ''1080p'', lc_frame_rate = 30, lc_auto_restart = True, lc_category = '''',
      lc_made_for_kids = False, lc_language = '''', lc_thumbnail_media_id = None,
      lc_dvr_enabled = True, lc_auto_start = False, lc_auto_stop = False,
      lc_latency_preference = ''normal''\<rparr>"

definition sample_stream :: Livestream where
  "sample_stream =
     \<lparr>ls_id = ''ls'', ls_workspace_id = 1, ls_account_id = 7, ls_created_by = 1,
      ls_config = sample_config, ls_desired = LdDraft, ls_actual = LaDraft, ls_generation = 1,
      ls_version = 3, ls_broadcast_id = '''', ls_stream_id = '''', ls_created_at = 0,
      ls_updated_at = 0\<rparr>"

theorem livestream_no_lost_update_witness:
  "\<exists>r'. find_row ls_id ''ls'' (snd (ls_run
      [(DbOk, 1, LoUpdate ''ls'' (sample_config\<lparr>lc_title := ''b''\<rparr>) 3),
       (DbOk, 2, LoUpdate ''ls'' (sample_config\<lparr>lc_title := ''c''\<rparr>) 3)] [sample_stream])) = Some r' \<and>
    ls_config r' = sample_config\<lparr>lc_title := ''b''\<rparr>"
proof -
  let ?ops = "[(DbOk, 1, LoUpdate ''ls'' (sample_config\<lparr>lc_title := ''b''\<rparr>) 3),
       (DbOk, 2, LoUpdate ''ls'' (sample_config\<lparr>lc_title := ''c''\<rparr>) 3)]"
  have "distinct (map ls_id [sample_stream])"
    and "find_row ls_id ''ls'' [sample_stream] = Some sample_stream"
    and "\<forall>x \<in> set ?ops. \<not> ls_deletes ''ls'' x"
    by (simp_all add: sample_stream_def)
  moreover have "ls_run ?ops [sample_stream] =
      ([Inr 4, Inl ErrLivestreamConfigurationStale], snd (ls_run ?ops [sample_stream]))"
    by (simp add: UpdateWithVersion_def sample_stream_def)
  ultimately show ?thesis
    by (rule livestream_no_lost_update [THEN exE]) (auto simp: sample_stream_def)
qed

end
