(* ===== verification/PostFrame.thy ===== *)
theory PostFrame
  imports PostRepoProofs
begin

text \<open>
  What no operation of the post repository does: it never creates or removes a post or a
  target, never moves a target to another post or account, and of a post it changes the status
  only. \<open>db_frame\<close> is what is left of the database when the columns that may change are
  dropped; every step keeps it.
\<close>

definition post_frame :: "Post \<Rightarrow> Post" where
  "post_frame p = p\<lparr>p_status := PSDraft\<rparr>"

definition target_frame :: "target_row \<Rightarrow> int \<times> int \<times> int" where
  "target_frame r = (pt_id r, pt_post_id r, pt_account r)"

definition db_frame :: "post_db \<Rightarrow> Post list \<times> (int \<times> int \<times> int) list" where
  "db_frame db = (map post_frame (posts db), map target_frame (targets db))"

definition stmt_frame :: "target_stmt \<Rightarrow> bool" where
  "stmt_frame st \<longleftrightarrow> (\<forall>r. fst st r \<longrightarrow> target_frame (snd st r) = target_frame r)"

lemma stmt_frame_simps [simp]:
  "stmt_frame (qPublishPostTargetsReset p)" "stmt_frame (qCancelPostTargetsReset p)"
  "stmt_frame (qCancelFutureJobsForAccount acc)" "stmt_frame (qRetryPostResetFailedTargets p)"
  "stmt_frame (qRetryTargetResetTarget t)" "stmt_frame (qClaimQueuedTargetUpdate t)"
  "stmt_frame (qClaimQueuedTargetWithLeaseUpdate now t w secs)"
  "stmt_frame (qUpdatePublishProgress now t w off ps secs)" "stmt_frame (qReleaseLease t w)"
  "stmt_frame (qMarkDeadLetter now m t w)" "stmt_frame (qMarkRateLimitedRetryWithLease nx m t w)"
  "stmt_frame (qMarkRetrying nx m t w)" "stmt_frame (qMarkRateLimited nx t w)"
  "stmt_frame (qMarkDriveRequiredFailed now m t)" "stmt_frame (qMarkDeliveryDispatchFailed t c)"
  "stmt_frame (qReclaimExpiredLeaseByID now t w)"
  "stmt_frame (qClaimPublishingTargetSelect now lk t w secs)"
  "stmt_frame (qHeartbeatReconcileTarget now t w secs)"
  "stmt_frame (qReleaseReconcileTarget now t w)"
  "stmt_frame (qScheduleNextReconcile now t nx k w inc c m)"
  "stmt_frame (qUpdateTargetStatus s a b d t e g)"
  "stmt_frame (qUpdateTargetStatusWithLease s a b d t e g w)"
  "stmt_frame (qUpdateTargetStatusWithReconcileLease now s a b d t e g h w)"
  "stmt_frame (qSetTargetStatus s m t)"
  by (simp_all add: stmt_frame_def target_frame_def stmt_defs)

lemma frame_update_status [simp]: "db_frame (qUpdatePostAggregateStatus s pid db) = db_frame db"
  by (simp add: db_frame_def qUpdatePostAggregateStatus_def update_where_def post_frame_def)

lemma target_frame_reset [simp]:
  "target_frame (reset_reconcile_schedule_on_publish_start now r x) = target_frame x"
  by (simp add: target_frame_def)

lemma frame_exec_targets [simp]:
  assumes "stmt_frame st"
  shows "db_frame (snd (exec_targets now st db)) = db_frame db"
  using assms by (simp add: db_frame_def stmt_frame_def map_update_where)

lemma frame_repair_queue [simp]: "db_frame (db\<lparr>repair_queue := q\<rparr>) = db_frame db"
  by (simp add: db_frame_def)

lemma persist_frame:
  "persistAggregatePostStatusLockedTx pid db = Inr (u, db') \<Longrightarrow> db_frame db' = db_frame db"
  by (auto elim!: persist_Inr)

text \<open>The transaction bodies.\<close>

lemma tx_frame:
  "stmt_frame st \<Longrightarrow> claimTargetTx now tid st db = Inr (u, d) \<Longrightarrow> db_frame d = db_frame db"
  "stmt_frame st \<Longrightarrow> resetPostTargetsAndAggregateTx now pid st db = Inr (u, d) \<Longrightarrow>
     db_frame d = db_frame db"
  "resetTargetAndAggregateTx now tid db = Inr (u, d) \<Longrightarrow> db_frame d = db_frame db"
  "stmt_frame (q tid w) \<Longrightarrow> mutateLeasedTargetTx now tid w q db = Inr (u, d) \<Longrightarrow>
     db_frame d = db_frame db"
  "updateTargetStatusTx now t db = Inr (u, d) \<Longrightarrow> db_frame d = db_frame db"
  "markDriveRequiredFailedTx now tid m db = Inr (u, d) \<Longrightarrow> db_frame d = db_frame db"
  by (auto simp: claimTargetTx_def resetPostTargetsAndAggregateTx_def resetTargetAndAggregateTx_def
      mutateLeasedTargetTx_def updateTargetStatusTx_def markDriveRequiredFailedTx_def rbind_Inr_iff
      split_def Let_def split: if_splits dest!: persist_frame)

lemma run_tx_frame:
  assumes "\<And>a d. body db = Inr (a, d) \<Longrightarrow> db_frame d = db_frame db"
  shows "db_frame (snd (run_tx flt body db)) = db_frame db"
  using assms by (auto simp: run_tx_def split: tx_fault.splits sum.splits)

lemma run_exec_frame [simp]:
  "stmt_frame st \<Longrightarrow> db_frame (snd (run_exec flt now st db)) = db_frame db"
  unfolding run_exec_def by (rule run_tx_frame) (metis sum.inject(2) frame_exec_targets snd_conv)

lemma recompute_parents_frame:
  "recompute_parents pids db = Inr (u, d) \<Longrightarrow> db_frame d = db_frame db"
  by (induction pids arbitrary: db) (auto simp: rbind_Inr_iff dest!: persist_frame)

lemma cancelFutureJobsTx_frame:
  "cancelFutureJobsTx now acc db = Inr (u, d) \<Longrightarrow> db_frame d = db_frame db"
  by (auto simp: cancelFutureJobsTx_def Let_def dest!: recompute_parents_frame)

lemma reclaim_loop_frame:
  "reclaim_loop now me ts n db = Inr (m, d) \<Longrightarrow> db_frame d = db_frame db"
  by (induction ts arbitrary: n db)
    (auto simp: rbind_Inr_iff split_def Let_def split: if_splits dest!: persist_frame)

lemma repair_one_frame: "repair_one pid db = Inr (a, d) \<Longrightarrow> db_frame d = db_frame db"
  by (auto simp: repair_one_def resolvePostStatusLockedTx_def rbind_Inr_iff
      split: option.splits sum.splits if_splits)

lemma repair_sweep_frame: "db_frame (snd (repair_sweep flt pids n db)) = db_frame db"
proof (induction pids arbitrary: n db)
  case (Cons pid pids)
  then show ?case using repair_one_frame [of pid db]
    by (auto simp: Let_def split: sum.splits post_err.splits prod.splits)
qed simp

lemma UpdateStatusWithLease_frame [simp]:
  "db_frame (snd (UpdateStatusWithLease flt now t w db)) = db_frame db"
  by (auto simp: UpdateStatusWithLease_def split_def Let_def
      split: option.splits sum.splits dest!: persist_frame)

lemma simple_ops_frame [simp]:
  "db_frame (snd (UpdatePublishProgress flt now tid w off ps ttl db)) = db_frame db"
  "db_frame (snd (pt_ReleaseLease flt now tid w db)) = db_frame db"
  "db_frame (snd (MarkDeliveryDispatchFailed flt now tid c db)) = db_frame db"
  "db_frame (snd (ClaimPublishingTarget flt now lk tid w ttl db)) = db_frame db"
  "db_frame (snd (HeartbeatReconcileTarget flt now tid w ttl db)) = db_frame db"
  "db_frame (snd (ReleaseReconcileTarget flt now tid w db)) = db_frame db"
  "db_frame (snd (ScheduleNextReconcileWithLease flt now tid w a nxt inc c m db)) = db_frame db"
  "db_frame (snd (ScheduleNextReconcile flt now tid w a nxt db)) = db_frame db"
  by (simp_all add: UpdatePublishProgress_def pt_ReleaseLease_def MarkDeliveryDispatchFailed_def
      ClaimPublishingTarget_def HeartbeatReconcileTarget_def ReleaseReconcileTarget_def
      ScheduleNextReconcileWithLease_def ScheduleNextReconcile_def split_def Let_def
      split: sum.splits option.splits)

lemma leased_ops_frame [simp]:
  "db_frame (snd (pt_MarkDeadLetter flt now tid w m db)) = db_frame db"
  "db_frame (snd (pt_MarkRetrying flt now tid w m nx db)) = db_frame db"
  "db_frame (snd (MarkRateLimitedRetryWithLease flt now tid w nx m db)) = db_frame db"
  "db_frame (snd (pt_MarkRateLimited flt now tid w nx db)) = db_frame db"
  by (auto simp: pt_MarkDeadLetter_def pt_MarkRetrying_def MarkRateLimitedRetryWithLease_def
      pt_MarkRateLimited_def mutateLeasedTarget_def intro!: run_tx_frame elim!: tx_frame(4) [rotated])

lemma reset_ops_frame [simp]:
  "db_frame (snd (RetryPost flt now pid db)) = db_frame db"
  "db_frame (snd (PublishPost flt now pid db)) = db_frame db"
  "db_frame (snd (CancelPost flt now pid db)) = db_frame db"
  "db_frame (snd (RetryTarget flt now tid db)) = db_frame db"
  "db_frame (snd (CancelFutureJobs flt now acc db)) = db_frame db"
  "db_frame (snd (MarkDriveRequiredFailed flt now tid m db)) = db_frame db"
  "db_frame (snd (updateStatusWithAggregate flt now t db)) = db_frame db"
  by (auto simp: RetryPost_def PublishPost_def CancelPost_def RetryTarget_def CancelFutureJobs_def
      MarkDriveRequiredFailed_def updateStatusWithAggregate_def split: option.splits
      intro!: run_tx_frame dest: tx_frame(3,5,6) cancelFutureJobsTx_frame
      elim!: tx_frame(2) [rotated])

lemma claim_ops_frame [simp]:
  "db_frame (snd (ClaimQueuedTargetWithLease flt now lk tid w ttl db)) = db_frame db"
  "db_frame (snd (ClaimWaitingProviderTarget flt now lk tid db)) = db_frame db"
  by (auto simp: ClaimQueuedTargetWithLease_def ClaimWaitingProviderTarget_def rbind_Inr_iff
      split: option.splits intro!: run_tx_frame elim!: tx_frame(1) [rotated])

lemma post_step_frame: "db_frame (post_step f now lk op db) = db_frame db"
proof (cases op)
  case (PoReclaim w)
  show ?thesis
    by (auto simp: PoReclaim pt_ReclaimExpiredLeases_def intro!: run_tx_frame dest: reclaim_loop_frame)
next
  case (PoSetTargetStatus t s m)
  show ?thesis
    by (auto simp: PoSetTargetStatus SetTargetStatus_def setTargetStatusWithAggregate_def
        rbind_Inr_iff split_def Let_def split: if_splits intro!: run_tx_frame dest!: persist_frame)
next
  case (PoReconcileUpdate t w)
  show ?thesis
    by (auto simp: PoReconcileUpdate UpdateReconcileStatusWithLease_def rbind_Inr_iff split_def
        Let_def split: option.splits if_splits intro!: run_tx_frame dest!: persist_frame)
next
  case (PoRepairDirty p)
  show ?thesis
    by (auto simp: PoRepairDirty RepairDirtyAggregatePost_def rbind_Inr_iff split: if_splits
        intro!: run_tx_frame dest!: persist_frame)
next
  case (PoRepairPost p)
  show ?thesis
    by (auto simp: PoRepairPost RepairAggregateStatusForPost_def intro!: run_tx_frame
        dest: repair_one_frame)
next
  case PoRepairAll
  show ?thesis by (simp add: PoRepairAll RepairAggregateStatuses_def repair_sweep_frame)
qed simp_all

end
