(* ===== verification/PostCreate.thy ===== *)
theory PostCreate
  imports PostFrame Outbox
begin

text \<open>
  Creation of a post with its targets and their outbox events in one transaction,
  \<open>PostRepository.Create\<close> of \<open>internal/repository/post_repo_post.go\<close>. A post made by an
  upload job carries the job's id, and a partial unique index admits one such post: the second
  \<open>Create\<close> for a job finds the first one's rows. The ids come from the sequences of the
  tables; a rolled-back transaction may leave a gap in them, which nothing reads.
\<close>

record post_store =
  ps_db :: post_db
  ps_outbox :: "OutboxEvent list"
  seq_post :: int
  seq_target :: int
  seq_event :: int

datatype create_err =
    ErrPostTargetDuplicate int int | CeFanoutMismatch nat nat int | CeMarshal int | CeDatabase


section \<open>The statements\<close>

text \<open>
  \<open>qInsertPost\<close>: \<open>ON CONFLICT (upload_job_id) WHERE upload_job_id IS NOT NULL DO NOTHING
  RETURNING\<close>; no row comes back on a conflict. The metadata is written by a second statement
  when it is not empty, as \<open>jsonb\<close>.
\<close>

definition job_post :: "int option \<Rightarrow> post_db \<Rightarrow> Post option" where
  "job_post j db = (if j = None then None else List.find (\<lambda>p. p_upload_job_id p = j) (posts db))"

definition qInsertPost :: "time \<Rightarrow> Post \<Rightarrow> post_store \<Rightarrow> Post option \<times> post_store" where
  "qInsertPost dbnow post st =
     (case job_post (p_upload_job_id post) (ps_db st) of
        Some _ \<Rightarrow> (None, st)
      | None \<Rightarrow>
          (let i = seq_post st + 1;
               row = post\<lparr>p_id := i, p_metadata := '''', p_created_at := dbnow\<rparr>
           in (Some row, st\<lparr>ps_db := (ps_db st)\<lparr>posts := posts (ps_db st) @ [row]\<rparr>, seq_post := i\<rparr>)))"

definition set_post_metadata :: "string \<Rightarrow> int \<Rightarrow> post_store \<Rightarrow> post_store" where
  "set_post_metadata meta pid st =
     st\<lparr>ps_db := (ps_db st)\<lparr>posts := update_where (\<lambda>p. p_id p = pid)
          (\<lambda>p. p\<lparr>p_metadata := meta\<rparr>) (posts (ps_db st))\<rparr>\<rparr>"

text \<open>A row of \<open>post_targets\<close> as \<open>qInsertPostTarget\<close> makes it; the other columns default.\<close>

definition new_target :: "time \<Rightarrow> int \<Rightarrow> int \<Rightarrow> int \<Rightarrow> PostStatus \<Rightarrow> target_row" where
  "new_target dbnow tid pid account s =
     \<lparr>pt_id = tid, pt_post_id = pid, pt_account = account, pt_status = s, pt_attempt_count = 0,
      pt_next_attempt_at = None, pt_reconcile_attempt = 0, pt_next_reconcile_at = Some dbnow,
      pt_reconcile_owner = None, pt_reconcile_until = None, pt_reconcile_heartbeat = None,
      pt_platform_post_id = '''', pt_error_message = '''', pt_published_at = None,
      pt_completed_at = None, pt_provider_state = '''', pt_container_id = '''',
      pt_last_error_code = '''', pt_provider_idempotency_key = None, pt_version = 1,
      lease_owner_id = None, leased_until = None, heartbeat_at = None, next_retry_at = None,
      rate_limit_reset_at = None, upload_offset = 0\<rparr>"

text \<open>
  The loop over the targets: \<open>UNIQUE (post_id, platform_account_id)\<close>, the enum type of the
  status, the insert trigger of the repair queue. The caller's target gets its id and post.
\<close>

fun insert_targets ::
  "int \<Rightarrow> time \<Rightarrow> PostTarget list \<Rightarrow> post_store \<Rightarrow> create_err + (PostTarget list \<times> post_store)" where
  "insert_targets pid dbnow [] st = Inr ([], st)"
| "insert_targets pid dbnow (t # ts) st =
     (if \<exists>r \<in> set (targets (ps_db st)). pt_post_id r = pid \<and> pt_account r = pt_account t
      then Inl (ErrPostTargetDuplicate pid (pt_account t))
      else if \<not> enum_label_ok (pt_status t) then Inl CeDatabase
      else
        let tid = seq_target st + 1;
            db = ps_db st;
            st1 = st\<lparr>ps_db := db\<lparr>targets := targets db @ [new_target dbnow tid pid (pt_account t) (pt_status t)],
                               repair_queue := enqueue_post_aggregate_repair dbnow (repair_queue db) pid\<rparr>,
                     seq_target := tid\<rparr>
        in rbind (insert_targets pid dbnow ts st1)
             (\<lambda>(ts', st'). Inr (t\<lparr>pt_id := tid, pt_post_id := pid\<rparr> # ts', st')))"

definition publish_requested :: "int \<Rightarrow> time \<Rightarrow> int \<Rightarrow> string \<Rightarrow> OutboxEvent" where
  "publish_requested i dbnow tid payload =
     \<lparr>ob_id = i, ob_aggregate_type = ''post_target'', ob_aggregate_id = tid,
      ob_event_type = ''post_target.publish_requested'', ob_payload = payload,
      ob_status = ObPending, ob_lease_id = None, ob_lease_until = None, ob_attempt_count = 0,
      ob_next_attempt_at = None, ob_last_error = None, ob_created_at = dbnow,
      ob_processed_at = None\<rparr>"

text \<open>\<open>marshal\<close> is the JSON encoder; it refuses a \<open>publish_at\<close> whose year has five digits.\<close>

fun insert_events ::
  "(Post \<Rightarrow> PostTarget \<Rightarrow> string option) \<Rightarrow> time \<Rightarrow> Post \<Rightarrow> PostTarget list \<Rightarrow> post_store \<Rightarrow>
   create_err + post_store" where
  "insert_events marshal dbnow post [] st = Inr st"
| "insert_events marshal dbnow post (t # ts) st =
     (case marshal post t of
        None \<Rightarrow> Inl (CeMarshal (pt_id t))
      | Some payload \<Rightarrow>
          (let i = seq_event st + 1
           in insert_events marshal dbnow post ts
                (st\<lparr>ps_outbox := ps_outbox st @ [publish_requested i dbnow (pt_id t) payload],
                    seq_event := i\<rparr>)))"


section \<open>Create\<close>

text \<open>
  The rows of the first \<open>Create\<close> for the job, stamped onto the caller's structs by position.
  The metadata is not selected, so the caller keeps its own.
\<close>

definition fetchExistingByUploadJobID ::
  "int \<Rightarrow> Post \<Rightarrow> PostTarget list \<Rightarrow> post_store \<Rightarrow> create_err + (Post \<times> PostTarget list)" where
  "fetchExistingByUploadJobID job post ts st =
     (case job_post (Some job) (ps_db st) of
        None \<Rightarrow> Inl CeDatabase
      | Some p \<Rightarrow>
          (let existing = children (p_id p) (ps_db st)
           in if length existing \<noteq> length ts
              then Inl (CeFanoutMismatch (length existing) (length ts) job)
              else Inr (p\<lparr>p_metadata := p_metadata post\<rparr>,
                        map2 (\<lambda>t e. t\<lparr>pt_id := pt_id e, pt_post_id := pt_post_id e,
                                       pt_status := pt_status e\<rparr>) ts existing)))"

definition create_body ::
  "(string \<Rightarrow> bool) \<Rightarrow> (Post \<Rightarrow> PostTarget \<Rightarrow> string option) \<Rightarrow> time \<Rightarrow> Post \<Rightarrow> PostTarget list \<Rightarrow>
   post_store \<Rightarrow> create_err + ((Post \<times> PostTarget list) \<times> post_store)" where
  "create_body jsonb marshal dbnow post ts st =
     (if \<not> enum_label_ok (p_status post) then Inl CeDatabase
      else case qInsertPost dbnow post st of
        (None, st1) \<Rightarrow>
          (case p_upload_job_id post of
             None \<Rightarrow> Inl CeDatabase
           | Some job \<Rightarrow>
               rbind (fetchExistingByUploadJobID job post ts st1) (\<lambda>res. Inr (res, st1)))
      | (Some row, st1) \<Rightarrow>
          (let post' = row\<lparr>p_metadata := p_metadata post\<rparr>
           in if p_metadata post \<noteq> '''' \<and> \<not> jsonb (p_metadata post) then Inl CeDatabase
              else
                let st2 = (if p_metadata post \<noteq> '''' then set_post_metadata (p_metadata post) (p_id row) st1
                           else st1)
                in rbind (insert_targets (p_id row) dbnow ts st2) (\<lambda>(ts', st3).
                   rbind (insert_events marshal dbnow post' ts' st3) (\<lambda>st4.
                     Inr ((post', ts'), st4)))))"

definition Create ::
  "tx_fault \<Rightarrow> (string \<Rightarrow> bool) \<Rightarrow> (Post \<Rightarrow> PostTarget \<Rightarrow> string option) \<Rightarrow> time \<Rightarrow> time \<Rightarrow>
   Post \<Rightarrow> PostTarget list \<Rightarrow> post_store \<Rightarrow> (create_err + (Post \<times> PostTarget list)) \<times> post_store" where
  "Create flt jsonb marshal dbnow appnow post0 ts st =
     (let post = (if p_ingest_after post0 = None then post0\<lparr>p_ingest_after := Some appnow\<rparr> else post0)
      in case flt of
           TxFails \<Rightarrow> (Inl CeDatabase, st)
         | TxOk \<Rightarrow> (case create_body jsonb marshal dbnow post ts st of
                       Inl e \<Rightarrow> (Inl e, st) | Inr (res, st') \<Rightarrow> (Inr res, st'))
         | TxCommitLost \<Rightarrow> (case create_body jsonb marshal dbnow post ts st of
                       Inl e \<Rightarrow> (Inl e, st) | Inr (res, st') \<Rightarrow> (Inl CeDatabase, st')))"

section \<open>What the loops do\<close>

lemma new_target_simps [simp]:
  "pt_id (new_target n i p a s) = i" "pt_post_id (new_target n i p a s) = p"
  "pt_account (new_target n i p a s) = a" "pt_status (new_target n i p a s) = s"
  by (simp_all add: new_target_def)

lemma insert_targets_effect:
  assumes "insert_targets pid dbnow ts st = Inr (ts', st')"
  shows "targets (ps_db st') = targets (ps_db st) @
           map (\<lambda>t. new_target dbnow (pt_id t) pid (pt_account t) (pt_status t)) ts'"
    and "map pt_id ts' = map (\<lambda>k. seq_target st + 1 + int k) [0..<length ts]"
    and "seq_target st' = seq_target st + int (length ts)"
    and "map pt_account ts' = map pt_account ts" and "map pt_status ts' = map pt_status ts"
    and "posts (ps_db st') = posts (ps_db st)" and "ps_outbox st' = ps_outbox st"
    and "seq_post st' = seq_post st" and "seq_event st' = seq_event st"
    and "distinct (map (\<lambda>r. (pt_post_id r, pt_account r)) (targets (ps_db st))) \<Longrightarrow>
         distinct (map (\<lambda>r. (pt_post_id r, pt_account r)) (targets (ps_db st')))"
proof -
  have "targets (ps_db st') = targets (ps_db st) @
           map (\<lambda>t. new_target dbnow (pt_id t) pid (pt_account t) (pt_status t)) ts' \<and>
      map pt_id ts' = map (\<lambda>k. seq_target st + 1 + int k) [0..<length ts] \<and>
      seq_target st' = seq_target st + int (length ts) \<and>
      map pt_account ts' = map pt_account ts \<and> map pt_status ts' = map pt_status ts \<and>
      posts (ps_db st') = posts (ps_db st) \<and> ps_outbox st' = ps_outbox st \<and>
      seq_post st' = seq_post st \<and> seq_event st' = seq_event st \<and>
      (distinct (map (\<lambda>r. (pt_post_id r, pt_account r)) (targets (ps_db st))) \<longrightarrow>
       distinct (map (\<lambda>r. (pt_post_id r, pt_account r)) (targets (ps_db st'))))"
    using assms
  proof (induction ts arbitrary: st ts')
    case (Cons t ts)
    let ?tid = "seq_target st + 1"
    let ?db = "ps_db st"
    let ?st1 = "st\<lparr>ps_db := ?db\<lparr>targets := targets ?db @ [new_target dbnow ?tid pid (pt_account t) (pt_status t)],
        repair_queue := enqueue_post_aggregate_repair dbnow (repair_queue ?db) pid\<rparr>,
        seq_target := ?tid\<rparr>"
    from Cons.prems obtain us where fresh: "\<not> (\<exists>r \<in> set (targets ?db). pt_post_id r = pid \<and> pt_account r = pt_account t)"
      and rest: "insert_targets pid dbnow ts ?st1 = Inr (us, st')"
      and ts': "ts' = t\<lparr>pt_id := ?tid, pt_post_id := pid\<rparr> # us"
      by (auto simp: Let_def rbind_Inr_iff split: if_splits)
    note IH = Cons.IH [OF rest]
    have ids: "map (\<lambda>k. ?tid + 1 + int k) [0..<length ts] =
        map (\<lambda>k. seq_target st + 1 + int k) [1..<Suc (length ts)]"
      by (simp add: map_Suc_upt [symmetric] comp_def add.assoc del: upt_Suc)
    have "map pt_id ts' = map (\<lambda>k. seq_target st + 1 + int k) [0..<length (t # ts)]"
      using IH ids by (simp add: ts' upt_rec [of 0] del: upt_Suc)
    moreover have "targets (ps_db st') = targets ?db @
          map (\<lambda>t. new_target dbnow (pt_id t) pid (pt_account t) (pt_status t)) ts'"
      using IH by (simp add: ts')
    moreover have "distinct (map (\<lambda>r. (pt_post_id r, pt_account r)) (targets (ps_db st')))"
      if "distinct (map (\<lambda>r. (pt_post_id r, pt_account r)) (targets ?db))"
    proof -
      have "distinct (map (\<lambda>r. (pt_post_id r, pt_account r)) (targets (ps_db ?st1)))"
        using that fresh by auto
      then show ?thesis using IH by blast
    qed
    moreover have "seq_target st' = seq_target st + int (length (t # ts))"
      "map pt_account ts' = map pt_account (t # ts)" "map pt_status ts' = map pt_status (t # ts)"
      "posts (ps_db st') = posts ?db" "ps_outbox st' = ps_outbox st"
      "seq_post st' = seq_post st" "seq_event st' = seq_event st"
      using IH by (simp_all add: ts')
    ultimately show ?case by blast
  qed simp
  then show "targets (ps_db st') = targets (ps_db st) @
           map (\<lambda>t. new_target dbnow (pt_id t) pid (pt_account t) (pt_status t)) ts'"
    and "map pt_id ts' = map (\<lambda>k. seq_target st + 1 + int k) [0..<length ts]"
    and "seq_target st' = seq_target st + int (length ts)"
    and "map pt_account ts' = map pt_account ts" and "map pt_status ts' = map pt_status ts"
    and "posts (ps_db st') = posts (ps_db st)" and "ps_outbox st' = ps_outbox st"
    and "seq_post st' = seq_post st" and "seq_event st' = seq_event st"
    and "distinct (map (\<lambda>r. (pt_post_id r, pt_account r)) (targets (ps_db st))) \<Longrightarrow>
         distinct (map (\<lambda>r. (pt_post_id r, pt_account r)) (targets (ps_db st')))"
    by blast+
qed

definition is_publish_request :: "OutboxEvent \<Rightarrow> bool" where
  "is_publish_request ev \<longleftrightarrow>
     ob_aggregate_type ev = ''post_target'' \<and> ob_event_type ev = ''post_target.publish_requested''"

definition requested :: "post_store \<Rightarrow> int list" where
  "requested st = map ob_aggregate_id (filter is_publish_request (ps_outbox st))"

lemma insert_events_effect:
  assumes "insert_events marshal dbnow post ts st = Inr st'"
  shows "requested st' = requested st @ map pt_id ts" and "ps_db st' = ps_db st"
    and "seq_post st' = seq_post st" and "seq_target st' = seq_target st"
proof -
  have "requested st' = requested st @ map pt_id ts \<and> ps_db st' = ps_db st \<and>
      seq_post st' = seq_post st \<and> seq_target st' = seq_target st"
    using assms
  proof (induction ts arbitrary: st)
    case (Cons t ts)
    then obtain payload where payload: "marshal post t = Some payload"
      by (auto split: option.splits)
    let ?st1 = "st\<lparr>ps_outbox := ps_outbox st @
        [publish_requested (seq_event st + 1) dbnow (pt_id t) payload], seq_event := seq_event st + 1\<rparr>"
    have "requested ?st1 = requested st @ [pt_id t]"
      by (simp add: requested_def is_publish_request_def publish_requested_def)
    moreover have "insert_events marshal dbnow post ts ?st1 = Inr st'"
      using Cons.prems payload by (simp add: Let_def)
    ultimately show ?case using Cons.IH [of ?st1] by simp
  qed simp
  then show "requested st' = requested st @ map pt_id ts" and "ps_db st' = ps_db st"
    and "seq_post st' = seq_post st" and "seq_target st' = seq_target st" by blast+
qed

section \<open>The store\<close>

text \<open>
  What holds of the rows between transactions: keys, the partial unique index on the job, the
  unique pair of post and account, the foreign key, ids the sequences have passed, and exactly
  one publish request per target, in the order of the targets.
\<close>

definition store_ok :: "post_store \<Rightarrow> bool" where
  "store_ok st \<longleftrightarrow>
     distinct (map p_id (posts (ps_db st))) \<and>
     distinct (filter (\<lambda>j. j \<noteq> None) (map p_upload_job_id (posts (ps_db st)))) \<and>
     distinct (map pt_id (targets (ps_db st))) \<and>
     distinct (map (\<lambda>r. (pt_post_id r, pt_account r)) (targets (ps_db st))) \<and>
     pt_post_id ` set (targets (ps_db st)) \<subseteq> p_id ` set (posts (ps_db st)) \<and>
     (\<forall>p \<in> set (posts (ps_db st)). p_id p \<le> seq_post st) \<and>
     (\<forall>r \<in> set (targets (ps_db st)). pt_id r \<le> seq_target st) \<and>
     requested st = map pt_id (targets (ps_db st))"

lemma frame_columns:
  assumes "db_frame db' = db_frame db"
  shows "map p_id (posts db') = map p_id (posts db)"
    and "map p_upload_job_id (posts db') = map p_upload_job_id (posts db)"
    and "map pt_id (targets db') = map pt_id (targets db)"
    and "map (\<lambda>r. (pt_post_id r, pt_account r)) (targets db') =
         map (\<lambda>r. (pt_post_id r, pt_account r)) (targets db)"
    and "map pt_post_id (targets db') = map pt_post_id (targets db)"
proof -
  have p: "map f (posts d) = map f (map post_frame (posts d))" if "\<And>p. f (post_frame p) = f p"
    for f :: "Post \<Rightarrow> 'x" and d using that by simp
  have t: "map (\<lambda>r. f (target_frame r)) (targets d) = map f (map target_frame (targets d))"
    for f :: "_ \<Rightarrow> 'x" and d by simp
  from assms have ps: "map post_frame (posts db') = map post_frame (posts db)"
    and ts: "map target_frame (targets db') = map target_frame (targets db)"
    by (simp_all add: db_frame_def)
  show "map p_id (posts db') = map p_id (posts db)"
    using arg_cong [OF ps, of "map p_id"] by (simp add: post_frame_def comp_def)
  show "map p_upload_job_id (posts db') = map p_upload_job_id (posts db)"
    using arg_cong [OF ps, of "map p_upload_job_id"] by (simp add: post_frame_def comp_def)
  show "map pt_id (targets db') = map pt_id (targets db)"
    using arg_cong [OF ts, of "map fst"] by (simp add: target_frame_def comp_def)
  show "map (\<lambda>r. (pt_post_id r, pt_account r)) (targets db') =
         map (\<lambda>r. (pt_post_id r, pt_account r)) (targets db)"
    using arg_cong [OF ts, of "map snd"] by (simp add: target_frame_def comp_def)
  show "map pt_post_id (targets db') = map pt_post_id (targets db)"
    using arg_cong [OF ts, of "map (fst \<circ> snd)"] by (simp add: target_frame_def comp_def)
qed

lemma store_ok_frame:
  assumes ok: "store_ok st" and frame: "db_frame db = db_frame (ps_db st)"
  shows "store_ok (st\<lparr>ps_db := db\<rparr>)"
proof -
  note cols = frame_columns [OF frame]
  have "p_id ` set (posts db) = p_id ` set (posts (ps_db st))"
    "pt_id ` set (targets db) = pt_id ` set (targets (ps_db st))"
    "pt_post_id ` set (targets db) = pt_post_id ` set (targets (ps_db st))"
    using cols(1,3,5) by (metis set_map)+
  then show ?thesis
    using ok cols unfolding store_ok_def requested_def
    by (simp, metis (no_types, lifting) image_iff)
qed

lemma job_post_None_iff:
  "job_post j db = None \<longleftrightarrow> j = None \<or> j \<notin> p_upload_job_id ` set (posts db)"
  by (force simp: job_post_def find_None_iff)

lemma job_post_SomeD:
  "job_post j db = Some p \<Longrightarrow> j \<noteq> None \<and> p \<in> set (posts db) \<and> p_upload_job_id p = j"
  by (auto simp: job_post_def find_Some_iff split: if_splits)

lemma job_post_unique:
  assumes "store_ok st" and "p \<in> set (posts (ps_db st))" and "p_upload_job_id p = Some j"
  shows "job_post (Some j) (ps_db st) = Some p"
proof (cases "job_post (Some j) (ps_db st)")
  case None
  then show ?thesis using assms(2,3) by (force simp: job_post_None_iff)
next
  case (Some q)
  have "q = p" if "distinct (filter (\<lambda>j. j \<noteq> None) (map p_upload_job_id xs))"
    "p \<in> set xs" "q \<in> set xs" "p_upload_job_id q = p_upload_job_id p" for xs
    using that assms(3) by (induction xs) (auto simp: image_iff split: if_splits)
  then show ?thesis using Some job_post_SomeD [OF Some] assms by (auto simp: store_ok_def)
qed

text \<open>A fresh post: the state before the loops, and after them.\<close>

definition inserted_post :: "time \<Rightarrow> Post \<Rightarrow> post_store \<Rightarrow> Post" where
  "inserted_post dbnow post st = post\<lparr>p_id := seq_post st + 1, p_created_at := dbnow\<rparr>"

lemma create_body_fresh:
  assumes "create_body jsonb marshal dbnow post ts st = Inr ((post', ts'), st')"
    and "job_post (p_upload_job_id post) (ps_db st) = None"
    and ids: "\<forall>p \<in> set (posts (ps_db st)). p_id p \<le> seq_post st"
  shows "\<exists>st3. post' = inserted_post dbnow post st \<and>
    insert_targets (seq_post st + 1) dbnow ts
      (st\<lparr>ps_db := (ps_db st)\<lparr>posts := posts (ps_db st) @ [post']\<rparr>, seq_post := seq_post st + 1\<rparr>) =
      Inr (ts', st3) \<and>
    insert_events marshal dbnow post' ts' st3 = Inr st'"
proof -
  have old: "update_where (\<lambda>p. p_id p = seq_post st + 1) f (posts (ps_db st)) = posts (ps_db st)" for f
    using ids by (intro update_where_none) fastforce
  have app: "update_where q f (xs @ ys) = update_where q f xs @ update_where q f ys"
    for q and f :: "Post \<Rightarrow> Post" and xs ys by (simp add: update_where_def)
  have noop: "p_metadata post = '''' \<Longrightarrow> post\<lparr>p_id := i, p_metadata := '''', p_created_at := t\<rparr> =
      post\<lparr>p_id := i, p_created_at := t\<rparr>" for i t by (cases post) simp
  have swap: "st\<lparr>seq_post := a, ps_db := d\<rparr> = st\<lparr>ps_db := d, seq_post := a\<rparr>" for a d
    by (cases st) simp
  show ?thesis
    using assms(1,2)
    by (auto simp: noop swap create_body_def qInsertPost_def set_post_metadata_def inserted_post_def Let_def
        rbind_Inr_iff app old split: if_splits)
qed

lemma create_body_conflict:
  assumes "job_post (p_upload_job_id post) (ps_db st) = Some p"
  shows "create_body jsonb marshal dbnow post ts st =
    (if \<not> enum_label_ok (p_status post) then Inl CeDatabase
     else rbind (fetchExistingByUploadJobID (the (p_upload_job_id post)) post ts st) (\<lambda>res. Inr (res, st)))"
  using job_post_SomeD [OF assms] assms by (auto simp: create_body_def qInsertPost_def)

lemma create_body_ok:
  assumes "store_ok st" and "create_body jsonb marshal dbnow post ts st = Inr ((post', ts'), st')"
  shows "store_ok st'"
proof (cases "job_post (p_upload_job_id post) (ps_db st)")
  case (Some p)
  then have "st' = st" using assms(2) by (auto simp: create_body_conflict rbind_Inr_iff split: if_splits)
  then show ?thesis using assms(1) by simp
next
  case None
  note ok = assms(1) [unfolded store_ok_def]
  let ?i = "seq_post st + 1"
  let ?st1 = "st\<lparr>ps_db := (ps_db st)\<lparr>posts := posts (ps_db st) @ [post']\<rparr>, seq_post := ?i\<rparr>"
  from create_body_fresh [OF assms(2) None] ok obtain st3 where
    post': "post' = inserted_post dbnow post st"
    and ins: "insert_targets ?i dbnow ts ?st1 = Inr (ts', st3)"
    and ev: "insert_events marshal dbnow post' ts' st3 = Inr st'" by blast
  note tgt = insert_targets_effect [OF ins] and evt = insert_events_effect [OF ev]
  have new: "p_id post' = ?i" "p_upload_job_id post' = p_upload_job_id post"
    by (simp_all add: post' inserted_post_def)
  have posts: "posts (ps_db st') = posts (ps_db st) @ [post']" using tgt(6) evt(2) by simp
  have targets: "targets (ps_db st') = targets (ps_db st) @
      map (\<lambda>t. new_target dbnow (pt_id t) ?i (pt_account t) (pt_status t)) ts'" using tgt(1) evt(2) by simp
  have ids: "map pt_id ts' = map (\<lambda>k. seq_target st + 1 + int k) [0..<length ts]"
    using tgt(2) by simp
  have idset: "pt_id ` set ts' = (\<lambda>k. seq_target st + 1 + int k) ` {0..<length ts}"
    using arg_cong [OF ids, of set] by simp
  have "distinct (map p_id (posts (ps_db st')))"
    using ok new(1) by (auto simp: posts)
  moreover have "distinct (filter (\<lambda>j. j \<noteq> None) (map p_upload_job_id (posts (ps_db st'))))"
    using ok None by (auto simp: posts new(2) job_post_None_iff)
  moreover have "distinct (map pt_id (targets (ps_db st')))"
  proof -
    have "distinct (map pt_id ts')" unfolding ids by (simp add: distinct_map inj_on_def)
    moreover have "pt_id ` set (targets (ps_db st)) \<inter> pt_id ` set ts' = {}"
      using ok unfolding idset by fastforce
    ultimately show ?thesis using ok by (simp add: targets comp_def image_image)
  qed
  moreover have "distinct (map (\<lambda>r. (pt_post_id r, pt_account r)) (targets (ps_db st')))"
    using tgt(10) ok evt(2) by simp
  moreover have "pt_post_id ` set (targets (ps_db st')) \<subseteq> p_id ` set (posts (ps_db st'))"
    using ok new(1) by (auto simp: targets posts)
  moreover have "\<forall>p \<in> set (posts (ps_db st')). p_id p \<le> seq_post st'"
    using ok new(1) tgt(8) evt(3) by (fastforce simp: posts)
  moreover have "\<forall>r \<in> set (targets (ps_db st')). pt_id r \<le> seq_target st'"
  proof -
    have "pt_id t \<le> seq_target st + int (length ts)" if "t \<in> set ts'" for t
    proof -
      have "pt_id t \<in> pt_id ` set ts'" using that by simp
      then show ?thesis unfolding idset by auto
    qed
    then show ?thesis using ok tgt(3) evt(4) by (fastforce simp: targets)
  qed
  moreover have "requested st' = map pt_id (targets (ps_db st'))"
    using ok evt(1) tgt(7) by (simp add: targets requested_def comp_def)
  ultimately show ?thesis by (simp add: store_ok_def)
qed

lemma Create_ok:
  assumes "store_ok st"
  shows "store_ok (snd (Create flt jsonb marshal dbnow appnow post ts st))"
  using assms create_body_ok [OF assms]
  by (auto simp: Create_def Let_def split: tx_fault.splits sum.splits)

section \<open>Any sequence of creations and repository operations\<close>

datatype store_op = SoCreate Post "PostTarget list" | SoRepo "int \<Rightarrow> bool" post_op

fun store_step where
  "store_step jsonb marshal (flt, dbnow, appnow, SoCreate post ts) st =
     snd (Create flt jsonb marshal dbnow appnow post ts st)"
| "store_step jsonb marshal (flt, dbnow, appnow, SoRepo lk op) st =
     st\<lparr>ps_db := post_step flt dbnow lk op (ps_db st)\<rparr>"

definition store_run where
  "store_run jsonb marshal ops st = fold (store_step jsonb marshal) ops st"

lemma store_step_ok: "store_ok st \<Longrightarrow> store_ok (store_step jsonb marshal x st)"
  by (cases "(jsonb, marshal, x, st)" rule: store_step.cases)
    (simp_all add: Create_ok store_ok_frame post_step_frame)

lemma store_run_ok: "store_ok st \<Longrightarrow> store_ok (store_run jsonb marshal ops st)"
  unfolding store_run_def by (induction ops arbitrary: st) (simp_all add: store_step_ok)

text \<open>The children of a post, up to what may change of them.\<close>

lemma map_sort_key_frame: "map target_frame (sort_key pt_id xs) = sort_key fst (map target_frame xs)"
proof -
  have "map target_frame (insort_key pt_id x ys) = insort_key fst (target_frame x) (map target_frame ys)"
    for x ys by (induction ys) (auto simp: target_frame_def)
  then show ?thesis by (induction xs) auto
qed

lemma children_frame:
  "map target_frame (children pid db) =
     sort_key fst (filter (\<lambda>x. fst (snd x) = pid) (map target_frame (targets db)))"
  by (simp add: children_def map_sort_key_frame filter_map comp_def target_frame_def)

definition family :: "int \<Rightarrow> int \<Rightarrow> post_db \<Rightarrow> (int \<times> int \<times> int) list \<Rightarrow> bool" where
  "family j pid db kids \<longleftrightarrow>
     (pid, Some j) \<in> (\<lambda>p. (p_id p, p_upload_job_id p)) ` set (posts db) \<and>
     map target_frame (children pid db) = kids"

lemma family_frame:
  assumes "db_frame db' = db_frame db"
  shows "family j pid db' kids = family j pid db kids"
proof -
  have "map (\<lambda>p. (p_id p, p_upload_job_id p)) (posts db') = map (\<lambda>p. (p_id p, p_upload_job_id p)) (posts db)"
    using frame_columns(1,2) [OF assms] by (simp add: map_eq_conv list_eq_iff_nth_eq)
  then have "(\<lambda>p. (p_id p, p_upload_job_id p)) ` set (posts db') =
      (\<lambda>p. (p_id p, p_upload_job_id p)) ` set (posts db)" by (metis set_map)
  then show ?thesis using assms by (simp add: family_def children_frame db_frame_def)
qed

lemma Create_cases:
  "snd (Create flt jsonb marshal dbnow appnow post ts st) = st \<or>
   (\<exists>post1 post' ts'. p_upload_job_id post1 = p_upload_job_id post \<and>
      create_body jsonb marshal dbnow post1 ts st =
        Inr ((post', ts'), snd (Create flt jsonb marshal dbnow appnow post ts st)))"
proof -
  let ?post = "if p_ingest_after post = None then post\<lparr>p_ingest_after := Some appnow\<rparr> else post"
  have "p_upload_job_id ?post = p_upload_job_id post" by simp
  then show ?thesis
    by (cases flt; cases "create_body jsonb marshal dbnow ?post ts st")
      (force simp: Create_def Let_def)+
qed

lemma create_body_family:
  assumes "store_ok st" and "create_body jsonb marshal dbnow post ts st = Inr ((post', ts'), st')"
  shows "family j pid (ps_db st) kids \<Longrightarrow> family j pid (ps_db st') kids"
    and "job_post (p_upload_job_id post) (ps_db st) = None \<Longrightarrow> p_upload_job_id post = Some j \<Longrightarrow>
      \<exists>kids. family j (p_id post') (ps_db st') kids \<and>
        map (snd \<circ> snd) kids = map pt_account ts \<and> map fst kids = map pt_id ts'"
proof -
  note ok = assms(1) [unfolded store_ok_def]
  have fresh: "posts (ps_db st') = posts (ps_db st) @ [post'] \<and> p_id post' = seq_post st + 1 \<and>
      p_upload_job_id post' = p_upload_job_id post \<and>
      map target_frame (targets (ps_db st')) = map target_frame (targets (ps_db st)) @
        map (\<lambda>t. (pt_id t, seq_post st + 1, pt_account t)) ts' \<and>
      map pt_id ts' = map (\<lambda>k. seq_target st + 1 + int k) [0..<length ts] \<and>
      map pt_account ts' = map pt_account ts"
    if none: "job_post (p_upload_job_id post) (ps_db st) = None"
  proof -
    from create_body_fresh [OF assms(2) none] ok obtain st3 where
      post': "post' = inserted_post dbnow post st"
      and ins: "insert_targets (seq_post st + 1) dbnow ts (st\<lparr>ps_db := (ps_db st)\<lparr>posts :=
         posts (ps_db st) @ [post']\<rparr>, seq_post := seq_post st + 1\<rparr>) = Inr (ts', st3)"
      and ev: "insert_events marshal dbnow post' ts' st3 = Inr st'" by blast
    show ?thesis
      using insert_targets_effect [OF ins] insert_events_effect(2) [OF ev]
      by (simp add: post' inserted_post_def comp_def target_frame_def)
  qed
  show "family j pid (ps_db st') kids" if fam: "family j pid (ps_db st) kids"
  proof (cases "job_post (p_upload_job_id post) (ps_db st)")
    case (Some p)
    then have "st' = st" using assms(2) by (auto simp: create_body_conflict rbind_Inr_iff split: if_splits)
    then show ?thesis using fam by simp
  next
    case None
    have "pid \<le> seq_post st" using fam ok by (auto simp: family_def)
    then show ?thesis using fresh [OF None] fam
      by (auto simp: family_def children_frame)
  qed
  show "\<exists>kids. family j (p_id post') (ps_db st') kids \<and>
        map (snd \<circ> snd) kids = map pt_account ts \<and> map fst kids = map pt_id ts'"
    if none: "job_post (p_upload_job_id post) (ps_db st) = None" and job: "p_upload_job_id post = Some j"
  proof -
    note f = fresh [OF none]
    let ?kids = "map (\<lambda>t. (pt_id t, seq_post st + 1, pt_account t)) ts'"
    have "\<forall>x \<in> set (map target_frame (targets (ps_db st))). fst (snd x) \<noteq> seq_post st + 1"
      using ok by (fastforce simp: target_frame_def)
    then have "filter (\<lambda>x. fst (snd x) = seq_post st + 1) (map target_frame (targets (ps_db st'))) = ?kids"
      using f by (simp add: filter_empty_conv comp_def)
    moreover have "sort_key fst ?kids = ?kids"
    proof (rule sort_key_id_if_sorted)
      have "sorted (map pt_id ts')" using f by (simp add: sorted_iff_nth_mono)
      then show "sorted (map fst ?kids)" by (simp add: comp_def)
    qed
    ultimately have "map target_frame (children (seq_post st + 1) (ps_db st')) = ?kids"
      by (simp only: children_frame)
    then show ?thesis using f job
      by (intro exI [of _ ?kids]) (auto simp: family_def comp_def image_iff)
  qed
qed

lemma store_step_family:
  assumes "store_ok st" and "family j pid (ps_db st) kids"
  shows "family j pid (ps_db (store_step jsonb marshal x st)) kids"
proof (cases "(jsonb, marshal, x, st)" rule: store_step.cases)
  case (1 jsonb' marshal' flt dbnow appnow post ts st')
  then show ?thesis
    using assms Create_cases [of flt jsonb marshal dbnow appnow post ts st] create_body_family(1)
    by auto
next
  case (2 jsonb' marshal' flt dbnow appnow lk op st')
  then show ?thesis using assms(2) by (simp add: family_frame [OF post_step_frame])
qed

lemma store_run_family:
  "store_ok st \<Longrightarrow> family j pid (ps_db st) kids \<Longrightarrow>
   family j pid (ps_db (store_run jsonb marshal ops st)) kids"
  unfolding store_run_def
  by (induction ops arbitrary: st) (simp_all add: store_step_ok store_step_family)

text \<open>A second creation finds the family, stamps it onto the caller's targets and writes nothing.\<close>

lemma Create_again:
  assumes "store_ok st" and "family j pid (ps_db st) kids" and "p_upload_job_id post = Some j"
    and "enum_label_ok (p_status post)" and "map pt_account ts = map (snd \<circ> snd) kids"
  shows "\<exists>post' ts'. Create TxOk jsonb marshal dbnow appnow post ts st = (Inr (post', ts'), st) \<and>
    p_id post' = pid \<and> map pt_id ts' = map fst kids \<and> map pt_account ts' = map pt_account ts"
proof -
  let ?post = "if p_ingest_after post = None then post\<lparr>p_ingest_after := Some appnow\<rparr> else post"
  from assms(2) obtain p where p: "p \<in> set (posts (ps_db st))" "p_id p = pid" "p_upload_job_id p = Some j"
    and kids: "map target_frame (children pid (ps_db st)) = kids"
    by (auto simp: family_def)
  have job: "job_post (p_upload_job_id ?post) (ps_db st) = Some p"
    using job_post_unique [OF assms(1) p(1,3)] assms(3) by simp
  let ?ex = "children pid (ps_db st)"
  let ?ts = "map2 (\<lambda>t e. t\<lparr>pt_id := pt_id e, pt_post_id := pt_post_id e, pt_status := pt_status e\<rparr>) ts ?ex"
  have "length kids = length ?ex" using arg_cong [OF kids, of length] by simp
  moreover have "length ts = length kids" using arg_cong [OF assms(5), of length] by simp
  ultimately have len: "length ts = length ?ex" by simp
  have jb: "job_post (Some j) (ps_db st) = Some p" by (rule job_post_unique [OF assms(1) p(1,3)])
  have "fetchExistingByUploadJobID j q ts st = Inr (p\<lparr>p_metadata := p_metadata q\<rparr>, ?ts)" for q
    using jb len p(2) by (simp add: fetchExistingByUploadJobID_def Let_def)
  then have "Create TxOk jsonb marshal dbnow appnow post ts st =
      (Inr (p\<lparr>p_metadata := p_metadata ?post\<rparr>, ?ts), st)"
    using create_body_conflict [OF job, of jsonb marshal dbnow ts] assms(3,4)
    by (simp add: Create_def Let_def)
  moreover have "map pt_id ?ts = map pt_id ?ex" using len by (simp add: list_eq_iff_nth_eq)
  moreover have "map pt_id ?ex = map fst kids"
    using arg_cong [OF kids, of "map fst"] by (simp add: comp_def target_frame_def)
  moreover have "map pt_account ?ts = map pt_account ts" using len by (simp add: list_eq_iff_nth_eq)
  moreover have "p_id (p\<lparr>p_metadata := p_metadata ?post\<rparr>) = pid" using p(2) by simp
  ultimately show ?thesis by (metis (no_types, lifting))
qed

lemma one_post_of_job:
  assumes "store_ok st" and "family j pid (ps_db st) kids"
  shows "length (filter (\<lambda>p. p_upload_job_id p = Some j) (posts (ps_db st))) = 1"
proof -
  have "length (filter (\<lambda>p. p_upload_job_id p = Some j) xs) \<le> 1"
    if "distinct (filter (\<lambda>j. j \<noteq> None) (map p_upload_job_id xs))" for xs
    using that
  proof (induction xs)
    case (Cons x xs)
    then show ?case by (cases "p_upload_job_id x = Some j") (auto simp: filter_empty_conv image_iff split: if_splits)
  qed simp
  then have "length (filter (\<lambda>p. p_upload_job_id p = Some j) (posts (ps_db st))) \<le> 1"
    using assms(1) unfolding store_ok_def by blast
  moreover have "filter (\<lambda>p. p_upload_job_id p = Some j) (posts (ps_db st)) \<noteq> []"
    using assms(2) by (auto simp: family_def filter_empty_conv)
  ultimately show ?thesis by (metis le_antisym length_0_conv less_one not_le)
qed

section \<open>Properties\<close>


text \<open>The literal \<open>&models.PostTarget{PlatformAccountID: a, Status: queued}\<close>.\<close>

definition queued_target :: "int \<Rightarrow> PostTarget" where
  "queued_target a =
     \<lparr>pt_id = 0, pt_post_id = 0, pt_account = a, pt_status = PSQueued, pt_attempt_count = 0,
      pt_next_attempt_at = None, pt_reconcile_attempt = 0, pt_next_reconcile_at = None,
      pt_reconcile_owner = None, pt_reconcile_until = None, pt_reconcile_heartbeat = None,
      pt_platform_post_id = '''', pt_error_message = '''', pt_published_at = None,
      pt_completed_at = None, pt_provider_state = '''', pt_container_id = '''',
      pt_last_error_code = '''', pt_provider_idempotency_key = None, pt_version = 0\<rparr>"

lemma queued_target_simps [simp]:
  "pt_account (queued_target a) = a" "pt_status (queued_target a) = PSQueued"
  by (simp_all add: queued_target_def)

definition empty_store :: post_store where
  "empty_store = \<lparr>ps_db = \<lparr>posts = [], targets = [], repair_queue = []\<rparr>, ps_outbox = [],
     seq_post = 0, seq_target = 0, seq_event = 0\<rparr>"


end
