(* ===== verification/Storage.thy ===== *)
theory Storage
  imports GoStrings "HOL-Library.Word"
begin

unbundle bit_operations_syntax

text \<open>
  The object store: the keys of uploaded files (\<open>internal/services/storage_helpers.go\<close>), the
  addressing of \<open>S3Provider\<close> (\<open>storage.go\<close>), the signer of presigned URLs
  (\<open>storage_sign.go\<close>) and the reverse of it, the key that is read back from a stored media URL
  (\<open>media_resolver.go\<close>). The digests and the HTTP exchange are parameters.
\<close>

section \<open>Keys of uploaded files\<close>

definition hex_digit :: "nat \<Rightarrow> char" where
  "hex_digit n = (if n < 10 then char_of (48 + n) else char_of (87 + n))"

definition hex_byte :: "8 word \<Rightarrow> string" where
  "hex_byte b = [hex_digit (unat b div 16), hex_digit (unat b mod 16)]"

definition EncodeToString :: "8 word list \<Rightarrow> string" where
  "EncodeToString bs = concat (map hex_byte bs)"

text \<open>\<open>b\<close> are the sixteen random bytes.\<close>

definition newUUID4 :: "8 word list \<Rightarrow> string" where
  "newUUID4 b0 =
     (let b1 = b0[6 := (b0 ! 6 AND 0x0f) OR 0x40];
          b = b1[8 := (b1 ! 8 AND 0x3f) OR 0x80]
      in EncodeToString (take 4 b) @ ''-'' @ EncodeToString (take 2 (drop 4 b)) @ ''-'' @
         EncodeToString (take 2 (drop 6 b)) @ ''-'' @ EncodeToString (take 2 (drop 8 b)) @ ''-'' @
         EncodeToString (drop 10 b))"

definition safe_char :: "char \<Rightarrow> bool" where
  "safe_char c \<longleftrightarrow> is_upper c \<or> is_lower c \<or> is_digit c \<or>
     c = CHR ''-'' \<or> c = CHR ''_'' \<or> c = CHR ''.''"

text \<open>The loop over the runes: a rune of several bytes is replaced by one underscore.\<close>

function sanitize_runes :: "string \<Rightarrow> string" where
  "sanitize_runes s =
     (if s = [] then []
      else (if safe_char (hd s) then hd s else CHR ''_'') # sanitize_runes (drop (rune_width s) s))"
  by pat_completeness auto

termination by (relation "measure length") (auto simp: diff_less)

declare sanitize_runes.simps [simp del]

definition sanitizeFilename :: "string \<Rightarrow> string" where
  "sanitizeFilename filename =
     (let s = sanitize_runes (path_Base filename)
      in if s = [] \<or> s = ''.'' \<or> s = ''..'' then ''file'' else take 200 s)"

definition BuildUploadKey :: "int \<Rightarrow> string \<Rightarrow> string \<Rightarrow> string" where
  "BuildUploadKey userID uuid filename =
     ''uploads/'' @ FormatInt userID @ ''/'' @ uuid @ ''_'' @ sanitizeFilename filename"


section \<open>The provider\<close>

record S3Provider =
  s3_endpoint :: string
  s3_scheme :: string
  s3_bucket :: string
  s3_region :: string
  s3_accessKey :: string
  s3_secretKey :: string
  s3_baseHost :: string
  s3_pathStyle :: bool
  s3_mediaBase :: string

text \<open>What \<open>url.Parse\<close> returns; \<open>url_bare\<close> is no path, query, fragment or user.\<close>

record parsed_url =
  url_scheme :: string
  url_host :: string
  url_bare :: bool

datatype s3_err = S3BadURL | S3Scheme string | S3NoHost | S3NotBare

definition NewS3Provider ::
  "(string \<Rightarrow> parsed_url option) \<Rightarrow> string \<Rightarrow> string \<Rightarrow> string \<Rightarrow> string \<Rightarrow> string \<Rightarrow> bool \<Rightarrow>
   s3_err + S3Provider" where
  "NewS3Provider parse endpoint bucket region accessKey secretKey pathStyle =
     (let region' = (if region = '''' then ''us-east-1'' else region)
      in case parse (rev (dropWhile (\<lambda>c. c = CHR ''/'') (rev endpoint))) of
           None \<Rightarrow> Inl S3BadURL
         | Some u \<Rightarrow>
             if url_scheme u \<noteq> ''https'' \<and> url_scheme u \<noteq> ''http'' then Inl (S3Scheme (url_scheme u))
             else if url_host u = '''' then Inl S3NoHost
             else if \<not> url_bare u then Inl S3NotBare
             else
               let host = url_scheme u @ ''://'' @ url_host u
               in Inr \<lparr>s3_endpoint = host, s3_scheme = url_scheme u, s3_bucket = bucket,
                       s3_region = region', s3_accessKey = accessKey, s3_secretKey = secretKey,
                       s3_baseHost = (if pathStyle then url_host u else bucket @ ''.'' @ url_host u),
                       s3_pathStyle = pathStyle, s3_mediaBase = host @ ''/'' @ bucket\<rparr>)"

definition TrimPrefix :: "string \<Rightarrow> string \<Rightarrow> string" where
  "TrimPrefix s p = (if HasPrefix s p then drop (length p) s else s)"

definition objectKey :: "S3Provider \<Rightarrow> string \<Rightarrow> string" where
  "objectKey p key = (if s3_pathStyle p then s3_bucket p @ ''/'' @ key else key)"

definition hostForBucket :: "S3Provider \<Rightarrow> string \<Rightarrow> string" where
  "hostForBucket p bucket =
     (if bucket = '''' \<or> bucket = s3_bucket p then s3_baseHost p
      else if s3_pathStyle p then TrimPrefix (s3_endpoint p) (s3_scheme p @ ''://'')
      else bucket @ ''.'' @ TrimPrefix (s3_endpoint p) (s3_scheme p @ ''://''))"

definition objectKeyForBucket :: "S3Provider \<Rightarrow> string \<Rightarrow> string \<Rightarrow> string" where
  "objectKeyForBucket p bucket key = (if s3_pathStyle p then bucket @ ''/'' @ key else key)"

definition AssetURL :: "S3Provider \<Rightarrow> string \<Rightarrow> string" where
  "AssetURL p key = s3_scheme p @ ''://'' @ s3_baseHost p @ ''/'' @ objectKey p key"


section \<open>The signer\<close>

definition unreserved :: "char \<Rightarrow> bool" where
  "unreserved c \<longleftrightarrow> is_upper c \<or> is_lower c \<or> is_digit c \<or>
     c = CHR ''-'' \<or> c = CHR ''_'' \<or> c = CHR ''.'' \<or> c = CHR ''~''"

definition hex_digit_upper :: "nat \<Rightarrow> char" where
  "hex_digit_upper n = (if n < 10 then char_of (48 + n) else char_of (55 + n))"

definition pct :: "char \<Rightarrow> string" where
  "pct c = (let n = (of_char c :: nat) in [CHR 0x25, hex_digit_upper (n div 16), hex_digit_upper (n mod 16)])"

text \<open>An invalid byte is the rune U+FFFD, whose encoding has three bytes.\<close>

function uriEncodePathSegment :: "string \<Rightarrow> string" where
  "uriEncodePathSegment s =
     (if s = [] then []
      else if unreserved (hd s) then hd s # uriEncodePathSegment (drop (rune_width s) s)
      else if valid_width s = 0 then ''%EF%BF%BD'' @ uriEncodePathSegment (drop (rune_width s) s)
      else concat (map pct (take (rune_width s) s)) @ uriEncodePathSegment (drop (rune_width s) s))"
  by pat_completeness auto

termination by (relation "measure length") (auto simp: diff_less)

declare uriEncodePathSegment.simps [simp del]

definition canonicalURI :: "string \<Rightarrow> string" where
  "canonicalURI key =
     (if key = '''' then ''/''
      else
        let uri = ''/'' @ Join (map uriEncodePathSegment (SplitChar (CHR ''/'') key)) ''/''
        in if last key = CHR ''/'' \<and> last uri \<noteq> CHR ''/'' then uri @ ''/'' else uri)"

text \<open>
  The insertion sort: \<open>rev_prefix\<close> is the sorted part, last element first; the swaps of the
  inner loop move the new element past the larger ones.
\<close>

fun sift :: "string \<Rightarrow> string list \<Rightarrow> string list" where
  "sift x [] = [x]"
| "sift x (y # ys) = (if y > x then y # sift x ys else x # y # ys)"

definition sortStrings :: "string list \<Rightarrow> string list" where
  "sortStrings s = rev (fold sift s [])"

text \<open>A Go map is its list of pairs, in the order in which \<open>range\<close> happens to visit them.\<close>

definition canonicalQueryString :: "(string \<times> string) list \<Rightarrow> string" where
  "canonicalQueryString params =
     Join (map (\<lambda>k. k @ ''='' @ (case map_of params k of None \<Rightarrow> [] | Some v \<Rightarrow> uriEncodePathSegment v))
             (sortStrings (map fst params))) ''&''"

record digests =
  dg_sha256 :: "string \<Rightarrow> 8 word list"
  dg_hmac :: "8 word list \<Rightarrow> 8 word list \<Rightarrow> 8 word list"

definition bytes_of :: "string \<Rightarrow> 8 word list" where
  "bytes_of s = map (\<lambda>c. word_of_nat (of_char c)) s"

definition deriveSigningKey :: "digests \<Rightarrow> string \<Rightarrow> string \<Rightarrow> string \<Rightarrow> string \<Rightarrow> 8 word list" where
  "deriveSigningKey dg secret dateStamp region service =
     (let kDate = dg_hmac dg (bytes_of (''AWS4'' @ secret)) (bytes_of dateStamp);
          kRegion = dg_hmac dg kDate (bytes_of region);
          kService = dg_hmac dg kRegion (bytes_of service)
      in dg_hmac dg kService (bytes_of ''aws4_request''))"

text \<open>
  \<open>amzDate\<close> is the UTC time in the basic ISO format, its first eight characters are the
  date; \<open>order\<close> is the order in which the map is visited.
\<close>

definition newline :: string where
  "newline = [CHR 0x0A]"

definition signS3V4URL ::
  "digests \<Rightarrow> ((string \<times> string) list \<Rightarrow> (string \<times> string) list) \<Rightarrow> string \<Rightarrow> string \<Rightarrow> string \<Rightarrow> string \<Rightarrow>
   string \<Rightarrow> duration \<Rightarrow> string \<Rightarrow> string \<Rightarrow> string \<Rightarrow> string \<Rightarrow> string" where
  "signS3V4URL dg order scheme host region service key ttl verb accessKeyID secret amzDate =
     (let dateStamp = take 8 amzDate;
          scope = dateStamp @ ''/'' @ region @ ''/'' @ service @ ''/aws4_request'';
          params = order [(''X-Amz-Algorithm'', ''AWS4-HMAC-SHA256''),
                    (''X-Amz-Credential'', accessKeyID @ ''/'' @ scope),
                    (''X-Amz-Date'', amzDate),
                    (''X-Amz-Expires'', FormatInt (if ttl < 0 then - (- ttl div second) else ttl div second)),
                    (''X-Amz-SignedHeaders'', ''host'')];
          query = canonicalQueryString params;
          uri = canonicalURI key;
          request = Join [verb, uri, query, ''host:'' @ host @ newline, ''host'', ''UNSIGNED-PAYLOAD''] newline;
          toSign = Join [''AWS4-HMAC-SHA256'', amzDate, scope,
                         EncodeToString (dg_sha256 dg request)] newline;
          signature = EncodeToString (dg_hmac dg (deriveSigningKey dg secret dateStamp region service)
                                        (bytes_of toSign))
      in scheme @ ''://'' @ host @ uri @ ''?'' @ query @ ''&X-Amz-Signature='' @ signature)"

datatype sign_err = SignNoBucket | SignNoKey

definition GetObjectWithBucket ::
  "digests \<Rightarrow> ((string \<times> string) list \<Rightarrow> (string \<times> string) list) \<Rightarrow> string \<Rightarrow> S3Provider \<Rightarrow> string \<Rightarrow>
   string \<Rightarrow> duration \<Rightarrow> sign_err + string" where
  "GetObjectWithBucket dg order amzDate p bucket key ttl =
     (if bucket = '''' then Inl SignNoBucket
      else if key = '''' then Inl SignNoKey
      else Inr (signS3V4URL dg order (s3_scheme p) (hostForBucket p bucket) (s3_region p) ''s3''
                  (objectKeyForBucket p bucket key) (if ttl \<le> 0 then 5 * minute else ttl) ''GET''
                  (s3_accessKey p) (s3_secretKey p) amzDate))"

definition GetObject where
  "GetObject dg order amzDate p key ttl = GetObjectWithBucket dg order amzDate p (s3_bucket p) key ttl"

record UploadGrant =
  ug_upload_url :: string
  ug_media_url :: string
  ug_expires_at :: time

definition SignUpload ::
  "digests \<Rightarrow> ((string \<times> string) list \<Rightarrow> (string \<times> string) list) \<Rightarrow> string \<Rightarrow> time \<Rightarrow> S3Provider \<Rightarrow>
   string \<Rightarrow> duration \<Rightarrow> UploadGrant" where
  "SignUpload dg order amzDate now p key ttl =
     \<lparr>ug_upload_url = signS3V4URL dg order (s3_scheme p) (s3_baseHost p) (s3_region p) ''s3''
        (objectKey p key) ttl ''PUT'' (s3_accessKey p) (s3_secretKey p) amzDate,
      ug_media_url = s3_scheme p @ ''://'' @ s3_baseHost p @ ''/'' @ objectKey p key,
      ug_expires_at = now + ttl\<rparr>"


section \<open>The key of a stored media URL\<close>

definition stripQuery :: "string \<Rightarrow> string" where
  "stripQuery path = (case Index path ''?'' of Some q \<Rightarrow> take q path | None \<Rightarrow> path)"

definition extractUploadKeyFromMediaURL :: "string \<Rightarrow> string" where
  "extractUploadKeyFromMediaURL mediaURL0 =
     (let mediaURL = TrimSpace mediaURL0
      in if mediaURL = '''' then ''''
         else case Index mediaURL ''://'' of
           None \<Rightarrow> dropWhile (\<lambda>c. c = CHR ''/'') (stripQuery mediaURL)
         | Some idx \<Rightarrow>
             (let rest = drop (idx + 3) mediaURL
              in case Index rest ''/'' of
                   None \<Rightarrow> ''''
                 | Some slash \<Rightarrow>
                     (let pathPart = dropWhile (\<lambda>c. c = CHR ''/'') (stripQuery (drop (slash + 1) rest))
                      in case Index pathPart ''/'' of
                           None \<Rightarrow> pathPart
                         | Some firstSlash \<Rightarrow> drop (firstSlash + 1) pathPart)))"

section \<open>The sort and the query string\<close>

lemma sift_rev: "sorted (rev ys) \<Longrightarrow> sorted (rev (sift x ys)) \<and> mset (sift x ys) = add_mset x (mset ys)"
proof (induction ys)
  case (Cons y ys)
  then have IH: "sorted (rev (sift x ys))" "mset (sift x ys) = add_mset x (mset ys)"
    by (simp_all add: sorted_append)
  have "set (sift x ys) = insert x (set ys)" using IH(2) by (metis set_mset_add_mset_insert set_mset_mset)
  with Cons.prems IH show ?case by (auto simp: sorted_append not_less)
qed simp

lemma sortStrings_sort: "sortStrings s = sort s"
proof -
  have "sorted (rev ys) \<Longrightarrow> sorted (rev (fold sift s ys)) \<and> mset (fold sift s ys) = mset s + mset ys" for ys
    by (induction s arbitrary: ys) (simp_all add: sift_rev)
  from this [of "[]"] have "sorted (sortStrings s)" "mset (sortStrings s) = mset s"
    by (simp_all add: sortStrings_def)
  then show ?thesis by (metis properties_for_sort)
qed

lemma canonicalQueryString_order:
  assumes "distinct (map fst params)" and "mset params' = mset params"
  shows "canonicalQueryString params' = canonicalQueryString params"
proof -
  have m: "mset (map fst params') = mset (map fst params)" using assms(2) by simp
  then have "sort (map fst params') = sort (map fst params)"
    by (simp add: properties_for_sort)
  moreover have "distinct (map fst params')"
    using assms(1) m by (metis mset_eq_imp_distinct_iff)
  then have "map_of params' = map_of params"
    using assms by (metis map_of_inject_set mset_eq_setD)
  ultimately show ?thesis by (simp add: canonicalQueryString_def sortStrings_sort)
qed


section \<open>Characters of keys\<close>

definition key_char :: "char \<Rightarrow> bool" where
  "key_char c \<longleftrightarrow> unreserved c \<or> c = CHR ''/''"

lemma unreserved_ascii: "unreserved c \<Longrightarrow> 33 \<le> (of_char c :: nat) \<and> (of_char c :: nat) < 128"
  by (auto simp: unreserved_def is_upper_def is_lower_def is_digit_def)

lemma key_char_ascii: "key_char c \<Longrightarrow> 33 \<le> (of_char c :: nat) \<and> (of_char c :: nat) < 128"
  by (auto simp: key_char_def dest: unreserved_ascii)

lemma safe_unreserved: "safe_char c \<Longrightarrow> unreserved c"
  by (auto simp: safe_char_def unreserved_def)

lemma safe_char_no_slash: "safe_char c \<Longrightarrow> c \<noteq> CHR ''/''"
  by (auto simp: safe_char_def is_upper_def is_lower_def is_digit_def)

lemma unreserved_no: "unreserved c \<Longrightarrow> c \<noteq> CHR ''/'' \<and> c \<noteq> CHR 0x3F \<and> c \<noteq> CHR 0x25"
  by (auto simp: unreserved_def is_upper_def is_lower_def is_digit_def)

lemma sanitize_safe: "list_all safe_char (sanitize_runes s)"
proof (induction s rule: sanitize_runes.induct)
  case (1 s)
  have "safe_char (CHR ''_'')" by (simp add: safe_char_def)
  show ?case
  proof (cases "s = []")
    case False
    then show ?thesis using 1 \<open>safe_char (CHR ''_'')\<close> by (subst sanitize_runes.simps) simp
  qed (subst sanitize_runes.simps, simp)
qed

lemma sanitizeFilename_safe:
  "list_all safe_char (sanitizeFilename f)" "sanitizeFilename f \<noteq> []" "length (sanitizeFilename f) \<le> 200"
proof -
  have "list_all safe_char ''file''" by (simp add: safe_char_def is_lower_def)
  moreover have "list_all safe_char (take 200 (sanitize_runes s))" for s
    using sanitize_safe [of s] by (auto simp: list_all_iff dest: in_set_takeD)
  ultimately show "list_all safe_char (sanitizeFilename f)"
    unfolding sanitizeFilename_def Let_def by presburger
qed (auto simp: sanitizeFilename_def Let_def)

lemma Itoa_safe: "list_all is_digit (Itoa n)"
proof (induction n rule: Itoa.induct)
  case (1 n)
  have "is_digit (char_of (48 + k))" if "k < 10" for k :: nat using that by (simp add: is_digit_def)
  then show ?case using 1 by (subst Itoa.simps) simp
qed

lemma FormatInt_safe: "list_all safe_char (FormatInt i)"
  using Itoa_safe by (auto simp: FormatInt_def safe_char_def list_all_iff)

lemma hex_digit_safe: "n < 16 \<Longrightarrow> safe_char (hex_digit n) \<and> hex_digit n \<noteq> CHR ''_''"
proof -
  have "\<forall>n < 16. safe_char (hex_digit n) \<and> hex_digit n \<noteq> CHR ''_''"
    by (simp add: All_less_Suc numeral_eq_Suc hex_digit_def) (code_simp)
  then show "n < 16 \<Longrightarrow> ?thesis" by blast
qed

lemma EncodeToString_safe: "list_all (\<lambda>c. safe_char c \<and> c \<noteq> CHR ''_'') (EncodeToString bs)"
proof (induction bs)
  case (Cons b bs)
  have "unat b < 256" using unsigned_less [of b, where 'a = nat] by simp
  then have "unat b div 16 < 16" by simp
  then show ?case using Cons hex_digit_safe
    by (simp add: EncodeToString_def hex_byte_def)
qed (simp add: EncodeToString_def)

lemma newUUID4_safe: "list_all (\<lambda>c. safe_char c \<and> c \<noteq> CHR ''_'') (newUUID4 b)"
proof -
  have "safe_char (CHR ''-'')" by (simp add: safe_char_def)
  then show ?thesis by (simp add: newUUID4_def Let_def EncodeToString_safe)
qed

lemma list_all_key: "list_all safe_char s \<Longrightarrow> list_all key_char s"
  by (auto simp: list_all_iff key_char_def dest: safe_unreserved)

lemma BuildUploadKey_key_char:
  assumes "list_all safe_char uuid"
  shows "list_all key_char (BuildUploadKey u uuid f)"
proof -
  have "list_all key_char ''uploads/''" "key_char (CHR ''/'')" "key_char (CHR ''_'')"
    by (simp_all add: key_char_def unreserved_def is_lower_def)
  then show ?thesis
    by (simp add: BuildUploadKey_def list_all_key FormatInt_safe assms sanitizeFilename_safe)
qed

section \<open>Signed and stored URLs\<close>

lemma rune_width_ascii: "(of_char c :: nat) < 128 \<Longrightarrow> rune_width (c # cs) = 1"
  by (simp add: rune_width_def)

lemma uriEncode_unreserved: "list_all unreserved s \<Longrightarrow> uriEncodePathSegment s = s"
proof (induction s)
  case (Cons c s)
  then show ?case using unreserved_ascii [of c]
    by (subst uriEncodePathSegment.simps) (simp add: rune_width_ascii)
qed (simp add: uriEncodePathSegment.simps)

lemma canonicalURI_key:
  assumes "list_all key_char key" and "key \<noteq> []"
  shows "canonicalURI key = ''/'' @ key"
proof -
  have "uriEncodePathSegment w = w" if "w \<in> set (SplitChar (CHR ''/'') key)" for w
  proof (rule uriEncode_unreserved)
    show "list_all unreserved w"
      using assms(1) SplitChar_parts [OF that] SplitChar_no_sep [OF that]
      by (auto simp: list_all_iff key_char_def)
  qed
  then have "map uriEncodePathSegment (SplitChar (CHR ''/'') key) = SplitChar (CHR ''/'') key"
    by (simp add: map_idI)
  then show ?thesis using assms(2) by (simp add: canonicalURI_def Join_SplitChar Let_def)
qed

lemma Index_char: "Index s [c] = (if c \<in> set s then Some (length (takeWhile (\<lambda>x. x \<noteq> c) s)) else None)"
  by (induction s) auto

lemma Index_scheme: "CHR '':'' \<notin> set s \<Longrightarrow> Index (s @ ''://'' @ rest) ''://'' = Some (length s)"
  by (induction s) auto

lemma ascii_neq:
  assumes "(of_char c :: nat) < 128"
  shows "c \<noteq> CHR 0xC2" "c \<noteq> CHR 0xE1" "c \<noteq> CHR 0xE2" "c \<noteq> CHR 0xE3" "c \<noteq> CHR 0x85"
    "c \<noteq> CHR 0xA0" "c \<noteq> CHR 0x80" "c \<noteq> CHR 0xA8" "c \<noteq> CHR 0xA9" "c \<noteq> CHR 0xAF" "c \<noteq> CHR 0x9F"
  using assms by auto

lemma space_prefix_ascii:
  assumes "(of_char c :: nat) < 128" and "\<not> is_ascii_space c"
  shows "space_prefix (c # s) = 0"
  using assms(2) ascii_neq [OF assms(1)] by (simp split: list.split del: is_ascii_space.simps)

lemma TrimLeft_id: "(of_char c :: nat) < 128 \<Longrightarrow> \<not> is_ascii_space c \<Longrightarrow> TrimLeft (c # s) = c # s"
  by (subst TrimLeft.simps) (simp add: space_prefix_ascii del: is_ascii_space.simps space_prefix.simps)

lemma space_prefix_last2:
  "(of_char b :: nat) < 128 \<Longrightarrow> space_prefix [a, b] \<noteq> 2"
  using ascii_neq [of b] by (simp del: is_ascii_space.simps)

lemma space_prefix_last3:
  "(of_char c :: nat) < 128 \<Longrightarrow> space_prefix [a, b, c] \<noteq> 3"
  using ascii_neq [of c] by (simp del: is_ascii_space.simps)

lemma TrimRight_id:
  assumes "s \<noteq> []" and "(of_char (last s) :: nat) < 128" and "\<not> is_ascii_space (last s)"
  shows "TrimRight s = s"
proof -
  obtain t x where s: "s = t @ [x]" using assms(1) by (metis append_butlast_last_id)
  have two: "space_prefix (drop (length s - 2) s) \<noteq> 2" if "2 \<le> length s"
  proof -
    from that s obtain u y where "t = u @ [y]" by (cases t rule: rev_cases) auto
    then show ?thesis using assms(2) space_prefix_last2 [of x y] by (simp add: s)
  qed
  have three: "space_prefix (drop (length s - 3) s) \<noteq> 3" if "3 \<le> length s"
  proof -
    from that s obtain u y where u: "t = u @ [y]" by (cases t rule: rev_cases) auto
    with that s obtain v z where "u = v @ [z]" by (cases u rule: rev_cases) auto
    then show ?thesis using assms(2) space_prefix_last3 [of x z y] by (simp add: s u)
  qed
  have "space_suffix s = 0" using assms(3) two three
    by (simp add: space_suffix_def Let_def del: is_ascii_space.simps)
  then show ?thesis by (subst TrimRight.simps) simp
qed

lemma printable_no_space: "33 \<le> (of_char c :: nat) \<Longrightarrow> \<not> is_ascii_space c"
  by auto

lemma extract_url:
  assumes "s \<noteq> []" and "list_all safe_char s" and "CHR ''/'' \<notin> set host"
    and "list_all key_char path" and "path \<noteq> []" and "hd path \<noteq> CHR ''/''"
    and "tail = [] \<or> hd tail = CHR 0x3F \<and> 33 \<le> (of_char (last tail) :: nat) \<and> (of_char (last tail) :: nat) < 128"
  shows "extractUploadKeyFromMediaURL (s @ ''://'' @ host @ ''/'' @ path @ tail) =
    (case Index path ''/'' of None \<Rightarrow> path | Some i \<Rightarrow> drop (i + 1) path)"
proof -
  let ?u = "s @ ''://'' @ host @ ''/'' @ path @ tail"
  obtain c cs where s: "s = c # cs" using assms(1) by (cases s) auto
  have c: "33 \<le> (of_char c :: nat)" "(of_char c :: nat) < 128"
    using assms(2) unreserved_ascii [of c] safe_unreserved [of c] by (simp_all add: s)
  have lastpath: "33 \<le> (of_char (last path) :: nat) \<and> (of_char (last path) :: nat) < 128"
    using assms(4,5) key_char_ascii last_in_set [of path] by (auto simp: list_all_iff)
  have last: "33 \<le> (of_char (last ?u) :: nat)" "(of_char (last ?u) :: nat) < 128"
    using lastpath assms(5,7) by (auto simp: last_append)
  have "TrimLeft ?u = ?u" using TrimLeft_id c printable_no_space s by auto
  moreover have "TrimRight ?u = ?u"
    by (rule TrimRight_id) (use last printable_no_space in auto)
  ultimately have trim: "TrimSpace ?u = ?u" by (simp add: TrimSpace_def)
  have colon: "CHR '':'' \<notin> set s"
    using assms(2) by (auto simp: list_all_iff safe_char_def is_upper_def is_lower_def is_digit_def)
  have slash: "Index (host @ ''/'' @ path @ tail) ''/'' = Some (length host)"
    using assms(3) by (induction host) auto
  have noq: "CHR 0x3F \<notin> set path"
    using assms(4) unreserved_no by (auto simp: list_all_iff key_char_def)
  have strip: "stripQuery (path @ tail) = path"
  proof (cases tail)
    case Nil
    then show ?thesis using noq by (simp add: stripQuery_def Index_char)
  next
    case (Cons x xs)
    with assms(7) have "x = CHR 0x3F" by simp
    then show ?thesis using noq Cons
      by (simp add: stripQuery_def Index_char takeWhile_append)
  qed
  have nol: "dropWhile (\<lambda>c. c = CHR ''/'') path = path"
    using assms(5,6) by (cases path) auto
  have ne: "?u \<noteq> []" by simp
  show ?thesis unfolding extractUploadKeyFromMediaURL_def Let_def trim Index_scheme [OF colon]
    using slash strip nol ne by (simp split: option.split)
qed

text \<open>The query string of a signed URL ends with a hex digit of the signature or with \<open>=\<close>.\<close>

lemma signed_url_shape:
  "\<exists>tail. signS3V4URL dg order scheme host region service key ttl verb a sk amz =
      scheme @ ''://'' @ host @ canonicalURI key @ tail \<and> hd tail = CHR 0x3F \<and> tail \<noteq> [] \<and>
      33 \<le> (of_char (last tail) :: nat) \<and> (of_char (last tail) :: nat) < 128"
proof -
  have hex: "33 \<le> (of_char c :: nat) \<and> (of_char c :: nat) < 128" if "c \<in> set (EncodeToString bs)" for c bs
    using EncodeToString_safe [of bs] that unreserved_ascii safe_unreserved by (auto simp: list_all_iff)
  have last: "33 \<le> (of_char (last (''?'' @ q @ ''&X-Amz-Signature='' @ EncodeToString bs)) :: nat) \<and>
     (of_char (last (''?'' @ q @ ''&X-Amz-Signature='' @ EncodeToString bs)) :: nat) < 128" for q bs
    using hex [of "last (EncodeToString bs)" bs] by (cases "EncodeToString bs = []") (auto simp: last_append)
  have "\<exists>q bs. signS3V4URL dg order scheme host region service key ttl verb a sk amz =
      scheme @ ''://'' @ host @ canonicalURI key @ (''?'' @ q @ ''&X-Amz-Signature='' @ EncodeToString bs)"
    unfolding signS3V4URL_def Let_def by (intro exI) (simp only: append_assoc)
  then show ?thesis using last by fastforce
qed

text \<open>The addressing of a provider that \<open>NewS3Provider\<close> made.\<close>

lemma NewS3Provider_Inr:
  assumes "NewS3Provider parse endpoint bucket region ak sk style = Inr p"
  shows "\<exists>u. s3_scheme p = url_scheme u \<and> (url_scheme u = ''https'' \<or> url_scheme u = ''http'') \<and>
    s3_bucket p = bucket \<and> s3_pathStyle p = style \<and>
    s3_baseHost p = (if style then url_host u else bucket @ ''.'' @ url_host u) \<and>
    (\<exists>s. parse s = Some u)"
proof -
  let ?e = "rev (dropWhile (\<lambda>c. c = CHR ''/'') (rev endpoint))"
  from assms obtain u where u: "parse ?e = Some u"
    by (cases "parse ?e") (simp_all add: NewS3Provider_def)
  have ok: "url_scheme u = ''https'' \<or> url_scheme u = ''http''" "url_host u \<noteq> ''''" "url_bare u"
    using assms u by (simp_all add: NewS3Provider_def split: if_splits)
  show ?thesis
    using assms u ok by (intro exI [of _ u]) (auto simp: NewS3Provider_def Let_def)
qed

section \<open>Properties\<close>

text \<open>
  C38: keys and URLs. For every provider the constructor accepts and every file name a client
  sends, the signed URL of an uploaded object names exactly its key, unescaped, the name cannot
  leave the directory of its user, and the key read back from the stored or signed URL is the
  key when the provider uses path-style addresses. With virtual-hosted addresses, the default of
  S3, the reader drops the first segment of the key, so the look-up of the legacy URL misses the
  asset.
\<close>

theorem media_url_roundtrip:
  assumes "NewS3Provider parse endpoint bucket region ak sk style = Inr p"
    and "bucket \<noteq> ''''" and "list_all safe_char bucket"
    and "\<forall>s u. parse s = Some u \<longrightarrow> CHR ''/'' \<notin> set (url_host u)"
  shows "let key = BuildUploadKey user (newUUID4 b) filename;
             rkey = (if style then key else drop (length ''uploads/'') key);
             base = s3_scheme p @ ''://'' @ s3_baseHost p @ ''/''
         in (\<exists>name. key = ''uploads/'' @ FormatInt user @ ''/'' @ name \<and> list_all safe_char name) \<and>
            (\<exists>query. GetObject dg order amz p key ttl = Inr (base @ objectKey p key @ ''?'' @ query)) \<and>
            extractUploadKeyFromMediaURL (AssetURL p key) = rkey \<and>
            (\<forall>url. GetObject dg order amz p key ttl = Inr url \<longrightarrow> extractUploadKeyFromMediaURL url = rkey) \<and>
            (rkey = key \<longleftrightarrow> style)"
proof -
  define key where "key = BuildUploadKey user (newUUID4 b) filename"
  define rkey where "rkey = (if style then key else drop (length ''uploads/'') key)"
  define name where "name = newUUID4 b @ ''_'' @ sanitizeFilename filename"
  have uuid: "list_all safe_char (newUUID4 b)" using newUUID4_safe [of b] by (auto simp: list_all_iff)
  have key: "key = ''uploads/'' @ FormatInt user @ ''/'' @ name" "list_all safe_char name"
    using uuid sanitizeFilename_safe(1) [of filename]
    by (simp_all add: key_def name_def BuildUploadKey_def safe_char_def)
  have kc: "list_all key_char key" unfolding key_def by (rule BuildUploadKey_key_char [OF uuid])
  from NewS3Provider_Inr [OF assms(1)] obtain u s where
    p: "s3_scheme p = url_scheme u" "url_scheme u = ''https'' \<or> url_scheme u = ''http''"
    "s3_bucket p = bucket" "s3_pathStyle p = style"
    "s3_baseHost p = (if style then url_host u else bucket @ ''.'' @ url_host u)"
    and "parse s = Some u" by blast
  with assms(4) have "CHR ''/'' \<notin> set (url_host u)" by blast
  then have host: "CHR ''/'' \<notin> set (s3_baseHost p)"
    using assms(3) safe_char_no_slash by (auto simp: p list_all_iff)
  have scheme: "s3_scheme p \<noteq> []" "list_all safe_char (s3_scheme p)"
    using p(1,2) by (auto simp: safe_char_def is_lower_def)
  let ?path = "objectKey p key"
  have bk: "list_all key_char bucket" by (rule list_all_key [OF assms(3)])
  have "key_char (CHR ''/'')" by (simp add: key_char_def)
  then have pk: "list_all key_char ?path" "?path \<noteq> []"
    using kc bk key(1) by (simp_all add: objectKey_def p)
  have hd: "hd ?path \<noteq> CHR ''/''"
    using assms(2,3) safe_char_no_slash key(1) by (cases bucket) (auto simp: objectKey_def p)
  have bslash: "CHR ''/'' \<notin> set bucket" using assms(3) safe_char_no_slash by (auto simp: list_all_iff)
  have idx: "(case Index ?path ''/'' of None \<Rightarrow> ?path | Some i \<Rightarrow> drop (i + 1) ?path) = rkey"
    using bslash by (auto simp: objectKey_def p rkey_def Index_char key(1) takeWhile_append)
  have asset: "extractUploadKeyFromMediaURL (AssetURL p key) = rkey"
    using extract_url [OF scheme host pk hd, of "[]"] idx by (simp add: AssetURL_def)
  have okey: "objectKeyForBucket p (s3_bucket p) key = ?path" "hostForBucket p (s3_bucket p) = s3_baseHost p"
    by (simp_all add: objectKeyForBucket_def objectKey_def hostForBucket_def)
  have kne: "key \<noteq> ''''" using key(1) by simp
  obtain tail where get: "GetObject dg order amz p key ttl =
      Inr (s3_scheme p @ ''://'' @ s3_baseHost p @ ''/'' @ ?path @ tail)"
    and tail: "hd tail = CHR 0x3F" "tail \<noteq> []" "33 \<le> (of_char (last tail) :: nat)" "(of_char (last tail) :: nat) < 128"
    using signed_url_shape [of dg order "s3_scheme p" "s3_baseHost p" "s3_region p" "''s3''" ?path
        "if ttl \<le> 0 then 5 * minute else ttl" "''GET''" "s3_accessKey p" "s3_secretKey p" amz]
      assms(2) kne okey canonicalURI_key [OF pk]
    by (auto simp: GetObject_def GetObjectWithBucket_def p)
  have signed: "extractUploadKeyFromMediaURL (s3_scheme p @ ''://'' @ s3_baseHost p @ ''/'' @ ?path @ tail) = rkey"
    using extract_url [OF scheme host pk hd, of tail] tail idx by simp
  have "\<exists>query. tail = ''?'' @ query" using tail(1,2) by (cases tail) auto
  moreover have "rkey = key \<longleftrightarrow> style"
    using arg_cong [of "drop (length ''uploads/'') key" key length] key(1) by (auto simp: rkey_def)
  ultimately show ?thesis
    using key asset get signed
    unfolding Let_def key_def [symmetric] rkey_def [symmetric] by auto
qed

theorem media_url_roundtrip_witness:
  "\<exists>p. NewS3Provider (\<lambda>s. Some \<lparr>url_scheme = ''https'', url_host = ''h'', url_bare = True\<rparr>)
       ''https://h/'' ''media'' '''' ''a'' ''k'' False = Inr p \<and>
     extractUploadKeyFromMediaURL (AssetURL p (BuildUploadKey 7 (newUUID4 (replicate 16 0)) ''v.mp4'')) \<noteq>
       BuildUploadKey 7 (newUUID4 (replicate 16 0)) ''v.mp4''"
proof -
  let ?parse = "\<lambda>s. Some \<lparr>url_scheme = ''https'', url_host = ''h'', url_bare = True\<rparr>"
  obtain p where p: "NewS3Provider ?parse ''https://h/'' ''media'' '''' ''a'' ''k'' False = Inr p"
    by (simp add: NewS3Provider_def)
  have "list_all safe_char ''media''" by (simp add: safe_char_def is_lower_def)
  from media_url_roundtrip [OF p _ this, where user = 7 and b = "replicate 16 0" and filename = "''v.mp4''"] p
  show ?thesis by (auto simp: Let_def)
qed

end
