(* ===== verification/ArtifactVerify.thy ===== *)
theory ArtifactVerify
  imports Storage
begin

text \<open>
  The verification of a downloaded artifact while it is streamed into the object store:
  \<open>internal/worker/artifact_verify.go\<close> and \<open>verification_helpers.go\<close>. The body is what the
  network delivers: pieces of bytes, possibly an error, then the end. The consumer (the HTTP
  client) chooses the buffers. SHA-256 is a parameter.
\<close>

section \<open>The reader\<close>

datatype chunk = Chunk string | Broken

datatype permanent_error = SizeExceeds int int | SizeMismatch int int | ShaParse bool | ShaMismatch string string

datatype read_err = IoEOF | IoError | IoClosed | IoPermanent permanent_error

record ArtifactVerificationPolicy =
  ExpectedSize :: int
  ExpectedSHA256 :: string
  ExpectedMIME :: string
  RequireSHA :: bool

record artifactVerifyReader =
  av_body :: "chunk list"
  av_hash :: string
  av_policy :: ArtifactVerificationPolicy
  av_byteCount :: int
  av_closed :: bool
  av_resultError :: "permanent_error option"

text \<open>A read of the body itself with room for \<open>n\<close> bytes.\<close>

fun body_read :: "nat \<Rightarrow> chunk list \<Rightarrow> string \<times> read_err option \<times> chunk list" where
  "body_read n [] = ([], Some IoEOF, [])"
| "body_read n (Broken # cs) = ([], Some IoError, Broken # cs)"
| "body_read n (Chunk s # cs) =
     (if length s \<le> n then (s, None, cs) else (take n s, None, Chunk (drop n s) # cs))"

definition NewArtifactVerifyReader ::
  "chunk list option \<Rightarrow> ArtifactVerificationPolicy \<Rightarrow> artifactVerifyReader option" where
  "NewArtifactVerifyReader body policy =
     (case body of
        None \<Rightarrow> None
      | Some b \<Rightarrow> Some \<lparr>av_body = b, av_hash = '''', av_policy = policy, av_byteCount = 0,
                        av_closed = False, av_resultError = None\<rparr>)"

text \<open>The bytes handed to the consumer, the error, and the reader after the call.\<close>

definition av_take :: "nat \<Rightarrow> artifactVerifyReader \<Rightarrow> (string \<times> read_err option) \<times> artifactVerifyReader" where
  "av_take n r =
     (let (bytes, e, rest) = body_read n (av_body r)
      in ((bytes, e), r\<lparr>av_body := rest, av_hash := av_hash r @ bytes,
                        av_byteCount := av_byteCount r + int (length bytes)\<rparr>))"

definition av_Read :: "nat \<Rightarrow> artifactVerifyReader \<Rightarrow> (string \<times> read_err option) \<times> artifactVerifyReader" where
  "av_Read n r =
     (if av_closed r then (([], Some IoClosed), r)
      else case av_resultError r of
        Some e \<Rightarrow> (([], Some (IoPermanent e)), r)
      | None \<Rightarrow>
          if ExpectedSize (av_policy r) \<le> 0 then av_take n r
          else
            let remaining = (ExpectedSize (av_policy r) + 1) - av_byteCount r
            in if remaining \<le> 0
               then (([], Some IoEOF),
                     r\<lparr>av_resultError := Some (SizeExceeds (av_byteCount r) (ExpectedSize (av_policy r)))\<rparr>)
               else av_take (if int n > remaining then nat remaining else n) r)"

definition av_Close :: "bool \<Rightarrow> artifactVerifyReader \<Rightarrow> bool \<times> artifactVerifyReader" where
  "av_Close body_ok r = (if av_closed r then (True, r) else (body_ok, r\<lparr>av_closed := True\<rparr>))"

section \<open>The comparison\<close>

definition verifySizeExact :: "int \<Rightarrow> int \<Rightarrow> permanent_error option" where
  "verifySizeExact actual expected = (if actual \<noteq> expected then Some (SizeMismatch expected actual) else None)"

definition lower_hex :: "char \<Rightarrow> bool" where
  "lower_hex c \<longleftrightarrow> is_digit c \<or> 97 \<le> (of_char c :: nat) \<and> (of_char c :: nat) \<le> 102"

definition hex_value :: "char \<Rightarrow> nat" where
  "hex_value c = (if is_digit c then digit_val c else of_char c - 87)"

fun hex_pairs :: "string \<Rightarrow> 8 word list" where
  "hex_pairs (a # b # cs) = word_of_nat (16 * hex_value a + hex_value b) # hex_pairs cs"
| "hex_pairs _ = []"

definition hexDecodeStrictLower :: "string \<Rightarrow> 8 word list option" where
  "hexDecodeStrictLower s =
     (if length s \<noteq> 64 then None else if \<not> list_all lower_hex s then None else Some (hex_pairs s))"

definition verifySHAConstantTime :: "string \<Rightarrow> string \<Rightarrow> permanent_error option" where
  "verifySHAConstantTime expectedHex actualHex =
     (case hexDecodeStrictLower expectedHex of
        None \<Rightarrow> Some (ShaParse True)
      | Some expected \<Rightarrow>
          (case hexDecodeStrictLower actualHex of
             None \<Rightarrow> Some (ShaParse False)
           | Some actual \<Rightarrow> if expected = actual then None else Some (ShaMismatch expectedHex actualHex)))"

definition ActualSHA256Hex :: "(string \<Rightarrow> 8 word list) \<Rightarrow> artifactVerifyReader \<Rightarrow> string" where
  "ActualSHA256Hex sha256 r = EncodeToString (sha256 (av_hash r))"

definition Verify :: "(string \<Rightarrow> 8 word list) \<Rightarrow> artifactVerifyReader \<Rightarrow> permanent_error option" where
  "Verify sha256 r =
     (case av_resultError r of
        Some e \<Rightarrow> Some e
      | None \<Rightarrow>
          (case (if ExpectedSize (av_policy r) > 0
                 then verifySizeExact (av_byteCount r) (ExpectedSize (av_policy r)) else None) of
             Some e \<Rightarrow> Some e
           | None \<Rightarrow> if RequireSHA (av_policy r)
                     then verifySHAConstantTime (ExpectedSHA256 (av_policy r)) (ActualSHA256Hex sha256 r)
                     else None))"


section \<open>What the consumer receives\<close>

text \<open>A consumer: the sizes of its buffers. It stops at the first error or end.\<close>

fun drain :: "nat list \<Rightarrow> artifactVerifyReader \<Rightarrow> string \<times> read_err option \<times> artifactVerifyReader" where
  "drain [] r = ([], None, r)"
| "drain (n # ns) r =
     (case av_Read n r of
        ((bytes, Some e), r') \<Rightarrow> (bytes, Some e, r')
      | ((bytes, None), r') \<Rightarrow> (let (more, e, r'') = drain ns r' in (bytes @ more, e, r'')))"

fun body_bytes :: "chunk list \<Rightarrow> string" where
  "body_bytes [] = []"
| "body_bytes (Chunk s # cs) = s @ body_bytes cs"
| "body_bytes (Broken # cs) = []"

text \<open>
  The invariant of the reader: what was hashed is what was handed out, it is the start of the
  body, and it is at most one byte longer than expected.
\<close>

definition reader_ok :: "string \<Rightarrow> string \<Rightarrow> artifactVerifyReader \<Rightarrow> bool" where
  "reader_ok whole out r \<longleftrightarrow>
     av_hash r = out \<and> av_byteCount r = int (length out) \<and> whole = out @ body_bytes (av_body r) \<and>
     (0 < ExpectedSize (av_policy r) \<longrightarrow> int (length out) \<le> ExpectedSize (av_policy r) + 1) \<and>
     (av_resultError r \<noteq> None \<longrightarrow> 0 < ExpectedSize (av_policy r) \<and>
        int (length out) = ExpectedSize (av_policy r) + 1)"

lemma body_read_bytes:
  "body_read n cs = (bytes, e, rest) \<Longrightarrow>
   body_bytes cs = bytes @ body_bytes rest \<and> length bytes \<le> n \<and> (e \<noteq> None \<longrightarrow> bytes = []) \<and>
   (e = Some IoEOF \<longrightarrow> cs = [])"
  by (induction n cs rule: body_read.induct) (auto split: if_splits)

lemma av_take_ok:
  assumes "reader_ok whole out r" and "av_resultError r = None"
    and "0 < ExpectedSize (av_policy r) \<longrightarrow> int (length out) + int n \<le> ExpectedSize (av_policy r) + 1"
    and "av_take n r = ((bytes, e), r')"
  shows "reader_ok whole (out @ bytes) r' \<and> av_policy r' = av_policy r \<and>
    (e = Some IoEOF \<longrightarrow> whole = out @ bytes \<and> bytes = []) \<and> av_resultError r' = None \<and>
    (e \<noteq> None \<longrightarrow> bytes = [])"
proof -
  obtain bs x rest where b: "body_read n (av_body r) = (bs, x, rest)" by (metis prod_cases3)
  note bb = body_read_bytes [OF b]
  have r': "bytes = bs" "e = x" "r' = r\<lparr>av_body := rest, av_hash := av_hash r @ bs,
      av_byteCount := av_byteCount r + int (length bs)\<rparr>"
    using assms(4) by (auto simp: av_take_def b)
  show ?thesis using assms(1-3) bb by (auto simp: r' reader_ok_def)
qed

lemma av_Read_ok:
  assumes "reader_ok whole out r" and "av_Read n r = ((bytes, e), r')"
  shows "reader_ok whole (out @ bytes) r' \<and> av_policy r' = av_policy r \<and>
    (e = Some IoEOF \<longrightarrow> whole = out @ bytes \<or> av_resultError r' \<noteq> None)"
proof (cases "av_closed r \<or> av_resultError r \<noteq> None")
  case True
  then have "bytes = []" "r' = r" "e \<noteq> Some IoEOF"
    using assms(2) by (auto simp: av_Read_def split: if_splits)
  then show ?thesis using assms(1) by simp
next
  case False
  let ?E = "ExpectedSize (av_policy r)"
  let ?rem = "(?E + 1) - av_byteCount r"
  from assms(1) have cnt: "av_byteCount r = int (length out)" by (simp add: reader_ok_def)
  show ?thesis
  proof (cases "0 < ?E \<and> ?rem \<le> 0")
    case True
    with assms False cnt show ?thesis by (auto simp: av_Read_def reader_ok_def)
  next
    case small: False
    let ?n = "if 0 < ?E \<and> int n > ?rem then nat ?rem else n"
    have "av_take ?n r = ((bytes, e), r')"
      using assms(2) False small by (auto simp: av_Read_def Let_def split: if_splits)
    from av_take_ok [OF assms(1) _ _ this] False small cnt show ?thesis by auto
  qed
qed

lemma drain_ok:
  "reader_ok whole out r \<Longrightarrow> drain ns r = (bytes, e, r') \<Longrightarrow>
   reader_ok whole (out @ bytes) r' \<and> av_policy r' = av_policy r \<and>
   (e = Some IoEOF \<longrightarrow> whole = out @ bytes \<or> av_resultError r' \<noteq> None)"
proof (induction ns arbitrary: out r bytes)
  case (Cons n ns)
  obtain b x r1 where r1: "av_Read n r = ((b, x), r1)" by (metis surj_pair)
  note ok = av_Read_ok [OF Cons.prems(1) r1]
  show ?case
  proof (cases x)
    case (Some y)
    with r1 Cons.prems(2) ok show ?thesis by auto
  next
    case None
    with r1 Cons.prems(2) obtain more where m: "drain ns r1 = (more, e, r')" "bytes = b @ more"
      by (auto simp: Let_def split: prod.splits)
    from Cons.IH [OF conjunct1 [OF ok] m(1)] ok m(2) show ?thesis by auto
  qed
qed simp

lemma hex_value_inj:
  assumes "lower_hex a" and "lower_hex b" and "hex_value a = hex_value b"
  shows "a = b"
proof -
  have "(of_char a :: nat) = of_char b"
    using assms unfolding lower_hex_def hex_value_def is_digit_def digit_val_def
    by (auto split: if_splits simp del: of_char_eq_iff)
  then show ?thesis by simp
qed

lemma hex_value_lt: "lower_hex a \<Longrightarrow> hex_value a < 16"
  by (auto simp: lower_hex_def hex_value_def is_digit_def digit_val_def)

lemma base16_digits:
  fixes a b c d :: nat
  assumes "16 * a + b = 16 * c + d" and "b < 16" and "d < 16"
  shows "a = c \<and> b = d"
proof -
  have "(16 * a + b) div 16 = a" "(16 * c + d) div 16 = c" using assms(2,3) by simp_all
  with assms(1) have "a = c" by metis
  with assms(1) show ?thesis by simp
qed

lemma hex_pairs_inj:
  "length s = length t \<Longrightarrow> even (length s) \<Longrightarrow> list_all lower_hex s \<Longrightarrow> list_all lower_hex t \<Longrightarrow>
   hex_pairs s = hex_pairs t \<Longrightarrow> s = t"
proof (induction s arbitrary: t rule: hex_pairs.induct)
  case (1 a b cs)
  then obtain a' b' ds where t: "t = a' # b' # ds" by (cases t; cases "tl t") auto
  let ?p = "16 * hex_value a + hex_value b" and ?q = "16 * hex_value a' + hex_value b'"
  have lt: "hex_value a < 16" "hex_value b < 16" "hex_value a' < 16" "hex_value b' < 16"
    using 1 t hex_value_lt by auto
  have w: "unat (word_of_nat k :: 8 word) = k" if "k < 256" for k
    using that by (simp add: unsigned_of_nat take_bit_nat_eq_self)
  have "(word_of_nat ?p :: 8 word) = word_of_nat ?q" using "1.prems"(5) unfolding t hex_pairs.simps by blast
  note eq = arg_cong [OF this, of unat]
  have p: "?p < 256" and q: "?q < 256" using lt by linarith+
  have "?p = ?q" using eq unfolding w [OF p] w [OF q] .
  from base16_digits [OF this lt(2,4)] have "a = a'" "b = b'"
    using hex_value_inj [of a a'] hex_value_inj [of b b'] "1.prems"(3,4) by (simp_all add: t)
  moreover have "cs = ds"
    by (rule "1.IH") (use "1.prems" in \<open>simp_all add: t\<close>)
  ultimately show ?case by (simp add: t)
qed (auto simp: length_Suc_conv)

lemma verifySHA_iff:
  "verifySHAConstantTime expected actual = None \<longleftrightarrow>
   expected = actual \<and> length expected = 64 \<and> list_all lower_hex expected"
proof -
  have "expected = actual" if "hex_pairs expected = hex_pairs actual" "length expected = 64"
    "length actual = 64" "list_all lower_hex expected" "list_all lower_hex actual"
    using hex_pairs_inj [of expected actual] that by simp
  then show ?thesis
    by (auto simp: verifySHAConstantTime_def hexDecodeStrictLower_def split: if_splits option.splits)
qed

lemma Verify_None_iff:
  "Verify sha256 r = None \<longleftrightarrow>
   av_resultError r = None \<and>
   (0 < ExpectedSize (av_policy r) \<longrightarrow> av_byteCount r = ExpectedSize (av_policy r)) \<and>
   (RequireSHA (av_policy r) \<longrightarrow> ExpectedSHA256 (av_policy r) = ActualSHA256Hex sha256 r \<and>
      length (ExpectedSHA256 (av_policy r)) = 64 \<and> list_all lower_hex (ExpectedSHA256 (av_policy r)))"
  by (auto simp: Verify_def verifySizeExact_def verifySHA_iff split: option.split)

section \<open>Properties\<close>

text \<open>
  What passes the verification is what was declared. Whatever pieces the network delivers
  and whatever buffers the consumer reads with, at most one byte more than declared reaches the
  consumer; when \<open>Verify\<close> accepts after the reads, the consumer received exactly the declared
  number of bytes and, where a hash is required, bytes with the declared hash; and a consumer
  that read to the end and is accepted received the whole body. A declared hash in upper case is
  never accepted, although the comment promises to tolerate it.
\<close>

theorem artifact_verify_sound:
  assumes "NewArtifactVerifyReader (Some body) policy = Some r"
    and "drain ns r = (bytes, e, r')" and "Verify sha256 (snd (av_Close ok r')) = verdict"
  shows "(0 < ExpectedSize policy \<longrightarrow> int (length bytes) \<le> ExpectedSize policy + 1) \<and>
    prefix bytes (body_bytes body) \<and>
    ActualSHA256Hex sha256 (snd (av_Close ok r')) = EncodeToString (sha256 bytes) \<and>
    (verdict = None \<longrightarrow>
       (0 < ExpectedSize policy \<longrightarrow> int (length bytes) = ExpectedSize policy) \<and>
       (RequireSHA policy \<longrightarrow> EncodeToString (sha256 bytes) = ExpectedSHA256 policy) \<and>
       (e = Some IoEOF \<longrightarrow> bytes = body_bytes body)) \<and>
    (RequireSHA policy \<and> \<not> list_all lower_hex (ExpectedSHA256 policy) \<longrightarrow> verdict \<noteq> None)"
proof -
  have r: "av_policy r = policy" "reader_ok (body_bytes body) [] r"
    using assms(1) by (auto simp: NewArtifactVerifyReader_def reader_ok_def)
  note d = drain_ok [OF r(2) assms(2), simplified]
  let ?c = "snd (av_Close ok r')"
  have c: "av_hash ?c = bytes" "av_byteCount ?c = int (length bytes)" "av_policy ?c = policy"
    "av_resultError ?c = av_resultError r'"
    using d r(1) by (auto simp: av_Close_def reader_ok_def)
  have size: "0 < ExpectedSize policy \<longrightarrow> int (length bytes) \<le> ExpectedSize policy + 1"
    and pre: "prefix bytes (body_bytes body)"
    using d r(1) by (auto simp: reader_ok_def prefix_def)
  have acc: "(0 < ExpectedSize policy \<longrightarrow> int (length bytes) = ExpectedSize policy) \<and>
       (RequireSHA policy \<longrightarrow> EncodeToString (sha256 bytes) = ExpectedSHA256 policy) \<and>
       (e = Some IoEOF \<longrightarrow> bytes = body_bytes body)" if "verdict = None"
  proof -
    from that assms(3) have v: "Verify sha256 ?c = None" by simp
    show ?thesis using v [unfolded Verify_None_iff c ActualSHA256Hex_def] d by auto
  qed
  have "verdict \<noteq> None" if "RequireSHA policy" "\<not> list_all lower_hex (ExpectedSHA256 policy)"
  proof
    assume "verdict = None"
    with assms(3) have v: "Verify sha256 ?c = None" by simp
    show False using v [unfolded Verify_None_iff c] that by blast
  qed
  with size pre acc show ?thesis by (simp add: ActualSHA256Hex_def c)
qed

theorem artifact_verify_sound_witness:
  "\<exists>r bytes e r'. NewArtifactVerifyReader (Some [Chunk ''abc''])
       \<lparr>ExpectedSize = 3, ExpectedSHA256 = '''', ExpectedMIME = '''', RequireSHA = False\<rparr> = Some r \<and>
     drain [2, 8, 8] r = (bytes, e, r') \<and> e = Some IoEOF \<and>
     Verify (\<lambda>s. []) (snd (av_Close True r')) = None \<and> bytes = ''abc''"
proof -
  let ?p = "\<lparr>ExpectedSize = 3, ExpectedSHA256 = '''', ExpectedMIME = '''', RequireSHA = False\<rparr>"
  obtain r where r: "NewArtifactVerifyReader (Some [Chunk ''abc'']) ?p = Some r"
    by (simp add: NewArtifactVerifyReader_def)
  obtain bytes e r' where d: "drain [2, 8, 8] r = (bytes, e, r')" by (metis prod_cases3)
  have e: "e = Some IoEOF" "Verify (\<lambda>s. []) (snd (av_Close True r')) = None"
    using r d by (auto simp: NewArtifactVerifyReader_def av_Read_def av_take_def Let_def Verify_def
        verifySizeExact_def av_Close_def)
  from artifact_verify_sound [OF r d e(2)] e r d show ?thesis by auto
qed

end
