(* ===== verification/MediaAssets.thy ===== *)
theory MediaAssets
  imports Complex_Main Storage UploadJobs YouTubeQueue PostRepo
begin

text \<open>
  The table \<open>media_assets\<close> (\<open>internal/models/asset.go\<close>, \<open>internal/models/media_probe.go\<close>,
  \<open>internal/repository/asset_repo.go\<close>) and the resolution of the media of a post to a URL that
  can be fetched (\<open>internal/services/media_resolver.go\<close>). The column \<open>bucket\<close> is nullable.
  The \<open>float64\<close> columns of the probe are rationals.
\<close>

section \<open>Rows\<close>

definition MediaAssetStatusPending :: string where "MediaAssetStatusPending = ''pending''"
definition MediaAssetStatusReady :: string where "MediaAssetStatusReady = ''ready''"
definition MediaAssetStatusFailed :: string where "MediaAssetStatusFailed = ''failed''"
definition MediaAssetStatusExpired :: string where "MediaAssetStatusExpired = ''expired''"

lemmas ma_status_defs = MediaAssetStatusPending_def MediaAssetStatusReady_def
  MediaAssetStatusFailed_def MediaAssetStatusExpired_def

definition ma_IsValid :: "string \<Rightarrow> bool" where
  "ma_IsValid s \<longleftrightarrow> s \<in> {MediaAssetStatusPending, MediaAssetStatusReady, MediaAssetStatusFailed,
     MediaAssetStatusExpired}"

record MediaProbe =
  mp_duration_seconds :: rat
  mp_width :: int
  mp_height :: int
  mp_fps :: rat
  mp_has_audio :: bool
  mp_video_codec :: string
  mp_audio_codec :: string
  mp_probed_at :: time

definition LiveCompatible :: "MediaProbe \<Rightarrow> bool" where
  "LiveCompatible p \<longleftrightarrow>
     \<not> (mp_duration_seconds p \<le> 0 \<or> \<not> mp_has_audio p) \<and>
     \<not> (mp_fps p < 29 \<or> mp_fps p > 31) \<and>
     (mp_width p = 1920 \<and> mp_height p = 1080 \<or> mp_width p = 1280 \<and> mp_height p = 720)"

text \<open>The probe columns are written together, so they are one optional group.\<close>

record MediaAsset =
  ma_id :: string
  ma_user_id :: int
  ma_upload_key :: string
  ma_bucket :: "string option"
  ma_content_type :: string
  ma_size_bytes :: int
  ma_status :: string
  ma_sha256 :: string
  ma_error_message :: string
  ma_expires_at :: time
  ma_created_at :: time
  ma_updated_at :: time
  ma_probe :: "MediaProbe option"

definition Probe :: "MediaAsset option \<Rightarrow> MediaProbe option" where
  "Probe a = (case a of None \<Rightarrow> None | Some r \<Rightarrow> ma_probe r)"

datatype asset_err =
    ErrMediaAssetSHARequired | ErrMediaAssetNotFound | AeInvalidStatus | AeInvalidArgument
  | AeDuplicate | AeScanNull | AeDatabase


section \<open>Writes\<close>

text \<open>\<open>upload_key\<close> is unique; \<open>fresh\<close> is the generated UUID.\<close>

definition ma_Create ::
  "db_fault \<Rightarrow> time \<Rightarrow> string \<Rightarrow> MediaAsset \<Rightarrow> MediaAsset list \<Rightarrow> (asset_err + string) \<times> MediaAsset list" where
  "ma_Create flt dbnow fresh asset t =
     (let status = (if ma_status asset = '''' then MediaAssetStatusPending else ma_status asset);
          row = asset\<lparr>ma_id := fresh, ma_status := status, ma_error_message := '''', ma_created_at := dbnow,
                      ma_updated_at := dbnow, ma_probe := None\<rparr>
      in if \<not> ma_IsValid status then (Inl AeInvalidStatus, t)
         else if flt = DbFailed then (Inl AeDatabase, t)
         else if \<exists>r \<in> set t. ma_upload_key r = ma_upload_key asset then (Inl AeDuplicate, t)
         else (if flt = DbLost then Inl AeDatabase else Inr fresh, t @ [row]))"

definition ma_affected :: "nat option \<times> MediaAsset list \<Rightarrow> (asset_err + unit) \<times> MediaAsset list" where
  "ma_affected res =
     (case fst res of
        None \<Rightarrow> Inl AeDatabase
      | Some n \<Rightarrow> if n = 0 then Inl ErrMediaAssetNotFound else Inr (), snd res)"

definition MarkReady ::
  "db_fault \<Rightarrow> time \<Rightarrow> string \<Rightarrow> string \<Rightarrow> int \<Rightarrow> string \<Rightarrow> MediaAsset list \<Rightarrow>
   (asset_err + unit) \<times> MediaAsset list" where
  "MarkReady flt now i sha sizeBytes contentType t =
     (if sha = '''' then (Inl ErrMediaAssetSHARequired, t)
      else ma_affected (exec_update flt (\<lambda>r. ma_id r = i)
             (\<lambda>r. r\<lparr>ma_status := MediaAssetStatusReady, ma_sha256 := sha, ma_size_bytes := sizeBytes,
                    ma_content_type := contentType, ma_error_message := '''', ma_updated_at := now\<rparr>) t))"

definition ma_MarkFailed ::
  "db_fault \<Rightarrow> time \<Rightarrow> string \<Rightarrow> string \<Rightarrow> MediaAsset list \<Rightarrow> (asset_err + unit) \<times> MediaAsset list" where
  "ma_MarkFailed flt now i reason t =
     ma_affected (exec_update flt (\<lambda>r. ma_id r = i)
       (\<lambda>r. r\<lparr>ma_status := MediaAssetStatusFailed, ma_error_message := reason, ma_updated_at := now\<rparr>) t)"

definition MarkExpired ::
  "db_fault \<Rightarrow> time \<Rightarrow> MediaAsset list \<Rightarrow> (asset_err + nat) \<times> MediaAsset list" where
  "MarkExpired flt now t =
     (let (n, t') = exec_update flt (\<lambda>r. ma_status r = MediaAssetStatusPending \<and> ma_expires_at r < now)
                      (\<lambda>r. r\<lparr>ma_status := MediaAssetStatusExpired, ma_updated_at := now\<rparr>) t
      in (case n of None \<Rightarrow> Inl AeDatabase | Some k \<Rightarrow> Inr k, t'))"

definition SaveProbe ::
  "db_fault \<Rightarrow> string \<Rightarrow> MediaProbe option \<Rightarrow> MediaAsset list \<Rightarrow> (asset_err + unit) \<times> MediaAsset list" where
  "SaveProbe flt i probe t =
     (case probe of
        None \<Rightarrow> (Inr (), t)
      | Some p \<Rightarrow>
          (let (n, t') = exec_update flt (\<lambda>r. ma_id r = i)
                 (\<lambda>r. r\<lparr>ma_probe := Some p, ma_updated_at := mp_probed_at p\<rparr>) t
           in (if n = None then Inl AeDatabase else Inr (), t')))"


section \<open>Reads\<close>

record workspace_db =
  ws_owner :: "(int \<times> int) list"
  ws_members :: "(int \<times> int) list"

text \<open>The \<open>EXISTS\<close> of every query: the uploader owns the workspace or is a member of it.\<close>

definition visible_to :: "workspace_db \<Rightarrow> int \<Rightarrow> int \<Rightarrow> bool" where
  "visible_to ws workspaceID userID \<longleftrightarrow>
     (workspaceID, userID) \<in> set (ws_owner ws) \<or>
     workspaceID \<in> fst ` set (ws_owner ws) \<and> (workspaceID, userID) \<in> set (ws_members ws)"

text \<open>\<open>Scan\<close> cannot put a NULL bucket into the string of the struct.\<close>

definition scanMediaAsset :: "MediaAsset list \<Rightarrow> asset_err + MediaAsset option" where
  "scanMediaAsset rows =
     (case rows of
        [] \<Rightarrow> Inr None
      | r # _ \<Rightarrow> if ma_bucket r = None then Inl AeScanNull else Inr (Some r))"

fun scan_all :: "MediaAsset list \<Rightarrow> asset_err + MediaAsset list" where
  "scan_all [] = Inr []"
| "scan_all (r # rs) =
     (if ma_bucket r = None then Inl AeScanNull else rbind (scan_all rs) (\<lambda>xs. Inr (r # xs)))"

definition ma_FindByID :: "bool \<Rightarrow> string \<Rightarrow> MediaAsset list \<Rightarrow> asset_err + MediaAsset option" where
  "ma_FindByID ok i t = (if ok then scanMediaAsset (filter (\<lambda>r. ma_id r = i) t) else Inl AeDatabase)"

text \<open>\<open>uuid\<close> is the cast of the text to \<open>uuid\<close>, which fails on any other text.\<close>

definition FindForPost ::
  "bool \<Rightarrow> (string \<Rightarrow> string option) \<Rightarrow> workspace_db \<Rightarrow> int \<Rightarrow> string \<Rightarrow> string \<Rightarrow> string \<Rightarrow>
   MediaAsset list \<Rightarrow> asset_err + MediaAsset option" where
  "FindForPost ok uuid ws workspaceID assetID bucket key t =
     (if workspaceID \<le> 0 then Inl AeInvalidArgument
      else if \<not> ok \<or> (assetID \<noteq> '''' \<and> uuid assetID = None) then Inl AeDatabase
      else scanMediaAsset (filter (\<lambda>r.
             (assetID \<noteq> '''' \<and> uuid assetID = Some (ma_id r) \<or>
              assetID = '''' \<and> key \<noteq> '''' \<and> ma_upload_key r = key) \<and>
             (bucket = '''' \<or> ma_bucket r = Some bucket) \<and>
             (key = '''' \<or> ma_upload_key r = key) \<and>
             visible_to ws workspaceID (ma_user_id r)) t))"

definition FindByUploadKey ::
  "bool \<Rightarrow> workspace_db \<Rightarrow> int \<Rightarrow> string \<Rightarrow> MediaAsset list \<Rightarrow> asset_err + MediaAsset option" where
  "FindByUploadKey ok ws workspaceID key t =
     (if workspaceID \<le> 0 \<or> key = '''' then Inr None
      else if \<not> ok then Inl AeDatabase
      else scanMediaAsset (filter (\<lambda>r. ma_upload_key r = key \<and> visible_to ws workspaceID (ma_user_id r)) t))"

definition live_asset :: "time \<Rightarrow> int \<Rightarrow> MediaAsset \<Rightarrow> bool" where
  "live_asset dbnow user r \<longleftrightarrow>
     ma_user_id r = user \<and> ma_status r = MediaAssetStatusReady \<and> ma_expires_at r > dbnow"

definition ListReadyByUser ::
  "bool \<Rightarrow> time \<Rightarrow> int \<Rightarrow> int \<Rightarrow> MediaAsset list \<Rightarrow> asset_err + MediaAsset list" where
  "ListReadyByUser ok dbnow user limit t =
     (let lim = (if limit \<le> 0 \<or> limit > 500 then 100 else limit)
      in if user \<le> 0 then Inl AeInvalidArgument
         else if \<not> ok then Inl AeDatabase
         else scan_all (top_by (\<lambda>r. (- ma_created_at r, ma_id r)) (nat lim)
                (filter (live_asset dbnow user) t)))"

text \<open>
  The keyset page, newest first: \<open>(created_at, id) < after\<close>, one row more than the limit to
  know whether there is a next page.
\<close>

definition page_order :: "MediaAsset list \<Rightarrow> MediaAsset list" where
  "page_order t = rev (sort_key (\<lambda>r. (ma_created_at r, ma_id r)) t)"

definition ListReadyByUserPage ::
  "bool \<Rightarrow> time \<Rightarrow> int \<Rightarrow> (time \<times> string) option \<Rightarrow> int \<Rightarrow> MediaAsset list \<Rightarrow>
   asset_err + MediaAsset list \<times> bool" where
  "ListReadyByUserPage ok dbnow user after limit t =
     (let lim0 = (if limit \<le> 0 then 50 else limit);
          lim = (if lim0 > 100 then 100 else lim0)
      in if user \<le> 0 then Inl AeInvalidArgument
         else if \<not> ok then Inl AeDatabase
         else rbind (scan_all (take (nat (lim + 1)) (page_order (filter (\<lambda>r. live_asset dbnow user r \<and>
                  null_or (\<lambda>k. (ma_created_at r, ma_id r) < k) after) t))))
                (\<lambda>rows. Inr (if int (length rows) > lim then (take (nat lim) rows, True) else (rows, False))))"

definition ListVisibleInWorkspace ::
  "bool \<Rightarrow> time \<Rightarrow> workspace_db \<Rightarrow> int \<Rightarrow> string list \<Rightarrow> MediaAsset list \<Rightarrow> asset_err + MediaAsset list" where
  "ListVisibleInWorkspace ok dbnow ws workspaceID ids t =
     (if workspaceID \<le> 0 then Inl AeInvalidArgument
      else if ids = [] then Inr []
      else if \<not> ok then Inl AeDatabase
      else scan_all (sort_key (\<lambda>r. (- ma_created_at r, ma_id r))
             (filter (\<lambda>r. ma_id r \<in> set ids \<and> ma_status r = MediaAssetStatusReady \<and>
                ma_expires_at r > dbnow \<and> visible_to ws workspaceID (ma_user_id r)) t)))"


section \<open>Clean-up\<close>

text \<open>
  The \<open>DELETE ... USING\<close> over the upload jobs, the targets and the deliveries, with the
  foreign key of \<open>posts\<close>, which is set to NULL.
\<close>

definition day :: duration where "day = 24 * hour"

definition publish_window_over :: "time \<Rightarrow> int \<Rightarrow> ytpub \<Rightarrow> bool" where
  "publish_window_over dbnow days y \<longleftrightarrow>
     yt_upload_status y = ''youtube_uploaded'' \<and>
     some_and (\<lambda>p. p + days * day < dbnow) (yt_published_at y)"

definition cleanup_job ::
  "time \<Rightarrow> int \<Rightarrow> post_db \<Rightarrow> ytpub list \<Rightarrow> UploadJob \<Rightarrow> bool" where
  "cleanup_job dbnow days db pubs uj \<longleftrightarrow>
     (\<exists>y \<in> set pubs. yt_upload_job_id y = uj_id uj \<and> publish_window_over dbnow days y) \<and>
     (\<exists>pt \<in> set (targets db). uj_post_id uj = Some (pt_post_id pt)) \<and>
     \<not> (\<exists>pt \<in> set (targets db). uj_post_id uj = Some (pt_post_id pt) \<and> pt_status pt \<in> {PSRetrying, PSDLQ}) \<and>
     \<not> (\<exists>p \<in> set (posts db). uj_post_id uj = Some (p_id p) \<and> some_and (\<lambda>t. t > dbnow) (p_publish_at p)) \<and>
     \<not> (\<exists>y \<in> set pubs. yt_upload_job_id y = uj_id uj \<and> some_and (\<lambda>t. t > dbnow) (yt_publish_at y))"

definition eligible_asset ::
  "time \<Rightarrow> int \<Rightarrow> UploadJob list \<Rightarrow> post_db \<Rightarrow> ytpub list \<Rightarrow> MediaAsset \<Rightarrow> bool" where
  "eligible_asset dbnow days jobs db pubs r \<longleftrightarrow>
     (\<exists>uj \<in> set jobs. uj_asset_id uj = Some (ma_id r) \<and> cleanup_job dbnow days db pubs uj)"

definition DeleteEligibleAssets ::
  "db_fault \<Rightarrow> time \<Rightarrow> int \<Rightarrow> UploadJob list \<Rightarrow> ytpub list \<Rightarrow> MediaAsset list \<Rightarrow> post_db \<Rightarrow>
   (asset_err + nat) \<times> MediaAsset list \<times> post_db" where
  "DeleteEligibleAssets flt dbnow retentionDays jobs pubs t db =
     (if retentionDays \<le> 0 \<or> retentionDays > 3650 then (Inl AeInvalidArgument, t, db)
      else if flt = DbFailed then (Inl AeDatabase, t, db)
      else
        let gone = filter (eligible_asset dbnow retentionDays jobs db pubs) t;
            ids = map ma_id gone;
            db' = db\<lparr>posts := update_where (\<lambda>p. \<exists>i \<in> set ids. p_media_asset_id p = Some i)
                       (\<lambda>p. p\<lparr>p_media_asset_id := None\<rparr>) (posts db)\<rparr>
        in (if flt = DbLost then Inl AeDatabase else Inr (length gone),
            filter (\<lambda>r. \<not> eligible_asset dbnow retentionDays jobs db pubs r) t, db'))"


section \<open>The resolver\<close>

datatype resolve_err =
    ReNoStore | ReNoWorkspace | ReLoad asset_err | ReNotOwned | ReNotReady string | ErrAssetExpired
  | ReEmptyKey | ErrBucketAwareStorageRequired | ReSign | ErrMediaURLNoMatchingAsset string
  | ErrPostMissingMediaReference

text \<open>
  The storage behind the resolver: \<open>GetObject\<close>, and \<open>GetObjectWithBucket\<close> where the
  provider has it.
\<close>

record object_getter =
  og_get :: "string \<Rightarrow> duration \<Rightarrow> string option"
  og_get_bucket :: "(string \<Rightarrow> string \<Rightarrow> duration \<Rightarrow> string option) option"

record resolver_env =
  rv_storage :: object_getter
  rv_store :: "(workspace_db \<times> MediaAsset list) option"
  rv_read_ok :: bool
  rv_uuid :: "string \<Rightarrow> string option"
  rv_now :: time

definition of_sign :: "string option \<Rightarrow> resolve_err + string" where
  "of_sign u = (case u of None \<Rightarrow> Inl ReSign | Some url \<Rightarrow> Inr url)"

definition getObjectURL :: "resolver_env \<Rightarrow> string \<Rightarrow> string \<Rightarrow> duration \<Rightarrow> resolve_err + string" where
  "getObjectURL env bucket key ttl =
     (if bucket \<noteq> ''''
      then case og_get_bucket (rv_storage env) of
             None \<Rightarrow> Inl ErrBucketAwareStorageRequired
           | Some get \<Rightarrow> of_sign (get bucket key ttl)
      else of_sign (og_get (rv_storage env) key ttl))"

text \<open>The expiry of the struct is a time that is never the zero time for a row of the table.\<close>

definition resolveAsset :: "resolver_env \<Rightarrow> MediaAsset option \<Rightarrow> duration \<Rightarrow> resolve_err + string" where
  "resolveAsset env asset ttl =
     (case asset of
        None \<Rightarrow> Inl ReNotOwned
      | Some a \<Rightarrow>
          if ma_status a \<noteq> MediaAssetStatusReady then Inl (ReNotReady (ma_status a))
          else if rv_now env > ma_expires_at a then Inl ErrAssetExpired
          else if ma_upload_key a = '''' then Inl ReEmptyKey
          else getObjectURL env (case ma_bucket a of None \<Rightarrow> '''' | Some b \<Rightarrow> b) (ma_upload_key a)
                 (if ttl \<le> 0 then hour else ttl))"

definition resolveAssetForPost ::
  "resolver_env \<Rightarrow> Post \<Rightarrow> string \<Rightarrow> string \<Rightarrow> string \<Rightarrow> duration \<Rightarrow> resolve_err + string" where
  "resolveAssetForPost env post assetID bucket key ttl =
     (case rv_store env of
        None \<Rightarrow> Inl ReNoStore
      | Some (ws, t) \<Rightarrow>
          if p_workspace_id post \<le> 0 then Inl ReNoWorkspace
          else case FindForPost (rv_read_ok env) (rv_uuid env) ws (p_workspace_id post) assetID bucket key t of
                 Inl e \<Rightarrow> Inl (ReLoad e)
               | Inr asset \<Rightarrow> resolveAsset env asset ttl)"

definition deref :: "string option \<Rightarrow> string" where
  "deref s = (case s of None \<Rightarrow> '''' | Some x \<Rightarrow> x)"

definition ResolveForUpload :: "resolver_env \<Rightarrow> Post \<Rightarrow> duration \<Rightarrow> resolve_err + string" where
  "ResolveForUpload env post ttl =
     (if deref (p_media_asset_id post) \<noteq> ''''
      then resolveAssetForPost env post (deref (p_media_asset_id post)) (deref (p_bucket post))
             (deref (p_storage_object_key post)) ttl
      else if deref (p_storage_object_key post) \<noteq> ''''
      then resolveAssetForPost env post '''' (deref (p_bucket post)) (deref (p_storage_object_key post)) ttl
      else if p_media_url post \<noteq> '''' \<and> extractUploadKeyFromMediaURL (p_media_url post) \<noteq> ''''
      then
        let uploadKey = extractUploadKeyFromMediaURL (p_media_url post)
        in (case rv_store env of
              None \<Rightarrow> Inl ReNoStore
            | Some (ws, t) \<Rightarrow>
                (case FindByUploadKey (rv_read_ok env) ws (p_workspace_id post) uploadKey t of
                   Inl e \<Rightarrow> Inl (ReLoad e)
                 | Inr None \<Rightarrow> Inl (ErrMediaURLNoMatchingAsset uploadKey)
                 | Inr (Some a) \<Rightarrow> resolveAsset env (Some a) ttl))
      else Inl ErrPostMissingMediaReference)"

end
