(* ===== verification/MediaAssetsProofs.thy ===== *)
theory MediaAssetsProofs
  imports MediaAssets UploadJobsProofs PostRepoProofs
begin

text \<open>
  What the media assets guarantee: a URL is only signed for a ready, unexpired row the workspace
  of the post may see; the clean-up removes exactly the eligible rows and no reference to them
  is left.
\<close>

section \<open>The resolver\<close>

lemma scanMediaAsset_Some:
  "scanMediaAsset (filter P t) = Inr (Some a) \<Longrightarrow> a \<in> set t \<and> P a \<and> (\<exists>b. ma_bucket a = Some b)"
  by (cases "filter P t") (auto simp: scanMediaAsset_def dest: filter_eq_ConsD split: if_splits)

lemma FindForPost_Some:
  assumes "FindForPost ok uuid ws wid i b k t = Inr (Some a)"
  shows "a \<in> set t \<and> 0 < wid \<and> visible_to ws wid (ma_user_id a) \<and> ma_bucket a \<noteq> None \<and>
    (i \<noteq> '''' \<longrightarrow> uuid i = Some (ma_id a)) \<and> (b \<noteq> '''' \<longrightarrow> ma_bucket a = Some b) \<and>
    (k \<noteq> '''' \<longrightarrow> ma_upload_key a = k)"
  using assms
  by (auto simp: FindForPost_def split: if_splits dest!: scanMediaAsset_Some)

lemma FindByUploadKey_Some:
  assumes "FindByUploadKey ok ws wid k t = Inr (Some a)"
  shows "a \<in> set t \<and> 0 < wid \<and> visible_to ws wid (ma_user_id a) \<and> ma_bucket a \<noteq> None \<and>
    ma_upload_key a = k"
  using assms
  by (auto simp: FindByUploadKey_def split: if_splits dest!: scanMediaAsset_Some)

definition servable :: "resolver_env \<Rightarrow> int \<Rightarrow> MediaAsset \<Rightarrow> bool" where
  "servable env wid a \<longleftrightarrow>
     (\<exists>ws t. rv_store env = Some (ws, t) \<and> a \<in> set t \<and> visible_to ws wid (ma_user_id a)) \<and>
     0 < wid \<and> ma_status a = MediaAssetStatusReady \<and> rv_now env \<le> ma_expires_at a \<and>
     ma_upload_key a \<noteq> '''' \<and> ma_bucket a \<noteq> None"

lemma resolveAsset_Inr:
  assumes "resolveAsset env (Some a) ttl = Inr url"
  shows "ma_status a = MediaAssetStatusReady \<and> rv_now env \<le> ma_expires_at a \<and> ma_upload_key a \<noteq> '''' \<and>
    getObjectURL env (deref (ma_bucket a)) (ma_upload_key a) (if ttl \<le> 0 then hour else ttl) = Inr url"
  using assms by (auto simp: resolveAsset_def deref_def split: if_splits)

lemma resolveAssetForPost_Inr:
  assumes "resolveAssetForPost env post i b k ttl = Inr url"
  shows "\<exists>a. servable env (p_workspace_id post) a \<and>
    getObjectURL env (deref (ma_bucket a)) (ma_upload_key a) (if ttl \<le> 0 then hour else ttl) = Inr url \<and>
    (i \<noteq> '''' \<longrightarrow> rv_uuid env i = Some (ma_id a)) \<and> (b \<noteq> '''' \<longrightarrow> ma_bucket a = Some b) \<and>
    (k \<noteq> '''' \<longrightarrow> ma_upload_key a = k)"
proof -
  from assms obtain ws t where store: "rv_store env = Some (ws, t)"
    by (auto simp: resolveAssetForPost_def split: option.splits)
  let ?f = "FindForPost (rv_read_ok env) (rv_uuid env) ws (p_workspace_id post) i b k t"
  from assms store obtain asset where f: "?f = Inr asset" and r: "resolveAsset env asset ttl = Inr url"
    by (auto simp: resolveAssetForPost_def split: if_splits sum.splits)
  from r obtain a where a: "asset = Some a" by (cases asset) (auto simp: resolveAsset_def)
  from FindForPost_Some [OF f [unfolded a]] resolveAsset_Inr [OF r [unfolded a]] store
  show ?thesis by (intro exI [of _ a]) (auto simp: servable_def)
qed

text \<open>
  C15: no URL without ownership. Whatever a post says about its media, a URL that the resolver
  returns was signed for the bucket and the key of a row of \<open>media_assets\<close> that is ready, not
  expired, and whose uploader belongs to the workspace of the post; and that row agrees with
  every reference the post carries: the asset id, else the object key, else the key in the stored
  URL, and with the bucket and key that mirror the asset id.
\<close>

theorem resolver_serves_owned_ready:
  assumes "ResolveForUpload env post ttl = Inr url"
  shows "\<exists>a. servable env (p_workspace_id post) a \<and>
    getObjectURL env (deref (ma_bucket a)) (ma_upload_key a) (if ttl \<le> 0 then hour else ttl) = Inr url \<and>
    (deref (p_media_asset_id post) \<noteq> '''' \<longrightarrow> rv_uuid env (deref (p_media_asset_id post)) = Some (ma_id a)) \<and>
    (deref (p_storage_object_key post) \<noteq> '''' \<longrightarrow> ma_upload_key a = deref (p_storage_object_key post)) \<and>
    (deref (p_bucket post) \<noteq> '''' \<and> (deref (p_media_asset_id post) \<noteq> '''' \<or> deref (p_storage_object_key post) \<noteq> '''')
       \<longrightarrow> ma_bucket a = p_bucket post) \<and>
    (deref (p_media_asset_id post) = '''' \<and> deref (p_storage_object_key post) = ''''
       \<longrightarrow> ma_upload_key a = extractUploadKeyFromMediaURL (p_media_url post))"
proof (cases "deref (p_media_asset_id post) \<noteq> '''' \<or> deref (p_storage_object_key post) \<noteq> ''''")
  case True
  have "p_bucket post = Some (deref (p_bucket post))" if "deref (p_bucket post) \<noteq> ''''"
    using that by (cases "p_bucket post") (simp_all add: deref_def)
  with True assms show ?thesis
    by (auto simp: ResolveForUpload_def split: if_splits dest!: resolveAssetForPost_Inr)
next
  case False
  let ?k = "extractUploadKeyFromMediaURL (p_media_url post)"
  from assms False obtain ws t where store: "rv_store env = Some (ws, t)"
    by (auto simp: ResolveForUpload_def Let_def split: if_splits option.splits)
  from assms False store obtain a where
    f: "FindByUploadKey (rv_read_ok env) ws (p_workspace_id post) ?k t = Inr (Some a)"
    and r: "resolveAsset env (Some a) ttl = Inr url"
    by (auto simp: ResolveForUpload_def Let_def split: if_splits sum.splits option.splits)
  from FindByUploadKey_Some [OF f] resolveAsset_Inr [OF r] store False
  show ?thesis by (intro exI [of _ a]) (auto simp: servable_def)
qed

definition sample_asset :: MediaAsset where
  "sample_asset =
     \<lparr>ma_id = ''a1'', ma_user_id = 7, ma_upload_key = ''uploads/7/k'', ma_bucket = Some ''media'',
      ma_content_type = ''video/mp4'', ma_size_bytes = 10, ma_status = ''ready'', ma_sha256 = ''ff'',
      ma_error_message = '''', ma_expires_at = 100, ma_created_at = 0, ma_updated_at = 0, ma_probe = None\<rparr>"

definition sample_resolver :: "MediaAsset list \<Rightarrow> resolver_env" where
  "sample_resolver t =
     \<lparr>rv_storage = \<lparr>og_get = (\<lambda>k ttl. Some k), og_get_bucket = Some (\<lambda>b k ttl. Some (b @ ''/'' @ k))\<rparr>,
      rv_store = Some (\<lparr>ws_owner = [(1, 7)], ws_members = []\<rparr>, t), rv_read_ok = True, rv_uuid = Some,
      rv_now = 5\<rparr>"

definition asset_post :: "string option \<Rightarrow> string option \<Rightarrow> Post" where
  "asset_post i k = blank_post\<lparr>p_workspace_id := 1, p_media_asset_id := i, p_storage_object_key := k\<rparr>"

theorem resolver_serves_owned_ready_witness:
  "\<exists>a. servable (sample_resolver [sample_asset]) 1 a \<and> ma_id a = ''a1'' \<and>
     ResolveForUpload (sample_resolver [sample_asset]) (asset_post (Some ''a1'') None) 0 =
       Inr ''media/uploads/7/k''"
proof -
  have r: "ResolveForUpload (sample_resolver [sample_asset]) (asset_post (Some ''a1'') None) 0 =
      Inr ''media/uploads/7/k''"
    by (simp add: ResolveForUpload_def asset_post_def blank_post_def deref_def resolveAssetForPost_def
        sample_resolver_def sample_asset_def FindForPost_def visible_to_def scanMediaAsset_def
        resolveAsset_def ma_status_defs getObjectURL_def of_sign_def)
  from resolver_serves_owned_ready [OF this] r show ?thesis
    by (auto simp: asset_post_def deref_def sample_resolver_def)
qed

text \<open>A row from before the bucket column cannot be read at all: the struct has no NULL.\<close>

lemma null_bucket_unreadable:
  assumes "distinct (map ma_id t)" and "r \<in> set t" and "ma_bucket r = None"
  shows "ma_FindByID True (ma_id r) t = Inl AeScanNull"
proof -
  have "x = r" if "x \<in> set t" "ma_id x = ma_id r" for x
    using that assms by (auto simp: distinct_map inj_on_def)
  then have "filter (\<lambda>x. ma_id x = ma_id r) t \<noteq> []" "set (filter (\<lambda>x. ma_id x = ma_id r) t) \<subseteq> {r}"
    using assms(2) by (auto simp: filter_empty_conv)
  then show ?thesis using assms(3)
    by (cases "filter (\<lambda>x. ma_id x = ma_id r) t") (auto simp: ma_FindByID_def scanMediaAsset_def)
qed

section \<open>The clean-up\<close>

text \<open>
  The clean-up deletes exactly the eligible rows and leaves every other row as it was; no
  post refers to a deleted row afterwards, and no other column of a post changes. A row is only
  deleted when it belongs to a job with a published delivery whose window is over, while no target
  of its post is retrying or dead-lettered and neither the post nor a delivery of the job is
  scheduled in the future.
\<close>

theorem DeleteEligibleAssets_safe:
  assumes "distinct (map ma_id t)" and "1 \<le> days" and "days \<le> 3650"
    and "DeleteEligibleAssets flt now days jobs pubs t db = (res, t', db')" and "flt \<noteq> DbFailed"
  shows "t' = filter (\<lambda>r. \<not> eligible_asset now days jobs db pubs r) t \<and>
    (\<forall>r \<in> set t - set t'. \<exists>uj \<in> set jobs. uj_asset_id uj = Some (ma_id r) \<and>
       (\<exists>y \<in> set pubs. yt_upload_job_id y = uj_id uj \<and> some_and (\<lambda>p. p + days * day < now) (yt_published_at y)) \<and>
       (\<forall>pt \<in> set (targets db). uj_post_id uj = Some (pt_post_id pt) \<longrightarrow> pt_status pt \<notin> {PSRetrying, PSDLQ}) \<and>
       (\<forall>p \<in> set (posts db). uj_post_id uj = Some (p_id p) \<longrightarrow> null_or (\<lambda>x. x \<le> now) (p_publish_at p)) \<and>
       (\<forall>y \<in> set pubs. yt_upload_job_id y = uj_id uj \<longrightarrow> null_or (\<lambda>x. x \<le> now) (yt_publish_at y))) \<and>
    (\<forall>p \<in> set (posts db'). \<forall>i. p_media_asset_id p = Some i \<longrightarrow> i \<in> ma_id ` set t \<longrightarrow> i \<in> ma_id ` set t') \<and>
    map (\<lambda>p. p\<lparr>p_media_asset_id := None\<rparr>) (posts db') = map (\<lambda>p. p\<lparr>p_media_asset_id := None\<rparr>) (posts db) \<and>
    targets db' = targets db"
proof -
  let ?el = "eligible_asset now days jobs db pubs"
  let ?ids = "map ma_id (filter ?el t)"
  have t': "t' = filter (\<lambda>r. \<not> ?el r) t"
    and db': "db' = db\<lparr>posts := update_where (\<lambda>p. \<exists>i \<in> set ?ids. p_media_asset_id p = Some i)
        (\<lambda>p. p\<lparr>p_media_asset_id := None\<rparr>) (posts db)\<rparr>"
    using assms(2-5) by (auto simp: DeleteEligibleAssets_def Let_def)
  have "null_or (\<lambda>x. x \<le> now) v \<longleftrightarrow> \<not> some_and (\<lambda>x. now < x) v" for v
    by (cases v) auto
  then have "\<forall>r \<in> set t - set t'. \<exists>uj \<in> set jobs. uj_asset_id uj = Some (ma_id r) \<and>
       (\<exists>y \<in> set pubs. yt_upload_job_id y = uj_id uj \<and> some_and (\<lambda>p. p + days * day < now) (yt_published_at y)) \<and>
       (\<forall>pt \<in> set (targets db). uj_post_id uj = Some (pt_post_id pt) \<longrightarrow> pt_status pt \<notin> {PSRetrying, PSDLQ}) \<and>
       (\<forall>p \<in> set (posts db). uj_post_id uj = Some (p_id p) \<longrightarrow> null_or (\<lambda>x. x \<le> now) (p_publish_at p)) \<and>
       (\<forall>y \<in> set pubs. yt_upload_job_id y = uj_id uj \<longrightarrow> null_or (\<lambda>x. x \<le> now) (yt_publish_at y))"
    unfolding t' by (auto simp: eligible_asset_def cleanup_job_def publish_window_over_def; blast)
  moreover have "i \<in> ma_id ` set t'"
    if p: "p \<in> set (posts db')" "p_media_asset_id p = Some i" "i \<in> ma_id ` set t" for p i
  proof -
    from p(3) obtain r where r: "r \<in> set t" "ma_id r = i" by blast
    from p(1,2) have "i \<notin> set ?ids" by (auto simp: db' set_update_where)
    with r show ?thesis unfolding t' by auto
  qed
  moreover have "map (\<lambda>p. p\<lparr>p_media_asset_id := None\<rparr>) (posts db') =
      map (\<lambda>p. p\<lparr>p_media_asset_id := None\<rparr>) (posts db)"
    by (simp add: db' update_where_def)
  ultimately show ?thesis using t' db' by auto
qed

definition uploaded_pub :: ytpub where
  "uploaded_pub =
     \<lparr>yt_id = 1, yt_upload_job_id = 1, yt_post_target_id = 1, yt_account_id = 1,
      yt_video_id = Some ''v'', yt_upload_status = ''youtube_uploaded'', yt_processing_status = None,
      yt_uploaded_at = None, yt_processed_at = None, yt_editor_session_id = None,
      yt_velox_project_id = None, yt_thumbnail_media_id = None, yt_thumbnail_status = None,
      yt_desired_privacy = ''public'', yt_publish_at = None, yt_native_publish_at = None,
      yt_published_at = Some 0, yt_last_error = '''', yt_attempt_count = 1,
      yt_state = YtUploaded, yt_priority = 0, yt_prepare_at = None,
      yt_next_attempt_at = None, yt_max_attempts = 8, yt_lease_owner = None,
      yt_lease_expires_at = None, yt_heartbeat_at = None, yt_resume_state = None,
      yt_last_error_code = None, yt_last_transition_at = 0, yt_verified_at = None,
      yt_original_publish_at = None, yt_spillover_count = 0, yt_created_at = 0,
      yt_updated_at = 0\<rparr>"

theorem DeleteEligibleAssets_safe_witness:
  "\<exists>res db'. DeleteEligibleAssets DbOk (8 * day) 7 [sample_job\<lparr>uj_id := 1, uj_asset_id := Some ''a1'', uj_post_id := Some 1\<rparr>]
      [uploaded_pub] [sample_asset] \<lparr>posts = [blank_post\<lparr>p_id := 1, p_media_asset_id := Some ''a1''\<rparr>],
        targets = [sample_target 10 1 PSPublished], repair_queue = []\<rparr> = (res, [], db') \<and>
     (\<forall>p \<in> set (posts db'). p_media_asset_id p = None)"
proof -
  let ?job = "sample_job\<lparr>uj_id := 1, uj_asset_id := Some ''a1'', uj_post_id := Some 1\<rparr>"
  let ?db = "\<lparr>posts = [blank_post\<lparr>p_id := 1, p_media_asset_id := Some ''a1''\<rparr>],
        targets = [sample_target 10 1 PSPublished], repair_queue = []\<rparr>"
  have el: "eligible_asset (8 * day) 7 [?job] ?db [uploaded_pub] sample_asset"
    by (simp add: eligible_asset_def cleanup_job_def publish_window_over_def uploaded_pub_def
        sample_asset_def sample_target_def day_def blank_post_def)
  obtain res t' db' where r: "DeleteEligibleAssets DbOk (8 * day) 7 [?job] [uploaded_pub] [sample_asset] ?db = (res, t', db')"
    by (metis prod_cases3)
  have "ma_id sample_asset = ''a1''" by (simp add: sample_asset_def)
  with DeleteEligibleAssets_safe [OF _ _ _ r] el
  have "t' = []" "\<forall>p \<in> set (posts db'). \<forall>i. p_media_asset_id p = Some i \<longrightarrow> i \<noteq> ''a1''"
    "map (\<lambda>p. p\<lparr>p_media_asset_id := None\<rparr>) (posts db') = map (\<lambda>p. p\<lparr>p_media_asset_id := None\<rparr>) (posts ?db)"
    by auto
  moreover have "p_media_asset_id p = None \<or> p_media_asset_id p = Some ''a1''" if "p \<in> set (posts db')" for p
    using r that by (auto simp: DeleteEligibleAssets_def Let_def set_update_where split: if_splits)
  ultimately show ?thesis using r by blast
qed

text \<open>
  A delivery of the same job that still waits for its upload does not keep the asset: its
  \<open>publish_at\<close> has passed or is NULL.
\<close>

lemma cleanup_ignores_waiting_sibling:
  assumes "cleanup_job now days db pubs uj" and "uj \<in> set jobs" and "uj_asset_id uj = Some (ma_id r)"
    and "yt_upload_job_id y = uj_id uj" and "yt_publish_at y = None"
    and "yt_upload_status y = ''youtube_uploading''" and "yt_state y = YtQuotaWait"
  shows "eligible_asset now days jobs db (y # pubs) r"
  using assms by (auto simp: eligible_asset_def cleanup_job_def publish_window_over_def)

end
