(* ===== verification/IngestJob.thy ===== *)
theory IngestJob
  imports ArtifactVerify MediaAssetsProofs VeloxIngest
begin

text \<open>
  The ingest half of an upload job, \<open>processIngestJob\<close> of
  \<open>internal/worker/upload_worker_ingest.go\<close>: the source is opened, verified while it is streamed
  into the object store, and recorded as a media asset; then the job moves on to the publish
  pool. The source, the object store and \<open>ffprobe\<close> answer through the environment; the objects
  that were stored are part of the state.
\<close>

section \<open>The expected triple\<close>

datatype triple_err = TeInvalid | ErrExternalDeliveryNotLinked | ErrExternalDeliveryNoExpectedTriple | TeDatabase

definition GetExpectedTripleByUploadJobID ::
  "bool \<Rightarrow> int \<Rightarrow> delivery list \<Rightarrow> triple_err + int \<times> string" where
  "GetExpectedTripleByUploadJobID ok job t =
     (if job \<le> 0 then Inl TeInvalid
      else if \<not> ok then Inl TeDatabase
      else case find_row d_upload_job_id (Some job) t of
        None \<Rightarrow> Inl ErrExternalDeliveryNotLinked
      | Some d \<Rightarrow>
          if d_expected_size_bytes d \<le> 0 \<or> d_expected_sha256 d = ''''
          then Inl ErrExternalDeliveryNoExpectedTriple
          else Inr (d_expected_size_bytes d, d_expected_sha256 d))"

definition IsDeliveryVerificationSkipErr :: "triple_err option \<Rightarrow> bool" where
  "IsDeliveryVerificationSkipErr e \<longleftrightarrow>
     e = Some ErrExternalDeliveryNotLinked \<or> e = Some ErrExternalDeliveryNoExpectedTriple"


section \<open>One job\<close>

record SourceMetadata =
  sm_size_bytes :: int
  sm_mime_type :: string
  sm_sha256_hex :: string

datatype inspect_answer = InspectMissing | InspectError | Inspected "SourceMetadata option"

datatype ingest_err =
    IgUnsupported | IgInspect | IgOpen | IgUnknownSize | IgTriple triple_err | IgCreate asset_err
  | IgSign | IgBuild | IgPut | IgClose | IgVerify permanent_error | IgStatus int | IgHead
  | IgMime string string | IgReady asset_err | IgMark upload_err

text \<open>
  \<open>ie_put\<close>: the buffers the HTTP client reads with, and the status of the answer, \<open>None\<close> when
  the transport failed. \<open>ie_fault\<close>: the answers of the database to the writes of the job.
\<close>

record ingest_env =
  ie_registered :: "string \<Rightarrow> bool"
  ie_inspect :: inspect_answer
  ie_open :: "chunk list option"
  ie_verifier :: "(bool \<times> delivery list) option"
  ie_sha256 :: "string \<Rightarrow> 8 word list"
  ie_uuid :: "8 word list"
  ie_bucket :: string
  ie_retention_days :: int
  ie_fresh :: string
  ie_sign_ok :: bool
  ie_request_ok :: bool
  ie_put :: "nat list \<times> int option"
  ie_close_ok :: bool
  ie_head :: "(string \<times> int) option"
  ie_probe :: "MediaProbe option"
  ie_fault :: "nat \<Rightarrow> db_fault"
  ie_reason :: "ingest_err \<Rightarrow> string"
  ie_now :: time
  ie_dbnow :: time

record ingest_state =
  is_assets :: "MediaAsset list"
  is_jobs :: "UploadJob list"
  is_objects :: "(string \<times> string) list"

definition ingest_metadata :: "inspect_answer \<Rightarrow> ingest_err + SourceMetadata option" where
  "ingest_metadata a =
     (case a of InspectMissing \<Rightarrow> Inr None | InspectError \<Rightarrow> Inl IgInspect | Inspected md \<Rightarrow> Inr md)"

definition ingest_policy ::
  "ingest_env \<Rightarrow> UploadJob \<Rightarrow> SourceMetadata option \<Rightarrow> int \<Rightarrow> string \<Rightarrow>
   ingest_err + ArtifactVerificationPolicy" where
  "ingest_policy env job md sizeBytes contentType =
     (let policy = \<lparr>ExpectedSize = sizeBytes, ExpectedSHA256 = '''', ExpectedMIME = contentType,
                    RequireSHA = False\<rparr>
      in if uj_source_type job = ''velox_artifact''
         then case ie_verifier env of
                None \<Rightarrow> Inr policy
              | Some (ok, deliveries) \<Rightarrow>
                  (case GetExpectedTripleByUploadJobID ok (uj_id job) deliveries of
                     Inr (expSize, expSHA) \<Rightarrow>
                       if expSize > 0
                       then Inr (policy\<lparr>ExpectedSize := expSize, ExpectedSHA256 := expSHA, RequireSHA := True\<rparr>)
                       else Inl (IgTriple TeInvalid)
                   | Inl e \<Rightarrow> if IsDeliveryVerificationSkipErr (Some e) then Inr policy else Inl (IgTriple e))
         else if uj_source_type job = ''authenticated_drive''
         then Inr (case md of
                     None \<Rightarrow> policy
                   | Some m \<Rightarrow> policy\<lparr>ExpectedSHA256 := sm_sha256_hex m, RequireSHA := sm_sha256_hex m \<noteq> ''''\<rparr>)
         else Inr policy)"

text \<open>
  \<open>markAssetFailed\<close> with the text of the error; a failing write is only logged.
\<close>

definition ingest_reason :: "ingest_env \<Rightarrow> ingest_err \<Rightarrow> string" where
  "ingest_reason env e =
     (case e of IgStatus code \<Rightarrow> ''s3 upload returned '' @ FormatInt code | _ \<Rightarrow> ie_reason env e)"

definition markAssetFailed :: "ingest_env \<Rightarrow> string \<Rightarrow> ingest_err \<Rightarrow> ingest_state \<Rightarrow> ingest_state" where
  "markAssetFailed env i e s =
     s\<lparr>is_assets := snd (ma_MarkFailed (ie_fault env 1) (ie_now env) i (ingest_reason env e) (is_assets s))\<rparr>"

definition probeReadyAsset :: "ingest_env \<Rightarrow> string \<Rightarrow> ingest_state \<Rightarrow> ingest_state" where
  "probeReadyAsset env i s =
     s\<lparr>is_assets := snd (SaveProbe (ie_fault env 3) i
        (map_option (\<lambda>p. p\<lparr>mp_probed_at := ie_now env\<rparr>) (ie_probe env)) (is_assets s))\<rparr>"

text \<open>The end of the job: the asset is ready, the job is ingested.\<close>

definition ingest_record ::
  "ingest_env \<Rightarrow> UploadJob \<Rightarrow> string \<Rightarrow> string \<Rightarrow> string \<Rightarrow> int \<Rightarrow> ingest_state \<Rightarrow>
   ingest_err option \<times> ingest_state" where
  "ingest_record env job worker sha contentType sz s =
     (let (r, assets) = MarkReady (ie_fault env 1) (ie_now env) (ie_fresh env) sha sz contentType (is_assets s);
          s1 = s\<lparr>is_assets := assets\<rparr>
      in case r of
           Inl e \<Rightarrow> (Some (IgReady e), s1)
         | Inr _ \<Rightarrow>
             (let (r2, jobs) = MarkIngested (ie_fault env 2) (ie_dbnow env) (uj_id job) worker (ie_fresh env)
                                 sz (is_jobs s1);
                  s2 = s1\<lparr>is_jobs := jobs\<rparr>
              in case r2 of
                   Inl e \<Rightarrow> (Some (IgMark e), s2)
                 | Inr _ \<Rightarrow> (None, probeReadyAsset env (ie_fresh env) s2)))"

text \<open>From the answer to the PUT to the checks before the asset is ready.\<close>

definition ingest_check ::
  "ingest_env \<Rightarrow> UploadJob \<Rightarrow> string \<Rightarrow> ArtifactVerificationPolicy \<Rightarrow> artifactVerifyReader \<Rightarrow> int \<Rightarrow>
   ingest_state \<Rightarrow> ingest_err option \<times> ingest_state" where
  "ingest_check env job worker policy r status s =
     (let failed = (\<lambda>e. (Some e, markAssetFailed env (ie_fresh env) e s));
          (closed, r') = av_Close (ie_close_ok env) r
      in if \<not> closed then failed IgClose
         else case Verify (ie_sha256 env) r' of
           Some e \<Rightarrow> failed (IgVerify e)
         | None \<Rightarrow>
             if status \<ge> 300 then failed (IgStatus status)
             else case ie_head env of
               None \<Rightarrow> failed IgHead
             | Some (contentType, sz) \<Rightarrow>
                 if ExpectedMIME policy \<noteq> '''' \<and> contentType \<noteq> ExpectedMIME policy
                 then failed (IgMime (ExpectedMIME policy) contentType)
                 else ingest_record env job worker (ActualSHA256Hex (ie_sha256 env) r') contentType sz s)"

definition ingest_upload ::
  "ingest_env \<Rightarrow> UploadJob \<Rightarrow> string \<Rightarrow> ArtifactVerificationPolicy \<Rightarrow> artifactVerifyReader \<Rightarrow> int \<Rightarrow> string \<Rightarrow>
   ingest_state \<Rightarrow> ingest_err option \<times> ingest_state" where
  "ingest_upload env job worker policy r sizeBytes contentType s =
     (let key = BuildUploadKey (uj_user_id job) (newUUID4 (ie_uuid env)) (uj_source_id job);
          buffer = (if ie_retention_days env \<le> 0 then 7 else ie_retention_days env);
          asset = \<lparr>ma_id = '''', ma_user_id = uj_user_id job, ma_upload_key = key,
                   ma_bucket = Some (ie_bucket env), ma_content_type = contentType, ma_size_bytes = sizeBytes,
                   ma_status = MediaAssetStatusPending, ma_sha256 = '''', ma_error_message = '''',
                   ma_expires_at = ie_now env + buffer * day, ma_created_at = 0, ma_updated_at = 0,
                   ma_probe = None\<rparr>;
          (c, assets) = ma_Create (ie_fault env 0) (ie_dbnow env) (ie_fresh env) asset (is_assets s);
          s1 = s\<lparr>is_assets := assets\<rparr>
      in case c of
           Inl e \<Rightarrow> (Some (IgCreate e), s1)
         | Inr _ \<Rightarrow>
             if \<not> ie_sign_ok env then (Some IgSign, markAssetFailed env (ie_fresh env) IgSign s1)
             else if \<not> ie_request_ok env then (Some IgBuild, markAssetFailed env (ie_fresh env) IgBuild s1)
             else
               let (bytes, e, r') = drain (fst (ie_put env)) r
               in (case snd (ie_put env) of
                     None \<Rightarrow> (Some IgPut, markAssetFailed env (ie_fresh env) IgPut s1)
                   | Some status \<Rightarrow>
                       ingest_check env job worker policy r' status
                         (if 200 \<le> status \<and> status < 300 then s1\<lparr>is_objects := (key, bytes) # is_objects s1\<rparr>
                          else s1)))"

definition processIngestJob ::
  "ingest_env \<Rightarrow> UploadJob \<Rightarrow> string \<Rightarrow> ingest_state \<Rightarrow> ingest_err option \<times> ingest_state" where
  "processIngestJob env job worker s =
     (if \<not> ie_registered env (uj_source_type job) then (Some IgUnsupported, s)
      else case ingest_metadata (ie_inspect env) of
        Inl e \<Rightarrow> (Some e, s)
      | Inr md \<Rightarrow>
          (let sizeBytes = (case md of None \<Rightarrow> 0 | Some m \<Rightarrow> sm_size_bytes m);
               contentType = (case md of None \<Rightarrow> '''' | Some m \<Rightarrow> sm_mime_type m)
           in if ie_open env = None then (Some IgOpen, s)
              else if sizeBytes \<le> 0 then (Some IgUnknownSize, s)
              else case ingest_policy env job md sizeBytes contentType of
                Inl e \<Rightarrow> (Some e, s)
              | Inr policy \<Rightarrow>
                  (case NewArtifactVerifyReader (ie_open env) policy of
                     None \<Rightarrow> (Some IgOpen, s)
                   | Some r \<Rightarrow> ingest_upload env job worker policy r sizeBytes contentType s)))"

end
