(* ===== verification/IngestProofs.thy ===== *)
theory IngestProofs
  imports IngestJob
begin

text \<open>
  What the ingest half guarantees: an asset becomes ready only with the verified bytes behind it,
  and a job only moves on with such an asset.
\<close>

section \<open>What the steps can change\<close>

text \<open>
  The fresh row aside, nothing changes in the table of assets; and the fresh row is not ready
  unless \<open>ingest_record\<close> made it so.
\<close>

definition only_fresh :: "string \<Rightarrow> MediaAsset list \<Rightarrow> MediaAsset list \<Rightarrow> bool" where
  "only_fresh i t t' \<longleftrightarrow>
     filter (\<lambda>a. ma_id a \<noteq> i) t' = filter (\<lambda>a. ma_id a \<noteq> i) t \<and>
     map ma_id t' = map ma_id t \<and> map ma_upload_key t' = map ma_upload_key t \<and>
     map ma_user_id t' = map ma_user_id t \<and> map ma_bucket t' = map ma_bucket t \<and>
     map ma_expires_at t' = map ma_expires_at t"

definition quiet :: "string \<Rightarrow> MediaAsset list \<Rightarrow> bool" where
  "quiet i t \<longleftrightarrow> (\<forall>a \<in> set t. ma_id a = i \<longrightarrow> ma_status a \<noteq> MediaAssetStatusReady)"

lemma only_fresh_refl [simp]: "only_fresh i t t"
  by (simp add: only_fresh_def)

lemma only_fresh_trans: "only_fresh i t u \<Longrightarrow> only_fresh i u v \<Longrightarrow> only_fresh i t v"
  by (simp add: only_fresh_def)

lemma only_fresh_update:
  assumes "\<And>a. ma_id (f a) = ma_id a \<and> ma_upload_key (f a) = ma_upload_key a \<and>
    ma_user_id (f a) = ma_user_id a \<and> ma_bucket (f a) = ma_bucket a \<and> ma_expires_at (f a) = ma_expires_at a"
  shows "only_fresh i t (update_where (\<lambda>a. ma_id a = i) f t)"
proof -
  have "filter (\<lambda>a. ma_id a \<noteq> i) (update_where (\<lambda>a. ma_id a = i) f t) = filter (\<lambda>a. ma_id a \<noteq> i) t"
    by (induction t) (auto simp: assms)
  then show ?thesis by (simp add: only_fresh_def map_update_where assms)
qed

lemma snd_ma_affected [simp]: "snd (ma_affected res) = snd res"
  by (simp add: ma_affected_def)

lemma not_failed_ready: "MediaAssetStatusFailed \<noteq> MediaAssetStatusReady"
  by (simp add: ma_status_defs)

lemma quiet_update:
  assumes "quiet i t" and "\<And>a. ma_id (f a) = ma_id a" and "\<And>a. ma_status (f a) \<noteq> MediaAssetStatusReady"
  shows "quiet i (update_where (\<lambda>a. ma_id a = i) f t)"
  using assms by (induction t) (simp_all add: quiet_def)

lemma ma_MarkFailed_effect:
  "only_fresh i t (snd (ma_MarkFailed flt now i reason t))"
  "quiet i t \<Longrightarrow> quiet i (snd (ma_MarkFailed flt now i reason t))"
  by (simp_all add: ma_MarkFailed_def exec_update_table only_fresh_update quiet_update not_failed_ready)

lemma SaveProbe_effect:
  "only_fresh i t (snd (SaveProbe flt i p t))"
  "map ma_status (snd (SaveProbe flt i p t)) = map ma_status t"
  "map ma_sha256 (snd (SaveProbe flt i p t)) = map ma_sha256 t"
  by (cases p; simp add: SaveProbe_def case_prod_beta exec_update_table only_fresh_update map_update_where)+

lemma MarkReady_effect:
  "only_fresh i t (snd (MarkReady flt now i sha sz ct t))"
  by (simp add: MarkReady_def exec_update_table only_fresh_update)

section \<open>The recording of a verified asset\<close>

lemma exec_update_fst: "fst (exec_update flt p f t) = Some n \<Longrightarrow> flt = DbOk \<and> n = rows_affected p t"
  by (cases flt) simp_all

lemma MarkReady_Inr:
  assumes "MarkReady flt now i sha sz ct t = (Inr (), t')"
  shows "\<forall>a \<in> set t'. ma_id a = i \<longrightarrow> ma_status a = MediaAssetStatusReady \<and> ma_sha256 a = sha"
proof -
  have sha: "sha \<noteq> ''''" using assms by (auto simp: MarkReady_def)
  have "flt = DbOk" using assms sha
    by (cases flt) (auto simp: MarkReady_def ma_affected_def split: option.splits if_splits)
  then have "t' = update_where (\<lambda>r. ma_id r = i) (\<lambda>r. r\<lparr>ma_status := MediaAssetStatusReady, ma_sha256 := sha,
      ma_size_bytes := sz, ma_content_type := ct, ma_error_message := '''', ma_updated_at := now\<rparr>) t"
    using assms sha by (simp add: MarkReady_def ma_affected_def)
  then show ?thesis by (induction t arbitrary: t') auto
qed

lemma MarkReady_ready_rows:
  assumes "quiet i t" and "a \<in> set (snd (MarkReady flt now i sha sz ct t))" and "ma_id a = i"
    and "ma_status a = MediaAssetStatusReady"
  shows "ma_sha256 a = sha"
proof -
  have "\<forall>a \<in> set (update_where (\<lambda>r. ma_id r = i) (\<lambda>r. r\<lparr>ma_status := MediaAssetStatusReady, ma_sha256 := sha,
      ma_size_bytes := sz, ma_content_type := ct, ma_error_message := '''', ma_updated_at := now\<rparr>) t).
      ma_id a = i \<longrightarrow> ma_sha256 a = sha"
    by (induction t) auto
  with assms show ?thesis
    by (auto simp: MarkReady_def exec_update_table quiet_def split: if_splits)
qed

definition ready_as :: "string \<Rightarrow> string \<Rightarrow> MediaAsset list \<Rightarrow> bool" where
  "ready_as i sha t \<longleftrightarrow>
     (\<forall>a \<in> set t. ma_id a = i \<and> ma_status a = MediaAssetStatusReady \<longrightarrow> ma_sha256 a = sha)"

lemma ready_as_cong:
  assumes "map ma_id t' = map ma_id t" and "map ma_status t' = map ma_status t"
    and "map ma_sha256 t' = map ma_sha256 t"
  shows "ready_as i sha t' \<longleftrightarrow> ready_as i sha t"
proof -
  have "length t' = length t" using assms(1) by (rule map_eq_imp_length_eq)
  moreover have "\<forall>k < length t. ma_id (t' ! k) = ma_id (t ! k) \<and> ma_status (t' ! k) = ma_status (t ! k) \<and>
      ma_sha256 (t' ! k) = ma_sha256 (t ! k)"
    using assms calculation by (metis nth_map)
  ultimately show ?thesis by (auto simp: ready_as_def all_set_conv_all_nth)
qed

lemma ingest_record_effect:
  assumes "ingest_record env job worker sha ct sz s = (e, s')" and "quiet (ie_fresh env) (is_assets s)"
  shows "only_fresh (ie_fresh env) (is_assets s) (is_assets s') \<and> is_objects s' = is_objects s \<and>
    ready_as (ie_fresh env) sha (is_assets s') \<and>
    (is_jobs s' \<noteq> is_jobs s \<or> e = None \<longrightarrow>
       (\<forall>a \<in> set (is_assets s'). ma_id a = ie_fresh env \<longrightarrow> ma_status a = MediaAssetStatusReady) \<and>
       (\<exists>r. MarkIngested (ie_fault env 2) (ie_dbnow env) (uj_id job) worker (ie_fresh env) sz (is_jobs s) =
              (r, is_jobs s') \<and> (e = None \<longrightarrow> r = Inr ())))"
proof -
  let ?i = "ie_fresh env"
  obtain r t1 where m: "MarkReady (ie_fault env 1) (ie_now env) ?i sha sz ct (is_assets s) = (r, t1)"
    by (metis surj_pair)
  have f1: "only_fresh ?i (is_assets s) t1" using MarkReady_effect [of ?i "is_assets s"] m by (metis snd_conv)
  have r1: "ready_as ?i sha t1"
    using MarkReady_ready_rows [OF assms(2)] m unfolding ready_as_def by (metis snd_conv)
  show ?thesis
  proof (cases r)
    case (Inl x)
    then show ?thesis using assms(1) m f1 r1 by (auto simp: ingest_record_def Let_def)
  next
    case (Inr u)
    then have ready: "\<forall>a \<in> set t1. ma_id a = ?i \<longrightarrow> ma_status a = MediaAssetStatusReady"
      using MarkReady_Inr [of "ie_fault env 1" "ie_now env" ?i sha sz ct "is_assets s" t1] m by simp
    obtain r2 jobs where m2: "MarkIngested (ie_fault env 2) (ie_dbnow env) (uj_id job) worker ?i sz (is_jobs s) =
        (r2, jobs)" by (metis surj_pair)
    show ?thesis
    proof (cases r2)
      case (Inl x)
      then show ?thesis using assms(1) m m2 f1 r1 ready \<open>r = Inr u\<close>
        by (auto simp: ingest_record_def Let_def)
    next
      case (Inr v)
      define t2 where "t2 = snd (SaveProbe (ie_fault env 3) ?i
        (map_option (\<lambda>p. p\<lparr>mp_probed_at := ie_now env\<rparr>) (ie_probe env)) t1)"
      have s': "is_assets s' = t2" "is_jobs s' = jobs" "is_objects s' = is_objects s" "e = None"
        using assms(1) m m2 Inr \<open>r = Inr u\<close>
        by (auto simp: ingest_record_def Let_def probeReadyAsset_def t2_def)
      have f2: "only_fresh ?i t1 t2" and st: "map ma_status t2 = map ma_status t1"
        "map ma_sha256 t2 = map ma_sha256 t1"
        unfolding t2_def by (rule SaveProbe_effect)+
      have ids: "map ma_id t2 = map ma_id t1" using f2 by (simp add: only_fresh_def)
      have "ready_as ?i sha t2" using ready_as_cong [OF ids st] r1 by simp
      moreover have "\<forall>a \<in> set t2. ma_id a = ?i \<longrightarrow> ma_status a = MediaAssetStatusReady"
      proof -
        have "length t2 = length t1" using ids by (rule map_eq_imp_length_eq)
        then show ?thesis using ready ids st(1) by (auto simp: all_set_conv_all_nth) (metis nth_map)
      qed
      ultimately show ?thesis using s' m2 Inr only_fresh_trans [OF f1 f2] by auto
    qed
  qed
qed

section \<open>The checks before\<close>

definition unmoved :: "ingest_env \<Rightarrow> ingest_state \<Rightarrow> ingest_err option \<times> ingest_state \<Rightarrow> bool" where
  "unmoved env s res \<longleftrightarrow>
     only_fresh (ie_fresh env) (is_assets s) (is_assets (snd res)) \<and> quiet (ie_fresh env) (is_assets (snd res)) \<and>
     is_jobs (snd res) = is_jobs s \<and> is_objects (snd res) = is_objects s \<and> fst res \<noteq> None"

lemma markAssetFailed_unmoved:
  "quiet (ie_fresh env) (is_assets s) \<Longrightarrow> unmoved env s (Some e, markAssetFailed env (ie_fresh env) e s)"
  by (simp add: unmoved_def markAssetFailed_def ma_MarkFailed_effect)

lemma ingest_check_cases:
  assumes "ingest_check env job worker policy r status s = (e, s')" and "quiet (ie_fresh env) (is_assets s)"
  shows "unmoved env s (e, s') \<or>
    Verify (ie_sha256 env) (snd (av_Close (ie_close_ok env) r)) = None \<and> status < 300 \<and>
    (\<exists>ct sz. ie_head env = Some (ct, sz) \<and> (ExpectedMIME policy \<noteq> '''' \<longrightarrow> ct = ExpectedMIME policy) \<and>
       ingest_record env job worker (ActualSHA256Hex (ie_sha256 env) (snd (av_Close (ie_close_ok env) r))) ct sz s =
         (e, s'))"
proof -
  obtain c r' where c: "av_Close (ie_close_ok env) r = (c, r')" by (metis surj_pair)
  note mf = markAssetFailed_unmoved [OF assms(2)]
  show ?thesis
    using assms(1) mf unfolding ingest_check_def Let_def c
    by (auto split: if_splits option.splits)
qed

section \<open>Properties\<close>

text \<open>The asset that \<open>ingest_upload\<close> creates.\<close>

definition ingest_key :: "ingest_env \<Rightarrow> UploadJob \<Rightarrow> string" where
  "ingest_key env job = BuildUploadKey (uj_user_id job) (newUUID4 (ie_uuid env)) (uj_source_id job)"

definition verified_bytes :: "ingest_env \<Rightarrow> UploadJob \<Rightarrow> string \<Rightarrow> (string \<times> string) list \<Rightarrow> bool" where
  "verified_bytes env job sha objects \<longleftrightarrow>
     (\<exists>body bytes md policy.
        ie_open env = Some body \<and> prefix bytes (body_bytes body) \<and>
        (ingest_key env job, bytes) \<in> set objects \<and> sha = EncodeToString (ie_sha256 env bytes) \<and>
        ingest_metadata (ie_inspect env) = Inr (Some md) \<and>
        ingest_policy env job (Some md) (sm_size_bytes md) (sm_mime_type md) = Inr policy \<and>
        0 < ExpectedSize policy \<and> int (length bytes) = ExpectedSize policy \<and>
        (RequireSHA policy \<longrightarrow> sha = ExpectedSHA256 policy))"

lemma ma_Create_new:
  assumes "ma_Create flt now i asset t = (c, t')" and "i \<notin> ma_id ` set t"
    and "ma_status asset = MediaAssetStatusPending"
  shows "filter (\<lambda>a. ma_id a \<noteq> i) t' = t \<and> quiet i t' \<and>
    (c \<noteq> Inl AeDatabase \<and> (\<forall>x. c \<noteq> Inl x) \<longrightarrow> (\<exists>a \<in> set t'. ma_id a = i)) \<and>
    (\<forall>a \<in> set t'. ma_id a = i \<longrightarrow> ma_upload_key a = ma_upload_key asset)"
proof -
  have ne: "MediaAssetStatusPending \<noteq> ''''" "MediaAssetStatusPending \<noteq> MediaAssetStatusReady"
    by (simp_all add: ma_status_defs)
  have ids: "\<forall>a \<in> set t. ma_id a \<noteq> i" using assms(2) by force
  then have old: "filter (\<lambda>a. ma_id a \<noteq> i) t = t" "quiet i t"
    by (simp_all add: filter_id_conv quiet_def)
  have "(\<exists>x. c = Inl x) \<and> t' = t \<or> (\<exists>row. t' = t @ [row] \<and> ma_id row = i \<and>
      ma_status row = MediaAssetStatusPending \<and> ma_upload_key row = ma_upload_key asset)"
    using assms(1,3) ne(1) by (auto simp: ma_Create_def Let_def split: if_splits)
  then show ?thesis using ids old ne(2) by (elim disjE) (auto simp: quiet_def)
qed

lemma only_fresh_others:
  assumes "only_fresh i t t'"
  shows "filter (\<lambda>a. ma_id a \<noteq> i) t' = filter (\<lambda>a. ma_id a \<noteq> i) t"
    and "i \<in> ma_id ` set t' \<longleftrightarrow> i \<in> ma_id ` set t"
proof -
  note o = assms
  then show "filter (\<lambda>a. ma_id a \<noteq> i) t' = filter (\<lambda>a. ma_id a \<noteq> i) t"
    by (simp only: only_fresh_def)
  have "set (map ma_id t') = set (map ma_id t)" using o by (simp only: only_fresh_def)
  then show "i \<in> ma_id ` set t' \<longleftrightarrow> i \<in> ma_id ` set t" by simp
qed

lemma processIngestJob_effect:
  assumes "processIngestJob env job worker s = (e, s')" and "ie_fresh env \<notin> ma_id ` set (is_assets s)"
    and "\<forall>st. snd (ie_put env) = Some st \<longrightarrow> 200 \<le> st"
  shows "filter (\<lambda>a. ma_id a \<noteq> ie_fresh env) (is_assets s') = is_assets s \<and>
    (\<forall>a \<in> set (is_assets s'). ma_id a = ie_fresh env \<and> ma_status a = MediaAssetStatusReady \<longrightarrow>
       verified_bytes env job (ma_sha256 a) (is_objects s')) \<and>
    (is_jobs s' \<noteq> is_jobs s \<or> e = None \<longrightarrow>
       (\<exists>a \<in> set (is_assets s'). ma_id a = ie_fresh env \<and> ma_status a = MediaAssetStatusReady) \<and>
       (\<exists>r sz. MarkIngested (ie_fault env 2) (ie_dbnow env) (uj_id job) worker (ie_fresh env) sz (is_jobs s) =
              (r, is_jobs s') \<and> (e = None \<longrightarrow> r = Inr ())))"
proof -
  let ?i = "ie_fresh env"
  have keep: ?thesis if "s' = s" "e \<noteq> None"
  proof -
    have "\<forall>a \<in> set (is_assets s). ma_id a \<noteq> ?i" using assms(2) by force
    then show ?thesis using that by (simp add: filter_id_conv)
  qed
  show ?thesis
  proof (cases "\<exists>md policy r. ingest_metadata (ie_inspect env) = Inr (Some md) \<and> 0 < sm_size_bytes md \<and>
      ingest_policy env job (Some md) (sm_size_bytes md) (sm_mime_type md) = Inr policy \<and>
      NewArtifactVerifyReader (ie_open env) policy = Some r \<and>
      ingest_upload env job worker policy r (sm_size_bytes md) (sm_mime_type md) s = (e, s')")
    case False
    have "s' = s \<and> e \<noteq> None"
      using assms(1) False
      by (auto simp: processIngestJob_def Let_def split: if_splits sum.splits option.splits)
    then show ?thesis using keep by blast
  next
    case True
    then obtain md policy r where md: "ingest_metadata (ie_inspect env) = Inr (Some md)"
      and pos: "0 < sm_size_bytes md"
      and pol: "ingest_policy env job (Some md) (sm_size_bytes md) (sm_mime_type md) = Inr policy"
      and rd: "NewArtifactVerifyReader (ie_open env) policy = Some r"
      and up: "ingest_upload env job worker policy r (sm_size_bytes md) (sm_mime_type md) s = (e, s')"
      by blast
    from rd obtain body where body: "ie_open env = Some body"
      by (auto simp: NewArtifactVerifyReader_def split: option.splits)
    have psize: "0 < ExpectedSize policy"
      using pol pos by (auto simp: ingest_policy_def Let_def split: if_splits option.splits sum.splits)
    define asset where "asset = \<lparr>ma_id = '''', ma_user_id = uj_user_id job, ma_upload_key = ingest_key env job,
        ma_bucket = Some (ie_bucket env), ma_content_type = sm_mime_type md, ma_size_bytes = sm_size_bytes md,
        ma_status = MediaAssetStatusPending, ma_sha256 = '''', ma_error_message = '''',
        ma_expires_at = ie_now env + (if ie_retention_days env \<le> 0 then 7 else ie_retention_days env) * day,
        ma_created_at = 0, ma_updated_at = 0, ma_probe = None\<rparr>"
    obtain c t1 where create: "ma_Create (ie_fault env 0) (ie_dbnow env) ?i asset (is_assets s) = (c, t1)"
      by (metis surj_pair)
    note new = ma_Create_new [OF create assms(2)]
    have new: "filter (\<lambda>a. ma_id a \<noteq> ?i) t1 = is_assets s" "quiet ?i t1"
      "\<And>u. c = Inr u \<Longrightarrow> \<exists>a \<in> set t1. ma_id a = ?i"
      using new by (auto simp: asset_def)
    let ?s1 = "s\<lparr>is_assets := t1\<rparr>"
    have still: ?thesis if "unmoved env s2 (e, s')" "is_assets s2 = t1" "is_jobs s2 = is_jobs s" for s2
      using that new only_fresh_others(1) [of ?i t1 "is_assets s'"]
      by (auto simp: unmoved_def quiet_def)
    show ?thesis
    proof (cases "c = Inr ?i \<or> (\<exists>u. c = Inr u)")
      case False
      then obtain x where "c = Inl x" by (cases c) auto
      with up create have "e = Some (IgCreate x)" "s' = ?s1"
        by (simp_all add: ingest_upload_def asset_def ingest_key_def Let_def)
      then show ?thesis using new by (auto simp: quiet_def)
    next
      case True
      then obtain u where u: "c = Inr u" by blast
      obtain bytes de r' where d: "drain (fst (ie_put env)) r = (bytes, de, r')" by (metis prod_cases3)
      let ?s2 = "\<lambda>st. if 200 \<le> st \<and> st < 300 then ?s1\<lparr>is_objects := (ingest_key env job, bytes) # is_objects ?s1\<rparr> else ?s1"
      show ?thesis
      proof (cases "\<exists>x. (e, s') = (Some x, markAssetFailed env ?i x ?s1)")
        case True
        then show ?thesis using still [of ?s1] markAssetFailed_unmoved [of env ?s1] new(2) by auto
      next
        case False
        with up create u d obtain st where st: "snd (ie_put env) = Some st"
          and chk: "ingest_check env job worker policy r' st (?s2 st) = (e, s')"
          by (auto simp: ingest_upload_def asset_def ingest_key_def Let_def split: if_splits option.splits)
        have a2: "is_assets (?s2 st) = t1" "is_jobs (?s2 st) = is_jobs s" by simp_all
        have q2: "quiet ?i (is_assets (?s2 st))" using new(2) a2 by simp
        show ?thesis
        proof (cases "unmoved env (?s2 st) (e, s')")
          case True
          then show ?thesis by (rule still) (rule a2)+
        next
          case False
          let ?sha = "ActualSHA256Hex (ie_sha256 env) (snd (av_Close (ie_close_ok env) r'))"
          from ingest_check_cases [OF chk q2] False obtain ct sz where
            ver: "Verify (ie_sha256 env) (snd (av_Close (ie_close_ok env) r')) = None" and lt: "st < 300"
            and rec: "ingest_record env job worker ?sha ct sz (?s2 st) = (e, s')" by blast
          note eff = ingest_record_effect [OF rec q2, unfolded a2]
          note sound = artifact_verify_sound [OF rd [unfolded body] d ver]
          have obj: "(ingest_key env job, bytes) \<in> set (is_objects s')"
            using eff assms(3) st lt by auto
          have vb: "verified_bytes env job ?sha (is_objects s')"
            unfolding verified_bytes_def
            using body obj md pol psize sound by (intro exI [of _ body] exI [of _ bytes] exI [of _ md] exI [of _ policy]) auto
          have fr: "only_fresh ?i t1 (is_assets s')" using eff by simp
          have ex: "\<exists>a \<in> set (is_assets s'). ma_id a = ?i"
            using only_fresh_others(2) [OF fr] new(3) [OF u] by (metis imageE image_eqI)
          show ?thesis
            using eff vb ex only_fresh_others(1) [OF fr] new(1) unfolding ready_as_def by (metis (no_types, lifting))
        qed
      qed
    qed
  qed
qed

lemma ingest_success_ready:
  assumes "processIngestJob env job worker s = (None, s')" and "ie_fresh env \<notin> ma_id ` set (is_assets s)"
    and "\<forall>st. snd (ie_put env) = Some st \<longrightarrow> 200 \<le> st"
  shows "\<exists>a \<in> set (is_assets s'). ma_id a = ie_fresh env \<and> ma_status a = MediaAssetStatusReady"
  using processIngestJob_effect [OF assms] by blast

text \<open>
  C6: no unverified video is ever published. Whatever the source, the network, the object store
  and the database answer, the execution of an ingest job leaves all other assets alone; if its
  asset becomes ready, then the object under its key consists of bytes the source delivered, their
  number is the declared one (for a Velox artifact the number and hash of the delivery row),
  the recorded hash is their hash and equals the declared one where there is one; and the job
  only moves on, and the execution only succeeds, with such an asset.
\<close>

theorem ingest_ready_verified:
  assumes "processIngestJob env job worker s = (e, s')" and "ie_fresh env \<notin> ma_id ` set (is_assets s)"
    and "\<forall>st. snd (ie_put env) = Some st \<longrightarrow> 200 \<le> st"
  shows "filter (\<lambda>a. ma_id a \<noteq> ie_fresh env) (is_assets s') = is_assets s \<and>
    (\<forall>a \<in> set (is_assets s'). ma_id a = ie_fresh env \<and> ma_status a = MediaAssetStatusReady \<longrightarrow>
       verified_bytes env job (ma_sha256 a) (is_objects s')) \<and>
    (is_jobs s' \<noteq> is_jobs s \<or> e = None \<longrightarrow>
       (\<exists>a \<in> set (is_assets s'). ma_id a = ie_fresh env \<and> ma_status a = MediaAssetStatusReady) \<and>
       (\<exists>r sz. MarkIngested (ie_fault env 2) (ie_dbnow env) (uj_id job) worker (ie_fresh env) sz (is_jobs s) =
              (r, is_jobs s') \<and> (e = None \<longrightarrow> r = Inr ())))"
  using processIngestJob_effect [OF assms] .

definition sample_ingest :: ingest_env where
  "sample_ingest =
     \<lparr>ie_registered = (\<lambda>_. True), ie_inspect = Inspected (Some \<lparr>sm_size_bytes = 3, sm_mime_type = '''', sm_sha256_hex = ''''\<rparr>),
      ie_open = Some [Chunk ''abc''], ie_verifier = None, ie_sha256 = (\<lambda>_. [1]), ie_uuid = replicate 16 0,
      ie_bucket = ''media'', ie_retention_days = 0, ie_fresh = ''a9'', ie_sign_ok = True, ie_request_ok = True,
      ie_put = ([8, 8], Some 200), ie_close_ok = True, ie_head = Some ('''', 3), ie_probe = None,
      ie_fault = (\<lambda>_. DbOk), ie_reason = (\<lambda>_. ''''), ie_now = 0, ie_dbnow = 0\<rparr>"

lemma sample_ingest_runs:
  "\<exists>s'. processIngestJob sample_ingest (sample_job\<lparr>uj_source_type := ty\<rparr>) ''A''
     \<lparr>is_assets = [], is_jobs = [lease_stamp 0 ''A'' second sample_job], is_objects = []\<rparr> = (None, s')"
proof -
  let ?policy = "\<lparr>ExpectedSize = 3, ExpectedSHA256 = '''', ExpectedMIME = '''', RequireSHA = False\<rparr>"
  let ?r = "\<lparr>av_body = [Chunk ''abc''], av_hash = '''', av_policy = ?policy, av_byteCount = 0,
    av_closed = False, av_resultError = None\<rparr>"
  let ?r' = "\<lparr>av_body = [], av_hash = ''abc'', av_policy = ?policy, av_byteCount = 3,
    av_closed = False, av_resultError = None\<rparr>"
  have d: "drain [8, 8] ?r = (''abc'', Some IoEOF, ?r')"
    by (simp add: av_Read_def av_take_def Let_def)
  have v: "Verify f (snd (av_Close True ?r')) = None" for f
    by (simp add: Verify_def av_Close_def verifySizeExact_def)
  have m: "ma_IsValid ''pending''" by (simp add: ma_IsValid_def ma_status_defs)
  have sha: "EncodeToString [1] \<noteq> ''''" by (simp add: EncodeToString_def hex_byte_def)
  show ?thesis
    using d v m sha
    by (simp add: processIngestJob_def sample_ingest_def ingest_metadata_def ingest_policy_def
        sample_job_def NewArtifactVerifyReader_def ingest_upload_def Let_def ma_Create_def
        ma_status_defs ingest_check_def av_Close_def ActualSHA256Hex_def ingest_record_def
        MarkReady_def ma_affected_def MarkIngested_def exec_upload_write_def holds_lease_def
        lease_stamp_def)
qed

theorem ingest_ready_verified_witness:
  "\<exists>s' a. processIngestJob sample_ingest sample_job ''A''
       \<lparr>is_assets = [], is_jobs = [lease_stamp 0 ''A'' second sample_job], is_objects = []\<rparr> = (None, s') \<and>
     a \<in> set (is_assets s') \<and> verified_bytes sample_ingest sample_job (ma_sha256 a) (is_objects s')"
proof -
  let ?s = "\<lparr>is_assets = [], is_jobs = [lease_stamp 0 ''A'' second sample_job], is_objects = []\<rparr>"
  obtain s' where r: "processIngestJob sample_ingest sample_job ''A'' ?s = (None, s')"
    using sample_ingest_runs [of "''velox_artifact''"] by (auto simp: sample_job_def)
  have "\<forall>st. snd (ie_put sample_ingest) = Some st \<longrightarrow> 200 \<le> st" by (simp add: sample_ingest_def)
  from ingest_ready_verified [OF r _ this] r show ?thesis by auto
qed

end
