(* ===== verification/PublishJob.thy ===== *)
theory PublishJob
  imports PostCreate YouTubePool IngestProofs
begin

text \<open>
  The publish half of an upload job, \<open>processPublishJob\<close> of
  \<open>internal/worker/upload_worker_publish.go\<close>: the post of the job is created, its YouTube
  deliveries are materialised, a post that is due is triggered, and the job is closed. The state
  is the store of \<open>PostCreate\<close>, the table of deliveries and the table of jobs.
\<close>

record publish_job_state =
  pj_store :: post_store
  pj_pubs :: "ytpub list"
  pj_jobs :: "UploadJob list"

datatype publish_job_err =
    PjMissingAsset | PjCreate create_err | PjAccounts | PjMaterialize materialize_err
  | PjTrigger post_err | PjMark upload_err

text \<open>
  \<open>pe_accounts\<close> is the batched look-up of the accounts (\<open>None\<close> when it fails), \<open>pe_now\<close> the
  readings of the clock in the order in which they are taken.
\<close>

record publish_job_env =
  pe_uuid :: "8 word list"
  pe_storage :: S3Provider
  pe_create_fault :: tx_fault
  pe_jsonb :: "string \<Rightarrow> bool"
  pe_marshal :: "Post \<Rightarrow> PostTarget \<Rightarrow> string option"
  pe_wired :: bool
  pe_accounts :: "(int \<Rightarrow> PlatformAccount option) option"
  pe_decode :: "string \<Rightarrow> (string \<Rightarrow> publish_snapshot option) option"
  pe_answer :: "int \<Rightarrow> store_answer"
  pe_publish_fault :: tx_fault
  pe_mark_fault :: db_fault
  pe_now :: "nat \<Rightarrow> time"
  pe_dbnow :: time

text \<open>The key is built afresh; only Velox jobs leave the mirrors of the asset empty.\<close>

definition post_of_job :: "publish_job_env \<Rightarrow> UploadJob \<Rightarrow> string \<Rightarrow> Post" where
  "post_of_job env job assetID =
     (let key = BuildUploadKey (uj_user_id job) (newUUID4 (pe_uuid env)) (uj_source_id job);
          velox = (uj_source_type job = ''velox_artifact'')
      in blank_post\<lparr>p_workspace_id := uj_workspace_id job, p_title := uj_title job,
           p_caption := uj_caption job, p_metadata := uj_metadata job,
           p_media_url := (if velox then '''' else AssetURL (pe_storage env) key),
           p_media_asset_id := Some assetID,
           p_storage_object_key := (if velox then None else Some key),
           p_bucket := (if velox then None else Some (s3_bucket (pe_storage env))),
           p_status := PSQueued, p_ingest_after := uj_ingest_after job,
           p_publish_at := uj_publish_at job,
           p_default_privacy_level := uj_default_privacy_level job,
           p_upload_job_id := Some (uj_id job)\<rparr>)"

text \<open>Only positive account ids are looked up.\<close>

definition accounts_by_id :: "(int \<Rightarrow> PlatformAccount option) \<Rightarrow> int \<Rightarrow> PlatformAccount option" where
  "accounts_by_id acc i = (if i > 0 then acc i else None)"

definition close_job ::
  "publish_job_env \<Rightarrow> UploadJob \<Rightarrow> string \<Rightarrow> int \<Rightarrow> string \<Rightarrow> publish_job_state \<Rightarrow>
   publish_job_err option \<times> publish_job_state" where
  "close_job env job worker postID assetID s =
     (let (r, jobs) =
        (if some_and (\<lambda>t. t > pe_now env 3) (uj_publish_at job)
         then MarkPrepared (pe_mark_fault env) (pe_dbnow env) (uj_id job) worker postID assetID (pj_jobs s)
         else MarkCompleted (pe_mark_fault env) (pe_dbnow env) (uj_id job) worker postID assetID (pj_jobs s))
      in (case r of Inl e \<Rightarrow> Some (PjMark e) | Inr _ \<Rightarrow> None, s\<lparr>pj_jobs := jobs\<rparr>))"

definition trigger_and_close ::
  "publish_job_env \<Rightarrow> UploadJob \<Rightarrow> string \<Rightarrow> int \<Rightarrow> string \<Rightarrow> publish_job_state \<Rightarrow>
   publish_job_err option \<times> publish_job_state" where
  "trigger_and_close env job worker postID assetID s =
     (if null_or (\<lambda>t. t \<le> pe_now env 2) (uj_publish_at job)
      then
        let (r, db) = PublishPost (pe_publish_fault env) (pe_dbnow env) postID (ps_db (pj_store s));
            s1 = s\<lparr>pj_store := (pj_store s)\<lparr>ps_db := db\<rparr>\<rparr>
        in (case r of
              Inl e \<Rightarrow> (Some (PjTrigger e), s1)
            | Inr _ \<Rightarrow> close_job env job worker postID assetID s1)
      else close_job env job worker postID assetID s)"

definition processPublishJob ::
  "publish_job_env \<Rightarrow> UploadJob \<Rightarrow> string \<Rightarrow> publish_job_state \<Rightarrow>
   publish_job_err option \<times> publish_job_state" where
  "processPublishJob env job worker s =
     (if deref (uj_asset_id job) = '''' then (Some PjMissingAsset, s)
      else
        let assetID = deref (uj_asset_id job);
            (c, store) = Create (pe_create_fault env) (pe_jsonb env) (pe_marshal env) (pe_dbnow env)
                           (pe_now env 0) (post_of_job env job assetID)
                           (map queued_target (uj_targets job)) (pj_store s);
            s1 = s\<lparr>pj_store := store\<rparr>
        in (case c of
              Inl e \<Rightarrow> (Some (PjCreate e), s1)
            | Inr (post, ts) \<Rightarrow>
                if \<not> pe_wired env then trigger_and_close env job worker (p_id post) assetID s1
                else case pe_accounts env of
                  None \<Rightarrow> (Some PjAccounts, s1)
                | Some acc \<Rightarrow>
                    (let (m, pubs) = materializeYouTubeDeliveries (pe_decode env) (accounts_by_id acc)
                           (pe_answer env) (pe_dbnow env) (pe_now env 1) (uj_id job) (uj_priority job)
                           post ts (pj_pubs s1);
                         s2 = s1\<lparr>pj_pubs := pubs\<rparr>
                     in case m of
                          Some e \<Rightarrow> (Some (PjMaterialize e), s2)
                        | None \<Rightarrow> trigger_and_close env job worker (p_id post) assetID s2)))"

end
