(* ===== verification/PublishJobProofs.thy ===== *)
theory PublishJobProofs
  imports PublishJob
begin

text \<open>
  What the publish half of an upload job guarantees over retries, lost answers and any
  interleaving of workers, and what a retry does to targets that were published meanwhile.
\<close>

section \<open>The rows of the post\<close>

lemma Create_Inr:
  assumes "Create flt jsonb marshal dbnow appnow post ts st = (Inr (post', ts'), st')"
  shows "\<exists>post1. p_upload_job_id post1 = p_upload_job_id post \<and>
    create_body jsonb marshal dbnow post1 ts st = Inr ((post', ts'), st')"
proof -
  let ?post = "if p_ingest_after post = None then post\<lparr>p_ingest_after := Some appnow\<rparr> else post"
  have "p_upload_job_id ?post = p_upload_job_id post" by simp
  moreover have "create_body jsonb marshal dbnow ?post ts st = Inr ((post', ts'), st')"
    using assms by (cases flt; cases "create_body jsonb marshal dbnow ?post ts st") (auto simp: Create_def Let_def)
  ultimately show ?thesis by blast
qed

lemma create_body_accounts:
  assumes "create_body jsonb marshal dbnow post ts st = Inr ((post', ts'), st')"
    and "job_post (p_upload_job_id post) (ps_db st) = None"
    and "\<forall>p \<in> set (posts (ps_db st)). p_id p \<le> seq_post st"
  shows "map pt_account ts' = map pt_account ts"
  using create_body_fresh [OF assms] insert_targets_effect(4) by blast

lemma Create_family:
  assumes "store_ok st" and "Create flt jsonb marshal dbnow appnow post ts st = (Inr (post', ts'), st')"
    and "p_upload_job_id post = Some j"
    and "\<forall>p. job_post (Some j) (ps_db st) = Some p \<longrightarrow>
      map pt_account (children (p_id p) (ps_db st)) = map pt_account ts"
  shows "store_ok st' \<and> map pt_account ts' = map pt_account ts \<and>
    (\<exists>kids. family j (p_id post') (ps_db st') kids \<and> map (snd \<circ> snd) kids = map pt_account ts \<and>
       map fst kids = map pt_id ts')"
proof -
  from Create_Inr [OF assms(2)] assms(3) obtain post1 where
    job: "p_upload_job_id post1 = Some j"
    and body: "create_body jsonb marshal dbnow post1 ts st = Inr ((post', ts'), st')" by auto
  have ok': "store_ok st'" by (rule create_body_ok [OF assms(1) body])
  show ?thesis
  proof (cases "job_post (Some j) (ps_db st)")
    case None
    have acc: "map pt_account ts' = map pt_account ts"
      using create_body_accounts [OF body] None job assms(1) by (simp add: store_ok_def)
    show ?thesis
      using create_body_family(2) [OF assms(1) body _ job] None job acc ok' by simp
  next
    case (Some p)
    let ?ex = "children (p_id p) (ps_db st)"
    have acc: "map pt_account ?ex = map pt_account ts" using assms(4) Some by blast
    then have len: "length ?ex = length ts" by (metis length_map)
    from body Some job have st': "st' = st" and post': "p_id post' = p_id p"
      and ts': "ts' = map2 (\<lambda>t e. t\<lparr>pt_id := pt_id e, pt_post_id := pt_post_id e, pt_status := pt_status e\<rparr>) ts ?ex"
      using create_body_conflict [of post1 st p jsonb marshal dbnow ts]
      by (auto simp: fetchExistingByUploadJobID_def Let_def rbind_Inr_iff split: if_splits)
    have "family j (p_id p) (ps_db st) (map target_frame ?ex)"
      using job_post_SomeD [OF Some] by (auto simp: family_def)
    moreover have "map pt_account ts' = map pt_account ts" "map pt_id ts' = map pt_id ?ex"
      using len by (simp_all add: ts' list_eq_iff_nth_eq)
    moreover have "map (snd \<circ> snd) (map target_frame ?ex) = map pt_account ts"
      using acc by (simp add: target_frame_def comp_def)
    moreover have "map fst (map target_frame ?ex) = map pt_id ?ex" by (simp add: target_frame_def comp_def)
    ultimately show ?thesis using ok' st' post' by metis
  qed
qed

section \<open>The deliveries\<close>

lemma yt_Create_effect:
  assumes "yt_unique t"
  shows "yt_unique (snd (yt_Create flt now fresh pub t)) \<and>
    (\<exists>ext. snd (yt_Create flt now fresh pub t) = t @ ext \<and>
       map yt_post_target_id ext = (if ext = [] then [] else [yt_post_target_id pub]))"
  using assms by (auto simp: yt_Create_def Let_def)

lemma yt_Create_Inr:
  "yt_Create flt now fresh pub t = (Inr i, t') \<Longrightarrow> yt_post_target_id pub \<in> yt_post_target_id ` set t'"
  by (auto simp: yt_Create_def Let_def split: if_splits)

definition deliveries_grow :: "int set \<Rightarrow> ytpub list \<Rightarrow> ytpub list \<Rightarrow> bool" where
  "deliveries_grow ids t t' \<longleftrightarrow> (\<exists>ext. t' = t @ ext \<and> yt_post_target_id ` set ext \<subseteq> ids)"

lemma deliveries_grow_refl [simp]: "deliveries_grow ids t t"
  by (simp add: deliveries_grow_def)

lemma deliveries_grow_trans:
  "deliveries_grow ids t u \<Longrightarrow> deliveries_grow ids' u v \<Longrightarrow> deliveries_grow (ids \<union> ids') t v"
  by (force simp: deliveries_grow_def)

lemma FindByPostTargetID_mem:
  "FindByPostTargetID i t = Some p \<Longrightarrow> i \<in> yt_post_target_id ` set t"
  by (auto simp: FindByPostTargetID_def dest!: find_row_SomeD intro: rev_image_eqI)

lemma materialize_target:
  assumes "yt_unique t"
    and "materializeYouTubeDelivery dec found flt dbnow now fresh j pr target post t = (r, t')"
  shows "yt_unique t' \<and> deliveries_grow {pt_id target} t t' \<and>
    (r = None \<longrightarrow> pt_id target \<in> yt_post_target_id ` set t')"
proof (cases "found 0 \<and> FindByPostTargetID (pt_id target) t = None")
  case False
  then show ?thesis using assms
    by (auto simp: materializeYouTubeDelivery_def split: option.splits if_splits
        dest: FindByPostTargetID_mem)
next
  case True
  let ?c = "yt_Create flt dbnow fresh (new_delivery dec now j pr target post) t"
  obtain c t1 where c: "?c = (c, t1)" by (metis surj_pair)
  have t': "t' = t1" using assms(2) True c
    by (auto simp: materializeYouTubeDelivery_def split: sum.splits if_splits)
  have eff: "yt_unique t1" "deliveries_grow {pt_id target} t t1"
    using yt_Create_effect [OF assms(1), of flt dbnow fresh "new_delivery dec now j pr target post"] c
    by (auto simp: deliveries_grow_def split: if_splits)
  have "pt_id target \<in> yt_post_target_id ` set t1" if "r = None"
  proof (cases c)
    case (Inr i)
    then show ?thesis using yt_Create_Inr c by (metis new_delivery_target)
  next
    case (Inl e)
    then have "FindByPostTargetID (pt_id target) t1 \<noteq> None"
      using assms(2) True c that by (auto simp: materializeYouTubeDelivery_def split: if_splits)
    then show ?thesis by (auto dest: FindByPostTargetID_mem)
  qed
  then show ?thesis using eff t' by blast
qed

lemma materialize_targets:
  assumes "yt_unique t"
    and "materializeYouTubeDeliveries dec acc ans dbnow now j pr post ts t = (r, t')"
  shows "yt_unique t' \<and> deliveries_grow (pt_id ` set ts) t t' \<and>
    (r = None \<longrightarrow> (\<forall>x \<in> set ts. \<exists>a. acc (pt_account x) = Some a \<and>
       (pa_platform a = ''youtube'' \<longrightarrow> pt_id x \<in> yt_post_target_id ` set t')))"
  using assms
proof (induction ts arbitrary: t)
  case (Cons x ts)
  show ?case
  proof (cases "acc (pt_account x)")
    case None
    with Cons.prems show ?thesis by auto
  next
    case (Some a)
    show ?thesis
    proof (cases "pa_platform a = ''youtube''")
      case False
      with Some Cons.prems have "materializeYouTubeDeliveries dec acc ans dbnow now j pr post ts t = (r, t')"
        by simp
      from Cons.IH [OF Cons.prems(1) this] Some False show ?thesis
        by (auto simp: deliveries_grow_def)
    next
      case True
      let ?s = "ans (pt_id x)"
      obtain m t1 where m: "materializeYouTubeDelivery dec (sa_found ?s) (sa_fault ?s) dbnow now (sa_fresh ?s)
          j pr x post t = (m, t1)" by (metis surj_pair)
      note one = materialize_target [OF Cons.prems(1) m]
      show ?thesis
      proof (cases m)
        case (Some e)
        with True Cons.prems \<open>acc (pt_account x) = Some a\<close> m one show ?thesis
          by (auto simp: Let_def deliveries_grow_def)
      next
        case None
        with True Cons.prems Some m
        have rest: "materializeYouTubeDeliveries dec acc ans dbnow now j pr post ts t1 = (r, t')"
          by (simp add: Let_def)
        note all = Cons.IH [OF conjunct1 [OF one] rest]
        have "deliveries_grow (pt_id ` set (x # ts)) t t'"
          using deliveries_grow_trans [of "{pt_id x}" t t1 "pt_id ` set ts" t'] one all by simp
        moreover have "pt_id x \<in> yt_post_target_id ` set t'"
          using one all None by (auto simp: deliveries_grow_def)
        ultimately show ?thesis using all Some by auto
      qed
    qed
  qed
qed simp

section \<open>The trigger\<close>

lemma PublishPost_Inr:
  assumes "PublishPost flt now pid db = (Inr u, db')"
  shows "targets db' = update_where (\<lambda>r. pt_post_id r = pid)
    (\<lambda>r. r\<lparr>pt_status := PSQueued, pt_error_message := ''''\<rparr>) (targets db)"
proof -
  from assms have "resetPostTargetsAndAggregateTx now pid (qPublishPostTargetsReset pid) db = Inr ((), db')"
    by (cases flt) (auto simp: PublishPost_def run_tx_def split: sum.splits)
  then have "persistAggregatePostStatusLockedTx pid (snd (exec_targets now (qPublishPostTargetsReset pid) db)) =
      Inr ((), db')"
    by (auto simp: resetPostTargetsAndAggregateTx_def rbind_Inr_iff)
  then have "targets db' = targets (snd (exec_targets now (qPublishPostTargetsReset pid) db))"
    by (auto elim!: persist_Inr)
  then show ?thesis by (simp add: exec_targets_def qPublishPostTargetsReset_def Let_def)
qed

text \<open>
  The invariant of the three tables: \<open>store_ok\<close>, at most one delivery per target, and no
  delivery without a target.
\<close>

definition pj_ok :: "publish_job_state \<Rightarrow> bool" where
  "pj_ok s \<longleftrightarrow> store_ok (pj_store s) \<and> yt_unique (pj_pubs s) \<and>
     yt_post_target_id ` set (pj_pubs s) \<subseteq> pt_id ` set (targets (ps_db (pj_store s)))"

lemma frame_target_ids: "db_frame db' = db_frame db \<Longrightarrow> pt_id ` set (targets db') = pt_id ` set (targets db)"
  by (metis frame_columns(3) set_map)

lemma close_job_store [simp]:
  "pj_store (snd (close_job env job w p a s)) = pj_store s"
  "pj_pubs (snd (close_job env job w p a s)) = pj_pubs s"
  by (simp_all add: close_job_def case_prod_beta)

lemma trigger_frame:
  "pj_pubs (snd (trigger_and_close env job w p a s)) = pj_pubs s \<and>
   (\<exists>db. db_frame db = db_frame (ps_db (pj_store s)) \<and>
      pj_store (snd (trigger_and_close env job w p a s)) = (pj_store s)\<lparr>ps_db := db\<rparr>)"
proof -
  obtain r db where r: "PublishPost (pe_publish_fault env) (pe_dbnow env) p (ps_db (pj_store s)) = (r, db)"
    by (metis surj_pair)
  have "db_frame db = db_frame (ps_db (pj_store s))"
    using reset_ops_frame(2) [of "pe_publish_fault env" "pe_dbnow env" p "ps_db (pj_store s)"] r by simp
  moreover have "\<exists>d. db_frame d = db_frame (ps_db (pj_store s)) \<and> pj_store s = (pj_store s)\<lparr>ps_db := d\<rparr>"
    by (intro exI [of _ "ps_db (pj_store s)"]) simp
  ultimately show ?thesis
    by (auto simp: trigger_and_close_def r Let_def split: sum.splits)
qed

lemma trigger_ok: "pj_ok s \<Longrightarrow> pj_ok (snd (trigger_and_close env job w p a s))"
proof -
  assume ok: "pj_ok s"
  obtain db where db: "db_frame db = db_frame (ps_db (pj_store s))"
    "pj_store (snd (trigger_and_close env job w p a s)) = (pj_store s)\<lparr>ps_db := db\<rparr>"
    "pj_pubs (snd (trigger_and_close env job w p a s)) = pj_pubs s"
    using trigger_frame by metis
  show ?thesis using ok db store_ok_frame [of "pj_store s" db] frame_target_ids [OF db(1)]
    by (simp add: pj_ok_def)
qed

section \<open>A run\<close>

lemma Create_grows:
  assumes "store_ok st"
  shows "pt_id ` set (targets (ps_db st)) \<subseteq>
    pt_id ` set (targets (ps_db (snd (Create flt jsonb marshal dbnow appnow post ts st))))"
proof -
  let ?st = "snd (Create flt jsonb marshal dbnow appnow post ts st)"
  from Create_cases consider "?st = st" | post1 post' ts' where
    "create_body jsonb marshal dbnow post1 ts st = Inr ((post', ts'), ?st)" by metis
  then show ?thesis
  proof cases
    case 2
    show ?thesis
    proof (cases "job_post (p_upload_job_id post1) (ps_db st)")
      case (Some p)
      then have "?st = st" using 2 by (auto simp: create_body_conflict rbind_Inr_iff split: if_splits)
      then show ?thesis by simp
    next
      case None
      obtain st3 where "insert_targets (seq_post st + 1) dbnow ts
          (st\<lparr>ps_db := (ps_db st)\<lparr>posts := posts (ps_db st) @ [post']\<rparr>, seq_post := seq_post st + 1\<rparr>) = Inr (ts', st3)"
        "insert_events marshal dbnow post' ts' st3 = Inr ?st"
        using create_body_fresh [OF 2 None] assms by (auto simp: store_ok_def)
      then show ?thesis using insert_targets_effect(1) insert_events_effect(2) by fastforce
    qed
  qed simp
qed

lemma Create_ids_stored:
  assumes "store_ok st" and "Create flt jsonb marshal dbnow appnow post ts st = (Inr (post', ts'), st')"
  shows "pt_id ` set ts' \<subseteq> pt_id ` set (targets (ps_db st'))"
proof -
  from Create_Inr [OF assms(2)] obtain post1 where
    body: "create_body jsonb marshal dbnow post1 ts st = Inr ((post', ts'), st')" by blast
  show ?thesis
  proof (cases "job_post (p_upload_job_id post1) (ps_db st)")
    case (Some p)
    let ?ex = "children (p_id p) (ps_db st)"
    from body Some have "st' = st" "length ?ex = length ts"
      "ts' = map2 (\<lambda>t e. t\<lparr>pt_id := pt_id e, pt_post_id := pt_post_id e, pt_status := pt_status e\<rparr>) ts ?ex"
      using job_post_SomeD [OF Some]
      by (auto simp: create_body_conflict fetchExistingByUploadJobID_def Let_def rbind_Inr_iff split: if_splits)
    then have "map pt_id ts' = map pt_id ?ex" by (simp add: list_eq_iff_nth_eq)
    then have "pt_id ` set ts' = pt_id ` set ?ex" by (metis set_map)
    then show ?thesis using \<open>st' = st\<close> by (auto simp: children_def)
  next
    case None
    obtain st3 where "insert_targets (seq_post st + 1) dbnow ts
        (st\<lparr>ps_db := (ps_db st)\<lparr>posts := posts (ps_db st) @ [post']\<rparr>, seq_post := seq_post st + 1\<rparr>) = Inr (ts', st3)"
      "insert_events marshal dbnow post' ts' st3 = Inr st'"
      using create_body_fresh [OF body None] assms by (auto simp: store_ok_def)
    then show ?thesis
      using insert_targets_effect(1) insert_events_effect(2) by (fastforce simp: image_Un image_image)
  qed
qed

lemma pj_ok_grow:
  assumes "store_ok st'" and "yt_unique t'" and "deliveries_grow ids t t'"
    and "yt_post_target_id ` set t \<subseteq> pt_id ` set (targets (ps_db st'))"
    and "ids \<subseteq> pt_id ` set (targets (ps_db st'))"
  shows "pj_ok (s\<lparr>pj_store := st', pj_pubs := t'\<rparr>)"
proof -
  from assms(3) obtain ext where "t' = t @ ext" "yt_post_target_id ` set ext \<subseteq> ids"
    by (auto simp: deliveries_grow_def)
  then have "yt_post_target_id ` set t' \<subseteq> pt_id ` set (targets (ps_db st'))"
    unfolding \<open>t' = _\<close> set_append image_Un using assms(4,5) by blast
  then show ?thesis using assms(1,2) by (simp add: pj_ok_def)
qed

lemma processPublishJob_ok:
  assumes "pj_ok s"
  shows "pj_ok (snd (processPublishJob env job w s))"
proof (cases "deref (uj_asset_id job) = ''''")
  case True
  then show ?thesis using assms by (simp add: processPublishJob_def)
next
  case False
  let ?c = "Create (pe_create_fault env) (pe_jsonb env) (pe_marshal env) (pe_dbnow env) (pe_now env 0)
      (post_of_job env job (deref (uj_asset_id job))) (map queued_target (uj_targets job)) (pj_store s)"
  obtain c st where c: "?c = (c, st)" by (metis surj_pair)
  have ok: "store_ok (pj_store s)" "yt_unique (pj_pubs s)" using assms by (simp_all add: pj_ok_def)
  have st: "store_ok st" using Create_ok [OF ok(1)] c by (metis snd_conv)
  have grow: "yt_post_target_id ` set (pj_pubs s) \<subseteq> pt_id ` set (targets (ps_db st))"
    using Create_grows [OF ok(1)] c assms unfolding pj_ok_def by (metis order_trans snd_conv)
  have s1: "pj_ok (s\<lparr>pj_store := st\<rparr>)" using st ok(2) grow by (simp add: pj_ok_def)
  show ?thesis
  proof (cases c)
    case (Inl e)
    then show ?thesis using False c s1 by (simp add: processPublishJob_def Let_def)
  next
    case (Inr pt)
    obtain post ts where pt: "pt = (post, ts)" by fastforce
    show ?thesis
    proof (cases "pe_wired env \<and> pe_accounts env \<noteq> None")
      case False
      then show ?thesis using \<open>deref _ \<noteq> _\<close> c Inr pt s1 trigger_ok [OF s1]
        by (auto simp: processPublishJob_def Let_def split: option.splits)
    next
      case True
      then obtain acc where acc: "pe_accounts env = Some acc" by blast
      obtain m pubs where m: "materializeYouTubeDeliveries (pe_decode env) (accounts_by_id acc)
          (pe_answer env) (pe_dbnow env) (pe_now env 1) (uj_id job) (uj_priority job) post ts (pj_pubs s) = (m, pubs)"
        by (metis surj_pair)
      note all = materialize_targets [OF ok(2) m]
      have s2: "pj_ok (s\<lparr>pj_store := st, pj_pubs := pubs\<rparr>)"
        using pj_ok_grow [OF st _ _ grow Create_ids_stored [OF ok(1)]] all c Inr pt by metis
      show ?thesis
        using False True c Inr pt acc m s2 trigger_ok [OF s2]
        by (simp add: processPublishJob_def Let_def split: option.splits)
    qed
  qed
qed

text \<open>Runs of any workers on any jobs, with whatever else writes to the store in between.\<close>

datatype pj_op =
    PjRun publish_job_env UploadJob string
  | PjStore "string \<Rightarrow> bool" "Post \<Rightarrow> PostTarget \<Rightarrow> string option" "tx_fault \<times> time \<times> time \<times> store_op"

fun pj_step :: "pj_op \<Rightarrow> publish_job_state \<Rightarrow> publish_job_state" where
  "pj_step (PjRun env job w) s = snd (processPublishJob env job w s)"
| "pj_step (PjStore jsonb marshal x) s = s\<lparr>pj_store := store_step jsonb marshal x (pj_store s)\<rparr>"

lemma store_step_grows:
  assumes "store_ok st"
  shows "pt_id ` set (targets (ps_db st)) \<subseteq> pt_id ` set (targets (ps_db (store_step jsonb marshal x st)))"
proof (cases "(jsonb, marshal, x, st)" rule: store_step.cases)
  case (1 jsonb' marshal' flt dbnow appnow post ts st')
  then show ?thesis using assms Create_grows by simp
next
  case (2 jsonb' marshal' flt dbnow appnow lk op st')
  then show ?thesis using frame_target_ids [OF post_step_frame [of flt dbnow lk op "ps_db st"]] by simp
qed

lemma pj_step_ok: "pj_ok s \<Longrightarrow> pj_ok (pj_step x s)"
proof (induction x s rule: pj_step.induct)
  case (2 jsonb marshal x s)
  then have "store_ok (pj_store s)" by (simp add: pj_ok_def)
  from order_trans [OF _ store_step_grows [OF this, of jsonb marshal x]]
    store_step_ok [OF this, of jsonb marshal x] 2 show ?case
    by (simp add: pj_ok_def)
qed (simp add: processPublishJob_ok)

lemma pj_run_ok: "pj_ok s \<Longrightarrow> pj_ok (fold pj_step xs s)"
  by (induction xs arbitrary: s) (simp_all add: pj_step_ok)

lemma family_of_post:
  "p \<in> set (posts db) \<Longrightarrow> p_upload_job_id p = Some j \<Longrightarrow>
   family j (p_id p) db (map target_frame (children (p_id p) db))"
  by (auto simp: family_def intro: rev_image_eqI)

lemma family_job_post:
  assumes "store_ok st" and "family j pid (ps_db st) kids"
  shows "\<exists>p. job_post (Some j) (ps_db st) = Some p \<and> p_id p = pid"
  using assms job_post_unique [OF assms(1)] by (auto simp: family_def) metis

lemma same_columns:
  "map f xs = map f' ys \<Longrightarrow> map g xs = map g' ys \<Longrightarrow> x \<in> set xs \<Longrightarrow>
   \<exists>y \<in> set ys. f' y = f x \<and> g' y = g x"
  by (induction xs arbitrary: ys) (auto simp: map_eq_Cons_conv Cons_eq_map_conv)

section \<open>Properties\<close>


lemma exec_upload_write_Inr:
  assumes "exec_upload_write flt now i w op t = (Inr u, t')"
  shows "(\<exists>r \<in> set t. holds_lease i w r) \<and> t' = update_where (holds_lease i w) (upload_set now op) t"
  using assms
  by (cases flt) (auto simp: exec_upload_write_def rows_affected_def filter_empty_conv split: if_splits)

lemma close_job_None:
  assumes "close_job env job w pid a s = (None, s')"
  shows "(\<exists>r \<in> set (pj_jobs s). holds_lease (uj_id job) w r) \<and> pj_store s' = pj_store s \<and> pj_pubs s' = pj_pubs s \<and>
    pj_jobs s' = update_where (holds_lease (uj_id job) w)
      (upload_set (pe_dbnow env) (if some_and (\<lambda>t. t > pe_now env 3) (uj_publish_at job)
         then UwPrepared pid a else UwCompleted pid a)) (pj_jobs s)"
  using assms exec_upload_write_Inr close_job_store [of env job w pid a s]
  by (fastforce simp: close_job_def MarkPrepared_def MarkCompleted_def split: sum.splits prod.splits if_splits)

lemma trigger_and_close_None:
  assumes "trigger_and_close env job w pid a s = (None, s')"
  shows "(\<exists>r \<in> set (pj_jobs s). holds_lease (uj_id job) w r) \<and> pj_pubs s' = pj_pubs s \<and>
    pj_jobs s' = update_where (holds_lease (uj_id job) w)
      (upload_set (pe_dbnow env) (if some_and (\<lambda>t. t > pe_now env 3) (uj_publish_at job)
         then UwPrepared pid a else UwCompleted pid a)) (pj_jobs s) \<and>
    db_frame (ps_db (pj_store s')) = db_frame (ps_db (pj_store s)) \<and>
    (null_or (\<lambda>t. t \<le> pe_now env 2) (uj_publish_at job) \<longrightarrow>
      targets (ps_db (pj_store s')) = update_where (\<lambda>r. pt_post_id r = pid)
        (\<lambda>r. r\<lparr>pt_status := PSQueued, pt_error_message := ''''\<rparr>) (targets (ps_db (pj_store s))))"
proof (cases "null_or (\<lambda>t. t \<le> pe_now env 2) (uj_publish_at job)")
  case False
  then have "close_job env job w pid a s = (None, s')" using assms by (simp add: trigger_and_close_def)
  from close_job_None [OF this] False show ?thesis
    by auto
next
  case True
  obtain r db where r: "PublishPost (pe_publish_fault env) (pe_dbnow env) pid (ps_db (pj_store s)) = (r, db)"
    by (metis surj_pair)
  with assms True obtain u where u: "r = Inr u"
    and close: "close_job env job w pid a (s\<lparr>pj_store := (pj_store s)\<lparr>ps_db := db\<rparr>\<rparr>) = (None, s')"
    by (auto simp: trigger_and_close_def Let_def split: sum.splits)
  have "db_frame db = db_frame (ps_db (pj_store s))"
    using reset_ops_frame(2) [of "pe_publish_fault env" "pe_dbnow env" pid "ps_db (pj_store s)"] r by simp
  moreover have "targets db = update_where (\<lambda>r. pt_post_id r = pid)
      (\<lambda>r. r\<lparr>pt_status := PSQueued, pt_error_message := ''''\<rparr>) (targets (ps_db (pj_store s)))"
    using PublishPost_Inr r u by blast
  moreover have "pj_store s' = (pj_store s)\<lparr>ps_db := db\<rparr>" "pj_pubs s' = pj_pubs s"
    using close_job_None [OF close] by simp_all
  ultimately show ?thesis using close_job_None [OF close] by simp
qed

text \<open>The run of a job that reports no error, step by step.\<close>

lemma processPublishJob_None:
  assumes "processPublishJob env job w s = (None, s')" and "pe_wired env"
  shows "\<exists>post ts st acc pubs. deref (uj_asset_id job) \<noteq> '''' \<and>
    Create (pe_create_fault env) (pe_jsonb env) (pe_marshal env) (pe_dbnow env) (pe_now env 0)
      (post_of_job env job (deref (uj_asset_id job))) (map queued_target (uj_targets job)) (pj_store s) =
      (Inr (post, ts), st) \<and> pe_accounts env = Some acc \<and>
    materializeYouTubeDeliveries (pe_decode env) (accounts_by_id acc) (pe_answer env) (pe_dbnow env)
      (pe_now env 1) (uj_id job) (uj_priority job) post ts (pj_pubs s) = (None, pubs) \<and>
    trigger_and_close env job w (p_id post) (deref (uj_asset_id job))
      (s\<lparr>pj_store := st, pj_pubs := pubs\<rparr>) = (None, s')"
  using assms
  by (auto simp: processPublishJob_def Let_def split: sum.splits option.splits prod.splits if_splits)

text \<open>
  C8: what a successful publish job has done. When \<open>processPublishJob\<close> returns no error, the job
  has its post, whose targets are the accounts of the job in their order; every account was
  found, and every YouTube target has its delivery; the leased job row was closed with the post
  and the asset, as scheduled when the post lies in the future and as completed otherwise; and
  when the post is due every target of it is queued with an empty error. That last reset has no
  condition on the status of the target: when an earlier run of the job reached the trigger but
  lost its answer, targets the publish worker has published since are queued, and published,
  again.
\<close>

theorem publish_job_complete:
  assumes "pj_ok s" and "pe_wired env"
    and "processPublishJob env job w s = (None, s')"
    and "\<forall>p. job_post (Some (uj_id job)) (ps_db (pj_store s)) = Some p \<longrightarrow>
      map pt_account (children (p_id p) (ps_db (pj_store s))) = uj_targets job"
  shows "\<exists>p acc. job_post (Some (uj_id job)) (ps_db (pj_store s')) = Some p \<and>
    map pt_account (children (p_id p) (ps_db (pj_store s'))) = uj_targets job \<and>
    pe_accounts env = Some acc \<and>
    (\<forall>r \<in> set (children (p_id p) (ps_db (pj_store s'))). \<exists>a.
       accounts_by_id acc (pt_account r) = Some a \<and>
       (pa_platform a = ''youtube'' \<longrightarrow> pt_id r \<in> yt_post_target_id ` set (pj_pubs s')) \<and>
       (null_or (\<lambda>t. t \<le> pe_now env 2) (uj_publish_at job) \<longrightarrow>
          pt_status r = PSQueued \<and> pt_error_message r = '''')) \<and>
    (\<exists>r \<in> set (pj_jobs s). holds_lease (uj_id job) w r) \<and>
    pj_jobs s' = update_where (holds_lease (uj_id job) w)
      (upload_set (pe_dbnow env)
         (if some_and (\<lambda>t. t > pe_now env 3) (uj_publish_at job)
          then UwPrepared (p_id p) (deref (uj_asset_id job))
          else UwCompleted (p_id p) (deref (uj_asset_id job)))) (pj_jobs s)"
proof -
  let ?j = "uj_id job"
  from processPublishJob_None [OF assms(3,2)] obtain post ts st acc pubs where
    c: "Create (pe_create_fault env) (pe_jsonb env) (pe_marshal env) (pe_dbnow env) (pe_now env 0)
      (post_of_job env job (deref (uj_asset_id job))) (map queued_target (uj_targets job)) (pj_store s) =
      (Inr (post, ts), st)" and acc: "pe_accounts env = Some acc"
    and m: "materializeYouTubeDeliveries (pe_decode env) (accounts_by_id acc) (pe_answer env) (pe_dbnow env)
      (pe_now env 1) ?j (uj_priority job) post ts (pj_pubs s) = (None, pubs)"
    and t: "trigger_and_close env job w (p_id post) (deref (uj_asset_id job))
      (s\<lparr>pj_store := st, pj_pubs := pubs\<rparr>) = (None, s')" by blast
  have ok: "store_ok (pj_store s)" "yt_unique (pj_pubs s)" using assms(1) by (simp_all add: pj_ok_def)
  have accs: "map pt_account (map queued_target (uj_targets job)) = uj_targets job"
    by (simp add: comp_def)
  have job: "p_upload_job_id (post_of_job env job (deref (uj_asset_id job))) = Some ?j"
    by (simp add: post_of_job_def Let_def)
  from Create_family [OF ok(1) c job] assms(4) accs obtain kids where st: "store_ok st"
    and ts: "map pt_account ts = uj_targets job" and fam: "family ?j (p_id post) (ps_db st) kids"
    and kids: "map (snd \<circ> snd) kids = uj_targets job" "map fst kids = map pt_id ts" by auto
  note T = trigger_and_close_None [OF t, simplified]
  have fam': "family ?j (p_id post) (ps_db (pj_store s')) kids"
    using fam T family_frame by blast
  have st': "store_ok (pj_store s')"
    using processPublishJob_ok [OF assms(1), of env job w] assms(3) by (simp add: pj_ok_def)
  let ?kids = "children (p_id post) (ps_db (pj_store s'))"
  have kid: "map target_frame ?kids = kids" using fam' by (simp add: family_def)
  obtain p where p: "job_post (Some ?j) (ps_db (pj_store s')) = Some p" "p_id p = p_id post"
    using family_job_post [OF st' fam'] by blast
  have cols: "map pt_account ?kids = map pt_account ts" "map pt_id ?kids = map pt_id ts"
    using kids ts arg_cong [OF kid, of "map (snd \<circ> snd)"] arg_cong [OF kid, of "map fst"]
    by (simp_all add: comp_def target_frame_def)
  have each: "\<exists>a. accounts_by_id acc (pt_account r) = Some a \<and>
       (pa_platform a = ''youtube'' \<longrightarrow> pt_id r \<in> yt_post_target_id ` set (pj_pubs s')) \<and>
       (null_or (\<lambda>t. t \<le> pe_now env 2) (uj_publish_at job) \<longrightarrow> pt_status r = PSQueued \<and> pt_error_message r = '''')"
    if r: "r \<in> set ?kids" for r
  proof -
    from r obtain x where x: "x \<in> set ts" "pt_account x = pt_account r" "pt_id x = pt_id r"
      using same_columns [OF cols] by blast
    have "r \<in> set (targets (ps_db (pj_store s')))" "pt_post_id r = p_id post"
      using r by (auto simp: children_def)
    then have "null_or (\<lambda>t. t \<le> pe_now env 2) (uj_publish_at job) \<longrightarrow>
        pt_status r = PSQueued \<and> pt_error_message r = ''''"
      using T by (auto simp: update_where_def split: if_splits)
    moreover from materialize_targets [OF ok(2) m] x(1) obtain a where
      "accounts_by_id acc (pt_account x) = Some a"
      "pa_platform a = ''youtube'' \<longrightarrow> pt_id x \<in> yt_post_target_id ` set pubs" by blast
    moreover have "pj_pubs s' = pubs" using T by blast
    ultimately show ?thesis using x(2,3) by simp
  qed
  show ?thesis
  proof (rule exI [of _ p], rule exI [of _ acc], unfold p(2), intro conjI)
    show "job_post (Some ?j) (ps_db (pj_store s')) = Some p" by (rule p(1))
    show "pe_accounts env = Some acc" by (rule acc)
    show "map pt_account ?kids = uj_targets job" using cols ts by simp
  qed (use each in blast, use T in blast, use T in blast)
qed

definition sample_account :: "int \<Rightarrow> PlatformAccount" where
  "sample_account i = \<lparr>pa_id = i, pa_platform = ''youtube'', pa_user_id = ''UC1'',
     pa_status = ''active'', pa_reauth_required_at = None\<rparr>"

definition sample_publish_env :: publish_job_env where
  "sample_publish_env =
     \<lparr>pe_uuid = [],
      pe_storage = \<lparr>s3_endpoint = '''', s3_scheme = ''https'', s3_bucket = ''b'', s3_region = ''r'',
        s3_accessKey = '''', s3_secretKey = '''', s3_baseHost = ''h'', s3_pathStyle = True,
        s3_mediaBase = ''''\<rparr>,
      pe_create_fault = TxOk, pe_jsonb = (\<lambda>_. True), pe_marshal = (\<lambda>_ _. Some ''{}''),
      pe_wired = True, pe_accounts = Some (\<lambda>i. Some (sample_account i)),
      pe_decode = (\<lambda>_. None), pe_answer = (\<lambda>_. \<lparr>sa_found = (\<lambda>_. True), sa_fault = DbOk, sa_fresh = 1\<rparr>),
      pe_publish_fault = TxOk, pe_mark_fault = DbOk, pe_now = (\<lambda>_. 10), pe_dbnow = 10\<rparr>"

definition leased_job :: UploadJob where
  "leased_job = sample_job\<lparr>uj_status := UjLeased, uj_lease_owner := Some ''w'',
     uj_asset_id := Some ''asset''\<rparr>"

theorem publish_job_complete_witness:
  "\<exists>s' p. processPublishJob sample_publish_env leased_job ''w''
       \<lparr>pj_store = empty_store, pj_pubs = [], pj_jobs = [leased_job]\<rparr> = (None, s') \<and>
     job_post (Some 1) (ps_db (pj_store s')) = Some p \<and>
     map pt_account (children (p_id p) (ps_db (pj_store s'))) = [4]"
proof -
  let ?s = "\<lparr>pj_store = empty_store, pj_pubs = [], pj_jobs = [leased_job]\<rparr>"
  have "fst (processPublishJob sample_publish_env leased_job ''w'' ?s) = None" by code_simp
  then obtain s' where run: "processPublishJob sample_publish_env leased_job ''w'' ?s = (None, s')"
    by (metis prod.collapse)
  have "pj_ok ?s" by (simp add: pj_ok_def yt_unique_def store_ok_def empty_store_def requested_def)
  moreover have "pe_wired sample_publish_env" by (simp add: sample_publish_env_def)
  ultimately show ?thesis
    using publish_job_complete [OF _ _ run] run
    by (fastforce simp: job_post_def empty_store_def leased_job_def sample_job_def)
qed

end
