(* ===== verification/MediaFlow.thy ===== *)
theory MediaFlow
  imports IngestProofs PublishJobProofs MediaAssetsProofs
begin

text \<open>
  The media of an upload job from the object store to the publisher: the ingest half stores the
  video and its row, the publish half writes the references of the post, the resolver signs a URL
  for them. The three are modelled in \<open>IngestJob\<close>, \<open>PublishJob\<close> and \<open>MediaAssets\<close>; this theory
  puts them one after the other.
\<close>

section \<open>The row the ingest half leaves\<close>

definition row_of_job :: "ingest_env \<Rightarrow> UploadJob \<Rightarrow> MediaAsset \<Rightarrow> bool" where
  "row_of_job env job a \<longleftrightarrow>
     ma_user_id a = uj_user_id job \<and> ma_upload_key a = ingest_key env job \<and>
     ma_bucket a = Some (ie_bucket env) \<and>
     ma_expires_at a = ie_now env + (if ie_retention_days env \<le> 0 then 7 else ie_retention_days env) * day"

definition rows_of_job :: "ingest_env \<Rightarrow> UploadJob \<Rightarrow> MediaAsset list \<Rightarrow> bool" where
  "rows_of_job env job t \<longleftrightarrow> (\<forall>a \<in> set t. ma_id a = ie_fresh env \<longrightarrow> row_of_job env job a)"

lemma only_fresh_rows:
  assumes "only_fresh i t t'"
  shows "rows_of_job env job t' \<longleftrightarrow> rows_of_job env job t"
proof -
  let ?f = "\<lambda>a. (ma_id a, ma_user_id a, ma_upload_key a, ma_bucket a, ma_expires_at a)"
  let ?P = "\<lambda>(i, u, k, b, e). i = ie_fresh env \<longrightarrow> u = uj_user_id job \<and> k = ingest_key env job \<and>
    b = Some (ie_bucket env) \<and>
    e = ie_now env + (if ie_retention_days env \<le> 0 then 7 else ie_retention_days env) * day"
  have rows: "rows_of_job env job t \<longleftrightarrow> (\<forall>x \<in> set (map ?f t). ?P x)" for t
    by (auto simp: rows_of_job_def row_of_job_def)
  have "length t' = length t" using assms by (auto simp: only_fresh_def dest: map_eq_imp_length_eq)
  then have "map ?f t' = map ?f t"
    using assms by (simp add: only_fresh_def list_eq_iff_nth_eq)
  then show ?thesis by (simp only: rows)
qed

lemma unmoved_rows:
  "unmoved env s (e, s') \<Longrightarrow> rows_of_job env job (is_assets s') \<longleftrightarrow> rows_of_job env job (is_assets s)"
  using only_fresh_rows by (auto simp: unmoved_def)

lemma ingest_check_rows:
  assumes "ingest_check env job worker policy r st s = (e, s')" and "quiet (ie_fresh env) (is_assets s)"
    and "rows_of_job env job (is_assets s)"
  shows "rows_of_job env job (is_assets s')"
  using ingest_check_cases [OF assms(1,2)]
proof (elim disjE conjE exE)
  fix ct sz
  assume "ingest_record env job worker (ActualSHA256Hex (ie_sha256 env) (snd (av_Close (ie_close_ok env) r)))
      ct sz s = (e, s')"
  from ingest_record_effect [OF this assms(2)] show ?thesis using only_fresh_rows assms(3) by blast
qed (use unmoved_rows assms(3) in blast)

lemma ma_Create_rows:
  assumes "ma_Create flt now (ie_fresh env) asset t = (c, t')" and "ie_fresh env \<notin> ma_id ` set t"
    and "row_of_job env job asset" and "ma_status asset = MediaAssetStatusPending"
  shows "rows_of_job env job t'"
proof -
  have "\<forall>a \<in> set t. ma_id a \<noteq> ie_fresh env" using assms(2) by force
  then show ?thesis using assms(1,3,4)
    by (auto simp: ma_Create_def rows_of_job_def row_of_job_def Let_def split: if_splits)
qed

lemma ingest_upload_rows:
  assumes "ingest_upload env job worker policy r sz ct s = (e, s')"
    and "ie_fresh env \<notin> ma_id ` set (is_assets s)"
  shows "rows_of_job env job (is_assets s')"
proof -
  define asset where "asset = \<lparr>ma_id = '''', ma_user_id = uj_user_id job, ma_upload_key = ingest_key env job,
      ma_bucket = Some (ie_bucket env), ma_content_type = ct, ma_size_bytes = sz,
      ma_status = MediaAssetStatusPending, ma_sha256 = '''', ma_error_message = '''',
      ma_expires_at = ie_now env + (if ie_retention_days env \<le> 0 then 7 else ie_retention_days env) * day,
      ma_created_at = 0, ma_updated_at = 0, ma_probe = None\<rparr>"
  have a: "row_of_job env job asset" "ma_status asset = MediaAssetStatusPending"
    by (simp_all add: asset_def row_of_job_def)
  obtain c t1 where c: "ma_Create (ie_fault env 0) (ie_dbnow env) (ie_fresh env) asset (is_assets s) = (c, t1)"
    by (metis surj_pair)
  have q: "quiet (ie_fresh env) t1" using ma_Create_new [OF c assms(2) a(2)] by blast
  have rows: "rows_of_job env job t1" by (rule ma_Create_rows [OF c assms(2) a])
  have failed: "rows_of_job env job (is_assets (markAssetFailed env (ie_fresh env) x (s\<lparr>is_assets := t1\<rparr>)))" for x
    using unmoved_rows [OF markAssetFailed_unmoved [of env "s\<lparr>is_assets := t1\<rparr>" x]] q rows by simp
  obtain bytes de r' where d: "drain (fst (ie_put env)) r = (bytes, de, r')" by (metis prod_cases3)
  have chk: "rows_of_job env job (is_assets s')"
    if "ingest_check env job worker policy r' st s2 = (e, s')" "is_assets s2 = t1" for st s2
    using ingest_check_rows [OF that(1)] that(2) q rows by simp
  show ?thesis
  proof (cases "\<exists>x. s' = markAssetFailed env (ie_fresh env) x (s\<lparr>is_assets := t1\<rparr>)")
    case True
    then show ?thesis using failed by auto
  next
    case False
    then show ?thesis using assms(1) c d chk rows
      by (auto simp: ingest_upload_def asset_def [symmetric] ingest_key_def [symmetric] Let_def
          split: if_splits option.splits sum.splits)
  qed
qed

lemma processIngestJob_rows:
  assumes "processIngestJob env job worker s = (e, s')" and "ie_fresh env \<notin> ma_id ` set (is_assets s)"
  shows "rows_of_job env job (is_assets s')"
proof -
  have "rows_of_job env job (is_assets s)" using assms(2) by (force simp: rows_of_job_def)
  then show ?thesis using assms ingest_upload_rows
    by (auto simp: processIngestJob_def Let_def split: if_splits sum.splits option.splits)
qed

section \<open>From the job to the URL\<close>

lemma BuildUploadKey_not_empty [simp]: "BuildUploadKey u i n \<noteq> ''''"
  by (simp add: BuildUploadKey_def)

lemma BuildUploadKey_uuid: "BuildUploadKey u i n = BuildUploadKey u i' n \<longleftrightarrow> i = i'"
  by (simp add: BuildUploadKey_def)

lemma filter_unique_key:
  "distinct (map f t) \<Longrightarrow> a \<in> set t \<Longrightarrow> (\<And>x. P x \<Longrightarrow> f x = f a) \<Longrightarrow> P a \<Longrightarrow> filter P t = [a]"
proof -
  assume a: "distinct (map f t)" "a \<in> set t" "\<And>x. P x \<Longrightarrow> f x = f a" "P a"
  have "x = a" if "x \<in> set t" "P x" for x
  proof -
    have "inj_on f (set t)" using a(1) by (simp add: distinct_map)
    then show ?thesis using a(3) [OF that(2)] that(1) a(2) by (rule inj_onD)
  qed
  then have "set (filter P t) = {a}" unfolding set_filter using a(2,4) by blast
  moreover have "distinct (filter P t)" using a(1) by (simp add: distinct_map)
  ultimately show ?thesis
    by (metis (no_types, lifting) distinct_length_2_or_more empty_set insert_not_empty list.exhaust list.set_intros(1,2) singletonD)
qed

text \<open>
  C7: which jobs can be published at all. An ingest job succeeds, and the publish job of the
  same row creates the post. For a Velox artifact the resolver finds the ready row of the asset
  and signs its bucket and key, as long as the row lives and the workspace may see it. For a job
  from a Drive the publish half makes up a second random key for the post, which the row of the
  asset has not; so the resolver finds nothing, whatever the storage and however often it is
  asked, and the post can never be published.
\<close>

theorem upload_job_media:
  assumes "processIngestJob ienv job worker s = (None, s')"
    and "ie_fresh ienv \<notin> ma_id ` set (is_assets s)" and "ie_fresh ienv \<noteq> ''''"
    and "\<forall>st. snd (ie_put ienv) = Some st \<longrightarrow> 200 \<le> st"
    and "uj_user_id job' = uj_user_id job" and "uj_source_id job' = uj_source_id job"
    and "uj_source_type job' = uj_source_type job"
    and "newUUID4 (pe_uuid penv) \<noteq> newUUID4 (ie_uuid ienv)"
    and "rv_store renv = Some (ws, is_assets s')" and "rv_uuid renv (ie_fresh ienv) = Some (ie_fresh ienv)"
  shows "(uj_source_type job \<noteq> ''velox_artifact'' \<longrightarrow>
      (\<exists>e. ResolveForUpload renv (post_of_job penv job' (ie_fresh ienv)) ttl = Inl e)) \<and>
    (uj_source_type job = ''velox_artifact'' \<and> rv_read_ok renv \<and> distinct (map ma_id (is_assets s')) \<and>
       0 < uj_workspace_id job' \<and> visible_to ws (uj_workspace_id job') (uj_user_id job) \<and>
       rv_now renv \<le> ie_now ienv + (if ie_retention_days ienv \<le> 0 then 7 else ie_retention_days ienv) * day \<longrightarrow>
       ResolveForUpload renv (post_of_job penv job' (ie_fresh ienv)) ttl =
         getObjectURL renv (ie_bucket ienv) (ingest_key ienv job) (if ttl \<le> 0 then hour else ttl))"
proof -
  let ?i = "ie_fresh ienv" and ?post = "post_of_job penv job' (ie_fresh ienv)"
  have rows: "\<And>a. a \<in> set (is_assets s') \<Longrightarrow> ma_id a = ?i \<Longrightarrow> row_of_job ienv job a"
    using processIngestJob_rows [OF assms(1,2)] by (auto simp: rows_of_job_def)
  have post: "deref (p_media_asset_id ?post) = ?i" "p_workspace_id ?post = uj_workspace_id job'"
    by (simp_all add: post_of_job_def Let_def deref_def)
  have res: "ResolveForUpload renv ?post ttl = resolveAssetForPost renv ?post ?i (deref (p_bucket ?post))
      (deref (p_storage_object_key ?post)) ttl"
    using assms(3) post by (simp add: ResolveForUpload_def)
  have drive: "\<exists>e. ResolveForUpload renv ?post ttl = Inl e" if "uj_source_type job \<noteq> ''velox_artifact''"
  proof (cases "ResolveForUpload renv ?post ttl")
    case (Inr url)
    have key: "deref (p_storage_object_key ?post) =
        BuildUploadKey (uj_user_id job) (newUUID4 (pe_uuid penv)) (uj_source_id job)"
      using that assms(5-7) by (simp add: post_of_job_def Let_def deref_def)
    from resolveAssetForPost_Inr [OF Inr [unfolded res]] obtain a where
      sv: "servable renv (p_workspace_id ?post) a" and idk: "rv_uuid renv ?i = Some (ma_id a)"
      "ma_upload_key a = deref (p_storage_object_key ?post)"
      using assms(3) key by auto
    from sv assms(9) have "a \<in> set (is_assets s')" by (auto simp: servable_def)
    with idk key assms(10) have "a \<in> set (is_assets s')" "ma_id a = ?i"
      "ma_upload_key a = BuildUploadKey (uj_user_id job) (newUUID4 (pe_uuid penv)) (uj_source_id job)"
      by simp_all
    with rows assms(8) show ?thesis
      by (auto simp: row_of_job_def ingest_key_def BuildUploadKey_uuid)
  qed simp
  have velox: "ResolveForUpload renv ?post ttl =
      getObjectURL renv (ie_bucket ienv) (ingest_key ienv job) (if ttl \<le> 0 then hour else ttl)"
    if v: "uj_source_type job = ''velox_artifact''" "rv_read_ok renv" "distinct (map ma_id (is_assets s'))"
      "0 < uj_workspace_id job'" "visible_to ws (uj_workspace_id job') (uj_user_id job)"
      "rv_now renv \<le> ie_now ienv + (if ie_retention_days ienv \<le> 0 then 7 else ie_retention_days ienv) * day"
  proof -
    obtain a where a: "a \<in> set (is_assets s')" "ma_id a = ?i" "ma_status a = MediaAssetStatusReady"
      using ingest_success_ready [OF assms(1,2,4)] by blast
    have row: "row_of_job ienv job a" using rows a by blast
    have mirrors: "deref (p_bucket ?post) = ''''" "deref (p_storage_object_key ?post) = ''''"
      using v(1) assms(7) by (simp_all add: post_of_job_def Let_def deref_def)
    have "filter (\<lambda>r. (?i \<noteq> '''' \<and> rv_uuid renv ?i = Some (ma_id r) \<or> ?i = '''' \<and> '''' \<noteq> '''' \<and> ma_upload_key r = '''') \<and>
        ('''' = '''' \<or> ma_bucket r = Some '''') \<and> ('''' = '''' \<or> ma_upload_key r = '''') \<and>
        visible_to ws (uj_workspace_id job') (ma_user_id r)) (is_assets s') = [a]"
      by (rule filter_unique_key [where f = ma_id, OF v(3) a(1)])
        (use a row v(5) assms(3,10) in \<open>auto simp: row_of_job_def\<close>)
    then have "FindForPost True (rv_uuid renv) ws (uj_workspace_id job') ?i '''' '''' (is_assets s') = Inr (Some a)"
      using v(4) assms(10) row by (simp add: FindForPost_def scanMediaAsset_def row_of_job_def)
    then show ?thesis
      using res assms(9) v row a(3) post mirrors
      by (simp add: resolveAssetForPost_def resolveAsset_def row_of_job_def ingest_key_def)
  qed
  show ?thesis using drive velox by blast
qed

text \<open>The sample run of the ingest half, as a Drive job and published afterwards.\<close>

theorem upload_job_media_witness:
  "\<exists>s' e. processIngestJob sample_ingest (sample_job\<lparr>uj_source_type := ''google_drive''\<rparr>) ''A''
       \<lparr>is_assets = [], is_jobs = [lease_stamp 0 ''A'' second sample_job], is_objects = []\<rparr> = (None, s') \<and>
     ResolveForUpload (sample_resolver (is_assets s'))
       (post_of_job (sample_publish_env\<lparr>pe_uuid := replicate 16 1\<rparr>) (sample_job\<lparr>uj_source_type := ''google_drive''\<rparr>) ''a9'') 0 =
       Inl e"
proof -
  let ?job = "sample_job\<lparr>uj_source_type := ''google_drive''\<rparr>"
  let ?s = "\<lparr>is_assets = [], is_jobs = [lease_stamp 0 ''A'' second sample_job], is_objects = []\<rparr>"
  obtain s' where r: "processIngestJob sample_ingest ?job ''A'' ?s = (None, s')"
    using sample_ingest_runs [of "''google_drive''"] by blast
  have "newUUID4 (replicate 16 1) \<noteq> newUUID4 (replicate 16 0)" by code_simp
  moreover have "\<forall>st. snd (ie_put sample_ingest) = Some st \<longrightarrow> 200 \<le> st" "ie_fresh sample_ingest = ''a9''"
    "ie_uuid sample_ingest = replicate 16 0"
    by (simp_all add: sample_ingest_def)
  ultimately show ?thesis
    using upload_job_media [OF r, where job' = ?job and penv = "sample_publish_env\<lparr>pe_uuid := replicate 16 1\<rparr>"
        and renv = "sample_resolver (is_assets s')" and ttl = 0] r
    by (simp add: sample_resolver_def sample_job_def)
qed

end
