(* ===== verification/PublishDelivery.thy ===== *)
theory PublishDelivery
  imports PublishWorker YouTubePool MediaAssets
begin

text \<open>
  The completion hook of the publish worker, \<open>internal/worker/publish_worker_delivery.go\<close> with
  the registry of \<open>internal/services/delivery_registry.go\<close>: after a publish the provider that is
  registered for the platform delivers a copy, best effort. A Drive account has no publisher and
  is served by its provider alone.
\<close>

section \<open>Errors of a provider\<close>

datatype drive_sentinel =
    ErrDriveConfig | ErrDriveNoRefreshToken | ErrDriveInvalidAccountID | ErrDriveIdempotencyConflict
  | ErrDriveSessionExpired

text \<open>
  What the code can ask an error: whether it is one of the sentinels (\<open>errors.Is\<close>), and the
  status and stage of each \<open>*services.DeliveryError\<close> on its chain, outermost first.
\<close>

record deliver_error =
  de_is :: "drive_sentinel \<Rightarrow> bool"
  de_carriers :: "(int \<times> string) list"
  de_text :: string

definition DeliveryStageCode :: "string \<Rightarrow> string" where
  "DeliveryStageCode stage = ToUpper (map (\<lambda>c. if c = CHR '' '' then CHR ''_'' else c) stage)"

definition DeliveryHTTPCode :: "int \<Rightarrow> string" where
  "DeliveryHTTPCode status = ''HTTP_'' @ FormatInt status"

definition deliveryErrorCode :: "deliver_error option \<Rightarrow> string" where
  "deliveryErrorCode err =
     (case err of None \<Rightarrow> ''''
      | Some e \<Rightarrow>
          if de_is e ErrDriveConfig then ''ERR_DRIVE_CONFIG''
          else if de_is e ErrDriveNoRefreshToken then ''ERR_DRIVE_NO_REFRESH_TOKEN''
          else if de_is e ErrDriveInvalidAccountID then ''ERR_DRIVE_INVALID_ACCOUNT_ID''
          else if de_is e ErrDriveIdempotencyConflict then ''ERR_DRIVE_IDEMPOTENCY_CONFLICT''
          else if de_is e ErrDriveSessionExpired then ''ERR_DRIVE_SESSION_EXPIRED''
          else case List.find (\<lambda>d. fst d \<noteq> 0) (de_carriers e) of
            Some d \<Rightarrow> DeliveryHTTPCode (fst d)
          | None \<Rightarrow>
              (case List.find (\<lambda>d. snd d \<noteq> '''') (de_carriers e) of
                 Some d \<Rightarrow> DeliveryStageCode (snd d)
               | None \<Rightarrow> ''DELIVERY_ERROR''))"


section \<open>The registry\<close>

record DeliveryResult =
  dr_provider :: string
  dr_status :: string
  dr_error_code :: "string option"

text \<open>
  A provider answers with an error or a result; \<open>dr_error_code\<close> is the entry of its metadata.
  A provider is a function of the configuration, the URL and the idempotency key.
\<close>

datatype deliver_answer = DvError deliver_error | DvResult DeliveryResult

type_synonym config = "string \<Rightarrow> string option"
type_synonym DeliveryProvider = "config \<Rightarrow> string \<Rightarrow> string \<Rightarrow> deliver_answer"
type_synonym DeliveryRegistry = "(string \<times> DeliveryProvider) list"

datatype registry_err =
    ErrDeliveryProviderAlreadyRegistered | ErrDeliveryProviderNotFound | ErrDeliveryProviderNotImplemented

definition dreg_Register ::
  "string \<Rightarrow> DeliveryProvider option \<Rightarrow> DeliveryRegistry \<Rightarrow> registry_err option \<times> DeliveryRegistry" where
  "dreg_Register name p reg =
     (case p of
        None \<Rightarrow> (Some ErrDeliveryProviderNotImplemented, reg)
      | Some d \<Rightarrow>
          if name = '''' \<or> map_of reg name \<noteq> None then (Some ErrDeliveryProviderAlreadyRegistered, reg)
          else (None, (name, d) # reg))"

definition dreg_Get :: "string \<Rightarrow> DeliveryRegistry \<Rightarrow> registry_err + DeliveryProvider" where
  "dreg_Get name reg =
     (if name = '''' then Inl ErrDeliveryProviderNotFound
      else case map_of reg name of None \<Rightarrow> Inl ErrDeliveryProviderNotFound | Some p \<Rightarrow> Inr p)"


section \<open>The drive_required gate\<close>

definition evaluateDriveRequiredGate :: "config option \<Rightarrow> DeliveryResult option \<Rightarrow> bool" where
  "evaluateDriveRequiredGate dest res =
     (case (dest, res) of
        (Some cfg, Some r) \<Rightarrow>
          deref (cfg ''drive_required'') = ''true'' \<and>
          (dr_status r = ''failed'' \<or> dr_status r \<notin> {''published'', ''processing'', '''', ''retrying''})
      | _ \<Rightarrow> False)"

definition targetKey :: "PostTarget \<Rightarrow> string" where
  "targetKey t = ''post_target_'' @ FormatInt (pt_id t)"

text \<open>\<open>folder\<close> is the environment variable \<open>GOOGLE_DRIVE_UPLOAD_FOLDER_ID\<close>.\<close>

definition dispatch_config :: "string \<Rightarrow> PlatformAccount \<Rightarrow> PostTarget \<Rightarrow> config \<Rightarrow> config" where
  "dispatch_config folder acc t extra =
     (let base = [''drive_account_id'' \<mapsto> FormatInt (pa_id acc)] ++ extra
      in if pa_platform acc = ''google-drive''
         then (if deref (base ''folder_id'') = '''' then base(''folder_id'' \<mapsto> folder) else base)
                (''drive_account_id'' \<mapsto> FormatInt (pt_account t))
         else base)"

definition recordDeliveryDispatchError ::
  "tx_fault \<Rightarrow> time \<Rightarrow> PostTarget \<Rightarrow> string \<Rightarrow> post_db \<Rightarrow> post_db" where
  "recordDeliveryDispatchError flt now t code db =
     (if code = '''' then db else snd (MarkDeliveryDispatchFailed flt now (pt_id t) code db))"

definition recordDriveRequiredViolation ::
  "tx_fault \<Rightarrow> time \<Rightarrow> PostTarget \<Rightarrow> DeliveryResult option \<Rightarrow> post_db \<Rightarrow> post_db" where
  "recordDriveRequiredViolation flt now t res db =
     (let detail = ''drive_required policy violated: required Drive upload terminally failed'';
          text = (case res of
                    Some r \<Rightarrow> if dr_provider r \<noteq> '''' then detail @ '' (provider='' @ dr_provider r @ '')'' else detail
                  | None \<Rightarrow> detail)
      in snd (MarkDriveRequiredFailed flt now (pt_id t) text db))"

datatype completion_err = DispatchNoPlatform | DispatchRegistry registry_err | DispatchDeliver deliver_error

text \<open>
  The size of the asset is only probed over HTTP to tell the provider; the provider is a
  parameter, so the probe is left out. \<open>None\<close> stands for a worker without a registry.
\<close>

definition dispatchPostCompletion ::
  "tx_fault \<Rightarrow> time \<Rightarrow> DeliveryRegistry option \<Rightarrow> string \<Rightarrow> PostTarget \<Rightarrow> PlatformAccount \<Rightarrow> string \<Rightarrow>
   config \<Rightarrow> post_db \<Rightarrow> (completion_err + DeliveryResult option) \<times> post_db" where
  "dispatchPostCompletion flt now registry folder t acc sourceURL extra db =
     (case registry of
        None \<Rightarrow> (Inr None, db)
      | Some reg \<Rightarrow>
          if pa_platform acc = '''' then (Inl DispatchNoPlatform, db)
          else case dreg_Get (pa_platform acc) reg of
            Inl e \<Rightarrow> (Inl (DispatchRegistry e), db)
          | Inr provider \<Rightarrow>
              (let cfg = dispatch_config folder acc t extra
               in case provider cfg sourceURL (targetKey t) of
                    DvError e \<Rightarrow>
                      (Inl (DispatchDeliver e),
                       recordDeliveryDispatchError flt now t (deliveryErrorCode (Some e)) db)
                  | DvResult r \<Rightarrow>
                      (Inr (Some r),
                       if evaluateDriveRequiredGate (Some cfg) (Some r)
                       then recordDriveRequiredViolation flt now t (Some r) db else db)))"


section \<open>Facts\<close>

text \<open>
  No caller ever puts \<open>drive_required\<close> into the configuration, so the gate never fires and no
  target becomes \<open>drive_required_failed\<close>: the hook changes at most the error code of the target.
\<close>

lemma drive_required_never_set:
  assumes "extra ''drive_required'' = None"
  shows "\<not> evaluateDriveRequiredGate (Some (dispatch_config folder acc t extra)) res"
proof -
  have "dispatch_config folder acc t extra ''drive_required'' = None"
    using assms by (simp add: dispatch_config_def Let_def map_add_def)
  then show ?thesis
    by (auto simp: evaluateDriveRequiredGate_def deref_def split: option.split)
qed

lemma dispatch_db:
  assumes "extra ''drive_required'' = None"
  shows "snd (dispatchPostCompletion flt now registry folder t acc url extra db) = db \<or>
    (\<exists>code. snd (dispatchPostCompletion flt now registry folder t acc url extra db) =
       snd (MarkDeliveryDispatchFailed flt now (pt_id t) code db))"
proof -
  have "\<not> evaluateDriveRequiredGate (Some (dispatch_config folder acc t extra)) res" for res
    by (rule drive_required_never_set) (rule assms)
  then show ?thesis
    by (auto simp: dispatchPostCompletion_def recordDeliveryDispatchError_def Let_def
        split: option.split sum.split deliver_answer.split)
qed

text \<open>Every dispatch error has a code, so every one of them is recorded.\<close>

lemma deliveryErrorCode_nonempty: "deliveryErrorCode (Some e) \<noteq> ''''"
proof -
  have "DeliveryStageCode s \<noteq> ''''" if "s \<noteq> ''''" for s
    using that by (simp add: DeliveryStageCode_def ToUpper_def)
  then have "DeliveryStageCode (snd d) \<noteq> ''''" if "List.find (\<lambda>d. snd d \<noteq> '''') xs = Some d"
    for xs :: "(int \<times> string) list" and d
    using that by (auto simp: find_Some_iff)
  then show ?thesis
    unfolding deliveryErrorCode_def by (auto simp: DeliveryHTTPCode_def split: option.splits)
qed

end
