(* ===== verification/ChannelText.thy ===== *)
theory ChannelText
  imports PublishDelivery
begin

text \<open>
  The text of a post in the language of a channel,
  \<open>internal/worker/publish_worker_translate.go\<close>: the snapshot of the account, the translators
  behind the cache of the worker, or the original.
\<close>

definition has_letter :: "string \<Rightarrow> bool" where
  "has_letter s \<longleftrightarrow> list_ex (\<lambda>c. CHR ''a'' \<le> c \<and> c \<le> CHR ''z'') s"

definition CheckBCP47Like :: "string \<Rightarrow> bool" where
  "CheckBCP47Like code \<longleftrightarrow>
     code = '''' \<or>
     length code \<le> 35 \<and>
     list_all (\<lambda>c. c \<notin> {CHR ''/'', CHR 0x5C, CHR '' '', CHR 0x09, CHR 0x0A, CHR 0x0D}) code \<and>
     has_letter (ToLower code)"

record TranslateRequest =
  tr_title :: string
  tr_description :: string
  tr_source :: string
  tr_target :: string

datatype nvidia_answer = NvNotConfigured | NvError string | NvNil | NvText string string

text \<open>
  The JSON decoders of the metadata (\<open>tl_enabled\<close> is the switch, \<open>None\<close> when it is missing or
  the metadata malformed), the language in the metadata of the account, and the two translators,
  \<open>None\<close> when not wired.
\<close>

record translate_env =
  tl_enabled :: "string \<Rightarrow> bool option"
  tl_snapshots :: "string \<Rightarrow> (string \<Rightarrow> publish_snapshot option) option"
  tl_source :: "string \<Rightarrow> string"
  tl_language :: string
  tl_nvidia :: "(TranslateRequest \<Rightarrow> nvidia_answer) option"
  tl_argos :: "(TranslateRequest \<Rightarrow> string + string) option"

definition postTranslationEnabled :: "(string \<Rightarrow> bool option) \<Rightarrow> Post \<Rightarrow> bool" where
  "postTranslationEnabled dec p =
     (p_metadata p = '''' \<or> (case dec (p_metadata p) of None \<Rightarrow> True | Some b \<Rightarrow> b))"

definition postSourceLanguage :: "(string \<Rightarrow> string) \<Rightarrow> Post \<Rightarrow> string" where
  "postSourceLanguage dec p = (if p_metadata p = '''' then '''' else dec (p_metadata p))"

text \<open>
  The cache is keyed by post, version and language. \<open>FindByID\<close> does not read the version, so it
  is the zero of the struct in every key, and is left out.
\<close>

type_synonym text_cache = "((int \<times> string) \<times> Post) list"

definition translate_text ::
  "translate_env \<Rightarrow> Post \<Rightarrow> string \<Rightarrow> TranslateRequest \<Rightarrow> string + (string \<times> string) option" where
  "translate_text te p lang req =
     (let ctx = (\<lambda>what. ''channel language translation '' @ what @ '' (post='' @ FormatInt (p_id p) @
                       '' lang='' @ lang @ ''): '');
          nv = (case tl_nvidia te of None \<Rightarrow> NvNil | Some f \<Rightarrow> f req)
      in case nv of
           NvError e \<Rightarrow> Inl (ctx ''title'' @ e)
         | _ \<Rightarrow>
             (let (title, descr, done1) =
                    (case nv of
                       NvText t d \<Rightarrow> (t, if tl_argos te = None then d else p_caption p, True)
                     | _ \<Rightarrow> (p_title p, p_caption p, False))
              in case tl_argos te of
                   None \<Rightarrow> Inr (if done1 then Some (title, descr) else None)
                 | Some f \<Rightarrow>
                     (case f req of
                        Inl e \<Rightarrow> Inl (ctx ''description'' @ e)
                      | Inr d \<Rightarrow>
                          if d \<noteq> '''' then Inr (Some (title, d))
                          else Inr (if done1 then Some (title, descr) else None))))"

definition localizeForChannel ::
  "translate_env \<Rightarrow> int \<Rightarrow> Post \<Rightarrow> text_cache \<Rightarrow> (string + Post \<times> bool) \<times> text_cache" where
  "localizeForChannel te account p cache =
     (if \<not> postTranslationEnabled (tl_enabled te) p then (Inr (p, False), cache)
      else case snapshotForAccount (tl_snapshots te) (p_metadata p) account of
        Some sn \<Rightarrow> (Inr (p\<lparr>p_title := sn_title sn, p_caption := sn_description sn\<rparr>, True), cache)
      | None \<Rightarrow>
          if tl_nvidia te = None \<and> tl_argos te = None then (Inr (p, False), cache)
          else
            let lang = ToLower (TrimSpace (tl_language te));
                source = ToLower (TrimSpace (postSourceLanguage (tl_source te) p))
            in if lang = '''' \<or> \<not> CheckBCP47Like lang
                  \<or> TrimSpace (p_title p) = '''' \<and> TrimSpace (p_caption p) = ''''
                  \<or> source \<noteq> '''' \<and> source = lang
               then (Inr (p, False), cache)
               else case map_of cache (p_id p, lang) of
                 Some q \<Rightarrow> (Inr (q, True), cache)
               | None \<Rightarrow>
                   (case translate_text te p lang
                       \<lparr>tr_title = p_title p, tr_description = p_caption p, tr_source = source,
                        tr_target = lang\<rparr> of
                      Inl e \<Rightarrow> (Inl e, cache)
                    | Inr None \<Rightarrow> (Inr (p, False), cache)
                    | Inr (Some (t, d)) \<Rightarrow>
                        (let q = p\<lparr>p_title := t, p_caption := d\<rparr>
                         in (Inr (q, True), ((p_id p, lang), q) # cache))))"


section \<open>What localisation keeps\<close>

text \<open>
  Localisation only touches the text: as long as the cache holds localised copies of the posts
  it is asked about, everything but title and caption stays. When a post is edited after its
  first translation, the copy in the cache is stale, and \<open>localize_serves_stale\<close> shows that it
  is what is published.
\<close>

definition same_but_text :: "Post \<Rightarrow> Post \<Rightarrow> bool" where
  "same_but_text p q \<longleftrightarrow> q\<lparr>p_title := p_title p, p_caption := p_caption p\<rparr> = p"

lemma same_but_text_refl [simp]: "same_but_text p p"
  by (simp add: same_but_text_def)

lemma same_but_text_set [simp]: "same_but_text p (p\<lparr>p_title := t, p_caption := c\<rparr>)"
  by (simp add: same_but_text_def)

lemma localize_cases:
  assumes "localizeForChannel te a p cache = (Inr (q, b), cache')"
  shows "same_but_text p q \<or> (\<exists>k \<in> set cache. snd k = q \<and> fst (fst k) = p_id p)"
  using assms
  by (fastforce simp: localizeForChannel_def Let_def split: if_splits option.splits sum.splits prod.splits
      dest: map_of_SomeD)

lemma TrimSpace_Nil [simp]: "TrimSpace '''' = ''''"
  by (metis TrimSpace_length length_0_conv le_zero_eq list.size(3))

lemma localize_serves_stale:
  assumes "p_metadata p = ''''" and "tl_nvidia te = Some f"
    and "lang = ToLower (TrimSpace (tl_language te))" and "lang \<noteq> ''''" and "CheckBCP47Like lang"
    and "TrimSpace (p_title p) \<noteq> ''''" and "map_of cache (p_id p, lang) = Some old"
  shows "localizeForChannel te a p cache = (Inr (old, True), cache)"
  using assms
  by (simp add: localizeForChannel_def postTranslationEnabled_def snapshotForAccount_def
      postSourceLanguage_def TrimSpace_Nil ToLower_def Let_def)

end
