(* ===== verification/PublishTarget.thy ===== *)
theory PublishTarget
  imports ChannelText
begin

text \<open>
  One target of a post from the claim to its final status, \<open>publishTarget\<close> of
  \<open>internal/worker/publish_worker_status.go\<close> with its phases in \<open>publish_worker_youtube.go\<close>,
  \<open>publish_worker_upload.go\<close>, \<open>publish_worker_download.go\<close> and \<open>oauth_reauth.go\<close>, and the tick
  of \<open>publish_worker_lifecycle.go\<close>. Everything outside the repository answers through the
  environment; each call of a provider is recorded, in order, in the state.
\<close>

section \<open>State and environment\<close>

datatype provider_call =
    CallPublish int PublishPayload | CallPrivacy int string string "time option" | CallCanary int

datatype reauth_flag = FlagAccount int string | FlagConnection int string

text \<open>
  \<open>tw_target\<close> is the worker's copy of the row, \<open>tw_flags\<close> what it wrote to the table of
  accounts. The integer of a call is the target it was made for.
\<close>

record target_world =
  tw_target :: PostTarget
  tw_db :: post_db
  tw_pubs :: "ytpub list"
  tw_cache :: text_cache
  tw_flags :: "reauth_flag list"
  tw_calls :: "provider_call list"

datatype renew_answer = RnToken string | RnInvalidGrant | RnModernGrantMissing | RnOther
datatype bind_answer = BindOk | BindMismatch string | BindError string
datatype privacy_answer = PuOk | PuNotFound string | PuError string
datatype video_answer = VaPrivacy string | VaNotFound string | VaError string

text \<open>
  Clock readings and faults are indexed by the phase they belong to: 0 the claim, 1 the
  idempotency key and the checks of phase 2, 2 the final write, 3 what follows it. \<open>None\<close> stands
  for a capability that is not there; an error is given by its text. \<open>te_renew\<close> is indexed by
  the attempt and the token type, \<open>te_page_token\<close> is what the vault holds for the account.
\<close>

record target_env =
  te_worker :: string
  te_locked :: "int \<Rightarrow> bool"
  te_flt :: "nat \<Rightarrow> tx_fault"
  te_now :: "nat \<Rightarrow> time"
  te_post_error :: "string option"
  te_account :: "string + PlatformAccount option"
  te_connection :: "int option"
  te_registry :: "DeliveryRegistry option"
  te_folder :: string
  te_folder_of :: "string \<Rightarrow> string option"
  te_oauth :: bool
  te_publisher :: bool
  te_async :: bool
  te_text :: translate_env
  te_renew :: "nat \<Rightarrow> string \<Rightarrow> renew_answer"
  te_page_token :: "string option"
  te_binder :: "(string \<Rightarrow> string \<Rightarrow> bind_answer) option"
  te_metadata_ok :: bool
  te_canary_flag :: "string \<Rightarrow> bool"
  te_canary :: "(string \<Rightarrow> string \<Rightarrow> string option) option"
  te_sha :: "string \<Rightarrow> 8 word list"
  te_tags :: "string \<Rightarrow> string list option"
  te_yt_wired :: bool
  te_yt_lookup :: "string option"
  te_yt_flt :: db_fault
  te_checker :: "(string \<Rightarrow> video_answer) option"
  te_updater :: "(string \<Rightarrow> string \<Rightarrow> time option \<Rightarrow> privacy_answer) option"
  te_throttle :: "string option"
  te_resolver :: "resolver_env option"
  te_resolve_text :: "resolve_err \<Rightarrow> string"
  te_publish :: "string \<Rightarrow> PublishPayload \<Rightarrow> go_error + string"

datatype target_err =
    TeClaim post_err | TeFailed string | TeBlocked string | TeKeyConflict | TeKeyMissing | TeKey
  | TeLookup string | TeWrite post_err | TeReschedule post_err | TeVideoStatus string
  | TeGrace string | TeThrottle string

type_synonym target_result = "target_err option \<times> target_world"


section \<open>Writes\<close>

definition tw_update :: "target_env \<Rightarrow> target_world \<Rightarrow> post_err option \<times> target_world" where
  "tw_update env w =
     (let (r, db) = updateTargetStatus (te_flt env 2) (te_now env 2) (te_worker env) (tw_target w) (tw_db w)
      in (r, w\<lparr>tw_db := db\<rparr>))"

definition tw_failed :: "target_env \<Rightarrow> string \<Rightarrow> target_world \<Rightarrow> target_result" where
  "tw_failed env reason w =
     (let (t, db) = markFailed (te_flt env 2) (te_now env 2) (te_worker env) (tw_target w) reason (tw_db w)
      in (Some (TeFailed reason), w\<lparr>tw_target := t, tw_db := db\<rparr>))"

definition tw_blocked :: "target_env \<Rightarrow> string \<Rightarrow> target_world \<Rightarrow> target_result" where
  "tw_blocked env reason w =
     (let (t, db) = markPublishBlockedAuth (te_flt env 2) (te_now env 2) (te_worker env) (tw_target w) reason
                      (tw_db w)
      in (Some (TeBlocked reason), w\<lparr>tw_target := t, tw_db := db\<rparr>))"

definition tw_set_status :: "PostStatus \<Rightarrow> target_world \<Rightarrow> target_world" where
  "tw_set_status s w = w\<lparr>tw_target := (tw_target w)\<lparr>pt_status := s\<rparr>\<rparr>"

definition tw_call :: "provider_call \<Rightarrow> target_world \<Rightarrow> target_world" where
  "tw_call c w = w\<lparr>tw_calls := tw_calls w @ [c]\<rparr>"

text \<open>
  \<open>SetProviderIdempotencyKey\<close> of \<open>post_repo_target.go\<close>, under the unique index of migration 022.
\<close>

datatype key_err = KeyEmpty | ErrProviderIdempotencyConflict | KeyTargetNotFound | KeyDatabase

definition key_stmt :: "int \<Rightarrow> string \<Rightarrow> target_stmt" where
  "key_stmt tid key = ((\<lambda>r. pt_id r = tid), (\<lambda>r. r\<lparr>pt_provider_idempotency_key := Some key\<rparr>))"

definition key_unique :: "target_row list \<Rightarrow> bool" where
  "key_unique ts \<longleftrightarrow>
     distinct (map (\<lambda>r. (pt_account r, pt_provider_idempotency_key r))
       (filter (\<lambda>r. pt_provider_idempotency_key r \<noteq> None) ts))"

definition SetProviderIdempotencyKey ::
  "tx_fault \<Rightarrow> time \<Rightarrow> int \<Rightarrow> string \<Rightarrow> post_db \<Rightarrow> key_err option \<times> post_db" where
  "SetProviderIdempotencyKey flt now tid key db =
     (if key = '''' then (Some KeyEmpty, db)
      else if flt = TxFails then (Some KeyDatabase, db)
      else
        let (n, db') = exec_targets now (key_stmt tid key) db
        in if \<not> key_unique (targets db') then (Some ErrProviderIdempotencyConflict, db)
           else if flt = TxCommitLost then (Some KeyDatabase, db')
           else (if n = 0 then Some KeyTargetNotFound else None, db'))"


section \<open>Loading\<close>

text \<open>
  \<open>FindByID\<close> selects neither the metadata nor the version of the post: the worker only ever
  sees posts without metadata.
\<close>

definition find_post :: "int \<Rightarrow> post_db \<Rightarrow> Post option" where
  "find_post i db = map_option (\<lambda>p. p\<lparr>p_metadata := ''''\<rparr>) (find_row p_id i (posts db))"

definition loadPostAndAccount :: "target_env \<Rightarrow> target_world \<Rightarrow> string + Post \<times> PlatformAccount" where
  "loadPostAndAccount env w =
     (let t = tw_target w
      in case te_post_error env of
           Some e \<Rightarrow> Inl (''load post '' @ FormatInt (pt_post_id t) @ '': '' @ e)
         | None \<Rightarrow>
             (case find_post (pt_post_id t) (tw_db w) of
                None \<Rightarrow> Inl (''post '' @ FormatInt (pt_post_id t) @ '' not found'')
              | Some p \<Rightarrow>
                  (case te_account env of
                     Inl e \<Rightarrow> Inl (''load account '' @ FormatInt (pt_account t) @ '': '' @ e)
                   | Inr None \<Rightarrow> Inl (''platform_account '' @ FormatInt (pt_account t) @ '' not found'')
                   | Inr (Some a) \<Rightarrow> Inr (p, a))))"

section \<open>Credentials\<close>

datatype yt_renewal = YrToken string | ErrYouTubeInvalidGrant | ErrYouTubeTokenRenewal

definition RenewYouTubeToken :: "(string \<Rightarrow> renew_answer) \<Rightarrow> yt_renewal" where
  "RenewYouTubeToken renew =
     (case renew ''bearer'' of
        RnToken t \<Rightarrow> YrToken t
      | RnInvalidGrant \<Rightarrow> ErrYouTubeInvalidGrant
      | RnOther \<Rightarrow> ErrYouTubeTokenRenewal
      | RnModernGrantMissing \<Rightarrow>
          (case renew ''long_lived'' of
             RnToken t \<Rightarrow> YrToken t
           | RnInvalidGrant \<Rightarrow> ErrYouTubeInvalidGrant
           | _ \<Rightarrow> ErrYouTubeTokenRenewal))"

definition renew_generic :: "(string \<Rightarrow> renew_answer) \<Rightarrow> string option" where
  "renew_generic renew =
     (case renew ''bearer'' of
        RnToken t \<Rightarrow> Some t
      | RnModernGrantMissing \<Rightarrow> (case renew ''long_lived'' of RnToken t \<Rightarrow> Some t | _ \<Rightarrow> None)
      | _ \<Rightarrow> None)"

definition youtubeReauthReason :: string where
  "youtubeReauthReason =
     ''Shared OAuth grant requires reauthorization: autorizzazione Google revocata o scaduta''"

text \<open>
  The user repository has the grant-wide update. \<open>connection\<close> is the \<open>OAuthConnectionID\<close> of the
  account; errors of the update are only logged.
\<close>

definition grant_reauth_flag :: "int option \<Rightarrow> PlatformAccount \<Rightarrow> reauth_flag" where
  "grant_reauth_flag connection a =
     (case connection of
        Some c \<Rightarrow> if c > 0 then FlagConnection c ''SHARED_GRANT_REAUTH_REQUIRED''
                  else FlagAccount (pa_id a) ''SHARED_GRANT_REAUTH_REQUIRED''
      | None \<Rightarrow> FlagAccount (pa_id a) ''SHARED_GRANT_REAUTH_REQUIRED'')"

definition markYouTubeGrantReauth :: "target_env \<Rightarrow> PlatformAccount \<Rightarrow> target_world \<Rightarrow> target_world" where
  "markYouTubeGrantReauth env a w =
     (if pa_platform a \<noteq> ''youtube'' then w
      else w\<lparr>tw_flags := tw_flags w @ [grant_reauth_flag (te_connection env) a]\<rparr>)"

text \<open>
  A phase that may end the run returns \<open>Inl\<close> its result, or \<open>Inr\<close> what the next phase needs.
\<close>

definition resolvePublishToken ::
  "target_env \<Rightarrow> PlatformAccount \<Rightarrow> target_world \<Rightarrow> (target_result, string) sum" where
  "resolvePublishToken env a w =
     (let page = (\<lambda>t. case te_page_token env of Some p \<Rightarrow> (if p \<noteq> '''' then p else t) | None \<Rightarrow> t)
      in if pa_platform a = ''youtube''
         then case RenewYouTubeToken (te_renew env 0) of
                YrToken t \<Rightarrow> Inr (page t)
              | ErrYouTubeInvalidGrant \<Rightarrow>
                  Inl (tw_blocked env youtubeReauthReason (markYouTubeGrantReauth env a w))
              | ErrYouTubeTokenRenewal \<Rightarrow> Inl (tw_failed env ''token refresh failed'' w)
         else case renew_generic (te_renew env 0) of
                Some t \<Rightarrow> Inr (page t)
              | None \<Rightarrow> Inl (tw_failed env ''token refresh failed'' w))"

definition validateYouTubeChannelBinding ::
  "target_env \<Rightarrow> PlatformAccount \<Rightarrow> string \<Rightarrow> target_world \<Rightarrow> target_result option" where
  "validateYouTubeChannelBinding env a token w =
     (if pa_platform a \<noteq> ''youtube'' then None
      else case te_binder env of
        None \<Rightarrow> None
      | Some check \<Rightarrow>
          (case check token (pa_user_id a) of
             BindOk \<Rightarrow> None
           | BindMismatch e \<Rightarrow>
               Some (tw_blocked env (''youtube channel binding check: '' @ e)
                 (w\<lparr>tw_flags := tw_flags w @ [FlagAccount (pa_id a) ''youtube_channel_mismatch'']\<rparr>))
           | BindError e \<Rightarrow> Some (tw_failed env (''youtube channel binding check: '' @ e) w)))"

definition isCanaryEnabled :: "target_env \<Rightarrow> Post \<Rightarrow> post_db \<Rightarrow> bool" where
  "isCanaryEnabled env p db \<longleftrightarrow>
     te_metadata_ok env \<and>
     some_and (\<lambda>q. p_metadata q \<noteq> '''' \<and> te_canary_flag env (p_metadata q)) (find_row p_id (p_id p) (posts db))"

text \<open>
  The upload of the canary answers with the channel it landed on, \<open>None\<close> for an error or no
  result; every error, also \<open>ErrYouTubeCanaryInvalidMedia\<close>, blocks the target.
\<close>

definition runCanaryPreflight ::
  "target_env \<Rightarrow> PlatformAccount \<Rightarrow> Post \<Rightarrow> string \<Rightarrow> target_world \<Rightarrow>
   (target_result, string \<times> target_world) sum" where
  "runCanaryPreflight env a p token w =
     (if \<not> isCanaryEnabled env p (tw_db w) then Inr (token, w)
      else
        let renewed = (if pa_platform a = ''youtube''
                       then (case RenewYouTubeToken (te_renew env 1) of YrToken t \<Rightarrow> Some t | _ \<Rightarrow> None)
                       else (case te_renew env 1 ''bearer'' of RnToken t \<Rightarrow> Some t | _ \<Rightarrow> None))
        in case renewed of
             None \<Rightarrow> Inl (tw_blocked env ''canary pre-flight: renew failed'' w)
           | Some t \<Rightarrow>
               (case te_canary env of
                  None \<Rightarrow> Inl (tw_blocked env ''canary pre-flight: capability absent'' w)
                | Some upload \<Rightarrow>
                    (let w' = tw_call (CallCanary (pt_id (tw_target w))) w
                     in if upload t (pa_user_id a) = Some (pa_user_id a) then Inr (t, w')
                        else Inl (tw_blocked env ''canary pre-flight: channel mismatch'' w'))))"


section \<open>The idempotency key\<close>

text \<open>\<open>sha\<close> is SHA-256 on bytes.\<close>

definition computeProviderIdempotencyKey :: "(string \<Rightarrow> 8 word list) \<Rightarrow> int \<Rightarrow> int \<Rightarrow> string" where
  "computeProviderIdempotencyKey sha post account =
     take 16 (EncodeToString (sha (''v1:'' @ FormatInt post @ '':'' @ FormatInt account)))"

definition key_conflict_text :: "int \<Rightarrow> string" where
  "key_conflict_text tid =
     ''provider idempotency key conflict: '' @
     ''provider idempotency key conflict: account already has a target with this key: id='' @ FormatInt tid"

definition ensureProviderIdempotencyKey ::
  "target_env \<Rightarrow> PlatformAccount \<Rightarrow> target_world \<Rightarrow> (target_result, string \<times> target_world) sum" where
  "ensureProviderIdempotencyKey env a w =
     (let t = tw_target w
      in if deref (pt_provider_idempotency_key t) \<noteq> '''' then Inr (deref (pt_provider_idempotency_key t), w)
         else
           let key = computeProviderIdempotencyKey (te_sha env) (pt_post_id t) (pa_id a);
               w1 = w\<lparr>tw_target := t\<lparr>pt_provider_idempotency_key := Some key\<rparr>\<rparr>;
               (e, db) = SetProviderIdempotencyKey (te_flt env 1) (te_now env 1) (pt_id t) key (tw_db w1);
               w2 = w1\<lparr>tw_db := db\<rparr>
           in case e of
                None \<Rightarrow> Inr (key, w2)
              | Some ErrProviderIdempotencyConflict \<Rightarrow>
                  Inl (Some TeKeyConflict,
                       snd (tw_update env (w2\<lparr>tw_target := (tw_target w2)\<lparr>pt_status := PSFailed,
                         pt_error_message := key_conflict_text (pt_id t)\<rparr>\<rparr>)))
              | Some KeyTargetNotFound \<Rightarrow> Inl (Some TeKeyMissing, w2)
              | Some _ \<Rightarrow> Inl (Some TeKey, w2))"

section \<open>A video that is already uploaded\<close>

definition nativePublishGraceWindow :: duration where
  "nativePublishGraceWindow = 10 * minute"

definition CoercePrivacyForUpdate :: "string \<Rightarrow> time option \<Rightarrow> time \<Rightarrow> string \<times> time option" where
  "CoercePrivacyForUpdate privacy publishAt now =
     (if null_or (\<lambda>t. t \<le> now) publishAt then (privacy, None) else (''private'', publishAt))"

definition EncodeYouTubePublishID :: "string \<Rightarrow> string \<Rightarrow> string" where
  "EncodeYouTubePublishID channel video = channel @ '':'' @ video"

definition isOrphanedYouTubeVideo :: "privacy_answer \<Rightarrow> string \<Rightarrow> bool" where
  "isOrphanedYouTubeVideo ans video =
     (case ans of
        PuOk \<Rightarrow> False
      | PuNotFound e \<Rightarrow> True
      | PuError e \<Rightarrow> video \<noteq> '''' \<and> sublist video e \<and> sublist ''not found'' (ToLower e))"

text \<open>
  The hook after a completed publish; its errors are only logged. The URL of the first use is
  resolved afresh.
\<close>

definition tw_dispatch :: "target_env \<Rightarrow> PlatformAccount \<Rightarrow> string \<Rightarrow> target_world \<Rightarrow> target_world" where
  "tw_dispatch env a url w =
     w\<lparr>tw_db := snd (dispatchPostCompletion (te_flt env 3) (te_now env 3) (te_registry env) (te_folder env)
                        (tw_target w) a url Map.empty (tw_db w))\<rparr>"

text \<open>\<open>Inl\<close> an error, \<open>Inr b\<close> whether the target is handled.\<close>

type_synonym phase2_result = "(target_err + bool) \<times> target_world"

definition markYouTubeTargetPublished ::
  "target_env \<Rightarrow> PlatformAccount \<Rightarrow> int \<Rightarrow> string \<Rightarrow> Post \<Rightarrow> target_world \<Rightarrow> phase2_result" where
  "markYouTubeTargetPublished env a pub video p w =
     (let w1 = w\<lparr>tw_pubs := snd (yt_MarkPublished (te_yt_flt env) (te_now env 2) pub (tw_pubs w)),
                 tw_target := (tw_target w)\<lparr>pt_status := PSPublished,
                   pt_platform_post_id := EncodeYouTubePublishID (pa_user_id a) video,
                   pt_published_at := Some (te_now env 2)\<rparr>\<rparr>;
          (e, w2) = tw_update env w1
      in case e of
           Some x \<Rightarrow> (Inl (TeWrite x), w2)
         | None \<Rightarrow>
             (case te_resolver env of
                None \<Rightarrow> (Inr True, w2)
              | Some r \<Rightarrow>
                  (case ResolveForUpload r p hour of
                     Inl _ \<Rightarrow> (Inr True, w2)
                   | Inr url \<Rightarrow> (Inr True, tw_dispatch env a url w2))))"

definition clear_upload :: "target_env \<Rightarrow> int \<Rightarrow> target_world \<Rightarrow> target_world" where
  "clear_upload env pub w = w\<lparr>tw_pubs := snd (ClearYouTubeUpload (te_yt_flt env) (te_now env 1) pub (tw_pubs w))\<rparr>"

definition p2_failed :: "target_env \<Rightarrow> string \<Rightarrow> target_world \<Rightarrow> phase2_result" where
  "p2_failed env reason w = (Inl (TeFailed reason), snd (tw_failed env reason w))"

definition settleNativePublish ::
  "target_env \<Rightarrow> PlatformAccount \<Rightarrow> ytpub \<Rightarrow> string \<Rightarrow> Post \<Rightarrow> target_world \<Rightarrow> phase2_result" where
  "settleNativePublish env a pub video p w =
     (case te_checker env of
        None \<Rightarrow> markYouTubeTargetPublished env a (yt_id pub) video p w
      | Some check \<Rightarrow>
          (case check video of
             VaNotFound _ \<Rightarrow> (Inr False, clear_upload env (yt_id pub) w)
           | VaError e \<Rightarrow>
               (Inl (TeVideoStatus (''native publish status check video='' @ video @ '': '' @ e)),
                snd (tw_update env (tw_set_status PSQueued w)))
           | VaPrivacy privacy \<Rightarrow>
               if privacy = ''public'' then markYouTubeTargetPublished env a (yt_id pub) video p w
               else if some_and (\<lambda>t. te_now env 1 < t + nativePublishGraceWindow) (yt_native_publish_at pub)
               then
                 (let (e, t, db) = retryTarget (te_flt env 2) (te_now env 2) (te_worker env) (tw_target w)
                        ''native publish still private; waiting for YouTube transition'' (tw_db w)
                  in (Inl (TeGrace video), w\<lparr>tw_target := t, tw_db := db\<rparr>))
               else
                 (case te_updater env of
                    None \<Rightarrow> p2_failed env
                      (''native publish recovery: YouTube provider missing YouTubePrivacyUpdater (video '' @
                       video @ '' still '' @ privacy @ '' past grace window)'') w
                  | Some update \<Rightarrow>
                      (let w1 = tw_call (CallPrivacy (pt_id (tw_target w)) video ''public'' None) w;
                           ans = update video ''public'' None
                       in case ans of
                            PuOk \<Rightarrow> markYouTubeTargetPublished env a (yt_id pub) video p w1
                          | _ \<Rightarrow>
                              if isOrphanedYouTubeVideo ans video
                              then (Inr False, clear_upload env (yt_id pub) w1)
                              else p2_failed env (''native publish recovery videos.update: '' @
                                     (case ans of PuError e \<Rightarrow> e | _ \<Rightarrow> '''')) w1))))"

text \<open>
  The last step is not confined to YouTube: a post that an upload job made waits for a delivery
  on every platform. After an orphaned upload it is reached too, in spite of the comments that
  announce a fresh publish there.
\<close>

definition wait_text :: string where
  "wait_text = ''waiting for YouTube delivery materialization''"

definition wait_for_delivery :: "target_env \<Rightarrow> Post \<Rightarrow> target_world \<Rightarrow> phase2_result" where
  "wait_for_delivery env p w =
     (if p_upload_job_id p = None then (Inr False, w)
      else
        let (e, w1) = tw_update env (w\<lparr>tw_target := (tw_target w)\<lparr>pt_status := PSWaitingProvider,
                        pt_error_message := wait_text\<rparr>\<rparr>)
        in (case e of Some x \<Rightarrow> Inl (TeWrite x) | None \<Rightarrow> Inr True, w1))"

definition uploaded_video :: "ytpub option \<Rightarrow> (ytpub \<times> string) option" where
  "uploaded_video pub =
     (case pub of
        None \<Rightarrow> None
      | Some r \<Rightarrow>
          if yt_upload_status r = ''youtube_uploaded'' \<and> deref (yt_video_id r) \<noteq> ''''
          then Some (r, deref (yt_video_id r)) else None)"

definition publishYouTubePhase2 ::
  "target_env \<Rightarrow> PlatformAccount \<Rightarrow> Post \<Rightarrow> PublishPayload \<Rightarrow> target_world \<Rightarrow> phase2_result" where
  "publishYouTubePhase2 env a p payload w =
     (if pa_platform a \<noteq> ''youtube'' \<or> \<not> te_yt_wired env then wait_for_delivery env p w
      else case te_yt_lookup env of
        Some e \<Rightarrow>
          (Inl (TeLookup (''youtube target publication lookup: '' @ e)),
           snd (tw_update env (tw_set_status PSQueued w)))
      | None \<Rightarrow>
          (case uploaded_video (FindByPostTargetID (pt_id (tw_target w)) (tw_pubs w)) of
             None \<Rightarrow> wait_for_delivery env p w
           | Some (pub, video) \<Rightarrow>
               if yt_native_publish_at pub \<noteq> None then settleNativePublish env a pub video p w
               else
                 (case te_updater env of
                    None \<Rightarrow> wait_for_delivery env p w
                  | Some update \<Rightarrow>
                      (let (privacy, at1) = CoercePrivacyForUpdate (pp_privacy payload) (p_publish_at p) (te_now env 1);
                           w1 = tw_call (CallPrivacy (pt_id (tw_target w)) video privacy at1) w;
                           ans = update video privacy at1
                       in case ans of
                            PuOk \<Rightarrow> markYouTubeTargetPublished env a (yt_id pub) video p w1
                          | _ \<Rightarrow>
                              if isOrphanedYouTubeVideo ans video
                              then wait_for_delivery env p (clear_upload env (yt_id pub) w1)
                              else p2_failed env (''UpdateVideoPrivacy: '' @
                                     (case ans of PuError e \<Rightarrow> e | _ \<Rightarrow> '''')) w1))))"

section \<open>A fresh publish\<close>

definition resolveFreshMediaPayload ::
  "target_env \<Rightarrow> Post \<Rightarrow> PublishPayload \<Rightarrow> target_world \<Rightarrow> (target_result, PublishPayload) sum" where
  "resolveFreshMediaPayload env p payload w =
     (case te_resolver env of
        None \<Rightarrow> Inl (tw_failed env ''media download resolver is not configured'' w)
      | Some r \<Rightarrow>
          (case ResolveForUpload r p hour of
             Inl ErrAssetExpired \<Rightarrow>
               Inl (tw_failed env ''media asset expired at time of publish; re-upload required'' w)
           | Inl e \<Rightarrow> Inl (tw_failed env (''resolve fresh media upload URL: '' @ te_resolve_text env e) w)
           | Inr url \<Rightarrow> Inr (payload\<lparr>pp_video_url := url\<rparr>)))"

definition executePublish ::
  "target_env \<Rightarrow> PlatformAccount \<Rightarrow> Post \<Rightarrow> string \<Rightarrow> PublishPayload \<Rightarrow> target_world \<Rightarrow> target_result" where
  "executePublish env a p token payload w =
     (case te_throttle env of
        Some e \<Rightarrow> (Some (TeThrottle (''throttle wait for '' @ pa_platform a @ '': '' @ e)), w)
      | None \<Rightarrow>
          (case resolveFreshMediaPayload env p payload w of
             Inl res \<Rightarrow> res
           | Inr fresh \<Rightarrow>
               (let w1 = tw_call (CallPublish (pt_id (tw_target w)) fresh) w
                in case te_publish env token fresh of
                     Inl err \<Rightarrow>
                       if some_and (\<lambda>c. ne_kind c = KindRateLimited)
                            (ClassifyErrorFor (pa_platform a) ''publish'' (Some err))
                       then
                         (let (e, t, db) = markRateLimited (te_flt env 2) (te_now env 2) (te_worker env)
                                (tw_target w1) err (tw_db w1)
                          in (map_option TeReschedule e, w1\<lparr>tw_target := t, tw_db := db\<rparr>))
                       else tw_failed env (err_text err) w1
                   | Inr media \<Rightarrow>
                       if te_async env \<and> media \<noteq> ''''
                       then
                         (let (e, w2) = tw_update env (w1\<lparr>tw_target := (tw_target w1)\<lparr>
                                pt_platform_post_id := media, pt_status := PSPublishing\<rparr>\<rparr>)
                          in (map_option TeWrite e, w2))
                       else
                         (let (e, w2) = tw_update env (w1\<lparr>tw_target := (tw_target w1)\<lparr>pt_status := PSPublished,
                                pt_platform_post_id := media, pt_published_at := Some (te_now env 2)\<rparr>\<rparr>)
                          in case e of
                               Some x \<Rightarrow> (Some (TeWrite x), w2)
                             | None \<Rightarrow> (None, tw_dispatch env a (pp_video_url fresh) w2)))))"

definition drive_config :: "target_env \<Rightarrow> Post \<Rightarrow> config" where
  "drive_config env p =
     (case (if p_metadata p = '''' then None else te_folder_of env (p_metadata p)) of
        None \<Rightarrow> Map.empty | Some f \<Rightarrow> [''folder_id'' \<mapsto> f])"

text \<open>
  A Drive account: the delivery is the publish. \<open>dispatch_text\<close> is the text of a delivery error;
  what follows the sentinel, the providers in the order of a Go map, is left out.
\<close>

definition dispatch_text :: "completion_err \<Rightarrow> string" where
  "dispatch_text e =
     (case e of DispatchDeliver d \<Rightarrow> de_text d
      | DispatchNoPlatform \<Rightarrow> ''delivery dispatch: empty account platform''
      | DispatchRegistry _ \<Rightarrow> ''ERR_DELIVERY_PROVIDER_NOT_FOUND'')"

definition publishDriveExport ::
  "target_env \<Rightarrow> PlatformAccount \<Rightarrow> Post \<Rightarrow> target_world \<Rightarrow> target_result" where
  "publishDriveExport env a p w =
     (case te_resolver env of
        None \<Rightarrow> tw_failed env ''media download resolver is not configured'' w
      | Some r \<Rightarrow>
          (case ResolveForUpload r p hour of
             Inl e \<Rightarrow> tw_failed env (''resolve fresh media URL for Drive delivery: '' @ te_resolve_text env e) w
           | Inr url \<Rightarrow>
               (let (res, db) = dispatchPostCompletion (te_flt env 3) (te_now env 3) (te_registry env)
                                  (te_folder env) (tw_target w) a url (drive_config env p) (tw_db w);
                    w1 = w\<lparr>tw_db := db\<rparr>
                in case res of
                     Inl e \<Rightarrow> tw_failed env (''Drive delivery failed: '' @ dispatch_text e) w1
                   | Inr None \<Rightarrow> tw_failed env ''Drive delivery did not complete'' w1
                   | Inr (Some d) \<Rightarrow>
                       if dr_status d \<noteq> ''published''
                       then
                         let code = deref (dr_error_code d);
                             reason = (if code \<noteq> '''' then ''Drive delivery '' @ code
                                       else ''Drive delivery did not complete'')
                         in if code = ''drive_auth_required''
                            then tw_blocked env reason
                                   (w1\<lparr>tw_flags := tw_flags w1 @ [FlagAccount (pa_id a) ''drive_auth_required'']\<rparr>)
                            else tw_failed env reason w1
                       else
                         let (e, w2) = tw_update env (w1\<lparr>tw_target := (tw_target w1)\<lparr>pt_status := PSPublished,
                                pt_published_at := Some (te_now env 2)\<rparr>\<rparr>)
                         in (map_option TeWrite e, w2))))"


section \<open>publishTarget\<close>

definition go_bool :: "bool \<Rightarrow> string" where
  "go_bool b = (if b then ''true'' else ''false'')"

text \<open>From the token to the provider.\<close>

definition publish_with_token ::
  "target_env \<Rightarrow> PlatformAccount \<Rightarrow> Post \<Rightarrow> string \<Rightarrow> target_world \<Rightarrow> target_result" where
  "publish_with_token env a p token w =
     (case validateYouTubeChannelBinding env a token w of
        Some res \<Rightarrow> res
      | None \<Rightarrow>
          (case runCanaryPreflight env a p token w of
             Inl res \<Rightarrow> res
           | Inr (token', w1) \<Rightarrow>
               (case ensureProviderIdempotencyKey env a w1 of
                  Inl res \<Rightarrow> res
                | Inr (key, w2) \<Rightarrow>
                    (let payload = buildPayload (te_tags env) a p key
                     in case publishYouTubePhase2 env a p payload w2 of
                          (Inl e, w3) \<Rightarrow> (Some e, w3)
                        | (Inr True, w3) \<Rightarrow> (None, w3)
                        | (Inr False, w3) \<Rightarrow> executePublish env a p token' payload w3))))"

definition publish_claimed :: "target_env \<Rightarrow> target_world \<Rightarrow> target_result" where
  "publish_claimed env w =
     (case loadPostAndAccount env w of
        Inl e \<Rightarrow> tw_failed env e w
      | Inr (p, a) \<Rightarrow>
          if pa_platform a = ''youtube'' \<and> (pa_status a = ''reauth_required'' \<or> pa_reauth_required_at a \<noteq> None)
          then tw_blocked env youtubeReauthReason w
          else if pa_platform a = ''google-drive'' \<and> te_registry env \<noteq> None
          then publishDriveExport env a p w
          else if \<not> te_oauth env \<or> \<not> te_publisher env
          then tw_failed env (''platform \"'' @ pa_platform a @ ''\" missing capability (oauth='' @
                 go_bool (te_oauth env) @ '' publish='' @ go_bool (te_publisher env) @ '')'') w
          else
            let (loc, cache) = localizeForChannel (te_text env) (pa_id a) p (tw_cache w);
                w1 = w\<lparr>tw_cache := cache\<rparr>
            in case loc of
                 Inl e \<Rightarrow> tw_failed env e w1
               | Inr (q, _) \<Rightarrow>
                   (case resolvePublishToken env a w1 of
                      Inl res \<Rightarrow> res
                    | Inr token \<Rightarrow> publish_with_token env a q token w1))"

definition publishTarget :: "target_env \<Rightarrow> target_world \<Rightarrow> target_result" where
  "publishTarget env w =
     (let (r, db) = claimTarget (te_flt env 0) (te_now env 0) (te_locked env) (te_worker env)
                      (tw_target w) (tw_db w);
          w1 = w\<lparr>tw_db := db\<rparr>
      in case r of
           Inl e \<Rightarrow> (Some (TeClaim e), w1)
         | Inr False \<Rightarrow> (None, w1)
         | Inr True \<Rightarrow> publish_claimed env w1)"

end
