(* ===== verification/PublishTargetProofs.thy ===== *)
theory PublishTargetProofs
  imports PublishTarget MediaAssetsProofs PostFrame
begin

text \<open>
  What one run of \<open>publishTarget\<close> may do to the outside world and what it leaves in the row of
  its target.
\<close>

section \<open>A run is a sequence of repository operations\<close>

text \<open>The operations a publish worker may use on a target, and the key write beside them.\<close>

fun own_op :: "string \<Rightarrow> int \<Rightarrow> post_op \<Rightarrow> bool" where
  "own_op w t (PoClaim t' w' ttl) \<longleftrightarrow> t' = t \<and> w' = w"
| "own_op w t (PoRetrying t' w' m nx) \<longleftrightarrow> t' = t \<and> w' = w"
| "own_op w t (PoRateLimitedRetry t' w' nx m) \<longleftrightarrow> t' = t \<and> w' = w"
| "own_op w t (PoUpdateStatusWithLease x w') \<longleftrightarrow> (\<exists>y. x = Some y \<and> pt_id y = t) \<and> w' = w"
| "own_op w t (PoDispatchFailed t' c) \<longleftrightarrow> t' = t"
| "own_op w t _ \<longleftrightarrow> False"

inductive own_run :: "string \<Rightarrow> int \<Rightarrow> post_db \<Rightarrow> post_db \<Rightarrow> bool" for w t d where
  own_refl: "own_run w t d d"
| own_step: "own_run w t d db \<Longrightarrow> own_op w t op \<Longrightarrow> own_run w t d (post_step f now lk op db)"
| own_key: "own_run w t d db \<Longrightarrow> own_run w t d (snd (SetProviderIdempotencyKey f now t k db))"

text \<open>A key write touches neither a status nor a key column.\<close>

lemma key_stmt_simps [simp]:
  "stmt_ok (key_stmt t k)" "status_neutral (key_stmt t k)" "only_target t (key_stmt t k)"
  by (simp_all add: key_stmt_def stmt_ok_def status_neutral_def only_target_def)

lemma SetProviderIdempotencyKey_inv:
  "post_inv db \<Longrightarrow> post_inv (snd (SetProviderIdempotencyKey flt now tid k db))"
  using exec_neutral_inv [of db "key_stmt tid k" now]
  by (auto simp: SetProviderIdempotencyKey_def split_def Let_def)

lemma own_run_inv: "own_run w t d db \<Longrightarrow> post_inv d \<Longrightarrow> post_inv db"
  by (induction rule: own_run.induct) (simp_all add: post_step_inv SetProviderIdempotencyKey_inv)

definition own :: "target_env \<Rightarrow> post_db \<Rightarrow> int \<Rightarrow> target_world \<Rightarrow> bool" where
  "own env d t w \<longleftrightarrow> pt_id (tw_target w) = t \<and> own_run (te_worker env) t d (tw_db w)"

lemma own_events:
  fixes x :: PostTarget
  assumes "own_run w t d db"
  shows "own_run w t d (snd (ClaimQueuedTargetWithLease f now lk t w ttl db))"
    and "own_run w t d (snd (pt_MarkRetrying f now t w m nx db))"
    and "own_run w t d (snd (MarkRateLimitedRetryWithLease f now t w nx m db))"
    and "pt_id x = t \<Longrightarrow> own_run w t d (snd (UpdateStatusWithLease f now (Some x) w db))"
    and "own_run w t d (snd (MarkDeliveryDispatchFailed f now t c db))"
  using own_step [OF assms, of "PoClaim t w ttl" f now lk] own_step [OF assms, of "PoRetrying t w m nx" f now lk]
    own_step [OF assms, of "PoRateLimitedRetry t w nx m" f now lk]
    own_step [OF assms, of "PoUpdateStatusWithLease (Some x) w" f now lk]
    own_step [OF assms, of "PoDispatchFailed t c" f now lk]
  by simp_all

lemma own_set [simp]:
  "own env d t (w\<lparr>tw_pubs := a\<rparr>) = own env d t w" "own env d t (w\<lparr>tw_cache := b\<rparr>) = own env d t w"
  "own env d t (w\<lparr>tw_flags := c\<rparr>) = own env d t w" "own env d t (tw_call e w) = own env d t w"
  "own env d t (clear_upload env' i w) = own env d t w" "own env d t (tw_set_status s w) = own env d t w"
  by (simp_all add: own_def tw_call_def clear_upload_def tw_set_status_def)

lemma tw_call_simps [simp]:
  "tw_target (tw_call c w) = tw_target w" "tw_db (tw_call c w) = tw_db w" "tw_pubs (tw_call c w) = tw_pubs w"
  "tw_calls (tw_call c w) = tw_calls w @ [c]" "tw_flags (tw_call c w) = tw_flags w"
  by (simp_all add: tw_call_def)

lemma own_target: "own env d t w \<Longrightarrow> pt_id x = pt_id (tw_target w) \<Longrightarrow> own env d t (w\<lparr>tw_target := x\<rparr>)"
  by (simp add: own_def)

lemma own_update: "own env d t w \<Longrightarrow> own env d t (snd (tw_update env w))"
  by (simp add: own_def tw_update_def updateTargetStatus_def split_def Let_def own_events)

lemma own_updateD: "tw_update env w = (e, w') \<Longrightarrow> own env d t w \<Longrightarrow> own env d t w'"
  using own_update [of env d t w] by simp

lemma retryTarget_own:
  "own_run w t d db \<Longrightarrow> pt_id x = t \<Longrightarrow> own_run w t d (snd (snd (retryTarget f now w x m db)))"
  "pt_id (fst (snd (retryTarget f now w x m db))) = pt_id x"
  using own_events(2) [of w t d db f now m]
  by (auto simp: retryTarget_def split_def Let_def split: sum.splits)

lemma own_failed: "own env d t w \<Longrightarrow> own env d t (snd (tw_failed env m w))"
  by (simp add: own_def tw_failed_def markFailed_def split_def Let_def retryTarget_own)

lemma own_blocked: "own env d t w \<Longrightarrow> own env d t (snd (tw_blocked env m w))"
  by (simp add: own_def tw_blocked_def markPublishBlockedAuth_def updateTargetStatus_def split_def Let_def
      own_events)

lemma own_dispatch:
  assumes "own_run w t d db" and "pt_id x = t" and "extra ''drive_required'' = None"
  shows "own_run w t d (snd (dispatchPostCompletion f now reg folder x a url extra db))"
  using dispatch_db [where extra = extra and flt = f and now = now and registry = reg and folder = folder
      and t = x and acc = a and url = url and db = db, OF assms(3)] assms(1,2) own_events(5) [OF assms(1)]
  by auto

lemma own_tw_dispatch: "own env d t w \<Longrightarrow> own env d t (tw_dispatch env a url w)"
  by (simp add: own_def tw_dispatch_def own_dispatch)

lemma own_rate_limited:
  "own_run w t d db \<Longrightarrow> pt_id x = t \<Longrightarrow> own_run w t d (snd (snd (markRateLimited f now w x err db)))"
  "pt_id (fst (snd (markRateLimited f now w x err db))) = pt_id x"
  using own_events(3) [of w t d db f now]
  by (auto simp: markRateLimited_def split_def Let_def split: sum.splits)

text \<open>The phases.\<close>

lemmas own_rules = own_updateD own_failed own_blocked own_tw_dispatch own_target

lemma own_markPublished:
  assumes "own env d t w"
  shows "own env d t (snd (markYouTubeTargetPublished env a i v p w))"
proof -
  let ?w1 = "w\<lparr>tw_pubs := snd (yt_MarkPublished (te_yt_flt env) (te_now env 2) i (tw_pubs w)),
     tw_target := (tw_target w)\<lparr>pt_status := PSPublished,
       pt_platform_post_id := EncodeYouTubePublishID (pa_user_id a) v,
       pt_published_at := Some (te_now env 2)\<rparr>\<rparr>"
  have "own env d t ?w1" using assms by (intro own_target) simp_all
  then show ?thesis
    by (auto simp: markYouTubeTargetPublished_def Let_def split: prod.split option.split sum.split
        intro: own_tw_dispatch dest: own_updateD)
qed

lemma own_retry:
  assumes "own env d t w" and "retryTarget f now (te_worker env) (tw_target w) m (tw_db w) = (e, x, db)"
  shows "own env d t (w\<lparr>tw_target := x, tw_db := db\<rparr>)"
  using assms retryTarget_own(1) [of "te_worker env" t d "tw_db w" "tw_target w" f now m]
    retryTarget_own(2) [of f now "te_worker env" "tw_target w" m "tw_db w"]
  by (simp add: own_def)

lemma own_settle:
  assumes "own env d t w"
  shows "own env d t (snd (settleNativePublish env a pub v p w))"
  using assms
  by (auto simp: settleNativePublish_def p2_failed_def Let_def own_markPublished own_update own_failed own_retry
      split: option.split video_answer.split privacy_answer.split prod.split)

lemma own_wait:
  assumes "own env d t w"
  shows "own env d t (snd (wait_for_delivery env p w))"
proof -
  have "own env d t (w\<lparr>tw_target := (tw_target w)\<lparr>pt_status := PSWaitingProvider,
      pt_error_message := wait_text\<rparr>\<rparr>)"
    using assms by (intro own_target) simp_all
  then show ?thesis using assms
    by (auto simp: wait_for_delivery_def Let_def split: prod.split dest: own_updateD)
qed

lemma own_phase2:
  assumes "own env d t w"
  shows "own env d t (snd (publishYouTubePhase2 env a p payload w))"
  using assms
  by (auto simp: publishYouTubePhase2_def p2_failed_def Let_def own_markPublished own_update own_failed own_wait
      own_settle split: option.split privacy_answer.split prod.split)

lemma own_executePublish:
  assumes "own env d t w"
  shows "own env d t (snd (executePublish env a p token payload w))"
proof -
  have upd: "tw_update env ((tw_call c w)\<lparr>tw_target := x\<rparr>) = (e, w') \<Longrightarrow> pt_id x = pt_id (tw_target w) \<Longrightarrow>
      own env d t w'" for c x e w'
    using assms by (auto dest!: own_updateD intro: own_target)
  have lim: "markRateLimited f now (te_worker env) (tw_target w) err (tw_db w) = (e, x, db) \<Longrightarrow>
      own env d t ((tw_call c w)\<lparr>tw_target := x, tw_db := db\<rparr>)" for f now c err e x db
    using assms own_rate_limited(1) [of "te_worker env" t d "tw_db w" "tw_target w" f now err]
      own_rate_limited(2) [of f now "te_worker env" "tw_target w" err "tw_db w"]
    by (simp add: own_def)
  have fresh: "resolveFreshMediaPayload env p payload w = Inl res \<Longrightarrow> own env d t (snd res)" for res
    using assms own_failed
    by (auto simp: resolveFreshMediaPayload_def split: option.splits sum.splits resolve_err.splits)
  show ?thesis
    using assms
    by (auto simp: executePublish_def Let_def own_failed split: option.split sum.split prod.split
        dest: fresh lim elim: upd intro!: own_tw_dispatch)
qed

lemma own_drive:
  assumes "own env d t w"
  shows "own env d t (snd (publishDriveExport env a p w))"
proof -
  have "drive_config env p ''drive_required'' = None"
    by (simp add: drive_config_def split: option.split)
  then have run: "dispatchPostCompletion f now reg folder (tw_target w) a url (drive_config env p) (tw_db w) = (r, db) \<Longrightarrow>
      own env d t (w\<lparr>tw_db := db\<rparr>)" for f now reg folder url r db
    using assms own_dispatch [of "te_worker env" t d "tw_db w" "tw_target w" "drive_config env p" f now reg folder a url]
    by (simp add: own_def)
  have upd: "tw_update env (w\<lparr>tw_db := db, tw_target := x\<rparr>) = (e, w') \<Longrightarrow> pt_id x = pt_id (tw_target w) \<Longrightarrow>
      own env d t (w\<lparr>tw_db := db\<rparr>) \<Longrightarrow> own env d t w'" for db x e w'
    using own_updateD [of env "w\<lparr>tw_db := db, tw_target := x\<rparr>" e w' d t] by (simp add: own_def)
  show ?thesis
    using assms
    by (auto simp: publishDriveExport_def Let_def own_failed own_blocked split: option.split sum.split prod.split
        dest!: run dest: upd)
qed

lemma own_publish_with_token:
  assumes "own env d t w"
  shows "own env d t (snd (publish_with_token env a p token w))"
proof -
  have bind: "validateYouTubeChannelBinding env a token w = Some res \<Longrightarrow> own env d t (snd res)" for res
    using assms
    by (auto simp: validateYouTubeChannelBinding_def own_failed own_blocked split: if_splits option.splits bind_answer.splits)
  have canary: "own env d t (case runCanaryPreflight env a p token w of Inl res \<Rightarrow> snd res | Inr r \<Rightarrow> snd r)"
    using assms
    by (auto simp: runCanaryPreflight_def Let_def own_blocked split: option.split)
  have key: "own env d t (case ensureProviderIdempotencyKey env a w1 of Inl res \<Rightarrow> snd res | Inr r \<Rightarrow> snd r)"
    if "own env d t w1" for w1
  proof -
    let ?k = "computeProviderIdempotencyKey (te_sha env) (pt_post_id (tw_target w1)) (pa_id a)"
    have "own env d t (w1\<lparr>tw_target := x, tw_db := snd (SetProviderIdempotencyKey (te_flt env 1) (te_now env 1)
        (pt_id (tw_target w1)) ?k (tw_db w1))\<rparr>)" if "pt_id x = pt_id (tw_target w1)" for x
      using \<open>own env d t w1\<close> that own_key [of "te_worker env" t d "tw_db w1"] by (simp add: own_def)
    note stamped = this
    obtain e db where set: "SetProviderIdempotencyKey (te_flt env 1) (te_now env 1) (pt_id (tw_target w1)) ?k (tw_db w1) = (e, db)"
      by (metis surj_pair)
    have "own env d t (snd (tw_update env (w1\<lparr>tw_db := db, tw_target := x\<rparr>)))" if "pt_id x = pt_id (tw_target w1)" for x
      using stamped [OF that] set own_update [of env d t "w1\<lparr>tw_db := db, tw_target := x\<rparr>"] by (simp add: own_def)
    then show ?thesis using that stamped set
      by (simp add: ensureProviderIdempotencyKey_def Let_def split: option.split key_err.split)
  qed
  have rest: "own env d t (snd (case ensureProviderIdempotencyKey env a w1 of Inl res \<Rightarrow> res
      | Inr (key, w2) \<Rightarrow>
          (let payload = buildPayload (te_tags env) a p key
           in case publishYouTubePhase2 env a p payload w2 of
                (Inl e, w3) \<Rightarrow> (Some e, w3)
              | (Inr True, w3) \<Rightarrow> (None, w3)
              | (Inr False, w3) \<Rightarrow> executePublish env a p token' payload w3)))"
    if "own env d t w1" for w1 token'
  proof (cases "ensureProviderIdempotencyKey env a w1")
    case (Inl res)
    then show ?thesis using key [OF that] by simp
  next
    case (Inr kw)
    then obtain k w2 where k: "ensureProviderIdempotencyKey env a w1 = Inr (k, w2)" by (cases kw) simp
    with key [OF that] have "own env d t w2" by simp
    moreover obtain r w3 where "publishYouTubePhase2 env a p (buildPayload (te_tags env) a p k) w2 = (r, w3)"
      by (metis surj_pair)
    ultimately show ?thesis
      using k own_phase2 [of env d t w2 a p "buildPayload (te_tags env) a p k"] own_executePublish
      by (simp add: Let_def split: sum.split bool.split)
  qed
  show ?thesis
  proof (cases "validateYouTubeChannelBinding env a token w")
    case None
    show ?thesis
    proof (cases "runCanaryPreflight env a p token w")
      case (Inl res)
      then show ?thesis using None canary by (simp add: publish_with_token_def)
    next
      case (Inr r)
      then obtain token' w1 where "runCanaryPreflight env a p token w = Inr (token', w1)" by (cases r) simp
      then show ?thesis using None canary rest by (simp add: publish_with_token_def)
    qed
  qed (simp add: publish_with_token_def bind)
qed

lemma own_publish_claimed:
  assumes "own env d t w"
  shows "own env d t (snd (publish_claimed env w))"
proof -
  have cache: "own env d t (w\<lparr>tw_cache := c\<rparr>)" for c using assms by simp
  have tok: "resolvePublishToken env a w1 = Inl res \<Longrightarrow> own env d t w1 \<Longrightarrow> own env d t (snd res)" for a w1 res
    by (auto simp: resolvePublishToken_def markYouTubeGrantReauth_def own_failed own_blocked
        split: if_splits yt_renewal.splits option.splits)
  show ?thesis
    using assms cache
    by (auto simp: publish_claimed_def Let_def own_failed own_blocked own_drive own_publish_with_token
        split: sum.split prod.split dest: tok)
qed

lemma publishTarget_own: "own_run (te_worker env) (pt_id (tw_target w)) (tw_db w) (tw_db (snd (publishTarget env w)))"
proof -
  let ?d = "tw_db w" and ?t = "pt_id (tw_target w)"
  obtain r db where c: "claimTarget (te_flt env 0) (te_now env 0) (te_locked env) (te_worker env) (tw_target w) ?d = (r, db)"
    by (metis surj_pair)
  have "own_run (te_worker env) ?t ?d db"
    using own_events(1) [OF own_refl, of "te_worker env" ?t ?d] c by (metis claimTarget_def snd_conv)
  then have "own env ?d ?t (w\<lparr>tw_db := db\<rparr>)" by (simp add: own_def)
  then show ?thesis
    using own_publish_claimed [of env ?d ?t "w\<lparr>tw_db := db\<rparr>"] c
    by (cases r) (simp_all add: publishTarget_def own_def Let_def split: bool.split)
qed

section \<open>What a run leaves alone\<close>

definition others :: "int \<Rightarrow> post_db \<Rightarrow> target_row list" where
  "others t db = filter (\<lambda>r. pt_id r \<noteq> t) (targets db)"

lemma others_update:
  assumes "stmt_ok st" and "only_target t st"
  shows "filter (\<lambda>r. pt_id r \<noteq> t) (update_where (fst st) (triggered now st) ts) = filter (\<lambda>r. pt_id r \<noteq> t) ts"
  using assms by (induction ts) (auto simp: update_where_def stmt_ok_def only_target_def)

lemma others_exec [simp]:
  "stmt_ok st \<Longrightarrow> only_target t st \<Longrightarrow> others t (snd (exec_targets now st db)) = others t db"
  by (simp add: others_def others_update)

lemma others_persist: "persistAggregatePostStatusLockedTx pid db = Inr (u, db') \<Longrightarrow> others t db' = others t db"
  by (simp add: others_def persist_aggregated(3))

lemma others_run_tx:
  assumes "\<And>a d. body db = Inr (a, d) \<Longrightarrow> others t d = others t db"
  shows "others t (snd (run_tx flt body db)) = others t db"
  using assms by (auto simp: run_tx_def split: tx_fault.splits sum.splits)

lemma others_mutate:
  "stmt_ok (q t w) \<Longrightarrow> only_target t (q t w) \<Longrightarrow>
    others t (snd (mutateLeasedTarget flt now t w q db)) = others t db"
  unfolding mutateLeasedTarget_def
  by (rule others_run_tx)
    (auto simp: mutateLeasedTargetTx_def rbind_Inr_iff split_def Let_def split: if_splits dest!: others_persist [where t = t])

lemma own_op_others: "own_op w t op \<Longrightarrow> others t (post_step f now lk op db) = others t db"
proof (cases op)
  case (PoClaim t' w' ttl)
  assume "own_op w t op"
  then show ?thesis
    by (auto simp: PoClaim ClaimQueuedTargetWithLease_def claimTargetTx_def rbind_Inr_iff split_def Let_def
        split: option.splits if_splits intro!: others_run_tx dest!: others_persist [where t = t])
next
  case (PoUpdateStatusWithLease x w')
  assume "own_op w t op"
  then show ?thesis
    by (auto simp: PoUpdateStatusWithLease UpdateStatusWithLease_def split_def Let_def
        split: sum.splits dest!: others_persist [where t = t])
next
  case (PoDispatchFailed t' c)
  have "others t (snd (run_exec f now (qMarkDeliveryDispatchFailed t c) db)) = others t db"
    unfolding run_exec_def
  proof (rule others_run_tx)
    fix n d assume "Inr (exec_targets now (qMarkDeliveryDispatchFailed t c) db) = Inr (n, d)"
    then show "others t d = others t db"
      using others_exec [of "qMarkDeliveryDispatchFailed t c" t now db]
      by (simp add: only_target_def stmt_ok_def stmt_defs)
  qed
  moreover assume "own_op w t op"
  ultimately show ?thesis by (simp add: PoDispatchFailed MarkDeliveryDispatchFailed_def split_def Let_def)
qed (auto simp: pt_MarkRetrying_def MarkRateLimitedRetryWithLease_def others_mutate)

lemma own_key_others:
  "others t (snd (SetProviderIdempotencyKey f now t k db)) = others t db"
  "db_frame (snd (SetProviderIdempotencyKey f now t k db)) = db_frame db"
proof -
  have "stmt_frame (key_stmt t k)" by (simp add: stmt_frame_def key_stmt_def target_frame_def)
  then show "others t (snd (SetProviderIdempotencyKey f now t k db)) = others t db"
    "db_frame (snd (SetProviderIdempotencyKey f now t k db)) = db_frame db"
    by (simp_all add: SetProviderIdempotencyKey_def split_def Let_def)
qed

lemma own_run_confined:
  assumes "own_run w t d db"
  shows "others t db = others t d \<and> db_frame db = db_frame d"
  using assms
  by induction (simp_all add: own_op_others own_key_others post_step_frame)

lemma claim_refused:
  assumes "\<And>r. r \<in> set (targets db) \<Longrightarrow> pt_id r = tid \<Longrightarrow> \<not> claimable_with_lease now r \<or> lk tid"
  shows "\<exists>e. ClaimQueuedTargetWithLease flt now lk tid w ttl db = (e, db) \<and> e \<noteq> Inr True"
proof -
  have "List.find (\<lambda>r. pt_id r = tid \<and> claimable_with_lease now r \<and> \<not> lk tid) (targets db) = None"
    using assms by (auto simp: find_None_iff)
  then show ?thesis by (auto simp: ClaimQueuedTargetWithLease_def run_tx_def split: tx_fault.split)
qed

text \<open>
  Whatever the providers, the vault, the clocks and the faults do, a run of
  \<open>publishTarget\<close> is confined to its target. It keeps every post the aggregate of its targets,
  leaves the rows of all other targets as they are, creates and removes nothing and changes no
  column of a post but the status. And on a target that is not due, or that another transaction
  has locked, or that some worker holds ('publishing'), the run does nothing at all: no write, no
  call of a provider.
\<close>

theorem publishTarget_confined:
  assumes "post_inv (tw_db w)" and "publishTarget env w = (e, w')"
  shows "post_inv (tw_db w') \<and> others (pt_id (tw_target w)) (tw_db w') = others (pt_id (tw_target w)) (tw_db w) \<and>
    db_frame (tw_db w') = db_frame (tw_db w) \<and>
    ((\<forall>r \<in> set (targets (tw_db w)). pt_id r = pt_id (tw_target w) \<longrightarrow>
        \<not> claimable_with_lease (te_now env 0) r \<or> te_locked env (pt_id r)) \<longrightarrow> w' = w)"
proof -
  let ?t = "pt_id (tw_target w)"
  have run: "own_run (te_worker env) ?t (tw_db w) (tw_db w')"
    using publishTarget_own [of env w] assms(2) by simp
  have idle: "w' = w" if none: "\<And>r. r \<in> set (targets (tw_db w)) \<Longrightarrow> pt_id r = ?t \<Longrightarrow>
        \<not> claimable_with_lease (te_now env 0) r \<or> te_locked env ?t"
  proof -
    obtain r where "claimTarget (te_flt env 0) (te_now env 0) (te_locked env) (te_worker env) (tw_target w)
        (tw_db w) = (r, tw_db w)" "r \<noteq> Inr True"
      using claim_refused [of "tw_db w" ?t "te_now env 0" "te_locked env", OF none] by (metis claimTarget_def)
    then show ?thesis using assms(2) by (auto simp: publishTarget_def Let_def split: sum.splits bool.splits)
  qed
  show ?thesis
  proof (intro conjI impI)
    assume none: "\<forall>r \<in> set (targets (tw_db w)). pt_id r = ?t \<longrightarrow>
        \<not> claimable_with_lease (te_now env 0) r \<or> te_locked env (pt_id r)"
    show "w' = w" by (rule idle) (use none in fastforce)
  qed (use own_run_inv [OF run assms(1)] own_run_confined [OF run] in simp_all)
qed

section \<open>When the provider is called\<close>

fun is_publish :: "provider_call \<Rightarrow> bool" where
  "is_publish (CallPublish i p) = True" | "is_publish _ = False"

definition publish_calls :: "target_world \<Rightarrow> provider_call list" where
  "publish_calls w = filter is_publish (tw_calls w)"

lemma publish_calls_set [simp]:
  "publish_calls (w\<lparr>tw_target := x\<rparr>) = publish_calls w" "publish_calls (w\<lparr>tw_db := db\<rparr>) = publish_calls w"
  "publish_calls (w\<lparr>tw_pubs := a\<rparr>) = publish_calls w" "publish_calls (w\<lparr>tw_cache := b\<rparr>) = publish_calls w"
  "publish_calls (w\<lparr>tw_flags := c\<rparr>) = publish_calls w"
  "publish_calls (tw_call e w) = publish_calls w @ (if is_publish e then [e] else [])"
  by (simp_all add: publish_calls_def tw_call_def)

lemma publish_calls_write [simp]:
  "publish_calls (snd (tw_update env w)) = publish_calls w"
  "publish_calls (snd (tw_failed env m w)) = publish_calls w"
  "publish_calls (snd (tw_blocked env m w)) = publish_calls w"
  "publish_calls (tw_set_status s w) = publish_calls w"
  "publish_calls (clear_upload env i w) = publish_calls w"
  "publish_calls (tw_dispatch env a url w) = publish_calls w"
  "publish_calls (markYouTubeGrantReauth env a w) = publish_calls w"
  by (simp_all add: tw_update_def tw_failed_def tw_blocked_def tw_set_status_def clear_upload_def tw_dispatch_def
      markYouTubeGrantReauth_def split_def Let_def)

lemma publish_calls_updateD:
  "tw_update env w = (e, w') \<Longrightarrow> publish_calls w' = publish_calls w"
  "tw_failed env m w = (r, w') \<Longrightarrow> publish_calls w' = publish_calls w"
  by (metis publish_calls_write(1,2) snd_conv)+

lemma publish_calls_published [simp]:
  "publish_calls (snd (markYouTubeTargetPublished env a i v p w)) = publish_calls w"
  by (auto simp: markYouTubeTargetPublished_def Let_def split: prod.split option.split sum.split
      dest: publish_calls_updateD)

lemma publish_calls_settle [simp]:
  "publish_calls (snd (settleNativePublish env a pub v p w)) = publish_calls w"
  by (auto simp: settleNativePublish_def p2_failed_def Let_def
      split: option.split video_answer.split privacy_answer.split prod.split)

lemma publish_calls_wait [simp]: "publish_calls (snd (wait_for_delivery env p w)) = publish_calls w"
  by (auto simp: wait_for_delivery_def Let_def split: prod.split dest: publish_calls_updateD)

lemma publish_calls_phase2: "publish_calls (snd (publishYouTubePhase2 env a p payload w)) = publish_calls w"
  by (auto simp: publishYouTubePhase2_def p2_failed_def Let_def split: option.split privacy_answer.split prod.split)

text \<open>Phase 2 lets a post of an upload job through only for a native publish whose video is gone.\<close>

definition orphaned_native :: "target_env \<Rightarrow> PlatformAccount \<Rightarrow> target_world \<Rightarrow> bool" where
  "orphaned_native env a w \<longleftrightarrow> pa_platform a = ''youtube'' \<and> te_yt_wired env \<and>
     (\<exists>pub v. uploaded_video (FindByPostTargetID (pt_id (tw_target w)) (tw_pubs w)) = Some (pub, v) \<and>
        yt_native_publish_at pub \<noteq> None)"

lemma wait_for_delivery_False: "fst (wait_for_delivery env p w) = Inr False \<Longrightarrow> p_upload_job_id p = None"
  by (auto simp: wait_for_delivery_def Let_def split: if_splits prod.splits option.splits)

lemma markPublished_not_False: "fst (markYouTubeTargetPublished env a i v p w) \<noteq> Inr False"
  by (auto simp: markYouTubeTargetPublished_def Let_def split: prod.splits option.splits sum.splits)

lemma phase2_False:
  assumes "publishYouTubePhase2 env a p payload w = (Inr False, w')"
  shows "p_upload_job_id p = None \<or> orphaned_native env a w"
proof (rule ccontr)
  assume "\<not> ?thesis"
  then have no: "p_upload_job_id p \<noteq> None" and nat: "\<not> orphaned_native env a w" by auto
  have wait: "fst (wait_for_delivery env p v) \<noteq> Inr False" for v
    using wait_for_delivery_False [of env p v] no by auto
  have "fst (publishYouTubePhase2 env a p payload w) \<noteq> Inr False"
    using nat wait markPublished_not_False
    by (auto simp: publishYouTubePhase2_def orphaned_native_def p2_failed_def Let_def
        split: option.split privacy_answer.split prod.split)
  then show False using assms by simp
qed

lemma executePublish_calls:
  assumes "publish_calls (snd (executePublish env a p token payload w)) \<noteq> publish_calls w"
  shows "\<exists>rv url. te_resolver env = Some rv \<and> ResolveForUpload rv p hour = Inr url \<and>
    publish_calls (snd (executePublish env a p token payload w)) =
      publish_calls w @ [CallPublish (pt_id (tw_target w)) (payload\<lparr>pp_video_url := url\<rparr>)]"
proof (cases "resolveFreshMediaPayload env p payload w")
  case (Inl res)
  then have "publish_calls (snd res) = publish_calls w"
    by (auto simp: resolveFreshMediaPayload_def split: option.splits sum.splits resolve_err.splits
        dest: publish_calls_updateD)
  then show ?thesis using assms Inl by (simp add: executePublish_def split: option.splits)
next
  case (Inr fresh)
  then obtain rv url where r: "te_resolver env = Some rv" "ResolveForUpload rv p hour = Inr url"
      "fresh = payload\<lparr>pp_video_url := url\<rparr>"
    by (auto simp: resolveFreshMediaPayload_def split: option.splits sum.splits resolve_err.splits)
  show ?thesis using assms Inr r(1,2)
    by (auto simp: executePublish_def r(3) Let_def split: option.splits sum.splits prod.splits
        dest!: publish_calls_updateD)
qed

text \<open>The key of a call is the key of the row.\<close>

definition key_column :: "int \<Rightarrow> post_db \<Rightarrow> string option list" where
  "key_column t db = map pt_provider_idempotency_key (filter (\<lambda>r. pt_id r = t) (targets db))"

definition key_frame :: "target_stmt \<Rightarrow> bool" where
  "key_frame st \<longleftrightarrow> (\<forall>r. fst st r \<longrightarrow> pt_id (snd st r) = pt_id r \<and>
     pt_provider_idempotency_key (snd st r) = pt_provider_idempotency_key r)"

lemma key_frame_simps [simp]:
  "key_frame (qClaimQueuedTargetWithLeaseUpdate now t w secs)" "key_frame (qMarkRetrying nx m t w)"
  "key_frame (qMarkRateLimitedRetryWithLease nx m t w)" "key_frame (qMarkDeliveryDispatchFailed t c)"
  "key_frame (qUpdateTargetStatusWithLease s a b d t e g w)"
  by (simp_all add: key_frame_def stmt_defs)

lemma key_exec [simp]: "key_frame st \<Longrightarrow> key_column t (snd (exec_targets now st db)) = key_column t db"
proof -
  assume st: "key_frame st"
  have "map pt_provider_idempotency_key (filter (\<lambda>r. pt_id r = t) (update_where (fst st) (triggered now st) ts)) =
      map pt_provider_idempotency_key (filter (\<lambda>r. pt_id r = t) ts)" for ts
    using st by (induction ts) (auto simp: update_where_def key_frame_def)
  then show ?thesis by (simp add: key_column_def)
qed

lemma key_persist: "persistAggregatePostStatusLockedTx pid db = Inr (u, db') \<Longrightarrow> key_column t db' = key_column t db"
  by (simp add: key_column_def persist_aggregated(3))

lemma key_run_tx:
  assumes "\<And>a d. body db = Inr (a, d) \<Longrightarrow> key_column t d = key_column t db"
  shows "key_column t (snd (run_tx flt body db)) = key_column t db"
  using assms by (auto simp: run_tx_def split: tx_fault.splits sum.splits)

lemma key_mutate:
  "key_frame (q i w) \<Longrightarrow> key_column t (snd (mutateLeasedTarget flt now i w q db)) = key_column t db"
  unfolding mutateLeasedTarget_def
  by (rule key_run_tx)
    (auto simp: mutateLeasedTargetTx_def rbind_Inr_iff split_def Let_def split: if_splits dest!: key_persist [where t = t])

lemma key_ops [simp]:
  "key_column t (snd (pt_MarkRetrying f now i w m nx db)) = key_column t db"
  "key_column t (snd (MarkRateLimitedRetryWithLease f now i w nx m db)) = key_column t db"
  "key_column t (snd (UpdateStatusWithLease f now x w db)) = key_column t db"
  "key_column t (snd (MarkDeliveryDispatchFailed f now i c db)) = key_column t db"
proof -
  have "key_column t (snd (run_exec f now (qMarkDeliveryDispatchFailed i c) db)) = key_column t db"
    unfolding run_exec_def
  proof (rule key_run_tx)
    fix n d assume "Inr (exec_targets now (qMarkDeliveryDispatchFailed i c) db) = Inr (n, d)"
    then show "key_column t d = key_column t db"
      using key_exec [of "qMarkDeliveryDispatchFailed i c" t now db] by simp
  qed
  then show "key_column t (snd (MarkDeliveryDispatchFailed f now i c db)) = key_column t db"
    by (simp add: MarkDeliveryDispatchFailed_def split_def Let_def)
  show "key_column t (snd (UpdateStatusWithLease f now x w db)) = key_column t db"
    by (auto simp: UpdateStatusWithLease_def split_def Let_def
        split: option.splits sum.splits dest!: key_persist [where t = t])
qed (simp_all add: pt_MarkRetrying_def MarkRateLimitedRetryWithLease_def key_mutate)

abbreviation tw_key :: "int \<Rightarrow> target_world \<Rightarrow> string option list" where
  "tw_key t w \<equiv> key_column t (tw_db w)"

lemma key_dispatch [simp]: "tw_key t (tw_dispatch env a url w) = tw_key t w"
  using dispatch_db [of Map.empty "te_flt env 3" "te_now env 3" "te_registry env" "te_folder env" "tw_target w" a
      url "tw_db w"]
  by (auto simp: tw_dispatch_def)

lemma key_writes [simp]:
  "tw_key t (snd (tw_update env w)) = tw_key t w" "tw_key t (snd (tw_failed env m w)) = tw_key t w"
  by (simp_all add: tw_update_def tw_failed_def updateTargetStatus_def markFailed_def retryTarget_def
      split_def Let_def split: sum.split)

lemma key_writesD:
  "tw_update env w = (e, w') \<Longrightarrow> tw_key t w' = tw_key t w"
  "tw_failed env m w = (r, w') \<Longrightarrow> tw_key t w' = tw_key t w"
  by (metis key_writes snd_conv)+

lemma key_reschedule:
  "markRateLimited f now wk x err db = (e, y, db') \<Longrightarrow> key_column t db' = key_column t db"
  "retryTarget f now wk x m db = (e, y, db') \<Longrightarrow> key_column t db' = key_column t db"
  using key_ops(2) [of t f now "pt_id x" wk _ _ db] key_ops(1) [of t f now "pt_id x" wk m _ db]
  by (auto simp: markRateLimited_def retryTarget_def split_def Let_def split: sum.splits)

lemma key_published [simp]: "tw_key t (snd (markYouTubeTargetPublished env a i v p w)) = tw_key t w"
  by (auto simp: markYouTubeTargetPublished_def Let_def split: prod.split option.split sum.split
      dest: key_writesD [where t = t])

lemma key_clear [simp]: "tw_key t (clear_upload env i w) = tw_key t w" "tw_key t (tw_set_status s w) = tw_key t w"
  by (simp_all add: clear_upload_def tw_set_status_def)

lemma key_settle [simp]: "tw_key t (snd (settleNativePublish env a pub v p w)) = tw_key t w"
  by (auto simp: settleNativePublish_def p2_failed_def Let_def
      split: option.split video_answer.split privacy_answer.split prod.split dest: key_reschedule [where t = t])

lemma key_wait [simp]: "tw_key t (snd (wait_for_delivery env p w)) = tw_key t w"
  by (auto simp: wait_for_delivery_def Let_def split: prod.split dest: key_writesD [where t = t])

lemma key_phase2: "tw_key t (snd (publishYouTubePhase2 env a p payload w)) = tw_key t w"
  by (auto simp: publishYouTubePhase2_def p2_failed_def Let_def split: option.split privacy_answer.split prod.split)

lemma key_executePublish: "tw_key t (snd (executePublish env a p token payload w)) = tw_key t w"
proof (cases "resolveFreshMediaPayload env p payload w")
  case (Inl res)
  then have "tw_key t (snd res) = tw_key t w"
    by (auto simp: resolveFreshMediaPayload_def split: option.splits sum.splits resolve_err.splits
        dest: key_writesD [where t = t])
  then show ?thesis using Inl by (simp add: executePublish_def split: option.splits)
next
  case (Inr fresh)
  then show ?thesis
    by (auto simp: executePublish_def Let_def split: option.splits sum.splits prod.splits
        dest!: key_writesD [where t = t] key_reschedule [where t = t])
qed

lemma ensure_key:
  assumes "ensureProviderIdempotencyKey env a w = Inr (k, w')"
  shows "k \<noteq> '''' \<and> pt_id (tw_target w') = pt_id (tw_target w) \<and> tw_pubs w' = tw_pubs w \<and>
    publish_calls w' = publish_calls w \<and>
    (pt_provider_idempotency_key (tw_target w) = Some k \<or>
     k = computeProviderIdempotencyKey (te_sha env) (pt_post_id (tw_target w)) (pa_id a) \<and>
     set (tw_key (pt_id (tw_target w)) w') \<subseteq> {Some k} \<and> key_unique (targets (tw_db w')))"
proof (cases "deref (pt_provider_idempotency_key (tw_target w)) \<noteq> ''''")
  case True
  then show ?thesis using assms
    by (cases "pt_provider_idempotency_key (tw_target w)") (auto simp: ensureProviderIdempotencyKey_def deref_def)
next
  case False
  let ?k = "computeProviderIdempotencyKey (te_sha env) (pt_post_id (tw_target w)) (pa_id a)"
  let ?set = "SetProviderIdempotencyKey (te_flt env 1) (te_now env 1) (pt_id (tw_target w)) ?k (tw_db w)"
  obtain db where s: "?set = (None, db)" "k = ?k"
      "w' = w\<lparr>tw_target := (tw_target w)\<lparr>pt_provider_idempotency_key := Some ?k\<rparr>, tw_db := db\<rparr>"
    using assms False
    by (auto simp: ensureProviderIdempotencyKey_def Let_def split: prod.splits option.splits key_err.splits)
  have db: "?k \<noteq> ''''" "db = snd (exec_targets (te_now env 1) (key_stmt (pt_id (tw_target w)) ?k) (tw_db w))"
      "key_unique (targets db)"
    using s(1) by (auto simp: SetProviderIdempotencyKey_def split_def Let_def split: if_splits)
  have "set (key_column (pt_id (tw_target w)) db) \<subseteq> {Some ?k}"
    by (auto simp: db(2) key_column_def set_update_where key_stmt_def)
  then show ?thesis using s db(1,3) by simp
qed

lemma phase2_id:
  "publishYouTubePhase2 env a p payload w = (r, w') \<Longrightarrow> pt_id (tw_target w') = pt_id (tw_target w)"
  using own_phase2 [of env "tw_db w" "pt_id (tw_target w)" w a p payload] by (simp add: own_def own_refl)

lemma canary_Inr:
  "runCanaryPreflight env a p token w = Inr (t, w') \<Longrightarrow>
    tw_target w' = tw_target w \<and> tw_pubs w' = tw_pubs w \<and> publish_calls w' = publish_calls w"
  by (auto simp: runCanaryPreflight_def Let_def split: if_splits option.splits)

lemma canary_Inl: "runCanaryPreflight env a p token w = Inl res \<Longrightarrow> publish_calls (snd res) = publish_calls w"
  by (auto simp: runCanaryPreflight_def Let_def split: if_splits option.splits)

lemma ensure_Inl: "ensureProviderIdempotencyKey env a w = Inl res \<Longrightarrow> publish_calls (snd res) = publish_calls w"
  by (auto simp: ensureProviderIdempotencyKey_def Let_def split: if_splits prod.splits option.splits key_err.splits)

lemma binding_Some: "validateYouTubeChannelBinding env a token w = Some res \<Longrightarrow> publish_calls (snd res) = publish_calls w"
  by (auto simp: validateYouTubeChannelBinding_def split: if_splits option.splits bind_answer.splits)

lemma token_Inl: "resolvePublishToken env a w = Inl res \<Longrightarrow> publish_calls (snd res) = publish_calls w"
  by (auto simp: resolvePublishToken_def Let_def split: if_splits yt_renewal.splits option.splits)

lemma with_token_calls:
  assumes "publish_calls (snd (publish_with_token env a p token w)) \<noteq> publish_calls w"
  shows "validateYouTubeChannelBinding env a token w = None \<and>
    (p_upload_job_id p = None \<or> orphaned_native env a w) \<and>
    (\<exists>rv url k payload. te_resolver env = Some rv \<and> ResolveForUpload rv p hour = Inr url \<and>
       payload = (buildPayload (te_tags env) a p k)\<lparr>pp_video_url := url\<rparr> \<and> k \<noteq> '''' \<and>
       (pt_provider_idempotency_key (tw_target w) = Some k \<or>
        k = computeProviderIdempotencyKey (te_sha env) (pt_post_id (tw_target w)) (pa_id a) \<and>
        set (tw_key (pt_id (tw_target w)) (snd (publish_with_token env a p token w))) \<subseteq> {Some k}) \<and>
       publish_calls (snd (publish_with_token env a p token w)) =
         publish_calls w @ [CallPublish (pt_id (tw_target w)) payload])"
proof -
  have bind: "validateYouTubeChannelBinding env a token w = None"
    using assms binding_Some [of env a token w] by (cases "validateYouTubeChannelBinding env a token w")
      (auto simp: publish_with_token_def)
  obtain token' w1 where can: "runCanaryPreflight env a p token w = Inr (token', w1)"
    using assms bind canary_Inl [of env a p token w]
    by (cases "runCanaryPreflight env a p token w") (auto simp: publish_with_token_def)
  obtain k w2 where key: "ensureProviderIdempotencyKey env a w1 = Inr (k, w2)"
    using assms bind can canary_Inr [OF can] ensure_Inl [of env a w1]
    by (cases "ensureProviderIdempotencyKey env a w1") (auto simp: publish_with_token_def)
  let ?pl = "buildPayload (te_tags env) a p k"
  obtain r w3 where p2: "publishYouTubePhase2 env a p ?pl w2 = (r, w3)" by (metis surj_pair)
  have w3: "publish_calls w3 = publish_calls w2" "tw_key t w3 = tw_key t w2" for t
    using publish_calls_phase2 [of env a p ?pl w2] key_phase2 [of t env a p ?pl w2] p2 by simp_all
  have r: "r = Inr False"
    using assms bind can key p2 w3 canary_Inr [OF can] ensure_key [OF key]
    by (auto simp: publish_with_token_def split: sum.splits bool.splits)
  let ?w = "snd (executePublish env a p token' ?pl w3)"
  have res: "publish_with_token env a p token w = executePublish env a p token' ?pl w3"
    using bind can key p2 r by (simp add: publish_with_token_def)
  have calls: "publish_calls w3 = publish_calls w"
    using w3 canary_Inr [OF can] ensure_key [OF key] by simp
  then have "publish_calls ?w \<noteq> publish_calls w3" using assms res by simp
  from executePublish_calls [OF this] obtain rv url where x: "te_resolver env = Some rv"
    "ResolveForUpload rv p hour = Inr url"
    "publish_calls ?w = publish_calls w3 @ [CallPublish (pt_id (tw_target w3)) (?pl\<lparr>pp_video_url := url\<rparr>)]"
    by blast
  have id: "pt_id (tw_target w3) = pt_id (tw_target w)"
    using phase2_id [OF p2] ensure_key [OF key] canary_Inr [OF can] by simp
  have nat: "p_upload_job_id p = None \<or> orphaned_native env a w"
    using phase2_False [OF p2 [unfolded r]] ensure_key [OF key] canary_Inr [OF can]
    by (simp add: orphaned_native_def)
  have "tw_key t ?w = tw_key t w2" for t using key_executePublish w3 by simp
  then show ?thesis using bind nat x id res calls ensure_key [OF key] canary_Inr [OF can]
    by (intro conjI exI [of _ rv] exI [of _ url] exI [of _ k]) auto
qed

text \<open>The post as the worker serves it: the stored one, its text maybe replaced, or a cached copy.\<close>

definition served_post :: "target_world \<Rightarrow> post_db \<Rightarrow> Post \<Rightarrow> bool" where
  "served_post w db q \<longleftrightarrow>
     (\<exists>p. find_post (pt_post_id (tw_target w)) db = Some p \<and>
        (same_but_text p q \<or> (\<exists>c \<in> set (tw_cache w). snd c = q \<and> fst (fst c) = p_id p)))"

text \<open>The guards between the claim and the provider.\<close>

definition account_may_publish :: "target_env \<Rightarrow> PlatformAccount \<Rightarrow> bool" where
  "account_may_publish env a \<longleftrightarrow> te_account env = Inr (Some a) \<and> te_oauth env \<and> te_publisher env \<and>
     (pa_platform a = ''youtube'' \<longrightarrow> pa_status a \<noteq> ''reauth_required'' \<and> pa_reauth_required_at a = None \<and>
        (\<forall>check. te_binder env = Some check \<longrightarrow> (\<exists>token. check token (pa_user_id a) = BindOk)))"

definition guarded_call :: "target_env \<Rightarrow> target_world \<Rightarrow> target_world \<Rightarrow> PublishPayload \<Rightarrow> bool" where
  "guarded_call env w w' payload \<longleftrightarrow>
     (\<exists>db q a k. claimTarget (te_flt env 0) (te_now env 0) (te_locked env) (te_worker env) (tw_target w) (tw_db w) =
          (Inr True, db) \<and>
        served_post w db q \<and> account_may_publish env a \<and>
        (p_upload_job_id q = None \<or> orphaned_native env a w) \<and>
        (\<exists>rv url. te_resolver env = Some rv \<and> ResolveForUpload rv q hour = Inr url \<and>
           payload = (buildPayload (te_tags env) a q k)\<lparr>pp_video_url := url\<rparr>) \<and> k \<noteq> '''' \<and>
        (pt_provider_idempotency_key (tw_target w) = Some k \<or>
         k = computeProviderIdempotencyKey (te_sha env) (pt_post_id (tw_target w)) (pa_id a) \<and>
         set (key_column (pt_id (tw_target w)) (tw_db w')) \<subseteq> {Some k}))"

lemma load_Inr:
  assumes "loadPostAndAccount env w = Inr (p, a)"
  shows "find_post (pt_post_id (tw_target w)) (tw_db w) = Some p \<and> te_account env = Inr (Some a)"
  using assms by (auto simp: loadPostAndAccount_def Let_def split: option.splits sum.splits)

lemma publish_calls_drive: "publish_calls (snd (publishDriveExport env a p w)) = publish_calls w"
  by (auto simp: publishDriveExport_def Let_def split: option.split sum.split prod.split dest: publish_calls_updateD)

lemma publish_call_phases:
  assumes "publishTarget env w = (e, w')" and call: "publish_calls w' \<noteq> publish_calls w"
  shows "\<exists>db p a q b cache token.
    claimTarget (te_flt env 0) (te_now env 0) (te_locked env) (te_worker env) (tw_target w) (tw_db w) = (Inr True, db) \<and>
    loadPostAndAccount env (w\<lparr>tw_db := db\<rparr>) = Inr (p, a) \<and>
    localizeForChannel (te_text env) (pa_id a) p (tw_cache w) = (Inr (q, b), cache) \<and>
    (pa_platform a = ''youtube'' \<longrightarrow> pa_status a \<noteq> ''reauth_required'' \<and> pa_reauth_required_at a = None) \<and>
    te_oauth env \<and> te_publisher env \<and>
    w' = snd (publish_with_token env a q token (w\<lparr>tw_db := db, tw_cache := cache\<rparr>))"
proof -
  obtain r db where c: "claimTarget (te_flt env 0) (te_now env 0) (te_locked env) (te_worker env) (tw_target w)
      (tw_db w) = (r, db)"
    by (metis surj_pair)
  let ?w = "w\<lparr>tw_db := db\<rparr>"
  have r: "r = Inr True" and w': "w' = snd (publish_claimed env ?w)"
    using assms c by (auto simp: publishTarget_def Let_def split: sum.splits bool.splits)
  obtain p a where l: "loadPostAndAccount env ?w = Inr (p, a)"
    using call w' by (cases "loadPostAndAccount env ?w") (auto simp: publish_claimed_def)
  obtain loc cache where loc: "localizeForChannel (te_text env) (pa_id a) p (tw_cache w) = (loc, cache)"
    by (metis surj_pair)
  let ?w1 = "?w\<lparr>tw_cache := cache\<rparr>"
  have "(pa_platform a = ''youtube'' \<longrightarrow> pa_status a \<noteq> ''reauth_required'' \<and> pa_reauth_required_at a = None) \<and>
    te_oauth env \<and> te_publisher env \<and> (\<exists>q b token. loc = Inr (q, b) \<and>
      w' = snd (publish_with_token env a q token ?w1))"
    using call w' l loc publish_calls_drive [of env a p ?w] token_Inl [of env a ?w1]
    by (auto simp: publish_claimed_def Let_def split: if_splits sum.splits)
  with c r l loc show ?thesis by auto
qed

lemma publish_call_of_run:
  assumes run: "publishTarget env w = (e, w')"
  shows "publish_calls w' = publish_calls w \<or>
    (\<exists>payload. publish_calls w' = publish_calls w @ [CallPublish (pt_id (tw_target w)) payload])"
proof (cases "publish_calls w' = publish_calls w")
  case False
  from publish_call_phases [OF run this] obtain db a q cache token where
    w': "w' = snd (publish_with_token env a q token (w\<lparr>tw_db := db, tw_cache := cache\<rparr>))"
    by blast
  with False have "publish_calls w' \<noteq> publish_calls (w\<lparr>tw_db := db, tw_cache := cache\<rparr>)" by simp
  from with_token_calls [OF this [unfolded w']] show ?thesis by (auto simp: w')
qed simp


section \<open>A publish that succeeds\<close>

text \<open>A TikTok account with a ready asset behind its post; no fault anywhere.\<close>

definition run_account :: PlatformAccount where
  "run_account =
     \<lparr>pa_id = 7, pa_platform = ''tiktok'', pa_user_id = ''u7'', pa_status = ''active'', pa_reauth_required_at = None\<rparr>"

definition run_env :: target_env where
  "run_env =
     \<lparr>te_worker = ''w1'', te_locked = (\<lambda>_. False), te_flt = (\<lambda>_. TxOk), te_now = (\<lambda>n. 5), te_post_error = None,
      te_account = Inr (Some run_account), te_connection = None, te_registry = None, te_folder = '''',
      te_folder_of = (\<lambda>_. None), te_oauth = True, te_publisher = True, te_async = False,
      te_text = \<lparr>tl_enabled = (\<lambda>_. None), tl_snapshots = (\<lambda>_. None), tl_source = (\<lambda>_. ''''), tl_language = '''',
        tl_nvidia = None, tl_argos = None\<rparr>,
      te_renew = (\<lambda>_ _. RnToken ''token''), te_page_token = None, te_binder = None, te_metadata_ok = False,
      te_canary_flag = (\<lambda>_. False), te_canary = None, te_sha = (\<lambda>_. [10]), te_tags = (\<lambda>_. None),
      te_yt_wired = False, te_yt_lookup = None, te_yt_flt = DbOk, te_checker = None, te_updater = None,
      te_throttle = None, te_resolver = Some (sample_resolver [sample_asset]), te_resolve_text = (\<lambda>_. ''''),
      te_publish = (\<lambda>token p. Inr ''m1'')\<rparr>"

definition run_db :: post_db where
  "run_db =
     \<lparr>posts = [(asset_post (Some ''a1'') None)\<lparr>p_id := 1, p_status := PSQueued\<rparr>],
      targets = [sample_target 10 1 PSQueued], repair_queue = []\<rparr>"

definition run_world :: target_world where
  "run_world =
     \<lparr>tw_target = project_target (sample_target 10 1 PSQueued), tw_db = run_db, tw_pubs = [],
      tw_cache = [], tw_flags = [], tw_calls = []\<rparr>"

lemma run_db_inv: "post_inv run_db"
proof -
  have "aggregated pid run_db" for pid
    by (cases "pid = 1") (simp_all add: aggregated_def run_db_def sample_target_def children_def
        Resolve_def agg_init_def agg_decide_def)
  moreover have "post_db_wf run_db"
    by (simp add: post_db_wf_def run_db_def sample_target_def)
  ultimately show ?thesis by (simp add: post_inv_def)
qed

lemma run_result:
  "fst (publishTarget run_env run_world) = None \<and>
   length (publish_calls (snd (publishTarget run_env run_world))) = 1 \<and>
   map pt_status (targets (tw_db (snd (publishTarget run_env run_world)))) = [PSPublished]"
  by code_simp

theorem publishTarget_confined_witness:
  "post_inv (tw_db (snd (publishTarget run_env run_world))) \<and>
   others 10 (tw_db (snd (publishTarget run_env run_world))) = []"
proof -
  have "post_inv (tw_db run_world)" by (simp add: run_world_def run_db_inv)
  from publishTarget_confined [OF this, of run_env] show ?thesis
    by (cases "publishTarget run_env run_world")
      (simp add: run_world_def others_def run_db_def sample_target_def project_target_def)
qed


end
