(* ===== verification/PublishOutcome.thy ===== *)
theory PublishOutcome
  imports PublishTargetProofs
begin

text \<open>
  In which state a run of \<open>publishTarget\<close> leaves the row of its target when the database answers:
  for every way out of the run, the status, the message and the lease the row ends with.
\<close>

section \<open>The row the worker holds\<close>

definition tw_row :: "target_world \<Rightarrow> target_row option" where
  "tw_row w = find_row pt_id (pt_id (tw_target w)) (targets (tw_db w))"

definition working :: "target_env \<Rightarrow> target_world \<Rightarrow> bool" where
  "working env w \<longleftrightarrow> te_worker env \<noteq> '''' \<and> te_flt env = (\<lambda>_. TxOk) \<and> post_inv (tw_db w) \<and>
     (\<exists>r. tw_row w = Some r \<and> pt_status r = PSPublishing \<and> lease_owner_id r = Some (te_worker env))"

lemma working_set [simp]:
  "working env (w\<lparr>tw_pubs := a\<rparr>) = working env w" "working env (w\<lparr>tw_cache := b\<rparr>) = working env w"
  "working env (w\<lparr>tw_flags := c\<rparr>) = working env w" "working env (tw_call e w) = working env w"
  "working env (clear_upload env' i w) = working env w" "working env (tw_set_status s w) = working env w"
  "working env (markYouTubeGrantReauth env' ac w) = working env w"
  "pt_id x = pt_id (tw_target w) \<Longrightarrow> working env (w\<lparr>tw_target := x\<rparr>) = working env w"
  by (simp_all add: working_def tw_row_def tw_call_def clear_upload_def tw_set_status_def
      markYouTubeGrantReauth_def)

text \<open>Status, message and lease of the row after a run.\<close>

definition row_is :: "target_world \<Rightarrow> (PostStatus \<Rightarrow> string \<Rightarrow> string option \<Rightarrow> bool) \<Rightarrow> bool" where
  "row_is w P \<longleftrightarrow> (\<exists>r. tw_row w = Some r \<and> P (pt_status r) (pt_error_message r) (lease_owner_id r))"

lemma row_is_set [simp]:
  "row_is (w\<lparr>tw_pubs := a\<rparr>) P = row_is w P" "row_is (w\<lparr>tw_flags := c\<rparr>) P = row_is w P"
  "row_is (tw_call e w) P = row_is w P" "row_is (clear_upload env i w) P = row_is w P"
  "pt_id x = pt_id (tw_target w) \<Longrightarrow> row_is (w\<lparr>tw_target := x\<rparr>) P = row_is w P"
  by (simp_all add: row_is_def tw_row_def tw_call_def clear_upload_def)

lemma row_is_mono: "row_is w P \<Longrightarrow> (\<And>s m l. P s m l \<Longrightarrow> Q s m l) \<Longrightarrow> row_is w Q"
  by (auto simp: row_is_def)

lemma working_row: "working env w \<Longrightarrow> row_is w (\<lambda>s m l. s = PSPublishing \<and> l = Some (te_worker env))"
  by (auto simp: working_def row_is_def)

text \<open>A write of the owner finds its row.\<close>

lemma update_ok:
  assumes w: "working env w" and label: "enum_label_ok (pt_status (tw_target w))"
    and known: "ps_known (pt_status (tw_target w))"
  shows "\<exists>w'. tw_update env w = (None, w') \<and> tw_target w' = tw_target w \<and>
    row_is w' (\<lambda>s m l. s = pt_status (tw_target w) \<and> m = pt_error_message (tw_target w) \<and>
      l = (if pt_status (tw_target w) = PSPublishing then Some (te_worker env) else None))"
proof -
  let ?t = "tw_target w"
  obtain r where r: "find_row pt_id (pt_id ?t) (targets (tw_db w)) = Some r" "pt_status r = PSPublishing"
    "lease_owner_id r = Some (te_worker env)" and inv: "post_inv (tw_db w)" and ok: "te_worker env \<noteq> ''''" "te_flt env = (\<lambda>_. TxOk)"
    using w by (auto simp: working_def tw_row_def)
  let ?st = "qUpdateTargetStatusWithLease (pt_status ?t) (pt_platform_post_id ?t) (pt_error_message ?t)
    (pt_published_at ?t) (pt_id ?t) (pt_provider_state ?t) (pt_container_id ?t) (te_worker env)"
  let ?d = "snd (exec_targets (te_now env 2) ?st (tw_db w))"
  have hit: "fst ?st r" using r find_row_SomeD [OF r(1)] by (simp add: qUpdateTargetStatusWithLease_def)
  then have "rows_affected (fst ?st) (targets (tw_db w)) \<noteq> 0"
    using find_row_SomeD [OF r(1)] by (auto simp: rows_affected_0_iff)
  moreover have "\<forall>x \<in> set (targets ?d). ps_known (pt_status x)"
    using known known_of_inv [OF inv] by (auto simp: set_update_where qUpdateTargetStatusWithLease_def)
  then obtain d where d: "persistAggregatePostStatusLockedTx (pt_post_id r) ?d = Inr ((), d)" "targets d = targets ?d"
    using persist_succeeds [of ?d "pt_post_id r"] by blast
  ultimately have "tw_update env w = (None, w\<lparr>tw_db := d\<rparr>)"
    using parent_lookup [OF inv r(1)] label ok
    by (simp add: tw_update_def updateTargetStatus_def UpdateStatusWithLease_def split_def Let_def)
  moreover have "find_row pt_id (pt_id ?t) (targets d) = Some (snd ?st r)"
    using hit r(1) by (simp add: d(2) find_row_update_where qUpdateTargetStatusWithLease_def)
  ultimately show ?thesis using r
    by (intro exI [of _ "w\<lparr>tw_db := d\<rparr>"]) (simp add: row_is_def tw_row_def qUpdateTargetStatusWithLease_def)
qed

lemma leased_write_ok:
  assumes w: "working env w" and hit: "\<And>r. lease_owner_id r = Some (te_worker env) \<Longrightarrow> pt_status r = PSPublishing \<Longrightarrow>
      pt_id r = pt_id (tw_target w) \<Longrightarrow> fst (q (pt_id (tw_target w)) (te_worker env)) r"
    and known: "\<And>x. ps_known (pt_status (snd (q (pt_id (tw_target w)) (te_worker env)) x))"
    and id: "\<And>x. pt_id (snd (q (pt_id (tw_target w)) (te_worker env)) x) = pt_id x"
  shows "\<exists>r db. mutateLeasedTarget TxOk now (pt_id (tw_target w)) (te_worker env) q (tw_db w) = (Inr (), db) \<and>
    find_row pt_id (pt_id (tw_target w)) (targets db) = Some (triggered now (q (pt_id (tw_target w)) (te_worker env)) r)"
proof -
  obtain r where r: "find_row pt_id (pt_id (tw_target w)) (targets (tw_db w)) = Some r" "pt_status r = PSPublishing"
    "lease_owner_id r = Some (te_worker env)" and inv: "post_inv (tw_db w)"
    using w by (auto simp: working_def tw_row_def)
  have hit': "fst (q (pt_id (tw_target w)) (te_worker env)) r"
    using hit [OF r(3,2)] find_row_SomeD [OF r(1)] by simp
  from mutateLeasedTarget_ok [where q = q, OF inv r(1) hit' known, of now] obtain db where
    "mutateLeasedTarget TxOk now (pt_id (tw_target w)) (te_worker env) q (tw_db w) = (Inr (), db)"
    "targets db = update_where (fst (q (pt_id (tw_target w)) (te_worker env)))
       (triggered now (q (pt_id (tw_target w)) (te_worker env))) (targets (tw_db w))"
    by blast
  then show ?thesis using hit' r(1) id
    by (intro exI [of _ r] exI [of _ db]) (simp add: find_row_update_where)
qed

section \<open>The state that each way out leaves\<close>

fun row_after :: "string \<Rightarrow> target_err option \<Rightarrow> PostStatus \<Rightarrow> string \<Rightarrow> string option \<Rightarrow> bool" where
  "row_after wk None s m l \<longleftrightarrow>
     (s \<in> {PSPublished, PSWaitingProvider, PSQueued} \<and> l = None \<or> s = PSPublishing \<and> l = Some wk)"
| "row_after wk (Some (TeFailed reason)) s m l \<longleftrightarrow> s = PSRetrying \<and> m = reason \<and> l = None"
| "row_after wk (Some (TeBlocked reason)) s m l \<longleftrightarrow> s = PSBlockedAuth \<and> m = reason \<and> l = None"
| "row_after wk (Some TeKeyConflict) s m l \<longleftrightarrow> s = PSFailed \<and> l = None"
| "row_after wk (Some (TeLookup e)) s m l \<longleftrightarrow> s = PSQueued \<and> l = None"
| "row_after wk (Some (TeVideoStatus e)) s m l \<longleftrightarrow> s = PSQueued \<and> l = None"
| "row_after wk (Some (TeGrace v)) s m l \<longleftrightarrow> s = PSRetrying \<and> l = None"
| "row_after wk (Some TeKey) s m l \<longleftrightarrow> s = PSPublishing \<and> l = Some wk"
| "row_after wk (Some (TeThrottle e)) s m l \<longleftrightarrow> s = PSPublishing \<and> l = Some wk"
| "row_after wk (Some _) s m l \<longleftrightarrow> False"

definition good :: "target_env \<Rightarrow> target_result \<Rightarrow> bool" where
  "good env res \<longleftrightarrow> row_is (snd res) (row_after (te_worker env) (fst res))"

fun good2 :: "target_env \<Rightarrow> phase2_result \<Rightarrow> bool" where
  "good2 env (Inl e, w) \<longleftrightarrow> good env (Some e, w)"
| "good2 env (Inr True, w) \<longleftrightarrow> good env (None, w)"
| "good2 env (Inr False, w) \<longleftrightarrow> working env w"

lemma label_ok [simp]:
  "enum_label_ok PSPublished" "enum_label_ok PSWaitingProvider" "enum_label_ok PSQueued" "enum_label_ok PSFailed"
  "enum_label_ok PSBlockedAuth" "enum_label_ok PSPublishing"
  by (simp_all add: enum_label_ok_def post_status_labels_def)

lemma failed_good: "working env w \<Longrightarrow> good env (tw_failed env m w)"
proof -
  assume w: "working env w"
  let ?nx = "te_now env 2 + publishRetryBackoff (int (pt_attempt_count (tw_target w)))"
  obtain r db where m: "mutateLeasedTarget TxOk (te_now env 2) (pt_id (tw_target w)) (te_worker env)
      (qMarkRetrying ?nx m) (tw_db w) = (Inr (), db)"
    "find_row pt_id (pt_id (tw_target w)) (targets db) =
       Some (triggered (te_now env 2) (qMarkRetrying ?nx m (pt_id (tw_target w)) (te_worker env)) r)"
    using leased_write_ok [OF w, of "qMarkRetrying ?nx m" "te_now env 2"] by (auto simp: qMarkRetrying_def)
  have "te_worker env \<noteq> ''''" "te_flt env = (\<lambda>_. TxOk)" using w by (simp_all add: working_def)
  then show ?thesis using m
    by (simp add: good_def tw_failed_def markFailed_def retryTarget_def pt_MarkRetrying_def Let_def row_is_def
        tw_row_def qMarkRetrying_def)
qed

lemma retry_good:
  assumes w: "working env w"
    and r: "retryTarget (te_flt env 2) (te_now env 2) (te_worker env) (tw_target w) m (tw_db w) = (e, t, db)"
  shows "row_is (w\<lparr>tw_target := t, tw_db := db\<rparr>) (\<lambda>s m l. s = PSRetrying \<and> l = None)"
proof -
  let ?nx = "te_now env 2 + publishRetryBackoff (int (pt_attempt_count (tw_target w)))"
  obtain x d where "mutateLeasedTarget TxOk (te_now env 2) (pt_id (tw_target w)) (te_worker env)
      (qMarkRetrying ?nx m) (tw_db w) = (Inr (), d)"
    "find_row pt_id (pt_id (tw_target w)) (targets d) =
       Some (triggered (te_now env 2) (qMarkRetrying ?nx m (pt_id (tw_target w)) (te_worker env)) x)"
    using leased_write_ok [OF w, of "qMarkRetrying ?nx m" "te_now env 2"] by (auto simp: qMarkRetrying_def)
  moreover have "te_worker env \<noteq> ''''" "te_flt env = (\<lambda>_. TxOk)" using w by (simp_all add: working_def)
  ultimately show ?thesis using r
    by (auto simp: retryTarget_def pt_MarkRetrying_def Let_def row_is_def tw_row_def qMarkRetrying_def)
qed

lemma rate_limited_good:
  assumes w: "working env w"
    and r: "markRateLimited (te_flt env 2) (te_now env 2) (te_worker env) (tw_target w) err (tw_db w) = (e, t, db)"
  shows "e = None \<and> row_is (w\<lparr>tw_target := t, tw_db := db\<rparr>) (\<lambda>s m l. s = PSQueued \<and> l = None)"
proof -
  let ?q = "qMarkRateLimitedRetryWithLease (te_now env 2 + rateLimitDelay err) (err_text err)"
  obtain x d where "mutateLeasedTarget TxOk (te_now env 2) (pt_id (tw_target w)) (te_worker env) ?q (tw_db w) = (Inr (), d)"
    "find_row pt_id (pt_id (tw_target w)) (targets d) = Some (triggered (te_now env 2) (?q (pt_id (tw_target w)) (te_worker env)) x)"
    using leased_write_ok [OF w, of ?q "te_now env 2"] by (auto simp: qMarkRateLimitedRetryWithLease_def)
  moreover have "te_worker env \<noteq> ''''" "te_flt env = (\<lambda>_. TxOk)" using w by (simp_all add: working_def)
  ultimately show ?thesis using r
    by (auto simp: markRateLimited_def MarkRateLimitedRetryWithLease_def Let_def row_is_def tw_row_def
        qMarkRateLimitedRetryWithLease_def)
qed

lemma update_good:
  assumes "working env w" and "pt_id x = pt_id (tw_target w)" and "enum_label_ok (pt_status x)"
    and "ps_known (pt_status x)" and "tw_update env (w\<lparr>tw_target := x\<rparr>) = (e, w')"
  shows "e = None \<and> row_is w' (\<lambda>s m l. s = pt_status x \<and> m = pt_error_message x \<and>
      l = (if pt_status x = PSPublishing then Some (te_worker env) else None))"
  using update_ok [of env "w\<lparr>tw_target := x\<rparr>"] assms by simp

lemma blocked_good: "working env w \<Longrightarrow> good env (tw_blocked env m w)"
proof -
  assume w: "working env w"
  let ?x = "(tw_target w)\<lparr>pt_status := PSBlockedAuth, pt_error_message := m, pt_last_error_code := ''blocked_auth''\<rparr>"
  obtain e w' where u: "tw_update env (w\<lparr>tw_target := ?x\<rparr>) = (e, w')" by (metis surj_pair)
  then have "snd (tw_blocked env m w) = w'"
    by (auto simp: tw_blocked_def markPublishBlockedAuth_def tw_update_def split_def Let_def)
  with update_good [OF w _ _ _ u] show ?thesis
    by (auto simp: good_def tw_blocked_def Let_def split_def elim!: row_is_mono)
qed

lemma dispatch_row [simp]: "row_is (tw_dispatch env a url w) P = row_is w P"
proof -
  let ?d = "\<lambda>t c. snd (MarkDeliveryDispatchFailed (te_flt env 3) (te_now env 3) t c (tw_db w))"
  have "targets (?d t c) = targets (tw_db w) \<or>
      targets (?d t c) = update_where (\<lambda>r. pt_id r = t) (\<lambda>r. r\<lparr>pt_last_error_code := c\<rparr>) (targets (tw_db w))" for t c
    by (auto simp: MarkDeliveryDispatchFailed_def run_exec_def run_tx_def split_def Let_def
        qMarkDeliveryDispatchFailed_def split: tx_fault.split)
  note * = this
  have "row_is (w\<lparr>tw_db := ?d t c\<rparr>) P = row_is w P" for t c
    using * [of t c]
    by (elim disjE; cases "find_row pt_id (pt_id (tw_target w)) (targets (tw_db w))")
      (simp_all add: row_is_def tw_row_def find_row_update_where)
  then show ?thesis
    using dispatch_db [of Map.empty "te_flt env 3" "te_now env 3" "te_registry env" "te_folder env" "tw_target w" a
      url "tw_db w"]
    by (auto simp: tw_dispatch_def)
qed

lemma working_None: "row_is w (\<lambda>s m l. s \<in> {PSPublished, PSWaitingProvider, PSQueued} \<and> l = None) \<Longrightarrow> good env (None, w)"
  by (auto simp: good_def elim: row_is_mono)

lemma published_good:
  assumes "working env w"
  shows "good2 env (markYouTubeTargetPublished env a i v p w)"
proof -
  let ?x = "(tw_target w)\<lparr>pt_status := PSPublished,
       pt_platform_post_id := EncodeYouTubePublishID (pa_user_id a) v, pt_published_at := Some (te_now env 2)\<rparr>"
  let ?w = "w\<lparr>tw_pubs := snd (yt_MarkPublished (te_yt_flt env) (te_now env 2) i (tw_pubs w))\<rparr>"
  obtain e w' where u: "tw_update env (?w\<lparr>tw_target := ?x\<rparr>) = (e, w')" by (metis surj_pair)
  have "working env ?w" using assms by simp
  from update_good [OF this _ _ _ u] have "e = None" "row_is w' (\<lambda>s m l. s = PSPublished \<and> l = None)"
    by (auto elim: row_is_mono)
  then have "e = None" "good env (None, w')" "good env (None, tw_dispatch env a url w')" for url
    by (auto intro!: working_None elim: row_is_mono)
  then show ?thesis using u
    by (simp add: markYouTubeTargetPublished_def Let_def split: option.split sum.split)
qed

lemma settle_good:
  assumes "working env w"
  shows "good2 env (settleNativePublish env a pub v p w)"
proof -
  have fail: "good2 env (p2_failed env m w1)" if "working env w1" for m w1
    using failed_good [OF that, of m] by (simp add: p2_failed_def tw_failed_def good_def split_def Let_def)
  have requeue: "good env (Some (TeVideoStatus m), snd (tw_update env (tw_set_status PSQueued w)))" for m
  proof -
    obtain e w' where u: "tw_update env (w\<lparr>tw_target := (tw_target w)\<lparr>pt_status := PSQueued\<rparr>\<rparr>) = (e, w')"
      by (metis surj_pair)
    with update_good [OF assms _ _ _ u] show ?thesis
      by (auto simp: tw_set_status_def good_def elim: row_is_mono)
  qed
  have grace: "good2 env (Inl (TeGrace v), w\<lparr>tw_target := t, tw_db := db\<rparr>)"
    if "retryTarget (te_flt env 2) (te_now env 2) (te_worker env) (tw_target w) m (tw_db w) = (e, t, db)" for m e t db
    using retry_good [OF assms that] by (auto simp: good_def elim: row_is_mono)
  show ?thesis using assms fail requeue published_good
    by (auto simp: settleNativePublish_def Let_def split: option.split video_answer.split privacy_answer.split prod.split
        dest!: grace)
qed

lemma wait_good:
  assumes "working env w"
  shows "good2 env (wait_for_delivery env p w)"
proof -
  obtain e w' where u: "tw_update env (w\<lparr>tw_target := (tw_target w)\<lparr>pt_status := PSWaitingProvider,
      pt_error_message := wait_text\<rparr>\<rparr>) = (e, w')"
    by (metis surj_pair)
  from update_good [OF assms _ _ _ u] have "e = None" "good env (None, w')"
    by (auto intro!: working_None elim: row_is_mono)
  then show ?thesis using u assms by (simp add: wait_for_delivery_def Let_def)
qed

lemma phase2_good:
  assumes "working env w"
  shows "good2 env (publishYouTubePhase2 env a p payload w)"
proof -
  have fail: "good2 env (p2_failed env m (tw_call c w))" for m c
    using failed_good [of env "tw_call c w" m] assms
    by (simp add: p2_failed_def tw_failed_def good_def split_def Let_def)
  have requeue: "good env (Some (TeLookup m), snd (tw_update env (tw_set_status PSQueued w)))" for m
  proof -
    obtain e w' where u: "tw_update env (w\<lparr>tw_target := (tw_target w)\<lparr>pt_status := PSQueued\<rparr>\<rparr>) = (e, w')"
      by (metis surj_pair)
    with update_good [OF assms _ _ _ u] show ?thesis
      by (auto simp: tw_set_status_def good_def elim: row_is_mono)
  qed
  show ?thesis using assms fail requeue wait_good settle_good published_good
    by (auto simp: publishYouTubePhase2_def Let_def split: option.split privacy_answer.split prod.split)
qed

lemma execute_good:
  assumes "working env w"
  shows "good env (executePublish env a p token payload w)"
proof (cases "te_throttle env")
  case (Some e)
  then show ?thesis using working_row [OF assms] by (auto simp: executePublish_def good_def elim: row_is_mono)
next
  case None
  show ?thesis
  proof (cases "resolveFreshMediaPayload env p payload w")
    case (Inl res)
    then have "good env res"
      using failed_good [OF assms]
      by (auto simp: resolveFreshMediaPayload_def split: option.splits sum.splits resolve_err.splits)
    then show ?thesis using None Inl by (simp add: executePublish_def)
  next
    case (Inr fresh)
    let ?w = "tw_call (CallPublish (pt_id (tw_target w)) fresh) w"
    have w1: "working env ?w" using assms by simp
    have lim: "good env (map_option TeReschedule e, ?w\<lparr>tw_target := t, tw_db := db\<rparr>)"
      if "markRateLimited (te_flt env 2) (te_now env 2) (te_worker env) (tw_target w) err (tw_db w) = (e, t, db)"
      for err e t db
    proof -
      have "markRateLimited (te_flt env 2) (te_now env 2) (te_worker env) (tw_target ?w) err (tw_db ?w) = (e, t, db)"
        using that by simp
      from rate_limited_good [OF w1 this] show ?thesis
        by (auto intro!: working_None elim: row_is_mono)
    qed
    have pub: "e = None \<and> good env (None, w') \<and> good env (None, tw_dispatch env a url w')"
      if "tw_update env (?w\<lparr>tw_target := x\<rparr>) = (e, w')" "pt_status x = PSPublished" "pt_id x = pt_id (tw_target w)"
      for x e w' url
      using update_good [OF w1 _ _ _ that(1)] that(2,3) by (auto intro!: working_None elim: row_is_mono)
    have async: "e = None \<and> good env (None, w')"
      if "tw_update env (?w\<lparr>tw_target := x\<rparr>) = (e, w')" "pt_status x = PSPublishing" "pt_id x = pt_id (tw_target w)"
      for x e w'
      using update_good [OF w1 _ _ _ that(1)] that(2,3) by (auto simp: good_def elim: row_is_mono)
    show ?thesis
    proof (cases "te_publish env token fresh")
      case (Inl err)
      then show ?thesis using None Inr failed_good [OF w1]
        by (auto simp: executePublish_def Let_def split: prod.split dest: lim)
    next
      case (Inr media)
      let ?a = "(tw_target w)\<lparr>pt_platform_post_id := media, pt_status := PSPublishing\<rparr>"
      let ?b = "(tw_target w)\<lparr>pt_status := PSPublished, pt_platform_post_id := media, pt_published_at := Some (te_now env 2)\<rparr>"
      obtain e1 v1 where u1: "tw_update env (?w\<lparr>tw_target := ?a\<rparr>) = (e1, v1)" by (metis surj_pair)
      obtain e2 v2 where u2: "tw_update env (?w\<lparr>tw_target := ?b\<rparr>) = (e2, v2)" by (metis surj_pair)
      show ?thesis
        using None Inr \<open>resolveFreshMediaPayload env p payload w = Inr fresh\<close> u1 u2 async [OF u1] pub [OF u2]
        by (simp add: executePublish_def Let_def)
    qed
  qed
qed

lemma dispatch_working:
  assumes w: "working env w"
  shows "working env (w\<lparr>tw_db := snd (dispatchPostCompletion f now reg folder (tw_target w) a url (drive_config env' p) (tw_db w))\<rparr>)"
proof -
  let ?t = "pt_id (tw_target w)"
  have "working env (w\<lparr>tw_db := snd (MarkDeliveryDispatchFailed f now ?t c (tw_db w))\<rparr>)" for c
  proof -
    let ?d = "snd (MarkDeliveryDispatchFailed f now ?t c (tw_db w))"
    have "post_inv ?d"
      using post_step_inv [of "tw_db w" f now "\<lambda>_. False" "PoDispatchFailed ?t c"] w by (simp add: working_def)
    moreover have "targets ?d = targets (tw_db w) \<or>
        targets ?d = update_where (\<lambda>r. pt_id r = ?t) (\<lambda>r. r\<lparr>pt_last_error_code := c\<rparr>) (targets (tw_db w))"
      by (auto simp: MarkDeliveryDispatchFailed_def run_exec_def run_tx_def split_def Let_def
          qMarkDeliveryDispatchFailed_def split: tx_fault.split)
    moreover obtain r where "find_row pt_id ?t (targets (tw_db w)) = Some r" "pt_status r = PSPublishing"
        "lease_owner_id r = Some (te_worker env)"
      using w by (auto simp: working_def tw_row_def)
    ultimately show ?thesis using w
      by (elim disjE) (simp_all add: working_def tw_row_def find_row_update_where)
  qed
  moreover have "drive_config env' p ''drive_required'' = None"
    by (simp add: drive_config_def split: option.split)
  ultimately show ?thesis
    using dispatch_db [of "drive_config env' p" f now reg folder "tw_target w" a url "tw_db w"] w by auto
qed

lemma drive_good:
  assumes "working env w"
  shows "good env (publishDriveExport env a p w)"
proof (cases "te_resolver env")
  case None
  then show ?thesis using failed_good [OF assms] by (simp add: publishDriveExport_def)
next
  case (Some rv)
  show ?thesis
  proof (cases "ResolveForUpload rv p hour")
    case (Inl e)
    then show ?thesis using Some failed_good [OF assms] by (simp add: publishDriveExport_def)
  next
    case (Inr url)
    obtain res db where d: "dispatchPostCompletion (te_flt env 3) (te_now env 3) (te_registry env) (te_folder env)
        (tw_target w) a url (drive_config env p) (tw_db w) = (res, db)"
      by (metis surj_pair)
    let ?w = "w\<lparr>tw_db := db\<rparr>"
    have w1: "working env ?w"
      using dispatch_working [OF assms, of "te_flt env 3" "te_now env 3" "te_registry env" "te_folder env" a url env p] d
      by simp
    let ?x = "(tw_target w)\<lparr>pt_status := PSPublished, pt_published_at := Some (te_now env 2)\<rparr>"
    obtain e w' where u: "tw_update env (?w\<lparr>tw_target := ?x\<rparr>) = (e, w')" by (metis surj_pair)
    have "e = None" "good env (None, w')"
      using update_good [OF w1 _ _ _ u] by (auto intro!: working_None elim: row_is_mono)
    then show ?thesis using Some Inr d u failed_good [OF w1] blocked_good [of env "?w\<lparr>tw_flags := f\<rparr>" for f] w1
      by (simp add: publishDriveExport_def Let_def split: sum.split option.split)
  qed
qed

lemma key_working:
  assumes w: "working env w" and set: "SetProviderIdempotencyKey TxOk now (pt_id (tw_target w)) k (tw_db w) = (e, db)"
  shows "working env (w\<lparr>tw_db := db\<rparr>) \<and> e \<in> {None, Some KeyEmpty, Some ErrProviderIdempotencyConflict}"
proof -
  obtain r where r: "find_row pt_id (pt_id (tw_target w)) (targets (tw_db w)) = Some r" "pt_status r = PSPublishing"
    "lease_owner_id r = Some (te_worker env)" using w by (auto simp: working_def tw_row_def)
  have "post_inv db"
    using SetProviderIdempotencyKey_inv [of "tw_db w" TxOk now "pt_id (tw_target w)" k] set w
    by (simp add: working_def)
  moreover have "rows_affected (fst (key_stmt (pt_id (tw_target w)) k)) (targets (tw_db w)) \<noteq> 0"
    using find_row_SomeD [OF r(1)] by (auto simp: rows_affected_0_iff key_stmt_def)
  moreover have "find_row pt_id (pt_id (tw_target w)) (targets (snd (exec_targets now (key_stmt (pt_id (tw_target w)) k) (tw_db w)))) =
      Some (if pt_id r = pt_id (tw_target w) then r\<lparr>pt_provider_idempotency_key := Some k\<rparr> else r)"
    by (simp add: key_stmt_def find_row_update_where r(1))
  ultimately show ?thesis using w set r
    by (auto simp: working_def tw_row_def SetProviderIdempotencyKey_def split_def Let_def split: if_splits)
qed

lemma ensure_good:
  assumes w: "working env w"
  shows "case ensureProviderIdempotencyKey env a w of Inl res \<Rightarrow> good env res | Inr (k, w') \<Rightarrow> working env w'"
proof -
  let ?t = "tw_target w"
  let ?k = "computeProviderIdempotencyKey (te_sha env) (pt_post_id ?t) (pa_id a)"
  let ?w1 = "w\<lparr>tw_target := ?t\<lparr>pt_provider_idempotency_key := Some ?k\<rparr>\<rparr>"
  obtain e db where s: "SetProviderIdempotencyKey (te_flt env 1) (te_now env 1) (pt_id ?t) ?k (tw_db w) = (e, db)"
    by (metis surj_pair)
  have flt: "te_flt env 1 = TxOk" using w by (simp add: working_def)
  let ?w2 = "?w1\<lparr>tw_db := db\<rparr>"
  have k: "working env ?w2" "e \<in> {None, Some KeyEmpty, Some ErrProviderIdempotencyConflict}"
    using key_working [of env ?w1 "te_now env 1" ?k e db] w s flt by auto
  let ?x = "(tw_target ?w2)\<lparr>pt_status := PSFailed, pt_error_message := key_conflict_text (pt_id ?t)\<rparr>"
  obtain u w' where u: "tw_update env (?w2\<lparr>tw_target := ?x\<rparr>) = (u, w')" by (metis surj_pair)
  have "good env (Some TeKeyConflict, w')"
    using update_good [OF k(1) _ _ _ u] by (auto simp: good_def elim: row_is_mono)
  moreover have "good env (Some TeKey, ?w2)"
    using working_row [OF k(1)] by (auto simp: good_def elim: row_is_mono)
  ultimately show ?thesis using k s u w
    by (auto simp: ensureProviderIdempotencyKey_def Let_def)
qed

lemma with_token_good:
  assumes w: "working env w"
  shows "good env (publish_with_token env a p token w)"
proof (cases "validateYouTubeChannelBinding env a token w")
  case (Some res)
  then have "good env res"
    using failed_good [OF w] blocked_good [of env "w\<lparr>tw_flags := f\<rparr>" for f] w
    by (auto simp: validateYouTubeChannelBinding_def split: if_splits option.splits bind_answer.splits)
  then show ?thesis using Some by (simp add: publish_with_token_def)
next
  case bind: None
  show ?thesis
  proof (cases "runCanaryPreflight env a p token w")
    case (Inl res)
    then have "good env res"
      using blocked_good [OF w] blocked_good [of env "tw_call c w" for c] w
      by (auto simp: runCanaryPreflight_def Let_def split: if_splits option.splits)
    then show ?thesis using bind Inl by (simp add: publish_with_token_def)
  next
    case (Inr tw)
    then obtain token' w1 where can: "runCanaryPreflight env a p token w = Inr (token', w1)" by (cases tw) auto
    then have w1: "working env w1" using w
      by (auto simp: runCanaryPreflight_def Let_def split: if_splits option.splits)
    show ?thesis
    proof (cases "ensureProviderIdempotencyKey env a w1")
      case (Inl res)
      then show ?thesis using bind can ensure_good [OF w1, of a] by (simp add: publish_with_token_def)
    next
      case (Inr kw)
      then obtain k w2 where key: "ensureProviderIdempotencyKey env a w1 = Inr (k, w2)" by (cases kw) auto
      then have w2: "working env w2" using ensure_good [OF w1, of a] by simp
      obtain r w3 where p2: "publishYouTubePhase2 env a p (buildPayload (te_tags env) a p k) w2 = (r, w3)"
        by (metis surj_pair)
      show ?thesis using bind can key p2 phase2_good [OF w2, of a p "buildPayload (te_tags env) a p k"] execute_good
        by (cases r) (auto simp: publish_with_token_def split: bool.split)
    qed
  qed
qed

lemma claimed_good:
  assumes w: "working env w"
  shows "good env (publish_claimed env w)"
proof (cases "loadPostAndAccount env w")
  case (Inl e)
  then show ?thesis using failed_good [OF w] by (simp add: publish_claimed_def)
next
  case (Inr pa)
  then obtain p a where l: "loadPostAndAccount env w = Inr (p, a)" by (cases pa) auto
  obtain loc cache where loc: "localizeForChannel (te_text env) (pa_id a) p (tw_cache w) = (loc, cache)"
    by (metis surj_pair)
  let ?w1 = "w\<lparr>tw_cache := cache\<rparr>"
  have w1: "working env ?w1" using w by simp
  have tok: "good env res" if "resolvePublishToken env a ?w1 = Inl res" for res
    using that failed_good [OF w1] blocked_good [of env "markYouTubeGrantReauth env a ?w1"] w
    by (auto simp: resolvePublishToken_def Let_def split: if_splits yt_renewal.splits option.splits)
  show ?thesis
    using l loc failed_good [OF w] failed_good [OF w1] blocked_good [OF w] drive_good [OF w] with_token_good [OF w1] tok
    by (auto simp: publish_claimed_def Let_def split: sum.split)
qed

lemma claim_working:
  assumes inv: "post_inv (tw_db w)" and env: "te_worker env \<noteq> ''''" "te_flt env = (\<lambda>_. TxOk)"
    and row: "tw_row w = Some r" "claimable_with_lease (te_now env 0) r" "\<not> te_locked env (pt_id (tw_target w))"
  shows "\<exists>db. claimTarget (te_flt env 0) (te_now env 0) (te_locked env) (te_worker env) (tw_target w) (tw_db w) =
    (Inr True, db) \<and> working env (w\<lparr>tw_db := db\<rparr>)"
proof -
  let ?t = "pt_id (tw_target w)"
  have "0 < publishLeaseTTL" by (simp add: publishLeaseTTL_def)
  from ClaimQueuedTargetWithLease_correct [OF inv env(1) this row(1) [unfolded tw_row_def], of "te_now env 0" "te_locked env"]
  obtain db where c: "ClaimQueuedTargetWithLease TxOk (te_now env 0) (te_locked env) ?t (te_worker env) publishLeaseTTL
      (tw_db w) = (Inr True, db)"
    "targets db = update_where (\<lambda>x. x = r)
         (\<lambda>x. x\<lparr>pt_status := PSPublishing, lease_owner_id := Some (te_worker env),
            leased_until := Some (te_now env 0 + max 1 (publishLeaseTTL div second) * second),
            heartbeat_at := Some (te_now env 0), pt_reconcile_attempt := 0, pt_next_reconcile_at := Some (te_now env 0),
            pt_reconcile_owner := None, pt_reconcile_until := None, pt_reconcile_heartbeat := None\<rparr>)
         (targets (tw_db w))"
    using row(2,3) by auto
  have "post_inv db"
    using post_step_inv [OF inv, of TxOk "te_now env 0" "te_locked env" "PoClaim ?t (te_worker env) publishLeaseTTL"] c(1)
    by simp
  moreover have "find_row pt_id ?t (targets db) = Some (r\<lparr>pt_status := PSPublishing,
      lease_owner_id := Some (te_worker env),
      leased_until := Some (te_now env 0 + max 1 (publishLeaseTTL div second) * second),
      heartbeat_at := Some (te_now env 0), pt_reconcile_attempt := 0, pt_next_reconcile_at := Some (te_now env 0),
      pt_reconcile_owner := None, pt_reconcile_until := None, pt_reconcile_heartbeat := None\<rparr>)"
    using row(1) by (simp add: c(2) find_row_update_where tw_row_def)
  ultimately have "working env (w\<lparr>tw_db := db\<rparr>)" using env by (simp add: working_def tw_row_def)
  then show ?thesis using c(1) env by (simp add: claimTarget_def)
qed



end
