(* ===== verification/PublishTick.thy ===== *)
theory PublishTick
  imports PublishOutcome "HOL-Library.Sublist"
begin

text \<open>
  One tick of the publish worker, \<open>internal/worker/publish_worker_lifecycle.go\<close>: the pending
  targets one after the other, as the worker runs them with a concurrency of one. The pool of the
  other path runs the same calls of \<open>publishTarget\<close> at the same time; each of them is a sequence of
  operations of the repository (\<open>publishTarget_own\<close>), so what the operations keep is kept there as
  well.
\<close>

fun publish_batch ::
  "(int \<Rightarrow> target_env) \<Rightarrow> PostTarget list \<Rightarrow> nat \<times> nat \<times> nat \<Rightarrow> target_world \<Rightarrow>
   (nat \<times> nat \<times> nat) \<times> target_world" where
  "publish_batch env [] n w = (n, w)"
| "publish_batch env (t # ts) (processed, ok, ko) w =
     (let (e, w') = publishTarget (env (pt_id t)) (w\<lparr>tw_target := t\<rparr>)
      in publish_batch env ts
           (processed + 1, if e = None then ok + 1 else ok, if e = None then ko else ko + 1) w')"

definition tick ::
  "(int \<Rightarrow> target_env) \<Rightarrow> bool \<Rightarrow> time \<Rightarrow> time \<Rightarrow> target_world \<Rightarrow> (unit + nat \<times> nat \<times> nat) \<times> target_world" where
  "tick env list_ok dbnow before w =
     (if \<not> list_ok then (Inl (), w)
      else let (n, w') = publish_batch env (ListPending dbnow before (tw_db w)) (0, 0, 0) w in (Inr n, w'))"

lemma batch_counts:
  "publish_batch env ts (p, ok, ko) w = ((p', ok', ko'), w') \<Longrightarrow>
    p' = p + length ts \<and> ok' + ko' = ok + ko + length ts"
proof (induction ts arbitrary: p ok ko w)
  case (Cons t ts)
  obtain e v where "publishTarget (env (pt_id t)) (w\<lparr>tw_target := t\<rparr>) = (e, v)" by (metis surj_pair)
  then show ?case using Cons.IH [of "p + 1" "if e = None then ok + 1 else ok" "if e = None then ko else ko + 1" v]
      Cons.prems by (auto split: if_splits)
qed simp

lemma batch_inv: "post_inv (tw_db w) \<Longrightarrow> post_inv (tw_db (snd (publish_batch env ts n w)))"
proof (induction ts arbitrary: n w)
  case (Cons t ts)
  obtain e v where r: "publishTarget (env (pt_id t)) (w\<lparr>tw_target := t\<rparr>) = (e, v)" by (metis surj_pair)
  have "post_inv (tw_db v)"
    using own_run_inv [OF publishTarget_own [of "env (pt_id t)" "w\<lparr>tw_target := t\<rparr>"]] Cons.prems r by simp
  then show ?case using Cons.IH [of v] r by (cases n) (simp add: Let_def)
qed simp

lemma batch_rows:
  "(\<And>t. t \<in> set ts \<Longrightarrow> pt_id t \<noteq> i) \<Longrightarrow>
    filter (\<lambda>r. pt_id r = i) (targets (tw_db (snd (publish_batch env ts n w)))) =
    filter (\<lambda>r. pt_id r = i) (targets (tw_db w))"
proof (induction ts arbitrary: n w)
  case (Cons t ts)
  obtain e v where r: "publishTarget (env (pt_id t)) (w\<lparr>tw_target := t\<rparr>) = (e, v)" by (metis surj_pair)
  have sub: "filter (\<lambda>r. pt_id r = i) (filter (\<lambda>r. pt_id r \<noteq> pt_id t) xs) = filter (\<lambda>r. pt_id r = i) xs"
    for xs :: "target_row list"
    using Cons.prems [of t] by (induction xs) auto
  have "others (pt_id t) (tw_db v) = others (pt_id t) (tw_db w)"
    using own_run_confined [OF publishTarget_own [of "env (pt_id t)" "w\<lparr>tw_target := t\<rparr>"]] r by simp
  then have "filter (\<lambda>r. pt_id r = i) (targets (tw_db v)) = filter (\<lambda>r. pt_id r = i) (targets (tw_db w))"
    unfolding others_def using sub by metis
  then show ?case using Cons.IH [where w = v] Cons.prems r by (cases n) (simp add: Let_def)
qed simp

lemma batch_calls:
  "\<exists>cs. publish_calls (snd (publish_batch env ts n w)) = publish_calls w @ map (\<lambda>(t, p). CallPublish (pt_id t) p) cs \<and>
    subseq (map fst cs) ts"
proof (induction ts arbitrary: n w)
  case (Cons t ts)
  obtain e v where r: "publishTarget (env (pt_id t)) (w\<lparr>tw_target := t\<rparr>) = (e, v)" by (metis surj_pair)
  obtain n' where res: "publish_batch env (t # ts) n w = publish_batch env ts n' v"
    using r by (cases n) (simp add: Let_def)
  obtain cs where cs: "publish_calls (snd (publish_batch env ts n' v)) =
      publish_calls v @ map (\<lambda>(t, p). CallPublish (pt_id t) p) cs" "subseq (map fst cs) ts"
    using Cons.IH by blast
  from publish_call_of_run [OF r] consider "publish_calls v = publish_calls w"
    | p where "publish_calls v = publish_calls w @ [CallPublish (pt_id t) p]" by auto
  then show ?case
  proof cases
    case 1
    then show ?thesis using cs res by (intro exI [of _ cs]) auto
  next
    case (2 p)
    then show ?thesis using cs res by (intro exI [of _ "(t, p) # cs"]) auto
  qed
qed simp


lemma tick_run: "fst (tick (\<lambda>_. run_env) True 5 5 run_world) = Inr (1, 1, 0)"
  by code_simp


end
