(* ===== verification/Reconcile.thy ===== *)
theory Reconcile
  imports PublishTarget
begin

text \<open>
  The reconciler of asynchronous publishes, \<open>internal/worker/reconcile_worker.go\<close> with the
  heartbeat of \<open>reconcile_lease_heartbeat.go\<close>: it leases a publishing target, asks the provider
  once what became of it, and records the answer. Between the claim and the write the worker only
  holds its lease: \<open>rc_beats\<close> are the heartbeats of that time, each after the operations that
  other processes made in the meantime, \<open>rc_meanwhile\<close> what they made after the last one.
\<close>

record reconcile_world =
  rw_target :: PostTarget
  rw_db :: post_db
  rw_flags :: "reauth_flag list"
  rw_polls :: "(int \<times> string) list"
  rw_syncs :: "int list"

text \<open>
  \<open>rc_now\<close> is the clock of the database at the claim, the write and the release (0, 2, 3),
  \<open>rc_clock\<close> that of the process. \<open>rc_poll token publish_id\<close> is \<open>AsyncPublisher.Reconcile\<close>: an
  error, no result yet, or the id of the media. \<open>rc_package\<close> decodes the package id of a post's
  metadata; \<open>rw_syncs\<close> records the packages whose state was synchronised.
\<close>

record reconcile_env =
  rc_worker :: string
  rc_locked :: "int \<Rightarrow> bool"
  rc_flt :: "nat \<Rightarrow> tx_fault"
  rc_now :: "nat \<Rightarrow> time"
  rc_clock :: time
  rc_beats :: "(post_event list \<times> tx_fault \<times> time) list"
  rc_meanwhile :: "post_event list"
  rc_account :: "string + PlatformAccount option"
  rc_connection :: "int option"
  rc_async :: bool
  rc_oauth :: bool
  rc_renew :: "string \<Rightarrow> renew_answer"
  rc_poll :: "string \<Rightarrow> string \<Rightarrow> go_error + string option"
  rc_sync_wired :: bool
  rc_package :: "string \<Rightarrow> int option"

datatype reconcile_err = RcClaim post_err | RcAccount string | RcTransition post_err | RcSchedule post_err

text \<open>An error, or \<open>(reconciled, wasFailed)\<close>.\<close>

type_synonym reconcile_result = "(reconcile_err + bool \<times> bool) \<times> reconcile_world"

definition dirtyAggregateRepairBatchSize :: int where "dirtyAggregateRepairBatchSize = 100"
definition reconcilePollingBatchSize :: int where "reconcilePollingBatchSize = 100"
definition reconcileBackoffCap :: duration where "reconcileBackoffCap = 120 * second"
definition reconcileLeaseTTL :: duration where "reconcileLeaseTTL = 60 * second"
definition reconcileMaxAttempts :: nat where "reconcileMaxAttempts = 5"

definition reconcileBackoffSchedule :: "duration list" where
  "reconcileBackoffSchedule = [5 * second, 15 * second, 30 * second, 60 * second, 120 * second]"

definition reconcileBackoffForAttempt :: "int \<Rightarrow> duration" where
  "reconcileBackoffForAttempt attempt =
     (let a = (if attempt < 0 then 0 else nat attempt)
      in if a \<ge> length reconcileBackoffSchedule then last reconcileBackoffSchedule
         else reconcileBackoffSchedule ! a)"

section \<open>Recording an answer\<close>

definition rc_update :: "reconcile_env \<Rightarrow> PostTarget \<Rightarrow> reconcile_world \<Rightarrow> post_err option \<times> reconcile_world" where
  "rc_update env t w =
     (let (r, db) = UpdateReconcileStatusWithLease (rc_flt env 2) (rc_now env 2) (Some t) (rc_worker env) (rw_db w)
      in (case r of Inl e \<Rightarrow> Some e | Inr _ \<Rightarrow> None, w\<lparr>rw_db := db\<rparr>))"

definition contentPackageIDFromMetadata :: "(string \<Rightarrow> int option) \<Rightarrow> string \<Rightarrow> int option" where
  "contentPackageIDFromMetadata dec metadata =
     (if metadata = '''' then None
      else case dec metadata of Some i \<Rightarrow> if i \<le> 0 then None else Some i | None \<Rightarrow> None)"

definition rc_sync :: "reconcile_env \<Rightarrow> PostTarget \<Rightarrow> reconcile_world \<Rightarrow> reconcile_world" where
  "rc_sync env t w =
     (if \<not> rc_sync_wired env \<or> pt_post_id t \<le> 0 then w
      else case find_post (pt_post_id t) (rw_db w) of
        None \<Rightarrow> w
      | Some p \<Rightarrow>
          (case contentPackageIDFromMetadata (rc_package env) (p_metadata p) of
             None \<Rightarrow> w
           | Some package \<Rightarrow> w\<lparr>rw_syncs := rw_syncs w @ [package]\<rparr>))"

text \<open>The failure transitions work on a copy of the target.\<close>

definition rc_terminal :: "reconcile_env \<Rightarrow> PostTarget \<Rightarrow> reconcile_world \<Rightarrow> reconcile_result" where
  "rc_terminal env t w =
     (case rc_update env t w of
        (Some e, w') \<Rightarrow> (Inl (RcTransition e), w')
      | (None, w') \<Rightarrow> (Inr (True, True), rc_sync env t (w'\<lparr>rw_target := t\<rparr>)))"

definition markFailedAndReturn :: "reconcile_env \<Rightarrow> string \<Rightarrow> reconcile_world \<Rightarrow> reconcile_result" where
  "markFailedAndReturn env reason w =
     (let t = rw_target w
      in rc_terminal env (t\<lparr>pt_status := PSFailed, pt_provider_state := ''FAILED'', pt_error_message := reason,
           pt_last_error_code := (if pt_last_error_code t = '''' then ''RECONCILE_FAILED''
                                  else pt_last_error_code t)\<rparr>) w)"

definition markDeadLetterAndReturn :: "reconcile_env \<Rightarrow> string \<Rightarrow> reconcile_world \<Rightarrow> reconcile_result" where
  "markDeadLetterAndReturn env reason w =
     rc_terminal env ((rw_target w)\<lparr>pt_status := PSDLQ, pt_provider_state := ''FAILED'', pt_error_message := reason,
       pt_last_error_code := ''RECONCILE_RETRY_EXHAUSTED''\<rparr>) w"

definition markBlockedAuthAndReturn :: "reconcile_env \<Rightarrow> string \<Rightarrow> reconcile_world \<Rightarrow> reconcile_result" where
  "markBlockedAuthAndReturn env reason w =
     rc_terminal env ((rw_target w)\<lparr>pt_status := PSBlockedAuth, pt_provider_state := ''REAUTH_REQUIRED'',
       pt_error_message := reason, pt_last_error_code := ''blocked_auth''\<rparr>) w"

definition rc_schedule ::
  "reconcile_env \<Rightarrow> time \<Rightarrow> bool \<Rightarrow> string \<Rightarrow> string \<Rightarrow> reconcile_world \<Rightarrow> reconcile_result" where
  "rc_schedule env nxt inc code msg w =
     (let t = rw_target w; n = pt_reconcile_attempt t;
          (r, db) = ScheduleNextReconcileWithLease (rc_flt env 2) (rc_now env 2) (pt_id t) (rc_worker env) (int n)
                      (Some nxt) inc code msg (rw_db w)
      in case r of
           Inl e \<Rightarrow> (Inl (RcSchedule e), w\<lparr>rw_db := db\<rparr>)
         | Inr _ \<Rightarrow> (Inr (False, False), w\<lparr>rw_db := db, rw_target :=
             t\<lparr>pt_reconcile_attempt := (if inc then n + 1 else n), pt_next_reconcile_at := Some nxt\<rparr>\<rparr>))"

definition scheduleInFlight :: "reconcile_env \<Rightarrow> reconcile_world \<Rightarrow> reconcile_result" where
  "scheduleInFlight env w =
     (let b = reconcileBackoffForAttempt (int (pt_reconcile_attempt (rw_target w)));
          b' = (if b > reconcileBackoffCap then reconcileBackoffCap else b)
      in rc_schedule env (rc_clock env + b') False '''' '''' w)"

definition rate_limited_error :: "string \<Rightarrow> go_error \<Rightarrow> bool" where
  "rate_limited_error platform err \<longleftrightarrow>
     some_and (\<lambda>c. ne_kind c = KindRateLimited) (ClassifyErrorFor platform ''reconcile'' (Some err))"

definition reconcileErrorCode :: "go_error \<Rightarrow> string" where
  "reconcileErrorCode err = (if rate_limited_error '''' err then ''RATE_LIMITED'' else ''RECONCILE_TRANSIENT'')"

definition scheduleRetry :: "reconcile_env \<Rightarrow> duration \<Rightarrow> go_error \<Rightarrow> reconcile_world \<Rightarrow> reconcile_result" where
  "scheduleRetry env retryAfter cause w =
     (let d = (if retryAfter \<le> 0 then reconcileBackoffForAttempt (int (pt_reconcile_attempt (rw_target w)))
               else retryAfter)
      in rc_schedule env (rc_clock env + d) (\<not> rate_limited_error '''' cause) (reconcileErrorCode cause)
           (err_text cause) w)"

text \<open>\<open>LPublishTerminal\<close> stands for both \<open>ErrPublishTerminal\<close> and \<open>ErrPublishPermanent\<close>.\<close>

definition isPermanentReconcileError :: "go_error \<Rightarrow> bool" where
  "isPermanentReconcileError err \<longleftrightarrow>
     LCanceled \<notin> set (err_chain err) \<and>
     (LPublishTerminal \<in> set (err_chain err) \<or> LPermanentUpload \<in> set (err_chain err) \<or>
      some_and (\<lambda>c. ne_kind c = KindPermanent \<or> ne_kind c = KindAuth \<or> \<not> ne_retryable c)
        (ClassifyErrorFor '''' ''reconcile'' (Some err)))"

section \<open>One target\<close>

fun lease_beats ::
  "int \<Rightarrow> string \<Rightarrow> (post_event list \<times> tx_fault \<times> time) list \<Rightarrow> post_db \<Rightarrow> post_db" where
  "lease_beats tid worker [] db = db"
| "lease_beats tid worker ((others, f, now) # bs) db =
     (let (r, db') = HeartbeatReconcileTarget f now tid worker reconcileLeaseTTL (post_exec others db)
      in case r of Inl _ \<Rightarrow> db' | Inr _ \<Rightarrow> lease_beats tid worker bs db')"

definition exhausted_text :: "go_error \<Rightarrow> string" where
  "exhausted_text err =
     ''publish retry budget exhausted after '' @ FormatInt (int reconcileMaxAttempts) @
     '' transient failures: '' @ err_text err"

definition record_poll ::
  "reconcile_env \<Rightarrow> string \<Rightarrow> go_error + string option \<Rightarrow> reconcile_world \<Rightarrow> reconcile_result" where
  "record_poll env platform ans w =
     (case ans of
        Inl err \<Rightarrow>
          let limited = rate_limited_error platform err
          in if \<not> limited \<and> isPermanentReconcileError err
             then markFailedAndReturn env (''publish failed: '' @ err_text err) w
             else if \<not> limited \<and> pt_reconcile_attempt (rw_target w) \<ge> reconcileMaxAttempts - 1
             then markDeadLetterAndReturn env (exhausted_text err) w
             else scheduleRetry env (RetryAfterFromError (Some err)) err w
      | Inr None \<Rightarrow> scheduleInFlight env w
      | Inr (Some media) \<Rightarrow>
          if media = '''' then scheduleInFlight env w
          else
            let t = (rw_target w)\<lparr>pt_status := PSPublished, pt_provider_state := ''PUBLISH_COMPLETE'',
                      pt_platform_post_id := media, pt_published_at := Some (rc_clock env)\<rparr>
            in case rc_update env t (w\<lparr>rw_target := t\<rparr>) of
                 (Some e, w') \<Rightarrow> (Inl (RcTransition e), w')
               | (None, w') \<Rightarrow> (Inr (True, False), rc_sync env t w'))"

definition rc_token :: "reconcile_env \<Rightarrow> PlatformAccount \<Rightarrow> yt_renewal" where
  "rc_token env a =
     (if pa_platform a = ''youtube'' then RenewYouTubeToken (rc_renew env)
      else case renew_generic (rc_renew env) of Some t \<Rightarrow> YrToken t | None \<Rightarrow> ErrYouTubeTokenRenewal)"

definition reconcile_claimed :: "reconcile_env \<Rightarrow> reconcile_world \<Rightarrow> reconcile_result" where
  "reconcile_claimed env w =
     (let t = rw_target w
      in case rc_account env of
        Inl e \<Rightarrow> (Inl (RcAccount e), w)
      | Inr None \<Rightarrow> markFailedAndReturn env (''platform_account '' @ FormatInt (pt_account t) @ '' not found'') w
      | Inr (Some a) \<Rightarrow>
          if pa_platform a = ''youtube'' \<and> (pa_status a = ''reauth_required'' \<or> pa_reauth_required_at a \<noteq> None)
          then markBlockedAuthAndReturn env youtubeReauthReason w
          else if \<not> rc_async env then (Inr (False, False), w)
          else if \<not> rc_oauth env
          then markFailedAndReturn env (''platform \"'' @ pa_platform a @ ''\" missing OAuth capability'') w
          else case rc_token env a of
            ErrYouTubeInvalidGrant \<Rightarrow>
              markBlockedAuthAndReturn env youtubeReauthReason
                (w\<lparr>rw_flags := rw_flags w @ [grant_reauth_flag (rc_connection env) a]\<rparr>)
          | ErrYouTubeTokenRenewal \<Rightarrow> markFailedAndReturn env ''token refresh failed'' w
          | YrToken token \<Rightarrow>
              record_poll env (pa_platform a) (rc_poll env token (pt_platform_post_id t))
                (w\<lparr>rw_polls := rw_polls w @ [(pt_id t, pt_platform_post_id t)]\<rparr>))"

definition rc_release :: "reconcile_env \<Rightarrow> int \<Rightarrow> reconcile_result \<Rightarrow> reconcile_result" where
  "rc_release env tid res =
     (fst res, (snd res)\<lparr>rw_db := snd (ReleaseReconcileTarget (rc_flt env 3) (rc_now env 3) tid (rc_worker env)
                                      (rw_db (snd res)))\<rparr>)"

definition reconcileTarget :: "reconcile_env \<Rightarrow> reconcile_world \<Rightarrow> reconcile_result" where
  "reconcileTarget env w =
     (let tid = pt_id (rw_target w);
          (r, db) = ClaimPublishingTarget (rc_flt env 0) (rc_now env 0) (rc_locked env) tid (rc_worker env)
                      reconcileLeaseTTL (rw_db w)
      in case r of
           Inl e \<Rightarrow> (Inl (RcClaim e), w\<lparr>rw_db := db\<rparr>)
         | Inr False \<Rightarrow> (Inr (False, False), w\<lparr>rw_db := db\<rparr>)
         | Inr True \<Rightarrow>
             rc_release env tid (reconcile_claimed env
               (w\<lparr>rw_db := post_exec (rc_meanwhile env) (lease_beats tid (rc_worker env) (rc_beats env) db)\<rparr>)))"

section \<open>One pass\<close>

fun reconcile_batch ::
  "(int \<Rightarrow> reconcile_env) \<Rightarrow> PostTarget list \<Rightarrow> nat \<times> nat \<Rightarrow> reconcile_world \<Rightarrow> (nat \<times> nat) \<times> reconcile_world" where
  "reconcile_batch env [] n w = (n, w)"
| "reconcile_batch env (t # ts) (reconciled, failed) w =
     (let (r, w') = reconcileTarget (env (pt_id t)) (w\<lparr>rw_target := t\<rparr>)
      in case r of
           Inl _ \<Rightarrow> reconcile_batch env ts (reconciled, failed + 1) w'
         | Inr (ok, wasFailed) \<Rightarrow>
             reconcile_batch env ts (if ok then reconciled + 1 else reconciled,
                                     if wasFailed then failed + 1 else failed) w')"

definition tickReconcile ::
  "(int \<Rightarrow> reconcile_env) \<Rightarrow> bool \<Rightarrow> time \<Rightarrow> reconcile_world \<Rightarrow> (unit + nat \<times> nat) \<times> reconcile_world" where
  "tickReconcile env list_ok dbnow w =
     (if \<not> list_ok then (Inl (), w)
      else case ListPublishing dbnow reconcilePollingBatchSize (rw_db w) of
        Inl _ \<Rightarrow> (Inl (), w)
      | Inr ts \<Rightarrow> let (n, w') = reconcile_batch env ts (0, 0) w in (Inr n, w'))"

text \<open>The repair of dirty posts stops at the first error with the number repaired so far.\<close>

fun repair_batch :: "(int \<Rightarrow> tx_fault) \<Rightarrow> int list \<Rightarrow> nat \<Rightarrow> post_db \<Rightarrow> (nat \<times> post_err option) \<times> post_db" where
  "repair_batch flt [] n db = ((n, None), db)"
| "repair_batch flt (pid # pids) n db =
     (let (r, db') = RepairDirtyAggregatePost (flt pid) pid db
      in case r of Inl e \<Rightarrow> ((n, Some e), db') | Inr _ \<Rightarrow> repair_batch flt pids (n + 1) db')"

definition repairDirtyAggregates :: "(int \<Rightarrow> tx_fault) \<Rightarrow> bool \<Rightarrow> post_db \<Rightarrow> (nat \<times> post_err option) \<times> post_db" where
  "repairDirtyAggregates flt list_ok db =
     (if \<not> list_ok then ((0, Some ErrDatabase), db)
      else case ListDirtyAggregatePostIDs dirtyAggregateRepairBatchSize db of
        Inl e \<Rightarrow> ((0, Some e), db)
      | Inr pids \<Rightarrow> repair_batch flt pids 0 db)"

end
