(* ===== verification/ReconcileProofs.thy ===== *)
theory ReconcileProofs
  imports Reconcile PostFrame
begin

text \<open>
  What the reconciler may do to a publish in flight: one question per lease, no write without the
  lease, and a bounded number of transient failures.
\<close>

section \<open>Runs\<close>

text \<open>
  \<open>FindByID\<close> does not read the metadata of a post, so no package is ever found to synchronise.
\<close>

lemma never_syncs [simp]: "rc_sync env t w = w"
  by (auto simp: rc_sync_def find_post_def contentPackageIDFromMetadata_def split: option.split)

lemma post_exec_inv: "post_inv db \<Longrightarrow> post_inv (post_exec es db)"
  unfolding post_exec_def by (induction es arbitrary: db) (auto simp: post_step_inv)

lemma heartbeat_inv: "post_inv db \<Longrightarrow> post_inv (snd (HeartbeatReconcileTarget f now t w ttl db))"
  using post_step_inv [of db f now "\<lambda>_. False" "PoReconcileHeartbeat t w ttl"] by simp

lemma beats_inv: "post_inv db \<Longrightarrow> post_inv (lease_beats t w bs db)"
proof (induction bs arbitrary: db)
  case (Cons b bs)
  obtain others f now where b: "b = (others, f, now)" by (cases b)
  let ?h = "HeartbeatReconcileTarget f now t w reconcileLeaseTTL (post_exec others db)"
  have "post_inv (snd ?h)" using heartbeat_inv post_exec_inv Cons.prems by blast
  then show ?case using Cons.IH [of "snd ?h"] by (cases ?h) (auto simp: b split: sum.split)
qed simp

lemma update_inv: "post_inv (rw_db w) \<Longrightarrow> post_inv (rw_db (snd (rc_update env t w)))"
  using post_step_inv [of "rw_db w" "rc_flt env 2" "rc_now env 2" "\<lambda>_. False" "PoReconcileUpdate (Some t) (rc_worker env)"]
  by (simp add: rc_update_def split_def Let_def)

lemma terminal_inv: "post_inv (rw_db w) \<Longrightarrow> post_inv (rw_db (snd (rc_terminal env t w)))"
  using update_inv [of w env t] by (auto simp: rc_terminal_def split: prod.splits option.splits)

lemma schedule_inv: "post_inv (rw_db w) \<Longrightarrow> post_inv (rw_db (snd (rc_schedule env nx inc c m w)))"
  using post_step_inv [of "rw_db w" "rc_flt env 2" "rc_now env 2" "\<lambda>_. False"
      "PoReconcileSchedule (pt_id (rw_target w)) (rc_worker env) (int (pt_reconcile_attempt (rw_target w))) (Some nx) inc c m"]
  by (auto simp: rc_schedule_def split_def Let_def split: sum.split)

lemmas record_defs = record_poll_def markFailedAndReturn_def markDeadLetterAndReturn_def
  markBlockedAuthAndReturn_def scheduleInFlight_def scheduleRetry_def

lemma update_invD: "rc_update env t w = (e, w') \<Longrightarrow> post_inv (rw_db w) \<Longrightarrow> post_inv (rw_db w')"
  by (metis update_inv snd_conv)

lemma record_inv: "post_inv (rw_db w) \<Longrightarrow> post_inv (rw_db (snd (record_poll env p ans w)))"
  by (auto simp: record_defs Let_def terminal_inv schedule_inv split: sum.split option.split prod.split
      dest: update_invD)

lemma claimed_inv: "post_inv (rw_db w) \<Longrightarrow> post_inv (rw_db (snd (reconcile_claimed env w)))"
  by (auto simp: reconcile_claimed_def markFailedAndReturn_def markBlockedAuthAndReturn_def Let_def terminal_inv
      record_inv split: sum.split option.split yt_renewal.split)

text \<open>The question to the provider.\<close>

lemma polls_writes [simp]:
  "rw_polls (snd (rc_terminal env t w)) = rw_polls w" "rw_polls (snd (rc_schedule env nx inc c m w)) = rw_polls w"
  "rw_polls (snd (rc_update env t w)) = rw_polls w"
  by (auto simp: rc_terminal_def rc_update_def rc_schedule_def split_def Let_def split: sum.split option.split)

lemma polls_updateD: "rc_update env t w = (e, w') \<Longrightarrow> rw_polls w' = rw_polls w"
  by (metis polls_writes(3) snd_conv)

lemma polls_record [simp]: "rw_polls (snd (record_poll env p ans w)) = rw_polls w"
  by (auto simp: record_defs Let_def split: sum.split option.split prod.split dest: polls_updateD)

lemma polls_claimed:
  "rw_polls (snd (reconcile_claimed env w)) = rw_polls w \<or>
   rw_polls (snd (reconcile_claimed env w)) = rw_polls w @ [(pt_id (rw_target w), pt_platform_post_id (rw_target w))]"
  by (auto simp: reconcile_claimed_def markFailedAndReturn_def markBlockedAuthAndReturn_def Let_def
      split: sum.split option.split yt_renewal.split)

section \<open>No write without the lease\<close>

definition lease_lost :: "reconcile_env \<Rightarrow> int \<Rightarrow> post_db \<Rightarrow> bool" where
  "lease_lost env t db \<longleftrightarrow>
     (\<forall>r \<in> set (targets db). pt_id r = t \<and> pt_reconcile_owner r = Some (rc_worker env) \<longrightarrow>
        null_or (\<lambda>u. u \<le> rc_now env 2 \<and> u \<le> rc_now env 3) (pt_reconcile_until r))"

lemma no_rows:
  assumes "\<forall>r \<in> set (targets db). \<not> fst st r"
  shows "exec_targets now st db = (0, db)"
proof -
  have "rows_affected (fst st) (targets db) = 0" using assms by (auto simp: rows_affected_0_iff)
  then show ?thesis using exec_none by (metis exec_targets_simps(1) prod.collapse)
qed

lemma run_tx_refused: "(\<And>a d. body db = Inr (a, d) \<Longrightarrow> False) \<Longrightarrow> snd (run_tx flt body db) = db"
  by (auto simp: run_tx_def split: tx_fault.splits sum.splits)

lemma lost_update:
  assumes "lease_lost env (pt_id t) (rw_db w)"
  shows "rw_db (snd (rc_update env t w)) = rw_db w"
proof -
  have "\<forall>r \<in> set (targets (rw_db w)). \<not> fst (qUpdateTargetStatusWithReconcileLease (rc_now env 2) (pt_status t)
      (pt_platform_post_id t) (pt_error_message t) (pt_published_at t) (pt_id t) (pt_provider_state t)
      (pt_container_id t) (pt_last_error_code t) (rc_worker env)) r"
    using assms by (fastforce simp: lease_lost_def qUpdateTargetStatusWithReconcileLease_def some_and_def null_or_def
        split: option.splits)
  from no_rows [OF this] show ?thesis
    by (auto simp: rc_update_def UpdateReconcileStatusWithLease_def rbind_Inr_iff split_def Let_def
        intro!: run_tx_refused split: if_splits)
qed

lemma lost_schedule:
  assumes "lease_lost env (pt_id (rw_target w)) (rw_db w)"
  shows "rw_db (snd (rc_schedule env nx inc c m w)) = rw_db w"
proof -
  let ?st = "qScheduleNextReconcile (rc_now env 2) (pt_id (rw_target w)) nx (pt_reconcile_attempt (rw_target w))
    (rc_worker env) inc c m"
  have "\<forall>r \<in> set (targets (rw_db w)). \<not> fst ?st r"
    using assms by (fastforce simp: lease_lost_def qScheduleNextReconcile_def holds_reconcile_lease_def some_and_def
        null_or_def split: option.splits)
  from no_rows [OF this] show ?thesis
    by (auto simp: rc_schedule_def ScheduleNextReconcileWithLease_def run_exec_def run_tx_def Let_def
        split: tx_fault.splits sum.splits prod.splits)
qed

lemma lost_release:
  assumes "lease_lost env t db"
  shows "snd (ReleaseReconcileTarget f (rc_now env 3) t (rc_worker env) db) = db"
proof -
  have "\<forall>r \<in> set (targets db). \<not> fst (qReleaseReconcileTarget (rc_now env 3) t (rc_worker env)) r"
    using assms by (fastforce simp: lease_lost_def qReleaseReconcileTarget_def holds_reconcile_lease_def some_and_def
        null_or_def split: option.splits)
  from no_rows [OF this] show ?thesis
    by (auto simp: ReleaseReconcileTarget_def run_exec_def run_tx_def Let_def split: tx_fault.splits)
qed

lemma lost_claimed:
  assumes lost: "lease_lost env (pt_id (rw_target w)) (rw_db w)"
  shows "rw_db (snd (reconcile_claimed env w)) = rw_db w"
proof -
  have upd: "rc_update env t w1 = (e, w2) \<Longrightarrow> pt_id t = pt_id (rw_target w) \<Longrightarrow> rw_db w1 = rw_db w \<Longrightarrow> rw_db w2 = rw_db w"
    for t w1 e w2
    using lost_update [of env t w1] lost by simp
  have trm: "rw_db (snd (rc_terminal env t w1)) = rw_db w" if "pt_id t = pt_id (rw_target w)" "rw_db w1 = rw_db w" for t w1
    using that by (auto simp: rc_terminal_def split: prod.splits option.splits dest: upd)
  have sched: "rw_db (snd (rc_schedule env nx inc c m w1)) = rw_db w"
    if "rw_target w1 = rw_target w" "rw_db w1 = rw_db w" for nx inc c m w1
    using lost_schedule [of env w1 nx inc c m] that lost by simp
  have "rw_db (snd (record_poll env p ans w1)) = rw_db w" if "rw_target w1 = rw_target w" "rw_db w1 = rw_db w" for p ans w1
    using that by (auto simp: record_defs Let_def trm sched split: sum.split option.split prod.split dest: upd)
  then show ?thesis
    by (auto simp: reconcile_claimed_def markFailedAndReturn_def markBlockedAuthAndReturn_def Let_def trm
        split: sum.split option.split yt_renewal.split)
qed

text \<open>
  C14: one run of the reconciler. It keeps every post the aggregate of its targets; it asks the
  provider at most once, about the publish id of its target and only after it won the lease; and
  when the lease is gone by the time the answer is to be written (another reconciler took the row
  over, it entered a new publish, or the time ran out), the run leaves the database exactly as it
  finds it, whatever the provider answered.
\<close>

theorem reconcile_respects_lease:
  assumes inv: "post_inv (rw_db w)" and run: "reconcileTarget env w = (res, w')"
    and claim: "ClaimPublishingTarget (rc_flt env 0) (rc_now env 0) (rc_locked env) (pt_id (rw_target w))
      (rc_worker env) reconcileLeaseTTL (rw_db w) = (r, db)"
    and d: "d = post_exec (rc_meanwhile env) (lease_beats (pt_id (rw_target w)) (rc_worker env) (rc_beats env) db)"
  shows "post_inv (rw_db w') \<and>
    (rw_polls w' = rw_polls w \<or>
     r = Inr True \<and> rw_polls w' = rw_polls w @ [(pt_id (rw_target w), pt_platform_post_id (rw_target w))]) \<and>
    (r \<noteq> Inr True \<longrightarrow> rw_db w' = db) \<and>
    (r = Inr True \<and> lease_lost env (pt_id (rw_target w)) d \<longrightarrow> rw_db w' = d)"
proof (cases "r = Inr True")
  case False
  then have "w' = w\<lparr>rw_db := db\<rparr>"
    using run claim by (auto simp: reconcileTarget_def Let_def split: sum.splits bool.splits)
  moreover have "post_inv db"
    using post_step_inv [OF inv, of "rc_flt env 0" "rc_now env 0" "rc_locked env"
        "PoReconcileClaim (pt_id (rw_target w)) (rc_worker env) reconcileLeaseTTL"] claim by simp
  ultimately show ?thesis using False by simp
next
  case True
  let ?t = "pt_id (rw_target w)" and ?w = "w\<lparr>rw_db := d\<rparr>"
  have w': "w' = snd (rc_release env ?t (reconcile_claimed env ?w))"
    using run claim True d by (simp add: reconcileTarget_def Let_def)
  have "post_inv db"
    using post_step_inv [OF inv, of "rc_flt env 0" "rc_now env 0" "rc_locked env"
        "PoReconcileClaim ?t (rc_worker env) reconcileLeaseTTL"] claim by simp
  then have "post_inv d" using d post_exec_inv beats_inv by blast
  then have "post_inv (rw_db (snd (reconcile_claimed env ?w)))" using claimed_inv by simp
  from post_step_inv [OF this, of "rc_flt env 3" "rc_now env 3" "\<lambda>_. False" "PoReconcileRelease ?t (rc_worker env)"]
  have inv': "post_inv (rw_db w')" by (simp add: w' rc_release_def)
  have polls: "rw_polls w' = rw_polls w \<or> rw_polls w' = rw_polls w @ [(?t, pt_platform_post_id (rw_target w))]"
    using polls_claimed [of env ?w] by (simp add: w' rc_release_def)
  have "rw_db w' = d" if "lease_lost env ?t d"
    using lost_claimed [of env ?w] lost_release [OF that] that by (simp add: w' rc_release_def)
  then show ?thesis using inv' polls True by blast
qed

section \<open>The budget of transient failures\<close>

text \<open>The target as \<open>ListPublishing\<close> hands it out.\<close>

definition listed :: "target_row \<Rightarrow> PostTarget" where
  "listed r = (project_target r)\<lparr>pt_reconcile_attempt := pt_reconcile_attempt r,
                pt_next_reconcile_at := pt_next_reconcile_at r\<rparr>"

definition poll_world :: "target_row \<Rightarrow> post_db \<Rightarrow> reconcile_world" where
  "poll_world r db = \<lparr>rw_target = listed r, rw_db = db, rw_flags = [], rw_polls = [], rw_syncs = []\<rparr>"

text \<open>A reconciler that reaches the provider, undisturbed, and what the provider then says.\<close>

definition rc_answer :: "reconcile_env \<Rightarrow> string \<Rightarrow> (go_error + string option) option" where
  "rc_answer env pid =
     (case rc_account env of
        Inr (Some a) \<Rightarrow>
          if pa_platform a = ''youtube'' \<and> (pa_status a = ''reauth_required'' \<or> pa_reauth_required_at a \<noteq> None)
             \<or> \<not> rc_async env \<or> \<not> rc_oauth env then None
          else (case rc_token env a of YrToken token \<Rightarrow> Some (rc_poll env token pid) | _ \<Rightarrow> None)
      | _ \<Rightarrow> None)"

definition undisturbed :: "reconcile_env \<Rightarrow> bool" where
  "undisturbed env \<longleftrightarrow> rc_beats env = [] \<and> rc_meanwhile env = [] \<and> rc_flt env = (\<lambda>_. TxOk) \<and> rc_worker env \<noteq> '''' \<and>
     rc_now env 2 < rc_now env 0 + reconcileLeaseTTL"

text \<open>A transient failure counts; a rate limit and a publish still in flight do not.\<close>

definition transient_answer :: "go_error + string option \<Rightarrow> bool" where
  "transient_answer ans =
     (case ans of Inl err \<Rightarrow> \<not> rate_limited_error '''' err \<and> \<not> isPermanentReconcileError err | Inr _ \<Rightarrow> False)"

definition undecided_answer :: "go_error + string option \<Rightarrow> bool" where
  "undecided_answer ans =
     (case ans of Inl err \<Rightarrow> rate_limited_error '''' err \<or> \<not> isPermanentReconcileError err
      | Inr None \<Rightarrow> True | Inr (Some media) \<Rightarrow> media = '''')"

text \<open>A sequence of polls of one target, by any workers; the number of transient failures.\<close>

fun poll_run :: "int \<Rightarrow> reconcile_env list \<Rightarrow> nat \<times> post_db \<Rightarrow> nat \<times> post_db" where
  "poll_run tid [] s = s"
| "poll_run tid (env # es) (n, db) =
     (case find_row pt_id tid (targets db) of
        None \<Rightarrow> poll_run tid es (n, db)
      | Some r \<Rightarrow>
          let w' = snd (reconcileTarget env (poll_world r db));
              failed = (rw_polls w' \<noteq> [] \<and> some_and transient_answer (rc_answer env (pt_platform_post_id r)))
          in poll_run tid es (if failed then n + 1 else n, rw_db w'))"

lemma limited_platform: "rate_limited_error p err = rate_limited_error '''' err"
  by (simp add: rate_limited_error_def ClassifyErrorFor_def some_and_def split: option.split)

definition rc_columns :: "target_row \<Rightarrow> PostStatus \<times> nat \<times> string" where
  "rc_columns r = (pt_status r, pt_reconcile_attempt r, pt_platform_post_id r)"

definition columns_at :: "int \<Rightarrow> post_db \<Rightarrow> (PostStatus \<times> nat \<times> string) option" where
  "columns_at t db = map_option rc_columns (find_row pt_id t (targets db))"

lemma columns_update:
  assumes "find_row pt_id t (targets db) = Some r" and "\<And>x. pt_id (snd st x) = pt_id x"
  shows "columns_at t (snd (exec_targets now st db)) = Some (rc_columns (if fst st r then triggered now st r else r))"
  using assms by (simp add: columns_at_def find_row_update_where)

lemma claim_publishing:
  assumes inv: "post_inv db" and row: "find_row pt_id t (targets db) = Some r" and w: "w \<noteq> ''''"
  shows "ClaimPublishingTarget TxOk now lk t w reconcileLeaseTTL db = (Inr False, db) \<or>
    pt_status r = PSPublishing \<and>
    (\<exists>db'. ClaimPublishingTarget TxOk now lk t w reconcileLeaseTTL db = (Inr True, db') \<and> post_inv db' \<and>
       find_row pt_id t (targets db') = Some (r\<lparr>pt_reconcile_owner := Some w,
         pt_reconcile_until := Some (now + reconcileLeaseTTL), pt_reconcile_heartbeat := Some now\<rparr>))"
proof -
  let ?st = "qClaimPublishingTargetSelect now lk t w (lease_seconds reconcileLeaseTTL)"
  have secs: "lease_seconds reconcileLeaseTTL * second = reconcileLeaseTTL" "0 < reconcileLeaseTTL"
    by (simp_all add: lease_seconds_def reconcileLeaseTTL_def)
  have id: "pt_id r = t" "r \<in> set (targets db)" using find_row_SomeD [OF row] by auto
  have uniq: "x = r" if "x \<in> set (targets db)" "pt_id x = t" for x
    using that inv row find_row_unique [of pt_id "targets db" x] by (simp add: post_inv_def post_db_wf_def)
  show ?thesis
  proof (cases "fst ?st r")
    case False
    then have "\<forall>x \<in> set (targets db). \<not> fst ?st x"
      using uniq by (auto simp: qClaimPublishingTargetSelect_def)
    from no_rows [OF this] show ?thesis using w secs(2)
      by (simp add: ClaimPublishingTarget_def validateReconcileLease_def run_exec_def run_tx_def)
  next
    case True
    let ?d = "snd (exec_targets now ?st db)"
    have pub: "pt_status r = PSPublishing"
      using True by (simp add: qClaimPublishingTargetSelect_def reconcile_due_def)
    have "rows_affected (fst ?st) (targets db) \<noteq> 0" using True id by (auto simp: rows_affected_0_iff)
    then have c: "ClaimPublishingTarget TxOk now lk t w reconcileLeaseTTL db = (Inr True, ?d)"
      using w secs(2) by (simp add: ClaimPublishingTarget_def validateReconcileLease_def run_exec_def run_tx_def split_def)
    have "post_inv ?d"
      using post_step_inv [OF inv, of TxOk now lk "PoReconcileClaim t w reconcileLeaseTTL"] c by simp
    moreover have "find_row pt_id t (targets ?d) = Some (snd ?st r)"
      using True pub by (simp add: find_row_update_where row qClaimPublishingTargetSelect_def)
    ultimately show ?thesis using c pub secs(1) by (simp add: qClaimPublishingTargetSelect_def)
  qed
qed

lemma release_columns:
  assumes "find_row pt_id t (targets db) = Some r"
  shows "columns_at t (snd (ReleaseReconcileTarget f now t w db)) = Some (rc_columns r)"
proof -
  have "columns_at t (snd (exec_targets now (qReleaseReconcileTarget now t w) db)) = Some (rc_columns r)"
    using columns_update [OF assms, of "qReleaseReconcileTarget now t w" now]
    by (simp add: qReleaseReconcileTarget_def rc_columns_def reset_reconcile_schedule_on_publish_start_def
        holds_reconcile_lease_def)
  then show ?thesis using assms
    by (auto simp: ReleaseReconcileTarget_def run_exec_def run_tx_def split_def columns_at_def split: tx_fault.split)
qed

lemma schedule_columns:
  assumes row: "find_row pt_id (pt_id (rw_target w)) (targets (rw_db w)) = Some r"
    and held: "holds_reconcile_lease (rc_now env 2) (pt_id (rw_target w)) (rc_worker env) r"
    and ok: "rc_flt env = (\<lambda>_. TxOk)" "rc_worker env \<noteq> ''''" "pt_platform_post_id r \<noteq> ''''"
      "pt_reconcile_attempt r = pt_reconcile_attempt (rw_target w)"
  shows "columns_at (pt_id (rw_target w)) (rw_db (snd (rc_schedule env nx inc c m w))) =
    Some (PSPublishing, pt_reconcile_attempt r + (if inc then 1 else 0), pt_platform_post_id r)"
proof -
  let ?st = "qScheduleNextReconcile (rc_now env 2) (pt_id (rw_target w)) nx (pt_reconcile_attempt (rw_target w))
    (rc_worker env) inc c m"
  have "fst ?st r" "pt_status r = PSPublishing"
    using held ok by (simp_all add: qScheduleNextReconcile_def holds_reconcile_lease_def)
  then have "columns_at (pt_id (rw_target w)) (snd (exec_targets (rc_now env 2) ?st (rw_db w))) =
      Some (PSPublishing, pt_reconcile_attempt r + (if inc then 1 else 0), pt_platform_post_id r)"
    using columns_update [OF row, of ?st "rc_now env 2"] by (simp add: qScheduleNextReconcile_def rc_columns_def)
  moreover have "rw_db (snd (rc_schedule env nx inc c m w)) = snd (exec_targets (rc_now env 2) ?st (rw_db w))"
    using ok by (auto simp: rc_schedule_def ScheduleNextReconcileWithLease_def run_exec_def run_tx_def split_def Let_def
        split: sum.split)
  ultimately show ?thesis by simp
qed

lemma terminal_columns:
  assumes inv: "post_inv (rw_db w)" and row: "find_row pt_id (pt_id t) (targets (rw_db w)) = Some r"
    and held: "holds_reconcile_lease (rc_now env 2) (pt_id t) (rc_worker env) r"
    and ok: "rc_flt env = (\<lambda>_. TxOk)" "rc_worker env \<noteq> ''''" "enum_label_ok (pt_status t)" "ps_known (pt_status t)"
  shows "columns_at (pt_id t) (rw_db (snd (rc_terminal env t w))) =
    Some (pt_status t, pt_reconcile_attempt r, pt_platform_post_id t)"
proof -
  let ?st = "qUpdateTargetStatusWithReconcileLease (rc_now env 2) (pt_status t) (pt_platform_post_id t)
    (pt_error_message t) (pt_published_at t) (pt_id t) (pt_provider_state t) (pt_container_id t)
    (pt_last_error_code t) (rc_worker env)"
  let ?d = "snd (exec_targets (rc_now env 2) ?st (rw_db w))"
  have hit: "fst ?st r" "pt_status r = PSPublishing"
    using held by (simp_all add: qUpdateTargetStatusWithReconcileLease_def holds_reconcile_lease_def)
  have "rows_affected (fst ?st) (targets (rw_db w)) \<noteq> 0"
    using hit(1) find_row_SomeD [OF row] by (auto simp: rows_affected_0_iff)
  moreover have "\<forall>x \<in> set (targets ?d). ps_known (pt_status x)"
    using ok(4) known_of_inv [OF inv]
    by (auto simp: set_update_where qUpdateTargetStatusWithReconcileLease_def)
  then obtain d where "persistAggregatePostStatusLockedTx (pt_post_id r) ?d = Inr ((), d)" "targets d = targets ?d"
    using persist_succeeds [of ?d "pt_post_id r"] by blast
  ultimately have "rw_db (snd (rc_terminal env t w)) = d" "targets d = targets ?d"
    using parent_lookup [OF inv row] ok row
    by (simp_all add: rc_terminal_def rc_update_def UpdateReconcileStatusWithLease_def run_tx_def lockTargetTx_def
        split_def Let_def)
  moreover have "columns_at (pt_id t) ?d = Some (pt_status t, pt_reconcile_attempt r, pt_platform_post_id t)"
    using columns_update [OF row, of ?st "rc_now env 2"] hit
    by (simp add: qUpdateTargetStatusWithReconcileLease_def rc_columns_def)
  ultimately show ?thesis by (simp add: columns_at_def)
qed

definition after_answer :: "(go_error + string option) \<Rightarrow> target_row \<Rightarrow> PostStatus \<times> nat \<times> string" where
  "after_answer ans r =
     (if \<not> transient_answer ans then rc_columns r
      else if reconcileMaxAttempts - 1 \<le> pt_reconcile_attempt r
      then (PSDLQ, pt_reconcile_attempt r, pt_platform_post_id r)
      else (pt_status r, pt_reconcile_attempt r + 1, pt_platform_post_id r))"

lemma record_columns:
  assumes inv: "post_inv (rw_db w)"
    and row: "find_row pt_id (pt_id (rw_target w)) (targets (rw_db w)) = Some r"
    and held: "holds_reconcile_lease (rc_now env 2) (pt_id (rw_target w)) (rc_worker env) r"
    and ok: "rc_flt env = (\<lambda>_. TxOk)" "rc_worker env \<noteq> ''''" "pt_platform_post_id r \<noteq> ''''"
    and copy: "pt_reconcile_attempt (rw_target w) = pt_reconcile_attempt r"
      "pt_platform_post_id (rw_target w) = pt_platform_post_id r"
    and ans: "undecided_answer ans"
  shows "columns_at (pt_id (rw_target w)) (rw_db (snd (record_poll env p ans w))) = Some (after_answer ans r)"
proof -
  have pub: "pt_status r = PSPublishing" using held by (simp add: holds_reconcile_lease_def)
  note sched = schedule_columns [OF row held ok copy(1) [symmetric]]
  show ?thesis
  proof (cases ans)
    case (Inl err)
    let ?t = "(rw_target w)\<lparr>pt_status := PSDLQ, pt_provider_state := ''FAILED'',
       pt_error_message := exhausted_text err, pt_last_error_code := ''RECONCILE_RETRY_EXHAUSTED''\<rparr>"
    have "enum_label_ok PSDLQ" by (simp add: enum_label_ok_def post_status_labels_def)
    then have dead: "columns_at (pt_id (rw_target w)) (rw_db (snd (rc_terminal env ?t w))) =
        Some (PSDLQ, pt_reconcile_attempt r, pt_platform_post_id r)"
      using terminal_columns [OF inv, of ?t r env] row held ok copy(2) by simp
    show ?thesis
    proof (cases "rate_limited_error '''' err")
      case True
      then show ?thesis using sched pub Inl
        by (simp add: record_poll_def scheduleRetry_def after_answer_def transient_answer_def rc_columns_def Let_def
            limited_platform [of p] rate_limited_error_def [symmetric])
    next
      case False
      then have "\<not> isPermanentReconcileError err" using ans Inl by (simp add: undecided_answer_def)
      then show ?thesis using sched dead pub Inl False copy(1)
        by (auto simp: record_poll_def scheduleRetry_def markDeadLetterAndReturn_def after_answer_def transient_answer_def
            Let_def limited_platform [of p])
    qed
  next
    case (Inr res)
    then have "res = None \<or> res = Some ''''" using ans by (auto simp: undecided_answer_def split: option.splits)
    then show ?thesis using sched pub Inr
      by (auto simp: record_poll_def scheduleInFlight_def after_answer_def transient_answer_def rc_columns_def Let_def)
  qed
qed

lemma poll_step:
  assumes inv: "post_inv db" and row: "find_row pt_id t (targets db) = Some r" and pid: "pt_platform_post_id r \<noteq> ''''"
    and env: "undisturbed env" "rc_answer env (pt_platform_post_id r) = Some ans" "undecided_answer ans"
    and w': "w' = snd (reconcileTarget env (poll_world r db))"
  shows "post_inv (rw_db w') \<and>
    (rw_polls w' = [] \<and> rw_db w' = db \<or>
     rw_polls w' \<noteq> [] \<and> pt_status r = PSPublishing \<and> columns_at t (rw_db w') = Some (after_answer ans r))"
proof -
  have id: "pt_id r = t" using find_row_SomeD [OF row] by simp
  have l: "pt_id (listed r) = t" "pt_platform_post_id (listed r) = pt_platform_post_id r"
    "pt_reconcile_attempt (listed r) = pt_reconcile_attempt r"
    by (simp_all add: listed_def project_target_def id)
  have ok: "rc_flt env = (\<lambda>_. TxOk)" "rc_worker env \<noteq> ''''" "rc_beats env = []" "rc_meanwhile env = []"
    "rc_now env 2 < rc_now env 0 + reconcileLeaseTTL"
    using env(1) by (simp_all add: undisturbed_def)
  from claim_publishing [OF inv row ok(2), of "rc_now env 0" "rc_locked env"] show ?thesis
  proof (elim disjE conjE exE)
    assume "ClaimPublishingTarget TxOk (rc_now env 0) (rc_locked env) t (rc_worker env) reconcileLeaseTTL db = (Inr False, db)"
    then show ?thesis using inv ok(1) by (simp add: w' reconcileTarget_def poll_world_def l Let_def)
  next
    fix db1
    let ?r = "r\<lparr>pt_reconcile_owner := Some (rc_worker env), pt_reconcile_until := Some (rc_now env 0 + reconcileLeaseTTL),
        pt_reconcile_heartbeat := Some (rc_now env 0)\<rparr>"
    assume pub: "pt_status r = PSPublishing" and inv1: "post_inv db1"
      and c: "ClaimPublishingTarget TxOk (rc_now env 0) (rc_locked env) t (rc_worker env) reconcileLeaseTTL db = (Inr True, db1)"
      and row1: "find_row pt_id t (targets db1) = Some ?r"
    let ?w = "(poll_world r db)\<lparr>rw_db := db1\<rparr>"
    have res: "w' = snd (rc_release env t (reconcile_claimed env ?w))"
      using c ok by (simp add: w' reconcileTarget_def poll_world_def l Let_def post_exec_def)
    let ?w1 = "?w\<lparr>rw_polls := [(t, pt_platform_post_id r)]\<rparr>"
    obtain p where cl: "reconcile_claimed env ?w = record_poll env p ans ?w1"
      using env(2) by (auto simp: rc_answer_def reconcile_claimed_def poll_world_def l Let_def
          split: sum.splits option.splits if_splits yt_renewal.splits)
    have "holds_reconcile_lease (rc_now env 2) t (rc_worker env) ?r"
      using pub ok(5) id by (simp add: holds_reconcile_lease_def)
    then have col: "columns_at t (rw_db (snd (reconcile_claimed env ?w))) = Some (after_answer ans ?r)"
      using record_columns [of ?w1 ?r env ans p] inv1 row1 ok pid env(3) l cl by (simp add: poll_world_def)
    then obtain r2 where r2: "find_row pt_id t (targets (rw_db (snd (reconcile_claimed env ?w)))) = Some r2"
        "rc_columns r2 = after_answer ans ?r"
      by (auto simp: columns_at_def)
    have "after_answer ans ?r = after_answer ans r" by (simp add: after_answer_def rc_columns_def)
    then have "columns_at t (rw_db w') = Some (after_answer ans r)"
      using release_columns [OF r2(1)] r2(2) by (simp add: res rc_release_def)
    moreover have "rw_polls (snd (reconcile_claimed env ?w)) = [(t, pt_platform_post_id r)]"
      unfolding cl by simp
    then have "rw_polls w' \<noteq> []" by (simp add: res rc_release_def)
    moreover have "post_inv (rw_db (snd (reconcile_claimed env ?w)))" using claimed_inv inv1 by simp
    then have "post_inv (rw_db w')"
      using post_step_inv [of _ TxOk "rc_now env 3" "\<lambda>_. False" "PoReconcileRelease t (rc_worker env)"] ok(1)
      by (simp add: res rc_release_def)
    ultimately show ?thesis using pub by blast
  qed
qed

text \<open>
  C13: the retry budget of an asynchronous publish. Any number of polls, by any workers, due or
  not, of a publish whose outcome the provider does not decide: rate limits and polls in flight
  are never counted, after up to four transient failures the target is still publishing with
  exactly that many attempts on its row, the fifth moves it to the dead-letter queue, and nothing
  is asked or counted after that.
\<close>

theorem reconcile_budget:
  assumes "post_inv db" and "find_row pt_id t (targets db) = Some r" and "pt_status r = PSPublishing"
    and "pt_reconcile_attempt r = 0" and pid: "pt_platform_post_id r \<noteq> ''''"
    and envs: "\<forall>env \<in> set es. undisturbed env \<and> some_and undecided_answer (rc_answer env (pt_platform_post_id r))"
    and run: "poll_run t es (0, db) = (n, db')"
  shows "\<exists>r'. find_row pt_id t (targets db') = Some r' \<and> pt_platform_post_id r' = pt_platform_post_id r \<and>
    (n < reconcileMaxAttempts \<and> pt_status r' = PSPublishing \<and> pt_reconcile_attempt r' = n \<or>
     n = reconcileMaxAttempts \<and> pt_status r' = PSDLQ)"
proof -
  define p where "p = pt_platform_post_id r"
  define ok where "ok n d \<longleftrightarrow> post_inv d \<and> (n < reconcileMaxAttempts \<and> columns_at t d = Some (PSPublishing, n, p) \<or>
      n = reconcileMaxAttempts \<and> columns_at t d = Some (PSDLQ, n - 1, p))" for n d
  have p: "p \<noteq> ''''" using pid by (simp add: p_def)
  have "ok n' d'" if "poll_run t es (k, d) = (n', d')" "ok k d"
      "\<forall>env \<in> set es. undisturbed env \<and> some_and undecided_answer (rc_answer env p)" for es k d n' d'
    using that
  proof (induction es arbitrary: k d)
    case (Cons env es)
    obtain x where x: "find_row pt_id t (targets d) = Some x" "pt_platform_post_id x = p"
      using Cons.prems(2) by (auto simp: ok_def columns_at_def rc_columns_def)
    obtain ans where ans: "rc_answer env p = Some ans" "undecided_answer ans"
      using Cons.prems(3) by (auto simp: some_and_def split: option.splits)
    define w' where "w' = snd (reconcileTarget env (poll_world x d))"
    define k' where "k' = (if rw_polls w' \<noteq> [] \<and> transient_answer ans then k + 1 else k)"
    have step: "post_inv (rw_db w') \<and> (rw_polls w' = [] \<and> rw_db w' = d \<or>
        rw_polls w' \<noteq> [] \<and> pt_status x = PSPublishing \<and> columns_at t (rw_db w') = Some (after_answer ans x))"
      using poll_step [of d t x env ans w'] Cons.prems(2,3) x p ans by (simp add: ok_def w'_def)
    have "ok k' (rw_db w')"
      using step
    proof (elim conjE disjE)
      assume asked: "rw_polls w' \<noteq> []" "pt_status x = PSPublishing" and inv: "post_inv (rw_db w')"
        and col: "columns_at t (rw_db w') = Some (after_answer ans x)"
      have "pt_reconcile_attempt x = k" "k < reconcileMaxAttempts"
        using Cons.prems(2) x asked(2) by (auto simp: ok_def columns_at_def rc_columns_def)
      then show ?thesis using asked inv col x(2)
        by (cases "transient_answer ans"; cases "reconcileMaxAttempts - 1 \<le> k")
           (simp_all add: ok_def k'_def after_answer_def rc_columns_def reconcileMaxAttempts_def)
    qed (use Cons.prems(2) in \<open>simp add: k'_def\<close>)
    moreover have "poll_run t es (k', rw_db w') = (n', d')"
      using Cons.prems(1) x ans by (simp add: w'_def [symmetric] k'_def Let_def)
    ultimately show ?case using Cons.IH Cons.prems(3) by simp
  qed simp
  moreover have "ok 0 db"
    using assms(1-4) by (simp add: ok_def columns_at_def rc_columns_def p_def reconcileMaxAttempts_def)
  ultimately have "ok n db'" using run envs by (simp add: p_def)
  then show ?thesis by (auto simp: ok_def columns_at_def rc_columns_def p_def)
qed

section \<open>Concrete runs\<close>

text \<open>A TikTok publish in flight, and a provider that is unavailable.\<close>

definition poll_db :: post_db where
  "poll_db =
     \<lparr>posts = [blank_post\<lparr>p_id := 1, p_workspace_id := 1, p_status := PSPublishing\<rparr>],
      targets = [(sample_target 10 1 PSPublishing)\<lparr>pt_platform_post_id := ''pub1'', pt_next_reconcile_at := Some 0\<rparr>], repair_queue = []\<rparr>"

definition poll_env :: "post_event list \<Rightarrow> time \<Rightarrow> time \<Rightarrow> (go_error + string option) \<Rightarrow> reconcile_env" where
  "poll_env others now lat ans =
     \<lparr>rc_worker = ''r1'', rc_locked = (\<lambda>_. False), rc_flt = (\<lambda>_. TxOk), rc_now = (\<lambda>n. if n = 0 then now else lat), rc_clock = now,
      rc_beats = [], rc_meanwhile = others,
      rc_account = Inr (Some \<lparr>pa_id = 7, pa_platform = ''tiktok'', pa_user_id = ''u7'', pa_status = ''active'',
        pa_reauth_required_at = None\<rparr>),
      rc_connection = None, rc_async = True, rc_oauth = True, rc_renew = (\<lambda>_. RnToken ''token''),
      rc_poll = (\<lambda>_ _. ans), rc_sync_wired = True, rc_package = (\<lambda>_. None)\<rparr>"

definition unavailable :: go_error where
  "unavailable = \<lparr>err_chain = [LTransient], err_text = ''503''\<rparr>"

lemma poll_db_inv: "post_inv poll_db"
proof -
  have "aggregated pid poll_db" for pid
    by (cases "pid = 1") (simp_all add: aggregated_def poll_db_def sample_target_def children_def
        Resolve_def agg_init_def agg_decide_def)
  moreover have "post_db_wf poll_db"
    by (simp add: post_db_wf_def poll_db_def sample_target_def)
  ultimately show ?thesis by (simp add: post_inv_def)
qed

text \<open>Eight polls, 200 seconds apart: six times the provider is unavailable.\<close>

definition outage :: "reconcile_env list" where
  "outage =
     map (\<lambda>(k, ans). poll_env [] (k * 200 * second) (k * 200 * second) ans)
       [(0, Inl unavailable), (1, Inr None), (2, Inl unavailable), (3, Inl unavailable), (4, Inl unavailable),
        (5, Inr None), (6, Inl unavailable), (7, Inl unavailable)]"

theorem reconcile_budget_witness:
  "\<exists>r'. find_row pt_id 10 (targets (snd (poll_run 10 outage (0, poll_db)))) = Some r' \<and> pt_status r' = PSDLQ"
proof -
  let ?r = "hd (targets poll_db)"
  have n: "fst (poll_run 10 outage (0, poll_db)) = 5" by code_simp
  have "\<forall>env \<in> set outage. some_and undecided_answer (rc_answer env (pt_platform_post_id ?r))" by code_simp
  moreover have "\<forall>env \<in> set outage. undisturbed env"
    by (simp add: outage_def poll_env_def undisturbed_def reconcileLeaseTTL_def)
  ultimately have envs: "\<forall>env \<in> set outage. undisturbed env \<and>
      some_and undecided_answer (rc_answer env (pt_platform_post_id ?r))"
    by blast
  have row: "find_row pt_id 10 (targets poll_db) = Some ?r" by code_simp
  have cols: "pt_status ?r = PSPublishing" "pt_reconcile_attempt ?r = 0" "pt_platform_post_id ?r \<noteq> ''''"
    by code_simp+
  have run: "poll_run 10 outage (0, poll_db) = (5, snd (poll_run 10 outage (0, poll_db)))"
    using n by (metis prod.collapse)
  show ?thesis
    using reconcile_budget [OF poll_db_inv row cols envs run] by (auto simp: reconcileMaxAttempts_def)
qed

text \<open>Another reconciler takes the row over while the first waits for the provider.\<close>

definition takeover :: reconcile_env where
  "takeover = poll_env [(TxOk, 70 * second, \<lambda>_. False, PoReconcileClaim 10 ''r2'' reconcileLeaseTTL)]
     5 (71 * second) (Inl unavailable)"

theorem reconcile_respects_lease_witness:
  "\<exists>w'. reconcileTarget takeover (poll_world (hd (targets poll_db)) poll_db) = (Inl (RcSchedule ErrReconcileLeaseLost), w') \<and>
     map pt_reconcile_owner (targets (rw_db w')) = [Some ''r2''] \<and> post_inv (rw_db w')"
proof -
  let ?w = "poll_world (hd (targets poll_db)) poll_db"
  let ?claim = "ClaimPublishingTarget TxOk 5 (\<lambda>_. False) 10 ''r1'' reconcileLeaseTTL poll_db"
  let ?d = "post_exec (rc_meanwhile takeover) (snd ?claim)"
  have c: "fst ?claim = Inr True" by code_simp
  have lost: "lease_lost takeover 10 ?d" by code_simp
  have out: "map pt_reconcile_owner (targets ?d) = [Some ''r2'']"
    "fst (reconcileTarget takeover ?w) = Inl (RcSchedule ErrReconcileLeaseLost)" by code_simp+
  obtain w' where run: "reconcileTarget takeover ?w = (Inl (RcSchedule ErrReconcileLeaseLost), w')"
    using out(2) by (metis prod.collapse)
  have t: "pt_id (rw_target ?w) = 10" "rw_db ?w = poll_db" by code_simp+
  have env: "rc_flt takeover = (\<lambda>_. TxOk)" "rc_now takeover 0 = 5" "rc_locked takeover = (\<lambda>_. False)"
    "rc_worker takeover = ''r1''" "rc_beats takeover = []"
    by (simp_all add: takeover_def poll_env_def)
  have "ClaimPublishingTarget (rc_flt takeover 0) (rc_now takeover 0) (rc_locked takeover) (pt_id (rw_target ?w))
      (rc_worker takeover) reconcileLeaseTTL (rw_db ?w) = (Inr True, snd ?claim)"
    using c by (simp only: t env) (metis prod.collapse)
  note R = reconcile_respects_lease [OF _ run this refl]
  have "post_inv (rw_db w')" by (rule R [THEN conjunct1]) (simp add: t poll_db_inv)
  moreover have "rw_db w' = ?d" using R lost by (simp add: t env poll_db_inv)
  ultimately show ?thesis using out(1) run by simp
qed


end
