(* ===== verification/Tenancy.thy ===== *)
theory Tenancy
  imports GoStrings PublishWorker
begin

text \<open>
  Workspaces and what belongs to them: channels (\<open>internal/repository/workspace_repo.go\<close>), the
  tree of groups with its memberships (\<open>group_repo*.go\<close>, \<open>internal/models/group.go\<close>) and the
  external destinations (\<open>external_destination_repo.go\<close>), with the request that sets the
  accounts of a group (\<open>pkg/api/groups_accounts.go\<close>). Rows that other tables refer to cannot be
  deleted: \<open>blocked\<close> says that such a row exists.
\<close>

section \<open>Tables\<close>

record Workspace =
  w_id :: int
  w_name :: string
  w_owner :: int

record WorkspaceChannel =
  wc_workspace :: int
  wc_account :: int
  wc_group :: "string option"
  wc_enabled :: bool
  wc_created_at :: time

record Group =
  g_id :: int
  g_workspace :: int
  g_parent :: "int option"
  g_name :: string

record account_row = PlatformAccount +
  ac_owner :: int
  ac_username :: string
  ac_language :: "string option"

record ExternalDestination =
  xd_id :: string
  xd_source :: string
  xd_workspace :: int
  xd_account :: int
  xd_enabled :: bool
  xd_metadata :: string
  xd_created_at :: time

text \<open>The sequences hand out ids above every id given before.\<close>

record tenancy =
  tn_users :: "int list"
  tn_workspaces :: "Workspace list"
  tn_wmembers :: "(int \<times> int) list"
  tn_channels :: "WorkspaceChannel list"
  tn_groups :: "Group list"
  tn_members :: "(int \<times> int) list"
  tn_accounts :: "account_row list"
  tn_destinations :: "ExternalDestination list"
  tn_workspace_seq :: int
  tn_group_seq :: int

datatype tenancy_err =
    TeInvalid | ErrWorkspaceNotFound | ErrGroupNotFound | ErrGroupDuplicate | ErrGroupWorkspaceMismatch
  | ErrGroupCycle | ErrGroupAccountOwnership | ErrExternalDestinationAlreadyExists
  | ErrExternalDestinationNotFound | ErrExternalDestinationHasDependents | TeDatabase

type_synonym 'a tenancy_stmt = "tenancy \<Rightarrow> tenancy_err + ('a \<times> tenancy)"

text \<open>A statement or a transaction; the sentinel errors of the server come back as such.\<close>

definition tn_run :: "db_fault \<Rightarrow> 'a tenancy_stmt \<Rightarrow> tenancy \<Rightarrow> (tenancy_err + 'a) \<times> tenancy" where
  "tn_run flt st s =
     (case flt of
        DbFailed \<Rightarrow> (Inl TeDatabase, s)
      | DbOk \<Rightarrow> (case st s of Inl e \<Rightarrow> (Inl e, s) | Inr (a, s') \<Rightarrow> (Inr a, s'))
      | DbLost \<Rightarrow> (case st s of Inl e \<Rightarrow> (Inl e, s) | Inr (a, s') \<Rightarrow> (Inl TeDatabase, s')))"

section \<open>Workspaces and channels\<close>

definition ws_Create ::
  "db_fault \<Rightarrow> string \<Rightarrow> int \<Rightarrow> tenancy \<Rightarrow> (tenancy_err + int) \<times> tenancy" where
  "ws_Create flt name owner =
     tn_run flt (\<lambda>s.
       if owner \<notin> set (tn_users s) then Inl TeDatabase
       else let i = tn_workspace_seq s + 1
            in Inr (i, s\<lparr>tn_workspaces := tn_workspaces s @ [\<lparr>w_id = i, w_name = name, w_owner = owner\<rparr>],
                         tn_workspace_seq := i\<rparr>))"

definition ws_FindByID :: "int \<Rightarrow> tenancy \<Rightarrow> Workspace option" where
  "ws_FindByID i s = find_row w_id i (tn_workspaces s)"

text \<open>Deleting a workspace removes, by the foreign keys, all that belongs to it.\<close>

definition ws_Delete :: "db_fault \<Rightarrow> bool \<Rightarrow> int \<Rightarrow> tenancy \<Rightarrow> (tenancy_err + unit) \<times> tenancy" where
  "ws_Delete flt blocked i =
     tn_run flt (\<lambda>s.
       if blocked then Inl TeDatabase
       else if find_row w_id i (tn_workspaces s) = None then Inl ErrWorkspaceNotFound
       else let gs = filter (\<lambda>g. g_workspace g \<noteq> i) (tn_groups s)
            in Inr ((), s\<lparr>tn_workspaces := filter (\<lambda>w. w_id w \<noteq> i) (tn_workspaces s),
                 tn_wmembers := filter (\<lambda>m. fst m \<noteq> i) (tn_wmembers s),
                 tn_channels := filter (\<lambda>c. wc_workspace c \<noteq> i) (tn_channels s),
                 tn_groups := gs, tn_members := filter (\<lambda>m. fst m \<in> g_id ` set gs) (tn_members s),
                 tn_destinations := filter (\<lambda>d. xd_workspace d \<noteq> i) (tn_destinations s)\<rparr>))"

definition channel_key :: "WorkspaceChannel \<Rightarrow> int \<times> int" where
  "channel_key c = (wc_workspace c, wc_account c)"

definition account_known :: "int \<Rightarrow> tenancy \<Rightarrow> bool" where
  "account_known a s \<longleftrightarrow> find_row pa_id a (tn_accounts s) \<noteq> None"

text \<open>\<open>INSERT ... ON CONFLICT (workspace_id, platform_account_id) DO UPDATE SET group_name\<close>.\<close>

definition upsert_channel ::
  "time \<Rightarrow> int \<Rightarrow> int \<Rightarrow> string option \<Rightarrow> WorkspaceChannel list \<Rightarrow> WorkspaceChannel list" where
  "upsert_channel now w a grp cs =
     (if find_row channel_key (w, a) cs = None
      then cs @ [\<lparr>wc_workspace = w, wc_account = a, wc_group = grp, wc_enabled = True, wc_created_at = now\<rparr>]
      else update_where (\<lambda>c. channel_key c = (w, a)) (\<lambda>c. c\<lparr>wc_group := grp\<rparr>) cs)"

definition AttachChannel ::
  "db_fault \<Rightarrow> time \<Rightarrow> int \<Rightarrow> int \<Rightarrow> string \<Rightarrow> tenancy \<Rightarrow> (tenancy_err + unit) \<times> tenancy" where
  "AttachChannel flt now w a grp s =
     (if w \<le> 0 \<or> a \<le> 0 then (Inl TeInvalid, s)
      else tn_run flt (\<lambda>s.
        if ws_FindByID w s = None \<or> \<not> account_known a s then Inl TeDatabase
        else Inr ((), s\<lparr>tn_channels := upsert_channel now w a (nullif_empty grp) (tn_channels s)\<rparr>)) s)"

definition ListChannels :: "int \<Rightarrow> tenancy \<Rightarrow> tenancy_err + WorkspaceChannel list" where
  "ListChannels w s =
     (if w \<le> 0 then Inl TeInvalid
      else Inr (sort_key (\<lambda>c. - wc_created_at c) (filter (\<lambda>c. wc_workspace c = w) (tn_channels s))))"

definition FindChannel :: "int \<Rightarrow> int \<Rightarrow> tenancy \<Rightarrow> tenancy_err + WorkspaceChannel option" where
  "FindChannel w a s =
     (if w \<le> 0 \<or> a \<le> 0 then Inl TeInvalid else Inr (find_row channel_key (w, a) (tn_channels s)))"

text \<open>\<open>None\<close> is a nil pointer, which leaves the column alone; so does NULL under \<open>COALESCE\<close>.\<close>

definition UpdateChannel ::
  "db_fault \<Rightarrow> int \<Rightarrow> int \<Rightarrow> string option \<Rightarrow> bool option \<Rightarrow> tenancy \<Rightarrow> (tenancy_err + unit) \<times> tenancy" where
  "UpdateChannel flt w a grp enabled s =
     (let arg = (case grp of None \<Rightarrow> None | Some g \<Rightarrow> if g = '''' then None else Some g)
      in if w \<le> 0 \<or> a \<le> 0 then (Inl TeInvalid, s)
         else tn_run flt (\<lambda>s.
           if find_row channel_key (w, a) (tn_channels s) = None then Inl ErrWorkspaceNotFound
           else Inr ((), s\<lparr>tn_channels := update_where (\<lambda>c. channel_key c = (w, a))
             (\<lambda>c. c\<lparr>wc_group := coalesce arg (wc_group c),
                    wc_enabled := (case enabled of None \<Rightarrow> wc_enabled c | Some b \<Rightarrow> b)\<rparr>) (tn_channels s)\<rparr>)) s)"

definition DetachChannel ::
  "db_fault \<Rightarrow> bool \<Rightarrow> int \<Rightarrow> int \<Rightarrow> tenancy \<Rightarrow> (tenancy_err + unit) \<times> tenancy" where
  "DetachChannel flt blocked w a s =
     (if w \<le> 0 \<or> a \<le> 0 then (Inl TeInvalid, s)
      else tn_run flt (\<lambda>s.
        if blocked then Inl TeDatabase
        else if find_row channel_key (w, a) (tn_channels s) = None then Inl ErrWorkspaceNotFound
        else Inr ((), s\<lparr>tn_channels := filter (\<lambda>c. channel_key c \<noteq> (w, a)) (tn_channels s)\<rparr>)) s)"

section \<open>Groups\<close>

text \<open>
  The checks of \<open>Create\<close> and \<open>Update\<close> are queries of their own, before the statement that
  writes: \<open>reads n\<close> is the database that query \<open>n\<close> saw.
\<close>

definition group_FindByID :: "int \<Rightarrow> tenancy \<Rightarrow> Group option" where
  "group_FindByID i s = find_row g_id i (tn_groups s)"

definition parentInWorkspace :: "int \<Rightarrow> int \<Rightarrow> tenancy \<Rightarrow> tenancy_err option" where
  "parentInWorkspace p w s =
     (case group_FindByID p s of
        None \<Rightarrow> Some ErrGroupNotFound
      | Some g \<Rightarrow> if g_workspace g \<noteq> w then Some ErrGroupWorkspaceMismatch else None)"

text \<open>
  The recursive query of \<open>wouldCreateCycle\<close>: the working table starts with the new parent; a round
  joins it with the parents of its rows, except the group itself. \<open>UNION ALL\<close> keeps duplicates and
  the query ends when a round adds nothing, so on a cycle it does not end.
\<close>

definition next_ancestors :: "int \<Rightarrow> Group list \<Rightarrow> Group list \<Rightarrow> Group list" where
  "next_ancestors self gs wt =
     concat (map (\<lambda>g. map (\<lambda>_. g) (filter (\<lambda>a. g_parent a = Some (g_id g)) wt))
                 (filter (\<lambda>g. g_id g \<noteq> self) gs))"

partial_function (option) ancestors :: "int \<Rightarrow> Group list \<Rightarrow> Group list \<Rightarrow> Group list option" where
  "ancestors self gs wt =
     (if wt = [] then Some []
      else Option.bind (ancestors self gs (next_ancestors self gs wt)) (\<lambda>rest. Some (wt @ rest)))"

declare ancestors.simps [code]

text \<open>\<open>None\<close>: the query does not return.\<close>

definition wouldCreateCycle :: "int \<Rightarrow> int \<Rightarrow> Group list \<Rightarrow> bool option" where
  "wouldCreateCycle self parent gs =
     (if self = parent then Some True
      else map_option (\<lambda>as. \<exists>a \<in> set as. g_id a = self)
             (ancestors self gs (filter (\<lambda>g. g_id g = parent) gs)))"

text \<open>The unique index over the names of the root groups of a workspace.\<close>

definition root_name_taken :: "Group \<Rightarrow> Group list \<Rightarrow> bool" where
  "root_name_taken g gs \<longleftrightarrow>
     g_parent g = None \<and>
     (\<exists>h \<in> set gs. g_id h \<noteq> g_id g \<and> g_parent h = None \<and> g_workspace h = g_workspace g \<and> g_name h = g_name g)"

definition parent_known :: "Group \<Rightarrow> tenancy \<Rightarrow> bool" where
  "parent_known g s \<longleftrightarrow> null_or (\<lambda>p. group_FindByID p s \<noteq> None) (g_parent g)"

definition group_Create ::
  "db_fault \<Rightarrow> (nat \<Rightarrow> tenancy) \<Rightarrow> Group \<Rightarrow> tenancy \<Rightarrow> (tenancy_err + Group) \<times> tenancy" where
  "group_Create flt reads g s =
     (case (case g_parent g of None \<Rightarrow> None | Some p \<Rightarrow> parentInWorkspace p (g_workspace g) (reads 0)) of
        Some e \<Rightarrow> (Inl e, s)
      | None \<Rightarrow>
          tn_run flt (\<lambda>s.
            let row = g\<lparr>g_id := tn_group_seq s + 1\<rparr>
            in if ws_FindByID (g_workspace g) s = None \<or> \<not> parent_known g s then Inl TeDatabase
               else if root_name_taken row (tn_groups s) then Inl ErrGroupDuplicate
               else Inr (row, s\<lparr>tn_groups := tn_groups s @ [row], tn_group_seq := g_id row\<rparr>)) s)"

definition qUpdateGroup :: "Group \<Rightarrow> tenancy \<Rightarrow> tenancy_err + (unit \<times> tenancy)" where
  "qUpdateGroup g s =
     (let p = (\<lambda>h. g_id h = g_id g \<and> g_workspace h = g_workspace g)
      in if \<not> (\<exists>h \<in> set (tn_groups s). p h) then Inl ErrGroupNotFound
         else if \<not> parent_known g s \<or> root_name_taken g (tn_groups s) then Inl TeDatabase
         else Inr ((), s\<lparr>tn_groups := update_where p
                (\<lambda>h. h\<lparr>g_name := g_name g, g_parent := g_parent g\<rparr>) (tn_groups s)\<rparr>))"

text \<open>The result is \<open>None\<close> when a query does not return.\<close>

definition group_Update ::
  "db_fault \<Rightarrow> (nat \<Rightarrow> tenancy) \<Rightarrow> Group \<Rightarrow> tenancy \<Rightarrow> ((tenancy_err + unit) \<times> tenancy) option" where
  "group_Update flt reads g s =
     (case group_FindByID (g_id g) (reads 0) of
        None \<Rightarrow> Some (Inl ErrGroupNotFound, s)
      | Some old \<Rightarrow>
          if g_workspace old \<noteq> g_workspace g then Some (Inl ErrGroupNotFound, s)
          else
            (case g_parent g of
               None \<Rightarrow> Some (tn_run flt (qUpdateGroup g) s)
             | Some p \<Rightarrow>
                 (case parentInWorkspace p (g_workspace g) (reads 1) of
                    Some e \<Rightarrow> Some (Inl e, s)
                  | None \<Rightarrow>
                      (case wouldCreateCycle (g_id g) p (tn_groups (reads 2)) of
                         None \<Rightarrow> None
                       | Some True \<Rightarrow> Some (Inl ErrGroupCycle, s)
                       | Some False \<Rightarrow> Some (tn_run flt (qUpdateGroup g) s)))))"

text \<open>\<open>ON DELETE CASCADE\<close> over \<open>parent_group_id\<close>.\<close>

definition doomed :: "int list \<Rightarrow> Group \<Rightarrow> bool" where
  "doomed ids g \<longleftrightarrow> g_id g \<in> set ids \<or> some_and (\<lambda>p. p \<in> set ids) (g_parent g)"

function cascade_groups :: "int list \<Rightarrow> Group list \<Rightarrow> Group list" where
  "cascade_groups ids gs =
     (if filter (doomed ids) gs = [] then gs
      else cascade_groups (map g_id (filter (doomed ids) gs)) (filter (\<lambda>g. \<not> doomed ids g) gs))"
  by auto

termination
  by (relation "measure (\<lambda>(ids, gs). length gs)")
    (auto simp: filter_empty_conv intro: length_filter_less)

declare cascade_groups.simps [simp del]

definition group_Delete :: "db_fault \<Rightarrow> int \<Rightarrow> tenancy \<Rightarrow> (tenancy_err + unit) \<times> tenancy" where
  "group_Delete flt i =
     tn_run flt (\<lambda>s.
       if group_FindByID i s = None then Inl ErrGroupNotFound
       else let gs = cascade_groups [i] (tn_groups s)
            in Inr ((), s\<lparr>tn_groups := gs, tn_members := filter (\<lambda>m. fst m \<in> g_id ` set gs) (tn_members s)\<rparr>))"

definition ListByWorkspace :: "int \<Rightarrow> tenancy \<Rightarrow> Group list" where
  "ListByWorkspace w s = sort_key g_name (filter (\<lambda>g. g_workspace g = w) (tn_groups s))"

section \<open>Memberships\<close>

definition ListAccountsInGroup :: "int \<Rightarrow> tenancy \<Rightarrow> int list" where
  "ListAccountsInGroup g s = sort (map snd (filter (\<lambda>m. fst m = g) (tn_members s)))"

text \<open>\<open>ON CONFLICT DO NOTHING\<close>; \<open>None\<close> is a violated foreign key.\<close>

definition insert_member :: "int \<Rightarrow> int \<Rightarrow> tenancy \<Rightarrow> tenancy option" where
  "insert_member g a s =
     (if group_FindByID g s = None \<or> \<not> account_known a s then None
      else if (g, a) \<in> set (tn_members s) then Some s
      else Some (s\<lparr>tn_members := tn_members s @ [(g, a)]\<rparr>))"

definition AddAccount :: "db_fault \<Rightarrow> int \<Rightarrow> int \<Rightarrow> tenancy \<Rightarrow> (tenancy_err + unit) \<times> tenancy" where
  "AddAccount flt g a =
     tn_run flt (\<lambda>s. case insert_member g a s of None \<Rightarrow> Inl TeDatabase | Some s' \<Rightarrow> Inr ((), s'))"

definition RemoveAccount :: "db_fault \<Rightarrow> int \<Rightarrow> int \<Rightarrow> tenancy \<Rightarrow> (tenancy_err + unit) \<times> tenancy" where
  "RemoveAccount flt g a =
     tn_run flt (\<lambda>s. Inr ((), s\<lparr>tn_members := filter (\<lambda>m. m \<noteq> (g, a)) (tn_members s)\<rparr>))"

fun insert_members :: "int \<Rightarrow> int list \<Rightarrow> tenancy \<Rightarrow> tenancy option" where
  "insert_members g [] s = Some s"
| "insert_members g (a # as) s =
     (if a \<le> 0 then insert_members g as s
      else case insert_member g a s of None \<Rightarrow> None | Some s' \<Rightarrow> insert_members g as s')"

definition SetAccounts :: "db_fault \<Rightarrow> int \<Rightarrow> int list \<Rightarrow> tenancy \<Rightarrow> (tenancy_err + unit) \<times> tenancy" where
  "SetAccounts flt g ids =
     tn_run flt (\<lambda>s.
       case insert_members g ids (s\<lparr>tn_members := filter (\<lambda>m. fst m \<noteq> g) (tn_members s)\<rparr>) of
         None \<Rightarrow> Inl TeDatabase
       | Some s' \<Rightarrow> Inr ((), s'))"

text \<open>
  The group shown for a channel: among the groups of the workspace that have the account, the
  preferred one, else the first by name and id.
\<close>

definition groups_of :: "int \<Rightarrow> int \<Rightarrow> tenancy \<Rightarrow> Group list" where
  "groups_of w a s = filter (\<lambda>g. g_workspace g = w \<and> (g_id g, a) \<in> set (tn_members s)) (tn_groups s)"

definition channel_group :: "int \<Rightarrow> int \<Rightarrow> int \<Rightarrow> tenancy \<Rightarrow> string option" where
  "channel_group w pref a s =
     map_option g_name
       (first_by (\<lambda>g. (if g_id g = pref then 0 else 1 :: int, g_name g, g_id g)) (groups_of w a s))"

definition resyncWorkspaceChannels :: "int \<Rightarrow> int \<Rightarrow> int list \<Rightarrow> tenancy \<Rightarrow> tenancy" where
  "resyncWorkspaceChannels w pref ids s =
     (if ids = [] then s
      else s\<lparr>tn_channels := update_where (\<lambda>c. wc_workspace c = w \<and> wc_account c \<in> set ids)
             (\<lambda>c. c\<lparr>wc_group := channel_group w pref (wc_account c) s\<rparr>) (tn_channels s)\<rparr>)"

definition lockGroupForUpdate :: "int \<Rightarrow> int \<Rightarrow> tenancy \<Rightarrow> tenancy_err + string" where
  "lockGroupForUpdate g w s =
     (case group_FindByID g s of
        Some r \<Rightarrow> if g_workspace r = w then Inr (g_name r) else Inl ErrGroupNotFound
      | None \<Rightarrow> Inl ErrGroupNotFound)"

definition RemoveAccountFromGroupTx ::
  "db_fault \<Rightarrow> int \<Rightarrow> int \<Rightarrow> int \<Rightarrow> tenancy \<Rightarrow> (tenancy_err + unit) \<times> tenancy" where
  "RemoveAccountFromGroupTx flt g w a s =
     (if g \<le> 0 \<or> w \<le> 0 \<or> a \<le> 0 then (Inl TeInvalid, s)
      else tn_run flt (\<lambda>s.
        case lockGroupForUpdate g w s of
          Inl e \<Rightarrow> Inl e
        | Inr _ \<Rightarrow> Inr ((), resyncWorkspaceChannels w g [a]
            (s\<lparr>tn_members := filter (\<lambda>m. m \<noteq> (g, a)) (tn_members s)\<rparr>))) s)"

text \<open>
  The settings of a group replace its members and their languages. The insert of a membership has
  no \<open>ON CONFLICT\<close>, so a repeated account fails the transaction.
\<close>

definition set_language :: "int \<Rightarrow> string \<Rightarrow> int \<Rightarrow> account_row list \<Rightarrow> account_row list" where
  "set_language user l a =
     update_where (\<lambda>r. pa_id r = a \<and> ac_owner r = user) (\<lambda>r. r\<lparr>ac_language := Some l\<rparr>)"

fun replace_members :: "int \<Rightarrow> int \<Rightarrow> (int \<times> string) list \<Rightarrow> tenancy \<Rightarrow> tenancy option" where
  "replace_members g user [] s = Some s"
| "replace_members g user ((a, l) # us) s =
     (if (g, a) \<in> set (tn_members s) then None
      else replace_members g user us
        (s\<lparr>tn_members := tn_members s @ [(g, a)], tn_accounts := set_language user l a (tn_accounts s)\<rparr>))"

definition settings_tx :: "time \<Rightarrow> int \<Rightarrow> int \<Rightarrow> int \<Rightarrow> (int \<times> string) list \<Rightarrow> unit tenancy_stmt" where
  "settings_tx now g w user us s =
     (case lockGroupForUpdate g w s of
        Inl e \<Rightarrow> Inl e
      | Inr name \<Rightarrow>
          let ids = map fst us; old = map snd (filter (\<lambda>m. fst m = g) (tn_members s));
              owned = map pa_id (filter (\<lambda>r. ac_owner r = user) (tn_accounts s))
          in if \<exists>a \<in> set ids. a \<le> 0 then Inl TeInvalid
             else if \<exists>a \<in> set ids. a \<notin> set owned then Inl ErrGroupAccountOwnership
             else case replace_members g user us (s\<lparr>tn_members := filter (\<lambda>m. fst m \<noteq> g) (tn_members s)\<rparr>) of
                    None \<Rightarrow> Inl TeDatabase
                  | Some s1 \<Rightarrow>
                      Inr ((), resyncWorkspaceChannels w g (remdups (old @ ids))
                        (s1\<lparr>tn_channels := foldl (\<lambda>cs a. upsert_channel now w a (Some name) cs)
                                             (tn_channels s1) ids\<rparr>)))"

definition UpdateSettings ::
  "db_fault \<Rightarrow> time \<Rightarrow> int \<Rightarrow> int \<Rightarrow> int \<Rightarrow> (int \<times> string) list \<Rightarrow> tenancy \<Rightarrow> (tenancy_err + unit) \<times> tenancy" where
  "UpdateSettings flt now g w user us s =
     (if g \<le> 0 \<or> w \<le> 0 \<or> user \<le> 0 then (Inl TeInvalid, s) else tn_run flt (settings_tx now g w user us) s)"

text \<open>
  The accounts that pass for the caller's own; the caller owns the workspace or is a member of it.
\<close>

definition ValidateAccountOwnership :: "int \<Rightarrow> int \<Rightarrow> int list \<Rightarrow> tenancy \<Rightarrow> int list" where
  "ValidateAccountOwnership user w ids s =
     (if ids = [] then []
      else case ws_FindByID w s of
        None \<Rightarrow> []
      | Some ws \<Rightarrow>
          if w_owner ws = user \<or> (w, user) \<in> set (tn_wmembers s)
          then map pa_id (filter (\<lambda>r. pa_id r \<in> set ids) (tn_accounts s)) else [])"

section \<open>The request that sets the accounts of a group\<close>

fun attach_all :: "db_fault list \<Rightarrow> time \<Rightarrow> int \<Rightarrow> string \<Rightarrow> int list \<Rightarrow> tenancy \<Rightarrow> bool \<times> tenancy" where
  "attach_all fs now w name [] s = (True, s)"
| "attach_all fs now w name (a # as) s =
     (case AttachChannel (case fs of [] \<Rightarrow> DbOk | f # _ \<Rightarrow> f) now w a name s of
        (Inl _, s') \<Rightarrow> (False, s')
      | (Inr _, s') \<Rightarrow> attach_all (tl fs) now w name as s')"

text \<open>The status code of the answer and the database; \<open>caller\<close> is the user of the token.\<close>

definition handleSetGroupAccounts ::
  "db_fault \<Rightarrow> db_fault list \<Rightarrow> time \<Rightarrow> int \<Rightarrow> int \<Rightarrow> int list \<Rightarrow> tenancy \<Rightarrow> nat \<times> tenancy" where
  "handleSetGroupAccounts flt fs now caller g ids s =
     (case group_FindByID g s of
        None \<Rightarrow> (404, s)
      | Some r \<Rightarrow>
          (case ws_FindByID (g_workspace r) s of
             None \<Rightarrow> (404, s)
           | Some ws \<Rightarrow>
               if w_owner ws \<noteq> caller then (404, s)
               else
                 let valid = ValidateAccountOwnership caller (g_workspace r) ids s
                 in if length valid \<noteq> length ids then (403, s)
                    else case SetAccounts flt g valid s of
                      (Inl _, s') \<Rightarrow> (500, s')
                    | (Inr _, s') \<Rightarrow>
                        (let (ok, s2) = attach_all fs now (g_workspace r) (g_name r) valid s'
                         in (if ok then 200 else 500, s2))))"

section \<open>External destinations\<close>

text \<open>\<open>valid\<close> is \<open>json.Valid\<close>; the id comes from the application and is the primary key.\<close>

definition destination_key :: "ExternalDestination \<Rightarrow> string \<times> int \<times> int" where
  "destination_key d = (xd_source d, xd_workspace d, xd_account d)"

definition dest_Create ::
  "db_fault \<Rightarrow> time \<Rightarrow> (string \<Rightarrow> bool) \<Rightarrow> ExternalDestination \<Rightarrow> tenancy \<Rightarrow> (tenancy_err + unit) \<times> tenancy" where
  "dest_Create flt now valid d s =
     (let meta = (if xd_metadata d = '''' then ''{}'' else xd_metadata d)
      in if xd_id d = '''' \<or> xd_source d = '''' \<or> xd_workspace d \<le> 0 \<or> xd_account d \<le> 0 \<or> \<not> valid meta
         then (Inl TeInvalid, s)
         else tn_run flt (\<lambda>s.
           if find_row xd_id (xd_id d) (tn_destinations s) \<noteq> None then Inl TeDatabase
           else if find_row destination_key (destination_key d) (tn_destinations s) \<noteq> None
           then Inl ErrExternalDestinationAlreadyExists
           else if ws_FindByID (xd_workspace d) s = None \<or> \<not> account_known (xd_account d) s then Inl TeDatabase
           else Inr ((), s\<lparr>tn_destinations :=
                  tn_destinations s @ [d\<lparr>xd_metadata := meta, xd_created_at := now\<rparr>]\<rparr>)) s)"

definition dest_GetByID :: "string \<Rightarrow> tenancy \<Rightarrow> tenancy_err + ExternalDestination option" where
  "dest_GetByID i s = (if i = '''' then Inl TeInvalid else Inr (find_row xd_id i (tn_destinations s)))"

definition dest_ListByWorkspace :: "int \<Rightarrow> bool \<Rightarrow> tenancy \<Rightarrow> tenancy_err + ExternalDestination list" where
  "dest_ListByWorkspace w enabledOnly s =
     (if w \<le> 0 then Inl TeInvalid
      else Inr (sort_key (\<lambda>d. - xd_created_at d)
        (filter (\<lambda>d. xd_workspace d = w \<and> (enabledOnly \<longrightarrow> xd_enabled d)) (tn_destinations s))))"

definition UpdateEnabledAndDefaults ::
  "db_fault \<Rightarrow> (string \<Rightarrow> bool) \<Rightarrow> string \<Rightarrow> bool option \<Rightarrow> string \<Rightarrow> tenancy \<Rightarrow> (tenancy_err + unit) \<times> tenancy" where
  "UpdateEnabledAndDefaults flt valid i enabled defaults s =
     (if i = '''' \<or> defaults \<noteq> '''' \<and> \<not> valid defaults then (Inl TeInvalid, s)
      else tn_run flt (\<lambda>s.
        if find_row xd_id i (tn_destinations s) = None then Inl ErrExternalDestinationNotFound
        else Inr ((), s\<lparr>tn_destinations := update_where (\<lambda>d. xd_id d = i)
          (\<lambda>d. d\<lparr>xd_enabled := (case enabled of None \<Rightarrow> xd_enabled d | Some b \<Rightarrow> b),
                 xd_metadata := (if defaults = '''' then xd_metadata d else defaults)\<rparr>) (tn_destinations s)\<rparr>)) s)"

definition dest_Delete ::
  "db_fault \<Rightarrow> bool \<Rightarrow> string \<Rightarrow> tenancy \<Rightarrow> (tenancy_err + unit) \<times> tenancy" where
  "dest_Delete flt blocked i s =
     (if i = '''' then (Inl TeInvalid, s)
      else tn_run flt (\<lambda>s.
        if find_row xd_id i (tn_destinations s) = None then Inl ErrExternalDestinationNotFound
        else if blocked then Inl ErrExternalDestinationHasDependents
        else Inr ((), s\<lparr>tn_destinations := filter (\<lambda>d. xd_id d \<noteq> i) (tn_destinations s)\<rparr>)) s)"

end
