(* ===== verification/Targets.thy ===== *)
theory Targets
  imports Tenancy
begin

text \<open>
  Where a delivery may go: the resolver of \<open>internal/deliveries/target_resolver*.go\<close> with its two
  kinds of request (a saved destination, or a channel or group named directly) and the catalog of
  \<open>target_catalog.go\<close>. The stores are parameters; \<open>stores_of\<close> is the wiring over the tables.
\<close>

section \<open>Stores\<close>

text \<open>A failed read is \<open>Inl ()\<close>; \<open>sd_catalog\<close>: the destination store can list a workspace.\<close>

record store_deps =
  sd_dest_wired :: bool
  sd_ws_wired :: bool
  sd_user_wired :: bool
  sd_group_wired :: bool
  sd_catalog :: bool
  sd_dest :: "string \<Rightarrow> unit + ExternalDestination option"
  sd_dests :: "int \<Rightarrow> unit + ExternalDestination list"
  sd_workspace :: "int \<Rightarrow> unit + Workspace option"
  sd_channel :: "int \<Rightarrow> int \<Rightarrow> unit + WorkspaceChannel option"
  sd_channels :: "int \<Rightarrow> unit + WorkspaceChannel list"
  sd_account :: "int \<Rightarrow> unit + account_row option"
  sd_group :: "int \<Rightarrow> unit + Group option"
  sd_members :: "int \<Rightarrow> unit + int list"

definition NormalizePlatformIdentifier :: "string \<Rightarrow> string" where
  "NormalizePlatformIdentifier p =
     (let c = ToLower (TrimSpace p) in if c = ''x'' then ''twitter'' else c)"

definition FindPlatformAccountByID :: "int \<Rightarrow> tenancy \<Rightarrow> account_row option" where
  "FindPlatformAccountByID i s =
     map_option (\<lambda>r. r\<lparr>pa_platform := NormalizePlatformIdentifier (pa_platform r)\<rparr>)
       (find_row pa_id i (tn_accounts s))"

definition forget_err :: "'e + 'a \<Rightarrow> unit + 'a" where
  "forget_err r = (case r of Inl _ \<Rightarrow> Inl () | Inr a \<Rightarrow> Inr a)"

definition stores_of :: "tenancy \<Rightarrow> store_deps" where
  "stores_of s =
     \<lparr>sd_dest_wired = True, sd_ws_wired = True, sd_user_wired = True, sd_group_wired = True, sd_catalog = True,
      sd_dest = (\<lambda>i. forget_err (dest_GetByID i s)), sd_dests = (\<lambda>w. forget_err (dest_ListByWorkspace w True s)),
      sd_workspace = (\<lambda>w. Inr (ws_FindByID w s)), sd_channel = (\<lambda>w a. forget_err (FindChannel w a s)),
      sd_channels = (\<lambda>w. forget_err (ListChannels w s)), sd_account = (\<lambda>a. Inr (FindPlatformAccountByID a s)),
      sd_group = (\<lambda>g. Inr (group_FindByID g s)), sd_members = (\<lambda>g. Inr (ListAccountsInGroup g s))\<rparr>"

section \<open>Requests and results\<close>

record TargetDescriptor =
  tg_type :: string
  tg_account :: int
  tg_channel :: string
  tg_name :: string
  tg_group :: int

record ResolveRequest =
  rq_dest :: string
  rq_workspace :: int
  rq_platform :: string
  rq_target :: TargetDescriptor

record ResolvedTargetEntry =
  re_account :: int
  re_platform :: string
  re_channel :: string
  re_name :: string
  re_status :: string
  re_enabled :: bool
  re_code :: string

record ResolveResult =
  rr_valid :: bool
  rr_code :: string
  rr_message :: string
  rr_destination :: string
  rr_platform :: string
  rr_targets :: "ResolvedTargetEntry list"
  rr_diagnostic :: "(string \<times> string) option"

datatype resolution_err = RsInvalidRequest | RsNotWired string | RsLookup string | RsTargetType string

definition ErrCodeTargetNotAvailable :: string where "ErrCodeTargetNotAvailable = ''TARGET_NOT_AVAILABLE''"
definition ErrCodeGroupEmpty :: string where "ErrCodeGroupEmpty = ''GROUP_EMPTY''"
definition ErrCodeBlockedAuth :: string where "ErrCodeBlockedAuth = ''BLOCKED_AUTH''"

lemmas code_defs = ErrCodeTargetNotAvailable_def ErrCodeGroupEmpty_def ErrCodeBlockedAuth_def

definition rejected :: "string \<Rightarrow> string \<Rightarrow> ResolvedTargetEntry list \<Rightarrow> ResolveResult" where
  "rejected code msg es =
     \<lparr>rr_valid = False, rr_code = code, rr_message = msg, rr_destination = '''', rr_platform = '''', rr_targets = es,
      rr_diagnostic = None\<rparr>"

definition accepted :: "string \<Rightarrow> string \<Rightarrow> ResolvedTargetEntry list \<Rightarrow> ResolveResult" where
  "accepted dest platform es =
     \<lparr>rr_valid = True, rr_code = '''', rr_message = '''', rr_destination = dest, rr_platform = platform, rr_targets = es,
      rr_diagnostic = None\<rparr>"

section \<open>Eligibility\<close>

definition makeResolvedEntry :: "account_row \<Rightarrow> WorkspaceChannel option \<Rightarrow> string \<Rightarrow> ResolvedTargetEntry" where
  "makeResolvedEntry pa binding code =
     \<lparr>re_account = pa_id pa, re_platform = pa_platform pa, re_channel = pa_user_id pa, re_name = ac_username pa,
      re_status = pa_status pa, re_enabled = some_and wc_enabled binding, re_code = code\<rparr>"

definition quoted :: "string \<Rightarrow> string" where "quoted s = ''\"'' @ s @ ''\"''"

text \<open>The outcome is \<open>None\<close> when the account is eligible, else a code and a message.\<close>

definition checkAccountEligibility ::
  "account_row \<Rightarrow> WorkspaceChannel option \<Rightarrow> ResolvedTargetEntry \<times> (string \<times> string) option" where
  "checkAccountEligibility pa binding =
     (let entry = makeResolvedEntry pa binding '''';
          fail = (\<lambda>code msg. (entry\<lparr>re_code := code\<rparr>, Some (code, msg)))
      in if pa_status pa = ''reauth_required'' \<or> pa_reauth_required_at pa \<noteq> None
         then fail ErrCodeBlockedAuth ''platform_account requires re-authorization''
         else if pa_status pa = ''revoked'' \<or> pa_status pa = ''disconnected''
         then fail ErrCodeTargetNotAvailable (''platform_account status is '' @ quoted (pa_status pa) @ '' (terminated)'')
         else if pa_status pa \<noteq> ''active''
         then fail ErrCodeBlockedAuth
                (''platform_account status is '' @ quoted (pa_status pa) @ '' (must be '' @ quoted ''active'' @ '')'')
         else if some_and (\<lambda>c. \<not> wc_enabled c) binding
         then fail ErrCodeTargetNotAvailable ''channel is disabled in this workspace''
         else (entry, None))"

section \<open>A saved destination\<close>

text \<open>The binding is looked up for a social platform only, and an error of that look-up is dropped.\<close>

definition saved_binding :: "store_deps \<Rightarrow> ExternalDestination \<Rightarrow> account_row \<Rightarrow> WorkspaceChannel option" where
  "saved_binding sd d pa =
     (if pa_platform pa = ''google-drive'' then None
      else case sd_channel sd (xd_workspace d) (xd_account d) of Inl _ \<Rightarrow> None | Inr b \<Rightarrow> b)"

definition resolveSavedDestination :: "store_deps \<Rightarrow> ResolveRequest \<Rightarrow> resolution_err + ResolveResult" where
  "resolveSavedDestination sd rq =
     (let no = (\<lambda>msg. Inr (rejected ErrCodeTargetNotAvailable msg []))
      in if \<not> sd_dest_wired sd then Inl (RsNotWired ''DestinationStore'')
      else case sd_dest sd (rq_dest rq) of
        Inl _ \<Rightarrow> Inl (RsLookup ''destination'')
      | Inr None \<Rightarrow> no ''destination not found''
      | Inr (Some d) \<Rightarrow>
          if \<not> xd_enabled d then no ''destination not found''
          else if \<not> sd_ws_wired sd then Inl (RsNotWired ''WorkspaceStore'')
          else case sd_workspace sd (xd_workspace d) of
            Inl _ \<Rightarrow> Inl (RsLookup ''workspace'')
          | Inr None \<Rightarrow> no ''workspace not found''
          | Inr (Some _) \<Rightarrow>
              if \<not> sd_user_wired sd then Inl (RsNotWired ''UserStore'')
              else case sd_account sd (xd_account d) of
                Inl _ \<Rightarrow> Inl (RsLookup ''platform_account'')
              | Inr None \<Rightarrow> no ''platform_account not found''
              | Inr (Some pa) \<Rightarrow>
                  let (entry, bad) = checkAccountEligibility pa (saved_binding sd d pa);
                      diag = Some (pa_status pa, pa_platform pa)
                  in (case bad of
                        Some (code, msg) \<Rightarrow> Inr ((rejected code msg [entry])\<lparr>rr_diagnostic := diag\<rparr>)
                      | None \<Rightarrow> Inr ((accepted (xd_id d) (pa_platform pa) [entry])\<lparr>rr_diagnostic := diag\<rparr>)))"

section \<open>A channel\<close>

fun match_channel :: "store_deps \<Rightarrow> string \<Rightarrow> TargetDescriptor \<Rightarrow> WorkspaceChannel list \<Rightarrow> int" where
  "match_channel sd platform t [] = 0"
| "match_channel sd platform t (c # cs) =
     (case sd_account sd (wc_account c) of
        Inr (Some pa) \<Rightarrow>
          if pa_platform pa = platform \<and>
             (tg_channel t \<noteq> '''' \<and> pa_user_id pa = tg_channel t \<or>
              tg_name t \<noteq> '''' \<and> EqualFold (TrimSpace (ac_username pa)) (TrimSpace (tg_name t)))
          then wc_account c
          else match_channel sd platform t cs
      | _ \<Rightarrow> match_channel sd platform t cs)"

definition resolveAccountIDForChannel :: "store_deps \<Rightarrow> int \<Rightarrow> string \<Rightarrow> TargetDescriptor \<Rightarrow> unit + int" where
  "resolveAccountIDForChannel sd w platform t =
     (if tg_account t \<noteq> 0 then Inr (tg_account t)
      else case sd_channels sd w of Inl _ \<Rightarrow> Inl () | Inr cs \<Rightarrow> Inr (match_channel sd platform t cs))"

definition resolveChannelTarget :: "store_deps \<Rightarrow> ResolveRequest \<Rightarrow> resolution_err + ResolveResult" where
  "resolveChannelTarget sd rq =
     (let t = rq_target rq; no = (\<lambda>msg. Inr (rejected ErrCodeTargetNotAvailable msg []))
      in case resolveAccountIDForChannel sd (rq_workspace rq) (rq_platform rq) t of
        Inl _ \<Rightarrow> no ''workspace channels list failed''
      | Inr a \<Rightarrow>
          if a = 0 then no ''target channel is not bound to this workspace''
          else case sd_channel sd (rq_workspace rq) a of
            Inl _ \<Rightarrow> Inl (RsLookup ''workspace channel'')
          | Inr None \<Rightarrow> no ''platform_account is not bound to this workspace''
          | Inr (Some b) \<Rightarrow>
              (case sd_account sd a of
                 Inl _ \<Rightarrow> Inl (RsLookup ''platform_account'')
               | Inr None \<Rightarrow> no ''platform_account row not found''
               | Inr (Some pa) \<Rightarrow>
                   if pa_platform pa \<noteq> rq_platform rq
                   then no (''platform_account is not registered for platform '' @ rq_platform rq)
                   else if tg_channel t \<noteq> '''' \<and> pa_user_id pa \<noteq> tg_channel t
                   then Inr (rejected ErrCodeBlockedAuth
                     ''OAuth grant does not match expected channel_id (channel was transferred/reassigned)''
                     [makeResolvedEntry pa (Some b) ErrCodeBlockedAuth])
                   else (case checkAccountEligibility pa (Some b) of
                       (entry, Some (code, msg)) \<Rightarrow> Inr (rejected code msg [entry])
                     | (entry, None) \<Rightarrow> Inr (accepted (''instaedit_'' @ rq_platform rq) (rq_platform rq) [entry]))))"

section \<open>A group\<close>

definition member_request :: "ResolveRequest \<Rightarrow> int \<Rightarrow> ResolveRequest" where
  "member_request rq a =
     \<lparr>rq_dest = '''', rq_workspace = rq_workspace rq, rq_platform = rq_platform rq,
      rq_target = \<lparr>tg_type = ''channel'', tg_account = a, tg_channel = '''', tg_name = '''', tg_group = 0\<rparr>\<rparr>"

text \<open>An entry for a member whose check gave none.\<close>

definition stub_entry :: "store_deps \<Rightarrow> int \<Rightarrow> string \<Rightarrow> ResolvedTargetEntry list" where
  "stub_entry sd a code =
     (case sd_account sd a of
        Inr (Some pa) \<Rightarrow>
          [\<lparr>re_account = pa_id pa, re_platform = pa_platform pa, re_channel = pa_user_id pa, re_name = ac_username pa,
            re_status = pa_status pa, re_enabled = False, re_code = code\<rparr>]
      | _ \<Rightarrow> [])"

definition severest :: "string \<times> string \<Rightarrow> ResolveResult \<Rightarrow> string \<times> string" where
  "severest worst r =
     (if rr_code r = ErrCodeBlockedAuth then (rr_code r, rr_message r)
      else if rr_code r \<noteq> '''' \<and> fst worst = '''' then (rr_code r, rr_message r) else worst)"

fun resolve_members ::
  "store_deps \<Rightarrow> ResolveRequest \<Rightarrow> int list \<Rightarrow> ResolvedTargetEntry list \<times> (string \<times> string) \<Rightarrow>
   resolution_err + ResolvedTargetEntry list \<times> (string \<times> string)" where
  "resolve_members sd rq [] acc = Inr acc"
| "resolve_members sd rq (a # as) (es, worst) =
     (case resolveChannelTarget sd (member_request rq a) of
        Inl e \<Rightarrow> Inl e
      | Inr r \<Rightarrow>
          let new = (if rr_targets r = [] \<and> \<not> rr_valid r then stub_entry sd a (rr_code r) else rr_targets r)
          in resolve_members sd rq as (es @ new, severest worst r))"

definition resolveGroupTarget :: "store_deps \<Rightarrow> ResolveRequest \<Rightarrow> resolution_err + ResolveResult" where
  "resolveGroupTarget sd rq =
     (let gid = tg_group (rq_target rq); no = (\<lambda>msg. Inr (rejected ErrCodeTargetNotAvailable msg []))
      in if \<not> sd_group_wired sd then Inl (RsNotWired ''GroupStore'')
      else case sd_group sd gid of
        Inl _ \<Rightarrow> no ''group lookup failed''
      | Inr None \<Rightarrow> no (''group '' @ FormatInt gid @ '' not found'')
      | Inr (Some g) \<Rightarrow>
          if g_workspace g \<noteq> rq_workspace rq
          then no (''group '' @ FormatInt gid @ '' does not belong to workspace '' @ FormatInt (rq_workspace rq))
          else case sd_members sd gid of
            Inl _ \<Rightarrow> no ''group members lookup failed''
          | Inr [] \<Rightarrow> Inr (rejected ErrCodeGroupEmpty (''group '' @ FormatInt gid @ '' has no accounts attached'') [])
          | Inr as \<Rightarrow>
              (case resolve_members sd rq as ([], ('''', '''')) of
                 Inl e \<Rightarrow> Inl e
               | Inr (es, (code, msg)) \<Rightarrow>
                   if code \<noteq> '''' then Inr (rejected code msg es)
                   else Inr (accepted (''instaedit_'' @ rq_platform rq) (rq_platform rq) es)))"

section \<open>The entry point\<close>

definition resolveDirectTarget :: "store_deps \<Rightarrow> ResolveRequest \<Rightarrow> resolution_err + ResolveResult" where
  "resolveDirectTarget sd rq =
     (if \<not> sd_ws_wired sd then Inl (RsNotWired ''WorkspaceStore'')
      else case sd_workspace sd (rq_workspace rq) of
        Inl _ \<Rightarrow> Inl (RsLookup ''workspace'')
      | Inr None \<Rightarrow> Inr (rejected ErrCodeTargetNotAvailable ''workspace not found'' [])
      | Inr (Some _) \<Rightarrow>
          if \<not> sd_user_wired sd then Inl (RsNotWired ''UserStore'')
          else if tg_type (rq_target rq) = ''channel'' then resolveChannelTarget sd rq
          else if tg_type (rq_target rq) = ''group'' then resolveGroupTarget sd rq
          else Inl (RsTargetType (tg_type (rq_target rq))))"

definition target_Resolve :: "store_deps \<Rightarrow> ResolveRequest \<Rightarrow> resolution_err + ResolveResult" where
  "target_Resolve sd rq =
     (if rq_dest rq \<noteq> '''' then resolveSavedDestination sd rq
      else if rq_workspace rq > 0 \<and> rq_platform rq \<noteq> '''' then resolveDirectTarget sd rq
      else Inl RsInvalidRequest)"

section \<open>The catalog\<close>

record CatalogTargetEntry = ResolvedTargetEntry +
  ce_destination :: string

definition with_destination :: "ResolvedTargetEntry \<Rightarrow> string \<Rightarrow> CatalogTargetEntry" where
  "with_destination e d = ResolvedTargetEntry.extend e (CatalogTargetEntry.fields d)"

text \<open>The destination of an account: the enabled Velox one with the smallest id.\<close>

definition catalog_destination :: "ExternalDestination list \<Rightarrow> int \<Rightarrow> string" where
  "catalog_destination ds a =
     (case find_row xd_account a
         (filter (\<lambda>d. xd_enabled d \<and> xd_source d = ''velox'' \<and> xd_account d > 0) (sort_key xd_id ds)) of
        None \<Rightarrow> '''' | Some d \<Rightarrow> xd_id d)"

fun catalog_entries ::
  "store_deps \<Rightarrow> string \<Rightarrow> (int \<Rightarrow> string) \<Rightarrow> WorkspaceChannel list \<Rightarrow> resolution_err + CatalogTargetEntry list" where
  "catalog_entries sd platform dest [] = Inr []"
| "catalog_entries sd platform dest (c # cs) =
     (case sd_account sd (wc_account c) of
        Inl _ \<Rightarrow> Inl (RsLookup ''platform_account'')
      | Inr found \<Rightarrow>
          (case catalog_entries sd platform dest cs of
             Inl e \<Rightarrow> Inl e
           | Inr rest \<Rightarrow>
               (case found of
                  None \<Rightarrow>
                    Inr (with_destination \<lparr>re_account = wc_account c, re_platform = platform, re_channel = '''', re_name = '''',
                           re_status = ''missing'', re_enabled = wc_enabled c, re_code = ErrCodeTargetNotAvailable\<rparr> '''' # rest)
                | Some pa \<Rightarrow>
                    if pa_platform pa \<noteq> platform then Inr rest
                    else
                      (case checkAccountEligibility pa (Some c) of
                         (entry, Some (code, _)) \<Rightarrow> Inr (with_destination (entry\<lparr>re_code := code\<rparr>) (dest (pa_id pa)) # rest)
                       | (entry, None) \<Rightarrow>
                           let d = dest (pa_id pa);
                               entry' = (if d = '''' then entry\<lparr>re_code := ErrCodeTargetNotAvailable\<rparr> else entry)
                           in Inr (with_destination entry' d # rest)))))"

definition ListWorkspaceTargets :: "store_deps \<Rightarrow> int \<Rightarrow> string \<Rightarrow> resolution_err + CatalogTargetEntry list" where
  "ListWorkspaceTargets sd w platform =
     (if w \<le> 0 \<or> platform = '''' then Inl RsInvalidRequest
      else if \<not> sd_ws_wired sd then Inl (RsNotWired ''WorkspaceStore'')
      else if \<not> sd_user_wired sd then Inl (RsNotWired ''UserStore'')
      else case sd_workspace sd w of
        Inl _ \<Rightarrow> Inl (RsLookup ''workspace'')
      | Inr None \<Rightarrow> Inr []
      | Inr (Some _) \<Rightarrow>
          (case sd_channels sd w of
             Inl _ \<Rightarrow> Inl (RsLookup ''workspace channel list'')
           | Inr cs \<Rightarrow>
               (case (if sd_catalog sd then sd_dests sd w else Inr []) of
                  Inl _ \<Rightarrow> Inl (RsLookup ''external destination list'')
                | Inr ds \<Rightarrow>
                    (case catalog_entries sd platform (catalog_destination ds) cs of
                       Inl e \<Rightarrow> Inl e
                     | Inr es \<Rightarrow> Inr (sort_key re_account es)))))"

record PublishingCapabilities =
  cap_upload :: bool
  cap_thumbnail :: bool
  cap_publish :: bool
  cap_schedule :: bool

definition CapabilitiesForTarget :: "ResolvedTargetEntry \<Rightarrow> PublishingCapabilities" where
  "CapabilitiesForTarget e =
     (let b = (re_code e = '''' \<and> re_enabled e \<and> re_status e = ''active'' \<and> re_platform e = ''youtube'')
      in \<lparr>cap_upload = b, cap_thumbnail = b, cap_publish = b, cap_schedule = b\<rparr>)"

end
