(* ===== verification/TenancyProofs.thy ===== *)
theory TenancyProofs
  imports Tenancy
begin

text \<open>
  What the tables of workspaces, channels, groups and destinations always satisfy, what the cycle
  check of the groups misses, and what passes for the accounts of a caller.
\<close>

section \<open>The invariant\<close>

definition tenancy_keys :: "tenancy \<Rightarrow> bool" where
  "tenancy_keys s \<longleftrightarrow>
     distinct (map w_id (tn_workspaces s)) \<and> distinct (map channel_key (tn_channels s)) \<and>
     distinct (map g_id (tn_groups s)) \<and> distinct (tn_members s) \<and> distinct (map pa_id (tn_accounts s)) \<and>
     distinct (map xd_id (tn_destinations s)) \<and> distinct (map destination_key (tn_destinations s)) \<and>
     (\<forall>w \<in> set (tn_workspaces s). w_id w \<le> tn_workspace_seq s) \<and>
     (\<forall>g \<in> set (tn_groups s). g_id g \<le> tn_group_seq s)"

definition tenancy_refs :: "tenancy \<Rightarrow> bool" where
  "tenancy_refs s \<longleftrightarrow>
     (\<forall>c \<in> set (tn_channels s). wc_workspace c \<in> w_id ` set (tn_workspaces s) \<and>
        wc_account c \<in> pa_id ` set (tn_accounts s)) \<and>
     (\<forall>g \<in> set (tn_groups s). g_workspace g \<in> w_id ` set (tn_workspaces s)) \<and>
     (\<forall>m \<in> set (tn_members s). fst m \<in> g_id ` set (tn_groups s) \<and> snd m \<in> pa_id ` set (tn_accounts s)) \<and>
     (\<forall>d \<in> set (tn_destinations s). xd_workspace d \<in> w_id ` set (tn_workspaces s) \<and>
        xd_account d \<in> pa_id ` set (tn_accounts s))"

definition tenancy_tree :: "Group list \<Rightarrow> bool" where
  "tenancy_tree gs \<longleftrightarrow>
     (\<forall>g \<in> set gs. null_or (\<lambda>p. \<exists>h \<in> set gs. g_id h = p \<and> g_workspace h = g_workspace g) (g_parent g))"

definition root_names :: "Group list \<Rightarrow> (int \<times> string) list" where
  "root_names gs = map (\<lambda>g. (g_workspace g, g_name g)) (filter (\<lambda>g. g_parent g = None) gs)"

definition tenancy_inv :: "tenancy \<Rightarrow> bool" where
  "tenancy_inv s \<longleftrightarrow> tenancy_keys s \<and> tenancy_refs s \<and> tenancy_tree (tn_groups s) \<and>
     distinct (root_names (tn_groups s))"

text \<open>A group of a later state that an earlier state could know was there, in its workspace.\<close>

definition later :: "tenancy \<Rightarrow> tenancy \<Rightarrow> bool" where
  "later s0 s \<longleftrightarrow>
     tn_group_seq s0 \<le> tn_group_seq s \<and>
     (\<forall>g \<in> set (tn_groups s). g_id g \<le> tn_group_seq s0 \<longrightarrow>
        (\<exists>g0 \<in> set (tn_groups s0). g_id g0 = g_id g \<and> g_workspace g0 = g_workspace g))"

lemma later_refl [simp]: "later s s"
  by (auto simp: later_def)

lemma later_trans: "later a b \<Longrightarrow> later b c \<Longrightarrow> later a c"
  by (fastforce simp: later_def)

lemma later_groups: "tn_groups s' = tn_groups s \<Longrightarrow> tn_group_seq s' = tn_group_seq s \<Longrightarrow> later s s'"
  by (auto simp: later_def)

definition good :: "tenancy \<Rightarrow> tenancy \<Rightarrow> bool" where
  "good s s' \<longleftrightarrow> tenancy_inv s' \<and> later s s'"

lemma tn_run_good:
  assumes "tenancy_inv s" and "\<And>a s'. st s = Inr (a, s') \<Longrightarrow> good s s'"
  shows "good s (snd (tn_run flt st s))"
  using assms by (auto simp: tn_run_def good_def split: db_fault.split sum.split)

lemma good_refl [simp]: "good s s \<longleftrightarrow> tenancy_inv s"
  by (simp add: good_def)

lemma find_row_key: "find_row key k t = Some r \<Longrightarrow> k \<in> key ` set t"
  using find_row_SomeD by fastforce

lemmas known_simps = ws_FindByID_def account_known_def group_FindByID_def

lemma distinct_map_filter_where: "distinct (map f t) \<Longrightarrow> distinct (map f (filter p t))"
  by (induction t) auto

text \<open>Channels.\<close>

lemma upsert_keys:
  shows "distinct (map channel_key cs) \<Longrightarrow> distinct (map channel_key (upsert_channel now w a grp cs))"
    "channel_key ` set (upsert_channel now w a grp cs) = insert (w, a) (channel_key ` set cs)"
proof -
  have "map channel_key (update_where (\<lambda>c. channel_key c = (w, a)) (\<lambda>c. c\<lparr>wc_group := grp\<rparr>) cs) = map channel_key cs"
    by (rule map_update_where) (simp add: channel_key_def)
  moreover from this have "channel_key ` set (update_where (\<lambda>c. channel_key c = (w, a)) (\<lambda>c. c\<lparr>wc_group := grp\<rparr>) cs) =
      channel_key ` set cs"
    by (metis list.set_map)
  ultimately show "distinct (map channel_key cs) \<Longrightarrow> distinct (map channel_key (upsert_channel now w a grp cs))"
    "channel_key ` set (upsert_channel now w a grp cs) = insert (w, a) (channel_key ` set cs)"
    using find_row_None_iff [of channel_key "(w, a)" cs]
    by (auto simp: upsert_channel_def channel_key_def)
qed

definition channels_ok :: "tenancy \<Rightarrow> WorkspaceChannel list \<Rightarrow> bool" where
  "channels_ok s cs \<longleftrightarrow> distinct (map channel_key cs) \<and>
     (\<forall>k \<in> channel_key ` set cs. fst k \<in> w_id ` set (tn_workspaces s) \<and> snd k \<in> pa_id ` set (tn_accounts s))"

lemma inv_channels: "tenancy_inv s \<Longrightarrow> channels_ok s (tn_channels s)"
  by (simp add: tenancy_inv_def tenancy_keys_def tenancy_refs_def channels_ok_def channel_key_def)

lemma good_channels: "tenancy_inv s \<Longrightarrow> channels_ok s cs \<Longrightarrow> good s (s\<lparr>tn_channels := cs\<rparr>)"
  by (auto simp: good_def tenancy_inv_def tenancy_keys_def tenancy_refs_def channels_ok_def channel_key_def later_groups)

lemma channels_ok_upsert:
  assumes "channels_ok s cs" and "w \<in> w_id ` set (tn_workspaces s)" and "a \<in> pa_id ` set (tn_accounts s)"
  shows "channels_ok s (upsert_channel now w a grp cs)"
  using assms upsert_keys(1) [of cs] upsert_keys(2) [of now w a grp cs] by (auto simp: channels_ok_def)

lemma channels_ok_update:
  assumes "channels_ok s cs" and "\<And>c. channel_key (f c) = channel_key c"
  shows "channels_ok s (update_where p f cs)"
proof -
  have same: "map channel_key (update_where p f cs) = map channel_key cs"
    by (rule map_update_where) (simp add: assms(2))
  then have "channel_key ` set (update_where p f cs) = channel_key ` set cs" by (metis list.set_map)
  with same show ?thesis using assms(1) by (simp add: channels_ok_def)
qed

lemma channels_ok_filter: "channels_ok s cs \<Longrightarrow> channels_ok s (filter p cs)"
  by (auto simp: channels_ok_def distinct_map_filter_where)

lemma AttachChannel_good: "tenancy_inv s \<Longrightarrow> good s (snd (AttachChannel flt now w a grp s))"
  by (auto simp: AttachChannel_def known_simps intro!: tn_run_good good_channels channels_ok_upsert inv_channels
      split: if_splits dest: find_row_key)

lemma UpdateChannel_good: "tenancy_inv s \<Longrightarrow> good s (snd (UpdateChannel flt w a grp en s))"
  by (auto simp: UpdateChannel_def Let_def channel_key_def intro!: tn_run_good good_channels channels_ok_update inv_channels
      split: if_splits)

lemma DetachChannel_good: "tenancy_inv s \<Longrightarrow> good s (snd (DetachChannel flt b w a s))"
  by (auto simp: DetachChannel_def intro!: tn_run_good good_channels channels_ok_filter inv_channels split: if_splits)

text \<open>Workspaces.\<close>

lemma ws_Create_good: "tenancy_inv s \<Longrightarrow> good s (snd (ws_Create flt name owner s))"
  unfolding ws_Create_def
  by (rule tn_run_good)
    (auto simp: good_def tenancy_inv_def tenancy_keys_def tenancy_refs_def later_groups Let_def split: if_splits)

lemma root_names_filter: "distinct (root_names gs) \<Longrightarrow> distinct (root_names (filter p gs))"
  by (induction gs) (auto simp: root_names_def)

lemma later_filter:
  "tn_group_seq s' = tn_group_seq s \<Longrightarrow> set (tn_groups s') \<subseteq> set (tn_groups s) \<Longrightarrow> later s s'"
  by (auto simp: later_def)

lemma good_trans: "good a b \<Longrightarrow> good b c \<Longrightarrow> good a c"
  by (auto simp: good_def intro: later_trans)

lemma good_inv: "good a b \<Longrightarrow> tenancy_inv b"
  by (simp add: good_def)

lemma good_step: "good a b \<Longrightarrow> (tenancy_inv b \<Longrightarrow> good b c) \<Longrightarrow> good a c"
  using good_trans good_inv by blast

lemma good_groups_filter:
  assumes inv: "tenancy_inv s" and tree: "tenancy_tree (filter p (tn_groups s))"
  shows "good s (s\<lparr>tn_groups := filter p (tn_groups s),
    tn_members := filter (\<lambda>m. fst m \<in> g_id ` set (filter p (tn_groups s))) (tn_members s)\<rparr>)" (is "good s ?s")
proof -
  have "tenancy_keys ?s" using inv by (simp add: tenancy_inv_def tenancy_keys_def distinct_map_filter_where)
  moreover have "tenancy_refs ?s" using inv by (simp add: tenancy_inv_def tenancy_refs_def)
  moreover have "distinct (root_names (tn_groups ?s))" using inv by (simp add: tenancy_inv_def root_names_filter)
  moreover have "later s ?s" by (rule later_filter) auto
  ultimately show ?thesis using tree by (simp add: good_def tenancy_inv_def)
qed

lemma good_drop_workspace:
  assumes inv: "tenancy_inv s" and none: "\<forall>g \<in> set (tn_groups s). g_workspace g \<noteq> i"
  shows "good s (s\<lparr>tn_workspaces := filter (\<lambda>w. w_id w \<noteq> i) (tn_workspaces s),
    tn_wmembers := ms, tn_channels := filter (\<lambda>c. wc_workspace c \<noteq> i) (tn_channels s),
    tn_destinations := filter (\<lambda>d. xd_workspace d \<noteq> i) (tn_destinations s)\<rparr>)" (is "good s ?s")
proof -
  have "tenancy_keys ?s" using inv by (simp add: tenancy_inv_def tenancy_keys_def distinct_map_filter_where)
  moreover have "tenancy_refs ?s" using inv none by (fastforce simp: tenancy_inv_def tenancy_refs_def)
  moreover have "later s ?s" by (rule later_groups) auto
  ultimately show ?thesis using inv by (simp add: good_def tenancy_inv_def)
qed

lemma ws_Delete_good: "tenancy_inv s \<Longrightarrow> good s (snd (ws_Delete flt b i s))"
  unfolding ws_Delete_def
proof (rule tn_run_good)
  fix a s'
  let ?gs = "filter (\<lambda>g. g_workspace g \<noteq> i) (tn_groups s)"
  let ?s = "s\<lparr>tn_groups := ?gs, tn_members := filter (\<lambda>m. fst m \<in> g_id ` set ?gs) (tn_members s)\<rparr>"
  assume inv: "tenancy_inv s" and "(if b then Inl TeDatabase
       else if find_row w_id i (tn_workspaces s) = None then Inl ErrWorkspaceNotFound
       else let gs = ?gs
            in Inr ((), s\<lparr>tn_workspaces := filter (\<lambda>w. w_id w \<noteq> i) (tn_workspaces s),
                 tn_wmembers := filter (\<lambda>m. fst m \<noteq> i) (tn_wmembers s),
                 tn_channels := filter (\<lambda>c. wc_workspace c \<noteq> i) (tn_channels s),
                 tn_groups := gs, tn_members := filter (\<lambda>m. fst m \<in> g_id ` set gs) (tn_members s),
                 tn_destinations := filter (\<lambda>d. xd_workspace d \<noteq> i) (tn_destinations s)\<rparr>)) = Inr (a, s')"
  then have s': "s' = ?s\<lparr>tn_workspaces := filter (\<lambda>w. w_id w \<noteq> i) (tn_workspaces ?s),
    tn_wmembers := filter (\<lambda>m. fst m \<noteq> i) (tn_wmembers s),
    tn_channels := filter (\<lambda>c. wc_workspace c \<noteq> i) (tn_channels ?s),
    tn_destinations := filter (\<lambda>d. xd_workspace d \<noteq> i) (tn_destinations ?s)\<rparr>"
    by (auto simp: Let_def intro!: tenancy.equality split: if_splits)
  have "tenancy_tree (tn_groups s)" using inv by (simp add: tenancy_inv_def)
  then have "tenancy_tree ?gs" by (fastforce simp: tenancy_tree_def null_or_def split: option.splits)
  then have first: "good s ?s" by (rule good_groups_filter [OF inv])
  have "good ?s s'" unfolding s' by (rule good_drop_workspace [OF good_inv [OF first]]) simp
  with first show "good s s'" by (rule good_trans)
qed

text \<open>Groups.\<close>

lemma root_names_snoc:
  "root_names (gs @ [g]) = root_names gs @ (if g_parent g = None then [(g_workspace g, g_name g)] else [])"
  by (simp add: root_names_def)

lemma root_nameI: "h \<in> set gs \<Longrightarrow> g_parent h = None \<Longrightarrow> (g_workspace h, g_name h) \<in> set (root_names gs)"
  by (auto simp: root_names_def)

lemma parent_same_workspace:
  assumes "tenancy_inv s" and "later r s" and "tenancy_inv r"
    and "parentInWorkspace p w r = None" and "h \<in> set (tn_groups s)" and "g_id h = p"
  shows "g_workspace h = w"
proof -
  obtain g0 where g0: "find_row g_id p (tn_groups r) = Some g0" "g_workspace g0 = w"
    using assms(4) by (auto simp: parentInWorkspace_def group_FindByID_def split: option.splits if_splits)
  then have in0: "g0 \<in> set (tn_groups r)" "g_id g0 = p" using find_row_SomeD by fastforce+
  then have "p \<le> tn_group_seq r" using assms(3) by (auto simp: tenancy_inv_def tenancy_keys_def)
  then obtain g1 where "g1 \<in> set (tn_groups r)" "g_id g1 = p" "g_workspace g1 = g_workspace h"
    using assms(2,5,6) by (auto simp: later_def)
  moreover from this have "g1 = g0"
    using in0 assms(3) by (auto simp: tenancy_inv_def tenancy_keys_def distinct_map inj_on_def)
  ultimately show ?thesis using g0(2) by simp
qed

lemma group_Create_good:
  assumes inv: "tenancy_inv s" and reads: "\<And>n. tenancy_inv (reads n)" "\<And>n. later (reads n) s"
  shows "good s (snd (group_Create flt reads g s))"
proof (cases "case g_parent g of None \<Rightarrow> None | Some p \<Rightarrow> parentInWorkspace p (g_workspace g) (reads 0)")
  case (Some e)
  then show ?thesis using inv by (simp add: group_Create_def)
next
  case None
  let ?row = "g\<lparr>g_id := tn_group_seq s + 1\<rparr>"
  let ?s = "s\<lparr>tn_groups := tn_groups s @ [?row], tn_group_seq := g_id ?row\<rparr>"
  have "good s ?s" if ws: "ws_FindByID (g_workspace g) s \<noteq> None" and par: "parent_known g s"
    and nm: "\<not> root_name_taken ?row (tn_groups s)"
  proof -
    have fresh: "\<forall>h \<in> set (tn_groups s). g_id h \<noteq> tn_group_seq s + 1"
      using inv by (fastforce simp: tenancy_inv_def tenancy_keys_def)
    have "tenancy_keys ?s" using inv fresh by (fastforce simp: tenancy_inv_def tenancy_keys_def)
    moreover have "tenancy_refs ?s" using inv ws by (auto simp: tenancy_inv_def tenancy_refs_def known_simps dest: find_row_key)
    moreover have "tenancy_tree (tn_groups ?s)"
    proof -
      have "null_or (\<lambda>p. \<exists>h \<in> set (tn_groups s). g_id h = p \<and> g_workspace h = g_workspace g) (g_parent g)"
      proof (cases "g_parent g")
        case (Some p)
        then obtain h where h: "h \<in> set (tn_groups s)" "g_id h = p"
          using par by (auto simp: parent_known_def group_FindByID_def dest: find_row_SomeD)
        have "g_workspace h = g_workspace g"
          by (rule parent_same_workspace [OF inv reads(2) [of 0] reads(1) [of 0] _ h]) (use None Some in simp)
        with Some h show ?thesis by auto
      qed simp
      then show ?thesis using inv by (fastforce simp: tenancy_inv_def tenancy_tree_def null_or_def split: option.splits)
    qed
    moreover have "distinct (root_names (tn_groups ?s))"
    proof -
      have "g_parent g = None \<Longrightarrow> (g_workspace g, g_name g) \<notin> set (root_names (tn_groups s))"
        using nm fresh by (fastforce simp: root_name_taken_def root_names_def)
      then show ?thesis using inv by (cases "g_parent g") (simp_all add: root_names_snoc tenancy_inv_def)
    qed
    moreover have "later s ?s" by (auto simp: later_def)
    ultimately show ?thesis by (simp add: good_def tenancy_inv_def)
  qed
  with None inv show ?thesis
    by (auto simp: group_Create_def Let_def intro!: tn_run_good split: if_splits)
qed

definition unique_roots :: "Group list \<Rightarrow> bool" where
  "unique_roots gs \<longleftrightarrow> (\<forall>g \<in> set gs. \<forall>h \<in> set gs. g_parent g = None \<and> g_parent h = None \<and>
     g_workspace g = g_workspace h \<and> g_name g = g_name h \<longrightarrow> g_id g = g_id h)"

lemma root_names_iff:
  assumes "distinct (map g_id gs)"
  shows "distinct (root_names gs) \<longleftrightarrow> unique_roots gs"
proof -
  have d: "distinct gs" and inj: "\<And>g h. g \<in> set gs \<Longrightarrow> h \<in> set gs \<Longrightarrow> g_id g = g_id h \<longleftrightarrow> g = h"
    using assms by (auto simp: distinct_map inj_on_def)
  have "distinct (root_names gs) \<longleftrightarrow>
      inj_on (\<lambda>g. (g_workspace g, g_name g)) (set (filter (\<lambda>g. g_parent g = None) gs))"
    using d by (simp add: root_names_def distinct_map)
  also have "\<dots> \<longleftrightarrow> unique_roots gs"
    unfolding inj_on_def unique_roots_def using inj by auto
  finally show ?thesis .
qed

lemma update_groups_good:
  assumes inv: "tenancy_inv s" and reads: "tenancy_inv r" "later r s"
    and par: "case g_parent g of None \<Rightarrow> True | Some p \<Rightarrow> parentInWorkspace p (g_workspace g) r = None"
  shows "good s (snd (tn_run flt (qUpdateGroup g) s))"
proof (rule tn_run_good [OF inv])
  fix a s'
  assume run: "qUpdateGroup g s = Inr (a, s')"
  let ?p = "\<lambda>h. g_id h = g_id g \<and> g_workspace h = g_workspace g"
  let ?f = "\<lambda>h. h\<lparr>g_name := g_name g, g_parent := g_parent g\<rparr>"
  let ?gs = "update_where ?p ?f (tn_groups s)"
  have s': "s' = s\<lparr>tn_groups := ?gs\<rparr>" and known: "parent_known g s" "\<not> root_name_taken g (tn_groups s)"
    and hit: "\<exists>h \<in> set (tn_groups s). ?p h"
    using run by (auto simp: qUpdateGroup_def Let_def split: if_splits)
  have ids: "map g_id ?gs = map g_id (tn_groups s)" "map g_workspace ?gs = map g_workspace (tn_groups s)"
    by (rule map_update_where, simp)+
  then have sets: "g_id ` set ?gs = g_id ` set (tn_groups s)" "g_workspace ` set ?gs = g_workspace ` set (tn_groups s)"
    by (metis list.set_map)+
  have same: "\<exists>h' \<in> set ?gs. g_id h' = g_id h \<and> g_workspace h' = g_workspace h" if "h \<in> set (tn_groups s)" for h
    using that unfolding set_update_where by (intro bexI [of _ "if ?p h then ?f h else h"]) auto
  have same': "\<exists>h \<in> set (tn_groups s). g_id h' = g_id h \<and> g_workspace h' = g_workspace h" if "h' \<in> set ?gs" for h'
  proof -
    obtain h where "h \<in> set (tn_groups s)" "h' = (if ?p h then ?f h else h)"
      using \<open>h' \<in> set ?gs\<close> unfolding set_update_where by blast
    then show ?thesis by (intro bexI [of _ h]) auto
  qed
  have one: "h = h'" if "h \<in> set (tn_groups s)" "h' \<in> set (tn_groups s)" "g_id h = g_id h'" for h h'
    using that inv by (auto simp: tenancy_inv_def tenancy_keys_def distinct_map inj_on_def)
  have "\<forall>g \<in> set ?gs. g_id g \<le> tn_group_seq s"
    using inv same' by (fastforce simp: tenancy_inv_def tenancy_keys_def)
  then have "tenancy_keys s'" using inv ids by (simp add: s' tenancy_inv_def tenancy_keys_def)
  moreover have "tenancy_refs s'"
  proof -
    have "\<forall>g \<in> set ?gs. g_workspace g \<in> w_id ` set (tn_workspaces s)"
      using inv same' by (fastforce simp: tenancy_inv_def tenancy_refs_def)
    then show ?thesis using inv sets by (simp add: s' tenancy_inv_def tenancy_refs_def)
  qed
  moreover have "tenancy_tree (tn_groups s')"
  proof -
    have "null_or (\<lambda>p. \<exists>h \<in> set (tn_groups s). g_id h = p \<and> g_workspace h = g_workspace g) (g_parent g)"
    proof (cases "g_parent g")
      case (Some p)
      then obtain h where h: "h \<in> set (tn_groups s)" "g_id h = p"
        using known by (auto simp: parent_known_def group_FindByID_def dest: find_row_SomeD)
      have "g_workspace h = g_workspace g"
        by (rule parent_same_workspace [OF inv reads(2,1) _ h]) (use par Some in simp)
      with Some h show ?thesis by auto
    qed simp
    then have new: "null_or (\<lambda>p. \<exists>h \<in> set ?gs. g_id h = p \<and> g_workspace h = g_workspace g) (g_parent g)"
      using same by (cases "g_parent g") fastforce+
    have old: "null_or (\<lambda>p. \<exists>h \<in> set ?gs. g_id h = p \<and> g_workspace h = g_workspace x) (g_parent x)"
      if "x \<in> set (tn_groups s)" for x
      using that inv same by (cases "g_parent x") (fastforce simp: tenancy_inv_def tenancy_tree_def)+
    show ?thesis unfolding s' tenancy_tree_def using new old by (auto simp: set_update_where)
  qed
  moreover have "distinct (root_names (tn_groups s'))"
  proof -
    have keys: "distinct (map g_id (tn_groups s))" using inv by (simp add: tenancy_inv_def tenancy_keys_def)
    have old: "unique_roots (tn_groups s)" using inv root_names_iff [OF keys] by (simp add: tenancy_inv_def)
    have "unique_roots ?gs"
      unfolding unique_roots_def
    proof (intro ballI impI, elim conjE)
      fix x y
      assume xy: "x \<in> set ?gs" "y \<in> set ?gs" "g_parent x = None" "g_parent y = None"
        "g_workspace x = g_workspace y" "g_name x = g_name y"
      obtain x' y' where x': "x' \<in> set (tn_groups s)" "x = (if ?p x' then ?f x' else x')"
        and y': "y' \<in> set (tn_groups s)" "y = (if ?p y' then ?f y' else y')"
        using xy(1,2) unfolding set_update_where by blast
      show "g_id x = g_id y"
      proof (cases "?p x'"; cases "?p y'")
        assume c: "\<not> ?p x'" "\<not> ?p y'"
        have "x = x'" "y = y'"
          by (rule trans [OF x'(2) if_not_P [OF c(1)]], rule trans [OF y'(2) if_not_P [OF c(2)]])
        then show ?thesis using x'(1) y'(1) xy old unfolding unique_roots_def by blast
      next
        assume c: "?p x'" "\<not> ?p y'"
        have e: "x = ?f x'" "y = y'"
          by (rule trans [OF x'(2) if_P [OF c(1)]], rule trans [OF y'(2) if_not_P [OF c(2)]])
        then have "g_parent g = None" "g_workspace y' = g_workspace g" "g_name y' = g_name g" "g_parent y' = None"
          using xy c by auto
        then have "g_id y' = g_id g" using known(2) y'(1) unfolding root_name_taken_def by blast
        then show ?thesis using e c by simp
      next
        assume c: "\<not> ?p x'" "?p y'"
        have e: "x = x'" "y = ?f y'"
          by (rule trans [OF x'(2) if_not_P [OF c(1)]], rule trans [OF y'(2) if_P [OF c(2)]])
        then have "g_parent g = None" "g_workspace x' = g_workspace g" "g_name x' = g_name g" "g_parent x' = None"
          using xy c by auto
        then have "g_id x' = g_id g" using known(2) x'(1) unfolding root_name_taken_def by blast
        then show ?thesis using e c by simp
      qed (use x' y' in simp)
    qed
    then show ?thesis using root_names_iff [of ?gs] keys ids by (simp add: s')
  qed
  moreover have "later s s'" using same' by (fastforce simp: later_def s')
  ultimately show "good s s'" by (simp add: good_def tenancy_inv_def)
qed

lemma group_Update_good:
  assumes "tenancy_inv s" and "\<And>n. tenancy_inv (reads n)" "\<And>n. later (reads n) s"
    and "group_Update flt reads g s = Some (r, s')"
  shows "good s s'"
  using assms update_groups_good [OF assms(1), of "reads 1" g flt]
  by (auto simp: group_Update_def split: option.splits if_splits bool.splits)

text \<open>The cascade ends when no group refers to a deleted one; what stays is a filtered table.\<close>

lemma cascade_filter: "\<exists>p. cascade_groups ids gs = filter p gs"
proof (induction ids gs rule: cascade_groups.induct)
  case (1 ids gs)
  show ?case
  proof (cases "filter (doomed ids) gs = []")
    case True
    then have "cascade_groups ids gs = filter (\<lambda>_. True) gs" by (simp add: cascade_groups.simps)
    then show ?thesis by blast
  next
    case False
    then show ?thesis using 1 by (auto simp: cascade_groups.simps [of ids gs])
  qed
qed

lemma cascade_closed:
  assumes "\<forall>g \<in> set gs. null_or (\<lambda>p. p \<in> set ids \<or> (\<exists>h \<in> set gs. g_id h = p \<and> g_workspace h = g_workspace g)) (g_parent g)"
  shows "tenancy_tree (cascade_groups ids gs)"
  using assms
proof (induction ids gs rule: cascade_groups.induct)
  case (1 ids gs)
  show ?case
  proof (cases "filter (doomed ids) gs = []")
    case True
    then have "\<forall>g \<in> set gs. \<not> doomed ids g" by (simp add: filter_empty_conv)
    then have "tenancy_tree gs" using 1(2)
      by (fastforce simp: tenancy_tree_def doomed_def null_or_def some_and_def split: option.splits)
    with True show ?thesis by (simp add: cascade_groups.simps)
  next
    case False
    let ?gone = "filter (doomed ids) gs" and ?rest = "filter (\<lambda>g. \<not> doomed ids g) gs"
    have "null_or (\<lambda>p. p \<in> set (map g_id ?gone) \<or> (\<exists>h \<in> set ?rest. g_id h = p \<and> g_workspace h = g_workspace g)) (g_parent g)"
      if "g \<in> set ?rest" for g
    proof (cases "g_parent g")
      case (Some p)
      then have "p \<notin> set ids" using that by (simp add: doomed_def)
      with Some 1(2) that obtain h where "h \<in> set gs" "g_id h = p" "g_workspace h = g_workspace g" by fastforce
      with Some show ?thesis by (cases "doomed ids h") auto
    qed simp
    then have "tenancy_tree (cascade_groups (map g_id ?gone) ?rest)" using 1(1) [OF False] by blast
    with False show ?thesis by (simp add: cascade_groups.simps [of ids gs])
  qed
qed

lemma group_Delete_good: "tenancy_inv s \<Longrightarrow> good s (snd (group_Delete flt i s))"
  unfolding group_Delete_def
proof (rule tn_run_good)
  fix a s'
  let ?gs = "cascade_groups [i] (tn_groups s)"
  assume inv: "tenancy_inv s" and "(if group_FindByID i s = None then Inl ErrGroupNotFound
       else let gs = ?gs in Inr ((), s\<lparr>tn_groups := gs,
         tn_members := filter (\<lambda>m. fst m \<in> g_id ` set gs) (tn_members s)\<rparr>)) = Inr (a, s')"
  then have s': "s' = s\<lparr>tn_groups := ?gs, tn_members := filter (\<lambda>m. fst m \<in> g_id ` set ?gs) (tn_members s)\<rparr>"
    by (simp add: Let_def split: if_splits)
  obtain p where p: "?gs = filter p (tn_groups s)" using cascade_filter by blast
  have "tenancy_tree ?gs"
    by (rule cascade_closed) (use inv in \<open>fastforce simp: tenancy_inv_def tenancy_tree_def null_or_def split: option.splits\<close>)
  then show "good s s'" unfolding s' p by (rule good_groups_filter [OF inv])
qed

text \<open>Memberships.\<close>

definition members_ok :: "tenancy \<Rightarrow> (int \<times> int) list \<Rightarrow> bool" where
  "members_ok s ms \<longleftrightarrow> distinct ms \<and>
     (\<forall>m \<in> set ms. fst m \<in> g_id ` set (tn_groups s) \<and> snd m \<in> pa_id ` set (tn_accounts s))"

lemma inv_members: "tenancy_inv s \<Longrightarrow> members_ok s (tn_members s)"
  by (simp add: tenancy_inv_def tenancy_keys_def tenancy_refs_def members_ok_def)

lemma good_members: "tenancy_inv s \<Longrightarrow> members_ok s ms \<Longrightarrow> good s (s\<lparr>tn_members := ms\<rparr>)"
  by (auto simp: good_def tenancy_inv_def tenancy_keys_def tenancy_refs_def members_ok_def later_groups)

lemma members_ok_filter: "members_ok s ms \<Longrightarrow> members_ok s (filter p ms)"
  by (auto simp: members_ok_def)

lemma insert_member_good: "tenancy_inv s \<Longrightarrow> insert_member g a s = Some s' \<Longrightarrow> good s s'"
  using inv_members [of s]
  by (auto simp: insert_member_def known_simps members_ok_def dest!: find_row_key intro!: good_members split: if_splits)

lemma insert_members_good: "tenancy_inv s \<Longrightarrow> insert_members g as s = Some s' \<Longrightarrow> good s s'"
proof (induction as arbitrary: s)
  case (Cons a as)
  then show ?case
    by (auto split: if_splits option.splits intro: good_step [OF insert_member_good])
qed simp

lemma AddAccount_good: "tenancy_inv s \<Longrightarrow> good s (snd (AddAccount flt g a s))"
  unfolding AddAccount_def by (rule tn_run_good) (auto split: option.splits intro: insert_member_good)

lemma RemoveAccount_good: "tenancy_inv s \<Longrightarrow> good s (snd (RemoveAccount flt g a s))"
  unfolding RemoveAccount_def by (rule tn_run_good) (auto intro!: good_members members_ok_filter inv_members)

lemma good_clear: "tenancy_inv s \<Longrightarrow> good s (s\<lparr>tn_members := filter p (tn_members s)\<rparr>)"
  by (intro good_members members_ok_filter inv_members)

lemma SetAccounts_good: "tenancy_inv s \<Longrightarrow> good s (snd (SetAccounts flt g ids s))"
  unfolding SetAccounts_def
  by (rule tn_run_good) (auto split: option.splits intro: good_step [OF good_clear insert_members_good])

lemma resync_good: "tenancy_inv s \<Longrightarrow> good s (resyncWorkspaceChannels w pref ids s)"
  by (auto simp: resyncWorkspaceChannels_def channel_key_def intro!: good_channels channels_ok_update inv_channels)

lemma RemoveAccountFromGroupTx_good: "tenancy_inv s \<Longrightarrow> good s (snd (RemoveAccountFromGroupTx flt g w a s))"
  unfolding RemoveAccountFromGroupTx_def
  by (auto intro!: tn_run_good split: sum.splits intro: good_step [OF good_clear resync_good])

lemma language_accounts: "map pa_id (set_language user l a rs) = map pa_id rs"
  unfolding set_language_def by (rule map_update_where) simp

lemma image_eq_map: "map f xs = map f ys \<Longrightarrow> f ` set xs = f ` set ys"
  by (metis list.set_map)

lemmas language_ids = image_eq_map [OF language_accounts]

lemma good_language: "tenancy_inv s \<Longrightarrow> good s (s\<lparr>tn_accounts := set_language user l a (tn_accounts s)\<rparr>)"
  by (auto simp: good_def tenancy_inv_def tenancy_keys_def tenancy_refs_def later_groups language_accounts language_ids)

lemma good_add_member:
  assumes "tenancy_inv s" and "(g, a) \<notin> set (tn_members s)" and "g \<in> g_id ` set (tn_groups s)"
    and "a \<in> pa_id ` set (tn_accounts s)"
  shows "good s (s\<lparr>tn_members := tn_members s @ [(g, a)]\<rparr>)"
  by (rule good_members [OF assms(1)]) (use assms inv_members [OF assms(1)] in \<open>auto simp: members_ok_def\<close>)

lemma replace_members_good:
  assumes "tenancy_inv s" and "replace_members g user us s = Some s'" and "g \<in> g_id ` set (tn_groups s)"
    and "\<forall>a \<in> set (map fst us). a \<in> pa_id ` set (tn_accounts s)"
  shows "good s s' \<and> tn_groups s' = tn_groups s \<and> tn_workspaces s' = tn_workspaces s \<and>
    map pa_id (tn_accounts s') = map pa_id (tn_accounts s)"
  using assms
proof (induction us arbitrary: s)
  case (Cons u us)
  obtain a l where u: "u = (a, l)" by (cases u)
  let ?s1 = "s\<lparr>tn_members := tn_members s @ [(g, a)]\<rparr>"
  let ?s = "?s1\<lparr>tn_accounts := set_language user l a (tn_accounts ?s1)\<rparr>"
  have new: "(g, a) \<notin> set (tn_members s)" and rest: "replace_members g user us ?s = Some s'"
    using Cons.prems(2) u by (auto split: if_splits)
  have "good s ?s1" by (rule good_add_member [OF Cons.prems(1) new Cons.prems(3)]) (use Cons.prems(4) u in simp)
  then have one: "good s ?s" by (rule good_step) (rule good_language)
  have ids: "map pa_id (tn_accounts ?s) = map pa_id (tn_accounts s)" by (simp add: language_accounts)
  have "good ?s s' \<and> tn_groups s' = tn_groups ?s \<and> tn_workspaces s' = tn_workspaces ?s \<and>
      map pa_id (tn_accounts s') = map pa_id (tn_accounts ?s)"
    by (rule Cons.IH [OF good_inv [OF one] rest])
      (use Cons.prems(3,4) u in \<open>simp_all add: language_ids\<close>)
  with one ids show ?case by (auto intro: good_trans)
qed simp

lemma upserts_good:
  assumes "channels_ok s cs" and "w \<in> w_id ` set (tn_workspaces s)" and "\<forall>a \<in> set as. a \<in> pa_id ` set (tn_accounts s)"
  shows "channels_ok s (foldl (\<lambda>cs a. upsert_channel now w a grp cs) cs as)"
  using assms by (induction as arbitrary: cs) (auto simp: channels_ok_upsert)

lemma settings_good:
  assumes inv: "tenancy_inv s" and run: "settings_tx now g w user us s = Inr (u, s')"
  shows "good s s'"
proof -
  obtain name where lock: "lockGroupForUpdate g w s = Inr name"
    using run by (auto simp: settings_tx_def split: sum.splits)
  then obtain r where r: "r \<in> set (tn_groups s)" "g_id r = g" "g_workspace r = w"
    by (auto simp: lockGroupForUpdate_def group_FindByID_def dest: find_row_SomeD split: option.splits if_splits)
  let ?s0 = "s\<lparr>tn_members := filter (\<lambda>m. fst m \<noteq> g) (tn_members s)\<rparr>"
  have own: "\<forall>a \<in> set (map fst us). a \<in> pa_id ` set (tn_accounts s)"
    using run lock by (fastforce simp: settings_tx_def Let_def split: if_splits)
  obtain s1 where s1: "replace_members g user us ?s0 = Some s1"
    and s': "s' = resyncWorkspaceChannels w g (remdups (map snd (filter (\<lambda>m. fst m = g) (tn_members s)) @ map fst us))
        (s1\<lparr>tn_channels := foldl (\<lambda>cs a. upsert_channel now w a (Some name) cs) (tn_channels s1) (map fst us)\<rparr>)"
    using run lock by (auto simp: settings_tx_def Let_def split: if_splits option.splits)
  have 0: "good s ?s0" by (rule good_clear [OF inv])
  have 1: "good ?s0 s1 \<and> tn_groups s1 = tn_groups ?s0 \<and> tn_workspaces s1 = tn_workspaces ?s0 \<and>
      map pa_id (tn_accounts s1) = map pa_id (tn_accounts ?s0)"
    by (rule replace_members_good [OF good_inv [OF 0] s1]) (use r own in auto)
  have "w \<in> w_id ` set (tn_workspaces s)" using inv r by (auto simp: tenancy_inv_def tenancy_refs_def)
  moreover have "\<forall>a \<in> set (map fst us). a \<in> pa_id ` set (tn_accounts s1)"
    using own 1 image_eq_map [of pa_id "tn_accounts s1" "tn_accounts s"] by simp
  ultimately have "channels_ok s1 (foldl (\<lambda>cs a. upsert_channel now w a (Some name) cs) (tn_channels s1) (map fst us))"
    using 1 by (intro upserts_good inv_channels good_inv [of ?s0]) auto
  then have "good s1 (s1\<lparr>tn_channels := foldl (\<lambda>cs a. upsert_channel now w a (Some name) cs) (tn_channels s1) (map fst us)\<rparr>)"
    using 1 good_inv by (blast intro: good_channels)
  then have "good s1 s'" unfolding s' by (rule good_step) (rule resync_good)
  with 0 1 show ?thesis by (blast intro: good_trans)
qed

lemma UpdateSettings_good: "tenancy_inv s \<Longrightarrow> good s (snd (UpdateSettings flt now g w user us s))"
  by (auto simp: UpdateSettings_def intro!: tn_run_good intro: settings_good)

text \<open>Destinations.\<close>

lemma dest_Create_good: "tenancy_inv s \<Longrightarrow> good s (snd (dest_Create flt now valid d s))"
  unfolding dest_Create_def Let_def
  by (auto intro!: tn_run_good split: if_splits)
    (auto simp: good_def tenancy_inv_def tenancy_keys_def tenancy_refs_def known_simps destination_key_def later_groups
      find_row_None_iff dest!: find_row_key)

lemma good_destinations:
  assumes "tenancy_inv s" and "distinct (map xd_id ds)" "distinct (map destination_key ds)"
    and "destination_key ` set ds \<subseteq> destination_key ` set (tn_destinations s)"
  shows "good s (s\<lparr>tn_destinations := ds\<rparr>)"
proof -
  have "xd_workspace d \<in> w_id ` set (tn_workspaces s) \<and> xd_account d \<in> pa_id ` set (tn_accounts s)" if "d \<in> set ds" for d
  proof -
    have "destination_key d \<in> destination_key ` set (tn_destinations s)" using that assms(4) by blast
    then obtain d' where "d' \<in> set (tn_destinations s)" "destination_key d = destination_key d'" by blast
    then show ?thesis using assms(1) by (simp add: tenancy_inv_def tenancy_refs_def destination_key_def)
  qed
  then show ?thesis using assms(1-3)
    by (auto simp: good_def tenancy_inv_def tenancy_keys_def tenancy_refs_def later_groups)
qed

lemma dest_Update_good: "tenancy_inv s \<Longrightarrow> good s (snd (UpdateEnabledAndDefaults flt valid i en df s))"
proof -
  assume inv: "tenancy_inv s"
  let ?f = "\<lambda>d. d\<lparr>xd_enabled := (case en of None \<Rightarrow> xd_enabled d | Some b \<Rightarrow> b),
                 xd_metadata := (if df = '''' then xd_metadata d else df)\<rparr>"
  let ?ds = "update_where (\<lambda>d. xd_id d = i) ?f (tn_destinations s)"
  have keys: "map xd_id ?ds = map xd_id (tn_destinations s)"
    "map destination_key ?ds = map destination_key (tn_destinations s)"
    by (rule map_update_where, simp add: destination_key_def)+
  have "good s (s\<lparr>tn_destinations := ?ds\<rparr>)"
    using inv keys image_eq_map [OF keys(2)]
    by (intro good_destinations) (simp_all add: tenancy_inv_def tenancy_keys_def)
  with inv show ?thesis
    by (auto simp: UpdateEnabledAndDefaults_def intro!: tn_run_good split: if_splits)
qed

lemma dest_Delete_good: "tenancy_inv s \<Longrightarrow> good s (snd (dest_Delete flt b i s))"
  by (auto simp: dest_Delete_def intro!: tn_run_good good_destinations distinct_map_filter_where split: if_splits)
    (auto simp: tenancy_inv_def tenancy_keys_def)

lemma attach_all_good: "tenancy_inv s \<Longrightarrow> good s (snd (attach_all fs now w name as s))"
proof (induction as arbitrary: fs s)
  case (Cons a as)
  let ?f = "case fs of [] \<Rightarrow> DbOk | f # _ \<Rightarrow> f"
  have "good s (snd (AttachChannel ?f now w a name s))" by (rule AttachChannel_good [OF Cons.prems])
  with Cons.IH show ?case
    by (cases "AttachChannel ?f now w a name s") (auto split: sum.split intro: good_step)
qed simp

lemma handle_good: "tenancy_inv s \<Longrightarrow> good s (snd (handleSetGroupAccounts flt fs now c g ids s))"
proof -
  assume inv: "tenancy_inv s"
  have "good s s2" if "SetAccounts flt g v s = (r, s1)" "attach_all fs now w n v s1 = (ok, s2)" for r s1 ok s2 v w n
    using SetAccounts_good [OF inv, of flt g v] attach_all_good [of s1 fs now w n v] that by (auto intro: good_step)
  moreover have "good s s1" if "SetAccounts flt g v s = (r, s1)" for r s1 v
    using SetAccounts_good [OF inv, of flt g v] that by simp
  ultimately show ?thesis using inv
    by (auto simp: handleSetGroupAccounts_def Let_def split: option.split sum.split prod.split)
qed

section \<open>Runs\<close>

datatype tn_op =
    ToWsCreate string int | ToWsDelete bool int
  | ToAttach time int int string | ToUpdateChannel int int "string option" "bool option" | ToDetach bool int int
  | ToGroupCreate Group | ToGroupUpdate Group | ToGroupDelete int
  | ToAdd int int | ToRemove int int | ToSet int "int list" | ToRemoveTx int int int
  | ToSettings time int int int "(int \<times> string) list"
  | ToRequest "db_fault list" time int int "int list"
  | ToDestCreate time "string \<Rightarrow> bool" ExternalDestination
  | ToDestUpdate "string \<Rightarrow> bool" string "bool option" string | ToDestDelete bool string

text \<open>An update of a group whose query does not return changes nothing.\<close>

fun tn_step :: "db_fault \<Rightarrow> (nat \<Rightarrow> tenancy) \<Rightarrow> tn_op \<Rightarrow> tenancy \<Rightarrow> tenancy" where
  "tn_step f rd (ToWsCreate n u) s = snd (ws_Create f n u s)"
| "tn_step f rd (ToWsDelete b i) s = snd (ws_Delete f b i s)"
| "tn_step f rd (ToAttach now w a g) s = snd (AttachChannel f now w a g s)"
| "tn_step f rd (ToUpdateChannel w a g e) s = snd (UpdateChannel f w a g e s)"
| "tn_step f rd (ToDetach b w a) s = snd (DetachChannel f b w a s)"
| "tn_step f rd (ToGroupCreate g) s = snd (group_Create f rd g s)"
| "tn_step f rd (ToGroupUpdate g) s = (case group_Update f rd g s of None \<Rightarrow> s | Some (r, s') \<Rightarrow> s')"
| "tn_step f rd (ToGroupDelete i) s = snd (group_Delete f i s)"
| "tn_step f rd (ToAdd g a) s = snd (AddAccount f g a s)"
| "tn_step f rd (ToRemove g a) s = snd (RemoveAccount f g a s)"
| "tn_step f rd (ToSet g ids) s = snd (SetAccounts f g ids s)"
| "tn_step f rd (ToRemoveTx g w a) s = snd (RemoveAccountFromGroupTx f g w a s)"
| "tn_step f rd (ToSettings now g w u us) s = snd (UpdateSettings f now g w u us s)"
| "tn_step f rd (ToRequest fs now c g ids) s = snd (handleSetGroupAccounts f fs now c g ids s)"
| "tn_step f rd (ToDestCreate now v d) s = snd (dest_Create f now v d s)"
| "tn_step f rd (ToDestUpdate v i e df) s = snd (UpdateEnabledAndDefaults f v i e df s)"
| "tn_step f rd (ToDestDelete b i) s = snd (dest_Delete f b i s)"

text \<open>
  The states of a run, the last one first; \<open>ago n\<close> is how many operations ago query \<open>n\<close> of an
  operation read the database.
\<close>

fun tn_exec :: "(db_fault \<times> (nat \<Rightarrow> nat) \<times> tn_op) list \<Rightarrow> tenancy list \<Rightarrow> tenancy list" where
  "tn_exec [] h = h"
| "tn_exec ((f, ago, op) # es) h =
     tn_exec es (tn_step f (\<lambda>n. h ! min (ago n) (length h - 1)) op (hd h) # h)"

lemma tn_step_good:
  assumes "tenancy_inv s" and "\<And>n. tenancy_inv (rd n)" "\<And>n. later (rd n) s"
  shows "good s (tn_step f rd op s)"
  using assms
  by (cases op)
    (auto simp: ws_Create_good ws_Delete_good AttachChannel_good UpdateChannel_good DetachChannel_good group_Create_good
      group_Delete_good AddAccount_good RemoveAccount_good SetAccounts_good RemoveAccountFromGroupTx_good
      UpdateSettings_good handle_good dest_Create_good dest_Update_good dest_Delete_good
      split: option.split intro: group_Update_good)

lemma tn_exec_good:
  assumes "h \<noteq> []" and "\<forall>s \<in> set h. tenancy_inv s \<and> later s (hd h)"
  shows "\<forall>s \<in> set (tn_exec es h). tenancy_inv s"
  using assms
proof (induction es arbitrary: h)
  case (Cons e es)
  obtain f ago op where e: "e = (f, ago, op)" by (cases e)
  let ?rd = "\<lambda>n. h ! min (ago n) (length h - 1)"
  have "min (ago n) (length h - 1) < length h" for n using Cons.prems(1) by (cases h) auto
  then have "?rd n \<in> set h" for n by (rule nth_mem)
  then have rd: "tenancy_inv (?rd n)" "later (?rd n) (hd h)" for n using Cons.prems(2) by blast+
  let ?s = "tn_step f ?rd op (hd h)"
  have "tenancy_inv (hd h)" using Cons.prems by simp
  then have step: "good (hd h) ?s" by (rule tn_step_good) (rule rd)+
  have "tenancy_inv x \<and> later x ?s" if "x \<in> set (?s # h)" for x
    using that Cons.prems(2) step later_trans [of x "hd h" ?s] by (auto simp: good_def)
  then have "\<forall>s \<in> set (tn_exec es (?s # h)). tenancy_inv s" by (intro Cons.IH) simp_all
  then show ?case by (simp add: e)
qed simp

text \<open>
  C16: whatever happens to workspaces, channels, groups, memberships and destinations, in whatever
  order, with lost answers, and however old the reads are on which \<open>Create\<close> and \<open>Update\<close> of a
  group based their checks: keys stay unique (the names of the root groups of a workspace too), no
  row refers to one that is gone, and no group ever hangs below a group of another workspace.
\<close>

theorem tenancy_isolated:
  assumes "tenancy_inv s" and "s' \<in> set (tn_exec es [s])"
  shows "tenancy_inv s'"
  using tn_exec_good [of "[s]" es] assms by simp

section \<open>The cycle check\<close>

lemma next_ancestors_in: "h \<in> set (next_ancestors self gs wt) \<longleftrightarrow>
    h \<in> set gs \<and> g_id h \<noteq> self \<and> (\<exists>a \<in> set wt. g_parent a = Some (g_id h))"
  by (auto simp: next_ancestors_def filter_empty_conv)

text \<open>The query leaves the group itself out, and then looks for it in its result.\<close>

lemma ancestors_not_self:
  "ancestors self gs wt = Some as \<Longrightarrow> \<forall>a \<in> set wt. g_id a \<noteq> self \<Longrightarrow> \<forall>a \<in> set as. g_id a \<noteq> self"
proof (induction self gs wt as rule: ancestors.raw_induct [rotated 1, consumes 1])
  case (1 anc self gs wt as)
  show ?case
  proof (cases "wt = []")
    case False
    then obtain rest where rest: "anc self gs (next_ancestors self gs wt) = Some rest" "as = wt @ rest"
      using 1(2) by (auto simp: bind_eq_Some_conv)
    have "\<forall>a \<in> set rest. g_id a \<noteq> self" by (rule 1(1) [OF rest(1)]) (simp add: next_ancestors_in)
    with rest 1(3) show ?thesis by auto
  qed (use 1(2) in simp)
qed

lemma ancestors_diverges:
  "ancestors self gs wt = Some as \<Longrightarrow>
    \<forall>c \<in> C. c \<in> set gs \<and> g_id c \<noteq> self \<and> (\<exists>h \<in> C. g_parent c = Some (g_id h)) \<Longrightarrow> C \<inter> set wt = {}"
proof (induction self gs wt as rule: ancestors.raw_induct [rotated 1, consumes 1])
  case (1 anc self gs wt as)
  show ?case
  proof (cases "wt = []")
    case False
    then obtain rest where "anc self gs (next_ancestors self gs wt) = Some rest"
      using 1(2) by (auto simp: bind_eq_Some_conv)
    then have "C \<inter> set (next_ancestors self gs wt) = {}" by (rule 1(1)) (rule 1(3))
    then show ?thesis using 1(3) by (fastforce simp: next_ancestors_in disjoint_iff)
  qed simp
qed

lemma filter_key: "distinct (map key t) \<Longrightarrow> filter (\<lambda>r. key r = k) t = (case find_row key k t of None \<Rightarrow> [] | Some r \<Rightarrow> [r])"
proof (induction t)
  case (Cons r t)
  show ?case
  proof (cases "key r = k")
    case True
    then have "\<forall>x \<in> set t. key x \<noteq> k" using Cons.prems by (auto simp: image_iff)
    then have "filter (\<lambda>r. key r = k) t = []" by simp
    with True show ?thesis by simp
  qed (use Cons in simp)
qed simp

lemma next_one:
  assumes "distinct (map g_id gs)"
  shows "next_ancestors self gs [a] =
    (case g_parent a of None \<Rightarrow> []
     | Some p \<Rightarrow> if p = self then [] else case find_row g_id p gs of None \<Rightarrow> [] | Some h \<Rightarrow> [h])"
proof -
  have "next_ancestors self gs [a] = filter (\<lambda>g. g_parent a = Some (g_id g) \<and> g_id g \<noteq> self) gs"
    unfolding next_ancestors_def by (induction gs) auto
  also have "\<dots> = (case g_parent a of None \<Rightarrow> [] | Some p \<Rightarrow> if p = self then [] else filter (\<lambda>g. g_id g = p) gs)"
    by (auto simp: filter_empty_conv split: option.split intro: filter_cong)
  finally show ?thesis using filter_key [OF assms] by (simp split: option.split)
qed

lemma ancestors_returns:
  assumes keys: "distinct (map g_id gs)" and wf: "wf {(p, i). \<exists>g \<in> set gs. g_id g = i \<and> g_parent g = Some p}"
    and "a \<in> set gs"
  shows "\<exists>as. ancestors self gs [a] = Some as"
  using wf assms(3)
proof (induction "g_id a" arbitrary: a)
  case less
  have nil: "\<exists>as. ancestors self gs [] = Some as" by (simp add: ancestors.simps)
  have "\<exists>as. ancestors self gs (next_ancestors self gs [a]) = Some as"
  proof (cases "next_ancestors self gs [a]")
    case (Cons h t)
    then have "next_ancestors self gs [a] = [h]" "h \<in> set gs" "g_parent a = Some (g_id h)"
      using next_one [OF keys, of self a] by (auto split: option.splits if_splits dest: find_row_SomeD)
    then show ?thesis using less by auto
  qed (use nil in simp)
  then show ?case by (auto simp: ancestors.simps [of self gs "[a]"])
qed

text \<open>On every tree of groups the check returns, and finds a cycle only where the group is its own parent.\<close>

lemma cycle_check_blind:
  assumes keys: "distinct (map g_id gs)" and wf: "wf {(p, i). \<exists>g \<in> set gs. g_id g = i \<and> g_parent g = Some p}"
  shows "wouldCreateCycle self parent gs = Some (self = parent)"
proof (cases "self = parent")
  case False
  let ?wt = "filter (\<lambda>g. g_id g = parent) gs"
  have "\<exists>as. ancestors self gs ?wt = Some as"
  proof (cases "find_row g_id parent gs")
    case None
    then have "?wt = []" using filter_key [OF keys] by simp
    then show ?thesis by (simp add: ancestors.simps)
  next
    case (Some a)
    then show ?thesis using filter_key [OF keys, of parent] ancestors_returns [OF keys wf, of a]
      by (auto dest: find_row_SomeD)
  qed
  then obtain as where as: "ancestors self gs ?wt = Some as" ..
  then have "\<forall>a \<in> set as. g_id a \<noteq> self" by (rule ancestors_not_self) (use False in auto)
  with as False show ?thesis by (auto simp: wouldCreateCycle_def)
qed (simp add: wouldCreateCycle_def)

definition hang_below :: "int \<Rightarrow> Group \<Rightarrow> tenancy \<Rightarrow> tenancy" where
  "hang_below p g s = s\<lparr>tn_groups := update_where (\<lambda>h. g_id h = g_id g \<and> g_workspace h = g_workspace g)
     (\<lambda>h. h\<lparr>g_name := g_name g, g_parent := Some p\<rparr>) (tn_groups s)\<rparr>"

lemma group_Update_below:
  assumes "group_FindByID (g_id g) s = Some g" and "group_FindByID p s = Some q" and "g_workspace q = g_workspace g"
  shows "group_Update flt (\<lambda>_. s) (g\<lparr>g_parent := Some p\<rparr>) s =
    (case wouldCreateCycle (g_id g) p (tn_groups s) of
       None \<Rightarrow> None
     | Some True \<Rightarrow> Some (Inl ErrGroupCycle, s)
     | Some False \<Rightarrow> Some (tn_run flt (\<lambda>_. Inr ((), hang_below p g s)) s))"
proof -
  have "g \<in> set (tn_groups s)" using assms(1) by (auto simp: group_FindByID_def dest: find_row_SomeD)
  then have "qUpdateGroup (g\<lparr>g_parent := Some p\<rparr>) s = Inr ((), hang_below p g s)"
    using assms(2) by (auto simp: qUpdateGroup_def parent_known_def root_name_taken_def hang_below_def)
  then have "tn_run flt (qUpdateGroup (g\<lparr>g_parent := Some p\<rparr>)) s =
      tn_run flt (\<lambda>_. Inr ((), hang_below p g s)) s"
    by (simp add: tn_run_def split: db_fault.split)
  then show ?thesis using assms by (simp add: group_Update_def parentInWorkspace_def split: option.split bool.split)
qed

lemma find_hang_below:
  "group_FindByID i s = Some h \<Longrightarrow> group_FindByID i (hang_below p g s) =
     Some (if g_id h = g_id g \<and> g_workspace h = g_workspace g then h\<lparr>g_name := g_name g, g_parent := Some p\<rparr> else h)"
  by (simp add: group_FindByID_def hang_below_def find_row_update_where)

lemma hang_below_keys: "map g_id (tn_groups (hang_below p g s)) = map g_id (tn_groups s)"
  unfolding hang_below_def by (simp, rule map_update_where) simp

lemma check_from:
  assumes "distinct (map g_id (tn_groups s))" and "group_FindByID p s = Some q" and "p \<noteq> self"
    and "g_parent q = None \<or> g_parent q = Some self"
  shows "wouldCreateCycle self p (tn_groups s) = Some False"
proof -
  have q: "g_id q = p" "filter (\<lambda>g. g_id g = p) (tn_groups s) = [q]"
    using assms(2) filter_key [OF assms(1), of p] by (auto simp: group_FindByID_def dest: find_row_SomeD)
  have "next_ancestors self (tn_groups s) [q] = []" using next_one [OF assms(1), of self q] assms(4) by auto
  then have "ancestors self (tn_groups s) [q] = Some [q]" by (simp add: ancestors.simps)
  with q assms(3) show ?thesis by (simp add: wouldCreateCycle_def)
qed

text \<open>
  C20: the check that keeps the groups of a workspace a tree does not work. Any two root groups can
  be hung below each other by two updates, one after the other, both of which succeed; and from
  then on an update that would move a third group below them never returns.
\<close>

theorem group_cycle_unnoticed:
  assumes inv: "tenancy_inv s" and g: "g1 \<in> set (tn_groups s)" "g2 \<in> set (tn_groups s)" "g_id g1 \<noteq> g_id g2"
    and ws: "g_workspace g2 = g_workspace g1" and roots: "g_parent g1 = None" "g_parent g2 = None"
  shows "\<exists>s1 s2.
    group_Update DbOk (\<lambda>_. s) (g2\<lparr>g_parent := Some (g_id g1)\<rparr>) s = Some (Inr (), s1) \<and>
    group_Update DbOk (\<lambda>_. s1) (g1\<lparr>g_parent := Some (g_id g2)\<rparr>) s1 = Some (Inr (), s2) \<and>
    map_option g_parent (group_FindByID (g_id g1) s2) = Some (Some (g_id g2)) \<and>
    map_option g_parent (group_FindByID (g_id g2) s2) = Some (Some (g_id g1)) \<and>
    (\<forall>g \<in> set (tn_groups s). \<forall>flt. g_id g \<notin> {g_id g1, g_id g2} \<and> g_workspace g = g_workspace g1 \<longrightarrow>
       group_Update flt (\<lambda>_. s2) (g\<lparr>g_parent := Some (g_id g1)\<rparr>) s2 = None)"
proof -
  have keys: "distinct (map g_id (tn_groups s))" using inv by (simp add: tenancy_inv_def tenancy_keys_def)
  have find: "group_FindByID (g_id g) s = Some g" if "g \<in> set (tn_groups s)" for g
    using find_row_unique [OF keys that] by (simp add: group_FindByID_def)
  let ?s1 = "hang_below (g_id g1) g2 s" let ?s2 = "hang_below (g_id g2) g1 ?s1"
  have k1: "distinct (map g_id (tn_groups ?s1))" and k2: "distinct (map g_id (tn_groups ?s2))"
    using keys by (simp_all add: hang_below_keys)
  let ?g1 = "g1\<lparr>g_parent := Some (g_id g2)\<rparr>" and ?g2 = "g2\<lparr>g_parent := Some (g_id g1)\<rparr>"
  have f1: "group_FindByID (g_id g1) ?s1 = Some g1" "group_FindByID (g_id g2) ?s1 = Some ?g2"
    using g by (simp_all add: find_hang_below [OF find])
  have f2: "group_FindByID (g_id g1) ?s2 = Some ?g1" "group_FindByID (g_id g2) ?s2 = Some ?g2"
    using g by (simp_all add: find_hang_below [OF f1(1)] find_hang_below [OF f1(2)])
  have "group_Update DbOk (\<lambda>_. s) ?g2 s = Some (Inr (), ?s1)"
    using group_Update_below [OF find [OF g(2)] find [OF g(1)], of DbOk] check_from [OF keys find [OF g(1)], of "g_id g2"]
      g(3) ws roots by (simp add: tn_run_def)
  moreover have "group_Update DbOk (\<lambda>_. ?s1) ?g1 ?s1 = Some (Inr (), ?s2)"
    using group_Update_below [OF f1, of DbOk] check_from [OF k1 f1(2), of "g_id g1"] g(3) ws by (simp add: tn_run_def)
  moreover have "group_Update flt (\<lambda>_. ?s2) (g\<lparr>g_parent := Some (g_id g1)\<rparr>) ?s2 = None"
    if x: "g \<in> set (tn_groups s)" "g_id g \<noteq> g_id g1" "g_id g \<noteq> g_id g2" "g_workspace g = g_workspace g1" for g flt
  proof -
    have fg: "group_FindByID (g_id g) ?s2 = Some g" using x by (simp add: find_hang_below find)
    have in2: "?g1 \<in> set (tn_groups ?s2)" "?g2 \<in> set (tn_groups ?s2)"
      using f2 by (auto simp: group_FindByID_def dest: find_row_SomeD)
    have "filter (\<lambda>h. g_id h = g_id g1) (tn_groups ?s2) = [?g1]"
      using filter_key [OF k2, of "g_id g1"] f2 by (simp add: group_FindByID_def)
    moreover have "ancestors (g_id g) (tn_groups ?s2) [?g1] = None"
    proof (rule ccontr)
      assume "ancestors (g_id g) (tn_groups ?s2) [?g1] \<noteq> None"
      then obtain as where "ancestors (g_id g) (tn_groups ?s2) [?g1] = Some as" by blast
      then have "{?g1, ?g2} \<inter> set [?g1] = {}"
        by (rule ancestors_diverges) (use in2 x in auto)
      then show False by simp
    qed
    ultimately show ?thesis
      using group_Update_below [OF fg f2(1), of flt] x by (simp add: wouldCreateCycle_def)
  qed
  ultimately show ?thesis using f2 by (intro exI [of _ ?s1] exI [of _ ?s2]) simp
qed

section \<open>The accounts of a group\<close>

text \<open>An update of a channel cannot clear its group: NULL leaves the column alone.\<close>

lemma UpdateChannel_never_clears: "snd (UpdateChannel flt w a (Some '''') None s) = s"
proof -
  have "update_where (\<lambda>c. channel_key c = (w, a)) (\<lambda>c. c\<lparr>wc_group := wc_group c, wc_enabled := wc_enabled c\<rparr>) cs = cs" for cs
    by (induction cs) simp_all
  then show ?thesis by (simp add: UpdateChannel_def tn_run_def split: db_fault.split)
qed

lemma valid_accounts:
  assumes "tenancy_inv s"
  shows "length (filter (\<lambda>r. pa_id r \<in> set ids) (tn_accounts s)) = length ids \<longleftrightarrow>
    distinct ids \<and> set ids \<subseteq> pa_id ` set (tn_accounts s)"
proof -
  let ?v = "map pa_id (filter (\<lambda>r. pa_id r \<in> set ids) (tn_accounts s))"
  have "distinct ?v" using assms by (simp add: tenancy_inv_def tenancy_keys_def distinct_map_filter_where)
  then have "card (set ?v) = length ?v" by (rule distinct_card)
  moreover have "set ?v = set ids \<inter> pa_id ` set (tn_accounts s)" by auto
  ultimately have len: "length (filter (\<lambda>r. pa_id r \<in> set ids) (tn_accounts s)) = card (set ids \<inter> pa_id ` set (tn_accounts s))"
    by (metis length_map)
  have "card (set ids \<inter> pa_id ` set (tn_accounts s)) = length ids \<longleftrightarrow> distinct ids \<and> set ids \<subseteq> pa_id ` set (tn_accounts s)"
  proof
    assume eq: "card (set ids \<inter> pa_id ` set (tn_accounts s)) = length ids"
    have "card (set ids \<inter> pa_id ` set (tn_accounts s)) \<le> card (set ids)" by (rule card_mono) auto
    with eq have "card (set ids) = length ids" using card_length [of ids] by simp
    moreover from this eq have "set ids \<inter> pa_id ` set (tn_accounts s) = set ids" by (intro card_subset_eq) auto
    ultimately show "distinct ids \<and> set ids \<subseteq> pa_id ` set (tn_accounts s)" by (auto simp: card_distinct)
  qed (auto simp: distinct_card Int_absorb2)
  with len show ?thesis by simp
qed

lemma insert_members_spec:
  assumes "\<forall>a \<in> set as. 0 < a \<and> account_known a s" and "group_FindByID g s \<noteq> None" and "distinct as"
    and "\<forall>a \<in> set as. (g, a) \<notin> set (tn_members s)"
  shows "insert_members g as s = Some (s\<lparr>tn_members := tn_members s @ map (\<lambda>a. (g, a)) as\<rparr>)"
  using assms
proof (induction as arbitrary: s)
  case (Cons a as)
  let ?s = "s\<lparr>tn_members := tn_members s @ [(g, a)]\<rparr>"
  have "insert_member g a s = Some ?s" using Cons.prems by (simp add: insert_member_def)
  moreover have "insert_members g as ?s = Some (?s\<lparr>tn_members := tn_members ?s @ map (\<lambda>a. (g, a)) as\<rparr>)"
    by (rule Cons.IH) (use Cons.prems in \<open>auto simp: account_known_def group_FindByID_def\<close>)
  ultimately show ?case using Cons.prems by auto
qed simp

lemma upsert_finds:
  "find_row channel_key k (upsert_channel now w a grp cs) =
     (if k = (w, a)
      then Some (case find_row channel_key k cs of
             None \<Rightarrow> \<lparr>wc_workspace = w, wc_account = a, wc_group = grp, wc_enabled = True, wc_created_at = now\<rparr>
           | Some c \<Rightarrow> c\<lparr>wc_group := grp\<rparr>)
      else find_row channel_key k cs)"
proof -
  have new: "find_row channel_key k (cs @ [c]) =
      (case find_row channel_key k cs of None \<Rightarrow> if channel_key c = k then Some c else None | Some x \<Rightarrow> Some x)" for c
    by (induction cs) auto
  have old: "find_row channel_key k (update_where (\<lambda>c. channel_key c = (w, a)) (\<lambda>c. c\<lparr>wc_group := grp\<rparr>) cs) =
      map_option (\<lambda>c. if k = (w, a) then c\<lparr>wc_group := grp\<rparr> else c) (find_row channel_key k cs)"
    by (induction cs) (auto simp: channel_key_def)
  have key: "channel_key \<lparr>wc_workspace = w, wc_account = a, wc_group = grp, wc_enabled = e, wc_created_at = n\<rparr> = (w, a)" for e n
    by (simp add: channel_key_def)
  show ?thesis
  proof (cases "k = (w, a)")
    case True
    show ?thesis using new [unfolded True] old [unfolded True]
      by (simp add: upsert_channel_def key True split: option.split)
  next
    case False
    show ?thesis using False new old by (auto simp: upsert_channel_def key split: option.split)
  qed
qed

definition attached :: "int \<Rightarrow> string \<Rightarrow> int \<Rightarrow> tenancy \<Rightarrow> bool" where
  "attached w name a s \<longleftrightarrow>
     some_and (\<lambda>c. wc_group c = nullif_empty name) (find_row channel_key (w, a) (tn_channels s))"

lemma attach_all_spec:
  assumes "0 < w" and "ws_FindByID w s \<noteq> None" and "\<forall>a \<in> set as. 0 < a \<and> account_known a s"
  shows "\<exists>cs. attach_all [] now w name as s = (True, s\<lparr>tn_channels := cs\<rparr>) \<and>
    (\<forall>a. a \<in> set as \<or> attached w name a s \<longrightarrow> attached w name a (s\<lparr>tn_channels := cs\<rparr>))"
  using assms
proof (induction as arbitrary: s)
  case (Cons a as)
  let ?s = "s\<lparr>tn_channels := upsert_channel now w a (nullif_empty name) (tn_channels s)\<rparr>"
  have at: "AttachChannel DbOk now w a name s = (Inr (), ?s)"
    using Cons.prems by (simp add: AttachChannel_def tn_run_def)
  have "attached w name a ?s" "attached w name b s \<Longrightarrow> attached w name b ?s" for b
    by (auto simp: attached_def upsert_finds split: option.split)
  moreover obtain cs where "attach_all [] now w name as ?s = (True, ?s\<lparr>tn_channels := cs\<rparr>)"
    "\<forall>b. b \<in> set as \<or> attached w name b ?s \<longrightarrow> attached w name b (?s\<lparr>tn_channels := cs\<rparr>)"
    using Cons.IH [of ?s] Cons.prems by (auto simp: account_known_def ws_FindByID_def)
  ultimately show ?case using at by (intro exI [of _ cs]) auto
next
  case Nil
  then show ?case by (intro exI [of _ "tn_channels s"]) simp
qed

text \<open>
  C39: the request that sets the accounts of a group refuses a list exactly when it repeats an id or
  names an account that does not exist. For every other list it makes exactly these accounts the
  members of the group and binds each of them to the caller's workspace under the name of the
  group; whose accounts they are plays no part.
\<close>

theorem group_request_any_account:
  assumes inv: "tenancy_inv s" and r: "r \<in> set (tn_groups s)" "0 < g_workspace r"
    and ws: "ws_FindByID (g_workspace r) s = Some ws" "w_owner ws = caller"
    and pos: "\<forall>a \<in> set ids. 0 < a" and run: "handleSetGroupAccounts DbOk [] now caller (g_id r) ids s = (code, s')"
  shows "(code = 403 \<longleftrightarrow> \<not> (distinct ids \<and> set ids \<subseteq> pa_id ` set (tn_accounts s))) \<and>
    (code = 403 \<longrightarrow> s' = s) \<and>
    (code \<noteq> 403 \<longrightarrow> code = 200 \<and> ListAccountsInGroup (g_id r) s' = sort ids \<and>
      (\<forall>a \<in> set ids. attached (g_workspace r) (g_name r) a s'))"
proof -
  have keys: "distinct (map g_id (tn_groups s))" using inv by (simp add: tenancy_inv_def tenancy_keys_def)
  have fr: "group_FindByID (g_id r) s = Some r" using find_row_unique [OF keys r(1)] by (simp add: group_FindByID_def)
  let ?v = "ValidateAccountOwnership caller (g_workspace r) ids s"
  have v: "?v = map pa_id (filter (\<lambda>r. pa_id r \<in> set ids) (tn_accounts s))"
    using ws by (simp add: ValidateAccountOwnership_def)
  then have len: "length ?v = length ids \<longleftrightarrow> distinct ids \<and> set ids \<subseteq> pa_id ` set (tn_accounts s)"
    using valid_accounts [OF inv] by simp
  show ?thesis
  proof (cases "length ?v = length ids")
    case False
    then have "code = 403" "s' = s" using run fr ws by (simp_all add: handleSetGroupAccounts_def Let_def)
    with False len show ?thesis by simp
  next
    case True
    then have ids: "distinct ids" "set ids \<subseteq> pa_id ` set (tn_accounts s)" using len by auto
    have "distinct (map pa_id (tn_accounts s))" using inv by (simp add: tenancy_inv_def tenancy_keys_def)
    then have dv: "distinct ?v" unfolding v by (rule distinct_map_filter_where)
    have sv: "set ?v = set ids" using ids(2) unfolding v by auto
    have known: "\<forall>a \<in> set ?v. 0 < a \<and> account_known a s"
    proof
      fix a
      assume "a \<in> set ?v"
      then have "a \<in> set ids" using sv by simp
      with ids(2) pos show "0 < a \<and> account_known a s"
        using find_row_None_iff [of pa_id a "tn_accounts s"] by (auto simp: account_known_def)
    qed
    let ?s0 = "s\<lparr>tn_members := filter (\<lambda>m. fst m \<noteq> g_id r) (tn_members s)\<rparr>"
    let ?s1 = "?s0\<lparr>tn_members := tn_members ?s0 @ map (\<lambda>a. (g_id r, a)) ?v\<rparr>"
    have "insert_members (g_id r) ?v ?s0 = Some ?s1"
      by (rule insert_members_spec) (use known dv fr in \<open>auto simp: account_known_def group_FindByID_def\<close>)
    then have set_ok: "SetAccounts DbOk (g_id r) ?v s = (Inr (), ?s1)" by (simp add: SetAccounts_def tn_run_def)
    obtain cs where cs: "attach_all [] now (g_workspace r) (g_name r) ?v ?s1 = (True, ?s1\<lparr>tn_channels := cs\<rparr>)"
        "\<forall>a \<in> set ?v. attached (g_workspace r) (g_name r) a (?s1\<lparr>tn_channels := cs\<rparr>)"
      using attach_all_spec [of "g_workspace r" ?s1 ?v now "g_name r"] r(2) ws(1) known
      by (auto simp: account_known_def ws_FindByID_def)
    have "handleSetGroupAccounts DbOk [] now caller (g_id r) ids s = (200, ?s1\<lparr>tn_channels := cs\<rparr>)"
      using True fr ws set_ok cs(1) by (simp add: handleSetGroupAccounts_def Let_def)
    then have out: "code = 200" "s' = ?s1\<lparr>tn_channels := cs\<rparr>" using run by simp_all
    have "map snd (filter (\<lambda>m. fst m = g_id r) (tn_members s')) = ?v"
      by (simp add: out filter_map o_def)
    moreover have "mset ?v = mset ids" using dv ids(1) sv by (metis mset_set_set)
    ultimately have "ListAccountsInGroup (g_id r) s' = sort ids"
      unfolding ListAccountsInGroup_def by (metis properties_for_sort sorted_sort mset_sort)
    then show ?thesis using ids out cs(2) sv by simp
  qed
qed

section \<open>Settings\<close>

lemma replace_members_spec:
  "replace_members g user us s = Some s' \<Longrightarrow>
     tn_members s' = tn_members s @ map (\<lambda>u. (g, fst u)) us \<and> tn_groups s' = tn_groups s \<and> tn_channels s' = tn_channels s"
  by (induction us arbitrary: s) (auto split: if_splits)

lemma channel_group_channels [simp]: "channel_group w p a (s\<lparr>tn_channels := cs\<rparr>) = channel_group w p a s"
  by (simp add: channel_group_def groups_of_def)

lemma preferred_group:
  assumes inv: "tenancy_inv s" and r: "r \<in> set (tn_groups s)" and m: "(g_id r, a) \<in> set (tn_members s)"
  shows "channel_group (g_workspace r) (g_id r) a s = Some (g_name r)"
proof -
  let ?key = "\<lambda>g. (if g_id g = g_id r then 0 else 1 :: int, g_name g, g_id g)"
  let ?gs = "groups_of (g_workspace r) a s"
  have "r \<in> set ?gs" using r m by (simp add: groups_of_def)
  then obtain c where c: "first_by ?key ?gs = Some c" by (cases "first_by ?key ?gs") auto
  have "?key c \<le> ?key r" using first_by_SomeD(2) [OF c] \<open>r \<in> set ?gs\<close> by blast
  then have "g_id c = g_id r" by (auto split: if_splits simp: less_eq_prod_def)
  moreover have "c \<in> set (tn_groups s)" using first_by_SomeD(1) [OF c] by (simp add: groups_of_def)
  ultimately have "c = r" using inv r by (auto simp: tenancy_inv_def tenancy_keys_def distinct_map inj_on_def)
  with c show ?thesis by (simp add: channel_group_def)
qed

lemma resync_spec:
  assumes "c \<in> set (tn_channels (resyncWorkspaceChannels w p ids s))" and "wc_workspace c = w" "wc_account c \<in> set ids"
  shows "wc_group c = channel_group w p (wc_account c) (resyncWorkspaceChannels w p ids s)"
proof -
  let ?p = "\<lambda>c. wc_workspace c = w \<and> wc_account c \<in> set ids"
  let ?f = "\<lambda>c. c\<lparr>wc_group := channel_group w p (wc_account c) s\<rparr>"
  have ids: "ids \<noteq> []" using assms(3) by auto
  then have "c \<in> set (update_where ?p ?f (tn_channels s))" using assms(1) by (simp add: resyncWorkspaceChannels_def)
  then obtain x where "c = (if ?p x then ?f x else x)" unfolding set_update_where by blast
  with assms(2,3) have "wc_group c = channel_group w p (wc_account c) s" by (cases "?p x") auto
  with ids show ?thesis by (simp add: resyncWorkspaceChannels_def)
qed

lemma resync_keys:
  "channel_key ` set (tn_channels (resyncWorkspaceChannels w p ids s)) = channel_key ` set (tn_channels s)"
proof -
  have "map channel_key (tn_channels (resyncWorkspaceChannels w p ids s)) = map channel_key (tn_channels s)"
    unfolding resyncWorkspaceChannels_def by (simp, intro impI map_update_where) (simp add: channel_key_def)
  then show ?thesis by (rule image_eq_map)
qed

lemma upserts_keys:
  "set (map (\<lambda>a. (w, a)) as) \<union> channel_key ` set cs \<subseteq>
     channel_key ` set (foldl (\<lambda>cs a. upsert_channel now w a grp cs) cs as)"
proof (induction as arbitrary: cs)
  case (Cons a as)
  have "channel_key ` set (upsert_channel now w a grp cs) = insert (w, a) (channel_key ` set cs)"
    by (rule upsert_keys)
  with Cons.IH [of "upsert_channel now w a grp cs"] show ?case by auto
qed simp

text \<open>
  C40: when the settings of a group are saved, the group has exactly the listed accounts, each owned
  by the caller, and no other group gained or lost one; every listed account is bound to the
  workspace under the name of this group; and every account that was listed before or is now shows
  the group it belongs to: this one, else the first remaining one by name, else none.
\<close>

theorem settings_consistent:
  assumes inv: "tenancy_inv s" and run: "UpdateSettings DbOk now g w user us s = (Inr (), s')"
  shows "ListAccountsInGroup g s' = sort (map fst us) \<and>
    filter (\<lambda>m. fst m \<noteq> g) (tn_members s') = filter (\<lambda>m. fst m \<noteq> g) (tn_members s) \<and>
    (\<forall>a \<in> set (map fst us). some_and (\<lambda>x. ac_owner x = user) (find_row pa_id a (tn_accounts s)) \<and>
       some_and (\<lambda>c. wc_group c = map_option g_name (group_FindByID g s)) (find_row channel_key (w, a) (tn_channels s'))) \<and>
    (\<forall>c \<in> set (tn_channels s'). wc_workspace c = w \<and>
       wc_account c \<in> set (ListAccountsInGroup g s) \<union> set (map fst us) \<longrightarrow>
       wc_group c = channel_group w g (wc_account c) s')"
proof -
  have tx: "settings_tx now g w user us s = Inr ((), s')"
    using run by (auto simp: UpdateSettings_def tn_run_def split: if_splits sum.splits)
  then have inv': "tenancy_inv s'" using settings_good [OF inv] good_inv by blast
  obtain name where lock: "lockGroupForUpdate g w s = Inr name"
    using tx by (auto simp: settings_tx_def split: sum.splits)
  then obtain r where r: "group_FindByID g s = Some r" "r \<in> set (tn_groups s)" "g_id r = g" "g_workspace r = w"
    by (auto simp: lockGroupForUpdate_def group_FindByID_def dest: find_row_SomeD split: option.splits if_splits)
  let ?s0 = "s\<lparr>tn_members := filter (\<lambda>m. fst m \<noteq> g) (tn_members s)\<rparr>"
  let ?ids = "remdups (map snd (filter (\<lambda>m. fst m = g) (tn_members s)) @ map fst us)"
  let ?cs = "\<lambda>s1. foldl (\<lambda>cs a. upsert_channel now w a (Some name) cs) (tn_channels s1) (map fst us)"
  have own: "\<forall>a \<in> set (map fst us). a \<in> set (map pa_id (filter (\<lambda>x. ac_owner x = user) (tn_accounts s)))"
    using tx lock by (auto simp: settings_tx_def Let_def split: if_splits)
  obtain s1 where s1: "replace_members g user us ?s0 = Some s1"
    and s': "s' = resyncWorkspaceChannels w g ?ids (s1\<lparr>tn_channels := ?cs s1\<rparr>)"
    using tx lock by (auto simp: settings_tx_def Let_def split: if_splits option.splits)
  have m1: "tn_members s1 = tn_members ?s0 @ map (\<lambda>u. (g, fst u)) us" "tn_groups s1 = tn_groups s"
    using replace_members_spec [OF s1] by simp_all
  have t': "tn_members s' = tn_members s1" "tn_groups s' = tn_groups s1"
    by (simp_all add: s' resyncWorkspaceChannels_def)
  have "map snd (filter (\<lambda>m. fst m = g) (tn_members s')) = map fst us"
    by (simp add: t' m1 filter_map o_def)
  then have "ListAccountsInGroup g s' = sort (map fst us)" by (simp add: ListAccountsInGroup_def)
  moreover have "filter (\<lambda>m. fst m \<noteq> g) (tn_members s') = filter (\<lambda>m. fst m \<noteq> g) (tn_members s)"
    by (simp add: t' m1 filter_map o_def)
  moreover have shown: "wc_group c = channel_group w g (wc_account c) s'"
    if "c \<in> set (tn_channels s')" "wc_workspace c = w" "wc_account c \<in> set (ListAccountsInGroup g s) \<union> set (map fst us)" for c
    unfolding s' by (rule resync_spec) (use that in \<open>auto simp: s' ListAccountsInGroup_def\<close>)
  moreover have "some_and (\<lambda>x. ac_owner x = user) (find_row pa_id a (tn_accounts s)) \<and>
      some_and (\<lambda>c. wc_group c = map_option g_name (group_FindByID g s)) (find_row channel_key (w, a) (tn_channels s'))"
    if a: "a \<in> set (map fst us)" for a
  proof
    have "distinct (map pa_id (tn_accounts s))" using inv by (simp add: tenancy_inv_def tenancy_keys_def)
    moreover obtain x where "x \<in> set (tn_accounts s)" "pa_id x = a" "ac_owner x = user" using own a by auto
    ultimately show "some_and (\<lambda>x. ac_owner x = user) (find_row pa_id a (tn_accounts s))"
      using find_row_unique [of pa_id "tn_accounts s" x] by simp
    have "(w, a) \<in> channel_key ` set (?cs s1)" using upserts_keys [of w "map fst us"] a by fastforce
    then have "(w, a) \<in> channel_key ` set (tn_channels s')" by (simp add: s' resync_keys)
    then obtain c where c: "find_row channel_key (w, a) (tn_channels s') = Some c"
      using find_row_None_iff [of channel_key "(w, a)" "tn_channels s'"] by blast
    then have "c \<in> set (tn_channels s')" "wc_workspace c = w" "wc_account c = a"
      by (auto dest!: find_row_SomeD simp: channel_key_def)
    moreover have "channel_group w g a s' = Some (g_name r)"
      using preferred_group [OF inv', of r a] r(2-4) a by (auto simp: t' m1)
    ultimately show "some_and (\<lambda>c. wc_group c = map_option g_name (group_FindByID g s)) (find_row channel_key (w, a) (tn_channels s'))"
      using c r(1) shown [of c] a by auto
  qed
  ultimately show ?thesis by blast
qed

section \<open>Concrete runs\<close>

text \<open>A workspace of user 1 with three groups; account 8 belongs to user 2.\<close>

definition sample_account :: "int \<Rightarrow> int \<Rightarrow> account_row" where
  "sample_account a owner =
     \<lparr>pa_id = a, pa_platform = ''youtube'', pa_user_id = ''UC'', pa_status = ''active'', pa_reauth_required_at = None,
      ac_owner = owner, ac_username = ''name'', ac_language = None\<rparr>"

definition sample_group :: "int \<Rightarrow> string \<Rightarrow> Group" where
  "sample_group i n = \<lparr>g_id = i, g_workspace = 1, g_parent = None, g_name = n\<rparr>"

definition sample_tenancy :: tenancy where
  "sample_tenancy =
     \<lparr>tn_users = [1, 2], tn_workspaces = [\<lparr>w_id = 1, w_name = ''w'', w_owner = 1\<rparr>], tn_wmembers = [], tn_channels = [],
      tn_groups = [sample_group 1 ''a'', sample_group 2 ''b'', sample_group 3 ''c''], tn_members = [(1, 7)],
      tn_accounts = [sample_account 7 1, sample_account 8 2], tn_destinations = [], tn_workspace_seq = 1,
      tn_group_seq = 3\<rparr>"

lemma sample_tenancy_inv: "tenancy_inv sample_tenancy"
  by code_simp

text \<open>The answer of the first update is lost; the deletion takes the group that it hung below with it.\<close>

definition sample_run :: "tenancy list" where
  "sample_run = tn_exec [(DbLost, \<lambda>_. 0, ToGroupUpdate (sample_group 2 ''b''\<lparr>g_parent := Some 1\<rparr>)),
     (DbOk, \<lambda>_. 1, ToGroupDelete 1), (DbOk, \<lambda>_. 9, ToRequest [] 5 1 3 [7, 8])] [sample_tenancy]"

theorem tenancy_isolated_witness:
  "list_all tenancy_inv sample_run \<and> map g_id (tn_groups (hd sample_run)) = [3] \<and>
   tn_members (hd sample_run) = [(3, 7), (3, 8)]"
proof -
  have "map g_id (tn_groups (hd sample_run)) = [3]" "tn_members (hd sample_run) = [(3, 7), (3, 8)]" by code_simp+
  moreover have "list_all tenancy_inv sample_run"
    unfolding list_all_iff sample_run_def using tenancy_isolated [OF sample_tenancy_inv] by blast
  ultimately show ?thesis by blast
qed

theorem group_cycle_unnoticed_witness:
  "\<exists>s1 s2. group_Update DbOk (\<lambda>_. sample_tenancy) (sample_group 2 ''b''\<lparr>g_parent := Some 1\<rparr>) sample_tenancy = Some (Inr (), s1) \<and>
     group_Update DbOk (\<lambda>_. s1) (sample_group 1 ''a''\<lparr>g_parent := Some 2\<rparr>) s1 = Some (Inr (), s2) \<and>
     group_Update DbOk (\<lambda>_. s2) (sample_group 3 ''c''\<lparr>g_parent := Some 1\<rparr>) s2 = None"
  using group_cycle_unnoticed [OF sample_tenancy_inv, of "sample_group 1 ''a''" "sample_group 2 ''b''"]
  by (auto simp: sample_tenancy_def sample_group_def)

theorem group_request_any_account_witness:
  "\<exists>s'. handleSetGroupAccounts DbOk [] 5 1 3 [8] sample_tenancy = (200, s') \<and>
     some_and (\<lambda>r. ac_owner r \<noteq> 1) (find_row pa_id 8 (tn_accounts sample_tenancy)) \<and> attached 1 ''c'' 8 s'"
proof -
  let ?run = "handleSetGroupAccounts DbOk [] 5 1 (g_id (sample_group 3 ''c'')) [8] sample_tenancy"
  obtain code s' where run: "?run = (code, s')" by (cases ?run)
  have ws: "ws_FindByID (g_workspace (sample_group 3 ''c'')) sample_tenancy = Some \<lparr>w_id = 1, w_name = ''w'', w_owner = 1\<rparr>"
    by code_simp
  have "some_and (\<lambda>r. ac_owner r \<noteq> 1) (find_row pa_id 8 (tn_accounts sample_tenancy))" by code_simp
  then show ?thesis
    using group_request_any_account [OF sample_tenancy_inv _ _ ws _ _ run] run
    by (auto simp: sample_tenancy_def sample_group_def sample_account_def)
qed

theorem settings_consistent_witness:
  "\<exists>s' c. UpdateSettings DbOk 5 3 1 1 [(7, ''en'')] sample_tenancy = (Inr (), s') \<and> ListAccountsInGroup 3 s' = [7] \<and>
     find_row channel_key (1, 7) (tn_channels s') = Some c \<and> wc_group c = channel_group 1 3 7 s' \<and> wc_group c = Some ''c''"
proof -
  let ?run = "UpdateSettings DbOk 5 3 1 1 [(7, ''en'')] sample_tenancy"
  have "fst ?run = Inr ()" by code_simp
  then obtain s' where run: "?run = (Inr (), s')" by (cases ?run) simp
  note R = settings_consistent [OF sample_tenancy_inv run]
  have "map_option g_name (group_FindByID 3 sample_tenancy) = Some ''c''" by code_simp
  then obtain c where c: "find_row channel_key (1, 7) (tn_channels s') = Some c" "wc_group c = Some ''c''"
    using R by (auto simp: some_and_def split: option.splits)
  then have "wc_group c = channel_group 1 3 7 s'"
    using R by (auto simp: channel_key_def dest!: find_row_SomeD)
  with R run c show ?thesis by auto
qed

end
