(* ===== verification/TargetsProofs.thy ===== *)
theory TargetsProofs
  imports Targets TenancyProofs
begin

text \<open>
  What an accepted target is, that the three ways to ask about a target agree, and how far the
  accounts of others are reachable.
\<close>

section \<open>Eligibility\<close>

definition eligible :: "account_row \<Rightarrow> bool" where
  "eligible pa \<longleftrightarrow> pa_status pa = ''active'' \<and> pa_reauth_required_at pa = None"

lemma eligibility_None: "snd (checkAccountEligibility pa b) = None \<longleftrightarrow> eligible pa \<and> null_or wc_enabled b"
  by (cases b) (auto simp: checkAccountEligibility_def eligible_def Let_def)

lemma eligibility_ok:
  "eligible pa \<Longrightarrow> null_or wc_enabled b \<Longrightarrow> checkAccountEligibility pa b = (makeResolvedEntry pa b '''', None)"
  by (cases b) (auto simp: checkAccountEligibility_def eligible_def Let_def)

lemma eligibility_bad:
  "checkAccountEligibility pa b = (e, Some (code, msg)) \<Longrightarrow> e = makeResolvedEntry pa b code \<and> code \<noteq> ''''"
  by (auto simp: checkAccountEligibility_def Let_def makeResolvedEntry_def code_defs split: if_splits)

section \<open>What an accepted target is\<close>

text \<open>An entry that may be published to: a channel of the workspace, enabled, with a healthy account.\<close>

definition publishable :: "store_deps \<Rightarrow> int \<Rightarrow> string \<Rightarrow> int \<Rightarrow> ResolvedTargetEntry \<Rightarrow> bool" where
  "publishable sd w platform a e \<longleftrightarrow>
     (\<exists>pa c. sd_account sd a = Inr (Some pa) \<and> sd_channel sd w a = Inr (Some c) \<and> eligible pa \<and>
        pa_platform pa = platform \<and> wc_enabled c \<and> e = makeResolvedEntry pa (Some c) '''')"

lemma channel_accepted:
  assumes "resolveChannelTarget sd rq = Inr r" and "rr_valid r"
  shows "\<exists>a e. resolveAccountIDForChannel sd (rq_workspace rq) (rq_platform rq) (rq_target rq) = Inr a \<and> a \<noteq> 0 \<and>
    rr_targets r = [e] \<and> rr_code r = '''' \<and> publishable sd (rq_workspace rq) (rq_platform rq) a e \<and>
    (tg_channel (rq_target rq) \<noteq> '''' \<longrightarrow> re_channel e = tg_channel (rq_target rq))"
proof -
  obtain a b pa where a: "resolveAccountIDForChannel sd (rq_workspace rq) (rq_platform rq) (rq_target rq) = Inr a" "a \<noteq> 0"
    and b: "sd_channel sd (rq_workspace rq) a = Inr (Some b)" and pa: "sd_account sd a = Inr (Some pa)"
    and p: "pa_platform pa = rq_platform rq"
    and ch: "tg_channel (rq_target rq) \<noteq> '''' \<longrightarrow> pa_user_id pa = tg_channel (rq_target rq)"
    and chk: "snd (checkAccountEligibility pa (Some b)) = None"
    and r: "r = accepted (''instaedit_'' @ rq_platform rq) (rq_platform rq) [fst (checkAccountEligibility pa (Some b))]"
    using assms by (auto simp: resolveChannelTarget_def Let_def rejected_def split: sum.splits option.splits if_splits prod.splits)
  have ok: "eligible pa" "wc_enabled b" using chk by (simp_all add: eligibility_None)
  then have "checkAccountEligibility pa (Some b) = (makeResolvedEntry pa (Some b) '''', None)"
    by (simp add: eligibility_ok)
  then show ?thesis
    using a b pa p ch ok r by (auto simp: accepted_def publishable_def makeResolvedEntry_def)
qed

lemma rejected_code: "resolveChannelTarget sd rq = Inr r \<Longrightarrow> rr_code r = '''' \<longleftrightarrow> rr_valid r"
  by (auto simp: resolveChannelTarget_def Let_def rejected_def accepted_def code_defs
      split: sum.splits option.splits if_splits prod.splits dest!: eligibility_bad)

lemma match_nothing: "tg_channel t = '''' \<Longrightarrow> tg_name t = '''' \<Longrightarrow> match_channel sd p t cs = 0"
  by (induction cs) (auto split: sum.split option.split)

lemma members_accepted:
  assumes "resolve_members sd rq as (es, w) = Inr (es', w')" and "fst w' = ''''"
  shows "fst w = '''' \<and> (\<exists>new. es' = es @ new \<and> list_all2 (publishable sd (rq_workspace rq) (rq_platform rq)) as new)"
  using assms
proof (induction as arbitrary: es w)
  case (Cons a as)
  obtain r where r: "resolveChannelTarget sd (member_request rq a) = Inr r"
    using Cons.prems(1) by (auto split: sum.splits)
  let ?new = "if rr_targets r = [] \<and> \<not> rr_valid r then stub_entry sd a (rr_code r) else rr_targets r"
  have "resolve_members sd rq as (es @ ?new, severest w r) = Inr (es', w')" using Cons.prems(1) r by (simp add: Let_def)
  then have ih: "fst (severest w r) = ''''"
    "\<exists>new. es' = (es @ ?new) @ new \<and> list_all2 (publishable sd (rq_workspace rq) (rq_platform rq)) as new"
    using Cons.IH Cons.prems(2) by blast+
  then have ok: "rr_code r = ''''" "fst w = ''''" by (auto simp: severest_def code_defs split: if_splits)
  then have "rr_valid r" using rejected_code [OF r] by simp
  from channel_accepted [OF r this] obtain e where "rr_targets r = [e]" "publishable sd (rq_workspace rq) (rq_platform rq) a e"
    by (auto simp: member_request_def resolveAccountIDForChannel_def match_nothing split: if_splits sum.splits)
  with ih(2) ok \<open>rr_valid r\<close> show ?case by auto
qed auto

text \<open>
  C19: a direct request is answered with a valid target only for an existing workspace, and every
  entry of the answer is an enabled channel of that workspace on the platform asked for, with an
  account that exists, is active and needs no new authorisation; for a channel the one that was
  named, for a group all its members, in order: one member that fails, fails the group.
\<close>

theorem direct_target_sound:
  assumes "target_Resolve sd rq = Inr r" and "rq_dest rq = ''''" and "rr_valid r"
  shows "rr_code r = '''' \<and> (\<exists>ws. sd_workspace sd (rq_workspace rq) = Inr (Some ws)) \<and>
    (tg_type (rq_target rq) = ''channel'' \<longrightarrow>
      (\<exists>a e. rr_targets r = [e] \<and> publishable sd (rq_workspace rq) (rq_platform rq) a e \<and>
        (tg_account (rq_target rq) \<noteq> 0 \<longrightarrow> a = tg_account (rq_target rq)) \<and>
        (tg_channel (rq_target rq) \<noteq> '''' \<longrightarrow> re_channel e = tg_channel (rq_target rq)))) \<and>
    (tg_type (rq_target rq) = ''group'' \<longrightarrow>
      (\<exists>g as. sd_group sd (tg_group (rq_target rq)) = Inr (Some g) \<and> g_workspace g = rq_workspace rq \<and>
        sd_members sd (tg_group (rq_target rq)) = Inr as \<and> as \<noteq> [] \<and>
        list_all2 (publishable sd (rq_workspace rq) (rq_platform rq)) as (rr_targets r)))"
proof -
  obtain ws where ws: "sd_workspace sd (rq_workspace rq) = Inr (Some ws)"
    and dir: "if tg_type (rq_target rq) = ''channel'' then resolveChannelTarget sd rq = Inr r
       else tg_type (rq_target rq) = ''group'' \<and> resolveGroupTarget sd rq = Inr r"
    using assms by (auto simp: target_Resolve_def resolveDirectTarget_def rejected_def split: if_splits sum.splits option.splits)
  show ?thesis
  proof (cases "tg_type (rq_target rq) = ''channel''")
    case True
    then have run: "resolveChannelTarget sd rq = Inr r" using dir by simp
    from channel_accepted [OF this assms(3)] True ws show ?thesis
      by (auto simp: resolveAccountIDForChannel_def split: if_splits)
  next
    case False
    then have grp: "tg_type (rq_target rq) = ''group''" "resolveGroupTarget sd rq = Inr r" using dir by simp_all
    obtain g a as es w where g: "sd_group sd (tg_group (rq_target rq)) = Inr (Some g)" "g_workspace g = rq_workspace rq"
        "sd_members sd (tg_group (rq_target rq)) = Inr (a # as)"
      and run: "resolve_members sd rq (a # as) ([], ('''', '''')) = Inr (es, w)" "fst w = ''''"
      and r: "r = accepted (''instaedit_'' @ rq_platform rq) (rq_platform rq) es"
      using grp(2) assms(3)
      by (auto simp: resolveGroupTarget_def Let_def rejected_def simp del: resolve_members.simps
          split: sum.splits option.splits if_splits list.splits prod.splits)
    have "list_all2 (publishable sd (rq_workspace rq) (rq_platform rq)) (a # as) es"
      using members_accepted [OF run] by auto
    with ws g r grp(1) show ?thesis by (auto simp: accepted_def)
  qed
qed

section \<open>The three questions agree\<close>

definition account_request :: "int \<Rightarrow> string \<Rightarrow> int \<Rightarrow> ResolveRequest" where
  "account_request w platform a =
     \<lparr>rq_dest = '''', rq_workspace = w, rq_platform = platform,
      rq_target = \<lparr>tg_type = ''channel'', tg_account = a, tg_channel = '''', tg_name = '''', tg_group = 0\<rparr>\<rparr>"

definition saved_request :: "string \<Rightarrow> ResolveRequest" where
  "saved_request d = (account_request 0 '''' 0)\<lparr>rq_dest := d\<rparr>"

definition target_of :: "CatalogTargetEntry \<Rightarrow> ResolvedTargetEntry" where
  "target_of e = ResolvedTargetEntry.truncate e"

lemma target_of_with [simp]: "target_of (with_destination e d) = e" "ce_destination (with_destination e d) = d"
  by (simp_all add: target_of_def with_destination_def ResolvedTargetEntry.truncate_def ResolvedTargetEntry.extend_def
      CatalogTargetEntry.fields_def)

lemma catalog_entry:
  assumes "catalog_entries sd platform dest cs = Inr es" and "e \<in> set es"
  shows "\<exists>c \<in> set cs. \<exists>found. sd_account sd (wc_account c) = Inr found \<and>
    (case found of
       None \<Rightarrow> re_code (target_of e) = ErrCodeTargetNotAvailable \<and> re_account (target_of e) = wc_account c
     | Some pa \<Rightarrow> pa_platform pa = platform \<and> ce_destination e = dest (pa_id pa) \<and>
         (if eligible pa \<and> wc_enabled c \<and> dest (pa_id pa) \<noteq> ''''
          then target_of e = makeResolvedEntry pa (Some c) ''''
          else re_code (target_of e) \<noteq> '''' \<and> re_account (target_of e) = pa_id pa))"
  using assms
proof (induction cs arbitrary: es)
  case (Cons c cs)
  obtain found rest where found: "sd_account sd (wc_account c) = Inr found" and rest: "catalog_entries sd platform dest cs = Inr rest"
    using Cons.prems(1) by (auto split: sum.splits)
  show ?case
  proof (cases "e \<in> set rest")
    case True
    from Cons.IH [OF rest True] show ?thesis by (simp only: list.set bex_simps) blast
  next
    case False
    have head: "case found of
       None \<Rightarrow> re_code (target_of e) = ErrCodeTargetNotAvailable \<and> re_account (target_of e) = wc_account c
     | Some pa \<Rightarrow> pa_platform pa = platform \<and> ce_destination e = dest (pa_id pa) \<and>
         (if eligible pa \<and> wc_enabled c \<and> dest (pa_id pa) \<noteq> ''''
          then target_of e = makeResolvedEntry pa (Some c) ''''
          else re_code (target_of e) \<noteq> '''' \<and> re_account (target_of e) = pa_id pa)"
    proof (cases found)
      case None
      then have "e \<in> set es" "es = with_destination \<lparr>re_account = wc_account c, re_platform = platform, re_channel = '''', re_name = '''',
           re_status = ''missing'', re_enabled = wc_enabled c, re_code = ErrCodeTargetNotAvailable\<rparr> '''' # rest"
        using Cons.prems found rest by simp_all
      with False None show ?thesis by auto
    next
      case (Some pa)
      have p: "pa_platform pa = platform" using Cons.prems found rest Some False by (auto split: if_splits)
      show ?thesis
      proof (cases "snd (checkAccountEligibility pa (Some c))")
        case None
        then have ok: "eligible pa" "wc_enabled c" by (simp_all add: eligibility_None)
        then have "checkAccountEligibility pa (Some c) = (makeResolvedEntry pa (Some c) '''', None)"
          by (simp add: eligibility_ok)
        then show ?thesis using Cons.prems found rest Some p False ok
          by (auto simp: Let_def makeResolvedEntry_def code_defs)
      next
        case (Some bad)
        then obtain code msg where bad: "checkAccountEligibility pa (Some c) = (makeResolvedEntry pa (Some c) code, Some (code, msg))"
            "code \<noteq> ''''"
          by (cases "checkAccountEligibility pa (Some c)"; cases bad) (auto dest: eligibility_bad)
        moreover have "\<not> (eligible pa \<and> wc_enabled c)" using eligibility_None [of pa "Some c"] Some by auto
        ultimately show ?thesis using Cons.prems found rest \<open>found = Some pa\<close> p False
          by (auto simp: makeResolvedEntry_def)
      qed
    qed
    with found show ?thesis by (intro bexI [of _ c]) auto
  qed
qed simp

lemma stores_simps [simp]:
  "sd_dest_wired (stores_of s)" "sd_ws_wired (stores_of s)" "sd_user_wired (stores_of s)" "sd_catalog (stores_of s)"
  "sd_workspace (stores_of s) w = Inr (ws_FindByID w s)" "sd_account (stores_of s) a = Inr (FindPlatformAccountByID a s)"
  "sd_channel (stores_of s) w a = forget_err (FindChannel w a s)" "sd_dest (stores_of s) d = forget_err (dest_GetByID d s)"
  "sd_channels (stores_of s) w = forget_err (ListChannels w s)"
  "sd_dests (stores_of s) w = forget_err (dest_ListByWorkspace w True s)"
  by (simp_all add: stores_of_def)

lemma direct_account:
  assumes "0 < w" and "platform \<noteq> ''''" and "a \<noteq> 0" and "ws_FindByID w s \<noteq> None"
  shows "target_Resolve (stores_of s) (account_request w platform a) =
    resolveChannelTarget (stores_of s) (account_request w platform a)"
  using assms by (auto simp: target_Resolve_def account_request_def resolveDirectTarget_def)

lemma channel_account:
  assumes "0 < w" "0 < a" and "find_row channel_key (w, a) (tn_channels s) = Some c"
    and "FindPlatformAccountByID a s = Some pa" and "pa_platform pa = platform"
  shows "resolveChannelTarget (stores_of s) (account_request w platform a) =
    (case checkAccountEligibility pa (Some c) of
       (entry, Some (code, msg)) \<Rightarrow> Inr (rejected code msg [entry])
     | (entry, None) \<Rightarrow> Inr (accepted (''instaedit_'' @ platform) platform [entry]))"
  using assms
  by (simp add: resolveChannelTarget_def account_request_def resolveAccountIDForChannel_def FindChannel_def forget_err_def
      split: prod.split option.split)

lemma listed_channel:
  assumes "tenancy_inv s" and "c \<in> set (tn_channels s)"
  shows "find_row channel_key (wc_workspace c, wc_account c) (tn_channels s) = Some c"
  using find_row_unique [of channel_key "tn_channels s" c] assms
  by (simp add: tenancy_inv_def tenancy_keys_def channel_key_def)

lemma found_account: "FindPlatformAccountByID a s = Some pa \<Longrightarrow> pa_id pa = a"
  by (auto simp: FindPlatformAccountByID_def dest: find_row_SomeD)

lemma catalog_destination_SomeD:
  assumes "catalog_destination ds a \<noteq> ''''"
  shows "\<exists>d \<in> set ds. xd_id d = catalog_destination ds a \<and> xd_account d = a \<and> xd_enabled d"
  using assms by (auto simp: catalog_destination_def split: option.splits dest!: find_row_SomeD)

lemma saved_accepted:
  assumes "tenancy_inv s" and "d \<in> set (tn_destinations s)" "xd_enabled d" "xd_id d \<noteq> ''''"
    and "ws_FindByID (xd_workspace d) s \<noteq> None" and "FindPlatformAccountByID (xd_account d) s = Some pa"
  shows "target_Resolve (stores_of s) (saved_request (xd_id d)) =
    (case checkAccountEligibility pa (saved_binding (stores_of s) d pa) of
       (entry, Some (code, msg)) \<Rightarrow> Inr ((rejected code msg [entry])\<lparr>rr_diagnostic := Some (pa_status pa, pa_platform pa)\<rparr>)
     | (entry, None) \<Rightarrow>
         Inr ((accepted (xd_id d) (pa_platform pa) [entry])\<lparr>rr_diagnostic := Some (pa_status pa, pa_platform pa)\<rparr>))"
proof -
  have "find_row xd_id (xd_id d) (tn_destinations s) = Some d"
    using find_row_unique [of xd_id "tn_destinations s" d] assms(1,2) by (simp add: tenancy_inv_def tenancy_keys_def)
  then show ?thesis using assms
    by (auto simp: target_Resolve_def saved_request_def account_request_def resolveSavedDestination_def Let_def
        dest_GetByID_def forget_err_def split: prod.split option.split)
qed

text \<open>
  C18: the catalog, the direct request and the saved destination agree. An entry of the catalog has
  no error code exactly when it has a destination and the direct request for its account is
  accepted, and then both that request and the saved destination are answered with this very
  entry. (A Google Drive account is left out: its saved destination is shown as not enabled.)
\<close>

theorem targets_agree:
  assumes inv: "tenancy_inv s" and list: "ListWorkspaceTargets (stores_of s) w platform = Inr es" "e \<in> set es"
    and pos: "0 < re_account (target_of e)" and soc: "platform \<noteq> ''google-drive''"
  shows "(re_code (target_of e) = '''' \<longleftrightarrow> ce_destination e \<noteq> '''' \<and>
      (\<exists>r. target_Resolve (stores_of s) (account_request w platform (re_account (target_of e))) = Inr r \<and> rr_valid r)) \<and>
    (re_code (target_of e) = '''' \<longrightarrow>
      (\<exists>r. target_Resolve (stores_of s) (account_request w platform (re_account (target_of e))) = Inr r \<and>
         rr_targets r = [target_of e]) \<and>
      (\<exists>r. target_Resolve (stores_of s) (saved_request (ce_destination e)) = Inr r \<and> rr_valid r \<and>
         rr_destination r = ce_destination e \<and> rr_targets r = [target_of e]))"
proof -
  define cs where "cs = sort_key (\<lambda>c. - wc_created_at c) (filter (\<lambda>c. wc_workspace c = w) (tn_channels s))"
  define ds where "ds = sort_key (\<lambda>d. - xd_created_at d) (filter (\<lambda>d. xd_workspace d = w \<and> xd_enabled d) (tn_destinations s))"
  have w: "0 < w" "platform \<noteq> ''''" and ws: "ws_FindByID w s \<noteq> None"
    using list by (auto simp: ListWorkspaceTargets_def split: if_splits option.splits)
  then obtain es' where es': "catalog_entries (stores_of s) platform (catalog_destination ds) cs = Inr es'" "e \<in> set es'"
    using list
    by (auto simp: ListWorkspaceTargets_def ListChannels_def dest_ListByWorkspace_def forget_err_def cs_def ds_def
        split: if_splits option.splits sum.splits)
  obtain c found where c: "c \<in> set cs" "sd_account (stores_of s) (wc_account c) = Inr found"
    and ent: "case found of
       None \<Rightarrow> re_code (target_of e) = ErrCodeTargetNotAvailable \<and> re_account (target_of e) = wc_account c
     | Some pa \<Rightarrow> pa_platform pa = platform \<and> ce_destination e = catalog_destination ds (pa_id pa) \<and>
         (if eligible pa \<and> wc_enabled c \<and> catalog_destination ds (pa_id pa) \<noteq> ''''
          then target_of e = makeResolvedEntry pa (Some c) ''''
          else re_code (target_of e) \<noteq> '''' \<and> re_account (target_of e) = pa_id pa)"
    using catalog_entry [OF es'] by blast
  have row: "c \<in> set (tn_channels s)" "wc_workspace c = w" using c(1) by (auto simp: cs_def)
  then have "wc_account c \<in> pa_id ` set (tn_accounts s)" using inv by (auto simp: tenancy_inv_def tenancy_refs_def)
  then obtain pa where pa: "FindPlatformAccountByID (wc_account c) s = Some pa"
    using find_row_None_iff [of pa_id "wc_account c" "tn_accounts s"] by (auto simp: FindPlatformAccountByID_def)
  then have id: "pa_id pa = wc_account c" by (rule found_account)
  have p: "pa_platform pa = platform" and dest: "ce_destination e = catalog_destination ds (wc_account c)"
    and both: "if eligible pa \<and> wc_enabled c \<and> ce_destination e \<noteq> ''''
          then target_of e = makeResolvedEntry pa (Some c) ''''
          else re_code (target_of e) \<noteq> '''' \<and> re_account (target_of e) = wc_account c"
    using ent c(2) pa id by auto
  have acc: "re_account (target_of e) = wc_account c"
    using both id by (auto simp: makeResolvedEntry_def split: if_splits)
  have a: "0 < wc_account c" using pos acc by simp
  have chan: "find_row channel_key (w, wc_account c) (tn_channels s) = Some c" using listed_channel [OF inv row(1)] row(2) by simp
  have dir: "target_Resolve (stores_of s) (account_request w platform (wc_account c)) =
    (case checkAccountEligibility pa (Some c) of
       (entry, Some (code, msg)) \<Rightarrow> Inr (rejected code msg [entry])
     | (entry, None) \<Rightarrow> Inr (accepted (''instaedit_'' @ platform) platform [entry]))"
    unfolding channel_account [OF w(1) a chan pa p, symmetric] by (rule direct_account [OF w _ ws]) (use a in simp)
  show ?thesis
  proof (cases "eligible pa \<and> wc_enabled c")
    case True
    then have chk: "checkAccountEligibility pa (Some c) = (makeResolvedEntry pa (Some c) '''', None)"
      by (simp add: eligibility_ok)
    have saved: "\<exists>r. target_Resolve (stores_of s) (saved_request (ce_destination e)) = Inr r \<and> rr_valid r \<and>
        rr_destination r = ce_destination e \<and> rr_targets r = [makeResolvedEntry pa (Some c) '''']" if d: "ce_destination e \<noteq> ''''"
    proof -
      obtain x where x: "x \<in> set ds" "xd_id x = ce_destination e" "xd_account x = wc_account c" "xd_enabled x"
        using catalog_destination_SomeD [of ds "wc_account c"] d dest by auto
      then have "x \<in> set (tn_destinations s)" "xd_workspace x = w" by (auto simp: ds_def)
      moreover have "saved_binding (stores_of s) x pa = Some c"
        using p soc x calculation(2) w a chan by (simp add: saved_binding_def FindChannel_def forget_err_def)
      ultimately show ?thesis
        using saved_accepted [OF inv, of x pa] x d ws pa chk by (simp add: accepted_def)
    qed
    have ok: "target_Resolve (stores_of s) (account_request w platform (re_account (target_of e))) =
        Inr (accepted (''instaedit_'' @ platform) platform [makeResolvedEntry pa (Some c) ''''])"
      using dir chk acc by simp
    show ?thesis
    proof (cases "ce_destination e = ''''")
      case False
      then have e: "target_of e = makeResolvedEntry pa (Some c) ''''" using both True by simp
      then have "re_code (target_of e) = ''''" by (simp add: makeResolvedEntry_def)
      with False ok saved show ?thesis unfolding e by (simp add: accepted_def)
    qed (use both in simp)
  next
    case False
    then have "snd (checkAccountEligibility pa (Some c)) \<noteq> None" by (simp add: eligibility_None)
    then have "\<not> (\<exists>r. target_Resolve (stores_of s) (account_request w platform (wc_account c)) = Inr r \<and> rr_valid r)"
      using dir by (auto simp: rejected_def split: prod.splits)
    with both False acc show ?thesis by auto
  qed
qed

section \<open>Accounts that should be out of reach\<close>

text \<open>
  A saved destination is accepted although its account is not bound to its workspace; the direct
  request for the same account is refused.
\<close>

theorem saved_needs_no_binding:
  assumes inv: "tenancy_inv s" and d: "d \<in> set (tn_destinations s)" "xd_enabled d" "xd_id d \<noteq> ''''"
    and pa: "FindPlatformAccountByID (xd_account d) s = Some pa" "eligible pa"
    and none: "find_row channel_key (xd_workspace d, xd_account d) (tn_channels s) = None"
    and pos: "0 < xd_workspace d" "0 < xd_account d" "pa_platform pa \<noteq> ''''"
  shows "(\<exists>r. target_Resolve (stores_of s) (saved_request (xd_id d)) = Inr r \<and> rr_valid r \<and>
      map re_enabled (rr_targets r) = [False]) \<and>
    (\<exists>r. target_Resolve (stores_of s) (account_request (xd_workspace d) (pa_platform pa) (xd_account d)) = Inr r \<and> \<not> rr_valid r)"
proof
  have "xd_workspace d \<in> w_id ` set (tn_workspaces s)" using inv d(1) by (auto simp: tenancy_inv_def tenancy_refs_def)
  then have ws: "ws_FindByID (xd_workspace d) s \<noteq> None"
    using find_row_None_iff [of w_id "xd_workspace d" "tn_workspaces s"] by (simp add: ws_FindByID_def)
  have "saved_binding (stores_of s) d pa = None"
    using none pos by (simp add: saved_binding_def FindChannel_def forget_err_def)
  then show "\<exists>r. target_Resolve (stores_of s) (saved_request (xd_id d)) = Inr r \<and> rr_valid r \<and> map re_enabled (rr_targets r) = [False]"
    using saved_accepted [OF inv d ws pa(1)] eligibility_ok [of pa None] pa(2) by (simp add: accepted_def makeResolvedEntry_def)
  show "\<exists>r. target_Resolve (stores_of s) (account_request (xd_workspace d) (pa_platform pa) (xd_account d)) = Inr r \<and> \<not> rr_valid r"
    using direct_account [OF pos(1,3) _ ws, of "xd_account d"] pos none
    by (simp add: resolveChannelTarget_def account_request_def resolveAccountIDForChannel_def FindChannel_def forget_err_def rejected_def)
qed

text \<open>
  C17: whoever owns a workspace with a group can publish to any healthy account of the service: one
  request that sets it as the account of the group is answered with 200, whoever owns the account,
  and then the resolver accepts the account as a target of that workspace.
\<close>

theorem foreign_account_reachable:
  assumes inv: "tenancy_inv s" and g: "r \<in> set (tn_groups s)" "0 < g_workspace r"
    and ws: "ws_FindByID (g_workspace r) s = Some ws" "w_owner ws = caller"
    and pa: "FindPlatformAccountByID a s = Some pa" "eligible pa" "pa_platform pa \<noteq> ''''" "0 < a"
    and chan: "null_or wc_enabled (find_row channel_key (g_workspace r, a) (tn_channels s))"
    and run: "handleSetGroupAccounts DbOk [] now caller (g_id r) [a] s = (code, s')"
  shows "code = 200 \<and>
    (\<exists>res. target_Resolve (stores_of s') (account_request (g_workspace r) (pa_platform pa) a) = Inr res \<and> rr_valid res)"
proof -
  let ?w = "g_workspace r"
  obtain row where row: "find_row pa_id a (tn_accounts s) = Some row"
    using pa(1) by (auto simp: FindPlatformAccountByID_def)
  have "distinct (map pa_id (tn_accounts s))" "distinct (map g_id (tn_groups s))"
    using inv by (simp_all add: tenancy_inv_def tenancy_keys_def)
  then have one: "filter (\<lambda>x. pa_id x = a) (tn_accounts s) = [row]" "pa_id row = a"
    and fr: "group_FindByID (g_id r) s = Some r"
    using filter_key [of pa_id "tn_accounts s" a] row find_row_unique [of g_id "tn_groups s" r] g(1)
    by (auto simp: group_FindByID_def dest: find_row_SomeD)
  have v: "ValidateAccountOwnership caller ?w [a] s = [a]" using ws one by (simp add: ValidateAccountOwnership_def)
  let ?s0 = "s\<lparr>tn_members := filter (\<lambda>m. fst m \<noteq> g_id r) (tn_members s)\<rparr>"
  let ?s1 = "?s0\<lparr>tn_members := tn_members ?s0 @ [(g_id r, a)]\<rparr>"
  let ?cs = "upsert_channel now ?w a (nullif_empty (g_name r)) (tn_channels s)"
  have set_ok: "SetAccounts DbOk (g_id r) [a] s = (Inr (), ?s1)"
    using insert_members_spec [of "[a]" ?s0 "g_id r"] pa(4) row fr
    by (simp add: SetAccounts_def tn_run_def account_known_def group_FindByID_def)
  have "AttachChannel DbOk now ?w a (g_name r) ?s1 = (Inr (), ?s1\<lparr>tn_channels := ?cs\<rparr>)"
    using g(2) pa(4) ws(1) row by (simp add: AttachChannel_def tn_run_def account_known_def ws_FindByID_def)
  then have "handleSetGroupAccounts DbOk [] now caller (g_id r) [a] s = (200, ?s1\<lparr>tn_channels := ?cs\<rparr>)"
    using fr ws v set_ok by (simp add: handleSetGroupAccounts_def Let_def)
  then have out: "code = 200" "s' = ?s1\<lparr>tn_channels := ?cs\<rparr>" using run by simp_all
  obtain c where c: "find_row channel_key (?w, a) (tn_channels s') = Some c" "wc_enabled c"
    using chan by (cases "find_row channel_key (?w, a) (tn_channels s)") (auto simp: out upsert_finds)
  have "FindPlatformAccountByID a s' = Some pa" "ws_FindByID ?w s' \<noteq> None"
    using pa(1) ws(1) by (simp_all add: out FindPlatformAccountByID_def ws_FindByID_def)
  then have "target_Resolve (stores_of s') (account_request ?w (pa_platform pa) a) =
      Inr (accepted (''instaedit_'' @ pa_platform pa) (pa_platform pa) [makeResolvedEntry pa (Some c) ''''])"
    using direct_account [OF g(2) pa(3), of a s'] channel_account [OF g(2) pa(4) c(1)] pa(2,4) eligibility_ok [of pa "Some c"] c(2)
    by simp
  with out(1) show ?thesis by (simp add: accepted_def)
qed

section \<open>Concrete requests\<close>

definition bound_tenancy :: tenancy where
  "bound_tenancy = snd (dest_Create DbOk 5 (\<lambda>_. True)
     \<lparr>xd_id = ''extdst_1'', xd_source = ''velox'', xd_workspace = 1, xd_account = 7, xd_enabled = True, xd_metadata = '''',
      xd_created_at = 0\<rparr> (snd (AttachChannel DbOk 4 1 7 ''a'' sample_tenancy)))"

lemma bound_tenancy_inv: "tenancy_inv bound_tenancy"
  by code_simp

theorem direct_target_sound_witness:
  "\<exists>r e. target_Resolve (stores_of bound_tenancy) (account_request 1 ''youtube'' 7) = Inr r \<and> rr_targets r = [e] \<and>
     publishable (stores_of bound_tenancy) 1 ''youtube'' 7 e"
proof -
  let ?run = "target_Resolve (stores_of bound_tenancy) (account_request 1 ''youtube'' 7)"
  have "case ?run of Inl _ \<Rightarrow> False | Inr r \<Rightarrow> rr_valid r" by code_simp
  then obtain r where run: "?run = Inr r" "rr_valid r" by (auto split: sum.splits)
  from direct_target_sound [OF run(1) _ run(2)] run(1) show ?thesis by (simp add: account_request_def)
qed

theorem targets_agree_witness:
  "\<exists>e r. ListWorkspaceTargets (stores_of bound_tenancy) 1 ''youtube'' = Inr [e] \<and> ce_destination e = ''extdst_1'' \<and>
     target_Resolve (stores_of bound_tenancy) (saved_request ''extdst_1'') = Inr r \<and> rr_targets r = [target_of e]"
proof -
  let ?run = "ListWorkspaceTargets (stores_of bound_tenancy) 1 ''youtube''"
  have "case ?run of Inl _ \<Rightarrow> False
      | Inr es \<Rightarrow> length es = 1 \<and> ce_destination (hd es) = ''extdst_1'' \<and> re_code (target_of (hd es)) = '''' \<and>
          0 < re_account (target_of (hd es))"
    by code_simp
  then obtain e where run: "?run = Inr [e]" "ce_destination e = ''extdst_1''" "re_code (target_of e) = ''''"
      "0 < re_account (target_of e)"
    by (auto simp: length_Suc_conv split: sum.splits)
  from targets_agree [OF bound_tenancy_inv run(1) _ run(4)] run show ?thesis by auto
qed

theorem saved_needs_no_binding_witness:
  "\<exists>r. target_Resolve (stores_of (snd (DetachChannel DbOk False 1 7 bound_tenancy))) (saved_request ''extdst_1'') = Inr r \<and> rr_valid r"
proof -
  let ?s = "snd (DetachChannel DbOk False 1 7 bound_tenancy)" let ?d = "hd (tn_destinations ?s)"
  have inv: "tenancy_inv ?s" by (rule good_inv) (rule DetachChannel_good [OF bound_tenancy_inv])
  have d: "?d \<in> set (tn_destinations ?s)" "xd_enabled ?d" "xd_id ?d \<noteq> ''''" by code_simp+
  have "case FindPlatformAccountByID (xd_account ?d) ?s of None \<Rightarrow> False | Some pa \<Rightarrow> eligible pa \<and> pa_platform pa \<noteq> ''''"
    by code_simp
  then obtain pa where pa: "FindPlatformAccountByID (xd_account ?d) ?s = Some pa" "eligible pa" "pa_platform pa \<noteq> ''''"
    by (auto split: option.splits)
  have rest: "find_row channel_key (xd_workspace ?d, xd_account ?d) (tn_channels ?s) = None" "0 < xd_workspace ?d" "0 < xd_account ?d"
    "xd_id ?d = ''extdst_1''" by code_simp+
  show ?thesis using saved_needs_no_binding [OF inv d pa(1,2) rest(1-3) pa(3)] unfolding rest(4) by blast
qed

theorem foreign_account_reachable_witness:
  "some_and (\<lambda>x. ac_owner x = 2) (find_row pa_id 8 (tn_accounts sample_tenancy)) \<and>
   (\<exists>s' res. handleSetGroupAccounts DbOk [] 5 1 3 [8] sample_tenancy = (200, s') \<and>
      target_Resolve (stores_of s') (account_request 1 ''youtube'' 8) = Inr res \<and> rr_valid res)"
proof -
  let ?r = "sample_group 3 ''c''"
  obtain code s' where run: "handleSetGroupAccounts DbOk [] 5 1 (g_id ?r) [8] sample_tenancy = (code, s')"
    by (cases "handleSetGroupAccounts DbOk [] 5 1 (g_id ?r) [8] sample_tenancy")
  have ws: "ws_FindByID (g_workspace ?r) sample_tenancy = Some \<lparr>w_id = 1, w_name = ''w'', w_owner = 1\<rparr>" by code_simp
  have "case FindPlatformAccountByID 8 sample_tenancy of None \<Rightarrow> False | Some pa \<Rightarrow> eligible pa \<and> pa_platform pa = ''youtube''"
    by code_simp
  then obtain pa where pa: "FindPlatformAccountByID 8 sample_tenancy = Some pa" "eligible pa" "pa_platform pa = ''youtube''"
    by (auto split: option.splits)
  have "null_or wc_enabled (find_row channel_key (g_workspace ?r, 8) (tn_channels sample_tenancy))" by code_simp
  then have "code = 200 \<and> (\<exists>res. target_Resolve (stores_of s') (account_request (g_workspace ?r) (pa_platform pa) 8) = Inr res \<and> rr_valid res)"
    using foreign_account_reachable [OF sample_tenancy_inv _ _ ws _ pa(1,2) _ _ _ run] pa(3)
    by (simp add: sample_tenancy_def sample_group_def)
  moreover have "some_and (\<lambda>x. ac_owner x = 2) (find_row pa_id 8 (tn_accounts sample_tenancy))" by code_simp
  ultimately show ?thesis using run pa(3) by (simp add: sample_group_def)
qed

end
